(* ===== verification/Prelude.thy ===== *)
theory Prelude
  imports Complex_Main
begin

text \<open>
  Shared vocabulary of the development: the result type of the platform's error
  classes (packages/platform/src/errors.ts), the sequencing of fallible steps,
  the three statement shapes the services issue against a table (SELECT, UPDATE
  and INSERT on a list of rows) and the lemmas about them that every component uses.
  Rows are kept in insertion order, which is what the code's
  \<open>ORDER BY created_at\<close> relies on.
\<close>

named_theorems tenant_simps \<open>how table statements interact with a tenant filter\<close>
named_theorems step_defs \<open>the operations a request may run, unfolded together\<close>

section \<open>Errors as values\<close>

text \<open>
  The deliberate errors of errors.ts, each with its stable \<open>code\<close>; the human
  message and the details record are not part of the model. \<open>DatabaseError\<close> stands for
  a statement Postgres itself refuses (a CHECK or a unique index), which surfaces as a 500.
\<close>

datatype app_error =
    ValidationError string
  | UnauthorizedError string
  | ForbiddenError string
  | NotFoundError string
  | ConflictError string
  | UnprocessableError string
  | ServiceUnavailableError string
  | DatabaseError string

type_synonym 'a result = "app_error + 'a"

fun statusCode :: "app_error \<Rightarrow> nat" where
  "statusCode (ValidationError _) = 400"
| "statusCode (UnauthorizedError _) = 401"
| "statusCode (ForbiddenError _) = 403"
| "statusCode (NotFoundError _) = 404"
| "statusCode (ConflictError _) = 409"
| "statusCode (UnprocessableError _) = 422"
| "statusCode (ServiceUnavailableError _) = 503"
| "statusCode (DatabaseError _) = 500"

definition bindR :: "'e + 'a \<Rightarrow> ('a \<Rightarrow> 'e + 'b) \<Rightarrow> 'e + 'b" where
  "bindR m f = (case m of Inl e \<Rightarrow> Inl e | Inr x \<Rightarrow> f x)"

definition ensure :: "bool \<Rightarrow> 'e \<Rightarrow> 'e + unit" where
  "ensure c e = (if c then Inr () else Inl e)"

lemma bindR_Inl [simp]: "bindR (Inl e) f = Inl e"
  by (simp add: bindR_def)

lemma bindR_Inr [simp]: "bindR (Inr x) f = f x"
  by (simp add: bindR_def)

lemma bindR_eq_Inr [simp]: "bindR m f = Inr y \<longleftrightarrow> (\<exists>x. m = Inr x \<and> f x = Inr y)"
  by (cases m) simp_all

lemma bindR_eq_Inl: "bindR m f = Inl e \<longleftrightarrow> m = Inl e \<or> (\<exists>x. m = Inr x \<and> f x = Inl e)"
  by (cases m) simp_all

lemma bindR_assoc: "bindR (bindR m f) g = bindR m (\<lambda>x. bindR (f x) g)"
  by (cases m) simp_all

lemma bindR_cong [fundef_cong]:
  "m = m' \<Longrightarrow> (\<And>x. m' = Inr x \<Longrightarrow> f x = f' x) \<Longrightarrow> bindR m f = bindR m' f'"
  by (cases m') simp_all

lemma ensure_eq_Inr [simp]: "ensure c e = Inr u \<longleftrightarrow> c"
  by (simp add: ensure_def)

lemma ensure_eq_Inl [simp]: "ensure c e = Inl e' \<longleftrightarrow> \<not> c \<and> e' = e"
  by (auto simp: ensure_def)

lemma ensure_True [simp]: "ensure True e = Inr ()"
  by (simp add: ensure_def)

lemma ensure_False [simp]: "ensure False e = Inl e"
  by (simp add: ensure_def)

section \<open>Tables as lists of rows\<close>

definition update_where :: "('r \<Rightarrow> bool) \<Rightarrow> ('r \<Rightarrow> 'r) \<Rightarrow> 'r list \<Rightarrow> 'r list" where
  "update_where P f xs = map (\<lambda>r. if P r then f r else r) xs"

lemma update_where_Nil [simp]: "update_where P f [] = []"
  by (simp add: update_where_def)

lemma update_where_Cons [simp]:
  "update_where P f (x # xs) = (if P x then f x else x) # update_where P f xs"
  by (simp add: update_where_def)

lemma update_where_append [simp]:
  "update_where P f (xs @ ys) = update_where P f xs @ update_where P f ys"
  by (simp add: update_where_def)

lemma length_update_where [simp]: "length (update_where P f xs) = length xs"
  by (simp add: update_where_def)

lemma update_where_one:
  "(\<And>r. r \<in> set xs \<Longrightarrow> P r \<longleftrightarrow> r = row) \<Longrightarrow> update_where P f xs = map (\<lambda>r. if r = row then f row else r) xs"
  by (auto simp: update_where_def)

lemma set_update_where:
  "set (update_where P f xs) = {r \<in> set xs. \<not> P r} \<union> f ` {r \<in> set xs. P r}"
  by (auto simp: update_where_def)

lemma in_update_where: "r \<in> set (update_where P f xs) \<longleftrightarrow>
    (\<exists>q \<in> set xs. (P q \<and> r = f q) \<or> (\<not> P q \<and> r = q))"
  by (auto simp: update_where_def)

lemma update_where_none: "\<forall>r \<in> set xs. \<not> P r \<Longrightarrow> update_where P f xs = xs"
  by (induction xs) auto

lemma map_update_where:
  "(\<And>r. P r \<Longrightarrow> k (f r) = k r) \<Longrightarrow> map k (update_where P f xs) = map k xs"
  by (induction xs) auto

lemma find_None_notin: "find P xs = None \<longleftrightarrow> (\<forall>x \<in> set xs. \<not> P x)"
  by (induction xs) auto

lemma find_SomeD: "find P xs = Some x \<Longrightarrow> x \<in> set xs \<and> P x"
  by (induction xs) (auto split: if_splits)

lemma find_Some_ex: "x \<in> set xs \<Longrightarrow> P x \<Longrightarrow> \<exists>y. find P xs = Some y"
  by (induction xs) auto

lemma find_append: "find P (xs @ ys) = (case find P xs of Some x \<Rightarrow> Some x | None \<Rightarrow> find P ys)"
  by (induction xs) auto

definition lastRow :: "'r list \<Rightarrow> 'r option" where
  "lastRow rows = (if rows = [] then None else Some (last rows))"

lemma lastRow_Some: "lastRow rows = Some r \<Longrightarrow> r \<in> set rows"
  by (auto simp: lastRow_def split: if_splits)

text \<open>
  A statement whose WHERE clause implies the filter \<open>Q\<close> sees the same rows whether or not
  the rows outside \<open>Q\<close> are there, and leaves those rows alone.
\<close>

lemma find_filter_within:
  "(\<And>r. P r \<Longrightarrow> Q r) \<Longrightarrow> find P (filter Q xs) = find P xs"
  by (induction xs) auto

lemma filter_filter_within:
  "(\<And>r. P r \<Longrightarrow> Q r) \<Longrightarrow> filter P (filter Q xs) = filter P xs"
  by (induction xs) auto

lemma filter_update_within:
  "(\<And>r. P r \<Longrightarrow> Q r) \<Longrightarrow> (\<And>r. P r \<Longrightarrow> Q (f r)) \<Longrightarrow>
   filter Q (update_where P f xs) = update_where P f (filter Q xs)"
  by (induction xs) auto

lemma filter_update_outside:
  "(\<And>r. P r \<Longrightarrow> \<not> Q r) \<Longrightarrow> (\<And>r. P r \<Longrightarrow> \<not> Q (f r)) \<Longrightarrow>
   filter Q (update_where P f xs) = filter Q xs"
  by (induction xs) auto

lemma ex_filter_within:
  "(\<And>r. P r \<Longrightarrow> Q r) \<Longrightarrow> list_ex P (filter Q xs) = list_ex P xs"
  by (induction xs) auto

section \<open>Uniqueness of keys\<close>

text \<open>Looking a row up by a key no two rows share.\<close>

lemma distinct_map_eq:
  "distinct (map k xs) \<Longrightarrow> x \<in> set xs \<Longrightarrow> y \<in> set xs \<Longrightarrow> k x = k y \<Longrightarrow> x = y"
  by (auto simp: distinct_map inj_on_def)

lemma find_key:
  "distinct (map k xs) \<Longrightarrow> x \<in> set xs \<Longrightarrow> P x \<Longrightarrow> (\<And>y. y \<in> set xs \<Longrightarrow> P y \<Longrightarrow> k y = k x) \<Longrightarrow>
   find P xs = Some x"
proof -
  assume d: "distinct (map k xs)" and x: "x \<in> set xs" "P x"
    and same: "\<And>y. y \<in> set xs \<Longrightarrow> P y \<Longrightarrow> k y = k x"
  from x obtain y where y: "find P xs = Some y" by (meson find_Some_ex)
  then have "y \<in> set xs" "P y" by (auto dest: find_SomeD)
  with same d x(1) have "y = x" by (metis distinct_map_eq)
  with y show ?thesis by simp
qed

lemma filter_length_update_where:
  "(\<And>r. P r \<Longrightarrow> Q (f r) = Q r) \<Longrightarrow> length (filter Q (update_where P f xs)) = length (filter Q xs)"
  by (induction xs) auto

lemma filter_update_le:
  "(\<And>r. P r \<Longrightarrow> Q (f r) \<Longrightarrow> Q r) \<Longrightarrow>
   length (filter Q (update_where P f xs)) \<le> length (filter Q xs)"
  by (induction xs) (auto intro: le_SucI)

end
