(* ===== verification/JsValues.thy ===== *)
theory JsValues
  imports Prelude
begin

text \<open>
  The untyped values a request body carries and the validators every fixed-ops handler
  runs on them: platform/src/helpers.ts and the helper section of
  fixed-ops/src/legacy/service-cockpit-service.ts (requireUuid, requireOneOf,
  requireStringArray, requireTimestamp, pagination, requireConcerns, validatePriceRef,
  summariseMoney).  A JavaScript number is a finite rational, an infinity or NaN; sums of
  amounts are exact, so the rounding of sums beyond 2^53 is not part of the model.
  Strings are lists of 8-bit characters.
\<close>

section \<open>Values\<close>

datatype jsnum = Fin rat | PosInf | NegInf | NaN

datatype jsval =
    JUndef
  | JNull
  | JBool bool
  | JNum jsnum
  | JStr string
  | JArr "jsval list"
  | JObj "(string \<times> jsval) list"

type_synonym jsobj = "(string \<times> jsval) list"

definition jget :: "jsobj \<Rightarrow> string \<Rightarrow> jsval" where
  "jget o' k = (case map_of o' k of None \<Rightarrow> JUndef | Some v \<Rightarrow> v)"

definition jhas :: "jsobj \<Rightarrow> string \<Rightarrow> bool" where
  "jhas o' k = list_ex (\<lambda>p. fst p = k) o'"

fun truthy :: "jsval \<Rightarrow> bool" where
  "truthy JUndef = False"
| "truthy JNull = False"
| "truthy (JBool b) = b"
| "truthy (JNum (Fin q)) = (q \<noteq> 0)"
| "truthy (JNum NaN) = False"
| "truthy (JNum _) = True"
| "truthy (JStr s) = (s \<noteq> '''')"
| "truthy (JArr _) = True"
| "truthy (JObj _) = True"

fun nullish :: "jsval \<Rightarrow> bool" where
  "nullish JUndef = True"
| "nullish JNull = True"
| "nullish _ = False"

text \<open>\<open>v ?? w\<close>, and the column value \<open>v ?? null\<close>.\<close>

definition coalesce :: "jsval \<Rightarrow> jsval \<Rightarrow> jsval" where
  "coalesce v w = (if nullish v then w else v)"

abbreviation orNull :: "jsval \<Rightarrow> jsval" where
  "orNull v \<equiv> coalesce v JNull"

fun isString :: "jsval \<Rightarrow> bool" where
  "isString (JStr _) = True"
| "isString _ = False"

fun stringOf :: "jsval \<Rightarrow> string" where
  "stringOf (JStr s) = s"
| "stringOf _ = ''''"

section \<open>Numbers\<close>

fun numIsFinite :: "jsnum \<Rightarrow> bool" where
  "numIsFinite (Fin _) = True"
| "numIsFinite _ = False"

fun numIsInteger :: "jsnum \<Rightarrow> bool" where
  "numIsInteger (Fin q) = (of_int \<lfloor>q\<rfloor> = q)"
| "numIsInteger _ = False"

fun numLess0 :: "jsnum \<Rightarrow> bool" where
  "numLess0 (Fin q) = (q < 0)"
| "numLess0 NegInf = True"
| "numLess0 _ = False"

fun numLe0 :: "jsnum \<Rightarrow> bool" where
  "numLe0 (Fin q) = (q \<le> 0)"
| "numLe0 NegInf = True"
| "numLe0 _ = False"

fun numAdd :: "jsnum \<Rightarrow> jsnum \<Rightarrow> jsnum" where
  "numAdd (Fin a) (Fin b) = Fin (a + b)"
| "numAdd NaN _ = NaN"
| "numAdd _ NaN = NaN"
| "numAdd PosInf NegInf = NaN"
| "numAdd NegInf PosInf = NaN"
| "numAdd PosInf _ = PosInf"
| "numAdd NegInf _ = NegInf"
| "numAdd _ PosInf = PosInf"
| "numAdd _ NegInf = NegInf"

fun isNonNegInteger :: "jsval \<Rightarrow> bool" where
  "isNonNegInteger (JNum n) = (numIsInteger n \<and> \<not> numLess0 n)"
| "isNonNegInteger _ = False"

fun isNonNegNumber :: "jsval \<Rightarrow> bool" where
  "isNonNegNumber (JNum n) = (\<not> numLess0 n)"
| "isNonNegNumber _ = False"

section \<open>Text\<close>

definition isSpace :: "char \<Rightarrow> bool" where
  "isSpace c = (let n = (of_char c :: nat) in (9 \<le> n \<and> n \<le> 13) \<or> n = 32 \<or> n = 160)"

definition blank :: "string \<Rightarrow> bool" where
  "blank s = list_all isSpace s"

fun isNonBlankString :: "jsval \<Rightarrow> bool" where
  "isNonBlankString (JStr s) = (\<not> blank s)"
| "isNonBlankString _ = False"

definition toLowerChar :: "char \<Rightarrow> char" where
  "toLowerChar c = (let n = (of_char c :: nat) in if 65 \<le> n \<and> n \<le> 90 then char_of (n + 32) else c)"

definition isHexChar :: "char \<Rightarrow> bool" where
  "isHexChar c = (let n = (of_char c :: nat) in
     (48 \<le> n \<and> n \<le> 57) \<or> (97 \<le> n \<and> n \<le> 102) \<or> (65 \<le> n \<and> n \<le> 70))"

text \<open>The pattern UUID_RE of helpers.ts, position by position.\<close>

definition uuidCharOk :: "nat \<Rightarrow> char \<Rightarrow> bool" where
  "uuidCharOk i c =
     (if i \<in> {8, 13, 18, 23} then c = CHR ''-''
      else if i = 14 then c \<in> set ''12345''
      else if i = 19 then c \<in> set ''89abAB''
      else isHexChar c)"

definition isUuidString :: "string \<Rightarrow> bool" where
  "isUuidString s = (length s = 36 \<and> list_all (\<lambda>p. uuidCharOk (fst p) (snd p)) (zip [0..<36] s))"

fun isUuid :: "jsval \<Rightarrow> bool" where
  "isUuid (JStr s) = isUuidString s"
| "isUuid _ = False"

text \<open>
  A \<open>UUID\<close> column holds the value, not the spelling: Postgres reads either case of a hex
  digit and gives the lower-case form back.
\<close>

definition pgUuid :: "string \<Rightarrow> string" where
  "pgUuid s = map toLowerChar s"

text \<open>String order by code unit, as \<open><\<close> and the default \<open>sort()\<close> compare.\<close>

fun strLess :: "string \<Rightarrow> string \<Rightarrow> bool" where
  "strLess _ [] = False"
| "strLess [] (_ # _) = True"
| "strLess (a # as) (b # bs) =
     ((of_char a :: nat) < of_char b \<or> (a = b \<and> strLess as bs))"

text \<open>\<open>Array.from(new Set(values))\<close>: the first occurrence of each member, in order.\<close>

fun distinctFrom :: "'a list \<Rightarrow> 'a list \<Rightarrow> 'a list" where
  "distinctFrom seen [] = []"
| "distinctFrom seen (x # xs) =
     (if x \<in> set seen then distinctFrom seen xs else x # distinctFrom (x # seen) xs)"

definition distinctOf :: "'a list \<Rightarrow> 'a list" where
  "distinctOf xs = distinctFrom [] xs"

section \<open>Validators\<close>

text \<open>
  What the code takes from outside itself while it handles a request: the clock, the
  runtime's \<open>Date.parse\<close> (None is NaN) and \<open>Number\<close>, the identifiers that the successive
  \<open>generateId()\<close> calls of the request return, the SHA-256 digest of node:crypto, and whether
  the best-effort audit insert succeeds.
\<close>

record env =
  now :: int
  dateParse :: "jsval \<Rightarrow> int option"
  toNumber :: "jsval \<Rightarrow> jsnum"
  ids :: "nat \<Rightarrow> string"
  sha256hex :: "string \<Rightarrow> string"
  auditOk :: bool

abbreviation validation :: app_error where
  "validation \<equiv> ValidationError ''validation_error''"

definition requireUuid :: "jsval \<Rightarrow> string result" where
  "requireUuid v = (if isUuid v then Inr (stringOf v) else Inl validation)"

definition requireOneOf :: "jsval \<Rightarrow> (string \<times> 'a) list \<Rightarrow> 'a result" where
  "requireOneOf v allowed =
     (case v of
        JStr s \<Rightarrow> (case map_of allowed s of Some a \<Rightarrow> Inr a | None \<Rightarrow> Inl validation)
      | _ \<Rightarrow> Inl validation)"

definition requireStringArray :: "jsval \<Rightarrow> string list result" where
  "requireStringArray v =
     (case v of
        JArr vs \<Rightarrow> if list_all isString vs then Inr (map stringOf vs) else Inl validation
      | _ \<Rightarrow> Inl validation)"

text \<open>The string is returned; the instant is what a TIMESTAMPTZ column then holds.\<close>

definition requireTimestamp :: "env \<Rightarrow> jsval \<Rightarrow> int result" where
  "requireTimestamp e v =
     (if isString v then (case dateParse e v of Some t \<Rightarrow> Inr t | None \<Rightarrow> Inl validation)
      else Inl validation)"

definition optTimestamp :: "env \<Rightarrow> jsval \<Rightarrow> int option result" where
  "optTimestamp e v =
     (if nullish v then Inr None else bindR (requireTimestamp e v) (\<lambda>t. Inr (Some t)))"

definition orDefault :: "jsval \<Rightarrow> (string \<times> 'a) list \<Rightarrow> 'a \<Rightarrow> 'a result" where
  "orDefault v allowed d = (if truthy v then requireOneOf v allowed else Inr d)"

definition requireConcerns :: "jsval \<Rightarrow> jsval list result" where
  "requireConcerns v =
     (if nullish v then Inr [] else (case v of JArr vs \<Rightarrow> Inr vs | _ \<Rightarrow> Inl validation))"

definition validatePriceRef :: "jsval \<Rightarrow> unit result" where
  "validatePriceRef v =
     (if nullish v then Inr ()
      else case v of
        JObj price \<Rightarrow>
          (let amount = jget price ''amount_cents''; currency = jget price ''currency'' in
           bindR (ensure (nullish amount
                   \<or> (case amount of JNum n \<Rightarrow> numIsFinite n \<and> \<not> numLess0 n | _ \<Rightarrow> False)) validation)
             (\<lambda>_. ensure (nullish currency \<or> isString currency) validation))
      | _ \<Rightarrow> Inl validation)"

subsection \<open>Paging\<close>

record page =
  pageLimit :: int
  pageOffset :: int

definition parsePage :: "env \<Rightarrow> jsval \<Rightarrow> int option result" where
  "parsePage e v =
     (if nullish v \<or> v = JStr '''' then Inr None
      else (let n = (case v of JNum m \<Rightarrow> m | _ \<Rightarrow> toNumber e v) in
            case n of
              Fin q \<Rightarrow> if numIsInteger n \<and> \<not> numLess0 n then Inr (Some \<lfloor>q\<rfloor>) else Inl validation
            | _ \<Rightarrow> Inl validation))"

definition pagination :: "env \<Rightarrow> jsval \<Rightarrow> jsval \<Rightarrow> int \<Rightarrow> int \<Rightarrow> page result" where
  "pagination e limitV offsetV defaultLimit maxLimit =
     bindR (parsePage e limitV) (\<lambda>limit.
     bindR (parsePage e offsetV) (\<lambda>offset.
     bindR (ensure (limit \<noteq> Some 0) validation) (\<lambda>_.
     bindR (ensure (case offset of Some n \<Rightarrow> n \<le> 1000000 | None \<Rightarrow> True) validation) (\<lambda>_.
     Inr \<lparr>pageLimit = min (case limit of Some n \<Rightarrow> n | None \<Rightarrow> defaultLimit) maxLimit,
          pageOffset = (case offset of Some n \<Rightarrow> n | None \<Rightarrow> 0)\<rparr>))))"

subsection \<open>Money on a list of lines\<close>

record money_summary =
  msCurrency :: "string option"
  msAmount :: "rat option"
  msPriced :: nat
  msUnpriced :: nat

fun priceAmount :: "jsval \<Rightarrow> rat option" where
  "priceAmount (JObj price) =
     (case jget price ''amount_cents'' of
        JNum (Fin q) \<Rightarrow> if q < 0 then None else Some q
      | _ \<Rightarrow> None)"
| "priceAmount _ = None"

fun priceCurrency :: "jsval \<Rightarrow> string" where
  "priceCurrency (JObj price) = (case jget price ''currency'' of JStr c \<Rightarrow> c | _ \<Rightarrow> ''USD'')"
| "priceCurrency _ = ''USD''"

fun summariseLoop ::
  "jsval list \<Rightarrow> rat \<Rightarrow> string option \<Rightarrow> nat \<Rightarrow> nat \<Rightarrow> money_summary result" where
  "summariseLoop [] tot currency priced unpriced =
     Inr \<lparr>msCurrency = (if priced > 0 then currency else None),
          msAmount = (if priced > 0 then Some tot else None),
          msPriced = priced, msUnpriced = unpriced\<rparr>"
| "summariseLoop (price # rest) tot currency priced unpriced =
     (case priceAmount price of
        None \<Rightarrow> summariseLoop rest tot currency priced (Suc unpriced)
      | Some amount \<Rightarrow>
          (let rowCurrency = priceCurrency price in
           if currency = None \<or> currency = Some rowCurrency
           then summariseLoop rest (tot + amount) (Some rowCurrency) (Suc priced) unpriced
           else Inl (ValidationError ''mixed_currency'')))"

definition summariseMoney :: "jsval list \<Rightarrow> money_summary result" where
  "summariseMoney prices = summariseLoop prices 0 None 0 0"

section \<open>Facts about the validators\<close>

lemma jget_Nil [simp]: "jget [] k = JUndef"
  by (simp add: jget_def)

lemma jget_Cons [simp]: "jget ((k', v) # o') k = (if k = k' then v else jget o' k)"
  by (auto simp: jget_def)

lemma jhas_Cons [simp]: "jhas ((k', v) # o') k \<longleftrightarrow> k' = k \<or> jhas o' k"
  by (auto simp: jhas_def)

lemma jhas_Nil [simp]: "\<not> jhas [] k"
  by (simp add: jhas_def)

lemma requireUuid_Inr [simp]: "requireUuid v = Inr s \<longleftrightarrow> v = JStr s \<and> isUuidString s"
  by (cases v) (auto simp: requireUuid_def)

lemma requireOneOf_Inr:
  "requireOneOf v allowed = Inr a \<longleftrightarrow> (\<exists>s. v = JStr s \<and> map_of allowed s = Some a)"
  by (cases v) (auto simp: requireOneOf_def split: option.splits)

lemma requireTimestamp_Inr:
  "requireTimestamp e v = Inr t \<longleftrightarrow> (\<exists>s. v = JStr s \<and> dateParse e v = Some t)"
  by (cases v) (auto simp: requireTimestamp_def split: option.splits)

lemma set_distinctFrom: "set (distinctFrom seen xs) = set xs - set seen"
  by (induction seen xs rule: distinctFrom.induct) auto

lemma distinct_distinctFrom: "distinct (distinctFrom seen xs)"
  by (induction seen xs rule: distinctFrom.induct) (auto simp: set_distinctFrom)

lemma set_distinctOf [simp]: "set (distinctOf xs) = set xs"
  by (simp add: distinctOf_def set_distinctFrom)

lemma distinct_distinctOf [simp]: "distinct (distinctOf xs)"
  by (simp add: distinctOf_def distinct_distinctFrom)

lemma distinctFrom_id: "distinct xs \<Longrightarrow> set xs \<inter> set seen = {} \<Longrightarrow> distinctFrom seen xs = xs"
  by (induction seen xs rule: distinctFrom.induct) auto

lemma distinctOf_id: "distinct xs \<Longrightarrow> distinctOf xs = xs"
  by (simp add: distinctOf_def distinctFrom_id)

lemma parsePage_nonneg: "parsePage e v = Inr (Some n) \<Longrightarrow> 0 \<le> n"
  by (cases v) (auto simp: parsePage_def Let_def split: jsnum.splits if_splits)

lemma summariseLoop_spec:
  "summariseLoop prices tot currency priced unpriced = Inr m \<Longrightarrow>
   (priced > 0 \<longrightarrow> currency \<noteq> None) \<Longrightarrow>
   msPriced m = priced + length (filter (\<lambda>p. priceAmount p \<noteq> None) prices) \<and>
   msUnpriced m = unpriced + length (filter (\<lambda>p. priceAmount p = None) prices) \<and>
   (0 < msPriced m \<longrightarrow>
      msAmount m = Some (tot + sum_list (map (\<lambda>p. case priceAmount p of Some q \<Rightarrow> q | None \<Rightarrow> 0) prices)))"
proof (induction prices tot currency priced unpriced rule: summariseLoop.induct)
  case (1 tot currency priced unpriced)
  then show ?case by auto
next
  case (2 price rest tot currency priced unpriced)
  show ?case
  proof (cases "priceAmount price")
    case None
    with 2 show ?thesis by auto
  next
    case (Some amount)
    with 2 show ?thesis by (auto simp: Let_def algebra_simps split: if_splits)
  qed
qed

end
