(* ===== verification/Lifecycle.thy ===== *)
theory Lifecycle
  imports JsValues
begin

text \<open>
  The pure domain rules of fixed operations: the repair-order state machine
  (fixed-ops/src/domain/state-machine.ts) and the estimate and authorization rules
  (fixed-ops/src/domain/authorization.ts).
\<close>

section \<open>Repair-order lifecycle\<close>

datatype ROStatus =
    RO_draft
  | RO_checked_in
  | RO_inspection_in_progress
  | RO_estimate_pending
  | RO_awaiting_authorization
  | RO_authorized
  | RO_in_repair
  | RO_waiting_parts
  | RO_sublet_in_progress
  | RO_qc
  | RO_ready_for_pickup
  | RO_closed
  | RO_canceled
  | RO_comeback

definition RO_STATUSES :: "(string \<times> ROStatus) list" where
  "RO_STATUSES =
    [(''draft'', RO_draft),
     (''checked_in'', RO_checked_in),
     (''inspection_in_progress'', RO_inspection_in_progress),
     (''estimate_pending'', RO_estimate_pending),
     (''awaiting_authorization'', RO_awaiting_authorization),
     (''authorized'', RO_authorized),
     (''in_repair'', RO_in_repair),
     (''waiting_parts'', RO_waiting_parts),
     (''sublet_in_progress'', RO_sublet_in_progress),
     (''qc'', RO_qc),
     (''ready_for_pickup'', RO_ready_for_pickup),
     (''closed'', RO_closed),
     (''canceled'', RO_canceled),
     (''comeback'', RO_comeback)]"

fun RO_TRANSITIONS :: "ROStatus \<Rightarrow> ROStatus list" where
  "RO_TRANSITIONS RO_draft = [RO_checked_in, RO_canceled]"
| "RO_TRANSITIONS RO_checked_in = [RO_inspection_in_progress, RO_estimate_pending, RO_canceled]"
| "RO_TRANSITIONS RO_inspection_in_progress =
     [RO_estimate_pending, RO_awaiting_authorization, RO_authorized, RO_canceled]"
| "RO_TRANSITIONS RO_estimate_pending = [RO_awaiting_authorization, RO_canceled]"
| "RO_TRANSITIONS RO_awaiting_authorization = [RO_authorized, RO_estimate_pending, RO_canceled]"
| "RO_TRANSITIONS RO_authorized =
     [RO_in_repair, RO_waiting_parts, RO_sublet_in_progress, RO_canceled]"
| "RO_TRANSITIONS RO_in_repair = [RO_waiting_parts, RO_sublet_in_progress, RO_qc, RO_canceled]"
| "RO_TRANSITIONS RO_waiting_parts = [RO_in_repair, RO_canceled]"
| "RO_TRANSITIONS RO_sublet_in_progress = [RO_in_repair, RO_qc, RO_canceled]"
| "RO_TRANSITIONS RO_qc = [RO_ready_for_pickup, RO_in_repair, RO_canceled]"
| "RO_TRANSITIONS RO_ready_for_pickup = [RO_closed]"
| "RO_TRANSITIONS RO_closed = [RO_comeback]"
| "RO_TRANSITIONS RO_canceled = []"
| "RO_TRANSITIONS RO_comeback = [RO_checked_in]"

definition STEP_UP_TRANSITIONS :: "ROStatus list" where
  "STEP_UP_TRANSITIONS = [RO_authorized, RO_canceled]"

definition AUTHORIZATION_GATED_TRANSITIONS :: "ROStatus list" where
  "AUTHORIZATION_GATED_TRANSITIONS = [RO_authorized]"

text \<open>
  Statuses are strings in the code; the reading of a string as a status is the
  type guard \<open>isROStatus\<close>.
\<close>

definition readROStatus :: "string \<Rightarrow> ROStatus option" where
  "readROStatus s = map_of RO_STATUSES s"

definition isROStatus :: "jsval \<Rightarrow> bool" where
  "isROStatus v = (case v of JStr s \<Rightarrow> readROStatus s \<noteq> None | _ \<Rightarrow> False)"

definition allowedTransitionsFrom :: "string \<Rightarrow> ROStatus list" where
  "allowedTransitionsFrom s = (case readROStatus s of Some st \<Rightarrow> RO_TRANSITIONS st | None \<Rightarrow> [])"

definition isTransitionAllowed :: "string \<Rightarrow> string \<Rightarrow> bool" where
  "isTransitionAllowed from to' =
     (case readROStatus to' of
        Some st \<Rightarrow> st \<in> set (allowedTransitionsFrom from)
      | None \<Rightarrow> False)"

definition transitionRequiresStepUp :: "string \<Rightarrow> bool" where
  "transitionRequiresStepUp to' =
     (case readROStatus to' of Some st \<Rightarrow> st \<in> set STEP_UP_TRANSITIONS | None \<Rightarrow> False)"

definition transitionRequiresAuthorization :: "string \<Rightarrow> bool" where
  "transitionRequiresAuthorization to' =
     (case readROStatus to' of
        Some st \<Rightarrow> st \<in> set AUTHORIZATION_GATED_TRANSITIONS | None \<Rightarrow> False)"

text \<open>The string a status is written as: the inverse of \<open>readROStatus\<close>.\<close>

definition ROStatusName :: "ROStatus \<Rightarrow> string" where
  "ROStatusName st = (case find (\<lambda>p. snd p = st) RO_STATUSES of Some p \<Rightarrow> fst p | None \<Rightarrow> '''')"

section \<open>Estimates and authorizations\<close>

datatype AuthorizationStatus = AU_pending | AU_approved | AU_declined | AU_revoked

datatype EstimateStatus =
  ES_draft | ES_sent | ES_partially_approved | ES_approved | ES_declined | ES_expired

datatype AuthorizationMethod = AM_portal | AM_signature | AM_staff_attestation | AM_recorded_call_ref

definition AUTHORIZATION_METHODS :: "(string \<times> AuthorizationMethod) list" where
  "AUTHORIZATION_METHODS =
    [(''portal'', AM_portal), (''signature'', AM_signature),
     (''staff_attestation'', AM_staff_attestation), (''recorded_call_ref'', AM_recorded_call_ref)]"

definition readAuthorizationMethod :: "jsval \<Rightarrow> AuthorizationMethod option" where
  "readAuthorizationMethod v = (case v of JStr s \<Rightarrow> map_of AUTHORIZATION_METHODS s | _ \<Rightarrow> None)"

definition isAuthorizationMethod :: "jsval \<Rightarrow> bool" where
  "isAuthorizationMethod v = (readAuthorizationMethod v \<noteq> None)"

definition STAFF_ASSERTED_METHODS :: "AuthorizationMethod list" where
  "STAFF_ASSERTED_METHODS = [AM_staff_attestation]"

definition methodRequiresStepUp :: "AuthorizationMethod \<Rightarrow> bool" where
  "methodRequiresStepUp m = (m \<in> set STAFF_ASSERTED_METHODS)"

definition deriveAuthorizationStatus :: "'i list \<Rightarrow> 'i list \<Rightarrow> AuthorizationStatus" where
  "deriveAuthorizationStatus approvedItems declinedItems =
     (if length approvedItems > 0 then AU_approved
      else if length declinedItems > 0 then AU_declined
      else AU_pending)"

definition deriveEstimateStatus :: "nat \<Rightarrow> nat \<Rightarrow> nat \<Rightarrow> EstimateStatus" where
  "deriveEstimateStatus approvedCount declinedCount remainingUndecidedCount =
     (if approvedCount = 0
      then (if remainingUndecidedCount > 0 then ES_partially_approved else ES_declined)
      else if declinedCount = 0 \<and> remainingUndecidedCount = 0 then ES_approved
      else ES_partially_approved)"

section \<open>Facts about the state machine\<close>

lemma readROStatus_name [simp]: "readROStatus (ROStatusName st) = Some st"
  by (cases st) (simp_all add: readROStatus_def ROStatusName_def RO_STATUSES_def)

lemma readROStatus_Some: "readROStatus s = Some st \<longleftrightarrow> s = ROStatusName st"
proof
  assume "readROStatus s = Some st"
  then have "(s, st) \<in> set RO_STATUSES"
    by (simp add: readROStatus_def map_of_SomeD)
  then show "s = ROStatusName st"
    by (auto simp: RO_STATUSES_def ROStatusName_def)
qed simp

lemma ROStatusName_inject [simp]: "ROStatusName a = ROStatusName b \<longleftrightarrow> a = b"
  by (metis option.inject readROStatus_name)

lemma isTransitionAllowed_name [simp]:
  "isTransitionAllowed (ROStatusName a) (ROStatusName b) \<longleftrightarrow> b \<in> set (RO_TRANSITIONS a)"
  by (simp add: isTransitionAllowed_def allowedTransitionsFrom_def)

lemma isTransitionAllowed_iff:
  "isTransitionAllowed (ROStatusName a) s \<longleftrightarrow>
     (\<exists>b. s = ROStatusName b \<and> b \<in> set (RO_TRANSITIONS a))"
  by (auto simp: isTransitionAllowed_def allowedTransitionsFrom_def readROStatus_Some
      split: option.splits)

text \<open>One step of the state machine, and the paths it allows.\<close>

inductive ro_step :: "ROStatus \<Rightarrow> ROStatus \<Rightarrow> bool" where
  ro_step: "b \<in> set (RO_TRANSITIONS a) \<Longrightarrow> ro_step a b"

inductive_simps ro_step_iff: "ro_step a b"

inductive ro_path :: "ROStatus \<Rightarrow> ROStatus list \<Rightarrow> ROStatus \<Rightarrow> bool" where
  ro_path_here: "ro_path a [] a"
| ro_path_step: "ro_step a b \<Longrightarrow> ro_path b bs c \<Longrightarrow> ro_path a (b # bs) c"

fun intakeStatus :: "ROStatus \<Rightarrow> bool" where
  "intakeStatus st = (st \<in> {RO_draft, RO_checked_in, RO_inspection_in_progress,
     RO_estimate_pending, RO_awaiting_authorization, RO_canceled})"

lemma intake_leaves_by_authorization:
  "ro_step a b \<Longrightarrow> intakeStatus a \<Longrightarrow> b \<noteq> RO_authorized \<Longrightarrow> intakeStatus b"
  by (cases a) (auto simp: ro_step_iff)

lemma ro_path_intake:
  "ro_path a bs c \<Longrightarrow> intakeStatus a \<Longrightarrow> RO_authorized \<notin> set bs \<Longrightarrow> intakeStatus c"
proof (induction rule: ro_path.induct)
  case (ro_path_step a b bs c)
  then show ?case by (metis intake_leaves_by_authorization list.set_intros(1,2))
qed simp

lemma ro_path_append: "ro_path a bs b \<Longrightarrow> ro_path b cs c \<Longrightarrow> ro_path a (bs @ cs) c"
  by (induction rule: ro_path.induct) (auto intro: ro_path.intros)

text \<open>
  Paid work is unreachable without authorization: on any path of allowed transitions
  that starts at a repair order's intake (draft, checked in, under inspection or at the
  estimate desk) and ends in a status where the car is being worked on, waiting, checked,
  ready or closed, the order was in \<open>authorized\<close> on the way.
\<close>

theorem work_needs_authorized:
  assumes "ro_path a bs c" and "intakeStatus a" and "\<not> intakeStatus c"
  shows "RO_authorized \<in> set bs"
  using assms ro_path_intake by blast

theorem work_needs_authorized_witness:
  "RO_authorized \<in> set [RO_checked_in, RO_inspection_in_progress, RO_authorized, RO_in_repair]"
proof (rule work_needs_authorized)
  show "ro_path RO_draft [RO_checked_in, RO_inspection_in_progress, RO_authorized, RO_in_repair]
          RO_in_repair"
    by (intro ro_path.intros) (simp_all add: ro_step_iff)
qed simp_all

text \<open>A path to \<open>closed\<close> for every status but \<open>canceled\<close>.\<close>

fun wayToClosed :: "ROStatus \<Rightarrow> ROStatus list" where
  "wayToClosed RO_draft =
     [RO_checked_in, RO_inspection_in_progress, RO_authorized, RO_in_repair, RO_qc,
      RO_ready_for_pickup, RO_closed]"
| "wayToClosed RO_checked_in =
     [RO_inspection_in_progress, RO_authorized, RO_in_repair, RO_qc, RO_ready_for_pickup, RO_closed]"
| "wayToClosed RO_inspection_in_progress =
     [RO_authorized, RO_in_repair, RO_qc, RO_ready_for_pickup, RO_closed]"
| "wayToClosed RO_estimate_pending =
     [RO_awaiting_authorization, RO_authorized, RO_in_repair, RO_qc, RO_ready_for_pickup, RO_closed]"
| "wayToClosed RO_awaiting_authorization =
     [RO_authorized, RO_in_repair, RO_qc, RO_ready_for_pickup, RO_closed]"
| "wayToClosed RO_authorized = [RO_in_repair, RO_qc, RO_ready_for_pickup, RO_closed]"
| "wayToClosed RO_in_repair = [RO_qc, RO_ready_for_pickup, RO_closed]"
| "wayToClosed RO_waiting_parts = [RO_in_repair, RO_qc, RO_ready_for_pickup, RO_closed]"
| "wayToClosed RO_sublet_in_progress = [RO_qc, RO_ready_for_pickup, RO_closed]"
| "wayToClosed RO_qc = [RO_ready_for_pickup, RO_closed]"
| "wayToClosed RO_ready_for_pickup = [RO_closed]"
| "wayToClosed RO_closed = []"
| "wayToClosed RO_canceled = []"
| "wayToClosed RO_comeback =
     [RO_checked_in, RO_inspection_in_progress, RO_authorized, RO_in_repair, RO_qc,
      RO_ready_for_pickup, RO_closed]"

lemma wayToClosed_path: "a \<noteq> RO_canceled \<Longrightarrow> ro_path a (wayToClosed a) RO_closed"
  by (cases a) (simp_all, (intro ro_path.intros; simp add: ro_step_iff)+)

lemma ro_path_from_canceled: "ro_path RO_canceled bs c \<Longrightarrow> c = RO_canceled"
  by (cases rule: ro_path.cases) (auto simp: ro_step_iff)

text \<open>
  C40. The machine has one dead end and no trap: a repair order can still be brought to
  \<open>closed\<close> from exactly the statuses other than \<open>canceled\<close>.
\<close>

theorem closable_iff_not_canceled: "(\<exists>bs. ro_path a bs RO_closed) \<longleftrightarrow> a \<noteq> RO_canceled"
  using wayToClosed_path ro_path_from_canceled by blast

lemmas derive_defs = deriveAuthorizationStatus_def deriveEstimateStatus_def

end
