(* ===== verification/CockpitDb.thy ===== *)
theory CockpitDb
  imports Lifecycle
begin

text \<open>
  The state of the service cockpit: one record per table the fixed-ops service writes
  (columns as the service reads and writes them), the record \<open>db\<close> of all tables, the
  caller's context, transactions (packages/database/src/pool.ts), the event and audit
  writers, and the consumption of a reauthentication grant
  (identity-access/src/reauthentication.ts, fixed-ops/src/security/sensitive-action.ts).
  Columns that only repeat the clock (created_at, updated_at) are left out: rows are in
  insertion order, which is what ORDER BY created_at returns.  A transaction is one step:
  the row locks the code takes (FOR UPDATE) serialise the transactions that touch the same
  rows.  UUID columns hold the lower-case form (\<open>pgUuid\<close>).
\<close>

section \<open>Enumerations of the columns\<close>

datatype Role =
    R_platform_admin | R_service_manager | R_service_advisor | R_service_technician
  | R_parts_clerk | R_warranty_admin | R_service_viewer | R_inventory_manager
  | R_inventory_clerk | R_marketing_manager | R_bdc_agent | R_sales_manager | R_salesperson

datatype AppointmentStatus =
    AP_requested | AP_scheduled | AP_confirmed | AP_checked_in | AP_no_show | AP_canceled
  | AP_completed | AP_converted_to_ro

datatype AppointmentSource = SRC_walk_in | SRC_phone | SRC_web | SRC_sales_handoff | SRC_waitlist
datatype Language = LANG_en | LANG_es | LANG_auto
datatype Channel = CH_sms | CH_email | CH_phone | CH_portal
datatype Priority = PR_p0 | PR_p1 | PR_p2
datatype WaitlistStatus = WL_waiting | WL_offered | WL_scheduled | WL_canceled | WL_expired
datatype LineType = LT_labor | LT_parts | LT_sublet | LT_fee

datatype LineStatus =
  LI_proposed | LI_approved | LI_declined | LI_in_progress | LI_completed | LI_canceled

datatype LineAuth = LA_not_required | LA_pending | LA_approved | LA_declined
datatype SessionStatus = MS_started | MS_in_progress | MS_submitted | MS_reviewed | MS_closed
datatype ResultStatus = MR_pass | MR_attention | MR_fail
datatype Severity = SV_info | SV_maintenance | SV_safety

datatype RecommendationStatus =
  RC_proposed | RC_sent_to_customer | RC_accepted | RC_declined | RC_expired

datatype LanguageMode = LM_en | LM_es | LM_bilingual | LM_auto

datatype PartStatus =
    PA_requested | PA_ordered | PA_backordered | PA_received | PA_picked | PA_installed | PA_canceled

datatype SubletStatus =
  SJ_requested | SJ_sent | SJ_in_progress | SJ_returned | SJ_verified | SJ_canceled

datatype TicketStatus =
  TK_assigned | TK_started | TK_paused | TK_completed | TK_reassigned | TK_canceled

datatype TimeEvent = TE_start | TE_pause | TE_resume | TE_stop
datatype ComebackStatus = CB_open | CB_in_progress | CB_resolved | CB_canceled
datatype ComebackSeverity = CS_sev0 | CS_sev1 | CS_sev2 | CS_sev3

datatype RootCause =
    RT_workmanship | RT_parts_failure | RT_misdiagnosis | RT_incomplete_repair
  | RT_customer_expectation | RT_vendor_sublet | RT_unrelated

datatype QueueType =
    QT_appointments_today | QT_waiting_checkin | QT_waiting_authorization | QT_waiting_parts
  | QT_in_repair | QT_qc | QT_ready_pickup | QT_comeback_review | QT_no_show_followup

datatype QueueStatus = QI_queued | QI_in_progress | QI_blocked | QI_done | QI_canceled
datatype OfferStatus = FO_offered | FO_scheduled | FO_converted | FO_lapsed | FO_canceled
datatype PortalTaskStatus = PT_created | PT_viewed | PT_completed | PT_expired | PT_canceled
datatype PortalTaskType = PY_review_recommendations | PY_review_and_sign | PY_payment | PY_pickup
datatype AssuranceLevel = AL_fresh_only | AL_fresh_and_mfa_policy

section \<open>Rows\<close>

record service_appointment =
  ap_id :: string
  ap_tenant :: string
  ap_location :: string
  ap_customer :: string
  ap_vehicle :: string
  ap_start :: int
  ap_end :: "int option"
  ap_concerns :: jsval
  ap_channel :: Channel
  ap_language :: Language
  ap_source :: AppointmentSource
  ap_created_by :: string
  ap_status :: AppointmentStatus

record service_appointment_event =
  ae_id :: string
  ae_appointment :: string
  ae_tenant :: string
  ae_type :: string
  ae_actor :: jsobj

record repair_order =
  ro_id :: string
  ro_tenant :: string
  ro_location :: string
  ro_appointment :: "string option"
  ro_customer :: string
  ro_vehicle :: string
  ro_status :: ROStatus
  ro_odometer :: jsval
  ro_promised :: "int option"
  ro_advisor :: "string option"
  ro_created_by :: string

record ro_event =
  re_id :: string
  re_ro :: string
  re_tenant :: string
  re_type :: string
  re_actor :: jsobj
  re_payload :: jsobj

record ro_line_item =
  li_id :: string
  li_tenant :: string
  li_ro :: string
  li_type :: LineType
  li_category :: jsval
  li_description :: string
  li_op_code :: jsval
  li_est_hours :: jsval
  li_sold_hours :: jsval
  li_price :: jsval
  li_status :: LineStatus
  li_auth :: LineAuth
  li_auth_ref :: "string option"
  li_tech :: "string option"
  li_estimate :: "string option"

record mpi_template =
  mt_id :: string
  mt_tenant :: string
  mt_location :: "string option"
  mt_active :: bool

record mpi_session =
  ms_id :: string
  ms_tenant :: string
  ms_ro :: string
  ms_template :: string
  ms_tech :: string
  ms_status :: SessionStatus

record mpi_result =
  mr_id :: string
  mr_tenant :: string
  mr_session :: string
  mr_item :: string
  mr_status :: ResultStatus
  mr_severity :: Severity
  mr_notes :: jsval
  mr_evidence :: "string list"

record service_recommendation =
  rc_id :: string
  rc_tenant :: string
  rc_ro :: string
  rc_title :: "string \<times> string"
  rc_description :: "string \<times> string"
  rc_priority :: Priority
  rc_status :: RecommendationStatus

record estimate_totals =
  et_line_count :: nat
  et_hours :: jsnum
  et_money :: money_summary

record ro_estimate =
  es_id :: string
  es_tenant :: string
  es_ro :: string
  es_version :: nat
  es_totals :: estimate_totals
  es_language :: LanguageMode
  es_status :: EstimateStatus
  es_sent_at :: "int option"

record line_terms =
  lt_description :: string
  lt_type :: LineType
  lt_op_code :: jsval
  lt_est_hours :: jsval
  lt_sold_hours :: jsval
  lt_price :: jsval

record ro_authorization =
  au_id :: string
  au_tenant :: string
  au_ro :: string
  au_estimate :: string
  au_method :: AuthorizationMethod
  au_status :: AuthorizationStatus
  au_approved :: "string list"
  au_declined :: "string list"
  au_evidence :: jsval
  au_language :: Language
  au_snapshot :: "(string \<times> line_terms) list"
  au_authorized_at :: int

record ro_parts_line =
  pl_id :: string
  pl_tenant :: string
  pl_ro :: string
  pl_line :: string
  pl_part_number :: string
  pl_description :: string
  pl_quantity :: jsval
  pl_status :: PartStatus
  pl_eta :: "int option"
  pl_supplier :: jsval
  pl_received_at :: "int option"

record ro_sublet_job =
  sj_id :: string
  sj_tenant :: string
  sj_ro :: string
  sj_line :: string
  sj_vendor :: jsval
  sj_expected :: "int option"
  sj_status :: SubletStatus
  sj_invoice :: jsval

record tech_profile =
  tp_id :: string
  tp_tenant :: string
  tp_user :: string
  tp_location :: string
  tp_active :: bool

record tech_work_ticket =
  tk_id :: string
  tk_tenant :: string
  tk_ro :: string
  tk_line :: string
  tk_tech :: string
  tk_status :: TicketStatus
  tk_pause_reason :: jsval

record tech_time_entry =
  te_id :: string
  te_tenant :: string
  te_ticket :: string
  te_tech :: string
  te_event :: TimeEvent
  te_at :: int

record warranty_claim =
  wc_id :: string
  wc_tenant :: string
  wc_ro :: string
  wc_evidence :: jsval
  wc_provider :: jsval

record comeback_case =
  cb_id :: string
  cb_tenant :: string
  cb_original :: string
  cb_new :: string
  cb_cause :: RootCause
  cb_reasons :: "string list"
  cb_severity :: ComebackSeverity
  cb_status :: ComebackStatus

record service_queue_item =
  qi_id :: string
  qi_tenant :: string
  qi_location :: string
  qi_type :: QueueType
  qi_ro :: "string option"
  qi_appointment :: "string option"
  qi_priority :: Priority
  qi_sla_due :: "int option"
  qi_status :: QueueStatus
  qi_assigned :: "string option"
  qi_block_reasons :: "string list option"

record service_portal_task =
  pt_id :: string
  pt_tenant :: string
  pt_ro :: string
  pt_type :: PortalTaskType
  pt_status :: PortalTaskStatus

record service_waitlist_entry =
  wl_id :: string
  wl_tenant :: string
  wl_location :: string
  wl_customer :: string
  wl_vehicle :: string
  wl_start :: int
  wl_end :: "int option"
  wl_concerns :: jsval
  wl_priority :: Priority
  wl_channel :: Channel
  wl_language :: Language
  wl_notes :: jsval
  wl_created_by :: string
  wl_status :: WaitlistStatus
  wl_offer_expires :: "int option"
  wl_appointment :: "string option"

record first_service_offer =
  fo_id :: string
  fo_tenant :: string
  fo_location :: string
  fo_deal :: string
  fo_customer :: string
  fo_vehicle :: string
  fo_appointment :: string
  fo_status :: OfferStatus
  fo_ro :: "string option"
  fo_converted_at :: "int option"

record service_sla_default =
  sd_tenant :: string
  sd_queue :: QueueType
  sd_minutes :: int

record reauthentication_grant =
  rg_id :: string
  rg_tenant :: string
  rg_user :: string
  rg_action :: string
  rg_resource_type :: "string option"
  rg_resource_id :: "string option"
  rg_hash :: string
  rg_expires :: int
  rg_consumed :: "int option"
  rg_level :: AssuranceLevel
  rg_mfa_certified :: bool

record audit_event =
  ev_tenant :: string
  ev_type :: string
  ev_entity_type :: string
  ev_entity_id :: string
  ev_actor :: string

record db =
  appointments :: "service_appointment list"
  appointment_events :: "service_appointment_event list"
  repair_orders :: "repair_order list"
  ro_events :: "ro_event list"
  line_items :: "ro_line_item list"
  mpi_templates :: "mpi_template list"
  mpi_sessions :: "mpi_session list"
  mpi_results :: "mpi_result list"
  recommendations :: "service_recommendation list"
  estimates :: "ro_estimate list"
  authorizations :: "ro_authorization list"
  parts_lines :: "ro_parts_line list"
  sublet_jobs :: "ro_sublet_job list"
  tech_profiles :: "tech_profile list"
  tickets :: "tech_work_ticket list"
  time_entries :: "tech_time_entry list"
  warranty_claims :: "warranty_claim list"
  comebacks :: "comeback_case list"
  queue_items :: "service_queue_item list"
  portal_tasks :: "service_portal_task list"
  waitlist :: "service_waitlist_entry list"
  offers :: "first_service_offer list"
  sla_defaults :: "service_sla_default list"
  grants :: "reauthentication_grant list"
  audit :: "audit_event list"

record auth_context =
  tenantId :: string
  userId :: string
  roles :: "Role list"

definition hasAnyRole :: "auth_context \<Rightarrow> Role list \<Rightarrow> bool" where
  "hasAnyRole c rs = list_ex (\<lambda>r. r \<in> set rs) (roles c)"

abbreviation supervises :: "auth_context \<Rightarrow> bool" where
  "supervises c \<equiv> hasAnyRole c [R_service_manager, R_service_advisor]"

section \<open>Transactions, events and audit\<close>

text \<open>
  The body of a transaction sees the state and returns a value with the new state, or an
  error; \<open>withTransaction\<close> commits the former and rolls the latter back.
\<close>

type_synonym 'a tx = "db \<Rightarrow> ('a \<times> db) result"

definition withTransaction :: "'a tx \<Rightarrow> db \<Rightarrow> 'a result \<times> db" where
  "withTransaction body s =
     (case body s of Inl err \<Rightarrow> (Inl err, s) | Inr (v, s') \<Rightarrow> (Inr v, s'))"

text \<open>The audit row is written after the commit, and a failure to write it is swallowed.\<close>

definition emitAudit :: "env \<Rightarrow> auth_context \<Rightarrow> string \<Rightarrow> string \<Rightarrow> string \<Rightarrow> db \<Rightarrow> db" where
  "emitAudit e c action entityType entityId s =
     (if auditOk e
      then s\<lparr>audit := audit s @ [\<lparr>ev_tenant = tenantId c, ev_type = ''service.'' @ action,
              ev_entity_type = entityType, ev_entity_id = entityId, ev_actor = userId c\<rparr>]\<rparr>
      else s)"

definition andAudit ::
  "('a \<Rightarrow> db \<Rightarrow> db) \<Rightarrow> 'a result \<times> db \<Rightarrow> 'a result \<times> db" where
  "andAudit f out = (case out of (Inl err, s) \<Rightarrow> (Inl err, s) | (Inr v, s) \<Rightarrow> (Inr v, f v s))"

definition byUser :: "auth_context \<Rightarrow> jsobj" where
  "byUser c = [(''user_id'', JStr (userId c))]"

definition recordROEvent ::
  "string \<Rightarrow> auth_context \<Rightarrow> string \<Rightarrow> string \<Rightarrow> jsobj \<Rightarrow> jsobj \<Rightarrow> db \<Rightarrow> db" where
  "recordROEvent newId c roId eventType actor payload s =
     s\<lparr>ro_events := ro_events s @ [\<lparr>re_id = newId, re_ro = pgUuid roId, re_tenant = tenantId c,
        re_type = eventType, re_actor = actor, re_payload = payload\<rparr>]\<rparr>"

definition recordAppointmentEvent ::
  "string \<Rightarrow> auth_context \<Rightarrow> string \<Rightarrow> string \<Rightarrow> jsobj \<Rightarrow> db \<Rightarrow> db" where
  "recordAppointmentEvent newId c appointmentId eventType actor s =
     s\<lparr>appointment_events := appointment_events s @
        [\<lparr>ae_id = newId, ae_appointment = pgUuid appointmentId, ae_tenant = tenantId c,
          ae_type = eventType, ae_actor = actor\<rparr>]\<rparr>"

section \<open>Reauthentication grants\<close>

record grant_spend =
  gs_grant :: jsval
  gs_tenant :: string
  gs_user :: string
  gs_action :: string
  gs_resource_type :: "string option"
  gs_resource_id :: "string option"
  gs_required :: AssuranceLevel

text \<open>The one predicate of the conditional UPDATE that spends a grant.\<close>

definition grantMatches :: "env \<Rightarrow> grant_spend \<Rightarrow> reauthentication_grant \<Rightarrow> bool" where
  "grantMatches e i g =
     (rg_hash g = sha256hex e (stringOf (gs_grant i))
      \<and> rg_tenant g = gs_tenant i
      \<and> rg_user g = gs_user i
      \<and> rg_action g = gs_action i
      \<and> rg_resource_type g = gs_resource_type i
      \<and> rg_resource_id g = map_option pgUuid (gs_resource_id i)
      \<and> rg_consumed g = None
      \<and> rg_expires g > now e
      \<and> (gs_required i = AL_fresh_only
         \<or> (rg_level g = AL_fresh_and_mfa_policy \<and> rg_mfa_certified g)))"

definition consumeReauthenticationGrantReturningId ::
  "env \<Rightarrow> grant_spend \<Rightarrow> db \<Rightarrow> string option \<times> db" where
  "consumeReauthenticationGrantReturningId e i s =
     (if \<not> isString (gs_grant i) \<or> stringOf (gs_grant i) = '''' then (None, s)
      else
        (let s' = s\<lparr>grants := update_where (grantMatches e i) (\<lambda>g. g\<lparr>rg_consumed := Some (now e)\<rparr>)
                              (grants s)\<rparr> in
         case filter (grantMatches e i) (grants s) of
           [g] \<Rightarrow> (Some (rg_id g),
                   s'\<lparr>audit := audit s' @ [\<lparr>ev_tenant = gs_tenant i,
                      ev_type = ''identity.reauthentication.grant_consumed'',
                      ev_entity_type = ''reauth_grant'', ev_entity_id = rg_id g,
                      ev_actor = gs_user i\<rparr>]\<rparr>)
         | _ \<Rightarrow> (None, s')))"

definition consumeReauthenticationGrant :: "env \<Rightarrow> grant_spend \<Rightarrow> db \<Rightarrow> bool \<times> db" where
  "consumeReauthenticationGrant e i s =
     (case consumeReauthenticationGrantReturningId e i s of (r, s') \<Rightarrow> (r \<noteq> None, s'))"

definition consumeSensitiveActionGrant ::
  "env \<Rightarrow> jsval \<Rightarrow> auth_context \<Rightarrow> string \<Rightarrow> string \<Rightarrow> unit tx" where
  "consumeSensitiveActionGrant e grant c action resourceId s =
     (if \<not> isString grant \<or> stringOf grant = '''' then Inl (ForbiddenError ''step_up_required'')
      else case consumeReauthenticationGrant e
             \<lparr>gs_grant = grant, gs_tenant = tenantId c, gs_user = userId c, gs_action = action,
              gs_resource_type = Some ''repair_order'', gs_resource_id = Some resourceId,
              gs_required = AL_fresh_and_mfa_policy\<rparr> s of
             (True, s') \<Rightarrow> Inr ((), s')
           | (False, _) \<Rightarrow> Inl (ForbiddenError ''step_up_required''))"

section \<open>Ownership proofs\<close>

definition assertRO :: "auth_context \<Rightarrow> jsval \<Rightarrow> db \<Rightarrow> repair_order result" where
  "assertRO c roId s =
     bindR (requireUuid roId) (\<lambda>rid.
       case find (\<lambda>r. ro_id r = pgUuid rid \<and> ro_tenant r = tenantId c) (repair_orders s) of
         Some ro \<Rightarrow> Inr ro
       | None \<Rightarrow> Inl (NotFoundError ''ro_not_found''))"

definition assertLineItem ::
  "auth_context \<Rightarrow> string \<Rightarrow> jsval \<Rightarrow> db \<Rightarrow> ro_line_item result" where
  "assertLineItem c roId lineItemId s =
     bindR (requireUuid lineItemId) (\<lambda>lid.
       case find (\<lambda>l. li_id l = pgUuid lid \<and> li_ro l = pgUuid roId \<and> li_tenant l = tenantId c)
              (line_items s) of
         Some l \<Rightarrow> Inr l
       | None \<Rightarrow> Inl (NotFoundError ''line_item_not_found''))"

definition assertLineItemsOnRO ::
  "auth_context \<Rightarrow> string \<Rightarrow> jsval list \<Rightarrow> db \<Rightarrow> ro_line_item list result" where
  "assertLineItemsOnRO c roId lids s =
     (if lids = [] then Inr []
      else if \<not> list_all isUuid lids then Inl validation
      else
        (let rows = filter (\<lambda>l. li_id l \<in> set (map (\<lambda>v. pgUuid (stringOf v)) lids) \<and> li_ro l = pgUuid roId
                               \<and> li_tenant l = tenantId c) (line_items s) in
         if length rows \<noteq> length lids then Inl (ValidationError ''unknown_line_items'')
         else Inr rows))"

section \<open>Facts shared by the operations\<close>

lemma withTransaction_Inl: "body s = Inl err \<Longrightarrow> withTransaction body s = (Inl err, s)"
  by (simp add: withTransaction_def)

lemma withTransaction_Inr: "body s = Inr (v, s') \<Longrightarrow> withTransaction body s = (Inr v, s')"
  by (simp add: withTransaction_def)

lemma withTransaction_error_unchanged: "fst (withTransaction body s) = Inl err \<Longrightarrow> snd (withTransaction body s) = s"
  by (auto simp: withTransaction_def split: sum.splits)

lemma withTransaction_ok:
  "withTransaction body s = (Inr v, s') \<longleftrightarrow> body s = Inr (v, s')"
  by (auto simp: withTransaction_def split: sum.splits)

lemma assertRO_Inr:
  "assertRO c roId s = Inr ro \<longleftrightarrow>
   (\<exists>rid. roId = JStr rid \<and> isUuidString rid \<and>
      find (\<lambda>r. ro_id r = pgUuid rid \<and> ro_tenant r = tenantId c) (repair_orders s) = Some ro)"
  by (auto simp: assertRO_def split: option.splits)

lemma assertRO_D:
  "assertRO c (JStr rid) s = Inr ro \<Longrightarrow>
   ro \<in> set (repair_orders s) \<and> ro_id ro = pgUuid rid \<and> ro_tenant ro = tenantId c"
  by (auto simp: assertRO_Inr dest: find_SomeD)

lemma assertLineItem_Inr:
  "assertLineItem c roId lineItemId s = Inr l \<longleftrightarrow>
   (\<exists>lid. lineItemId = JStr lid \<and> isUuidString lid \<and>
      find (\<lambda>l. li_id l = pgUuid lid \<and> li_ro l = pgUuid roId \<and> li_tenant l = tenantId c)
        (line_items s) = Some l)"
  by (auto simp: assertLineItem_def split: option.splits)

end
