(* ===== verification/CockpitQueue.thy ===== *)
theory CockpitQueue
  imports CockpitDb
begin

text \<open>
  Work queues (subdomain SSR2 of service-cockpit-service.ts): the queue a repair order
  belongs in, the synchronisation that runs with every status change, and the claim,
  status and escalation operations on a queue item.
\<close>

section \<open>Definitions\<close>

fun RO_STATUS_QUEUE :: "ROStatus \<Rightarrow> QueueType option" where
  "RO_STATUS_QUEUE RO_checked_in = Some QT_waiting_checkin"
| "RO_STATUS_QUEUE RO_inspection_in_progress = Some QT_in_repair"
| "RO_STATUS_QUEUE RO_estimate_pending = Some QT_waiting_authorization"
| "RO_STATUS_QUEUE RO_awaiting_authorization = Some QT_waiting_authorization"
| "RO_STATUS_QUEUE RO_authorized = Some QT_in_repair"
| "RO_STATUS_QUEUE RO_in_repair = Some QT_in_repair"
| "RO_STATUS_QUEUE RO_waiting_parts = Some QT_waiting_parts"
| "RO_STATUS_QUEUE RO_sublet_in_progress = Some QT_in_repair"
| "RO_STATUS_QUEUE RO_qc = Some QT_qc"
| "RO_STATUS_QUEUE RO_ready_for_pickup = Some QT_ready_pickup"
| "RO_STATUS_QUEUE RO_comeback = Some QT_comeback_review"
| "RO_STATUS_QUEUE _ = None"

definition QUEUE_PRIORITIES :: "(string \<times> Priority) list" where
  "QUEUE_PRIORITIES = [(''p0'', PR_p0), (''p1'', PR_p1), (''p2'', PR_p2)]"

definition QUEUE_STATUSES :: "(string \<times> QueueStatus) list" where
  "QUEUE_STATUSES = [(''queued'', QI_queued), (''in_progress'', QI_in_progress),
     (''blocked'', QI_blocked), (''done'', QI_done), (''canceled'', QI_canceled)]"

definition queueClosed :: "QueueStatus \<Rightarrow> bool" where
  "queueClosed st = (st \<in> {QI_done, QI_canceled})"

definition resolveSlaDueAt :: "env \<Rightarrow> auth_context \<Rightarrow> QueueType \<Rightarrow> jsval \<Rightarrow> db \<Rightarrow> int option result" where
  "resolveSlaDueAt e c queueType explicit s =
     (if truthy explicit
      then (case dateParse e explicit of Some t \<Rightarrow> Inr (Some t) | None \<Rightarrow> Inl validation)
      else (case find (\<lambda>d. sd_tenant d = tenantId c \<and> sd_queue d = queueType) (sla_defaults s) of
              None \<Rightarrow> Inr None
            | Some d \<Rightarrow> Inr (Some (now e + sd_minutes d * 60000))))"

record queue_params =
  qp_location :: jsval
  qp_queue_type :: QueueType
  qp_ro :: "string option"
  qp_appointment :: "string option"
  qp_priority :: jsval
  qp_sla_due :: jsval

definition createServiceQueueItem ::
  "env \<Rightarrow> string \<Rightarrow> auth_context \<Rightarrow> queue_params \<Rightarrow> service_queue_item tx" where
  "createServiceQueueItem e newId c p s =
     bindR (requireUuid (qp_location p)) (\<lambda>loc.
     bindR (orDefault (qp_priority p) QUEUE_PRIORITIES PR_p1) (\<lambda>priority.
     bindR (resolveSlaDueAt e c (qp_queue_type p) (qp_sla_due p) s) (\<lambda>due.
       let item = \<lparr>qi_id = newId, qi_tenant = tenantId c, qi_location = pgUuid loc,
                   qi_type = qp_queue_type p, qi_ro = map_option pgUuid (qp_ro p),
                   qi_appointment = map_option pgUuid (qp_appointment p),
                   qi_priority = priority, qi_sla_due = due, qi_status = QI_queued,
                   qi_assigned = None, qi_block_reasons = None\<rparr>
       in Inr (item, s\<lparr>queue_items := queue_items s @ [item]\<rparr>))))"

definition openForRO :: "auth_context \<Rightarrow> string \<Rightarrow> service_queue_item \<Rightarrow> bool" where
  "openForRO c rid q =
     (qi_ro q = Some rid \<and> qi_tenant q = tenantId c \<and> \<not> queueClosed (qi_status q))"

definition syncQueueForRO :: "env \<Rightarrow> string \<Rightarrow> auth_context \<Rightarrow> repair_order \<Rightarrow> db \<Rightarrow> db result" where
  "syncQueueForRO e newId c ro s =
     (let target = RO_STATUS_QUEUE (ro_status ro);
          s1 = s\<lparr>queue_items := update_where
                  (\<lambda>q. openForRO c (ro_id ro) q \<and> (target = None \<or> Some (qi_type q) \<noteq> target))
                  (\<lambda>q. q\<lparr>qi_status := QI_done\<rparr>) (queue_items s)\<rparr>
      in case target of
           None \<Rightarrow> Inr s1
         | Some qt \<Rightarrow>
             if list_ex (\<lambda>q. openForRO c (ro_id ro) q \<and> qi_type q = qt) (queue_items s1) then Inr s1
             else bindR (createServiceQueueItem e newId c
                     \<lparr>qp_location = JStr (ro_location ro), qp_queue_type = qt,
                      qp_ro = Some (ro_id ro), qp_appointment = None,
                      qp_priority = JUndef, qp_sla_due = JUndef\<rparr> s1) (\<lambda>(_, s2). Inr s2))"

text \<open>
  The move that rides along with another operation: a conditional UPDATE of the status that
  returns the row it moved, if it moved one, and puts that row in its queue.
\<close>

definition moveRO ::
  "env \<Rightarrow> string \<Rightarrow> auth_context \<Rightarrow> string \<Rightarrow> ROStatus list \<Rightarrow> ROStatus \<Rightarrow> db \<Rightarrow> db result" where
  "moveRO e newId c rid froms st s =
     (let here = (\<lambda>r. ro_id r = rid \<and> ro_tenant r = tenantId c \<and> ro_status r \<in> set froms);
          write = (\<lambda>r. r\<lparr>ro_status := st\<rparr>);
          s1 = s\<lparr>repair_orders := update_where here write (repair_orders s)\<rparr>
      in case find here (repair_orders s) of
           Some r \<Rightarrow> syncQueueForRO e newId c (write r) s1
         | None \<Rightarrow> Inr s1)"

definition assignServiceQueueItem ::
  "auth_context \<Rightarrow> jsval \<Rightarrow> db \<Rightarrow> service_queue_item result \<times> db" where
  "assignServiceQueueItem c queueItemId s =
     withTransaction (\<lambda>s.
       bindR (requireUuid queueItemId) (\<lambda>qid.
         let here = (\<lambda>q. qi_id q = pgUuid qid \<and> qi_tenant q = tenantId c) in
         case find here (queue_items s) of
           None \<Rightarrow> Inl (NotFoundError ''not_found'')
         | Some item \<Rightarrow>
             if queueClosed (qi_status item) then Inl (ConflictError ''queue_item_closed'')
             else if qi_assigned item \<noteq> None \<and> qi_assigned item \<noteq> Some (userId c)
             then Inl (ConflictError ''queue_item_taken'')
             else (let claim = (\<lambda>q. q\<lparr>qi_assigned := Some (userId c), qi_status := QI_in_progress\<rparr>)
                   in Inr (claim item,
                           s\<lparr>queue_items := update_where here claim (queue_items s)\<rparr>)))) s"

definition updateServiceQueueItemStatus ::
  "auth_context \<Rightarrow> jsval \<Rightarrow> jsobj \<Rightarrow> db \<Rightarrow> service_queue_item result \<times> db" where
  "updateServiceQueueItemStatus c queueItemId p s =
     withTransaction (\<lambda>s.
       bindR (requireUuid queueItemId) (\<lambda>qid.
       bindR (requireOneOf (jget p ''status'') QUEUE_STATUSES) (\<lambda>status.
       bindR (if jget p ''block_reason_codes'' = JUndef then Inr None
              else bindR (requireStringArray (jget p ''block_reason_codes'')) (\<lambda>cs. Inr (Some cs)))
         (\<lambda>codes.
         let here = (\<lambda>q. qi_id q = pgUuid qid \<and> qi_tenant q = tenantId c) in
         case find here (queue_items s) of
           None \<Rightarrow> Inl (NotFoundError ''not_found'')
         | Some item \<Rightarrow>
             if \<not> supervises c \<and> qi_assigned item \<noteq> None \<and> qi_assigned item \<noteq> Some (userId c)
             then Inl (ForbiddenError ''queue_item_taken'')
             else if queueClosed (qi_status item) \<and> \<not> queueClosed status
             then Inl (ConflictError ''queue_item_closed'')
             else (let write = (\<lambda>q. q\<lparr>qi_status := status,
                       qi_block_reasons := (if codes \<noteq> None then codes
                          else if status \<noteq> QI_blocked then None else qi_block_reasons q)\<rparr>)
                   in Inr (write item,
                           s\<lparr>queue_items := update_where here write (queue_items s)\<rparr>)))))) s"

definition escalateServiceQueueItem ::
  "env \<Rightarrow> auth_context \<Rightarrow> jsval \<Rightarrow> jsobj \<Rightarrow> db \<Rightarrow> service_queue_item result \<times> db" where
  "escalateServiceQueueItem e c queueItemId p s =
     andAudit (\<lambda>_. emitAudit e c ''queue_item.escalated'' ''service_queue_item'' (stringOf queueItemId))
      (withTransaction (\<lambda>s.
        bindR (requireUuid queueItemId) (\<lambda>qid.
        bindR (ensure (isNonBlankString (jget p ''reason'')) validation) (\<lambda>_.
        bindR (ensure (\<not> truthy (jget p ''create_runbook'')) (ValidationError ''runbook_unsupported''))
          (\<lambda>_.
          let here = (\<lambda>q. qi_id q = pgUuid qid \<and> qi_tenant q = tenantId c);
              raise = (\<lambda>q. q\<lparr>qi_priority := PR_p0\<rparr>)
          in case find here (queue_items s) of
               None \<Rightarrow> Inl (NotFoundError ''not_found'')
             | Some item \<Rightarrow>
                 Inr (raise item, s\<lparr>queue_items := update_where here raise (queue_items s)\<rparr>))))) s)"

section \<open>The queue presence of a repair order\<close>

text \<open>
  The open items of a repair order.  \<open>in_its_queue\<close> says that they are exactly one item in the
  queue of its status, or none where the status has no queue.
\<close>

definition openItems :: "auth_context \<Rightarrow> string \<Rightarrow> db \<Rightarrow> service_queue_item list" where
  "openItems c rid s = filter (openForRO c rid) (queue_items s)"

definition at_most_one_per_queue :: "auth_context \<Rightarrow> string \<Rightarrow> db \<Rightarrow> bool" where
  "at_most_one_per_queue c rid s = distinct (map qi_type (openItems c rid s))"

definition in_its_queue :: "auth_context \<Rightarrow> repair_order \<Rightarrow> db \<Rightarrow> bool" where
  "in_its_queue c ro s =
     (map qi_type (openItems c (ro_id ro) s) =
        (case RO_STATUS_QUEUE (ro_status ro) of None \<Rightarrow> [] | Some qt \<Rightarrow> [qt]))"

lemma createServiceQueueItem_queue:
  "createServiceQueueItem e newId c p s = Inr (item, s') \<Longrightarrow>
   qi_type item = qp_queue_type p \<and> qi_ro item = map_option pgUuid (qp_ro p) \<and>
   qi_tenant item = tenantId c \<and> qi_status item = QI_queued \<and> qi_id item = newId \<and>
   s' = s\<lparr>queue_items := queue_items s @ [item]\<rparr>"
  by (auto simp: createServiceQueueItem_def Let_def)

lemma filter_close_rest:
  "filter (openForRO c rid) (update_where (\<lambda>q. openForRO c rid q \<and> T q)
      (\<lambda>q. q\<lparr>qi_status := QI_done\<rparr>) qs)
   = filter (\<lambda>q. openForRO c rid q \<and> \<not> T q) qs"
  by (induction qs) (auto simp: openForRO_def queueClosed_def)

lemma filter_close_all:
  "filter (openForRO c rid) (update_where (openForRO c rid) (\<lambda>q. q\<lparr>qi_status := QI_done\<rparr>) qs) = []"
  by (induction qs) (auto simp: openForRO_def queueClosed_def)

lemma pgUuid_idem [simp]: "pgUuid (pgUuid s) = pgUuid s"
proof -
  have "toLowerChar (toLowerChar ch) = toLowerChar ch" for ch
    by (auto simp: toLowerChar_def Let_def)
  then show ?thesis by (simp add: pgUuid_def)
qed

lemma distinct_singleton_filter:
  "distinct (map k (filter P xs)) \<Longrightarrow>
   map k (filter (\<lambda>x. P x \<and> k x = v) xs) = (if \<exists>x \<in> set xs. P x \<and> k x = v then [v] else [])"
proof (induction xs)
  case (Cons x xs)
  have "filter (\<lambda>x. P x \<and> k x = v) xs = []" if "P x" "k x = v"
  proof -
    from that Cons.prems have "v \<notin> set (map k (filter P xs))" by simp
    then show ?thesis by (auto simp: filter_empty_conv image_iff)
  qed
  with Cons show ?case by (auto split: if_splits)
qed simp

lemma syncQueueForRO_frame:
  "syncQueueForRO e newId c ro s = Inr s' \<Longrightarrow> \<exists>q'. s' = s\<lparr>queue_items := q'\<rparr>"
  by (auto simp: syncQueueForRO_def Let_def dest!: createServiceQueueItem_queue
      split: option.splits if_splits prod.splits)

lemma syncQueueForRO_puts:
  assumes sync: "syncQueueForRO e newId c ro s = Inr s'"
    and one: "at_most_one_per_queue c (ro_id ro) s"
    and canon: "pgUuid (ro_id ro) = ro_id ro"
  shows "in_its_queue c ro s'"
proof (cases "RO_STATUS_QUEUE (ro_status ro)")
  case None
  with sync show ?thesis
    by (auto simp: syncQueueForRO_def Let_def in_its_queue_def openItems_def filter_close_all)
next
  case (Some qt)
  let ?open = "openForRO c (ro_id ro)"
  let ?s1 = "s\<lparr>queue_items := update_where (\<lambda>q. ?open q \<and> qi_type q \<noteq> qt)
      (\<lambda>q. q\<lparr>qi_status := QI_done\<rparr>) (queue_items s)\<rparr>"
  have s1: "filter ?open (queue_items ?s1) = filter (\<lambda>q. ?open q \<and> qi_type q = qt) (queue_items s)"
    by (simp add: filter_close_rest)
  show ?thesis
  proof (cases "list_ex (\<lambda>q. ?open q \<and> qi_type q = qt) (queue_items ?s1)")
    case True
    with sync Some have s': "s' = ?s1"
      by (simp add: syncQueueForRO_def Let_def)
    from True obtain q where "q \<in> set (filter ?open (queue_items ?s1))" "qi_type q = qt"
      by (auto simp: list_ex_iff)
    then have "\<exists>q \<in> set (queue_items s). ?open q \<and> qi_type q = qt"
      unfolding s1 by auto
    moreover have "distinct (map qi_type (filter ?open (queue_items s)))"
      using one by (simp add: at_most_one_per_queue_def openItems_def)
    ultimately have "map qi_type (filter ?open (queue_items ?s1)) = [qt]"
      unfolding s1 by (subst distinct_singleton_filter) auto
    with s' Some show ?thesis by (simp add: in_its_queue_def openItems_def)
  next
    case False
    have typed: "qi_type q = qt" if "q \<in> set (filter ?open (queue_items ?s1))" for q
      using that unfolding s1 by simp
    have none: "filter ?open (queue_items ?s1) = []"
    proof (rule ccontr)
      assume "filter ?open (queue_items ?s1) \<noteq> []"
      then obtain q where q: "q \<in> set (filter ?open (queue_items ?s1))"
        by (meson last_in_set)
      with typed [OF q] have "\<exists>q \<in> set (queue_items ?s1). ?open q \<and> qi_type q = qt"
        unfolding set_filter by blast
      with False show False unfolding list_ex_iff by blast
    qed
    from sync Some False obtain item where item:
      "createServiceQueueItem e newId c
         \<lparr>qp_location = JStr (ro_location ro), qp_queue_type = qt, qp_ro = Some (ro_id ro),
          qp_appointment = None, qp_priority = JUndef, qp_sla_due = JUndef\<rparr> ?s1 = Inr (item, s')"
      by (auto simp: syncQueueForRO_def Let_def)
    from createServiceQueueItem_queue [OF this] canon
    have "?open item" "qi_type item = qt" "queue_items s' = queue_items ?s1 @ [item]"
      by (auto simp: openForRO_def queueClosed_def)
    with none Some show ?thesis by (simp add: in_its_queue_def openItems_def)
  qed
qed

end
