(* ===== verification/CockpitScheduling.thy ===== *)
theory CockpitScheduling
  imports CockpitQueue
begin

text \<open>
  Scheduling and intake (subdomains SSIS2 and PSFSRB2 of service-cockpit-service.ts):
  appointments, check-in, no-shows, the waitlist and the first-service offers that a sale
  earns.
\<close>

section \<open>Appointments\<close>

definition APPOINTMENT_SOURCES :: "(string \<times> AppointmentSource) list" where
  "APPOINTMENT_SOURCES = [(''walk_in'', SRC_walk_in), (''phone'', SRC_phone), (''web'', SRC_web),
     (''sales_handoff'', SRC_sales_handoff), (''waitlist'', SRC_waitlist)]"

definition LANGUAGE_PREFERENCES :: "(string \<times> Language) list" where
  "LANGUAGE_PREFERENCES = [(''en'', LANG_en), (''es'', LANG_es), (''auto'', LANG_auto)]"

definition CONTACT_CHANNELS :: "(string \<times> Channel) list" where
  "CONTACT_CHANNELS = [(''sms'', CH_sms), (''email'', CH_email), (''phone'', CH_phone),
     (''portal'', CH_portal)]"

definition createAppointment ::
  "env \<Rightarrow> auth_context \<Rightarrow> jsobj \<Rightarrow> db \<Rightarrow> service_appointment result \<times> db" where
  "createAppointment e c p s =
     andAudit (\<lambda>a. emitAudit e c ''appointment.created'' ''service_appointment'' (ap_id a))
      (withTransaction (\<lambda>s.
        bindR (requireUuid (jget p ''location_id'')) (\<lambda>loc.
        bindR (requireUuid (jget p ''mdm_customer_id'')) (\<lambda>cust.
        bindR (requireUuid (jget p ''mdm_vehicle_id'')) (\<lambda>veh.
        bindR (requireTimestamp e (jget p ''scheduled_start'')) (\<lambda>start.
        bindR (optTimestamp e (jget p ''scheduled_end'')) (\<lambda>end'.
        bindR (orDefault (jget p ''source'') APPOINTMENT_SOURCES SRC_phone) (\<lambda>source.
        bindR (ensure (source \<noteq> SRC_waitlist) validation) (\<lambda>_.
        bindR (orDefault (jget p ''language_preference'') LANGUAGE_PREFERENCES LANG_en) (\<lambda>language.
        bindR (orDefault (jget p ''preferred_contact_channel'') CONTACT_CHANNELS CH_sms) (\<lambda>channel.
        bindR (requireConcerns (jget p ''concerns'')) (\<lambda>concerns.
          let appt = \<lparr>ap_id = ids e 0, ap_tenant = tenantId c, ap_location = pgUuid loc,
                      ap_customer = pgUuid cust, ap_vehicle = pgUuid veh, ap_start = start,
                      ap_end = end', ap_concerns = JArr concerns, ap_channel = channel,
                      ap_language = language, ap_source = source, ap_created_by = userId c,
                      ap_status = AP_scheduled\<rparr>
          in Inr (appt, s\<lparr>appointments := appointments s @ [appt]\<rparr>)))))))))))) s)"

text \<open>The insert that joins a surrounding transaction; the contact channel takes its default.\<close>

definition insertAppointment ::
  "string \<Rightarrow> auth_context \<Rightarrow> string \<Rightarrow> string \<Rightarrow> string \<Rightarrow> int \<Rightarrow> jsval \<Rightarrow> Language
   \<Rightarrow> AppointmentSource \<Rightarrow> service_appointment tx" where
  "insertAppointment newId c loc cust veh start concerns language source s =
     bindR (requireConcerns concerns) (\<lambda>cs.
       let appt = \<lparr>ap_id = newId, ap_tenant = tenantId c, ap_location = pgUuid loc,
                   ap_customer = pgUuid cust, ap_vehicle = pgUuid veh, ap_start = start,
                   ap_end = None, ap_concerns = JArr cs, ap_channel = CH_sms,
                   ap_language = language, ap_source = source, ap_created_by = userId c,
                   ap_status = AP_scheduled\<rparr>
       in Inr (appt, s\<lparr>appointments := appointments s @ [appt]\<rparr>))"

definition APPOINTMENT_UPDATABLE :: "string list" where
  "APPOINTMENT_UPDATABLE = [''scheduled_start'', ''scheduled_end'', ''concerns'',
     ''preferred_contact_channel'', ''language_preference'']"

text \<open>The instant a TIMESTAMPTZ column holds after a value that passed its guard.\<close>

definition instant :: "env \<Rightarrow> jsval \<Rightarrow> int" where
  "instant e v = (case dateParse e v of Some t \<Rightarrow> t | None \<Rightarrow> 0)"

definition setAppointmentField ::
  "env \<Rightarrow> string \<times> jsval \<Rightarrow> service_appointment \<Rightarrow> service_appointment" where
  "setAppointmentField e kv a =
     (case kv of (k, v) \<Rightarrow>
        if k = ''scheduled_start'' then a\<lparr>ap_start := instant e v\<rparr>
        else if k = ''scheduled_end''
        then a\<lparr>ap_end := (if nullish v then None else Some (instant e v))\<rparr>
        else if k = ''concerns'' then a\<lparr>ap_concerns := v\<rparr>
        else if k = ''preferred_contact_channel''
        then (case map_of CONTACT_CHANNELS (stringOf v) of Some ch \<Rightarrow> a\<lparr>ap_channel := ch\<rparr> | None \<Rightarrow> a)
        else if k = ''language_preference''
        then (case map_of LANGUAGE_PREFERENCES (stringOf v) of
                Some l \<Rightarrow> a\<lparr>ap_language := l\<rparr> | None \<Rightarrow> a)
        else a)"

definition updateAppointment ::
  "env \<Rightarrow> auth_context \<Rightarrow> jsval \<Rightarrow> jsobj \<Rightarrow> db \<Rightarrow> service_appointment result \<times> db" where
  "updateAppointment e c appointmentId updates s =
     withTransaction (\<lambda>s.
       bindR (requireUuid appointmentId) (\<lambda>aid.
       bindR (ensure (\<not> jhas updates ''status'') (ValidationError ''status_not_directly_updatable'')) (\<lambda>_.
       bindR (if jget updates ''scheduled_start'' = JUndef then Inr 0
              else requireTimestamp e (jget updates ''scheduled_start'')) (\<lambda>_.
       bindR (optTimestamp e (jget updates ''scheduled_end'')) (\<lambda>_.
       bindR (if jget updates ''language_preference'' = JUndef then Inr LANG_en
              else requireOneOf (jget updates ''language_preference'') LANGUAGE_PREFERENCES) (\<lambda>_.
       bindR (if jget updates ''preferred_contact_channel'' = JUndef then Inr CH_sms
              else requireOneOf (jget updates ''preferred_contact_channel'') CONTACT_CHANNELS) (\<lambda>_.
       bindR (requireConcerns (jget updates ''concerns'')) (\<lambda>_.
         let sets = filter (\<lambda>kv. fst kv \<in> set APPOINTMENT_UPDATABLE) updates;
             here = (\<lambda>a. ap_id a = pgUuid aid \<and> ap_tenant a = tenantId c);
             write = (\<lambda>a. fold (setAppointmentField e) sets a)
         in if sets = [] then Inl validation
            else case find here (appointments s) of
                   None \<Rightarrow> Inl (NotFoundError ''not_found'')
                 | Some a \<Rightarrow>
                     Inr (write a, s\<lparr>appointments := update_where here write (appointments s)\<rparr>)))))))))
       s"

definition confirmAppointment ::
  "env \<Rightarrow> auth_context \<Rightarrow> jsval \<Rightarrow> db \<Rightarrow> service_appointment result \<times> db" where
  "confirmAppointment e c appointmentId s =
     withTransaction (\<lambda>s.
       bindR (requireUuid appointmentId) (\<lambda>aid.
         let here = (\<lambda>a. ap_id a = pgUuid aid \<and> ap_tenant a = tenantId c);
             write = (\<lambda>a. a\<lparr>ap_status := AP_confirmed\<rparr>)
         in case find here (appointments s) of
              None \<Rightarrow> Inl (NotFoundError ''not_found'')
            | Some a \<Rightarrow>
                if ap_status a \<notin> {AP_requested, AP_scheduled}
                then Inl (ConflictError ''invalid_appointment_status'')
                else Inr (write a,
                       recordAppointmentEvent (ids e 0) c aid ''confirmed'' (byUser c)
                         (s\<lparr>appointments := update_where here write (appointments s)\<rparr>)))) s"

definition checkInBody ::
  "env \<Rightarrow> auth_context \<Rightarrow> string \<Rightarrow> jsval \<Rightarrow> (repair_order \<times> bool) tx" where
  "checkInBody e c aid odometer s =
     (let here = (\<lambda>a. ap_id a = pgUuid aid \<and> ap_tenant a = tenantId c) in
      case find here (appointments s) of
        None \<Rightarrow> Inl (NotFoundError ''not_found'')
      | Some appt \<Rightarrow>
          (case find (\<lambda>r. ro_appointment r = Some (pgUuid aid) \<and> ro_tenant r = tenantId c)
                 (repair_orders s) of
             Some existing \<Rightarrow> Inr ((existing, False), s)
           | None \<Rightarrow>
               if ap_status appt \<notin> {AP_requested, AP_scheduled, AP_confirmed}
               then Inl (ConflictError ''invalid_appointment_status'')
               else
                 (let roId = ids e 0;
                      ro = \<lparr>ro_id = roId, ro_tenant = tenantId c, ro_location = ap_location appt,
                            ro_appointment = Some (pgUuid aid), ro_customer = ap_customer appt,
                            ro_vehicle = ap_vehicle appt, ro_status = RO_checked_in,
                            ro_odometer = orNull odometer, ro_promised = None, ro_advisor = None,
                            ro_created_by = userId c\<rparr>;
                      s1 = s\<lparr>repair_orders := repair_orders s @ [ro]\<rparr>;
                      s2 = s1\<lparr>appointments := update_where here
                                (\<lambda>a. a\<lparr>ap_status := AP_converted_to_ro\<rparr>) (appointments s1)\<rparr>;
                      s3 = recordAppointmentEvent (ids e 1) c aid ''checked_in'' (byUser c) s2;
                      s4 = recordROEvent (ids e 2) c roId ''created_from_appointment'' (byUser c)
                             [(''appointment_id'', JStr aid)] s3
                  in bindR (syncQueueForRO e (ids e 3) c ro s4) (\<lambda>s5.
                       Inr ((ro, True),
                         s5\<lparr>offers := update_where
                              (\<lambda>f. fo_appointment f = pgUuid aid \<and> fo_tenant f = tenantId c
                                   \<and> fo_status f \<in> {FO_offered, FO_scheduled})
                              (\<lambda>f. f\<lparr>fo_status := FO_converted, fo_ro := Some roId,
                                    fo_converted_at := Some (now e)\<rparr>) (offers s5)\<rparr>)))))"

text \<open>The result is the repair order and whether this request created it.\<close>

definition checkIn ::
  "env \<Rightarrow> auth_context \<Rightarrow> jsval \<Rightarrow> jsobj \<Rightarrow> db \<Rightarrow> (repair_order \<times> bool) result \<times> db" where
  "checkIn e c appointmentId p s =
     andAudit (\<lambda>r s. if snd r then emitAudit e c ''ro.created_from_appointment'' ''repair_order''
                                     (ro_id (fst r)) s else s)
      (withTransaction (\<lambda>s.
        bindR (requireUuid appointmentId) (\<lambda>aid.
        bindR (ensure (jget p ''odometer'' = JUndef \<or> isNonNegInteger (jget p ''odometer'')) validation)
          (\<lambda>_. checkInBody e c aid (jget p ''odometer'') s))) s)"

definition markAppointmentNoShow ::
  "env \<Rightarrow> auth_context \<Rightarrow> jsval \<Rightarrow> db \<Rightarrow> service_appointment result \<times> db" where
  "markAppointmentNoShow e c appointmentId s =
     withTransaction (\<lambda>s.
       bindR (requireUuid appointmentId) (\<lambda>aid.
         let here = (\<lambda>a. ap_id a = pgUuid aid \<and> ap_tenant a = tenantId c);
             write = (\<lambda>a. a\<lparr>ap_status := AP_no_show\<rparr>)
         in case find here (appointments s) of
              None \<Rightarrow> Inl (NotFoundError ''not_found'')
            | Some a \<Rightarrow>
                if ap_status a \<notin> {AP_requested, AP_scheduled, AP_confirmed}
                then Inl (ConflictError ''invalid_appointment_status'')
                else
                  (let s1 = recordAppointmentEvent (ids e 0) c aid ''no_show'' (byUser c)
                              (s\<lparr>appointments := update_where here write (appointments s)\<rparr>)
                   in bindR (createServiceQueueItem e (ids e 1) c
                        \<lparr>qp_location = JStr (ap_location a), qp_queue_type = QT_no_show_followup,
                         qp_ro = None, qp_appointment = Some aid,
                         qp_priority = JUndef, qp_sla_due = JUndef\<rparr> s1)
                        (\<lambda>(_, s2). Inr (write a, s2))))) s"

section \<open>The waitlist\<close>

definition WAITLIST_PRIORITIES :: "(string \<times> Priority) list" where
  "WAITLIST_PRIORITIES = [(''p0'', PR_p0), (''p1'', PR_p1), (''p2'', PR_p2)]"

definition WAITLIST_OPEN :: "WaitlistStatus list" where
  "WAITLIST_OPEN = [WL_waiting, WL_offered]"

definition DEFAULT_OFFER_TTL_MS :: int where
  "DEFAULT_OFFER_TTL_MS = 24 * 60 * 60 * 1000"

definition assertWaitlistEntry ::
  "auth_context \<Rightarrow> jsval \<Rightarrow> db \<Rightarrow> service_waitlist_entry result" where
  "assertWaitlistEntry c waitlistEntryId s =
     bindR (requireUuid waitlistEntryId) (\<lambda>wid.
       case find (\<lambda>w. wl_id w = pgUuid wid \<and> wl_tenant w = tenantId c) (waitlist s) of
         Some w \<Rightarrow> Inr w
       | None \<Rightarrow> Inl (NotFoundError ''waitlist_not_found''))"

definition assertWaitlistOpen :: "service_waitlist_entry \<Rightarrow> unit result" where
  "assertWaitlistOpen w =
     ensure (wl_status w \<in> set WAITLIST_OPEN) (ConflictError ''waitlist_entry_closed'')"

definition createWaitlistEntry ::
  "env \<Rightarrow> auth_context \<Rightarrow> jsobj \<Rightarrow> db \<Rightarrow> service_waitlist_entry result \<times> db" where
  "createWaitlistEntry e c p s =
     andAudit (\<lambda>w. emitAudit e c ''waitlist.created'' ''service_waitlist_entry'' (wl_id w))
      (withTransaction (\<lambda>s.
        bindR (requireUuid (jget p ''location_id'')) (\<lambda>loc.
        bindR (requireUuid (jget p ''mdm_customer_id'')) (\<lambda>cust.
        bindR (requireUuid (jget p ''mdm_vehicle_id'')) (\<lambda>veh.
        bindR (requireTimestamp e (jget p ''requested_start'')) (\<lambda>start.
        bindR (optTimestamp e (jget p ''requested_end'')) (\<lambda>end'.
        bindR (ensure (case end' of Some t \<Rightarrow> \<not> t \<le> start | None \<Rightarrow> True) validation) (\<lambda>_.
        bindR (requireConcerns (jget p ''concerns'')) (\<lambda>concerns.
        bindR (orDefault (jget p ''priority'') WAITLIST_PRIORITIES PR_p1) (\<lambda>priority.
        bindR (orDefault (jget p ''preferred_contact_channel'') CONTACT_CHANNELS CH_sms) (\<lambda>channel.
        bindR (orDefault (jget p ''language_preference'') LANGUAGE_PREFERENCES LANG_en) (\<lambda>language.
        bindR (ensure (nullish (jget p ''notes'') \<or> isString (jget p ''notes'')) validation) (\<lambda>_.
        bindR (ensure (\<not> list_ex (\<lambda>w. wl_tenant w = tenantId c \<and> wl_location w = pgUuid loc
                                   \<and> wl_vehicle w = pgUuid veh
                                   \<and> wl_status w \<in> {WL_waiting, WL_offered}) (waitlist s))
                 (ConflictError ''waitlist_entry_exists'')) (\<lambda>_.
          let entry = \<lparr>wl_id = ids e 0, wl_tenant = tenantId c, wl_location = pgUuid loc,
                       wl_customer = pgUuid cust, wl_vehicle = pgUuid veh, wl_start = start,
                       wl_end = end', wl_concerns = JArr concerns, wl_priority = priority,
                       wl_channel = channel, wl_language = language,
                       wl_notes = orNull (jget p ''notes''), wl_created_by = userId c,
                       wl_status = WL_waiting, wl_offer_expires = None, wl_appointment = None\<rparr>
          in Inr (entry, s\<lparr>waitlist := waitlist s @ [entry]\<rparr>)))))))))))))) s)"

definition offerExpiry :: "env \<Rightarrow> jsval \<Rightarrow> int result" where
  "offerExpiry e v =
     (if nullish v then Inr (now e + DEFAULT_OFFER_TTL_MS)
      else bindR (requireTimestamp e v) (\<lambda>t. if t \<le> now e then Inl validation else Inr t))"

definition offerWaitlistSlot ::
  "env \<Rightarrow> auth_context \<Rightarrow> jsval \<Rightarrow> jsobj \<Rightarrow> db \<Rightarrow> service_waitlist_entry result \<times> db" where
  "offerWaitlistSlot e c waitlistEntryId p s =
     andAudit (\<lambda>_. emitAudit e c ''waitlist.offered'' ''service_waitlist_entry'' (stringOf waitlistEntryId))
      (withTransaction (\<lambda>s.
        bindR (offerExpiry e (jget p ''offer_expires_at'')) (\<lambda>expiresAt.
        bindR (assertWaitlistEntry c waitlistEntryId s) (\<lambda>row.
        bindR (assertWaitlistOpen row) (\<lambda>_.
          let here = (\<lambda>w. wl_id w = pgUuid (stringOf waitlistEntryId) \<and> wl_tenant w = tenantId c);
              write = (\<lambda>w. w\<lparr>wl_status := WL_offered, wl_offer_expires := Some expiresAt\<rparr>)
          in Inr (write row, s\<lparr>waitlist := update_where here write (waitlist s)\<rparr>))))) s)"

text \<open>None is the branch that commits the expiry and then refuses the request.\<close>

definition convertBody ::
  "env \<Rightarrow> auth_context \<Rightarrow> jsval \<Rightarrow> int \<Rightarrow> int option
   \<Rightarrow> (service_waitlist_entry \<times> service_appointment) option tx" where
  "convertBody e c waitlistEntryId start end' s =
     bindR (assertWaitlistEntry c waitlistEntryId s) (\<lambda>entry.
     bindR (assertWaitlistOpen entry) (\<lambda>_.
       let here = (\<lambda>w. wl_id w = pgUuid (stringOf waitlistEntryId) \<and> wl_tenant w = tenantId c) in
       if wl_status entry = WL_offered
          \<and> (case wl_offer_expires entry of Some t \<Rightarrow> t < now e | None \<Rightarrow> False)
       then Inr (None, s\<lparr>waitlist := update_where here (\<lambda>w. w\<lparr>wl_status := WL_expired\<rparr>) (waitlist s)\<rparr>)
       else
         (let appt = \<lparr>ap_id = ids e 0, ap_tenant = tenantId c, ap_location = wl_location entry,
                      ap_customer = wl_customer entry, ap_vehicle = wl_vehicle entry,
                      ap_start = start, ap_end = end',
                      ap_concerns = coalesce (wl_concerns entry) (JArr []),
                      ap_channel = wl_channel entry, ap_language = wl_language entry,
                      ap_source = SRC_waitlist, ap_created_by = userId c,
                      ap_status = AP_scheduled\<rparr>;
              write = (\<lambda>w. w\<lparr>wl_status := WL_scheduled, wl_appointment := Some (ids e 0)\<rparr>);
              s1 = s\<lparr>appointments := appointments s @ [appt]\<rparr>;
              s2 = s1\<lparr>waitlist := update_where here write (waitlist s1)\<rparr>
          in Inr (Some (write entry, appt),
                  recordAppointmentEvent (ids e 1) c (ids e 0) ''scheduled_from_waitlist'' (byUser c) s2))))"

definition convertWaitlistEntry ::
  "env \<Rightarrow> auth_context \<Rightarrow> jsval \<Rightarrow> jsobj \<Rightarrow> db
   \<Rightarrow> (service_waitlist_entry \<times> service_appointment) result \<times> db" where
  "convertWaitlistEntry e c waitlistEntryId p s =
     (case withTransaction (\<lambda>s.
        bindR (requireTimestamp e (jget p ''scheduled_start'')) (\<lambda>start.
        bindR (optTimestamp e (jget p ''scheduled_end'')) (\<lambda>end'.
          convertBody e c waitlistEntryId start end' s))) s of
        (Inl err, s') \<Rightarrow> (Inl err, s')
      | (Inr None, s') \<Rightarrow> (Inl (ConflictError ''waitlist_offer_expired''), s')
      | (Inr (Some r), s') \<Rightarrow>
          (Inr r, emitAudit e c ''waitlist.converted'' ''service_waitlist_entry''
                    (stringOf waitlistEntryId) s'))"

definition cancelWaitlistEntry ::
  "env \<Rightarrow> auth_context \<Rightarrow> jsval \<Rightarrow> db \<Rightarrow> service_waitlist_entry result \<times> db" where
  "cancelWaitlistEntry e c waitlistEntryId s =
     andAudit (\<lambda>_. emitAudit e c ''waitlist.canceled'' ''service_waitlist_entry'' (stringOf waitlistEntryId))
      (withTransaction (\<lambda>s.
        bindR (assertWaitlistEntry c waitlistEntryId s) (\<lambda>row.
        bindR (assertWaitlistOpen row) (\<lambda>_.
          let here = (\<lambda>w. wl_id w = pgUuid (stringOf waitlistEntryId) \<and> wl_tenant w = tenantId c);
              write = (\<lambda>w. w\<lparr>wl_status := WL_canceled, wl_offer_expires := None\<rparr>)
          in Inr (write row, s\<lparr>waitlist := update_where here write (waitlist s)\<rparr>)))) s)"

section \<open>First-service offers\<close>

definition firstServiceConcerns :: jsval where
  "firstServiceConcerns =
     JArr [JObj [(''category'', JStr ''first_service''),
                 (''description'', JStr ''New vehicle first service''),
                 (''priority'', JStr ''p2'')]]"

definition createFirstServiceOffer ::
  "env \<Rightarrow> auth_context \<Rightarrow> jsobj \<Rightarrow> db \<Rightarrow> first_service_offer result \<times> db" where
  "createFirstServiceOffer e c p s =
     andAudit (\<lambda>f. emitAudit e c ''retention.first_service_offered'' ''first_service_offer'' (fo_id f))
      (withTransaction (\<lambda>s.
        bindR (requireUuid (jget p ''deal_id'')) (\<lambda>deal.
        bindR (requireUuid (jget p ''location_id'')) (\<lambda>loc.
        bindR (requireUuid (jget p ''mdm_customer_id'')) (\<lambda>cust.
        bindR (requireUuid (jget p ''mdm_vehicle_id'')) (\<lambda>veh.
        bindR (case dateParse e (jget p ''recommended_window_start'') of
                 Some t \<Rightarrow> Inr t | None \<Rightarrow> Inl validation) (\<lambda>start.
        bindR (orDefault (jget p ''language_preference'') LANGUAGE_PREFERENCES LANG_en) (\<lambda>language.
        bindR (insertAppointment (ids e 0) c loc cust veh start firstServiceConcerns language
                 SRC_sales_handoff s) (\<lambda>(appt, s1).
          if list_ex (\<lambda>f. fo_tenant f = tenantId c \<and> fo_deal f = pgUuid deal) (offers s1)
          then Inl (ConflictError ''offer_already_exists'')
          else
            (let offer = \<lparr>fo_id = ids e 1, fo_tenant = tenantId c, fo_location = pgUuid loc,
                          fo_deal = pgUuid deal, fo_customer = pgUuid cust,
                          fo_vehicle = pgUuid veh, fo_appointment = pgUuid (ap_id appt),
                          fo_status = FO_offered, fo_ro = None, fo_converted_at = None\<rparr>
             in Inr (offer, s1\<lparr>offers := offers s1 @ [offer]\<rparr>)))))))))) s)"

end
