(* ===== verification/CockpitInspection.thy ===== *)
theory CockpitInspection
  imports CockpitQueue
begin

text \<open>
  Multi-point inspections and the recommendations they produce (subdomain DMRS2 of
  service-cockpit-service.ts), and the portal task that puts them to the customer (CSPP2).
\<close>

section \<open>Sessions\<close>

definition startMPISession ::
  "env \<Rightarrow> auth_context \<Rightarrow> jsval \<Rightarrow> jsobj \<Rightarrow> db \<Rightarrow> mpi_session result \<times> db" where
  "startMPISession e c roId p s =
     withTransaction (\<lambda>s.
       bindR (requireUuid (jget p ''template_id'')) (\<lambda>tid.
       bindR (requireUuid (jget p ''tech_user_id'')) (\<lambda>tech.
       bindR (assertRO c roId s) (\<lambda>ro.
       bindR (ensure (ro_status ro \<in> {RO_checked_in, RO_inspection_in_progress})
                (ConflictError ''ro_not_inspectable'')) (\<lambda>_.
       bindR (ensure (list_ex (\<lambda>t. mt_id t = pgUuid tid \<and> mt_tenant t = tenantId c \<and> mt_active t)
                (mpi_templates s)) (NotFoundError ''not_found'')) (\<lambda>_.
         let rid = pgUuid (stringOf roId);
             session = \<lparr>ms_id = ids e 0, ms_tenant = tenantId c, ms_ro = rid,
                        ms_template = pgUuid tid, ms_tech = pgUuid tech, ms_status = MS_started\<rparr>;
             s1 = s\<lparr>mpi_sessions := mpi_sessions s @ [session]\<rparr>
         in bindR (moveRO e (ids e 1) c rid [RO_checked_in] RO_inspection_in_progress s1) (\<lambda>s3.
              Inr (session,
                recordROEvent (ids e 2) c rid ''mpi_started''
                  [(''tech_user_id'', jget p ''tech_user_id'')]
                  [(''mpi_session_id'', JStr (ids e 0))] s3))))))))
       s"

definition assertOwnMPISession :: "auth_context \<Rightarrow> jsval \<Rightarrow> db \<Rightarrow> mpi_session result" where
  "assertOwnMPISession c mpiSessionId s =
     bindR (requireUuid mpiSessionId) (\<lambda>sid.
       case find (\<lambda>m. ms_id m = pgUuid sid \<and> ms_tenant m = tenantId c) (mpi_sessions s) of
         None \<Rightarrow> Inl (NotFoundError ''not_found'')
       | Some m \<Rightarrow>
           if \<not> supervises c \<and> ms_tech m \<noteq> userId c then Inl (ForbiddenError ''not_inspection_owner'')
           else Inr m)"

definition MPI_RESULT_STATUSES :: "(string \<times> ResultStatus) list" where
  "MPI_RESULT_STATUSES = [(''pass'', MR_pass), (''attention'', MR_attention), (''fail'', MR_fail)]"

definition MPI_SEVERITIES :: "(string \<times> Severity) list" where
  "MPI_SEVERITIES = [(''info'', SV_info), (''maintenance'', SV_maintenance), (''safety'', SV_safety)]"

text \<open>
  INSERT ... ON CONFLICT (mpi_session_id, item_key) DO UPDATE: the conflict target does not
  name the tenant.
\<close>

definition sameItem :: "mpi_result \<Rightarrow> mpi_result \<Rightarrow> bool" where
  "sameItem row r = (mr_session r = mr_session row \<and> mr_item r = mr_item row)"

definition upsertResult :: "mpi_result \<Rightarrow> db \<Rightarrow> mpi_result \<times> db" where
  "upsertResult row s =
     (let write = (\<lambda>r. r\<lparr>mr_status := mr_status row, mr_severity := mr_severity row,
                         mr_notes := mr_notes row, mr_evidence := mr_evidence row\<rparr>)
      in case find (sameItem row) (mpi_results s) of
           None \<Rightarrow> (row, s\<lparr>mpi_results := mpi_results s @ [row]\<rparr>)
         | Some r \<Rightarrow>
             (write r, s\<lparr>mpi_results := update_where (sameItem row) write (mpi_results s)\<rparr>))"

definition recordMPIResult ::
  "env \<Rightarrow> auth_context \<Rightarrow> jsval \<Rightarrow> jsobj \<Rightarrow> db \<Rightarrow> mpi_result result \<times> db" where
  "recordMPIResult e c mpiSessionId p s =
     withTransaction (\<lambda>s.
       bindR (requireUuid mpiSessionId) (\<lambda>sid.
       bindR (requireOneOf (jget p ''status'') MPI_RESULT_STATUSES) (\<lambda>status.
       bindR (ensure (isNonBlankString (jget p ''item_key'')) validation) (\<lambda>_.
       bindR (ensure (\<not> (status \<noteq> MR_pass \<and> jget p ''severity'' = JUndef))
                (ValidationError ''severity_required'')) (\<lambda>_.
       bindR (orDefault (jget p ''severity'') MPI_SEVERITIES SV_info) (\<lambda>severity.
       bindR (if jget p ''evidence_artifact_refs'' = JUndef then Inr []
              else requireStringArray (jget p ''evidence_artifact_refs'')) (\<lambda>evidence.
       bindR (assertOwnMPISession c mpiSessionId s) (\<lambda>session.
       bindR (ensure (ms_status session \<in> {MS_started, MS_in_progress})
                (ConflictError ''invalid_session_status'')) (\<lambda>_.
         let s1 = s\<lparr>mpi_sessions := update_where
                     (\<lambda>m. ms_id m = pgUuid sid \<and> ms_tenant m = tenantId c \<and> ms_status m = MS_started)
                     (\<lambda>m. m\<lparr>ms_status := MS_in_progress\<rparr>) (mpi_sessions s)\<rparr>
         in Inr (upsertResult
              \<lparr>mr_id = ids e 0, mr_tenant = tenantId c, mr_session = pgUuid sid,
               mr_item = stringOf (jget p ''item_key''), mr_status = status, mr_severity = severity,
               mr_notes = orNull (jget p ''notes''), mr_evidence = evidence\<rparr> s1)))))))))) s"

lemma recordMPIResult_success:
  assumes "recordMPIResult e c mpiSessionId p s = (Inr v, s')"
  obtains sid session row where
    "mpiSessionId = JStr sid" "assertOwnMPISession c mpiSessionId s = Inr session"
    "ms_status session \<in> {MS_started, MS_in_progress}"
    "mr_tenant row = tenantId c" "mr_session row = pgUuid sid"
    "mr_item row = stringOf (jget p ''item_key'')"
    "upsertResult row (s\<lparr>mpi_sessions := update_where
        (\<lambda>m. ms_id m = pgUuid sid \<and> ms_tenant m = tenantId c \<and> ms_status m = MS_started)
        (\<lambda>m. m\<lparr>ms_status := MS_in_progress\<rparr>) (mpi_sessions s)\<rparr>) = (v, s')"
proof -
  from assms obtain sid session status severity evidence where
    "mpiSessionId = JStr sid" "assertOwnMPISession c mpiSessionId s = Inr session"
    "ms_status session \<in> {MS_started, MS_in_progress}"
    "upsertResult
       \<lparr>mr_id = ids e 0, mr_tenant = tenantId c, mr_session = pgUuid sid,
        mr_item = stringOf (jget p ''item_key''), mr_status = status, mr_severity = severity,
        mr_notes = orNull (jget p ''notes''), mr_evidence = evidence\<rparr>
       (s\<lparr>mpi_sessions := update_where
        (\<lambda>m. ms_id m = pgUuid sid \<and> ms_tenant m = tenantId c \<and> ms_status m = MS_started)
        (\<lambda>m. m\<lparr>ms_status := MS_in_progress\<rparr>) (mpi_sessions s)\<rparr>) = (v, s')"
    unfolding recordMPIResult_def withTransaction_ok Let_def bindR_eq_Inr ensure_eq_Inr requireUuid_Inr
      sum.inject by blast
  then show thesis
    by (intro that [where row = "\<lparr>mr_id = ids e 0, mr_tenant = tenantId c, mr_session = pgUuid sid,
        mr_item = stringOf (jget p ''item_key''), mr_status = status, mr_severity = severity,
        mr_notes = orNull (jget p ''notes''), mr_evidence = evidence\<rparr>"]) simp_all
qed

section \<open>Findings become recommendations\<close>

fun resultName :: "ResultStatus \<Rightarrow> string" where
  "resultName MR_pass = ''pass''"
| "resultName MR_attention = ''attention''"
| "resultName MR_fail = ''fail''"

fun severityPriority :: "Severity \<Rightarrow> Priority" where
  "severityPriority SV_safety = PR_p0"
| "severityPriority SV_maintenance = PR_p1"
| "severityPriority SV_info = PR_p2"

definition mpiTitle :: "mpi_result \<Rightarrow> string \<times> string" where
  "mpiTitle r =
     (''MPI: '' @ mr_item r @ '' ('' @ resultName (mr_status r) @ '')'',
      ''IPM: '' @ mr_item r @ '' ('' @ resultName (mr_status r) @ '')'')"

definition mpiDescription :: "mpi_result \<Rightarrow> string \<times> string" where
  "mpiDescription r =
     (''Inspection item '' @ mr_item r @ '' needs '' @
        (if mr_status r = MR_fail then ''immediate '' else '''') @ ''attention'',
      ''El art'' @ [CHR 0xED] @ ''culo '' @ mr_item r @ '' necesita atenci'' @ [CHR 0xF3] @ ''n'' @
        (if mr_status r = MR_fail then '' inmediata'' else ''''))"

definition mpiRecommendation ::
  "auth_context \<Rightarrow> string \<Rightarrow> string \<Rightarrow> mpi_result \<Rightarrow> service_recommendation" where
  "mpiRecommendation c newId rid r =
     \<lparr>rc_id = newId, rc_tenant = tenantId c, rc_ro = rid, rc_title = mpiTitle r,
      rc_description = mpiDescription r, rc_priority = severityPriority (mr_severity r),
      rc_status = RC_proposed\<rparr>"

text \<open>The result is the submitted session and the number of recommendations generated.\<close>

definition submitMPISession ::
  "env \<Rightarrow> auth_context \<Rightarrow> jsval \<Rightarrow> db \<Rightarrow> (mpi_session \<times> nat) result \<times> db" where
  "submitMPISession e c mpiSessionId s =
     withTransaction (\<lambda>s.
       bindR (assertOwnMPISession c mpiSessionId s) (\<lambda>session.
       bindR (ensure (ms_status session \<in> {MS_started, MS_in_progress})
                (ConflictError ''invalid_session_status'')) (\<lambda>_.
         let sid = pgUuid (stringOf mpiSessionId);
             write = (\<lambda>m. m\<lparr>ms_status := MS_submitted\<rparr>);
             s1 = s\<lparr>mpi_sessions := update_where (\<lambda>m. ms_id m = sid \<and> ms_tenant m = tenantId c) write
                     (mpi_sessions s)\<rparr>;
             results = filter (\<lambda>r. mr_session r = sid \<and> mr_tenant r = tenantId c
                                   \<and> mr_status r \<in> {MR_attention, MR_fail}) (mpi_results s1);
             recs = map (\<lambda>(i, r). mpiRecommendation c (ids e i) (ms_ro session) r) (enumerate 0 results);
             s2 = s1\<lparr>recommendations := recommendations s1 @ recs\<rparr>
         in Inr ((write session, length results),
              recordROEvent (ids e (length results)) c (ms_ro session) ''mpi_submitted'' (byUser c)
                [(''mpi_session_id'', mpiSessionId),
                 (''results_count'', JNum (Fin (of_nat (length results))))] s2)))) s"

section \<open>The customer's portal\<close>

text \<open>The result is the number sent, the portal task and whether an open one was reused.\<close>

definition sendRecommendationsToCustomer ::
  "env \<Rightarrow> auth_context \<Rightarrow> jsval \<Rightarrow> jsobj \<Rightarrow> db \<Rightarrow> (nat \<times> string \<times> bool) result \<times> db" where
  "sendRecommendationsToCustomer e c roId p s =
     withTransaction (\<lambda>s.
       bindR (assertRO c roId s) (\<lambda>_.
         let rid = pgUuid (stringOf roId);
             proposed = (\<lambda>r. rc_ro r = rid \<and> rc_tenant r = tenantId c \<and> rc_status r = RC_proposed);
             sent = length (filter proposed (recommendations s));
             s1 = s\<lparr>recommendations := update_where proposed (\<lambda>r. r\<lparr>rc_status := RC_sent_to_customer\<rparr>)
                     (recommendations s)\<rparr>;
             openTask = lastRow (filter (\<lambda>t. pt_ro t = rid \<and> pt_tenant t = tenantId c
                                  \<and> pt_type t = PY_review_recommendations
                                  \<and> pt_status t \<in> {PT_created, PT_viewed}) (portal_tasks s1));
             payload = (\<lambda>tid. [(''portal_task_id'', JStr tid),
                               (''sent_count'', JNum (Fin (of_nat sent))),
                               (''channel'', orNull (jget p ''channel''))])
         in case openTask of
              Some t \<Rightarrow>
                Inr ((sent, pt_id t, True),
                  recordROEvent (ids e 0) c rid ''recommendations_sent'' (byUser c) (payload (pt_id t)) s1)
            | None \<Rightarrow>
                (let task = \<lparr>pt_id = ids e 0, pt_tenant = tenantId c, pt_ro = rid,
                             pt_type = PY_review_recommendations, pt_status = PT_created\<rparr>;
                     s2 = s1\<lparr>portal_tasks := portal_tasks s1 @ [task]\<rparr>
                 in Inr ((sent, ids e 0, False),
                      recordROEvent (ids e 1) c rid ''recommendations_sent'' (byUser c)
                        (payload (ids e 0)) s2)))) s"

definition PORTAL_TASK_STATUSES :: "(string \<times> PortalTaskStatus) list" where
  "PORTAL_TASK_STATUSES = [(''created'', PT_created), (''viewed'', PT_viewed),
     (''completed'', PT_completed), (''expired'', PT_expired), (''canceled'', PT_canceled)]"

definition updatePortalTaskStatus ::
  "auth_context \<Rightarrow> jsval \<Rightarrow> jsobj \<Rightarrow> db \<Rightarrow> service_portal_task result \<times> db" where
  "updatePortalTaskStatus c portalTaskId p s =
     withTransaction (\<lambda>s.
       bindR (requireUuid portalTaskId) (\<lambda>tid.
       bindR (requireOneOf (jget p ''status'') PORTAL_TASK_STATUSES) (\<lambda>status.
         let here = (\<lambda>t. pt_id t = pgUuid tid \<and> pt_tenant t = tenantId c);
             write = (\<lambda>t. t\<lparr>pt_status := status\<rparr>)
         in case find here (portal_tasks s) of
              None \<Rightarrow> Inl (NotFoundError ''not_found'')
            | Some t \<Rightarrow>
                Inr (write t, s\<lparr>portal_tasks := update_where here write (portal_tasks s)\<rparr>)))) s"

end
