(* ===== verification/CockpitOrders.thy ===== *)
theory CockpitOrders
  imports CockpitQueue
begin

text \<open>
  Repair orders and their lines (subdomain ROLS2 of service-cockpit-service.ts): opening a
  repair order, moving it through its lifecycle behind the quality, billing, work and
  authorization gates, and adding and updating line items.
\<close>

section \<open>Opening a repair order\<close>

definition createRO :: "env \<Rightarrow> auth_context \<Rightarrow> jsobj \<Rightarrow> db \<Rightarrow> repair_order result \<times> db" where
  "createRO e c p s =
     andAudit (\<lambda>r. emitAudit e c ''ro.created'' ''repair_order'' (ro_id r))
      (withTransaction (\<lambda>s.
        bindR (requireUuid (jget p ''location_id'')) (\<lambda>loc.
        bindR (requireUuid (jget p ''mdm_customer_id'')) (\<lambda>cust.
        bindR (requireUuid (jget p ''mdm_vehicle_id'')) (\<lambda>veh.
        bindR (if jget p ''appointment_id'' = JUndef then Inr None
               else bindR (requireUuid (jget p ''appointment_id'')) (\<lambda>a. Inr (Some a))) (\<lambda>apptId.
        bindR (if jget p ''advisor_user_id'' = JUndef then Inr None
               else bindR (requireUuid (jget p ''advisor_user_id'')) (\<lambda>a. Inr (Some a))) (\<lambda>advisor.
        bindR (ensure (nullish (jget p ''odometer'') \<or> isNonNegInteger (jget p ''odometer'')) validation) (\<lambda>_.
        bindR (optTimestamp e (jget p ''promised_time'')) (\<lambda>promised.
        bindR (case apptId of
                 None \<Rightarrow> Inr ()
               | Some a \<Rightarrow>
                   bindR (ensure (list_ex (\<lambda>r. ap_id r = pgUuid a \<and> ap_tenant r = tenantId c)
                                   (appointments s)) (NotFoundError ''not_found'')) (\<lambda>_.
                   ensure (\<not> list_ex (\<lambda>r. ro_appointment r = Some (pgUuid a) \<and> ro_tenant r = tenantId c)
                                   (repair_orders s)) (ConflictError ''appointment_already_converted''))) (\<lambda>_.
          let ro = \<lparr>ro_id = ids e 0, ro_tenant = tenantId c, ro_location = pgUuid loc,
                    ro_appointment = map_option pgUuid apptId, ro_customer = pgUuid cust,
                    ro_vehicle = pgUuid veh, ro_status = RO_draft,
                    ro_odometer = orNull (jget p ''odometer''), ro_promised = promised,
                    ro_advisor = map_option pgUuid advisor, ro_created_by = userId c\<rparr>
          in Inr (ro, recordROEvent (ids e 1) c (ids e 0) ''created'' (byUser c) []
                        (s\<lparr>repair_orders := repair_orders s @ [ro]\<rparr>))))))))))) s)"

section \<open>The gates of a transition\<close>

abbreviation linesOf :: "auth_context \<Rightarrow> string \<Rightarrow> db \<Rightarrow> ro_line_item list" where
  "linesOf c rid s \<equiv> filter (\<lambda>l. li_ro l = rid \<and> li_tenant l = tenantId c) (line_items s)"

definition openWork :: "auth_context \<Rightarrow> string \<Rightarrow> db \<Rightarrow> ro_line_item list" where
  "openWork c rid s =
     filter (\<lambda>l. li_ro l = rid \<and> li_tenant l = tenantId c
                 \<and> li_status l \<in> {LI_proposed, LI_approved, LI_in_progress}) (line_items s)"

text \<open>
  The CASE on \<open>jsonb_typeof(price_ref->'amount_cents')\<close>: a number is chargeable when
  positive, an absent amount is not, anything else counts as chargeable.
\<close>

fun chargeable :: "jsval \<Rightarrow> bool" where
  "chargeable (JObj price) =
     (case jget price ''amount_cents'' of
        JNum (Fin q) \<Rightarrow> q > 0
      | JNum _ \<Rightarrow> False
      | JUndef \<Rightarrow> False
      | JNull \<Rightarrow> False
      | _ \<Rightarrow> True)"
| "chargeable _ = False"

definition undecidedLine :: "ro_line_item \<Rightarrow> bool" where
  "undecidedLine l =
     (li_status l \<noteq> LI_canceled
      \<and> (li_auth l = LA_pending \<or> (li_auth l = LA_not_required \<and> chargeable (li_price l))))"

definition undecidedWork :: "auth_context \<Rightarrow> string \<Rightarrow> db \<Rightarrow> ro_line_item list" where
  "undecidedWork c rid s =
     filter (\<lambda>l. li_ro l = rid \<and> li_tenant l = tenantId c \<and> undecidedLine l) (line_items s)"

definition pickupGate :: "auth_context \<Rightarrow> string \<Rightarrow> db \<Rightarrow> unit result" where
  "pickupGate c rid s =
     bindR (ensure (openWork c rid s = []) (UnprocessableError ''work_incomplete'')) (\<lambda>_.
     ensure (undecidedWork c rid s = []) (UnprocessableError ''decision_outstanding''))"

definition workGate :: "auth_context \<Rightarrow> string \<Rightarrow> db \<Rightarrow> unit result" where
  "workGate c rid s =
     ensure (list_ex (\<lambda>l. li_ro l = rid \<and> li_tenant l = tenantId c
                         \<and> li_auth l \<in> {LA_approved, LA_not_required}) (line_items s))
       (UnprocessableError ''no_approved_work'')"

text \<open>\<open>ORDER BY version DESC LIMIT 1\<close> over the estimates of one repair order.\<close>

fun latestVersion :: "ro_estimate list \<Rightarrow> ro_estimate option" where
  "latestVersion [] = None"
| "latestVersion (x # xs) =
     (case latestVersion xs of
        None \<Rightarrow> Some x
      | Some y \<Rightarrow> if es_version x < es_version y then Some y else Some x)"

definition currentEstimate :: "auth_context \<Rightarrow> string \<Rightarrow> db \<Rightarrow> ro_estimate option" where
  "currentEstimate c rid s =
     latestVersion (filter (\<lambda>x. es_ro x = rid \<and> es_tenant x = tenantId c) (estimates s))"

definition authorizationEvidence :: "auth_context \<Rightarrow> string \<Rightarrow> db \<Rightarrow> ro_authorization option" where
  "authorizationEvidence c rid s =
     find (\<lambda>a. au_ro a = rid \<and> au_tenant a = tenantId c \<and> au_status a = AU_approved
               \<and> length (au_approved a) > 0
               \<and> Some (au_estimate a) = map_option es_id (currentEstimate c rid s))
       (authorizations s)"

definition authorizationGate :: "auth_context \<Rightarrow> string \<Rightarrow> db \<Rightarrow> unit result" where
  "authorizationGate c rid s =
     ensure (authorizationEvidence c rid s \<noteq> None) (UnprocessableError ''authorization_required'')"

text \<open>The re-quote edge: withdraw the outstanding estimate and un-show its unanswered lines.\<close>

definition withdrawEstimate :: "auth_context \<Rightarrow> string \<Rightarrow> db \<Rightarrow> db" where
  "withdrawEstimate c rid s =
     s\<lparr>estimates := update_where
         (\<lambda>x. es_ro x = rid \<and> es_tenant x = tenantId c \<and> es_status x \<in> {ES_sent, ES_partially_approved})
         (\<lambda>x. x\<lparr>es_status := ES_expired\<rparr>) (estimates s),
       line_items := update_where
         (\<lambda>l. li_ro l = rid \<and> li_tenant l = tenantId c \<and> li_auth l = LA_pending)
         (\<lambda>l. l\<lparr>li_auth := LA_not_required\<rparr>) (line_items s)\<rparr>"

definition transitionGates ::
  "env \<Rightarrow> auth_context \<Rightarrow> string \<Rightarrow> string \<Rightarrow> jsval \<Rightarrow> repair_order \<Rightarrow> unit tx" where
  "transitionGates e c rid toStatus token ro s =
     bindR (ensure (isTransitionAllowed (ROStatusName (ro_status ro)) toStatus)
              (UnprocessableError ''invalid_transition'')) (\<lambda>_.
     bindR (if transitionRequiresStepUp toStatus
            then consumeSensitiveActionGrant e token c (''service.ro.transition:'' @ toStatus) rid s
            else Inr ((), s)) (\<lambda>(_, s1).
     bindR (if toStatus = ''ready_for_pickup'' then pickupGate c (pgUuid rid) s1 else Inr ()) (\<lambda>_.
     bindR (if toStatus = ''in_repair'' then workGate c (pgUuid rid) s1 else Inr ()) (\<lambda>_.
     bindR (if transitionRequiresAuthorization toStatus then authorizationGate c (pgUuid rid) s1
            else Inr ()) (\<lambda>_. Inr ((), s1))))))"

text \<open>The conditional UPDATE of the status, with the withdrawal the re-quote edge carries.\<close>

definition movedState :: "auth_context \<Rightarrow> string \<Rightarrow> ROStatus \<Rightarrow> string \<Rightarrow> ROStatus \<Rightarrow> db \<Rightarrow> db" where
  "movedState c rid from toStatus st s =
     (let s2 = s\<lparr>repair_orders := update_where
                (\<lambda>r. ro_id r = rid \<and> ro_tenant r = tenantId c \<and> ro_status r = from)
                (\<lambda>r. r\<lparr>ro_status := st\<rparr>) (repair_orders s)\<rparr>
      in if toStatus = ''estimate_pending'' then withdrawEstimate c rid s2 else s2)"

definition transitionBody ::
  "env \<Rightarrow> auth_context \<Rightarrow> jsval \<Rightarrow> string \<Rightarrow> jsobj \<Rightarrow> repair_order tx" where
  "transitionBody e c roId toStatus p s =
     bindR (assertRO c roId s) (\<lambda>ro.
       let rid = stringOf roId in
       bindR (transitionGates e c rid toStatus (jget p ''step_up_token'') ro s) (\<lambda>(_, s1).
         case (find (\<lambda>r. ro_id r = pgUuid rid \<and> ro_tenant r = tenantId c \<and> ro_status r = ro_status ro)
                 (repair_orders s1), readROStatus toStatus) of
           (Some row, Some st) \<Rightarrow>
             (let updated = row\<lparr>ro_status := st\<rparr>
              in bindR (syncQueueForRO e (ids e 0) c updated
                          (movedState c (pgUuid rid) (ro_status ro) toStatus st s1)) (\<lambda>s4.
                   Inr (updated,
                     recordROEvent (ids e 1) c rid ''status_changed'' (byUser c)
                       [(''from'', JStr (ROStatusName (ro_status ro))), (''to'', JStr toStatus),
                        (''reason'', orNull (jget p ''reason''))] s4)))
         | _ \<Rightarrow> Inl (ConflictError ''concurrent_modification'')))"

definition transitionRO ::
  "env \<Rightarrow> auth_context \<Rightarrow> jsval \<Rightarrow> string \<Rightarrow> jsobj \<Rightarrow> db \<Rightarrow> repair_order result \<times> db" where
  "transitionRO e c roId toStatus p s =
     andAudit (\<lambda>_. emitAudit e c ''ro.transitioned'' ''repair_order'' (stringOf roId))
       (withTransaction (transitionBody e c roId toStatus p) s)"

lemma if_eq_Inr_unit: "(if b then x else Inr ()) = Inr u \<longleftrightarrow> (b \<longrightarrow> x = Inr ())"
  by auto

lemma transitionGates_Inr:
  "transitionGates e c rid st tok ro s = Inr (u, s1) \<longleftrightarrow>
   isTransitionAllowed (ROStatusName (ro_status ro)) st \<and>
   (if transitionRequiresStepUp st
    then consumeSensitiveActionGrant e tok c (''service.ro.transition:'' @ st) rid s = Inr ((), s1)
    else s1 = s) \<and>
   (st = ''ready_for_pickup'' \<longrightarrow> pickupGate c (pgUuid rid) s1 = Inr ()) \<and>
   (st = ''in_repair'' \<longrightarrow> workGate c (pgUuid rid) s1 = Inr ()) \<and>
   (transitionRequiresAuthorization st \<longrightarrow> authorizationGate c (pgUuid rid) s1 = Inr ())"
  unfolding transitionGates_def bindR_eq_Inr ensure_eq_Inr split_paired_Ex prod.case if_eq_Inr_unit
  by (cases "transitionRequiresStepUp st") (auto simp del: split_paired_Ex)
lemma transitionBody_success:
  assumes "transitionBody e c roId toStatus p s = Inr (v, s')"
  obtains rid ro s1 row st s4 where
    "roId = JStr rid" "assertRO c roId s = Inr ro" "toStatus = ROStatusName st"
    "transitionGates e c rid toStatus (jget p ''step_up_token'') ro s = Inr ((), s1)"
    "find (\<lambda>r. ro_id r = pgUuid rid \<and> ro_tenant r = tenantId c \<and> ro_status r = ro_status ro)
       (repair_orders s1) = Some row"
    "v = row\<lparr>ro_status := st\<rparr>"
    "syncQueueForRO e (ids e 0) c v (movedState c (pgUuid rid) (ro_status ro) toStatus st s1) = Inr s4"
    "s' = recordROEvent (ids e 1) c rid ''status_changed'' (byUser c)
            [(''from'', JStr (ROStatusName (ro_status ro))), (''to'', JStr toStatus),
             (''reason'', orNull (jget p ''reason''))] s4"
proof -
  from assms obtain ro s1 where ro: "assertRO c roId s = Inr ro"
    and gates: "transitionGates e c (stringOf roId) toStatus (jget p ''step_up_token'') ro s = Inr ((), s1)"
    by (auto simp: transitionBody_def Let_def)
  from ro obtain rid where rid: "roId = JStr rid" by (auto simp: assertRO_Inr)
  from assms ro gates obtain row st s4 where
    "find (\<lambda>r. ro_id r = pgUuid rid \<and> ro_tenant r = tenantId c \<and> ro_status r = ro_status ro)
       (repair_orders s1) = Some row"
    "readROStatus toStatus = Some st" "v = row\<lparr>ro_status := st\<rparr>"
    "syncQueueForRO e (ids e 0) c v (movedState c (pgUuid rid) (ro_status ro) toStatus st s1) = Inr s4"
    "s' = recordROEvent (ids e 1) c rid ''status_changed'' (byUser c)
            [(''from'', JStr (ROStatusName (ro_status ro))), (''to'', JStr toStatus),
             (''reason'', orNull (jget p ''reason''))] s4"
    by (auto simp: transitionBody_def Let_def rid split: option.splits)
  with ro gates rid that show thesis by (simp add: readROStatus_Some)
qed

section \<open>Line items\<close>

definition LINE_TYPES :: "(string \<times> LineType) list" where
  "LINE_TYPES = [(''labor'', LT_labor), (''parts'', LT_parts), (''sublet'', LT_sublet), (''fee'', LT_fee)]"

definition LINE_STATUSES :: "(string \<times> LineStatus) list" where
  "LINE_STATUSES = [(''proposed'', LI_proposed), (''approved'', LI_approved),
     (''declined'', LI_declined), (''in_progress'', LI_in_progress),
     (''completed'', LI_completed), (''canceled'', LI_canceled)]"

definition addLineItem ::
  "env \<Rightarrow> auth_context \<Rightarrow> jsval \<Rightarrow> jsobj \<Rightarrow> db \<Rightarrow> ro_line_item result \<times> db" where
  "addLineItem e c roId p s =
     withTransaction (\<lambda>s.
       bindR (ensure (\<not> (jhas p ''authorization_status'' \<or> jhas p ''authorization_ref''))
                (ForbiddenError ''authorization_fields_readonly'')) (\<lambda>_.
       bindR (requireOneOf (jget p ''line_type'') LINE_TYPES) (\<lambda>lineType.
       bindR (ensure (isNonBlankString (jget p ''description'')) validation) (\<lambda>_.
       bindR (ensure (jget p ''estimated_hours'' = JUndef
                      \<or> isNonNegNumber (jget p ''estimated_hours'')) validation) (\<lambda>_.
       bindR (assertRO c roId s) (\<lambda>ro.
         let line = \<lparr>li_id = ids e 0, li_tenant = tenantId c, li_ro = pgUuid (stringOf roId),
                     li_type = lineType, li_category = orNull (jget p ''category''),
                     li_description = stringOf (jget p ''description''),
                     li_op_code = orNull (jget p ''labor_op_code''),
                     li_est_hours = orNull (jget p ''estimated_hours''),
                     li_sold_hours = JNull, li_price = JNull, li_status = LI_proposed,
                     li_auth = LA_not_required, li_auth_ref = None, li_tech = None,
                     li_estimate = None\<rparr>
         in Inr (line, s\<lparr>line_items := line_items s @ [line]\<rparr>))))))) s"

definition LINE_ITEM_PROGRESS_FIELDS :: "string list" where
  "LINE_ITEM_PROGRESS_FIELDS = [''status'']"

definition LINE_ITEM_COMMERCIAL_FIELDS :: "string list" where
  "LINE_ITEM_COMMERCIAL_FIELDS = [''sold_hours'', ''price_ref'']"

definition setLineField :: "string \<times> jsval \<Rightarrow> ro_line_item \<Rightarrow> ro_line_item" where
  "setLineField kv l =
     (case kv of (k, v) \<Rightarrow>
        if k = ''status''
        then (case map_of LINE_STATUSES (stringOf v) of Some st \<Rightarrow> l\<lparr>li_status := st\<rparr> | None \<Rightarrow> l)
        else if k = ''sold_hours'' then l\<lparr>li_sold_hours := v\<rparr>
        else if k = ''price_ref'' then l\<lparr>li_price := v\<rparr>
        else l)"

text \<open>The checks on the request itself, before the line is read.\<close>

definition lineUpdateRequest :: "auth_context \<Rightarrow> jsobj \<Rightarrow> unit result" where
  "lineUpdateRequest c updates =
     bindR (ensure (\<not> jhas updates ''authorization_status'' \<and> \<not> jhas updates ''authorization_ref'')
              (ForbiddenError ''authorization_fields_readonly'')) (\<lambda>_.
     bindR (ensure (\<not> jhas updates ''assigned_tech_user_id'')
              (ForbiddenError ''assignment_via_dispatch_only'')) (\<lambda>_.
     bindR (ensure (filter (jhas updates) LINE_ITEM_COMMERCIAL_FIELDS = [] \<or> supervises c)
              (ForbiddenError ''commercial_fields_restricted'')) (\<lambda>_.
     bindR (if jget updates ''status'' = JUndef then Inr LI_proposed
            else requireOneOf (jget updates ''status'') LINE_STATUSES) (\<lambda>_.
     bindR (ensure (nullish (jget updates ''sold_hours'') \<or> isNonNegNumber (jget updates ''sold_hours''))
              validation) (\<lambda>_.
     if jhas updates ''price_ref'' then validatePriceRef (jget updates ''price_ref'') else Inr ())))))"

text \<open>The checks on the locked line.\<close>

definition lineUpdateAllowed :: "auth_context \<Rightarrow> jsobj \<Rightarrow> ro_line_item \<Rightarrow> unit result" where
  "lineUpdateAllowed c updates line =
     (let commercial = filter (jhas updates) LINE_ITEM_COMMERCIAL_FIELDS in
      bindR (ensure (supervises c \<or> li_tech line = Some (userId c))
               (ForbiddenError ''not_line_item_assignee'')) (\<lambda>_.
      bindR (ensure (\<not> (li_auth line = LA_declined \<and> jget updates ''status'' \<noteq> JUndef
                        \<and> jget updates ''status'' \<noteq> JStr ''declined''))
               (ConflictError ''line_item_declined'')) (\<lambda>_.
      bindR (ensure (\<not> (li_auth line = LA_pending \<and> commercial \<noteq> []))
               (ConflictError ''pending_terms_frozen'')) (\<lambda>_.
      ensure (\<not> (li_auth line = LA_approved \<and> commercial \<noteq> []))
               (ConflictError ''approved_terms_frozen'')))))"

definition updateLineItem ::
  "auth_context \<Rightarrow> jsval \<Rightarrow> jsval \<Rightarrow> jsobj \<Rightarrow> db \<Rightarrow> ro_line_item result \<times> db" where
  "updateLineItem c roId lineItemId updates s =
     withTransaction (\<lambda>s.
       bindR (lineUpdateRequest c updates) (\<lambda>_.
       bindR (assertRO c roId s) (\<lambda>_.
       bindR (assertLineItem c (stringOf roId) lineItemId s) (\<lambda>line.
       bindR (lineUpdateAllowed c updates line) (\<lambda>_.
         let writable = LINE_ITEM_PROGRESS_FIELDS @ (if supervises c then LINE_ITEM_COMMERCIAL_FIELDS else []);
             sets = filter (\<lambda>kv. fst kv \<in> set writable) updates;
             here = (\<lambda>l. li_id l = pgUuid (stringOf lineItemId) \<and> li_ro l = pgUuid (stringOf roId)
                        \<and> li_tenant l = tenantId c \<and> li_auth l = li_auth line);
             write = (\<lambda>l. fold setLineField sets l)
         in if sets = [] then Inl validation
            else case find here (line_items s) of
                   None \<Rightarrow> Inl (ConflictError ''concurrent_modification'')
                 | Some l \<Rightarrow> Inr (write l, s\<lparr>line_items := update_where here write (line_items s)\<rparr>)))))) s"

end
