(* ===== verification/CockpitEstimates.thy ===== *)
theory CockpitEstimates
  imports CockpitOrders
begin

text \<open>
  Estimates and customer authorizations (subdomain EAS2 of service-cockpit-service.ts).
  \<open>recordAuthorization\<close> is written as its stages: the checks on the request, the checks on
  the estimate, the lines the decision covers, the snapshot of what was agreed, and the
  tally that gives the estimate its status.
\<close>

section \<open>Quoting\<close>

definition LANGUAGE_MODES :: "(string \<times> LanguageMode) list" where
  "LANGUAGE_MODES = [(''en'', LM_en), (''es'', LM_es), (''bilingual'', LM_bilingual), (''auto'', LM_auto)]"

definition QUOTABLE :: "ROStatus list" where
  "QUOTABLE = [RO_checked_in, RO_inspection_in_progress, RO_estimate_pending, RO_authorized,
     RO_in_repair, RO_waiting_parts, RO_sublet_in_progress, RO_qc]"

definition quotedLine :: "auth_context \<Rightarrow> string \<Rightarrow> ro_line_item \<Rightarrow> bool" where
  "quotedLine c rid l =
     (li_ro l = rid \<and> li_tenant l = tenantId c \<and> li_auth l = LA_not_required
      \<and> li_status l \<notin> {LI_canceled, LI_declined})"

fun hoursOf :: "jsval \<Rightarrow> jsnum" where
  "hoursOf (JNum n) = n"
| "hoursOf _ = Fin 0"

definition maxVersion :: "auth_context \<Rightarrow> string \<Rightarrow> db \<Rightarrow> nat" where
  "maxVersion c rid s =
     fold max (map es_version (filter (\<lambda>x. es_ro x = rid \<and> es_tenant x = tenantId c) (estimates s))) 0"

definition generateEstimate ::
  "env \<Rightarrow> auth_context \<Rightarrow> jsval \<Rightarrow> jsobj \<Rightarrow> db \<Rightarrow> ro_estimate result \<times> db" where
  "generateEstimate e c roId p s =
     withTransaction (\<lambda>s.
       bindR (orDefault (jget p ''language_mode'') LANGUAGE_MODES LM_auto) (\<lambda>mode.
       bindR (assertRO c roId s) (\<lambda>ro.
       bindR (ensure (ro_status ro \<in> set QUOTABLE) (ConflictError ''ro_not_estimable'')) (\<lambda>_.
         let rid = pgUuid (stringOf roId);
             lineItems = filter (quotedLine c rid) (line_items s);
             version = maxVersion c rid s + 1
         in bindR (ensure (lineItems \<noteq> []) (ConflictError ''no_line_items'')) (\<lambda>_.
            bindR (summariseMoney (map li_price lineItems)) (\<lambda>money.
              let est = \<lparr>es_id = ids e 0, es_tenant = tenantId c, es_ro = rid, es_version = version,
                         es_totals = \<lparr>et_line_count = length lineItems,
                            et_hours = foldl numAdd (Fin 0) (map (hoursOf \<circ> li_est_hours) lineItems),
                            et_money = money\<rparr>,
                         es_language = mode, es_status = ES_draft, es_sent_at = None\<rparr>;
                  s1 = s\<lparr>estimates := estimates s @ [est],
                         line_items := update_where (quotedLine c rid)
                           (\<lambda>l. l\<lparr>li_auth := LA_pending, li_estimate := Some (ids e 0)\<rparr>)
                           (line_items s)\<rparr>
              in bindR (moveRO e (ids e 1) c rid [RO_inspection_in_progress, RO_checked_in]
                          RO_estimate_pending s1) (\<lambda>s3.
                   Inr (est,
                     recordROEvent (ids e 2) c rid ''estimate_generated'' (byUser c)
                       [(''estimate_id'', JStr (ids e 0)),
                        (''version'', JNum (Fin (of_nat version)))] s3)))))))) s"

definition WORK_STATES :: "ROStatus list" where
  "WORK_STATES = [RO_authorized, RO_in_repair, RO_waiting_parts, RO_sublet_in_progress, RO_qc]"

definition sendEstimate ::
  "env \<Rightarrow> auth_context \<Rightarrow> jsval \<Rightarrow> jsval \<Rightarrow> jsobj \<Rightarrow> db \<Rightarrow> ro_estimate result \<times> db" where
  "sendEstimate e c roId estimateId p s =
     withTransaction (\<lambda>s.
       bindR (requireUuid estimateId) (\<lambda>eid.
       bindR (assertRO c roId s) (\<lambda>ro.
       bindR (ensure (ro_status ro = RO_estimate_pending \<or> ro_status ro \<in> set WORK_STATES)
                (ConflictError ''ro_not_estimate_pending'')) (\<lambda>_.
         let rid = pgUuid (stringOf roId) in
         case find (\<lambda>x. es_id x = pgUuid eid \<and> es_ro x = rid \<and> es_tenant x = tenantId c) (estimates s) of
           None \<Rightarrow> Inl (NotFoundError ''estimate_not_found'')
         | Some est \<Rightarrow>
             bindR (ensure (es_status est = ES_draft) (ConflictError ''estimate_not_draft'')) (\<lambda>_.
               let mark = (\<lambda>x. x\<lparr>es_status := ES_sent, es_sent_at := Some (now e)\<rparr>);
                   s1 = s\<lparr>estimates := update_where
                           (\<lambda>x. es_id x = pgUuid eid \<and> es_tenant x = tenantId c) mark (estimates s)\<rparr>
               in bindR (moveRO e (ids e 0) c rid [RO_estimate_pending] RO_awaiting_authorization s1) (\<lambda>s3.
                    Inr (mark est,
                      recordROEvent (ids e 1) c rid ''estimate_sent'' (byUser c)
                        [(''estimate_id'', estimateId), (''channel'', orNull (jget p ''channel''))] s3)))))))
       s"

section \<open>Recording a decision\<close>

fun isPrimitive :: "jsval \<Rightarrow> bool" where
  "isPrimitive (JArr _) = False"
| "isPrimitive (JObj _) = False"
| "isPrimitive _ = True"

fun objectKeyCount :: "jsval \<Rightarrow> nat" where
  "objectKeyCount (JObj o') = length o'"
| "objectKeyCount (JArr vs) = length vs"
| "objectKeyCount (JStr s) = length s"
| "objectKeyCount _ = 0"

record decision =
  de_method :: AuthorizationMethod
  de_approved :: "jsval list"
  de_declined :: "jsval list"
  de_evidence :: jsval
  de_language :: Language

definition decisionRequest :: "jsobj \<Rightarrow> decision result" where
  "decisionRequest p =
     bindR (requireUuid (jget p ''estimate_id'')) (\<lambda>_.
     bindR (case readAuthorizationMethod (jget p ''method'') of
              Some m \<Rightarrow> Inr m | None \<Rightarrow> Inl validation) (\<lambda>method.
     bindR (case jget p ''approved_items'' of JArr vs \<Rightarrow> Inr vs | _ \<Rightarrow> Inl validation) (\<lambda>approvedItems.
     bindR (case jget p ''declined_items'' of
              JUndef \<Rightarrow> Inr [] | JArr vs \<Rightarrow> Inr vs | _ \<Rightarrow> Inl validation) (\<lambda>declinedItems.
       let approved = distinctOf approvedItems; declined = distinctOf declinedItems in
       bindR (ensure (\<not> (approved = [] \<and> declined = [])) validation) (\<lambda>_.
       bindR (ensure (filter (\<lambda>i. isPrimitive i \<and> i \<in> set declined) approved = [])
                (ValidationError ''contradictory_decision'')) (\<lambda>_.
       bindR (ensure (\<not> (\<not> methodRequiresStepUp method
                         \<and> (\<not> truthy (jget p ''evidence_refs'')
                            \<or> objectKeyCount (jget p ''evidence_refs'') = 0)))
                (ValidationError ''evidence_required'')) (\<lambda>_.
       bindR (orDefault (jget p ''customer_language_used'') [(''en'', LANG_en), (''es'', LANG_es)] LANG_en)
         (\<lambda>language.
           Inr \<lparr>de_method = method, de_approved = approved, de_declined = declined,
                de_evidence = coalesce (jget p ''evidence_refs'') (JObj []),
                de_language = language\<rparr>))))))))"

fun methodName :: "AuthorizationMethod \<Rightarrow> string" where
  "methodName AM_portal = ''portal''"
| "methodName AM_signature = ''signature''"
| "methodName AM_staff_attestation = ''staff_attestation''"
| "methodName AM_recorded_call_ref = ''recorded_call_ref''"

fun authStatusName :: "AuthorizationStatus \<Rightarrow> string" where
  "authStatusName AU_pending = ''pending''"
| "authStatusName AU_approved = ''approved''"
| "authStatusName AU_declined = ''declined''"
| "authStatusName AU_revoked = ''revoked''"

text \<open>The estimate the decision answers: on this order, sent, and the current version.\<close>

definition decidableEstimate ::
  "auth_context \<Rightarrow> string \<Rightarrow> string \<Rightarrow> db \<Rightarrow> ro_estimate result" where
  "decidableEstimate c rid eid s =
     (case find (\<lambda>x. es_id x = eid \<and> es_ro x = rid \<and> es_tenant x = tenantId c) (estimates s) of
        None \<Rightarrow> Inl (NotFoundError ''estimate_not_found'')
      | Some est \<Rightarrow>
          bindR (ensure (es_status est \<in> {ES_sent, ES_partially_approved})
                   (ConflictError ''estimate_not_sent'')) (\<lambda>_.
          bindR (ensure (case currentEstimate c rid s of
                           Some cur \<Rightarrow> es_id cur = es_id est | None \<Rightarrow> True)
                   (ConflictError ''estimate_superseded'')) (\<lambda>_. Inr est)))"

definition decidedLines ::
  "auth_context \<Rightarrow> string \<Rightarrow> decision \<Rightarrow> db \<Rightarrow> ro_line_item list result" where
  "decidedLines c roId d s =
     bindR (assertLineItemsOnRO c roId (de_approved d @ de_declined d) s) (\<lambda>ls.
     bindR (ensure (filter (\<lambda>l. li_auth l \<noteq> LA_pending) ls = [])
              (ConflictError ''line_items_not_pending'')) (\<lambda>_. Inr ls))"

definition lineTerms :: "ro_line_item \<Rightarrow> line_terms" where
  "lineTerms l =
     \<lparr>lt_description = li_description l, lt_type = li_type l, lt_op_code = li_op_code l,
      lt_est_hours = li_est_hours l, lt_sold_hours = li_sold_hours l, lt_price = li_price l\<rparr>"

text \<open>
  Membership is tested with the ids as the caller spelled them, while the rows carry the
  lower-case form.
\<close>

definition approvedSnapshot :: "decision \<Rightarrow> ro_line_item list \<Rightarrow> (string \<times> line_terms) list" where
  "approvedSnapshot d ls =
     map (\<lambda>l. (li_id l, lineTerms l)) (filter (\<lambda>l. JStr (li_id l) \<in> set (de_approved d)) ls)"

definition uuidList :: "jsval list \<Rightarrow> string list" where
  "uuidList vs = map (\<lambda>v. pgUuid (stringOf v)) vs"

definition applyDecision ::
  "auth_context \<Rightarrow> string \<Rightarrow> string \<Rightarrow> decision \<Rightarrow> ro_line_item list \<Rightarrow> ro_line_item list" where
  "applyDecision c rid authId d rows =
     (let s1 = (if de_approved d = [] then rows
                else update_where (\<lambda>l. li_id l \<in> set (uuidList (de_approved d)) \<and> li_ro l = rid
                                     \<and> li_tenant l = tenantId c)
                       (\<lambda>l. l\<lparr>li_auth := LA_approved, li_auth_ref := Some authId\<rparr>) rows)
      in if de_declined d = [] then s1
         else update_where (\<lambda>l. li_id l \<in> set (uuidList (de_declined d)) \<and> li_ro l = rid
                                \<and> li_tenant l = tenantId c)
                (\<lambda>l. l\<lparr>li_auth := LA_declined, li_status := LI_declined, li_auth_ref := Some authId\<rparr>) s1)"

record tally =
  ta_approved :: nat
  ta_declined :: nat
  ta_pending :: nat

definition countLines :: "(ro_line_item \<Rightarrow> bool) \<Rightarrow> ro_line_item list \<Rightarrow> nat" where
  "countLines P ls = length (filter P ls)"

text \<open>
  Over the lines of the estimate; over the whole repair order, cancelled lines included,
  when no line carries the estimate.
\<close>

definition decisionTally :: "auth_context \<Rightarrow> string \<Rightarrow> string \<Rightarrow> db \<Rightarrow> tally" where
  "decisionTally c rid eid s =
     (let mine = linesOf c rid s; scoped = filter (\<lambda>l. li_estimate l = Some eid) mine in
      if length scoped > 0
      then \<lparr>ta_approved = countLines (\<lambda>l. li_auth l = LA_approved) scoped,
            ta_declined = countLines (\<lambda>l. li_auth l = LA_declined) scoped,
            ta_pending = countLines (\<lambda>l. li_auth l = LA_pending \<and> li_status l \<noteq> LI_canceled) scoped\<rparr>
      else \<lparr>ta_approved = countLines (\<lambda>l. li_auth l = LA_approved) mine,
            ta_declined = countLines (\<lambda>l. li_auth l = LA_declined) mine,
            ta_pending = countLines (\<lambda>l. li_auth l = LA_pending) mine\<rparr>)"

definition tallyStatus :: "tally \<Rightarrow> EstimateStatus" where
  "tallyStatus t = deriveEstimateStatus (ta_approved t) (ta_declined t) (ta_pending t)"

definition recordDecision ::
  "env \<Rightarrow> auth_context \<Rightarrow> string \<Rightarrow> string \<Rightarrow> decision \<Rightarrow> ro_line_item list \<Rightarrow> db
   \<Rightarrow> ro_authorization \<times> db" where
  "recordDecision e c rid eid d ls s =
     (let authStatus = deriveAuthorizationStatus (de_approved d) (de_declined d);
          auth = \<lparr>au_id = ids e 0, au_tenant = tenantId c, au_ro = rid, au_estimate = eid,
                  au_method = de_method d, au_status = authStatus,
                  au_approved = uuidList (de_approved d), au_declined = uuidList (de_declined d),
                  au_evidence = de_evidence d, au_language = de_language d,
                  au_snapshot = approvedSnapshot d ls, au_authorized_at = now e\<rparr>;
          s1 = s\<lparr>authorizations := authorizations s @ [auth],
                 line_items := applyDecision c rid (ids e 0) d (line_items s)\<rparr>;
          status = tallyStatus (decisionTally c rid eid s1);
          s2 = s1\<lparr>estimates := update_where (\<lambda>x. es_id x = eid \<and> es_tenant x = tenantId c)
                                (\<lambda>x. x\<lparr>es_status := status\<rparr>) (estimates s1)\<rparr>
      in (auth,
          recordROEvent (ids e 1) c rid ''authorization_received'' (byUser c)
            [(''authorization_id'', JStr (ids e 0)), (''method'', JStr (methodName (de_method d))),
             (''status'', JStr (authStatusName authStatus)),
             (''approved'', JNum (Fin (of_nat (length (de_approved d))))),
             (''declined'', JNum (Fin (of_nat (length (de_declined d)))))] s2))"

definition authorizationBody ::
  "env \<Rightarrow> auth_context \<Rightarrow> jsval \<Rightarrow> jsobj \<Rightarrow> ro_authorization tx" where
  "authorizationBody e c roId p s =
     bindR (decisionRequest p) (\<lambda>d.
     bindR (assertRO c roId s) (\<lambda>_.
       let rid = pgUuid (stringOf roId); eid = pgUuid (stringOf (jget p ''estimate_id'')) in
       bindR (if methodRequiresStepUp (de_method d)
              then consumeSensitiveActionGrant e (jget p ''step_up_token'') c
                     (''service.ro.authorization.record:'' @ methodName (de_method d)) (stringOf roId) s
              else Inr ((), s)) (\<lambda>(_, s1).
       bindR (decidableEstimate c rid eid s1) (\<lambda>_.
       bindR (decidedLines c (stringOf roId) d s1) (\<lambda>ls.
         Inr (recordDecision e c rid eid d ls s1))))))"

definition recordAuthorization ::
  "env \<Rightarrow> auth_context \<Rightarrow> jsval \<Rightarrow> jsobj \<Rightarrow> db \<Rightarrow> ro_authorization result \<times> db" where
  "recordAuthorization e c roId p s =
     andAudit (\<lambda>a. emitAudit e c ''authorization.recorded'' ''ro_authorization'' (au_id a))
       (withTransaction (authorizationBody e c roId p) s)"

end
