(* ===== verification/CockpitShop.thy ===== *)
theory CockpitShop
  imports CockpitOrders
begin

text \<open>
  The shop floor (subdomains POS2, SOS2, TDTS2, WPCS2 and QCS2 of
  service-cockpit-service.ts): parts, sublet jobs, technician dispatch and time, warranty
  claims and comeback cases.
\<close>

section \<open>Parts\<close>

definition PART_STATUSES :: "(string \<times> PartStatus) list" where
  "PART_STATUSES = [(''requested'', PA_requested), (''ordered'', PA_ordered),
     (''backordered'', PA_backordered), (''received'', PA_received), (''picked'', PA_picked),
     (''installed'', PA_installed), (''canceled'', PA_canceled)]"

fun isPositiveNumber :: "jsval \<Rightarrow> bool" where
  "isPositiveNumber (JNum n) = (\<not> numLe0 n)"
| "isPositiveNumber _ = False"

definition requestPart ::
  "env \<Rightarrow> auth_context \<Rightarrow> jsval \<Rightarrow> jsobj \<Rightarrow> db \<Rightarrow> ro_parts_line result \<times> db" where
  "requestPart e c roId p s =
     withTransaction (\<lambda>s.
       bindR (ensure (isNonBlankString (jget p ''part_number'')) validation) (\<lambda>_.
       bindR (ensure (isNonBlankString (jget p ''description'')) validation) (\<lambda>_.
         let quantity = coalesce (jget p ''quantity'') (JNum (Fin 1)) in
         bindR (ensure (isPositiveNumber quantity) validation) (\<lambda>_.
         bindR (assertRO c roId s) (\<lambda>_.
         bindR (assertLineItem c (stringOf roId) (jget p ''line_item_id'') s) (\<lambda>_.
           let part = \<lparr>pl_id = ids e 0, pl_tenant = tenantId c, pl_ro = pgUuid (stringOf roId),
                       pl_line = pgUuid (stringOf (jget p ''line_item_id'')),
                       pl_part_number = stringOf (jget p ''part_number''),
                       pl_description = stringOf (jget p ''description''), pl_quantity = quantity,
                       pl_status = PA_requested, pl_eta = None, pl_supplier = JNull,
                       pl_received_at = None\<rparr>
           in Inr (part, s\<lparr>parts_lines := parts_lines s @ [part]\<rparr>))))))) s"

definition arrived :: "PartStatus \<Rightarrow> bool" where
  "arrived st = (st \<in> {PA_received, PA_picked, PA_installed})"

definition setPartLine ::
  "env \<Rightarrow> PartStatus option \<Rightarrow> int option \<Rightarrow> jsval \<Rightarrow> ro_parts_line \<Rightarrow> ro_parts_line" where
  "setPartLine e status eta supplier l =
     (let l1 = (case status of
                  None \<Rightarrow> l
                | Some st \<Rightarrow>
                    (let l0 = l\<lparr>pl_status := st\<rparr> in
                     if arrived st
                     then l0\<lparr>pl_received_at := (case pl_received_at l of Some t \<Rightarrow> Some t
                                                | None \<Rightarrow> Some (now e))\<rparr>
                     else l0));
          l2 = (case eta of None \<Rightarrow> l1 | Some t \<Rightarrow> l1\<lparr>pl_eta := Some t\<rparr>)
      in if supplier = JUndef then l2 else l2\<lparr>pl_supplier := supplier\<rparr>)"

definition updatePartLine ::
  "env \<Rightarrow> auth_context \<Rightarrow> jsval \<Rightarrow> jsobj \<Rightarrow> db \<Rightarrow> ro_parts_line result \<times> db" where
  "updatePartLine e c partLineId updates s =
     withTransaction (\<lambda>s.
       bindR (requireUuid partLineId) (\<lambda>pid.
       bindR (if jget updates ''status'' = JUndef then Inr None
              else bindR (requireOneOf (jget updates ''status'') PART_STATUSES) (\<lambda>st. Inr (Some st)))
         (\<lambda>status.
       bindR (if jget updates ''eta'' = JUndef then Inr None
              else (case dateParse e (jget updates ''eta'') of
                      Some t \<Rightarrow> Inr (Some t) | None \<Rightarrow> Inl validation)) (\<lambda>eta.
         let supplier = jget updates ''supplier_ref'';
             here = (\<lambda>l. pl_id l = pgUuid pid \<and> pl_tenant l = tenantId c);
             write = setPartLine e status eta supplier
         in if status = None \<and> eta = None \<and> supplier = JUndef then Inl validation
            else case find here (parts_lines s) of
                   None \<Rightarrow> Inl (NotFoundError ''not_found'')
                 | Some l \<Rightarrow> Inr (write l, s\<lparr>parts_lines := update_where here write (parts_lines s)\<rparr>))))) s"

section \<open>Sublet jobs\<close>

definition SUBLET_STATUSES :: "(string \<times> SubletStatus) list" where
  "SUBLET_STATUSES = [(''requested'', SJ_requested), (''sent'', SJ_sent),
     (''in_progress'', SJ_in_progress), (''returned'', SJ_returned), (''verified'', SJ_verified),
     (''canceled'', SJ_canceled)]"

fun isObject :: "jsval \<Rightarrow> bool" where
  "isObject (JObj _) = True"
| "isObject (JArr _) = True"
| "isObject _ = False"

definition createSubletJob ::
  "env \<Rightarrow> auth_context \<Rightarrow> jsval \<Rightarrow> jsobj \<Rightarrow> db \<Rightarrow> ro_sublet_job result \<times> db" where
  "createSubletJob e c roId p s =
     withTransaction (\<lambda>s.
       bindR (ensure (isObject (jget p ''vendor_ref'')) validation) (\<lambda>_.
       bindR (if jget p ''expected_return_at'' = JUndef then Inr None
              else (case dateParse e (jget p ''expected_return_at'') of
                      Some t \<Rightarrow> Inr (Some t) | None \<Rightarrow> Inl validation)) (\<lambda>expected.
       bindR (assertRO c roId s) (\<lambda>_.
       bindR (assertLineItem c (stringOf roId) (jget p ''line_item_id'') s) (\<lambda>_.
         let job = \<lparr>sj_id = ids e 0, sj_tenant = tenantId c, sj_ro = pgUuid (stringOf roId),
                    sj_line = pgUuid (stringOf (jget p ''line_item_id'')),
                    sj_vendor = jget p ''vendor_ref'', sj_expected = expected,
                    sj_status = SJ_requested, sj_invoice = JNull\<rparr>
         in Inr (job, s\<lparr>sublet_jobs := sublet_jobs s @ [job]\<rparr>)))))) s"

definition updateSubletJob ::
  "auth_context \<Rightarrow> jsval \<Rightarrow> jsobj \<Rightarrow> db \<Rightarrow> ro_sublet_job result \<times> db" where
  "updateSubletJob c subletJobId updates s =
     withTransaction (\<lambda>s.
       bindR (requireUuid subletJobId) (\<lambda>jid.
       bindR (if jget updates ''status'' = JUndef then Inr None
              else bindR (requireOneOf (jget updates ''status'') SUBLET_STATUSES) (\<lambda>st. Inr (Some st)))
         (\<lambda>status.
         let invoice = jget updates ''invoice_artifact_ref'';
             here = (\<lambda>j. sj_id j = pgUuid jid \<and> sj_tenant j = tenantId c);
             write = (\<lambda>j. j\<lparr>sj_status := (case status of Some st \<Rightarrow> st | None \<Rightarrow> sj_status j),
                           sj_invoice := (if invoice = JUndef then sj_invoice j else invoice)\<rparr>)
         in if status = None \<and> invoice = JUndef then Inl validation
            else case find here (sublet_jobs s) of
                   None \<Rightarrow> Inl (NotFoundError ''not_found'')
                 | Some j \<Rightarrow> Inr (write j, s\<lparr>sublet_jobs := update_where here write (sublet_jobs s)\<rparr>)))) s"

section \<open>Dispatch and time\<close>

definition TICKET_STATUSES :: "(string \<times> TicketStatus) list" where
  "TICKET_STATUSES = [(''assigned'', TK_assigned), (''started'', TK_started),
     (''paused'', TK_paused), (''completed'', TK_completed), (''reassigned'', TK_reassigned),
     (''canceled'', TK_canceled)]"

definition TIME_EVENT_TYPES :: "(string \<times> TimeEvent) list" where
  "TIME_EVENT_TYPES = [(''start'', TE_start), (''pause'', TE_pause), (''resume'', TE_resume),
     (''stop'', TE_stop)]"

definition liveTicket :: "TicketStatus \<Rightarrow> bool" where
  "liveTicket st = (st \<in> {TK_assigned, TK_started, TK_paused})"

definition dispatchTech ::
  "env \<Rightarrow> auth_context \<Rightarrow> jsobj \<Rightarrow> db \<Rightarrow> tech_work_ticket result \<times> db" where
  "dispatchTech e c p s =
     withTransaction (\<lambda>s.
       bindR (requireUuid (jget p ''tech_user_id'')) (\<lambda>tech.
       bindR (assertRO c (jget p ''ro_id'') s) (\<lambda>ro.
       bindR (assertLineItem c (stringOf (jget p ''ro_id'')) (jget p ''line_item_id'') s) (\<lambda>_.
       bindR (ensure (list_ex (\<lambda>t. tp_tenant t = tenantId c \<and> tp_user t = pgUuid tech
                                   \<and> tp_location t = ro_location ro \<and> tp_active t) (tech_profiles s))
                (ValidationError ''tech_not_available'')) (\<lambda>_.
         let lid = pgUuid (stringOf (jget p ''line_item_id''));
             s1 = s\<lparr>tickets := update_where
                     (\<lambda>t. tk_line t = lid \<and> tk_tenant t = tenantId c \<and> liveTicket (tk_status t))
                     (\<lambda>t. t\<lparr>tk_status := TK_reassigned\<rparr>) (tickets s)\<rparr>;
             ticket = \<lparr>tk_id = ids e 0, tk_tenant = tenantId c,
                       tk_ro = pgUuid (stringOf (jget p ''ro_id'')), tk_line = lid,
                       tk_tech = pgUuid tech, tk_status = TK_assigned, tk_pause_reason = JNull\<rparr>;
             s2 = s1\<lparr>tickets := tickets s1 @ [ticket]\<rparr>
         in Inr (ticket,
              s2\<lparr>line_items := update_where (\<lambda>l. li_id l = lid \<and> li_tenant l = tenantId c)
                    (\<lambda>l. l\<lparr>li_tech := Some (pgUuid tech)\<rparr>) (line_items s2)\<rparr>)))))) s"

definition assertOwnTicket :: "auth_context \<Rightarrow> jsval \<Rightarrow> db \<Rightarrow> tech_work_ticket result" where
  "assertOwnTicket c ticketId s =
     bindR (requireUuid ticketId) (\<lambda>tid.
       case find (\<lambda>t. tk_id t = pgUuid tid \<and> tk_tenant t = tenantId c) (tickets s) of
         None \<Rightarrow> Inl (NotFoundError ''not_found'')
       | Some t \<Rightarrow>
           if \<not> supervises c \<and> tk_tech t \<noteq> userId c then Inl (ForbiddenError ''not_ticket_assignee'')
           else Inr t)"

definition updateTicketStatus ::
  "auth_context \<Rightarrow> jsval \<Rightarrow> jsobj \<Rightarrow> db \<Rightarrow> tech_work_ticket result \<times> db" where
  "updateTicketStatus c ticketId p s =
     withTransaction (\<lambda>s.
       bindR (requireOneOf (jget p ''status'') TICKET_STATUSES) (\<lambda>status.
       bindR (assertOwnTicket c ticketId s) (\<lambda>ticket.
       bindR (ensure (tk_status ticket \<notin> {TK_completed, TK_reassigned, TK_canceled})
                (ConflictError ''ticket_closed'')) (\<lambda>_.
         let here = (\<lambda>t. tk_id t = pgUuid (stringOf ticketId) \<and> tk_tenant t = tenantId c);
             reason = jget p ''pause_reason'';
             write = (\<lambda>t. t\<lparr>tk_status := status,
                           tk_pause_reason := (if reason \<noteq> JUndef then reason
                              else if status \<noteq> TK_paused then JNull else tk_pause_reason t)\<rparr>)
         in Inr (write ticket, s\<lparr>tickets := update_where here write (tickets s)\<rparr>))))) s"

fun allowedNext :: "TimeEvent option \<Rightarrow> TimeEvent list" where
  "allowedNext None = [TE_start]"
| "allowedNext (Some TE_start) = [TE_pause, TE_stop]"
| "allowedNext (Some TE_resume) = [TE_pause, TE_stop]"
| "allowedNext (Some TE_pause) = [TE_resume, TE_stop]"
| "allowedNext (Some TE_stop) = [TE_start]"

definition occurredAt :: "env \<Rightarrow> jsval \<Rightarrow> int result" where
  "occurredAt e v =
     (if v = JUndef then Inr (now e)
      else (case dateParse e v of
              None \<Rightarrow> Inl validation
            | Some t \<Rightarrow> if t > now e + 60000 then Inl validation else Inr t))"

definition recordTimeEntry ::
  "env \<Rightarrow> auth_context \<Rightarrow> jsval \<Rightarrow> jsobj \<Rightarrow> db \<Rightarrow> tech_time_entry result \<times> db" where
  "recordTimeEntry e c ticketId p s =
     withTransaction (\<lambda>s.
       bindR (requireOneOf (jget p ''event_type'') TIME_EVENT_TYPES) (\<lambda>eventType.
       bindR (occurredAt e (jget p ''occurred_at'')) (\<lambda>t.
       bindR (assertOwnTicket c ticketId s) (\<lambda>ticket.
         let tid = pgUuid (stringOf ticketId);
             prev = lastRow (filter (\<lambda>x. te_ticket x = tid \<and> te_tenant x = tenantId c) (time_entries s))
         in bindR (ensure (case prev of Some x \<Rightarrow> \<not> t < te_at x | None \<Rightarrow> True)
                     (ConflictError ''invalid_time_sequence'')) (\<lambda>_.
            bindR (ensure (eventType \<in> set (allowedNext (map_option te_event prev)))
                     (ConflictError ''invalid_time_sequence'')) (\<lambda>_.
              let entry = \<lparr>te_id = ids e 0, te_tenant = tenantId c, te_ticket = tid,
                           te_tech = tk_tech ticket, te_event = eventType, te_at = t\<rparr>
              in Inr (entry, s\<lparr>time_entries := time_entries s @ [entry]\<rparr>))))))) s"

section \<open>Warranty claims and comebacks\<close>

definition createWarrantyClaim ::
  "env \<Rightarrow> auth_context \<Rightarrow> jsobj \<Rightarrow> db \<Rightarrow> warranty_claim result \<times> db" where
  "createWarrantyClaim e c p s =
     withTransaction (\<lambda>s.
       bindR (assertRO c (jget p ''ro_id'') s) (\<lambda>_.
         let claim = \<lparr>wc_id = ids e 0, wc_tenant = tenantId c,
                      wc_ro = pgUuid (stringOf (jget p ''ro_id'')),
                      wc_evidence = coalesce (jget p ''evidence_refs'') (JObj []),
                      wc_provider = (if truthy (jget p ''provider_ref'') then jget p ''provider_ref''
                                     else JNull)\<rparr>
         in Inr (claim, s\<lparr>warranty_claims := warranty_claims s @ [claim]\<rparr>))) s"

definition COMEBACK_SEVERITIES :: "(string \<times> ComebackSeverity) list" where
  "COMEBACK_SEVERITIES = [(''sev0'', CS_sev0), (''sev1'', CS_sev1), (''sev2'', CS_sev2), (''sev3'', CS_sev3)]"

definition COMEBACK_STATUSES :: "(string \<times> ComebackStatus) list" where
  "COMEBACK_STATUSES = [(''open'', CB_open), (''in_progress'', CB_in_progress),
     (''resolved'', CB_resolved), (''canceled'', CB_canceled)]"

definition COMEBACK_ROOT_CAUSES :: "(string \<times> RootCause) list" where
  "COMEBACK_ROOT_CAUSES = [(''workmanship'', RT_workmanship), (''parts_failure'', RT_parts_failure),
     (''misdiagnosis'', RT_misdiagnosis), (''incomplete_repair'', RT_incomplete_repair),
     (''customer_expectation'', RT_customer_expectation), (''vendor_sublet'', RT_vendor_sublet),
     (''unrelated'', RT_unrelated)]"

text \<open>The two repair orders are locked in string order, which decides which miss is reported.\<close>

definition lockBoth :: "auth_context \<Rightarrow> jsval \<Rightarrow> jsval \<Rightarrow> db \<Rightarrow> unit result" where
  "lockBoth c a b s =
     (let pair = (if strLess (stringOf b) (stringOf a) then (b, a) else (a, b)) in
      bindR (assertRO c (fst pair) s) (\<lambda>_. bindR (assertRO c (snd pair) s) (\<lambda>_. Inr ())))"

definition comebackBody ::
  "env \<Rightarrow> auth_context \<Rightarrow> jsval \<Rightarrow> jsval \<Rightarrow> RootCause \<Rightarrow> string list \<Rightarrow> ComebackSeverity
   \<Rightarrow> comeback_case tx" where
  "comebackBody e c originalId newId cause reasons severity s =
     bindR (lockBoth c originalId newId s) (\<lambda>_.
     bindR (assertRO c originalId s) (\<lambda>original.
     bindR (ensure (ro_status original = RO_closed) (ConflictError ''original_ro_not_closed'')) (\<lambda>_.
       let oid = pgUuid (stringOf originalId); nid = pgUuid (stringOf newId) in
       bindR (ensure (oid \<noteq> nid) (DatabaseError ''comeback_distinct_ros'')) (\<lambda>_.
         let cb = \<lparr>cb_id = ids e 0, cb_tenant = tenantId c, cb_original = oid, cb_new = nid,
                   cb_cause = cause, cb_reasons = reasons, cb_severity = severity,
                   cb_status = CB_open\<rparr>;
             s1 = s\<lparr>comebacks := comebacks s @ [cb]\<rparr>
         in bindR (moveRO e (ids e 1) c oid [RO_closed] RO_comeback s1) (\<lambda>s3.
              Inr (cb,
                recordROEvent (ids e 3) c nid ''comeback_linked'' (byUser c)
                  [(''comeback_id'', JStr (ids e 0)), (''original_ro_id'', originalId)]
                 (recordROEvent (ids e 2) c oid ''comeback_opened'' (byUser c)
                  [(''comeback_id'', JStr (ids e 0)), (''new_ro_id'', newId)] s3)))))))"

definition createComebackCase ::
  "env \<Rightarrow> auth_context \<Rightarrow> jsobj \<Rightarrow> db \<Rightarrow> comeback_case result \<times> db" where
  "createComebackCase e c p s =
     andAudit (\<lambda>cb. emitAudit e c ''comeback.created'' ''comeback_case'' (cb_id cb))
      (withTransaction (\<lambda>s.
        bindR (ensure (jget p ''original_ro_id'' \<noteq> jget p ''new_ro_id'') validation) (\<lambda>_.
        bindR (requireOneOf (jget p ''root_cause_category'') COMEBACK_ROOT_CAUSES) (\<lambda>cause.
        bindR (if jget p ''reason_codes'' = JUndef then Inr []
               else requireStringArray (jget p ''reason_codes'')) (\<lambda>reasons.
        bindR (orDefault (jget p ''severity'') COMEBACK_SEVERITIES CS_sev2) (\<lambda>severity.
          comebackBody e c (jget p ''original_ro_id'') (jget p ''new_ro_id'') cause reasons severity s))))) s)"

definition updateComebackCase ::
  "auth_context \<Rightarrow> jsval \<Rightarrow> jsobj \<Rightarrow> db \<Rightarrow> comeback_case result \<times> db" where
  "updateComebackCase c comebackId updates s =
     withTransaction (\<lambda>s.
       bindR (requireUuid comebackId) (\<lambda>cid.
       bindR (requireOneOf (jget updates ''status'') COMEBACK_STATUSES) (\<lambda>status.
         let here = (\<lambda>x. cb_id x = pgUuid cid \<and> cb_tenant x = tenantId c);
             write = (\<lambda>x. x\<lparr>cb_status := status\<rparr>)
         in case find here (comebacks s) of
              None \<Rightarrow> Inl (NotFoundError ''not_found'')
            | Some x \<Rightarrow> Inr (write x, s\<lparr>comebacks := update_where here write (comebacks s)\<rparr>)))) s"

end
