(* ===== verification/CockpitTenancy.thy ===== *)
theory CockpitTenancy
  imports CockpitScheduling CockpitInspection CockpitEstimates CockpitShop
begin

text \<open>
  Tenancy.  Every row names its tenant, and the service promises that a request reads and
  writes the rows of the caller's tenant only.  \<open>restrict Q s\<close> keeps the rows of the tenants
  \<open>Q\<close> accepts.  An operation is tenant-scoped when running it on the caller's rows alone gives
  the same answer and the same rows, and when it leaves every other tenant's rows as they
  were; the locale states this contract, and the interpretation in CockpitService discharges
  it for the whole service.
\<close>

section \<open>The rows of some tenants\<close>

definition restrict :: "(string \<Rightarrow> bool) \<Rightarrow> db \<Rightarrow> db" where
  "restrict Q s = \<lparr>
     appointments = filter (\<lambda>r. Q (ap_tenant r)) (appointments s),
     appointment_events = filter (\<lambda>r. Q (ae_tenant r)) (appointment_events s),
     repair_orders = filter (\<lambda>r. Q (ro_tenant r)) (repair_orders s),
     ro_events = filter (\<lambda>r. Q (re_tenant r)) (ro_events s),
     line_items = filter (\<lambda>r. Q (li_tenant r)) (line_items s),
     mpi_templates = filter (\<lambda>r. Q (mt_tenant r)) (mpi_templates s),
     mpi_sessions = filter (\<lambda>r. Q (ms_tenant r)) (mpi_sessions s),
     mpi_results = filter (\<lambda>r. Q (mr_tenant r)) (mpi_results s),
     recommendations = filter (\<lambda>r. Q (rc_tenant r)) (recommendations s),
     estimates = filter (\<lambda>r. Q (es_tenant r)) (estimates s),
     authorizations = filter (\<lambda>r. Q (au_tenant r)) (authorizations s),
     parts_lines = filter (\<lambda>r. Q (pl_tenant r)) (parts_lines s),
     sublet_jobs = filter (\<lambda>r. Q (sj_tenant r)) (sublet_jobs s),
     tech_profiles = filter (\<lambda>r. Q (tp_tenant r)) (tech_profiles s),
     tickets = filter (\<lambda>r. Q (tk_tenant r)) (tickets s),
     time_entries = filter (\<lambda>r. Q (te_tenant r)) (time_entries s),
     warranty_claims = filter (\<lambda>r. Q (wc_tenant r)) (warranty_claims s),
     comebacks = filter (\<lambda>r. Q (cb_tenant r)) (comebacks s),
     queue_items = filter (\<lambda>r. Q (qi_tenant r)) (queue_items s),
     portal_tasks = filter (\<lambda>r. Q (pt_tenant r)) (portal_tasks s),
     waitlist = filter (\<lambda>r. Q (wl_tenant r)) (waitlist s),
     offers = filter (\<lambda>r. Q (fo_tenant r)) (offers s),
     sla_defaults = filter (\<lambda>r. Q (sd_tenant r)) (sla_defaults s),
     grants = filter (\<lambda>r. Q (rg_tenant r)) (grants s),
     audit = filter (\<lambda>r. Q (ev_tenant r)) (audit s)\<rparr>"

lemma restrict_sel [simp]:
  "appointments (restrict Q s) = filter (\<lambda>r. Q (ap_tenant r)) (appointments s)"
  "appointment_events (restrict Q s) = filter (\<lambda>r. Q (ae_tenant r)) (appointment_events s)"
  "repair_orders (restrict Q s) = filter (\<lambda>r. Q (ro_tenant r)) (repair_orders s)"
  "ro_events (restrict Q s) = filter (\<lambda>r. Q (re_tenant r)) (ro_events s)"
  "line_items (restrict Q s) = filter (\<lambda>r. Q (li_tenant r)) (line_items s)"
  "mpi_templates (restrict Q s) = filter (\<lambda>r. Q (mt_tenant r)) (mpi_templates s)"
  "mpi_sessions (restrict Q s) = filter (\<lambda>r. Q (ms_tenant r)) (mpi_sessions s)"
  "mpi_results (restrict Q s) = filter (\<lambda>r. Q (mr_tenant r)) (mpi_results s)"
  "recommendations (restrict Q s) = filter (\<lambda>r. Q (rc_tenant r)) (recommendations s)"
  "estimates (restrict Q s) = filter (\<lambda>r. Q (es_tenant r)) (estimates s)"
  "authorizations (restrict Q s) = filter (\<lambda>r. Q (au_tenant r)) (authorizations s)"
  "parts_lines (restrict Q s) = filter (\<lambda>r. Q (pl_tenant r)) (parts_lines s)"
  "sublet_jobs (restrict Q s) = filter (\<lambda>r. Q (sj_tenant r)) (sublet_jobs s)"
  "tech_profiles (restrict Q s) = filter (\<lambda>r. Q (tp_tenant r)) (tech_profiles s)"
  "tickets (restrict Q s) = filter (\<lambda>r. Q (tk_tenant r)) (tickets s)"
  "time_entries (restrict Q s) = filter (\<lambda>r. Q (te_tenant r)) (time_entries s)"
  "warranty_claims (restrict Q s) = filter (\<lambda>r. Q (wc_tenant r)) (warranty_claims s)"
  "comebacks (restrict Q s) = filter (\<lambda>r. Q (cb_tenant r)) (comebacks s)"
  "queue_items (restrict Q s) = filter (\<lambda>r. Q (qi_tenant r)) (queue_items s)"
  "portal_tasks (restrict Q s) = filter (\<lambda>r. Q (pt_tenant r)) (portal_tasks s)"
  "waitlist (restrict Q s) = filter (\<lambda>r. Q (wl_tenant r)) (waitlist s)"
  "offers (restrict Q s) = filter (\<lambda>r. Q (fo_tenant r)) (offers s)"
  "sla_defaults (restrict Q s) = filter (\<lambda>r. Q (sd_tenant r)) (sla_defaults s)"
  "grants (restrict Q s) = filter (\<lambda>r. Q (rg_tenant r)) (grants s)"
  "audit (restrict Q s) = filter (\<lambda>r. Q (ev_tenant r)) (audit s)"
  by (simp_all add: restrict_def)

lemma restrict_upd [simp]:
  "restrict Q (s\<lparr>appointments := x0\<rparr>) = (restrict Q s)\<lparr>appointments := filter (\<lambda>r. Q (ap_tenant r)) x0\<rparr>"
  "restrict Q (s\<lparr>appointment_events := x1\<rparr>) = (restrict Q s)\<lparr>appointment_events := filter (\<lambda>r. Q (ae_tenant r)) x1\<rparr>"
  "restrict Q (s\<lparr>repair_orders := x2\<rparr>) = (restrict Q s)\<lparr>repair_orders := filter (\<lambda>r. Q (ro_tenant r)) x2\<rparr>"
  "restrict Q (s\<lparr>ro_events := x3\<rparr>) = (restrict Q s)\<lparr>ro_events := filter (\<lambda>r. Q (re_tenant r)) x3\<rparr>"
  "restrict Q (s\<lparr>line_items := x4\<rparr>) = (restrict Q s)\<lparr>line_items := filter (\<lambda>r. Q (li_tenant r)) x4\<rparr>"
  "restrict Q (s\<lparr>mpi_templates := x5\<rparr>) = (restrict Q s)\<lparr>mpi_templates := filter (\<lambda>r. Q (mt_tenant r)) x5\<rparr>"
  "restrict Q (s\<lparr>mpi_sessions := x6\<rparr>) = (restrict Q s)\<lparr>mpi_sessions := filter (\<lambda>r. Q (ms_tenant r)) x6\<rparr>"
  "restrict Q (s\<lparr>mpi_results := x7\<rparr>) = (restrict Q s)\<lparr>mpi_results := filter (\<lambda>r. Q (mr_tenant r)) x7\<rparr>"
  "restrict Q (s\<lparr>recommendations := x8\<rparr>) = (restrict Q s)\<lparr>recommendations := filter (\<lambda>r. Q (rc_tenant r)) x8\<rparr>"
  "restrict Q (s\<lparr>estimates := x9\<rparr>) = (restrict Q s)\<lparr>estimates := filter (\<lambda>r. Q (es_tenant r)) x9\<rparr>"
  "restrict Q (s\<lparr>authorizations := x10\<rparr>) = (restrict Q s)\<lparr>authorizations := filter (\<lambda>r. Q (au_tenant r)) x10\<rparr>"
  "restrict Q (s\<lparr>parts_lines := x11\<rparr>) = (restrict Q s)\<lparr>parts_lines := filter (\<lambda>r. Q (pl_tenant r)) x11\<rparr>"
  "restrict Q (s\<lparr>sublet_jobs := x12\<rparr>) = (restrict Q s)\<lparr>sublet_jobs := filter (\<lambda>r. Q (sj_tenant r)) x12\<rparr>"
  "restrict Q (s\<lparr>tech_profiles := x13\<rparr>) = (restrict Q s)\<lparr>tech_profiles := filter (\<lambda>r. Q (tp_tenant r)) x13\<rparr>"
  "restrict Q (s\<lparr>tickets := x14\<rparr>) = (restrict Q s)\<lparr>tickets := filter (\<lambda>r. Q (tk_tenant r)) x14\<rparr>"
  "restrict Q (s\<lparr>time_entries := x15\<rparr>) = (restrict Q s)\<lparr>time_entries := filter (\<lambda>r. Q (te_tenant r)) x15\<rparr>"
  "restrict Q (s\<lparr>warranty_claims := x16\<rparr>) = (restrict Q s)\<lparr>warranty_claims := filter (\<lambda>r. Q (wc_tenant r)) x16\<rparr>"
  "restrict Q (s\<lparr>comebacks := x17\<rparr>) = (restrict Q s)\<lparr>comebacks := filter (\<lambda>r. Q (cb_tenant r)) x17\<rparr>"
  "restrict Q (s\<lparr>queue_items := x18\<rparr>) = (restrict Q s)\<lparr>queue_items := filter (\<lambda>r. Q (qi_tenant r)) x18\<rparr>"
  "restrict Q (s\<lparr>portal_tasks := x19\<rparr>) = (restrict Q s)\<lparr>portal_tasks := filter (\<lambda>r. Q (pt_tenant r)) x19\<rparr>"
  "restrict Q (s\<lparr>waitlist := x20\<rparr>) = (restrict Q s)\<lparr>waitlist := filter (\<lambda>r. Q (wl_tenant r)) x20\<rparr>"
  "restrict Q (s\<lparr>offers := x21\<rparr>) = (restrict Q s)\<lparr>offers := filter (\<lambda>r. Q (fo_tenant r)) x21\<rparr>"
  "restrict Q (s\<lparr>sla_defaults := x22\<rparr>) = (restrict Q s)\<lparr>sla_defaults := filter (\<lambda>r. Q (sd_tenant r)) x22\<rparr>"
  "restrict Q (s\<lparr>grants := x23\<rparr>) = (restrict Q s)\<lparr>grants := filter (\<lambda>r. Q (rg_tenant r)) x23\<rparr>"
  "restrict Q (s\<lparr>audit := x24\<rparr>) = (restrict Q s)\<lparr>audit := filter (\<lambda>r. Q (ev_tenant r)) x24\<rparr>"
  by (simp_all add: restrict_def)

lemma restrict_upd_same [simp]:
  "(restrict Q s)\<lparr>appointments := filter (\<lambda>r. Q (ap_tenant r)) (appointments s)\<rparr> = restrict Q s"
  "(restrict Q s)\<lparr>appointment_events := filter (\<lambda>r. Q (ae_tenant r)) (appointment_events s)\<rparr> = restrict Q s"
  "(restrict Q s)\<lparr>repair_orders := filter (\<lambda>r. Q (ro_tenant r)) (repair_orders s)\<rparr> = restrict Q s"
  "(restrict Q s)\<lparr>ro_events := filter (\<lambda>r. Q (re_tenant r)) (ro_events s)\<rparr> = restrict Q s"
  "(restrict Q s)\<lparr>line_items := filter (\<lambda>r. Q (li_tenant r)) (line_items s)\<rparr> = restrict Q s"
  "(restrict Q s)\<lparr>mpi_templates := filter (\<lambda>r. Q (mt_tenant r)) (mpi_templates s)\<rparr> = restrict Q s"
  "(restrict Q s)\<lparr>mpi_sessions := filter (\<lambda>r. Q (ms_tenant r)) (mpi_sessions s)\<rparr> = restrict Q s"
  "(restrict Q s)\<lparr>mpi_results := filter (\<lambda>r. Q (mr_tenant r)) (mpi_results s)\<rparr> = restrict Q s"
  "(restrict Q s)\<lparr>recommendations := filter (\<lambda>r. Q (rc_tenant r)) (recommendations s)\<rparr> = restrict Q s"
  "(restrict Q s)\<lparr>estimates := filter (\<lambda>r. Q (es_tenant r)) (estimates s)\<rparr> = restrict Q s"
  "(restrict Q s)\<lparr>authorizations := filter (\<lambda>r. Q (au_tenant r)) (authorizations s)\<rparr> = restrict Q s"
  "(restrict Q s)\<lparr>parts_lines := filter (\<lambda>r. Q (pl_tenant r)) (parts_lines s)\<rparr> = restrict Q s"
  "(restrict Q s)\<lparr>sublet_jobs := filter (\<lambda>r. Q (sj_tenant r)) (sublet_jobs s)\<rparr> = restrict Q s"
  "(restrict Q s)\<lparr>tech_profiles := filter (\<lambda>r. Q (tp_tenant r)) (tech_profiles s)\<rparr> = restrict Q s"
  "(restrict Q s)\<lparr>tickets := filter (\<lambda>r. Q (tk_tenant r)) (tickets s)\<rparr> = restrict Q s"
  "(restrict Q s)\<lparr>time_entries := filter (\<lambda>r. Q (te_tenant r)) (time_entries s)\<rparr> = restrict Q s"
  "(restrict Q s)\<lparr>warranty_claims := filter (\<lambda>r. Q (wc_tenant r)) (warranty_claims s)\<rparr> = restrict Q s"
  "(restrict Q s)\<lparr>comebacks := filter (\<lambda>r. Q (cb_tenant r)) (comebacks s)\<rparr> = restrict Q s"
  "(restrict Q s)\<lparr>queue_items := filter (\<lambda>r. Q (qi_tenant r)) (queue_items s)\<rparr> = restrict Q s"
  "(restrict Q s)\<lparr>portal_tasks := filter (\<lambda>r. Q (pt_tenant r)) (portal_tasks s)\<rparr> = restrict Q s"
  "(restrict Q s)\<lparr>waitlist := filter (\<lambda>r. Q (wl_tenant r)) (waitlist s)\<rparr> = restrict Q s"
  "(restrict Q s)\<lparr>offers := filter (\<lambda>r. Q (fo_tenant r)) (offers s)\<rparr> = restrict Q s"
  "(restrict Q s)\<lparr>sla_defaults := filter (\<lambda>r. Q (sd_tenant r)) (sla_defaults s)\<rparr> = restrict Q s"
  "(restrict Q s)\<lparr>grants := filter (\<lambda>r. Q (rg_tenant r)) (grants s)\<rparr> = restrict Q s"
  "(restrict Q s)\<lparr>audit := filter (\<lambda>r. Q (ev_tenant r)) (audit s)\<rparr> = restrict Q s"
  by (simp_all add: restrict_def)

abbreviation own :: "string \<Rightarrow> db \<Rightarrow> db" where
  "own t \<equiv> restrict (\<lambda>x. x = t)"

abbreviation others :: "string \<Rightarrow> db \<Rightarrow> db" where
  "others t \<equiv> restrict (\<lambda>x. x \<noteq> t)"

lemmas own_upd_same [simp] = restrict_upd_same [where Q = "\<lambda>x. x = t" for t]
lemmas others_upd_same [simp] = restrict_upd_same [where Q = "\<lambda>x. x \<noteq> t" for t]

section \<open>Tenant-scoped bodies and operations\<close>

definition mapState :: "(db \<Rightarrow> db) \<Rightarrow> ('a \<times> db) result \<Rightarrow> ('a \<times> db) result" where
  "mapState g r = (case r of Inl err \<Rightarrow> Inl err | Inr p \<Rightarrow> Inr (fst p, g (snd p)))"

text \<open>
  An inspection result is filed under its session without naming the tenant again (the
  conflict target of the upsert is the session and the item), so that one operation relies on
  a result belonging to the tenant of its session.
\<close>

definition results_owned :: "db \<Rightarrow> bool" where
  "results_owned s =
     (\<forall>r \<in> set (mpi_results s). \<forall>m \<in> set (mpi_sessions s).
        ms_id m = mr_session r \<longrightarrow> ms_tenant m = mr_tenant r)"

definition tx_reads_own :: "string \<Rightarrow> 'a tx \<Rightarrow> bool" where
  "tx_reads_own t body = (\<forall>s. results_owned s \<longrightarrow> body (own t s) = mapState (own t) (body s))"

definition tx_writes_own :: "string \<Rightarrow> 'a tx \<Rightarrow> bool" where
  "tx_writes_own t body = 
     (\<forall>s v s'. results_owned s \<longrightarrow> body s = Inr (v, s') \<longrightarrow> others t s' = others t s)"

definition op_reads_own :: "string \<Rightarrow> (db \<Rightarrow> 'a \<times> db) \<Rightarrow> bool" where
  "op_reads_own t f = (\<forall>s. results_owned s \<longrightarrow> f (own t s) = map_prod id (own t) (f s))"

definition op_writes_own :: "string \<Rightarrow> (db \<Rightarrow> 'a \<times> db) \<Rightarrow> bool" where
  "op_writes_own t f = (\<forall>s. results_owned s \<longrightarrow> others t (snd (f s)) = others t s)"

lemma mapState_simps [simp]:
  "mapState g (Inl err) = Inl err"
  "mapState g (Inr (v, s)) = Inr (v, g s)"
  by (simp_all add: mapState_def)

lemma mapState_bindR [simp]: "mapState g (bindR m f) = bindR m (\<lambda>x. mapState g (f x))"
  by (cases m) simp_all

lemma mapState_if [simp]: "mapState g (if b then x else y) = (if b then mapState g x else mapState g y)"
  by simp

lemma mapState_case_option [simp]:
  "mapState g (case x of None \<Rightarrow> a | Some y \<Rightarrow> f y) = (case x of None \<Rightarrow> mapState g a | Some y \<Rightarrow> mapState g (f y))"
  by (cases x) simp_all

lemma mapState_case_prod [simp]:
  "mapState g (case x of (a, b) \<Rightarrow> f a b) = (case x of (a, b) \<Rightarrow> mapState g (f a b))"
  by (cases x) simp

lemma bindR_mapState [simp]: "bindR (mapState g m) f = bindR m (\<lambda>p. f (fst p, g (snd p)))"
  by (cases m) (auto simp: mapState_def)

definition mapR :: "('a \<Rightarrow> 'b) \<Rightarrow> 'a result \<Rightarrow> 'b result" where
  "mapR g r = (case r of Inl err \<Rightarrow> Inl err | Inr x \<Rightarrow> Inr (g x))"

lemma mapR_simps [simp]: "mapR g (Inl err) = Inl err" "mapR g (Inr x) = Inr (g x)"
  by (simp_all add: mapR_def)

lemma bindR_mapR [simp]: "bindR (mapR g m) f = bindR m (\<lambda>x. f (g x))"
  by (cases m) simp_all

lemma mapR_comp [simp]: "mapR g (mapR f m) = mapR (\<lambda>x. g (f x)) m"
  by (cases m) simp_all

lemma mapR_eq_Inr [simp]: "mapR g m = Inr y \<longleftrightarrow> (\<exists>x. m = Inr x \<and> y = g x)"
  by (cases m) auto

lemma bindR_Inr_mapR: "bindR m (\<lambda>x. Inr (f x)) = mapR f m"
  by (cases m) simp_all

lemma mapR_bindR [simp]: "mapR g (bindR m f) = bindR m (\<lambda>x. mapR g (f x))"
  by (cases m) simp_all

lemma find_within [tenant_simps]:
  "\<forall>r. P r \<longrightarrow> Q r \<Longrightarrow> find P (filter Q xs) = find P xs"
  by (simp add: find_filter_within)

lemma filter_within [tenant_simps]:
  "\<forall>r. P r \<longrightarrow> Q r \<Longrightarrow> filter P (filter Q xs) = filter P xs"
  by (auto intro: filter_cong)

lemma list_ex_within [tenant_simps]:
  "\<forall>r. P r \<longrightarrow> Q r \<Longrightarrow> list_ex P (filter Q xs) = list_ex P xs"
  by (simp add: ex_filter_within)

lemma update_within [tenant_simps]:
  "\<forall>r. P r \<longrightarrow> Q r \<and> Q (f r) \<Longrightarrow> filter Q (update_where P f xs) = update_where P f (filter Q xs)"
  by (simp add: filter_update_within)

lemma update_outside [tenant_simps]:
  "\<forall>r. P r \<longrightarrow> \<not> Q r \<and> \<not> Q (f r) \<Longrightarrow> filter Q (update_where P f xs) = filter Q xs"
  by (simp add: filter_update_outside)

lemma restrict_emitAudit [simp]:
  "restrict Q (emitAudit e c a x i s) =
     (if Q (tenantId c) then emitAudit e c a x i (restrict Q s) else restrict Q s)"
  by (simp add: emitAudit_def)

lemma tx_reads_ownI:
  "(\<And>s. body (own t s) = mapState (own t) (body s)) \<Longrightarrow> tx_reads_own t body"
  by (simp add: tx_reads_own_def)

lemma tx_writes_ownI:
  "(\<And>s. mapState (others t) (body s) = mapState (\<lambda>_. others t s) (body s)) \<Longrightarrow> tx_writes_own t body"
  unfolding tx_writes_own_def by (metis mapState_simps(2) prod.inject sum.inject(2))

lemma reads_own_transaction: "tx_reads_own t body \<Longrightarrow> op_reads_own t (withTransaction body)"
  by (auto simp: op_reads_own_def tx_reads_own_def withTransaction_def mapState_def split: sum.splits)

lemma writes_own_transaction: "tx_writes_own t body \<Longrightarrow> op_writes_own t (withTransaction body)"
  by (auto simp: op_writes_own_def tx_writes_own_def withTransaction_def split: sum.splits)

lemma reads_own_audited:
  "tx_reads_own t body \<Longrightarrow> (\<And>v s. own t (f v s) = f v (own t s)) \<Longrightarrow>
   op_reads_own t (\<lambda>s. andAudit f (withTransaction body s))"
  by (drule reads_own_transaction)
    (auto simp: op_reads_own_def andAudit_def split: sum.splits prod.splits)

lemma writes_own_audited:
  assumes "tx_writes_own t body" and "\<And>v s. others t (f v s) = others t s"
  shows "op_writes_own t (\<lambda>s. andAudit f (withTransaction body s))"
  using assms by (auto simp: op_writes_own_def tx_writes_own_def andAudit_def withTransaction_def
      split: sum.splits prod.splits)

lemmas reads_own_op = reads_own_transaction [OF tx_reads_ownI]
lemmas reads_own_audited_op = reads_own_audited [OF tx_reads_ownI]
lemmas writes_own_op = writes_own_transaction [OF tx_writes_ownI]
lemmas writes_own_audited_op = writes_own_audited [OF tx_writes_ownI]

lemmas tenant_congs = option.case_cong if_cong

section \<open>The shared steps are tenant-scoped\<close>

lemma assertRO_own [tenant_simps]: "assertRO c roId (own (tenantId c) s) = assertRO c roId s"
  by (simp add: assertRO_def tenant_simps)

lemma assertLineItem_own [tenant_simps]:
  "assertLineItem c roId lid (own (tenantId c) s) = assertLineItem c roId lid s"
  by (simp add: assertLineItem_def tenant_simps)

lemma assertLineItemsOnRO_own [tenant_simps]:
  "assertLineItemsOnRO c roId ls (own (tenantId c) s) = assertLineItemsOnRO c roId ls s"
  by (simp add: assertLineItemsOnRO_def tenant_simps del: filter_filter)

lemma recordROEvent_restrict [simp]:
  "restrict Q (recordROEvent n c r ty a p s) =
     (if Q (tenantId c) then recordROEvent n c r ty a p (restrict Q s) else restrict Q s)"
  by (simp add: recordROEvent_def)

lemma recordAppointmentEvent_restrict [simp]:
  "restrict Q (recordAppointmentEvent n c r ty a s) =
     (if Q (tenantId c) then recordAppointmentEvent n c r ty a (restrict Q s) else restrict Q s)"
  by (simp add: recordAppointmentEvent_def)

lemma resolveSlaDueAt_own [tenant_simps]:
  "resolveSlaDueAt e c qt v (own (tenantId c) s) = resolveSlaDueAt e c qt v s"
  by (simp add: resolveSlaDueAt_def tenant_simps)

lemma bindR_case_option [tenant_simps]:
  "bindR (case x of None \<Rightarrow> a | Some y \<Rightarrow> f y) g
     = (case x of None \<Rightarrow> bindR a g | Some y \<Rightarrow> bindR (f y) g)"
  by (simp split: option.split)

lemma bindR_if [tenant_simps]:
  "bindR (if b then x else y) g = (if b then bindR x g else bindR y g)"
  by simp

text \<open>
  The queue steps read the queue and the SLA defaults and write the queue, and no other
  table: \<open>newQueueItem\<close> and \<open>syncRows\<close> are the same steps on those tables alone.
\<close>

definition emptyDb :: db where
  "emptyDb = \<lparr>appointments = [], appointment_events = [], repair_orders = [], ro_events = [],
     line_items = [], mpi_templates = [], mpi_sessions = [], mpi_results = [],
     recommendations = [], estimates = [], authorizations = [], parts_lines = [],
     sublet_jobs = [], tech_profiles = [], tickets = [], time_entries = [],
     warranty_claims = [], comebacks = [], queue_items = [], portal_tasks = [],
     waitlist = [], offers = [], sla_defaults = [], grants = [],
     audit = []\<rparr>"

definition newQueueItem ::
  "env \<Rightarrow> string \<Rightarrow> auth_context \<Rightarrow> queue_params \<Rightarrow> service_sla_default list \<Rightarrow> service_queue_item result" where
  "newQueueItem e n c p sla = mapR fst (createServiceQueueItem e n c p (emptyDb\<lparr>sla_defaults := sla\<rparr>))"

definition syncRows ::
  "env \<Rightarrow> string \<Rightarrow> auth_context \<Rightarrow> repair_order \<Rightarrow> service_queue_item list \<Rightarrow> service_sla_default list
   \<Rightarrow> service_queue_item list result" where
  "syncRows e n c ro qs sla =
     mapR queue_items (syncQueueForRO e n c ro (emptyDb\<lparr>queue_items := qs, sla_defaults := sla\<rparr>))"

lemma createServiceQueueItem_rows [tenant_simps]:
  "createServiceQueueItem e n c p s =
     mapR (\<lambda>i. (i, s\<lparr>queue_items := queue_items s @ [i]\<rparr>)) (newQueueItem e n c p (sla_defaults s))"
  by (simp add: newQueueItem_def createServiceQueueItem_def resolveSlaDueAt_def Let_def)

lemma newQueueItem_own [tenant_simps]:
  "newQueueItem e n c p (filter (\<lambda>r. sd_tenant r = tenantId c) sla) = newQueueItem e n c p sla"
  by (simp add: newQueueItem_def createServiceQueueItem_def resolveSlaDueAt_def Let_def find_within)

lemma newQueueItem_tenant: "newQueueItem e n c p sla = Inr i \<Longrightarrow> qi_tenant i = tenantId c"
  by (auto simp: newQueueItem_def mapR_def split: sum.splits dest: createServiceQueueItem_queue)

lemma syncQueueForRO_rows [tenant_simps]:
  "syncQueueForRO e n c ro s =
     mapR (\<lambda>q. s\<lparr>queue_items := q\<rparr>) (syncRows e n c ro (queue_items s) (sla_defaults s))"
  by (simp add: syncRows_def syncQueueForRO_def Let_def createServiceQueueItem_rows split: option.split)

lemma syncRows_eq:
  "syncRows e n c ro qs sla =
     (let target = RO_STATUS_QUEUE (ro_status ro);
          rows = update_where (\<lambda>q. openForRO c (ro_id ro) q \<and> (target = None \<or> Some (qi_type q) \<noteq> target))
                   (\<lambda>q. q\<lparr>qi_status := QI_done\<rparr>) qs
      in case target of
           None \<Rightarrow> Inr rows
         | Some qt \<Rightarrow>
             if list_ex (\<lambda>q. openForRO c (ro_id ro) q \<and> qi_type q = qt) rows then Inr rows
             else mapR (\<lambda>i. rows @ [i]) (newQueueItem e n c
                    \<lparr>qp_location = JStr (ro_location ro), qp_queue_type = qt,
                     qp_ro = Some (ro_id ro), qp_appointment = None,
                     qp_priority = JUndef, qp_sla_due = JUndef\<rparr> sla))"
  by (simp add: syncRows_def syncQueueForRO_def Let_def createServiceQueueItem_rows emptyDb_def
      bindR_Inr_mapR split: option.split)

lemma syncRows_own [tenant_simps]:
  "syncRows e n c ro (filter (\<lambda>r. qi_tenant r = tenantId c) qs) (filter (\<lambda>r. sd_tenant r = tenantId c) sla)
     = mapR (filter (\<lambda>r. qi_tenant r = tenantId c)) (syncRows e n c ro qs sla)"
proof -
  let ?mine = "filter (\<lambda>q. qi_tenant q = tenantId c)"
  let ?close = "\<lambda>P. update_where (\<lambda>q. openForRO c (ro_id ro) q \<and> P q) (\<lambda>q. q\<lparr>qi_status := QI_done\<rparr>)"
  have ex: "list_ex (\<lambda>q. openForRO c (ro_id ro) q \<and> P q) (?mine xs)
        = list_ex (\<lambda>q. openForRO c (ro_id ro) q \<and> P q) xs" for P xs
    by (rule list_ex_within) (simp add: openForRO_def)
  have upd: "?close P (?mine xs) = ?mine (?close P xs)" for P xs
    by (rule update_within [symmetric]) (simp add: openForRO_def)
  have mine: "mapR (\<lambda>i. xs @ [i]) (newQueueItem e n c p sla)
      = mapR (\<lambda>i. xs @ filter (\<lambda>r. qi_tenant r = tenantId c) [i]) (newQueueItem e n c p sla)" for xs p
    using newQueueItem_tenant by (auto simp: mapR_def split: sum.split)
  show ?thesis
    unfolding syncRows_eq Let_def
    using upd [of "\<lambda>_. True"]
    by (simp add: ex upd newQueueItem_own mine mapR_comp split: option.split)
qed

lemma syncRows_others:
  assumes "syncRows e n c ro qs sla = Inr qs'"
  shows "filter (\<lambda>r. qi_tenant r \<noteq> tenantId c) qs' = filter (\<lambda>r. qi_tenant r \<noteq> tenantId c) qs"
proof -
  have upd: "filter (\<lambda>r. qi_tenant r \<noteq> tenantId c) (update_where (\<lambda>q. openForRO c (ro_id ro) q \<and> P q)
      (\<lambda>q. q\<lparr>qi_status := QI_done\<rparr>) qs) = filter (\<lambda>r. qi_tenant r \<noteq> tenantId c) qs" for P
    by (rule update_outside) (simp add: openForRO_def)
  from assms show ?thesis
    using upd [of "\<lambda>_. True"] unfolding syncRows_eq Let_def
    by (auto simp: upd newQueueItem_tenant split: option.splits if_splits)
qed

lemma moveRO_rows [tenant_simps]:
  "moveRO e n c rid froms st s =
     (let here = (\<lambda>r. ro_id r = rid \<and> ro_tenant r = tenantId c \<and> ro_status r \<in> set froms) in
      case find here (repair_orders s) of
        None \<Rightarrow> Inr s
      | Some r \<Rightarrow>
          mapR (\<lambda>q. s\<lparr>repair_orders := update_where here (\<lambda>r. r\<lparr>ro_status := st\<rparr>) (repair_orders s),
                      queue_items := q\<rparr>)
            (syncRows e n c (r\<lparr>ro_status := st\<rparr>) (queue_items s) (sla_defaults s)))"
proof (cases "find (\<lambda>r. ro_id r = rid \<and> ro_tenant r = tenantId c \<and> ro_status r \<in> set froms)
    (repair_orders s)")
  case None
  then have "\<forall>r \<in> set (repair_orders s). \<not> (ro_id r = rid \<and> ro_tenant r = tenantId c \<and> ro_status r \<in> set froms)"
    by (simp only: find_None_notin)
  with None show ?thesis by (simp add: moveRO_def Let_def update_where_none)
qed (simp add: moveRO_def Let_def syncQueueForRO_rows)

lemma moveRO_cases:
  assumes "moveRO e n c rid froms st s = Inr s'"
  obtains (stays) "s' = s" "\<And>r. r \<in> set (repair_orders s) \<Longrightarrow> ro_id r = rid \<Longrightarrow> ro_tenant r = tenantId c \<Longrightarrow>
      ro_status r \<notin> set froms"
  | (moves) r q where "r \<in> set (repair_orders s)" "ro_id r = rid" "ro_tenant r = tenantId c"
      "ro_status r \<in> set froms"
      "syncRows e n c (r\<lparr>ro_status := st\<rparr>) (queue_items s) (sla_defaults s) = Inr q"
      "s' = s\<lparr>repair_orders := update_where
                (\<lambda>r. ro_id r = rid \<and> ro_tenant r = tenantId c \<and> ro_status r \<in> set froms)
                (\<lambda>r. r\<lparr>ro_status := st\<rparr>) (repair_orders s), queue_items := q\<rparr>"
proof (cases "find (\<lambda>r. ro_id r = rid \<and> ro_tenant r = tenantId c \<and> ro_status r \<in> set froms)
    (repair_orders s)")
  case None
  then have "\<forall>r \<in> set (repair_orders s). \<not> (ro_id r = rid \<and> ro_tenant r = tenantId c \<and> ro_status r \<in> set froms)"
    by (simp only: find_None_notin)
  moreover have "s' = s" using assms None by (simp add: moveRO_rows)
  ultimately show thesis using stays by blast
next
  case (Some r)
  note row = find_SomeD [OF Some]
  from assms Some obtain q where
    "syncRows e n c (r\<lparr>ro_status := st\<rparr>) (queue_items s) (sla_defaults s) = Inr q"
    "s' = s\<lparr>repair_orders := update_where
                (\<lambda>r. ro_id r = rid \<and> ro_tenant r = tenantId c \<and> ro_status r \<in> set froms)
                (\<lambda>r. r\<lparr>ro_status := st\<rparr>) (repair_orders s), queue_items := q\<rparr>"
    by (auto simp: moveRO_rows Let_def)
  with row moves show thesis by blast
qed

lemma moveRO_others:
  "moveRO e n c rid froms st s = Inr s' \<Longrightarrow> others (tenantId c) s' = others (tenantId c) s"
  by (erule moveRO_cases) (simp_all add: update_outside syncRows_others)

end
