(* ===== verification/CockpitIsolation.thy ===== *)
theory CockpitIsolation
  imports CockpitTenancy
begin

text \<open>
  Every operation of the service is tenant-scoped: it computes the same answer and the same
  rows from the caller's rows alone, and leaves every other tenant's rows unchanged.
\<close>

section \<open>Field writers keep the row's keys\<close>

lemma setAppointmentField_tenant [simp]: "ap_tenant (setAppointmentField e kv a) = ap_tenant a"
  by (cases kv) (simp add: setAppointmentField_def split: option.split)

lemma setAppointmentFields_tenant [simp]: "ap_tenant (fold (setAppointmentField e) kvs a) = ap_tenant a"
  by (induction kvs arbitrary: a) simp_all

lemma setLineField_keeps [simp]:
  "li_tenant (setLineField kv l) = li_tenant l" "li_id (setLineField kv l) = li_id l"
  "li_ro (setLineField kv l) = li_ro l" "li_auth (setLineField kv l) = li_auth l"
  by (cases kv, simp add: setLineField_def split: option.split)+

lemma setLineFields_keep [simp]:
  "li_tenant (fold setLineField kvs l) = li_tenant l" "li_id (fold setLineField kvs l) = li_id l"
  "li_ro (fold setLineField kvs l) = li_ro l" "li_auth (fold setLineField kvs l) = li_auth l"
  by (induction kvs arbitrary: l) simp_all

lemma setPartLine_tenant [simp]: "pl_tenant (setPartLine e st eta ref l) = pl_tenant l"
  by (simp add: setPartLine_def Let_def split: option.split)

lemma filter_recommendations [simp]:
  "filter (\<lambda>r. rc_tenant r = tenantId c) (map (\<lambda>(i, r). mpiRecommendation c (f i) rid r) xs)
     = map (\<lambda>(i, r). mpiRecommendation c (f i) rid r) xs"
  "filter (\<lambda>r. rc_tenant r \<noteq> tenantId c) (map (\<lambda>(i, r). mpiRecommendation c (f i) rid r) xs) = []"
  by (auto simp: filter_id_conv filter_empty_conv mpiRecommendation_def)

lemmas row_defs = Let_def recordROEvent_def recordAppointmentEvent_def

section \<open>Reads\<close>

lemma createAppointment_reads: "op_reads_own (tenantId c) (createAppointment e c p)"
  unfolding createAppointment_def
  by (rule reads_own_audited_op)
    (simp_all add: row_defs tenant_simps cong: tenant_congs del: filter_filter)

lemma updateAppointment_reads: "op_reads_own (tenantId c) (updateAppointment e c appointmentId updates)"
  unfolding updateAppointment_def
  by (rule reads_own_op)
    (simp add: row_defs tenant_simps cong: tenant_congs del: filter_filter)

lemma confirmAppointment_reads: "op_reads_own (tenantId c) (confirmAppointment e c appointmentId)"
  unfolding confirmAppointment_def
  by (rule reads_own_op)
    (simp add: row_defs tenant_simps cong: tenant_congs del: filter_filter)

lemma checkIn_reads: "op_reads_own (tenantId c) (checkIn e c appointmentId p)"
  unfolding checkIn_def
  by (rule reads_own_audited_op)
    (simp_all add: row_defs tenant_simps checkInBody_def cong: tenant_congs del: filter_filter)

lemma markAppointmentNoShow_reads: "op_reads_own (tenantId c) (markAppointmentNoShow e c appointmentId)"
  unfolding markAppointmentNoShow_def
  by (rule reads_own_op)
    (simp add: row_defs tenant_simps createServiceQueueItem_def resolveSlaDueAt_def bindR_assoc cong: tenant_congs del: filter_filter createServiceQueueItem_rows)

lemma createWaitlistEntry_reads: "op_reads_own (tenantId c) (createWaitlistEntry e c p)"
  unfolding createWaitlistEntry_def
  by (rule reads_own_audited_op)
    (simp_all add: row_defs tenant_simps cong: tenant_congs del: filter_filter)

lemma offerWaitlistSlot_reads: "op_reads_own (tenantId c) (offerWaitlistSlot e c waitlistEntryId p)"
  unfolding offerWaitlistSlot_def
  by (rule reads_own_audited_op)
    (simp_all add: row_defs tenant_simps assertWaitlistEntry_def cong: tenant_congs del: filter_filter)

lemma cancelWaitlistEntry_reads: "op_reads_own (tenantId c) (cancelWaitlistEntry e c waitlistEntryId)"
  unfolding cancelWaitlistEntry_def
  by (rule reads_own_audited_op)
    (simp_all add: row_defs tenant_simps assertWaitlistEntry_def cong: tenant_congs del: filter_filter)

lemma createFirstServiceOffer_reads: "op_reads_own (tenantId c) (createFirstServiceOffer e c p)"
  unfolding createFirstServiceOffer_def
  by (rule reads_own_audited_op)
    (simp_all add: row_defs tenant_simps insertAppointment_def requireConcerns_def firstServiceConcerns_def cong: tenant_congs del: filter_filter)

lemma createRO_reads: "op_reads_own (tenantId c) (createRO e c p)"
  unfolding createRO_def
  by (rule reads_own_audited_op)
    (simp_all add: row_defs tenant_simps cong: tenant_congs del: filter_filter)

lemma addLineItem_reads: "op_reads_own (tenantId c) (addLineItem e c roId p)"
  unfolding addLineItem_def
  by (rule reads_own_op)
    (simp add: row_defs tenant_simps cong: tenant_congs del: filter_filter)

lemma updateLineItem_reads: "op_reads_own (tenantId c) (updateLineItem c roId lineItemId updates)"
  unfolding updateLineItem_def
  by (rule reads_own_op)
    (simp add: row_defs tenant_simps cong: tenant_congs del: filter_filter)

lemma startMPISession_reads: "op_reads_own (tenantId c) (startMPISession e c roId p)"
  unfolding startMPISession_def
  by (rule reads_own_op)
    (simp add: row_defs tenant_simps cong: tenant_congs del: filter_filter)

lemma submitMPISession_reads: "op_reads_own (tenantId c) (submitMPISession e c mpiSessionId)"
  unfolding submitMPISession_def
  by (rule reads_own_op)
    (simp add: row_defs tenant_simps assertOwnMPISession_def cong: tenant_congs del: filter_filter)

lemma sendRecommendationsToCustomer_reads: "op_reads_own (tenantId c) (sendRecommendationsToCustomer e c roId p)"
  unfolding sendRecommendationsToCustomer_def
  by (rule reads_own_op)
    (simp add: row_defs tenant_simps cong: tenant_congs del: filter_filter)

lemma updatePortalTaskStatus_reads: "op_reads_own (tenantId c) (updatePortalTaskStatus c portalTaskId p)"
  unfolding updatePortalTaskStatus_def
  by (rule reads_own_op)
    (simp add: row_defs tenant_simps cong: tenant_congs del: filter_filter)

lemma generateEstimate_reads: "op_reads_own (tenantId c) (generateEstimate e c roId p)"
  unfolding generateEstimate_def
  by (rule reads_own_op)
    (simp add: row_defs tenant_simps quotedLine_def maxVersion_def cong: tenant_congs del: filter_filter)

lemma sendEstimate_reads: "op_reads_own (tenantId c) (sendEstimate e c roId estimateId p)"
  unfolding sendEstimate_def
  by (rule reads_own_op)
    (simp add: row_defs tenant_simps cong: tenant_congs del: filter_filter)

lemma requestPart_reads: "op_reads_own (tenantId c) (requestPart e c roId p)"
  unfolding requestPart_def
  by (rule reads_own_op)
    (simp add: row_defs tenant_simps cong: tenant_congs del: filter_filter)

lemma updatePartLine_reads: "op_reads_own (tenantId c) (updatePartLine e c partLineId updates)"
  unfolding updatePartLine_def
  by (rule reads_own_op)
    (simp add: row_defs tenant_simps cong: tenant_congs del: filter_filter)

lemma createSubletJob_reads: "op_reads_own (tenantId c) (createSubletJob e c roId p)"
  unfolding createSubletJob_def
  by (rule reads_own_op)
    (simp add: row_defs tenant_simps cong: tenant_congs del: filter_filter)

lemma updateSubletJob_reads: "op_reads_own (tenantId c) (updateSubletJob c subletJobId updates)"
  unfolding updateSubletJob_def
  by (rule reads_own_op)
    (simp add: row_defs tenant_simps cong: tenant_congs del: filter_filter)

lemma dispatchTech_reads: "op_reads_own (tenantId c) (dispatchTech e c p)"
  unfolding dispatchTech_def
  by (rule reads_own_op)
    (simp add: row_defs tenant_simps cong: tenant_congs del: filter_filter)

lemma updateTicketStatus_reads: "op_reads_own (tenantId c) (updateTicketStatus c ticketId p)"
  unfolding updateTicketStatus_def
  by (rule reads_own_op)
    (simp add: row_defs tenant_simps assertOwnTicket_def cong: tenant_congs del: filter_filter)

lemma recordTimeEntry_reads: "op_reads_own (tenantId c) (recordTimeEntry e c ticketId p)"
  unfolding recordTimeEntry_def
  by (rule reads_own_op)
    (simp add: row_defs tenant_simps assertOwnTicket_def cong: tenant_congs del: filter_filter)

lemma createWarrantyClaim_reads: "op_reads_own (tenantId c) (createWarrantyClaim e c p)"
  unfolding createWarrantyClaim_def
  by (rule reads_own_op)
    (simp add: row_defs tenant_simps cong: tenant_congs del: filter_filter)

lemma createComebackCase_reads: "op_reads_own (tenantId c) (createComebackCase e c p)"
  unfolding createComebackCase_def
  by (rule reads_own_audited_op)
    (simp_all add: row_defs tenant_simps comebackBody_def lockBoth_def cong: tenant_congs del: filter_filter)

lemma updateComebackCase_reads: "op_reads_own (tenantId c) (updateComebackCase c comebackId updates)"
  unfolding updateComebackCase_def
  by (rule reads_own_op)
    (simp add: row_defs tenant_simps cong: tenant_congs del: filter_filter)

lemma assignServiceQueueItem_reads: "op_reads_own (tenantId c) (assignServiceQueueItem c queueItemId)"
  unfolding assignServiceQueueItem_def
  by (rule reads_own_op)
    (simp add: row_defs tenant_simps cong: tenant_congs del: filter_filter)

lemma updateServiceQueueItemStatus_reads: "op_reads_own (tenantId c) (updateServiceQueueItemStatus c queueItemId p)"
  unfolding updateServiceQueueItemStatus_def
  by (rule reads_own_op)
    (simp add: row_defs tenant_simps cong: tenant_congs del: filter_filter)

lemma escalateServiceQueueItem_reads: "op_reads_own (tenantId c) (escalateServiceQueueItem e c queueItemId p)"
  unfolding escalateServiceQueueItem_def
  by (rule reads_own_audited_op)
    (simp_all add: row_defs tenant_simps cong: tenant_congs del: filter_filter)

section \<open>Writes\<close>

lemma createAppointment_writes: "op_writes_own (tenantId c) (createAppointment e c p)"
  unfolding createAppointment_def
  by (rule writes_own_audited_op)
    (simp_all add: row_defs tenant_simps cong: tenant_congs)

lemma updateAppointment_writes: "op_writes_own (tenantId c) (updateAppointment e c appointmentId updates)"
  unfolding updateAppointment_def
  by (rule writes_own_op)
    (simp add: row_defs tenant_simps cong: tenant_congs)

lemma confirmAppointment_writes: "op_writes_own (tenantId c) (confirmAppointment e c appointmentId)"
  unfolding confirmAppointment_def
  by (rule writes_own_op)
    (simp add: row_defs tenant_simps cong: tenant_congs)

lemma createWaitlistEntry_writes: "op_writes_own (tenantId c) (createWaitlistEntry e c p)"
  unfolding createWaitlistEntry_def
  by (rule writes_own_audited_op)
    (simp_all add: row_defs tenant_simps cong: tenant_congs)

lemma offerWaitlistSlot_writes: "op_writes_own (tenantId c) (offerWaitlistSlot e c waitlistEntryId p)"
  unfolding offerWaitlistSlot_def
  by (rule writes_own_audited_op)
    (simp_all add: row_defs tenant_simps assertWaitlistEntry_def cong: tenant_congs)

lemma cancelWaitlistEntry_writes: "op_writes_own (tenantId c) (cancelWaitlistEntry e c waitlistEntryId)"
  unfolding cancelWaitlistEntry_def
  by (rule writes_own_audited_op)
    (simp_all add: row_defs tenant_simps assertWaitlistEntry_def cong: tenant_congs)

lemma createFirstServiceOffer_writes: "op_writes_own (tenantId c) (createFirstServiceOffer e c p)"
  unfolding createFirstServiceOffer_def
  by (rule writes_own_audited_op)
    (simp_all add: row_defs tenant_simps insertAppointment_def requireConcerns_def firstServiceConcerns_def cong: tenant_congs)

lemma createRO_writes: "op_writes_own (tenantId c) (createRO e c p)"
  unfolding createRO_def
  by (rule writes_own_audited_op)
    (simp_all add: row_defs tenant_simps cong: tenant_congs)

lemma addLineItem_writes: "op_writes_own (tenantId c) (addLineItem e c roId p)"
  unfolding addLineItem_def
  by (rule writes_own_op)
    (simp add: row_defs tenant_simps cong: tenant_congs)

lemma updateLineItem_writes: "op_writes_own (tenantId c) (updateLineItem c roId lineItemId updates)"
  unfolding updateLineItem_def
  by (rule writes_own_op)
    (simp add: row_defs tenant_simps cong: tenant_congs)

lemma submitMPISession_writes: "op_writes_own (tenantId c) (submitMPISession e c mpiSessionId)"
  unfolding submitMPISession_def
  by (rule writes_own_op)
    (simp add: row_defs tenant_simps assertOwnMPISession_def cong: tenant_congs)

lemma sendRecommendationsToCustomer_writes: "op_writes_own (tenantId c) (sendRecommendationsToCustomer e c roId p)"
  unfolding sendRecommendationsToCustomer_def
  by (rule writes_own_op)
    (simp add: row_defs tenant_simps cong: tenant_congs)

lemma updatePortalTaskStatus_writes: "op_writes_own (tenantId c) (updatePortalTaskStatus c portalTaskId p)"
  unfolding updatePortalTaskStatus_def
  by (rule writes_own_op)
    (simp add: row_defs tenant_simps cong: tenant_congs)

lemma requestPart_writes: "op_writes_own (tenantId c) (requestPart e c roId p)"
  unfolding requestPart_def
  by (rule writes_own_op)
    (simp add: row_defs tenant_simps cong: tenant_congs)

lemma updatePartLine_writes: "op_writes_own (tenantId c) (updatePartLine e c partLineId updates)"
  unfolding updatePartLine_def
  by (rule writes_own_op)
    (simp add: row_defs tenant_simps cong: tenant_congs)

lemma createSubletJob_writes: "op_writes_own (tenantId c) (createSubletJob e c roId p)"
  unfolding createSubletJob_def
  by (rule writes_own_op)
    (simp add: row_defs tenant_simps cong: tenant_congs)

lemma updateSubletJob_writes: "op_writes_own (tenantId c) (updateSubletJob c subletJobId updates)"
  unfolding updateSubletJob_def
  by (rule writes_own_op)
    (simp add: row_defs tenant_simps cong: tenant_congs)

lemma dispatchTech_writes: "op_writes_own (tenantId c) (dispatchTech e c p)"
  unfolding dispatchTech_def
  by (rule writes_own_op)
    (simp add: row_defs tenant_simps cong: tenant_congs)

lemma updateTicketStatus_writes: "op_writes_own (tenantId c) (updateTicketStatus c ticketId p)"
  unfolding updateTicketStatus_def
  by (rule writes_own_op)
    (simp add: row_defs tenant_simps assertOwnTicket_def cong: tenant_congs)

lemma recordTimeEntry_writes: "op_writes_own (tenantId c) (recordTimeEntry e c ticketId p)"
  unfolding recordTimeEntry_def
  by (rule writes_own_op)
    (simp add: row_defs tenant_simps assertOwnTicket_def cong: tenant_congs)

lemma createWarrantyClaim_writes: "op_writes_own (tenantId c) (createWarrantyClaim e c p)"
  unfolding createWarrantyClaim_def
  by (rule writes_own_op)
    (simp add: row_defs tenant_simps cong: tenant_congs)

lemma updateComebackCase_writes: "op_writes_own (tenantId c) (updateComebackCase c comebackId updates)"
  unfolding updateComebackCase_def
  by (rule writes_own_op)
    (simp add: row_defs tenant_simps cong: tenant_congs)

lemma assignServiceQueueItem_writes: "op_writes_own (tenantId c) (assignServiceQueueItem c queueItemId)"
  unfolding assignServiceQueueItem_def
  by (rule writes_own_op)
    (simp add: row_defs tenant_simps cong: tenant_congs)

lemma updateServiceQueueItemStatus_writes: "op_writes_own (tenantId c) (updateServiceQueueItemStatus c queueItemId p)"
  unfolding updateServiceQueueItemStatus_def
  by (rule writes_own_op)
    (simp add: row_defs tenant_simps cong: tenant_congs)

lemma escalateServiceQueueItem_writes: "op_writes_own (tenantId c) (escalateServiceQueueItem e c queueItemId p)"
  unfolding escalateServiceQueueItem_def
  by (rule writes_own_audited_op)
    (simp_all add: row_defs tenant_simps cong: tenant_congs)

text \<open>The operations that move a repair order carry the queue with it.\<close>

lemmas queue_rows = update_outside syncQueueForRO_rows createServiceQueueItem_rows syncRows_others
  newQueueItem_tenant

lemma startMPISession_writes: "op_writes_own (tenantId c) (startMPISession e c roId p)"
  unfolding startMPISession_def
  by (rule writes_own_transaction, unfold tx_writes_own_def)
    (auto simp: row_defs queue_rows elim!: moveRO_cases split: option.splits if_splits)

lemma generateEstimate_writes: "op_writes_own (tenantId c) (generateEstimate e c roId p)"
  unfolding generateEstimate_def
  by (rule writes_own_transaction, unfold tx_writes_own_def)
    (auto simp: row_defs queue_rows quotedLine_def maxVersion_def elim!: moveRO_cases split: option.splits if_splits)

lemma sendEstimate_writes: "op_writes_own (tenantId c) (sendEstimate e c roId estimateId p)"
  unfolding sendEstimate_def
  by (rule writes_own_transaction, unfold tx_writes_own_def)
    (auto simp: row_defs queue_rows elim!: moveRO_cases split: option.splits if_splits)

lemma markAppointmentNoShow_writes: "op_writes_own (tenantId c) (markAppointmentNoShow e c appointmentId)"
  unfolding markAppointmentNoShow_def
  by (rule writes_own_transaction, unfold tx_writes_own_def)
    (auto simp: row_defs queue_rows elim!: moveRO_cases split: option.splits if_splits)

lemma comebackBody_writes: "tx_writes_own (tenantId c) (comebackBody e c o' n' cause rs sev)"
  unfolding tx_writes_own_def comebackBody_def
  by (auto simp: row_defs queue_rows elim!: moveRO_cases split: option.splits if_splits)

lemma createComebackCase_writes: "op_writes_own (tenantId c) (createComebackCase e c p)"
  unfolding createComebackCase_def
  by (rule writes_own_audited, unfold tx_writes_own_def)
    (use comebackBody_writes in \<open>fastforce simp: tx_writes_own_def\<close>, simp)

lemma checkInBody_writes: "tx_writes_own (tenantId c) (checkInBody e c aid odo)"
  unfolding tx_writes_own_def checkInBody_def row_defs
  by (clarsimp simp: syncQueueForRO_rows split: option.splits if_splits)
    (auto simp: queue_rows)

lemma checkIn_writes: "op_writes_own (tenantId c) (checkIn e c appointmentId p)"
  unfolding checkIn_def
  by (rule writes_own_audited, unfold tx_writes_own_def)
    (use checkInBody_writes in \<open>fastforce simp: tx_writes_own_def\<close>, simp)

section \<open>The waitlist, inspection results, transitions and decisions\<close>

lemma convertBody_reads:
  "convertBody e c wid st en (own (tenantId c) s) = mapState (own (tenantId c)) (convertBody e c wid st en s)"
  by (simp add: convertBody_def assertWaitlistEntry_def row_defs tenant_simps cong: tenant_congs)

lemma convertBody_writes:
  "mapState (others (tenantId c)) (convertBody e c wid st en s)
     = mapState (\<lambda>_. others (tenantId c) s) (convertBody e c wid st en s)"
  by (simp add: convertBody_def assertWaitlistEntry_def row_defs tenant_simps cong: tenant_congs)

lemma op_reads_own_map:
  "op_reads_own t op \<Longrightarrow> (\<And>r s. g (r, own t s) = map_prod id (own t) (g (r, s))) \<Longrightarrow>
   op_reads_own t (\<lambda>s. g (op s))"
  unfolding op_reads_own_def by (metis id_apply map_prod_simp prod.collapse)

lemma op_writes_own_map:
  assumes "op_writes_own t op" and "\<And>r s. others t (snd (g (r, s))) = others t s"
  shows "op_writes_own t (\<lambda>s. g (op s))"
  using assms by (metis op_writes_own_def prod.collapse)

lemma convertWaitlistEntry_reads: "op_reads_own (tenantId c) (convertWaitlistEntry e c waitlistEntryId p)"
  unfolding convertWaitlistEntry_def
  by (rule op_reads_own_map, rule reads_own_op)
    (auto simp: convertBody_reads split: sum.splits option.splits)

lemma convertWaitlistEntry_writes: "op_writes_own (tenantId c) (convertWaitlistEntry e c waitlistEntryId p)"
  unfolding convertWaitlistEntry_def
  by (rule op_writes_own_map, rule writes_own_op)
    (auto simp: convertBody_writes split: sum.splits option.splits)

lemma grantMatches_tenant: "grantMatches e i g \<Longrightarrow> rg_tenant g = gs_tenant i"
  by (simp add: grantMatches_def)

lemma consumeGrant_own:
  "consumeReauthenticationGrantReturningId e i (own (gs_tenant i) s) =
     map_prod id (own (gs_tenant i)) (consumeReauthenticationGrantReturningId e i s)"
proof -
  have f: "filter (grantMatches e i) (filter (\<lambda>r. rg_tenant r = gs_tenant i) xs) = filter (grantMatches e i) xs" for xs
    by (rule filter_within) (simp add: grantMatches_def)
  have u: "update_where (grantMatches e i) (\<lambda>g. g\<lparr>rg_consumed := x\<rparr>) (filter (\<lambda>r. rg_tenant r = gs_tenant i) xs)
     = filter (\<lambda>r. rg_tenant r = gs_tenant i) (update_where (grantMatches e i) (\<lambda>g. g\<lparr>rg_consumed := x\<rparr>) xs)" for x xs
    by (rule update_within [symmetric]) (simp add: grantMatches_def)
  show ?thesis
    by (simp add: consumeReauthenticationGrantReturningId_def Let_def f u del: filter_filter split: list.split)
qed

lemma consumeGrant_others:
  "others (gs_tenant i) (snd (consumeReauthenticationGrantReturningId e i s)) = others (gs_tenant i) s"
proof -
  have "filter (\<lambda>r. rg_tenant r \<noteq> gs_tenant i) (update_where (grantMatches e i) (\<lambda>g. g\<lparr>rg_consumed := x\<rparr>) xs)
     = filter (\<lambda>r. rg_tenant r \<noteq> gs_tenant i) xs" for x xs
    by (rule update_outside) (simp add: grantMatches_def)
  then show ?thesis
    by (simp add: consumeReauthenticationGrantReturningId_def Let_def split: list.split)
qed

lemma consumeSensitiveActionGrant_own [tenant_simps]:
  "consumeSensitiveActionGrant e tok c a r (own (tenantId c) s) =
     mapState (own (tenantId c)) (consumeSensitiveActionGrant e tok c a r s)"
  unfolding consumeSensitiveActionGrant_def consumeReauthenticationGrant_def
  using consumeGrant_own [of e "\<lparr>gs_grant = tok, gs_tenant = tenantId c, gs_user = userId c, gs_action = a,
              gs_resource_type = Some ''repair_order'', gs_resource_id = Some r,
              gs_required = AL_fresh_and_mfa_policy\<rparr>" s]
  by (auto split: prod.splits bool.splits)

lemma consumeSensitiveActionGrant_others:
  "consumeSensitiveActionGrant e tok c a r s = Inr (u, s') \<Longrightarrow> others (tenantId c) s' = others (tenantId c) s"
  unfolding consumeSensitiveActionGrant_def consumeReauthenticationGrant_def
  using consumeGrant_others [of "\<lparr>gs_grant = tok, gs_tenant = tenantId c, gs_user = userId c, gs_action = a,
              gs_resource_type = Some ''repair_order'', gs_resource_id = Some r,
              gs_required = AL_fresh_and_mfa_policy\<rparr>" e s]
  by (auto split: prod.splits bool.splits if_splits)


lemma find_within_on:
  "\<forall>r \<in> set xs. P r \<longrightarrow> Q r \<Longrightarrow> find P (filter Q xs) = find P xs"
  by (induction xs) auto

lemma update_within_on:
  "\<forall>r \<in> set xs. P r \<longrightarrow> Q r \<and> Q (f r) \<Longrightarrow> filter Q (update_where P f xs) = update_where P f (filter Q xs)"
  by (induction xs) auto

lemma update_outside_on:
  "\<forall>r \<in> set xs. P r \<longrightarrow> \<not> Q r \<and> \<not> Q (f r) \<Longrightarrow> filter Q (update_where P f xs) = filter Q xs"
  by (induction xs) auto

lemma assertOwnMPISession_own [tenant_simps]:
  "assertOwnMPISession c sid (own (tenantId c) s) = assertOwnMPISession c sid s"
  by (simp add: assertOwnMPISession_def tenant_simps)

lemma session_results:
  assumes "results_owned s" and "assertOwnMPISession c (JStr sid) s = Inr m"
    and "r \<in> set (mpi_results s)" and "mr_session r = pgUuid sid"
  shows "mr_tenant r = tenantId c"
  using assms by (fastforce simp: assertOwnMPISession_def results_owned_def
      dest: find_SomeD split: option.splits if_splits)

lemma mapState_Inr: "mapState g (Inr x) = Inr (map_prod id g x)"
  by (cases x) simp

lemma upsertResult_own:
  assumes "\<And>r. r \<in> set (mpi_results s) \<Longrightarrow> sameItem row r \<Longrightarrow> mr_tenant r = t" and "mr_tenant row = t"
  shows "upsertResult row (own t s) = map_prod id (own t) (upsertResult row s)"
    and "others t (snd (upsertResult row s)) = others t s"
  using assms
  by (simp_all add: upsertResult_def Let_def find_within_on update_within_on update_outside_on
      split: option.split)

lemma recordMPIResult_reads: "op_reads_own (tenantId c) (recordMPIResult e c mpiSessionId p)"
  unfolding recordMPIResult_def
  by (rule reads_own_transaction, unfold tx_reads_own_def)
    (auto intro!: bindR_cong simp: row_defs tenant_simps mapState_Inr session_results sameItem_def
      upsertResult_def find_within_on update_within_on split: option.splits)

lemma recordMPIResult_writes: "op_writes_own (tenantId c) (recordMPIResult e c mpiSessionId p)"
  unfolding op_writes_own_def
proof (intro allI impI)
  fix s assume owned: "results_owned s"
  show "others (tenantId c) (snd (recordMPIResult e c mpiSessionId p s)) = others (tenantId c) s"
  proof (cases "recordMPIResult e c mpiSessionId p s")
    case (Pair r s')
    show ?thesis
    proof (cases r)
      case (Inr v)
      with Pair have "recordMPIResult e c mpiSessionId p s = (Inr v, s')" by simp
      then show ?thesis
      proof (rule recordMPIResult_success, goal_cases)
        case (1 sid session row)
        let ?s1 = "s\<lparr>mpi_sessions := update_where
          (\<lambda>m. ms_id m = pgUuid sid \<and> ms_tenant m = tenantId c \<and> ms_status m = MS_started)
          (\<lambda>m. m\<lparr>ms_status := MS_in_progress\<rparr>) (mpi_sessions s)\<rparr>"
        have "others (tenantId c) (snd (upsertResult row ?s1)) = others (tenantId c) ?s1"
          using 1 session_results [OF owned] by (intro upsertResult_own) (auto simp: sameItem_def)
        then have "others (tenantId c) s' = others (tenantId c) ?s1" using 1(7) by (metis snd_conv)
        also have "\<dots> = others (tenantId c) s" by (simp add: update_outside)
        finally show ?case using Pair by simp
      qed
    qed (use Pair in \<open>auto simp: recordMPIResult_def withTransaction_def split: sum.splits\<close>)
  qed
qed

lemma gates_own [tenant_simps]:
  "pickupGate c rid (own (tenantId c) s) = pickupGate c rid s"
  "workGate c rid (own (tenantId c) s) = workGate c rid s"
  "currentEstimate c rid (own (tenantId c) s) = currentEstimate c rid s"
  by (simp_all add: pickupGate_def openWork_def undecidedWork_def workGate_def currentEstimate_def
      tenant_simps del: filter_filter)

lemma authorizationGate_own [tenant_simps]:
  "authorizationGate c rid (own (tenantId c) s) = authorizationGate c rid s"
  by (simp add: authorizationGate_def authorizationEvidence_def tenant_simps)

lemma transitionGates_own [tenant_simps]:
  "transitionGates e c rid st tok ro (own (tenantId c) s) =
     mapState (own (tenantId c)) (transitionGates e c rid st tok ro s)"
  by (simp add: transitionGates_def tenant_simps split_def cong: tenant_congs)

lemma transitionGates_writes:
  "transitionGates e c rid st tok ro s = Inr (u, s') \<Longrightarrow> others (tenantId c) s' = others (tenantId c) s"
  by (auto simp: transitionGates_Inr consumeSensitiveActionGrant_others split: if_splits)

lemma withdrawEstimate_own [tenant_simps]:
  "own (tenantId c) (withdrawEstimate c rid s) = withdrawEstimate c rid (own (tenantId c) s)"
  "others (tenantId c) (withdrawEstimate c rid s) = others (tenantId c) s"
  by (simp_all add: withdrawEstimate_def tenant_simps)

lemma withdrawEstimate_sel [simp]:
  "queue_items (withdrawEstimate c rid s) = queue_items s"
  "sla_defaults (withdrawEstimate c rid s) = sla_defaults s"
  "ro_events (withdrawEstimate c rid s) = ro_events s"
  by (simp_all add: withdrawEstimate_def)


lemma transitionRO_reads: "op_reads_own (tenantId c) (transitionRO e c roId toStatus p)"
proof (cases "toStatus = ''estimate_pending''")
  case True
  show ?thesis unfolding transitionRO_def transitionBody_def movedState_def
    by (rule reads_own_audited_op)
      (simp_all add: True row_defs tenant_simps split_def cong: tenant_congs)
next
  case False
  then show ?thesis unfolding transitionRO_def transitionBody_def movedState_def
    by (intro reads_own_audited_op)
      (simp_all add: row_defs tenant_simps split_def cong: tenant_congs)
qed


lemma transitionBody_writes: "tx_writes_own (tenantId c) (transitionBody e c roId toStatus p)"
  unfolding tx_writes_own_def
proof (intro allI impI)
  fix s v s' assume "transitionBody e c roId toStatus p s = Inr (v, s')"
  then show "others (tenantId c) s' = others (tenantId c) s"
  proof (rule transitionBody_success)
    fix rid ro s1 st s4
    assume gates: "transitionGates e c rid toStatus (jget p ''step_up_token'') ro s = Inr ((), s1)"
    assume "syncQueueForRO e (ids e 0) c v (movedState c (pgUuid rid) (ro_status ro) toStatus st s1) = Inr s4"
      and "s' = recordROEvent (ids e 1) c rid ''status_changed'' (byUser c)
            [(''from'', JStr (ROStatusName (ro_status ro))), (''to'', JStr toStatus),
             (''reason'', orNull (jget p ''reason''))] s4"
    then have "others (tenantId c) s' = others (tenantId c) s1"
      by (auto simp: movedState_def row_defs queue_rows withdrawEstimate_own split: if_splits)
    with transitionGates_writes [OF gates] show ?thesis by simp
  qed
qed

lemma transitionRO_writes: "op_writes_own (tenantId c) (transitionRO e c roId toStatus p)"
  unfolding transitionRO_def by (rule writes_own_audited) (simp_all add: transitionBody_writes)

lemma decidableEstimate_own [tenant_simps]:
  "decidableEstimate c rid eid (own (tenantId c) s) = decidableEstimate c rid eid s"
  by (simp add: decidableEstimate_def tenant_simps cong: tenant_congs)

lemma decision_own [tenant_simps]:
  "decidedLines c rid d (own (tenantId c) s) = decidedLines c rid d s"
  "decisionTally c rid eid (own (tenantId c) s) = decisionTally c rid eid s"
  by (simp_all add: decidedLines_def decisionTally_def Let_def tenant_simps del: filter_filter)

lemma applyDecision_own [tenant_simps]:
  "filter (\<lambda>l. li_tenant l = tenantId c) (applyDecision c rid a d ls) =
     applyDecision c rid a d (filter (\<lambda>l. li_tenant l = tenantId c) ls)"
  "filter (\<lambda>l. li_tenant l \<noteq> tenantId c) (applyDecision c rid a d ls) =
     filter (\<lambda>l. li_tenant l \<noteq> tenantId c) ls"
  by (simp_all add: applyDecision_def Let_def tenant_simps)

lemma filter_applyDecision_own [tenant_simps]:
  "filter (\<lambda>l. li_ro l = r \<and> li_tenant l = tenantId c)
     (applyDecision c rid a d (filter (\<lambda>l. li_tenant l = tenantId c) ls)) =
   filter (\<lambda>l. li_ro l = r \<and> li_tenant l = tenantId c) (applyDecision c rid a d ls)"
  by (simp add: filter_within flip: applyDecision_own(1) del: filter_filter)

lemma recordDecision_own [tenant_simps]:
  "recordDecision e c rid eid d ls (own (tenantId c) s) =
     map_prod id (own (tenantId c)) (recordDecision e c rid eid d ls s)"
  by (simp add: recordDecision_def decisionTally_def row_defs tenant_simps del: filter_filter)

lemma recordDecision_others:
  "recordDecision e c rid eid d ls s = (a, s') \<Longrightarrow> others (tenantId c) s' = others (tenantId c) s"
  by (auto simp: recordDecision_def row_defs tenant_simps)

lemma recordAuthorization_reads: "op_reads_own (tenantId c) (recordAuthorization e c roId p)"
  unfolding recordAuthorization_def authorizationBody_def
  by (rule reads_own_audited_op)
    (simp_all add: Let_def tenant_simps split_def mapState_Inr cong: tenant_congs)

lemma recordAuthorization_writes: "op_writes_own (tenantId c) (recordAuthorization e c roId p)"
  unfolding recordAuthorization_def authorizationBody_def
  by (rule writes_own_audited, unfold tx_writes_own_def)
    (auto simp: Let_def recordDecision_others dest: consumeSensitiveActionGrant_others split: if_splits)
end
