(* ===== verification/CockpitFrames.thy ===== *)
theory CockpitFrames
  imports CockpitIsolation
begin

text \<open>
  Which tables each operation can write.  Every frame lemma says that the state after the
  operation is the state before it with the named tables replaced.
\<close>


definition keeps_rest :: "(db \<Rightarrow> db \<Rightarrow> db) \<Rightarrow> 'a tx \<Rightarrow> db \<Rightarrow> bool" where
  "keeps_rest put body s = (mapState (put s) (body s) = body s)"

lemma frame_transaction:
  "(\<And>s. put s s = s) \<Longrightarrow> keeps_rest put body s \<Longrightarrow>
   snd (withTransaction body s) = put s (snd (withTransaction body s))"
  unfolding keeps_rest_def withTransaction_def by (cases "body s") auto

lemma emitAudit_shape: "\<exists>a. emitAudit e c x y z s = s\<lparr>audit := a\<rparr>"
  by (auto simp: emitAudit_def intro: exI [of _ "audit s"])

lemma no_audit: "\<exists>a. s = s\<lparr>audit := a\<rparr>"
  by (rule exI [of _ "audit s"]) simp

lemma emitAudit_if_shape: "\<exists>a. (if b then emitAudit e c x y z s else s) = s\<lparr>audit := a\<rparr>"
  by (auto simp: emitAudit_def intro: exI [of _ "audit s"])

lemma frame_audited:
  assumes "\<And>s. put s s = s" and "\<And>v s'. \<exists>a. f v s' = s'\<lparr>audit := a\<rparr>"
    and "\<And>s' a. put s (s'\<lparr>audit := a\<rparr>) = (put s s')\<lparr>audit := a\<rparr>"
    and "keeps_rest put body s"
  shows "snd (andAudit f (withTransaction body s)) = put s (snd (andAudit f (withTransaction body s)))"
proof (cases "body s")
  case (Inr r)
  obtain v s' where r: "r = (v, s')" by force
  obtain a where "f v s' = s'\<lparr>audit := a\<rparr>" using assms(2) by blast
  moreover have "put s s' = s'" using assms(4) by (simp add: keeps_rest_def Inr r)
  ultimately show ?thesis by (simp add: withTransaction_def andAudit_def Inr r assms(3))
qed (simp add: withTransaction_def andAudit_def assms(1))

lemma createAppointment_frame: "snd (createAppointment e c p s) = (\<lambda>s s'. s\<lparr>appointments := appointments (s'), audit := audit (s')\<rparr>) s (snd (createAppointment e c p s))"
  unfolding createAppointment_def
  by (rule frame_audited, simp, rule emitAudit_shape, simp, unfold keeps_rest_def)
    (simp add: row_defs moveRO_rows syncQueueForRO_rows createServiceQueueItem_rows bindR_case_option bindR_if  cong: tenant_congs)

lemma updateAppointment_frame: "snd (updateAppointment e c appointmentId updates s) = (\<lambda>s s'. s\<lparr>appointments := appointments (s')\<rparr>) s (snd (updateAppointment e c appointmentId updates s))"
  unfolding updateAppointment_def
  by (rule frame_transaction, simp, unfold keeps_rest_def)
    (simp add: row_defs moveRO_rows syncQueueForRO_rows createServiceQueueItem_rows bindR_case_option bindR_if  cong: tenant_congs)

lemma confirmAppointment_frame: "snd (confirmAppointment e c appointmentId s) = (\<lambda>s s'. s\<lparr>appointments := appointments (s'), appointment_events := appointment_events (s')\<rparr>) s (snd (confirmAppointment e c appointmentId s))"
  unfolding confirmAppointment_def
  by (rule frame_transaction, simp, unfold keeps_rest_def)
    (simp add: row_defs moveRO_rows syncQueueForRO_rows createServiceQueueItem_rows bindR_case_option bindR_if  cong: tenant_congs)

lemma checkIn_frame: "snd (checkIn e c appointmentId p s) = (\<lambda>s s'. s\<lparr>repair_orders := repair_orders (s'), appointments := appointments (s'), appointment_events := appointment_events (s'), ro_events := ro_events (s'), queue_items := queue_items (s'), offers := offers (s'), audit := audit (s')\<rparr>) s (snd (checkIn e c appointmentId p s))"
  unfolding checkIn_def
  by (rule frame_audited, simp, rule emitAudit_if_shape, simp, unfold keeps_rest_def)
    (simp add: row_defs moveRO_rows syncQueueForRO_rows createServiceQueueItem_rows bindR_case_option bindR_if checkInBody_def cong: tenant_congs)

lemma markAppointmentNoShow_frame: "snd (markAppointmentNoShow e c appointmentId s) = (\<lambda>s s'. s\<lparr>appointments := appointments (s'), appointment_events := appointment_events (s'), queue_items := queue_items (s')\<rparr>) s (snd (markAppointmentNoShow e c appointmentId s))"
  unfolding markAppointmentNoShow_def
  by (rule frame_transaction, simp, unfold keeps_rest_def)
    (simp add: row_defs moveRO_rows syncQueueForRO_rows createServiceQueueItem_rows bindR_case_option bindR_if  cong: tenant_congs)

lemma createWaitlistEntry_frame: "snd (createWaitlistEntry e c p s) = (\<lambda>s s'. s\<lparr>waitlist := waitlist (s'), audit := audit (s')\<rparr>) s (snd (createWaitlistEntry e c p s))"
  unfolding createWaitlistEntry_def
  by (rule frame_audited, simp, rule emitAudit_shape, simp, unfold keeps_rest_def)
    (simp add: row_defs moveRO_rows syncQueueForRO_rows createServiceQueueItem_rows bindR_case_option bindR_if  cong: tenant_congs)

lemma offerWaitlistSlot_frame: "snd (offerWaitlistSlot e c waitlistEntryId p s) = (\<lambda>s s'. s\<lparr>waitlist := waitlist (s'), audit := audit (s')\<rparr>) s (snd (offerWaitlistSlot e c waitlistEntryId p s))"
  unfolding offerWaitlistSlot_def
  by (rule frame_audited, simp, rule emitAudit_shape, simp, unfold keeps_rest_def)
    (simp add: row_defs moveRO_rows syncQueueForRO_rows createServiceQueueItem_rows bindR_case_option bindR_if  cong: tenant_congs)

lemma cancelWaitlistEntry_frame: "snd (cancelWaitlistEntry e c waitlistEntryId s) = (\<lambda>s s'. s\<lparr>waitlist := waitlist (s'), audit := audit (s')\<rparr>) s (snd (cancelWaitlistEntry e c waitlistEntryId s))"
  unfolding cancelWaitlistEntry_def
  by (rule frame_audited, simp, rule emitAudit_shape, simp, unfold keeps_rest_def)
    (simp add: row_defs moveRO_rows syncQueueForRO_rows createServiceQueueItem_rows bindR_case_option bindR_if  cong: tenant_congs)

lemma createFirstServiceOffer_frame: "snd (createFirstServiceOffer e c p s) = (\<lambda>s s'. s\<lparr>appointments := appointments (s'), offers := offers (s'), audit := audit (s')\<rparr>) s (snd (createFirstServiceOffer e c p s))"
  unfolding createFirstServiceOffer_def
  by (rule frame_audited, simp, rule emitAudit_shape, simp, unfold keeps_rest_def)
    (simp add: row_defs moveRO_rows syncQueueForRO_rows createServiceQueueItem_rows bindR_case_option bindR_if insertAppointment_def requireConcerns_def firstServiceConcerns_def cong: tenant_congs)

lemma createRO_frame: "snd (createRO e c p s) = (\<lambda>s s'. s\<lparr>repair_orders := repair_orders (s'), ro_events := ro_events (s'), audit := audit (s')\<rparr>) s (snd (createRO e c p s))"
  unfolding createRO_def
  by (rule frame_audited, simp, rule emitAudit_shape, simp, unfold keeps_rest_def)
    (simp add: row_defs moveRO_rows syncQueueForRO_rows createServiceQueueItem_rows bindR_case_option bindR_if  cong: tenant_congs)

lemma addLineItem_frame: "snd (addLineItem e c roId p s) = (\<lambda>s s'. s\<lparr>line_items := line_items (s')\<rparr>) s (snd (addLineItem e c roId p s))"
  unfolding addLineItem_def
  by (rule frame_transaction, simp, unfold keeps_rest_def)
    (simp add: row_defs moveRO_rows syncQueueForRO_rows createServiceQueueItem_rows bindR_case_option bindR_if  cong: tenant_congs)

lemma updateLineItem_frame: "snd (updateLineItem c roId lineItemId updates s) = (\<lambda>s s'. s\<lparr>line_items := line_items (s')\<rparr>) s (snd (updateLineItem c roId lineItemId updates s))"
  unfolding updateLineItem_def
  by (rule frame_transaction, simp, unfold keeps_rest_def)
    (simp add: row_defs moveRO_rows syncQueueForRO_rows createServiceQueueItem_rows bindR_case_option bindR_if  cong: tenant_congs)

lemma startMPISession_frame: "snd (startMPISession e c roId p s) = (\<lambda>s s'. s\<lparr>mpi_sessions := mpi_sessions (s'), repair_orders := repair_orders (s'), queue_items := queue_items (s'), ro_events := ro_events (s')\<rparr>) s (snd (startMPISession e c roId p s))"
  unfolding startMPISession_def
  by (rule frame_transaction, simp, unfold keeps_rest_def)
    (simp add: row_defs moveRO_rows syncQueueForRO_rows createServiceQueueItem_rows bindR_case_option bindR_if  cong: tenant_congs)

lemma upsertResult_state: "upsertResult row s = (v, s') \<Longrightarrow> \<exists>x. s' = s\<lparr>mpi_results := x\<rparr>"
  by (auto simp: upsertResult_def Let_def split: option.splits)

lemma recordMPIResult_fails: "recordMPIResult e c mpiSessionId p s = (Inl err, s') \<Longrightarrow> s' = s"
  unfolding recordMPIResult_def by (auto simp: withTransaction_def split: sum.splits)

lemma recordMPIResult_frame:
  "snd (recordMPIResult e c mpiSessionId p s) =
     (\<lambda>s s'. s\<lparr>mpi_sessions := mpi_sessions s', mpi_results := mpi_results s'\<rparr>) s
       (snd (recordMPIResult e c mpiSessionId p s))"
proof (cases "recordMPIResult e c mpiSessionId p s")
  case (Pair r s')
  show ?thesis
  proof (cases r)
    case (Inr v)
    with Pair show ?thesis by (auto dest!: upsertResult_state elim!: recordMPIResult_success)
  qed (use Pair in \<open>auto dest: recordMPIResult_fails\<close>)
qed

lemma submitMPISession_frame: "snd (submitMPISession e c mpiSessionId s) = (\<lambda>s s'. s\<lparr>mpi_sessions := mpi_sessions (s'), recommendations := recommendations (s'), ro_events := ro_events (s')\<rparr>) s (snd (submitMPISession e c mpiSessionId s))"
  unfolding submitMPISession_def
  by (rule frame_transaction, simp, unfold keeps_rest_def)
    (simp add: row_defs moveRO_rows syncQueueForRO_rows createServiceQueueItem_rows bindR_case_option bindR_if  cong: tenant_congs)

lemma sendRecommendationsToCustomer_frame: "snd (sendRecommendationsToCustomer e c roId p s) = (\<lambda>s s'. s\<lparr>recommendations := recommendations (s'), portal_tasks := portal_tasks (s'), ro_events := ro_events (s')\<rparr>) s (snd (sendRecommendationsToCustomer e c roId p s))"
  unfolding sendRecommendationsToCustomer_def
  by (rule frame_transaction, simp, unfold keeps_rest_def)
    (simp add: row_defs moveRO_rows syncQueueForRO_rows createServiceQueueItem_rows bindR_case_option bindR_if  cong: tenant_congs)

lemma updatePortalTaskStatus_frame: "snd (updatePortalTaskStatus c portalTaskId p s) = (\<lambda>s s'. s\<lparr>portal_tasks := portal_tasks (s')\<rparr>) s (snd (updatePortalTaskStatus c portalTaskId p s))"
  unfolding updatePortalTaskStatus_def
  by (rule frame_transaction, simp, unfold keeps_rest_def)
    (simp add: row_defs moveRO_rows syncQueueForRO_rows createServiceQueueItem_rows bindR_case_option bindR_if  cong: tenant_congs)

lemma generateEstimate_frame: "snd (generateEstimate e c roId p s) = (\<lambda>s s'. s\<lparr>estimates := estimates (s'), line_items := line_items (s'), repair_orders := repair_orders (s'), queue_items := queue_items (s'), ro_events := ro_events (s')\<rparr>) s (snd (generateEstimate e c roId p s))"
  unfolding generateEstimate_def
  by (rule frame_transaction, simp, unfold keeps_rest_def)
    (simp add: row_defs moveRO_rows syncQueueForRO_rows createServiceQueueItem_rows bindR_case_option bindR_if  cong: tenant_congs)

lemma sendEstimate_frame: "snd (sendEstimate e c roId estimateId p s) = (\<lambda>s s'. s\<lparr>estimates := estimates (s'), repair_orders := repair_orders (s'), queue_items := queue_items (s'), ro_events := ro_events (s')\<rparr>) s (snd (sendEstimate e c roId estimateId p s))"
  unfolding sendEstimate_def
  by (rule frame_transaction, simp, unfold keeps_rest_def)
    (simp add: row_defs moveRO_rows syncQueueForRO_rows createServiceQueueItem_rows bindR_case_option bindR_if  cong: tenant_congs)

lemma requestPart_frame: "snd (requestPart e c roId p s) = (\<lambda>s s'. s\<lparr>parts_lines := parts_lines (s')\<rparr>) s (snd (requestPart e c roId p s))"
  unfolding requestPart_def
  by (rule frame_transaction, simp, unfold keeps_rest_def)
    (simp add: row_defs moveRO_rows syncQueueForRO_rows createServiceQueueItem_rows bindR_case_option bindR_if  cong: tenant_congs)

lemma updatePartLine_frame: "snd (updatePartLine e c partLineId updates s) = (\<lambda>s s'. s\<lparr>parts_lines := parts_lines (s')\<rparr>) s (snd (updatePartLine e c partLineId updates s))"
  unfolding updatePartLine_def
  by (rule frame_transaction, simp, unfold keeps_rest_def)
    (simp add: row_defs moveRO_rows syncQueueForRO_rows createServiceQueueItem_rows bindR_case_option bindR_if  cong: tenant_congs)

lemma createSubletJob_frame: "snd (createSubletJob e c roId p s) = (\<lambda>s s'. s\<lparr>sublet_jobs := sublet_jobs (s')\<rparr>) s (snd (createSubletJob e c roId p s))"
  unfolding createSubletJob_def
  by (rule frame_transaction, simp, unfold keeps_rest_def)
    (simp add: row_defs moveRO_rows syncQueueForRO_rows createServiceQueueItem_rows bindR_case_option bindR_if  cong: tenant_congs)

lemma updateSubletJob_frame: "snd (updateSubletJob c subletJobId updates s) = (\<lambda>s s'. s\<lparr>sublet_jobs := sublet_jobs (s')\<rparr>) s (snd (updateSubletJob c subletJobId updates s))"
  unfolding updateSubletJob_def
  by (rule frame_transaction, simp, unfold keeps_rest_def)
    (simp add: row_defs moveRO_rows syncQueueForRO_rows createServiceQueueItem_rows bindR_case_option bindR_if  cong: tenant_congs)

lemma dispatchTech_frame: "snd (dispatchTech e c p s) = (\<lambda>s s'. s\<lparr>tickets := tickets (s'), line_items := line_items (s')\<rparr>) s (snd (dispatchTech e c p s))"
  unfolding dispatchTech_def
  by (rule frame_transaction, simp, unfold keeps_rest_def)
    (simp add: row_defs moveRO_rows syncQueueForRO_rows createServiceQueueItem_rows bindR_case_option bindR_if  cong: tenant_congs)

lemma updateTicketStatus_frame: "snd (updateTicketStatus c ticketId p s) = (\<lambda>s s'. s\<lparr>tickets := tickets (s')\<rparr>) s (snd (updateTicketStatus c ticketId p s))"
  unfolding updateTicketStatus_def
  by (rule frame_transaction, simp, unfold keeps_rest_def)
    (simp add: row_defs moveRO_rows syncQueueForRO_rows createServiceQueueItem_rows bindR_case_option bindR_if  cong: tenant_congs)

lemma recordTimeEntry_frame: "snd (recordTimeEntry e c ticketId p s) = (\<lambda>s s'. s\<lparr>time_entries := time_entries (s')\<rparr>) s (snd (recordTimeEntry e c ticketId p s))"
  unfolding recordTimeEntry_def
  by (rule frame_transaction, simp, unfold keeps_rest_def)
    (simp add: row_defs moveRO_rows syncQueueForRO_rows createServiceQueueItem_rows bindR_case_option bindR_if  cong: tenant_congs)

lemma createWarrantyClaim_frame: "snd (createWarrantyClaim e c p s) = (\<lambda>s s'. s\<lparr>warranty_claims := warranty_claims (s')\<rparr>) s (snd (createWarrantyClaim e c p s))"
  unfolding createWarrantyClaim_def
  by (rule frame_transaction, simp, unfold keeps_rest_def)
    (simp add: row_defs moveRO_rows syncQueueForRO_rows createServiceQueueItem_rows bindR_case_option bindR_if  cong: tenant_congs)

lemma createComebackCase_frame: "snd (createComebackCase e c p s) = (\<lambda>s s'. s\<lparr>comebacks := comebacks (s'), repair_orders := repair_orders (s'), queue_items := queue_items (s'), ro_events := ro_events (s'), audit := audit (s')\<rparr>) s (snd (createComebackCase e c p s))"
  unfolding createComebackCase_def
  by (rule frame_audited, simp, rule emitAudit_shape, simp, unfold keeps_rest_def)
    (simp add: row_defs moveRO_rows syncQueueForRO_rows createServiceQueueItem_rows bindR_case_option bindR_if comebackBody_def cong: tenant_congs)

lemma updateComebackCase_frame: "snd (updateComebackCase c comebackId updates s) = (\<lambda>s s'. s\<lparr>comebacks := comebacks (s')\<rparr>) s (snd (updateComebackCase c comebackId updates s))"
  unfolding updateComebackCase_def
  by (rule frame_transaction, simp, unfold keeps_rest_def)
    (simp add: row_defs moveRO_rows syncQueueForRO_rows createServiceQueueItem_rows bindR_case_option bindR_if  cong: tenant_congs)

lemma assignServiceQueueItem_frame: "snd (assignServiceQueueItem c queueItemId s) = (\<lambda>s s'. s\<lparr>queue_items := queue_items (s')\<rparr>) s (snd (assignServiceQueueItem c queueItemId s))"
  unfolding assignServiceQueueItem_def
  by (rule frame_transaction, simp, unfold keeps_rest_def)
    (simp add: row_defs moveRO_rows syncQueueForRO_rows createServiceQueueItem_rows bindR_case_option bindR_if  cong: tenant_congs)

lemma updateServiceQueueItemStatus_frame: "snd (updateServiceQueueItemStatus c queueItemId p s) = (\<lambda>s s'. s\<lparr>queue_items := queue_items (s')\<rparr>) s (snd (updateServiceQueueItemStatus c queueItemId p s))"
  unfolding updateServiceQueueItemStatus_def
  by (rule frame_transaction, simp, unfold keeps_rest_def)
    (simp add: row_defs moveRO_rows syncQueueForRO_rows createServiceQueueItem_rows bindR_case_option bindR_if  cong: tenant_congs)

lemma escalateServiceQueueItem_frame: "snd (escalateServiceQueueItem e c queueItemId p s) = (\<lambda>s s'. s\<lparr>queue_items := queue_items (s'), audit := audit (s')\<rparr>) s (snd (escalateServiceQueueItem e c queueItemId p s))"
  unfolding escalateServiceQueueItem_def
  by (rule frame_audited, simp, rule emitAudit_shape, simp, unfold keeps_rest_def)
    (simp add: row_defs moveRO_rows syncQueueForRO_rows createServiceQueueItem_rows bindR_case_option bindR_if  cong: tenant_congs)

lemma convertBody_frame:
  "keeps_rest (\<lambda>s s'. s\<lparr>appointments := appointments s', waitlist := waitlist s',
     appointment_events := appointment_events s', audit := audit s'\<rparr>) (convertBody e c wid st en) s"
  by (simp add: keeps_rest_def convertBody_def row_defs cong: tenant_congs)

lemma convertWaitlistEntry_frame:
  "snd (convertWaitlistEntry e c waitlistEntryId p s) =
     (\<lambda>s s'. s\<lparr>appointments := appointments s', waitlist := waitlist s',
        appointment_events := appointment_events s', audit := audit s'\<rparr>) s
       (snd (convertWaitlistEntry e c waitlistEntryId p s))"
proof -
  let ?put = "\<lambda>s s'. s\<lparr>appointments := appointments s', waitlist := waitlist s',
        appointment_events := appointment_events s', audit := audit s'\<rparr>"
  let ?tx = "withTransaction (\<lambda>s.
        bindR (requireTimestamp e (jget p ''scheduled_start'')) (\<lambda>start.
        bindR (optTimestamp e (jget p ''scheduled_end'')) (\<lambda>end'.
          convertBody e c waitlistEntryId start end' s))) s"
  have "snd ?tx = ?put s (snd ?tx)"
    by (rule frame_transaction, simp, unfold keeps_rest_def)
      (simp add: convertBody_frame [unfolded keeps_rest_def])
  moreover have "\<exists>a. snd (convertWaitlistEntry e c waitlistEntryId p s) = (snd ?tx)\<lparr>audit := a\<rparr>"
    unfolding convertWaitlistEntry_def
    by (auto split: prod.split sum.split option.split intro: emitAudit_shape no_audit)
  then obtain a where "snd (convertWaitlistEntry e c waitlistEntryId p s) = (snd ?tx)\<lparr>audit := a\<rparr>" ..
  moreover have "?put s (x\<lparr>audit := a\<rparr>) = (?put s x)\<lparr>audit := a\<rparr>" for x by simp
  ultimately show ?thesis by metis
qed

lemma consumeSensitiveActionGrant_frame:
  "consumeSensitiveActionGrant e tok c a r s = Inr (u, s') \<Longrightarrow>
   \<exists>g v. s' = s\<lparr>grants := g, audit := v\<rparr>"
  by (auto simp: consumeSensitiveActionGrant_def consumeReauthenticationGrant_def
      consumeReauthenticationGrantReturningId_def Let_def split: if_splits prod.splits bool.splits list.splits)

lemma no_grant: "\<exists>g v. s = s\<lparr>grants := g, audit := v\<rparr>"
  by (rule exI [of _ "grants s"], rule exI [of _ "audit s"]) simp

lemma transitionGates_frame:
  "transitionGates e c rid st tok ro s = Inr (u, s') \<Longrightarrow> \<exists>g v. s' = s\<lparr>grants := g, audit := v\<rparr>"
  unfolding transitionGates_Inr using consumeSensitiveActionGrant_frame no_grant by metis

lemma keeps_restI:
  "(\<And>v s'. body s = Inr (v, s') \<Longrightarrow> put s s' = s') \<Longrightarrow> keeps_rest put body s"
  unfolding keeps_rest_def by (cases "body s") auto

lemma transitionRO_frame:
  "snd (transitionRO e c roId toStatus p s) =
     (\<lambda>s s'. s\<lparr>grants := grants s', repair_orders := repair_orders s', estimates := estimates s',
        line_items := line_items s', queue_items := queue_items s', ro_events := ro_events s',
        audit := audit s'\<rparr>) s (snd (transitionRO e c roId toStatus p s))"
  unfolding transitionRO_def
proof (rule frame_audited, simp, rule emitAudit_shape, simp, rule keeps_restI, erule transitionBody_success)
  fix v s' rid ro s1 row st s4
  assume "transitionGates e c rid toStatus (jget p ''step_up_token'') ro s = Inr ((), s1)"
    and "syncQueueForRO e (ids e 0) c v (movedState c (pgUuid rid) (ro_status ro) toStatus st s1) = Inr s4"
    and s': "s' = recordROEvent (ids e 1) c rid ''status_changed'' (byUser c)
            [(''from'', JStr (ROStatusName (ro_status ro))), (''to'', JStr toStatus),
             (''reason'', orNull (jget p ''reason''))] s4"
  then show "s\<lparr>grants := grants s', repair_orders := repair_orders s', estimates := estimates s',
        line_items := line_items s', queue_items := queue_items s', ro_events := ro_events s',
        audit := audit s'\<rparr> = s'"
    by (auto dest!: transitionGates_frame syncQueueForRO_frame
        simp: movedState_def withdrawEstimate_def recordROEvent_def Let_def split: if_splits)
qed

lemma recordAuthorization_frame:
  "snd (recordAuthorization e c roId p s) =
     (\<lambda>s s'. s\<lparr>grants := grants s', authorizations := authorizations s', line_items := line_items s',
        estimates := estimates s', ro_events := ro_events s', audit := audit s'\<rparr>) s
       (snd (recordAuthorization e c roId p s))"
  unfolding recordAuthorization_def
  by (rule frame_audited, simp, rule emitAudit_shape, simp, rule keeps_restI)
    (auto simp: authorizationBody_def recordDecision_def row_defs
      dest!: consumeSensitiveActionGrant_frame split: if_splits)

end
