(* ===== verification/CockpitService.thy ===== *)
theory CockpitService
  imports CockpitFrames
begin

text \<open>
  The service as a whole: every state-changing request of service-cockpit-service.ts, the
  function that answers it, and the isolation of tenants over sequences of requests.  The
  locale \<open>tenant_scoped\<close> is the contract a multi-tenant service promises; its interpretation
  discharges the contract for the service cockpit.
\<close>

section \<open>Requests\<close>

datatype svc_request =
    CreateAppointment jsobj
  | UpdateAppointment jsval jsobj
  | ConfirmAppointment jsval
  | CheckIn jsval jsobj
  | MarkAppointmentNoShow jsval
  | CreateWaitlistEntry jsobj
  | OfferWaitlistSlot jsval jsobj
  | ConvertWaitlistEntry jsval jsobj
  | CancelWaitlistEntry jsval
  | CreateFirstServiceOffer jsobj
  | CreateRO jsobj
  | TransitionRO jsval string jsobj
  | AddLineItem jsval jsobj
  | UpdateLineItem jsval jsval jsobj
  | StartMPISession jsval jsobj
  | RecordMPIResult jsval jsobj
  | SubmitMPISession jsval
  | SendRecommendationsToCustomer jsval jsobj
  | UpdatePortalTaskStatus jsval jsobj
  | GenerateEstimate jsval jsobj
  | SendEstimate jsval jsval jsobj
  | RecordAuthorization jsval jsobj
  | RequestPart jsval jsobj
  | UpdatePartLine jsval jsobj
  | CreateSubletJob jsval jsobj
  | UpdateSubletJob jsval jsobj
  | DispatchTech jsobj
  | UpdateTicketStatus jsval jsobj
  | RecordTimeEntry jsval jsobj
  | CreateWarrantyClaim jsobj
  | CreateComebackCase jsobj
  | UpdateComebackCase jsval jsobj
  | AssignServiceQueueItem jsval
  | UpdateServiceQueueItemStatus jsval jsobj
  | EscalateServiceQueueItem jsval jsobj

definition outcome :: "'a result \<times> db \<Rightarrow> app_error option \<times> db" where
  "outcome r = (case r of (Inl err, s) \<Rightarrow> (Some err, s) | (Inr _, s) \<Rightarrow> (None, s))"

fun exec :: "env \<Rightarrow> auth_context \<Rightarrow> svc_request \<Rightarrow> db \<Rightarrow> app_error option \<times> db" where
  "exec e c (CreateAppointment p) s = outcome (createAppointment e c p s)"
| "exec e c (UpdateAppointment appointmentId updates) s =
     outcome (updateAppointment e c appointmentId updates s)"
| "exec e c (ConfirmAppointment appointmentId) s =
     outcome (confirmAppointment e c appointmentId s)"
| "exec e c (CheckIn appointmentId p) s = outcome (checkIn e c appointmentId p s)"
| "exec e c (MarkAppointmentNoShow appointmentId) s =
     outcome (markAppointmentNoShow e c appointmentId s)"
| "exec e c (CreateWaitlistEntry p) s = outcome (createWaitlistEntry e c p s)"
| "exec e c (OfferWaitlistSlot waitlistEntryId p) s =
     outcome (offerWaitlistSlot e c waitlistEntryId p s)"
| "exec e c (ConvertWaitlistEntry waitlistEntryId p) s =
     outcome (convertWaitlistEntry e c waitlistEntryId p s)"
| "exec e c (CancelWaitlistEntry waitlistEntryId) s =
     outcome (cancelWaitlistEntry e c waitlistEntryId s)"
| "exec e c (CreateFirstServiceOffer p) s = outcome (createFirstServiceOffer e c p s)"
| "exec e c (CreateRO p) s = outcome (createRO e c p s)"
| "exec e c (TransitionRO roId toStatus p) s = outcome (transitionRO e c roId toStatus p s)"
| "exec e c (AddLineItem roId p) s = outcome (addLineItem e c roId p s)"
| "exec e c (UpdateLineItem roId lineItemId updates) s =
     outcome (updateLineItem c roId lineItemId updates s)"
| "exec e c (StartMPISession roId p) s = outcome (startMPISession e c roId p s)"
| "exec e c (RecordMPIResult mpiSessionId p) s = outcome (recordMPIResult e c mpiSessionId p s)"
| "exec e c (SubmitMPISession mpiSessionId) s = outcome (submitMPISession e c mpiSessionId s)"
| "exec e c (SendRecommendationsToCustomer roId p) s =
     outcome (sendRecommendationsToCustomer e c roId p s)"
| "exec e c (UpdatePortalTaskStatus portalTaskId p) s =
     outcome (updatePortalTaskStatus c portalTaskId p s)"
| "exec e c (GenerateEstimate roId p) s = outcome (generateEstimate e c roId p s)"
| "exec e c (SendEstimate roId estimateId p) s = outcome (sendEstimate e c roId estimateId p s)"
| "exec e c (RecordAuthorization roId p) s = outcome (recordAuthorization e c roId p s)"
| "exec e c (RequestPart roId p) s = outcome (requestPart e c roId p s)"
| "exec e c (UpdatePartLine partLineId updates) s =
     outcome (updatePartLine e c partLineId updates s)"
| "exec e c (CreateSubletJob roId p) s = outcome (createSubletJob e c roId p s)"
| "exec e c (UpdateSubletJob subletJobId updates) s =
     outcome (updateSubletJob c subletJobId updates s)"
| "exec e c (DispatchTech p) s = outcome (dispatchTech e c p s)"
| "exec e c (UpdateTicketStatus ticketId p) s = outcome (updateTicketStatus c ticketId p s)"
| "exec e c (RecordTimeEntry ticketId p) s = outcome (recordTimeEntry e c ticketId p s)"
| "exec e c (CreateWarrantyClaim p) s = outcome (createWarrantyClaim e c p s)"
| "exec e c (CreateComebackCase p) s = outcome (createComebackCase e c p s)"
| "exec e c (UpdateComebackCase comebackId updates) s =
     outcome (updateComebackCase c comebackId updates s)"
| "exec e c (AssignServiceQueueItem queueItemId) s =
     outcome (assignServiceQueueItem c queueItemId s)"
| "exec e c (UpdateServiceQueueItemStatus queueItemId p) s =
     outcome (updateServiceQueueItemStatus c queueItemId p s)"
| "exec e c (EscalateServiceQueueItem queueItemId p) s =
     outcome (escalateServiceQueueItem e c queueItemId p s)"

lemma outcome_sel [simp]: "snd (outcome r) = snd r" "fst (outcome r) = None \<longleftrightarrow> (\<exists>v. fst r = Inr v)"
  by (auto simp: outcome_def split: prod.splits sum.splits)

lemma outcome_own: "outcome (map_prod id g r) = map_prod id g (outcome r)"
  by (auto simp: outcome_def split: prod.splits sum.splits)

lemmas all_reads =
  createAppointment_reads updateAppointment_reads confirmAppointment_reads checkIn_reads
  markAppointmentNoShow_reads createWaitlistEntry_reads offerWaitlistSlot_reads
  convertWaitlistEntry_reads cancelWaitlistEntry_reads createFirstServiceOffer_reads
  createRO_reads transitionRO_reads addLineItem_reads updateLineItem_reads startMPISession_reads
  recordMPIResult_reads submitMPISession_reads sendRecommendationsToCustomer_reads
  updatePortalTaskStatus_reads generateEstimate_reads sendEstimate_reads
  recordAuthorization_reads requestPart_reads updatePartLine_reads createSubletJob_reads
  updateSubletJob_reads dispatchTech_reads updateTicketStatus_reads recordTimeEntry_reads
  createWarrantyClaim_reads createComebackCase_reads updateComebackCase_reads
  assignServiceQueueItem_reads updateServiceQueueItemStatus_reads escalateServiceQueueItem_reads

lemmas all_writes =
  createAppointment_writes updateAppointment_writes confirmAppointment_writes checkIn_writes
  markAppointmentNoShow_writes createWaitlistEntry_writes offerWaitlistSlot_writes
  convertWaitlistEntry_writes cancelWaitlistEntry_writes createFirstServiceOffer_writes
  createRO_writes transitionRO_writes addLineItem_writes updateLineItem_writes
  startMPISession_writes recordMPIResult_writes submitMPISession_writes
  sendRecommendationsToCustomer_writes updatePortalTaskStatus_writes generateEstimate_writes
  sendEstimate_writes recordAuthorization_writes requestPart_writes updatePartLine_writes
  createSubletJob_writes updateSubletJob_writes dispatchTech_writes updateTicketStatus_writes
  recordTimeEntry_writes createWarrantyClaim_writes createComebackCase_writes
  updateComebackCase_writes assignServiceQueueItem_writes updateServiceQueueItemStatus_writes
  escalateServiceQueueItem_writes

lemmas all_frames =
  createAppointment_frame updateAppointment_frame confirmAppointment_frame checkIn_frame
  markAppointmentNoShow_frame createWaitlistEntry_frame offerWaitlistSlot_frame
  convertWaitlistEntry_frame cancelWaitlistEntry_frame createFirstServiceOffer_frame
  createRO_frame transitionRO_frame addLineItem_frame updateLineItem_frame startMPISession_frame
  recordMPIResult_frame submitMPISession_frame sendRecommendationsToCustomer_frame
  updatePortalTaskStatus_frame generateEstimate_frame sendEstimate_frame
  recordAuthorization_frame requestPart_frame updatePartLine_frame createSubletJob_frame
  updateSubletJob_frame dispatchTech_frame updateTicketStatus_frame recordTimeEntry_frame
  createWarrantyClaim_frame createComebackCase_frame updateComebackCase_frame
  assignServiceQueueItem_frame updateServiceQueueItemStatus_frame escalateServiceQueueItem_frame

section \<open>New identifiers\<close>

text \<open>
  Every identifier and reference in the store.  \<open>fresh\<close> is what the code relies on of
  \<open>randomUUID()\<close>: the identifiers a request draws are canonical, distinct, and occur nowhere
  in the store.  No request draws more than one per inspection result and four besides.
\<close>

definition usedIds :: "db \<Rightarrow> string list" where
  "usedIds s =
     map ap_id (appointments s) @ map ro_id (repair_orders s) @ map li_id (line_items s) @
     map ms_id (mpi_sessions s) @ map mr_session (mpi_results s) @ map es_id (estimates s) @
     map au_id (authorizations s) @ List.map_filter li_auth_ref (line_items s) @
     map tk_id (tickets s) @ map tk_line (tickets s) @ map te_ticket (time_entries s) @
     map qi_id (queue_items s) @ List.map_filter qi_ro (queue_items s) @
     map wl_id (waitlist s) @ List.map_filter wl_appointment (waitlist s) @
     map fo_id (offers s) @ List.map_filter ro_appointment (repair_orders s) @
     map es_ro (estimates s) @ List.map_filter li_estimate (line_items s)"

definition draws :: "env \<Rightarrow> db \<Rightarrow> string list" where
  "draws e s = map (ids e) [0..<4 + length (mpi_results s)]"

definition fresh :: "env \<Rightarrow> db \<Rightarrow> bool" where
  "fresh e s =
     (distinct (draws e s) \<and>
      list_all (\<lambda>i. isUuidString i \<and> pgUuid i = i \<and> i \<notin> set (usedIds s)) (draws e s))"

lemma fresh_new:
  assumes "fresh e s" and "n < 4"
  shows "ids e n \<notin> set (usedIds s)" and "pgUuid (ids e n) = ids e n" and "isUuidString (ids e n)"
proof -
  have "ids e n \<in> set (draws e s)" using assms(2) by (auto simp: draws_def)
  with assms(1) show "ids e n \<notin> set (usedIds s)" and "pgUuid (ids e n) = ids e n" and "isUuidString (ids e n)"
    by (auto simp: fresh_def list_all_iff)
qed

lemma fresh_distinct:
  assumes "fresh e s" and "m < 4" and "n < 4" and "m \<noteq> n"
  shows "ids e m \<noteq> ids e n"
  using assms by (auto simp: fresh_def draws_def distinct_map inj_on_def)

section \<open>Isolation of tenants\<close>

text \<open>A sequence of requests, and whether each is admissible in the state it meets.\<close>

fun runAll :: "('q \<Rightarrow> db \<Rightarrow> 'a \<times> db) \<Rightarrow> 'q list \<Rightarrow> db \<Rightarrow> ('q \<times> 'a) list \<times> db" where
  "runAll run [] s = ([], s)"
| "runAll run (q # qs) s =
     (case run q s of (a, s') \<Rightarrow> (case runAll run qs s' of (as, s'') \<Rightarrow> ((q, a) # as, s'')))"

fun allOk :: "('q \<Rightarrow> db \<Rightarrow> 'a \<times> db) \<Rightarrow> ('q \<Rightarrow> db \<Rightarrow> bool) \<Rightarrow> 'q list \<Rightarrow> db \<Rightarrow> bool" where
  "allOk run ok [] s = True"
| "allOk run ok (q # qs) s = (ok q s \<and> allOk run ok qs (snd (run q s)))"

lemma restrict_restrict: "restrict P (restrict Q s) = restrict (\<lambda>x. Q x \<and> P x) s"
  by (simp add: restrict_def)

lemma own_others: "t \<noteq> t' \<Longrightarrow> own t (others t' s) = own t s"
  by (simp add: restrict_restrict) (rule arg_cong [where f = "\<lambda>Q. restrict Q s"], auto)

lemma own_own: "own t (own t s) = own t s"
  by (simp add: restrict_restrict)

locale tenant_scoped =
  fixes run :: "'q \<Rightarrow> db \<Rightarrow> 'a \<times> db"
    and tenant :: "'q \<Rightarrow> string"
    and ok :: "'q \<Rightarrow> db \<Rightarrow> bool"
    and wf :: "db \<Rightarrow> bool"
  assumes reads: "wf s \<Longrightarrow> run q (own (tenant q) s) = map_prod id (own (tenant q)) (run q s)"
    and writes: "wf s \<Longrightarrow> others (tenant q) (snd (run q s)) = others (tenant q) s"
    and keeps: "wf s \<Longrightarrow> ok q s \<Longrightarrow> wf (snd (run q s))"
begin

lemma foreign_unseen: "wf s \<Longrightarrow> tenant q \<noteq> t \<Longrightarrow> own t (snd (run q s)) = own t s"
  by (metis own_others writes)

lemma isolated:
  "wf s \<Longrightarrow> allOk run ok qs s \<Longrightarrow>
   runAll run (filter (\<lambda>q. tenant q = t) qs) (own t s) =
     (filter (\<lambda>x. tenant (fst x) = t) (fst (runAll run qs s)), own t (snd (runAll run qs s)))"
proof (induction qs arbitrary: s)
  case (Cons q qs)
  obtain a s' where run: "run q s = (a, s')" by force
  have wf: "wf s'" using keeps [of s q] Cons.prems run by simp
  have IH: "runAll run (filter (\<lambda>q. tenant q = t) qs) (own t s') =
      (filter (\<lambda>x. tenant (fst x) = t) (fst (runAll run qs s')), own t (snd (runAll run qs s')))"
    using Cons.IH [OF wf] Cons.prems run by simp
  show ?case
  proof (cases "tenant q = t")
    case True
    then have "run q (own t s) = (a, own t s')"
      using reads [of s q] Cons.prems(1) run by simp
    with True IH run show ?thesis by (simp add: split_def)
  next
    case False
    then have "own t s' = own t s"
      using foreign_unseen [of s q t] Cons.prems(1) run by simp
    with False IH run show ?thesis by (simp add: split_def)
  qed
qed simp

end

text \<open>
  A request of the service with the context and the environment it runs in; the store is
  well-formed for isolation when inspection results belong to the tenant of their session
  and no two sessions share an identifier.
\<close>

type_synonym service_call = "env \<times> auth_context \<times> svc_request"

definition serve :: "service_call \<Rightarrow> db \<Rightarrow> app_error option \<times> db" where
  "serve q s = exec (fst q) (fst (snd q)) (snd (snd q)) s"

definition callTenant :: "service_call \<Rightarrow> string" where
  "callTenant q = tenantId (fst (snd q))"

definition freshCall :: "service_call \<Rightarrow> db \<Rightarrow> bool" where
  "freshCall q s = fresh (fst q) s"

definition sessions_wf :: "db \<Rightarrow> bool" where
  "sessions_wf s = (results_owned s \<and> distinct (map ms_id (mpi_sessions s)))"

lemma exec_reads:
  "results_owned s \<Longrightarrow> exec e c q (own (tenantId c) s) = map_prod id (own (tenantId c)) (exec e c q s)"
  by (cases q) (simp_all add: all_reads [unfolded op_reads_own_def, rule_format] outcome_own)

lemma exec_writes: "results_owned s \<Longrightarrow> others (tenantId c) (snd (exec e c q s)) = others (tenantId c) s"
  by (cases q) (simp_all add: all_writes [unfolded op_writes_own_def, rule_format])

lemmas on_mpi_sessions = all_frames [THEN arg_cong [where f = mpi_sessions], simplified]
lemmas on_mpi_results = all_frames [THEN arg_cong [where f = mpi_results], simplified]

end
