(* ===== verification/Samples.thy ===== *)
theory Samples
  imports CockpitTenancy
begin

text \<open>
  Concrete data the witnesses run the model on: identifiers, two tenants and their staff, an
  environment whose clock, date parser and identifier source are fixed, and a few rows.
\<close>

definition hexDigit :: "nat \<Rightarrow> char" where
  "hexDigit n = ''0123456789abcdef'' ! (n mod 16)"

text \<open>The n-th identifier of the sample family \<open>k\<close>.\<close>

definition uuidOf :: "nat \<Rightarrow> nat \<Rightarrow> string" where
  "uuidOf k n = ''00000000-0000-4000-8000-00000000'' @
     [hexDigit (k div 16), hexDigit k, hexDigit (n div 16), hexDigit n]"

definition demoCtx :: auth_context where
  "demoCtx = \<lparr>tenantId = uuidOf 1 0, userId = uuidOf 1 1, roles = [R_service_advisor]\<rparr>"

definition otherCtx :: auth_context where
  "otherCtx = \<lparr>tenantId = uuidOf 2 0, userId = uuidOf 2 1, roles = [R_service_manager]\<rparr>"

definition demoDate :: "jsval \<Rightarrow> int option" where
  "demoDate v = (if v = JStr ''2026-01-01'' then Some 1000000
                 else if v = JStr ''2026-01-02'' then Some 2000000 else None)"

text \<open>The environment of the k-th request: it draws the identifiers of family k.\<close>

definition demoEnv :: "nat \<Rightarrow> env" where
  "demoEnv k = \<lparr>now = 1500000, dateParse = demoDate, toNumber = (\<lambda>_. NaN), ids = uuidOf k,
     sha256hex = (\<lambda>x. x), auditOk = True\<rparr>"

definition bookingBody :: jsobj where
  "bookingBody = [(''location_id'', JStr (uuidOf 9 0)), (''mdm_customer_id'', JStr (uuidOf 9 1)),
     (''mdm_vehicle_id'', JStr (uuidOf 9 2)), (''scheduled_start'', JStr ''2026-01-02'')]"

end
