(* ===== verification/CockpitReach.thy ===== *)
theory CockpitReach
  imports CockpitService Samples
begin

text \<open>
  The service as a transition system: a step answers one request whose new identifiers are
  fresh, and a store is reachable when steps lead to it from a store that is empty but for
  the records other services own (templates, technician profiles, SLA defaults, grants).
  The first invariant makes the isolation contract hold on every reachable store.
\<close>

section \<open>Steps and reachability\<close>

inductive service_step :: "db \<Rightarrow> service_call \<Rightarrow> db \<Rightarrow> bool" where
  service_step: "fresh e s \<Longrightarrow> exec e c q s = (out, s') \<Longrightarrow> service_step s (e, c, q) s'"

inductive_cases service_stepE: "service_step s q s'"

definition initial :: "db \<Rightarrow> bool" where
  "initial s = (s = emptyDb\<lparr>mpi_templates := mpi_templates s, tech_profiles := tech_profiles s,
     sla_defaults := sla_defaults s, grants := grants s\<rparr>)"

inductive reachable :: "db \<Rightarrow> bool" where
  reachable_start: "initial s \<Longrightarrow> reachable s"
| reachable_step: "reachable s \<Longrightarrow> service_step s q s' \<Longrightarrow> reachable s'"

lemma reachable_invariant:
  assumes "reachable s" and "\<And>s. initial s \<Longrightarrow> I s"
    and "\<And>s e c q. reachable s \<Longrightarrow> I s \<Longrightarrow> fresh e s \<Longrightarrow> I (snd (exec e c q s))"
  shows "I s"
  using assms(1)
proof (induction rule: reachable.induct)
  case (reachable_step s q s')
  then show ?case using assms(3) by (metis service_stepE snd_conv)
qed (rule assms(2))

text \<open>An invariant of the store that a transaction body keeps is kept by the operation.\<close>

lemma transaction_keeps:
  "I s \<Longrightarrow> (\<And>v s'. body s = Inr (v, s') \<Longrightarrow> I s') \<Longrightarrow> I (snd (withTransaction body s))"
  by (auto simp: withTransaction_def split: sum.splits)

lemma audited_keeps:
  assumes "I s" and "\<And>s a. I s \<Longrightarrow> I (s\<lparr>audit := a\<rparr>)" and "\<And>v s'. \<exists>a. f v s' = s'\<lparr>audit := a\<rparr>"
    and "\<And>v s'. body s = Inr (v, s') \<Longrightarrow> I s'"
  shows "I (snd (andAudit f (withTransaction body s)))"
  using assms(1,2,4) by (auto simp: withTransaction_def andAudit_def split: sum.splits) (metis assms(3))

text \<open>When a guarded step of a body succeeds.\<close>

lemma Inr_case_option: "(case x of None \<Rightarrow> Inl err | Some y \<Rightarrow> f y) = Inr r \<longleftrightarrow> (\<exists>y. x = Some y \<and> f y = Inr r)"
  by (simp split: option.split)

lemma Inr_if: "(if b then Inl err else x) = Inr r \<longleftrightarrow> \<not> b \<and> x = Inr r"
  by simp

lemmas Inr_simps = Inr_case_option Inr_if

lemma initial_tables [simp]:
  assumes "initial s"
  shows "appointments s = []" "appointment_events s = []" "repair_orders s = []" "ro_events s = []"
    "line_items s = []" "mpi_sessions s = []" "mpi_results s = []" "recommendations s = []"
    "estimates s = []" "authorizations s = []" "parts_lines s = []" "sublet_jobs s = []"
    "tickets s = []" "time_entries s = []" "warranty_claims s = []" "comebacks s = []"
    "queue_items s = []" "portal_tasks s = []" "waitlist s = []" "offers s = []" "audit s = []"
  using assms by (simp_all add: initial_def emptyDb_def) (metis db.select_convs db.update_convs)+


section \<open>Inspection sessions and results\<close>

definition sessionKeys :: "db \<Rightarrow> (string \<times> string) list" where
  "sessionKeys s = map (\<lambda>m. (ms_id m, ms_tenant m)) (mpi_sessions s)"

definition resultKeys :: "db \<Rightarrow> (string \<times> string \<times> string) list" where
  "resultKeys s = map (\<lambda>r. (mr_session r, mr_tenant r, mr_item r)) (mpi_results s)"

lemma sessions_wf_keys:
  "sessions_wf s \<longleftrightarrow> distinct (map fst (sessionKeys s)) \<and>
   (\<forall>k \<in> set (resultKeys s). \<forall>m \<in> set (sessionKeys s). fst m = fst k \<longrightarrow> snd m = fst (snd k))"
  by (auto simp: sessions_wf_def results_owned_def sessionKeys_def resultKeys_def comp_def)

lemma startMPISession_keys:
  "sessionKeys (snd (startMPISession e c roId p s)) = sessionKeys s \<or>
   (\<exists>t. sessionKeys (snd (startMPISession e c roId p s)) = sessionKeys s @ [(ids e 0, t)])"
  unfolding startMPISession_def withTransaction_def
  by (auto simp: row_defs sessionKeys_def split: sum.splits elim!: moveRO_cases)

lemma submitMPISession_keys: "sessionKeys (snd (submitMPISession e c sid s)) = sessionKeys s"
  unfolding submitMPISession_def withTransaction_def
  by (auto simp: row_defs sessionKeys_def map_update_where split: sum.splits)

lemma assertOwnMPISession_key:
  "assertOwnMPISession c (JStr sid) s = Inr m \<Longrightarrow> (pgUuid sid, tenantId c) \<in> set (sessionKeys s)"
  by (force simp: assertOwnMPISession_def sessionKeys_def dest: find_SomeD split: option.splits if_splits)

lemma upsertResult_keys:
  "upsertResult row s = (v, s') \<Longrightarrow>
   resultKeys s' = resultKeys s \<or>
   (resultKeys s' = resultKeys s @ [(mr_session row, mr_tenant row, mr_item row)] \<and>
    (\<forall>t. (mr_session row, t, mr_item row) \<notin> set (resultKeys s)))"
  by (auto simp: upsertResult_def resultKeys_def sameItem_def map_update_where find_None_notin
      simp del: find_None_iff split: option.splits)

lemma recordMPIResult_keys:
  "sessionKeys (snd (recordMPIResult e c mid p s)) = sessionKeys s"
  "resultKeys (snd (recordMPIResult e c mid p s)) = resultKeys s \<or>
   (\<exists>sid item. resultKeys (snd (recordMPIResult e c mid p s)) = resultKeys s @ [(sid, tenantId c, item)] \<and>
      (sid, tenantId c) \<in> set (sessionKeys s) \<and> (\<forall>t. (sid, t, item) \<notin> set (resultKeys s)))"
proof (atomize (full), cases "recordMPIResult e c mid p s")
  case (Pair r s')
  show "sessionKeys (snd (recordMPIResult e c mid p s)) = sessionKeys s \<and>
    (resultKeys (snd (recordMPIResult e c mid p s)) = resultKeys s \<or>
     (\<exists>sid item. resultKeys (snd (recordMPIResult e c mid p s)) = resultKeys s @ [(sid, tenantId c, item)] \<and>
        (sid, tenantId c) \<in> set (sessionKeys s) \<and> (\<forall>t. (sid, t, item) \<notin> set (resultKeys s))))"
  proof (cases r)
    case (Inr v)
    with Pair have "recordMPIResult e c mid p s = (Inr v, s')" by simp
    then show ?thesis
    proof (rule recordMPIResult_success, goal_cases)
      case (1 sid session row)
      from assertOwnMPISession_key 1(1,2) have "(pgUuid sid, tenantId c) \<in> set (sessionKeys s)" by blast
      moreover from upsertResult_state [OF 1(7)] have "sessionKeys s' = sessionKeys s"
        by (auto simp: sessionKeys_def map_update_where)
      moreover note upsertResult_keys [OF 1(7)]
      ultimately show ?case using 1(4-6) Pair by (auto simp: resultKeys_def)
    qed
  qed (use Pair in \<open>auto dest: recordMPIResult_fails\<close>)
qed

lemma exec_keeps_sessions_wf:
  assumes wf: "sessions_wf s" and fresh: "fresh e s"
  shows "sessions_wf (snd (exec e c q s))"
proof (cases q)
  case (StartMPISession roId p)
  have new: "ids e 0 \<notin> fst ` set (sessionKeys s)" "ids e 0 \<notin> fst ` set (resultKeys s)"
    using fresh_new [OF fresh, of 0] by (auto simp: usedIds_def sessionKeys_def resultKeys_def)
  have r: "resultKeys (snd (startMPISession e c roId p s)) = resultKeys s"
    by (simp add: resultKeys_def on_mpi_results)
  from wf r new startMPISession_keys [of e c roId p s] show ?thesis
    unfolding StartMPISession sessions_wf_keys
    by (elim disjE exE) (simp_all add: image_iff)
next
  case (RecordMPIResult sid p)
  have "snd k = t" if "k \<in> set (sessionKeys s)" "(fst k, t) \<in> set (sessionKeys s)" for k t
    using wf that by (metis distinct_map_eq fst_conv snd_conv sessions_wf_keys)
  with wf recordMPIResult_keys(2) [of e c sid p s] show ?thesis
    unfolding RecordMPIResult sessions_wf_keys
    by (elim disjE exE conjE) (simp_all add: recordMPIResult_keys(1))
next
  case (SubmitMPISession sid)
  with wf show ?thesis
    by (simp add: sessions_wf_keys submitMPISession_keys resultKeys_def on_mpi_results)
qed (use wf in \<open>simp_all add: sessions_wf_def results_owned_def on_mpi_sessions on_mpi_results\<close>)

interpretation cockpit: tenant_scoped serve callTenant freshCall sessions_wf
proof
  show "serve q (own (callTenant q) s) = map_prod id (own (callTenant q)) (serve q s)"
    if "sessions_wf s" for s q
    using that by (simp add: serve_def callTenant_def exec_reads sessions_wf_def)
  show "others (callTenant q) (snd (serve q s)) = others (callTenant q) s" if "sessions_wf s" for s q
    using that by (simp add: serve_def callTenant_def exec_writes sessions_wf_def)
  show "sessions_wf (snd (serve q s))" if "sessions_wf s" and "freshCall q s" for s q
    using that by (simp add: serve_def freshCall_def exec_keeps_sessions_wf)
qed

lemma reachable_sessions_wf: "reachable s \<Longrightarrow> sessions_wf s"
  by (erule reachable_invariant [where I = sessions_wf], simp add: sessions_wf_def results_owned_def,
      rule exec_keeps_sessions_wf)

text \<open>
  C4. Tenants are isolated: over any sequence of requests from any mix of tenants, each
  tenant is answered exactly as if only its own requests had run on its own rows, and its
  rows end up exactly as they would have.
\<close>

theorem tenants_isolated:
  assumes "reachable s" and "allOk serve freshCall calls s"
  shows "runAll serve (filter (\<lambda>q. callTenant q = t) calls) (own t s) =
           (filter (\<lambda>x. callTenant (fst x) = t) (fst (runAll serve calls s)),
            own t (snd (runAll serve calls s)))"
  using cockpit.isolated [OF reachable_sessions_wf [OF assms(1)] assms(2)] .


definition demoCalls :: "service_call list" where
  "demoCalls = [(demoEnv 16, demoCtx, CreateAppointment bookingBody),
     (demoEnv 17, otherCtx, CreateAppointment bookingBody),
     (demoEnv 18, demoCtx, CheckIn (JStr (uuidOf 16 0)) [])]"

lemma initial_empty: "initial emptyDb"
  by (simp add: initial_def)

lemma runAll_reachable:
  "reachable s \<Longrightarrow> allOk serve freshCall calls s \<Longrightarrow> reachable (snd (runAll serve calls s))"
proof (induction calls arbitrary: s)
  case (Cons q calls)
  obtain e c r where q: "q = (e, c, r)" by (cases q) auto
  obtain out s' where run: "serve q s = (out, s')" by force
  have "service_step s q s'"
    using Cons.prems(2) run by (auto simp: q serve_def freshCall_def intro: service_step.intros)
  with Cons.prems(1) have "reachable s'" by (rule reachable_step)
  with Cons.IH [of s'] Cons.prems(2) run show ?case by (simp add: split_def)
qed simp

definition demoStore :: db where
  "demoStore = snd (runAll serve demoCalls emptyDb)"

lemma demoStore_reachable: "reachable demoStore"
  unfolding demoStore_def
  by (rule runAll_reachable, rule reachable_start, rule initial_empty, code_simp)

theorem tenants_isolated_witness:
  "runAll serve (filter (\<lambda>q. callTenant q = tenantId demoCtx) demoCalls) (own (tenantId demoCtx) emptyDb) =
     (filter (\<lambda>x. callTenant (fst x) = tenantId demoCtx) (fst (runAll serve demoCalls emptyDb)),
      own (tenantId demoCtx) (snd (runAll serve demoCalls emptyDb)))"
proof (rule tenants_isolated)
  show "reachable emptyDb" by (rule reachable_start, rule initial_empty)
  show "allOk serve freshCall demoCalls emptyDb" by code_simp
qed

end
