(* ===== verification/CockpitQueueInv.thy ===== *)
theory CockpitQueueInv
  imports CockpitReach
begin

text \<open>
  The work queues over the whole service: a repair order is open in at most one queue item,
  in every reachable store, and a status change leaves it in exactly the queue of its new
  status.
\<close>

definition openFor :: "string \<Rightarrow> string \<Rightarrow> service_queue_item \<Rightarrow> bool" where
  "openFor t rid q = (qi_ro q = Some rid \<and> qi_tenant q = t \<and> \<not> queueClosed (qi_status q))"

definition one_open :: "service_queue_item list \<Rightarrow> bool" where
  "one_open qs = (\<forall>t rid. length (filter (openFor t rid) qs) \<le> 1)"

lemma openFor_ctx: "openForRO c rid = openFor (tenantId c) rid"
  by (rule ext) (simp add: openForRO_def openFor_def)

lemma at_most_one_from_one_open: "one_open (queue_items s) \<Longrightarrow> at_most_one_per_queue c rid s"
proof -
  assume "one_open (queue_items s)"
  then have "length (openItems c rid s) \<le> 1" by (simp add: one_open_def openItems_def openFor_ctx)
  then show ?thesis
    by (cases "openItems c rid s") (auto simp: at_most_one_per_queue_def)
qed

lemma syncRows_elsewhere:
  assumes "syncRows e n c ro qs sla = Inr qs'" and "pgUuid (ro_id ro) = ro_id ro"
    and "(t, rid) \<noteq> (tenantId c, ro_id ro)"
  shows "filter (openFor t rid) qs' = filter (openFor t rid) qs"
proof -
  have upd: "filter (openFor t rid) (update_where (\<lambda>q. openForRO c (ro_id ro) q \<and> P q)
      (\<lambda>q. q\<lparr>qi_status := QI_done\<rparr>) qs) = filter (openFor t rid) qs" for P
    by (rule update_outside) (use assms(3) in \<open>auto simp: openForRO_def openFor_def\<close>)
  have item: "\<not> openFor t rid i" if "newQueueItem e n c \<lparr>qp_location = l, qp_queue_type = qt,
      qp_ro = Some (ro_id ro), qp_appointment = None, qp_priority = p, qp_sla_due = d\<rparr> sla = Inr i" for i l qt p d
    using that assms(2,3)
    by (auto simp: newQueueItem_def openFor_def dest!: createServiceQueueItem_queue)
  from assms(1) show ?thesis
    using upd [of "\<lambda>_. True"] unfolding syncRows_eq Let_def
    by (auto simp: upd item split: option.splits if_splits)
qed

lemma syncRows_queue:
  fixes s s' :: db
  assumes "syncRows e n c ro (queue_items s) (sla_defaults s) = Inr qs'"
    and "one_open (queue_items s)" and "pgUuid (ro_id ro) = ro_id ro"
  shows "queue_items s' = qs' \<Longrightarrow> in_its_queue c ro s'" and "one_open qs'"
proof -
  have "syncQueueForRO e n c ro s = Inr (s\<lparr>queue_items := qs'\<rparr>)"
    using assms(1) by (simp add: syncQueueForRO_rows)
  from syncQueueForRO_puts [OF this at_most_one_from_one_open [OF assms(2)] assms(3)]
  have "in_its_queue c ro (s\<lparr>queue_items := qs'\<rparr>)" .
  then have here: "queue_items s' = qs' \<Longrightarrow> in_its_queue c ro s'" for s'
    by (simp add: in_its_queue_def openItems_def)
  then show "queue_items s' = qs' \<Longrightarrow> in_its_queue c ro s'" .
  have "length (filter (openFor t rid) qs') \<le> 1" for t rid
  proof (cases "(t, rid) = (tenantId c, ro_id ro)")
    case True
    have "length (map qi_type (filter (openFor t rid) qs')) \<le> 1"
      using here [of "s\<lparr>queue_items := qs'\<rparr>"] True by (simp add: in_its_queue_def openItems_def openFor_ctx split: option.splits)
    then show ?thesis by simp
  next
    case False
    from syncRows_elsewhere [OF assms(1,3) False] assms(2) show ?thesis by (simp add: one_open_def)
  qed
  then show "one_open qs'" by (simp add: one_open_def)
qed

text \<open>What an operation can do to the queue.\<close>

definition synced :: "env \<Rightarrow> auth_context \<Rightarrow> db \<Rightarrow> db \<Rightarrow> bool" where
  "synced e c s s' =
     (queue_items s' = queue_items s \<or>
      (\<exists>k ro qs. k < 4 \<and> syncRows e (ids e k) c ro (queue_items s) (sla_defaults s) = Inr qs \<and>
         pgUuid (ro_id ro) = ro_id ro \<and> queue_items s' = qs))"

text \<open>No two queue items share an identifier, and no order is open twice.\<close>

definition queue_wf :: "db \<Rightarrow> bool" where
  "queue_wf s = (distinct (map qi_id (queue_items s)) \<and> one_open (queue_items s))"

lemma newQueueItem_id: "newQueueItem e n c p sla = Inr i \<Longrightarrow> qi_id i = n"
  by (auto simp: newQueueItem_def dest: createServiceQueueItem_queue)

lemma syncRows_ids:
  "syncRows e n c ro qs sla = Inr qs' \<Longrightarrow> map qi_id qs' = map qi_id qs \<or> map qi_id qs' = map qi_id qs @ [n]"
  unfolding syncRows_eq Let_def
  by (auto simp: map_update_where newQueueItem_id split: option.splits if_splits)

lemma synced_queue_wf:
  assumes "synced e c s s'" and "fresh e s" and "queue_wf s"
  shows "queue_wf s'"
  using assms(1) unfolding synced_def
proof (elim disjE exE conjE)
  fix k ro qs
  assume k: "k < 4" and sync: "syncRows e (ids e k) c ro (queue_items s) (sla_defaults s) = Inr qs"
    and canon: "pgUuid (ro_id ro) = ro_id ro" and q: "queue_items s' = qs"
  have "ids e k \<notin> set (map qi_id (queue_items s))"
    using fresh_new(1) [OF assms(2) k] by (simp add: usedIds_def)
  with syncRows_ids [OF sync] syncRows_queue(2) [OF sync _ canon] q assms(3) show ?thesis
    by (auto simp: queue_wf_def)
qed (use assms(3) in \<open>simp add: queue_wf_def\<close>)

lemma moveRO_synced:
  "moveRO e (ids e k) c rid froms st s = Inr s' \<Longrightarrow> k < 4 \<Longrightarrow> pgUuid rid = rid \<Longrightarrow> synced e c s s'"
  by (erule moveRO_cases) (force simp: synced_def)+

lemma synced_frame:
  "queue_items s = queue_items s1 \<Longrightarrow> sla_defaults s = sla_defaults s1 \<Longrightarrow> queue_items s' = queue_items s2 \<Longrightarrow>
   synced e c s1 s2 \<Longrightarrow> synced e c s s'"
  by (simp add: synced_def)

lemma synced_refl [simp]: "synced e c s s"
  by (simp add: synced_def)

lemma synced_audited:
  assumes "\<And>v s'. \<exists>a. f v s' = s'\<lparr>audit := a\<rparr>"
    and "\<And>v s'. body s = Inr (v, s') \<Longrightarrow> synced e c s s'"
  shows "synced e c s (snd (andAudit f (withTransaction body s)))"
  by (rule audited_keeps [where I = "synced e c s"]) (use assms in \<open>auto simp: synced_def\<close>)

lemma startMPISession_synced: "synced e c s (snd (startMPISession e c roId p s))"
  unfolding startMPISession_def
  by (rule transaction_keeps)
    (auto simp: row_defs dest!: moveRO_synced elim!: synced_frame [rotated 3])

lemma generateEstimate_synced: "synced e c s (snd (generateEstimate e c roId p s))"
  unfolding generateEstimate_def
  by (rule transaction_keeps)
    (auto simp: row_defs dest!: moveRO_synced elim!: synced_frame [rotated 3])

lemma sendEstimate_synced: "synced e c s (snd (sendEstimate e c roId eid p s))"
  unfolding sendEstimate_def
  by (rule transaction_keeps)
    (auto simp: row_defs dest!: moveRO_synced elim!: synced_frame [rotated 3] split: option.splits)

lemma createComebackCase_synced: "synced e c s (snd (createComebackCase e c p s))"
  unfolding createComebackCase_def
  by (rule synced_audited, rule emitAudit_shape)
    (auto simp: comebackBody_def row_defs dest!: moveRO_synced elim!: synced_frame [rotated 3])

lemma movedState_queue [simp]:
  "queue_items (movedState c rid from toStatus st s) = queue_items s"
  "sla_defaults (movedState c rid from toStatus st s) = sla_defaults s"
  by (simp_all add: movedState_def Let_def)

lemma transitionBody_synced:
  assumes "transitionBody e c roId toStatus p s = Inr (v, s')"
  shows "\<exists>qs. syncRows e (ids e 0) c v (queue_items s) (sla_defaults s) = Inr qs \<and>
     queue_items s' = qs \<and> pgUuid (ro_id v) = ro_id v"
  using assms
proof (rule transitionBody_success, goal_cases)
  case (1 rid ro s1 row st s4)
  from transitionGates_frame [OF 1(4)] have "queue_items s1 = queue_items s" "sla_defaults s1 = sla_defaults s"
    by auto
  moreover have "pgUuid (ro_id v) = ro_id v" using find_SomeD [OF 1(5)] 1(6) by simp
  ultimately show ?case using 1(7,8) by (auto simp: syncQueueForRO_rows recordROEvent_def)
qed

lemma transitionRO_synced: "synced e c s (snd (transitionRO e c roId toStatus p s))"
  unfolding transitionRO_def
  by (rule synced_audited, rule emitAudit_shape)
    (force simp: synced_def dest!: transitionBody_synced)

lemma checkInBody_synced:
  assumes "pgUuid (ids e 0) = ids e 0" and "checkInBody e c aid odo s = Inr (v, s')"
  shows "synced e c s s'"
proof -
  have "synced e c s s'" if "syncQueueForRO e (ids e 3) c ro s4 = Inr s5" "pgUuid (ro_id ro) = ro_id ro"
    "queue_items s4 = queue_items s" "sla_defaults s4 = sla_defaults s" "queue_items s' = queue_items s5"
    for ro s4 s5
    using that by (force simp: synced_def syncQueueForRO_rows)
  with assms show ?thesis
    unfolding checkInBody_def row_defs by (auto split: option.splits if_splits)
qed

lemma checkIn_synced: "pgUuid (ids e 0) = ids e 0 \<Longrightarrow> synced e c s (snd (checkIn e c aid p s))"
  unfolding checkIn_def
  by (rule synced_audited, rule emitAudit_if_shape)
    (auto dest: checkInBody_synced)

text \<open>The operations on queue items: none opens a closed item, and a new item is bound to no order.\<close>

lemma queue_wf_update:
  assumes "queue_wf s" and "\<And>q. qi_id (f q) = qi_id q"
    and "\<And>q t rid. q \<in> set (queue_items s) \<Longrightarrow> P q \<Longrightarrow> openFor t rid (f q) \<Longrightarrow> openFor t rid q"
  shows "queue_wf (s\<lparr>queue_items := update_where P f (queue_items s)\<rparr>)"
proof -
  have "length (filter (openFor t rid) (update_where P f qs)) \<le> length (filter (openFor t rid) qs)"
    if "set qs \<subseteq> set (queue_items s)" for t rid qs
    using that assms(3) by (induction qs) (auto intro: le_SucI)
  then have "one_open (update_where P f (queue_items s))"
    using assms(1) unfolding queue_wf_def one_open_def by (meson order_refl order_trans)
  with assms(1,2) show ?thesis by (simp add: queue_wf_def map_update_where)
qed

text \<open>The row a lookup by identifier finds is the only row an update by identifier touches.\<close>

lemma queue_row_unique:
  "queue_wf s \<Longrightarrow> find (\<lambda>q. qi_id q = i \<and> P q) (queue_items s) = Some r \<Longrightarrow>
   q \<in> set (queue_items s) \<Longrightarrow> qi_id q = i \<Longrightarrow> q = r"
  by (auto simp: queue_wf_def dest!: find_SomeD intro: distinct_map_eq [of qi_id])

lemma queue_wf_frame: "queue_wf s \<Longrightarrow> queue_items s' = queue_items s \<Longrightarrow> queue_wf s'"
  by (simp add: queue_wf_def)

lemma markAppointmentNoShow_queue_wf:
  assumes "queue_wf s" and "fresh e s"
  shows "queue_wf (snd (markAppointmentNoShow e c aid s))"
  unfolding markAppointmentNoShow_def
proof (rule transaction_keeps [where I = queue_wf], rule assms(1), goal_cases)
  case (1 v s')
  then obtain item where "queue_items s' = queue_items s @ [item]" "qi_id item = ids e 1" "qi_ro item = None"
    by (auto simp: row_defs split: option.splits if_splits dest!: createServiceQueueItem_queue)
  moreover have "ids e 1 \<notin> set (map qi_id (queue_items s))"
    using fresh_new(1) [OF assms(2), of 1] by (simp add: usedIds_def)
  ultimately show ?case using assms(1) by (auto simp: queue_wf_def one_open_def openFor_def)
qed

lemma assignServiceQueueItem_queue_wf:
  assumes wf: "queue_wf s"
  shows "queue_wf (snd (assignServiceQueueItem c qid s))"
  unfolding assignServiceQueueItem_def
  by (rule transaction_keeps [where I = queue_wf], rule wf)
    (auto simp: Let_def Inr_simps openFor_def queueClosed_def intro!: queue_wf_update [OF wf]
      dest: queue_row_unique [OF wf])

lemma updateServiceQueueItemStatus_queue_wf:
  assumes wf: "queue_wf s"
  shows "queue_wf (snd (updateServiceQueueItemStatus c qid p s))"
  unfolding updateServiceQueueItemStatus_def
  by (rule transaction_keeps [where I = queue_wf], rule wf)
    (auto simp: Let_def Inr_simps openFor_def queueClosed_def intro!: queue_wf_update [OF wf]
      dest: queue_row_unique [OF wf])

lemma escalateServiceQueueItem_queue_wf:
  assumes wf: "queue_wf s"
  shows "queue_wf (snd (escalateServiceQueueItem e c qid p s))"
  unfolding escalateServiceQueueItem_def
  by (rule audited_keeps [where I = queue_wf], rule wf, erule queue_wf_frame, simp, rule emitAudit_shape)
    (auto simp: Let_def openFor_def intro!: queue_wf_update [OF wf] split: option.splits)

lemmas on_queue_items = all_frames [THEN arg_cong [where f = queue_items], simplified]

lemma exec_keeps_queue_wf:
  assumes wf: "queue_wf s" and fresh: "fresh e s"
  shows "queue_wf (snd (exec e c q s))"
proof -
  have canon: "pgUuid (ids e 0) = ids e 0" using fresh_new(2) [OF fresh, of 0] by simp
  note synced_ops = startMPISession_synced generateEstimate_synced sendEstimate_synced
    createComebackCase_synced transitionRO_synced checkIn_synced [OF canon]
  note moved = synced_ops [THEN synced_queue_wf, OF fresh wf]
  note item_ops = markAppointmentNoShow_queue_wf [OF wf fresh] assignServiceQueueItem_queue_wf [OF wf]
    updateServiceQueueItemStatus_queue_wf [OF wf] escalateServiceQueueItem_queue_wf [OF wf]
  show ?thesis
    by (cases q) (simp_all add: moved item_ops, simp_all add: wf queue_wf_frame [OF wf] on_queue_items)
qed

lemma reachable_queue_wf: "reachable s \<Longrightarrow> queue_wf s"
  by (erule reachable_invariant [where I = queue_wf], simp add: queue_wf_def one_open_def,
      rule exec_keeps_queue_wf)

text \<open>
  C22. In every reachable store a repair order is open in at most one queue item, so no two
  desks work the same order.
\<close>

theorem one_open_queue_item:
  assumes "reachable s"
  shows "length (openItems c rid s) \<le> 1"
  using reachable_queue_wf [OF assms] by (simp add: queue_wf_def one_open_def openItems_def openFor_ctx)

theorem one_open_queue_item_witness:
  "length (openItems demoCtx (uuidOf 18 0) demoStore) \<le> 1 \<and>
   openItems demoCtx (uuidOf 18 0) demoStore \<noteq> []"
proof
  show "length (openItems demoCtx (uuidOf 18 0) demoStore) \<le> 1"
    by (rule one_open_queue_item, rule demoStore_reachable)
  show "openItems demoCtx (uuidOf 18 0) demoStore \<noteq> []" by code_simp
qed

text \<open>
  A transition that succeeds puts the repair order in exactly the queue of its new status
  and in no other: its open items are one item of that queue, or none when the status has no
  queue.
\<close>

theorem transition_puts_in_queue:
  assumes "reachable s" and "transitionRO e c roId toStatus p s = (Inr ro, s')"
  shows "in_its_queue c ro s'"
proof -
  from assms(2) obtain s1 where body: "transitionBody e c roId toStatus p s = Inr (ro, s1)"
    and s': "queue_items s' = queue_items s1"
    by (auto simp: transitionRO_def andAudit_def withTransaction_def emitAudit_def
        split: sum.splits prod.splits if_splits)
  from transitionBody_synced [OF body] reachable_queue_wf [OF assms(1)] s' show ?thesis
    by (auto simp: queue_wf_def intro: syncRows_queue(1))
qed

theorem transition_puts_in_queue_witness:
  "\<exists>ro s'. transitionRO (demoEnv 20) demoCtx (JStr (uuidOf 18 0)) ''inspection_in_progress'' [] demoStore
             = (Inr ro, s') \<and> ro_status ro = RO_inspection_in_progress \<and> in_its_queue demoCtx ro s'"
proof -
  let ?r = "transitionRO (demoEnv 20) demoCtx (JStr (uuidOf 18 0)) ''inspection_in_progress'' [] demoStore"
  have "(case fst ?r of Inr ro \<Rightarrow> ro_status ro = RO_inspection_in_progress | Inl _ \<Rightarrow> False)"
    by code_simp
  then obtain ro s' where "?r = (Inr ro, s')" "ro_status ro = RO_inspection_in_progress"
    by (cases ?r) (auto split: sum.splits)
  with transition_puts_in_queue [OF demoStore_reachable] show ?thesis by blast
qed

end
