(* ===== verification/CockpitLifecycle.thy ===== *)
theory CockpitLifecycle
  imports CockpitQueueInv
begin

text \<open>
  Repair orders over the whole service: every request moves an order at most along one edge
  of the lifecycle, opens it as a draft or checked in, and never takes one away.  What the
  gates of a transition saw stands behind every order that is authorized, picked up or
  cancelled, and the evidence of it is never rewritten.
\<close>

section \<open>How a request moves the orders\<close>

definition order_moves :: "repair_order \<Rightarrow> repair_order \<Rightarrow> bool" where
  "order_moves r r' = (r' = r \<or> (\<exists>st \<in> set (RO_TRANSITIONS (ro_status r)). r' = r\<lparr>ro_status := st\<rparr>))"

definition opened :: "repair_order \<Rightarrow> bool" where
  "opened r = (ro_status r \<in> {RO_draft, RO_checked_in})"

definition orders_step :: "repair_order list \<Rightarrow> repair_order list \<Rightarrow> bool" where
  "orders_step rs rs' = (\<exists>ys new. rs' = ys @ new \<and> list_all2 order_moves rs ys \<and> list_all opened new)"

lemma order_moves_refl [simp]: "order_moves r r"
  by (simp add: order_moves_def)

lemma orders_step_new: "list_all opened new \<Longrightarrow> orders_step rs (rs @ new)"
  unfolding orders_step_def by (rule exI [of _ rs], rule exI [of _ new]) (simp add: list_all2_refl)

lemma orders_step_refl [simp]: "orders_step rs rs"
  using orders_step_new [of "[]" rs] by simp

lemma orders_step_update:
  assumes "\<And>r. r \<in> set rs \<Longrightarrow> P r \<Longrightarrow> order_moves r (f r)"
  shows "orders_step rs (update_where P f rs)"
proof -
  have "list_all2 order_moves rs (update_where P f rs)"
    using assms by (auto simp: update_where_def list_all2_conv_all_nth)
  then show ?thesis unfolding orders_step_def by (intro exI [of _ "update_where P f rs"] exI [of _ "[]"]) simp
qed

lemma moveRO_orders:
  assumes "moveRO e n c rid froms st s = Inr s'" "\<And>x. x \<in> set froms \<Longrightarrow> st \<in> set (RO_TRANSITIONS x)"
  shows "orders_step (repair_orders s) (repair_orders s')"
  using assms(1)
  by (rule moveRO_cases) (auto simp: order_moves_def intro!: orders_step_update assms(2))

lemma orders_tx:
  "(\<And>v s'. body s = Inr (v, s') \<Longrightarrow> orders_step (repair_orders s) (repair_orders s')) \<Longrightarrow>
   orders_step (repair_orders s) (repair_orders (snd (withTransaction body s)))"
  by (rule transaction_keeps [where I = "\<lambda>s'. orders_step (repair_orders s) (repair_orders s')"]) simp_all

lemma orders_audited:
  assumes "\<And>v s'. \<exists>a. f v s' = s'\<lparr>audit := a\<rparr>"
    and "\<And>v s'. body s = Inr (v, s') \<Longrightarrow> orders_step (repair_orders s) (repair_orders s')"
  shows "orders_step (repair_orders s) (repair_orders (snd (andAudit f (withTransaction body s))))"
  by (rule audited_keeps [where I = "\<lambda>s'. orders_step (repair_orders s) (repair_orders s')"])
    (use assms in simp_all)

lemma startMPISession_orders: "orders_step (repair_orders s) (repair_orders (snd (startMPISession e c roId p s)))"
  unfolding startMPISession_def
  by (rule orders_tx) (auto simp: row_defs dest!: moveRO_orders)

lemma generateEstimate_orders: "orders_step (repair_orders s) (repair_orders (snd (generateEstimate e c roId p s)))"
  unfolding generateEstimate_def
  by (rule orders_tx) (auto simp: row_defs dest!: moveRO_orders)

lemma sendEstimate_orders: "orders_step (repair_orders s) (repair_orders (snd (sendEstimate e c roId eid p s)))"
  unfolding sendEstimate_def
  by (rule orders_tx) (auto simp: row_defs dest!: moveRO_orders split: option.splits)

lemma createComebackCase_orders: "orders_step (repair_orders s) (repair_orders (snd (createComebackCase e c p s)))"
  unfolding createComebackCase_def
  by (rule orders_audited, rule emitAudit_shape)
    (auto simp: comebackBody_def row_defs dest!: moveRO_orders)

lemma createRO_orders: "orders_step (repair_orders s) (repair_orders (snd (createRO e c p s)))"
  unfolding createRO_def
  by (rule orders_audited, rule emitAudit_shape)
    (auto simp: row_defs opened_def intro!: orders_step_new)

text \<open>A check-in answers the order the appointment already has, or opens one.\<close>

lemma checkInBody_cases:
  assumes "checkInBody e c aid odo s = Inr ((ro, made), s')"
  obtains (again) "find (\<lambda>r. ro_appointment r = Some (pgUuid aid) \<and> ro_tenant r = tenantId c) (repair_orders s) = Some ro"
      "\<not> made" "s' = s"
  | (opens) "find (\<lambda>r. ro_appointment r = Some (pgUuid aid) \<and> ro_tenant r = tenantId c) (repair_orders s) = None"
      "made" "ro_appointment ro = Some (pgUuid aid)" "ro_tenant ro = tenantId c" "ro_status ro = RO_checked_in"
      "ro_id ro = ids e 0" "repair_orders s' = repair_orders s @ [ro]"
proof -
  obtain appt where appt: "find (\<lambda>a. ap_id a = pgUuid aid \<and> ap_tenant a = tenantId c) (appointments s) = Some appt"
    using assms by (auto simp: checkInBody_def Let_def split: option.splits)
  show thesis
  proof (cases "find (\<lambda>r. ro_appointment r = Some (pgUuid aid) \<and> ro_tenant r = tenantId c) (repair_orders s)")
    case None
    show thesis
      by (rule opens) (use assms appt None in \<open>auto simp: checkInBody_def row_defs syncQueueForRO_rows split: if_splits\<close>)
  next
    case (Some r)
    show thesis by (rule again) (use assms appt Some in \<open>auto simp: checkInBody_def Let_def\<close>)
  qed
qed

lemma checkInBody_orders: "checkInBody e c aid odo s = Inr (v, s') \<Longrightarrow> orders_step (repair_orders s) (repair_orders s')"
  by (cases v) (auto elim!: checkInBody_cases simp: opened_def intro!: orders_step_new)

lemma checkIn_orders: "orders_step (repair_orders s) (repair_orders (snd (checkIn e c aid p s)))"
  unfolding checkIn_def
  by (rule orders_audited, rule emitAudit_if_shape) (auto dest: checkInBody_orders)

lemma transitionBody_orders:
  assumes "transitionBody e c roId toStatus p s = Inr (v, s')"
  shows "orders_step (repair_orders s) (repair_orders s')"
  using assms
proof (rule transitionBody_success, goal_cases)
  case (1 rid ro s1 row st s4)
  have "st \<in> set (RO_TRANSITIONS (ro_status ro))"
    using 1(3,4) by (simp add: transitionGates_Inr)
  moreover have "repair_orders s1 = repair_orders s" using transitionGates_frame [OF 1(4)] by auto
  moreover have "repair_orders s' = repair_orders (movedState c (pgUuid rid) (ro_status ro) toStatus st s1)"
    using 1(7,8) by (auto simp: syncQueueForRO_rows recordROEvent_def)
  ultimately show ?case
    by (auto simp: movedState_def withdrawEstimate_def Let_def order_moves_def intro!: orders_step_update)
qed

lemma transitionRO_orders: "orders_step (repair_orders s) (repair_orders (snd (transitionRO e c roId toStatus p s)))"
  unfolding transitionRO_def
  by (rule orders_audited, rule emitAudit_shape) (rule transitionBody_orders)

lemmas on_repair_orders = all_frames [THEN arg_cong [where f = repair_orders], simplified]

lemma exec_orders: "orders_step (repair_orders s) (repair_orders (snd (exec e c q s)))"
  by (cases q) (simp_all add: startMPISession_orders generateEstimate_orders sendEstimate_orders
      createComebackCase_orders createRO_orders checkIn_orders transitionRO_orders,
      simp_all add: on_repair_orders)

section \<open>Where an order can arrive without a transition\<close>

definition arrives_in :: "ROStatus set \<Rightarrow> repair_order list \<Rightarrow> repair_order list \<Rightarrow> bool" where
  "arrives_in T rs rs' = (\<forall>r' \<in> set rs'. r' \<in> set rs \<or> ro_status r' \<in> T)"

definition untested :: "ROStatus set" where
  "untested = {RO_draft, RO_checked_in, RO_inspection_in_progress, RO_estimate_pending,
     RO_awaiting_authorization, RO_comeback}"

lemma arrives_refl [simp]: "arrives_in T rs rs"
  by (simp add: arrives_in_def)

lemma moveRO_arrives:
  assumes "moveRO e n c rid froms st s = Inr s'" "st \<in> T"
  shows "arrives_in T (repair_orders s) (repair_orders s')"
  using assms(1) by (rule moveRO_cases) (auto simp: arrives_in_def in_update_where assms(2))

lemma arrives_tx:
  "(\<And>v s'. body s = Inr (v, s') \<Longrightarrow> arrives_in T (repair_orders s) (repair_orders s')) \<Longrightarrow>
   arrives_in T (repair_orders s) (repair_orders (snd (withTransaction body s)))"
  by (rule transaction_keeps [where I = "\<lambda>s'. arrives_in T (repair_orders s) (repair_orders s')"]) simp_all

lemma arrives_audited:
  assumes "\<And>v s'. \<exists>a. f v s' = s'\<lparr>audit := a\<rparr>"
    and "\<And>v s'. body s = Inr (v, s') \<Longrightarrow> arrives_in T (repair_orders s) (repair_orders s')"
  shows "arrives_in T (repair_orders s) (repair_orders (snd (andAudit f (withTransaction body s))))"
  by (rule audited_keeps [where I = "\<lambda>s'. arrives_in T (repair_orders s) (repair_orders s')"])
    (use assms in simp_all)

lemma startMPISession_arrives:
  "arrives_in untested (repair_orders s) (repair_orders (snd (startMPISession e c roId p s)))"
  unfolding startMPISession_def
  by (rule arrives_tx) (auto simp: row_defs untested_def dest!: moveRO_arrives [where T = untested])

lemma generateEstimate_arrives:
  "arrives_in untested (repair_orders s) (repair_orders (snd (generateEstimate e c roId p s)))"
  unfolding generateEstimate_def
  by (rule arrives_tx) (auto simp: row_defs untested_def dest!: moveRO_arrives [where T = untested])

lemma sendEstimate_arrives:
  "arrives_in untested (repair_orders s) (repair_orders (snd (sendEstimate e c roId eid p s)))"
  unfolding sendEstimate_def
  by (rule arrives_tx) (auto simp: row_defs untested_def dest!: moveRO_arrives [where T = untested] split: option.splits)

lemma createComebackCase_arrives:
  "arrives_in untested (repair_orders s) (repair_orders (snd (createComebackCase e c p s)))"
  unfolding createComebackCase_def
  by (rule arrives_audited, rule emitAudit_shape)
    (auto simp: comebackBody_def row_defs untested_def dest!: moveRO_arrives [where T = untested])

lemma createRO_arrives: "arrives_in untested (repair_orders s) (repair_orders (snd (createRO e c p s)))"
  unfolding createRO_def
  by (rule arrives_audited, rule emitAudit_shape) (auto simp: row_defs untested_def arrives_in_def)

lemma checkIn_arrives: "arrives_in untested (repair_orders s) (repair_orders (snd (checkIn e c aid p s)))"
  unfolding checkIn_def
  by (rule arrives_audited, rule emitAudit_if_shape)
    (auto elim!: checkInBody_cases simp: arrives_in_def untested_def)

lemma exec_arrives:
  assumes "\<And>roId st p. q \<noteq> TransitionRO roId st p"
  shows "arrives_in untested (repair_orders s) (repair_orders (snd (exec e c q s)))"
proof (cases q)
  case (TransitionRO roId st p)
  with assms show ?thesis by blast
qed (simp_all add: startMPISession_arrives generateEstimate_arrives sendEstimate_arrives
      createComebackCase_arrives createRO_arrives checkIn_arrives, simp_all add: on_repair_orders)

lemma transition_arrives:
  assumes "r' \<in> set (repair_orders (snd (transitionRO e c roId toStatus p s)))" "r' \<notin> set (repair_orders s)"
  obtains rid ro s1 where "roId = JStr rid" "toStatus = ROStatusName (ro_status r')" "ro_id r' = pgUuid rid"
    "ro_tenant r' = tenantId c" "assertRO c roId s = Inr ro"
    "transitionGates e c rid toStatus (jget p ''step_up_token'') ro s = Inr ((), s1)"
    "grants (snd (transitionRO e c roId toStatus p s)) = grants s1"
proof (cases "transitionBody e c roId toStatus p s")
  case (Inl err)
  with assms show thesis by (simp add: transitionRO_def withTransaction_def andAudit_def)
next
  case (Inr x)
  obtain v s' where x: "x = (v, s')" by force
  have after: "repair_orders (snd (transitionRO e c roId toStatus p s)) = repair_orders s'"
    "grants (snd (transitionRO e c roId toStatus p s)) = grants s'"
    by (simp_all add: transitionRO_def withTransaction_def andAudit_def Inr x emitAudit_def)
  from Inr x have "transitionBody e c roId toStatus p s = Inr (v, s')" by simp
  then show thesis
  proof (rule transitionBody_success, goal_cases)
    case (1 rid ro s1 row st s4)
    have s1: "repair_orders s1 = repair_orders s" using transitionGates_frame [OF 1(4)] by auto
    have s': "repair_orders s' = update_where (\<lambda>r. ro_id r = pgUuid rid \<and> ro_tenant r = tenantId c \<and> ro_status r = ro_status ro)
        (\<lambda>r. r\<lparr>ro_status := st\<rparr>) (repair_orders s)" "grants s' = grants s1"
      using 1(7,8) s1 by (auto simp: syncQueueForRO_rows recordROEvent_def movedState_def withdrawEstimate_def Let_def)
    from assms after(1) s'(1) have "ro_id r' = pgUuid rid" "ro_tenant r' = tenantId c" "ro_status r' = st"
      by (auto simp: in_update_where)
    with 1 s'(2) after(2) that show ?case by simp
  qed
qed

text \<open>Behind every arrival at another status stands a transition whose gates let it pass.\<close>

lemma arrival_gates:
  assumes "r' \<in> set (repair_orders (snd (exec e c q s)))" "r' \<notin> set (repair_orders s)" "ro_status r' \<notin> untested"
  obtains rid p ro s1 where "q = TransitionRO (JStr rid) (ROStatusName (ro_status r')) p" "ro_id r' = pgUuid rid"
    "ro_tenant r' = tenantId c" "assertRO c (JStr rid) s = Inr ro"
    "transitionGates e c rid (ROStatusName (ro_status r')) (jget p ''step_up_token'') ro s = Inr ((), s1)"
    "grants (snd (exec e c q s)) = grants s1"
proof -
  have "\<exists>roId st p. q = TransitionRO roId st p"
    using exec_arrives [of q s e c] assms by (auto simp: arrives_in_def)
  then obtain roId st p where q: "q = TransitionRO roId st p" by blast
  with assms show thesis using that by (auto elim: transition_arrives)
qed

section \<open>Histories\<close>

text \<open>The stores a service goes through, from an initial one on.\<close>

inductive history :: "db list \<Rightarrow> bool" where
  history_start: "initial s \<Longrightarrow> history [s]"
| history_step: "history (ss @ [s]) \<Longrightarrow> service_step s q s' \<Longrightarrow> history (ss @ [s, s'])"

lemma orders_step_from:
  assumes "orders_step rs rs'" "r' \<in> set rs'"
  shows "opened r' \<or> (\<exists>r \<in> set rs. order_moves r r')"
proof -
  from assms(1) obtain ys new where rs': "rs' = ys @ new" "list_all2 order_moves rs ys" "list_all opened new"
    by (auto simp: orders_step_def)
  from assms(2) rs'(1) consider "r' \<in> set ys" | "r' \<in> set new" by auto
  then show ?thesis
  proof cases
    case 1
    then obtain i where "i < length ys" "ys ! i = r'" by (auto simp: in_set_conv_nth)
    with rs'(2) show ?thesis by (metis list_all2_conv_all_nth nth_mem)
  qed (use rs'(3) in \<open>simp add: list_all_iff\<close>)
qed

lemma was_authorized:
  assumes "history ss" "r \<in> set (repair_orders (last ss))" "\<not> intakeStatus (ro_status r)"
  shows "\<exists>s \<in> set ss. r\<lparr>ro_status := RO_authorized\<rparr> \<in> set (repair_orders s)"
  using assms
proof (induction arbitrary: r rule: history.induct)
  case (history_step ss s q s')
  show ?case
  proof (cases "ro_status r = RO_authorized")
    case True
    then have "r\<lparr>ro_status := RO_authorized\<rparr> = r" by simp
    with history_step.prems(1) show ?thesis by simp
  next
    case False
    from history_step.hyps(2) have "orders_step (repair_orders s) (repair_orders s')"
      by (rule service_stepE) (metis exec_orders snd_conv)
    from orders_step_from [OF this, of r] history_step.prems obtain r0 where r0: "r0 \<in> set (repair_orders s)" "order_moves r0 r"
      by (auto simp: opened_def)
    then have "\<not> intakeStatus (ro_status r0)"
      using intake_leaves_by_authorization [of "ro_status r0" "ro_status r"] False history_step.prems(2)
      by (auto simp: order_moves_def ro_step_iff simp del: intakeStatus.simps)
    with history_step.IH [of r0] r0 show ?thesis by (auto simp: order_moves_def)
  qed
qed simp

section \<open>Step-up grants\<close>

definition orderSpend :: "jsval \<Rightarrow> auth_context \<Rightarrow> string \<Rightarrow> string \<Rightarrow> grant_spend" where
  "orderSpend token c action rid =
     \<lparr>gs_grant = token, gs_tenant = tenantId c, gs_user = userId c, gs_action = action,
      gs_resource_type = Some ''repair_order'', gs_resource_id = Some rid, gs_required = AL_fresh_and_mfa_policy\<rparr>"

lemma grant_spent:
  assumes "consumeSensitiveActionGrant e tok c act rid s = Inr (u, s')"
  shows "\<exists>g. filter (grantMatches e (orderSpend tok c act rid)) (grants s) = [g]"
    and "grants s' = update_where (grantMatches e (orderSpend tok c act rid)) (\<lambda>g. g\<lparr>rg_consumed := Some (now e)\<rparr>) (grants s)"
  using assms
  by (auto simp: consumeSensitiveActionGrant_def consumeReauthenticationGrant_def orderSpend_def
      consumeReauthenticationGrantReturningId_def Let_def split: if_splits prod.splits bool.splits list.splits)

definition grants_step :: "reauthentication_grant list \<Rightarrow> reauthentication_grant list \<Rightarrow> bool" where
  "grants_step gs gs' = list_all2 (\<lambda>g g'. g' = g \<or> (rg_consumed g = None \<and> (\<exists>t. g' = g\<lparr>rg_consumed := Some t\<rparr>))) gs gs'"

lemma grants_step_refl [simp]: "grants_step gs gs"
  by (simp add: grants_step_def list_all2_refl)

lemma grants_step_spend: "grants_step gs (update_where (grantMatches e i) (\<lambda>g. g\<lparr>rg_consumed := Some t\<rparr>) gs)"
  by (auto simp: grants_step_def update_where_def list_all2_conv_all_nth grantMatches_def)

lemma consume_grants_step:
  "consumeSensitiveActionGrant e tok c act rid s = Inr (u, s') \<Longrightarrow> grants_step (grants s) (grants s')"
  using grants_step_spend grant_spent(2) by metis

lemma gates_grants_step:
  "transitionGates e c rid st tok ro s = Inr (u, s') \<Longrightarrow> grants_step (grants s) (grants s')"
  unfolding transitionGates_Inr using consume_grants_step by (metis grants_step_refl)

lemma grants_audited:
  assumes "\<And>v s'. \<exists>a. f v s' = s'\<lparr>audit := a\<rparr>"
    and "\<And>v s'. body s = Inr (v, s') \<Longrightarrow> grants_step (grants s) (grants s')"
  shows "grants_step (grants s) (grants (snd (andAudit f (withTransaction body s))))"
  by (rule audited_keeps [where I = "\<lambda>s'. grants_step (grants s) (grants s')"]) (use assms in simp_all)

lemma transitionBody_grants:
  assumes "transitionBody e c roId toStatus p s = Inr (v, s')"
  obtains rid ro s1 where "roId = JStr rid" "assertRO c roId s = Inr ro"
    "transitionGates e c rid toStatus (jget p ''step_up_token'') ro s = Inr ((), s1)" "grants s' = grants s1"
  using assms
proof (rule transitionBody_success, goal_cases)
  case (1 rid ro s1 row st s4)
  then have "grants s' = grants s1"
    by (auto simp: syncQueueForRO_rows recordROEvent_def movedState_def withdrawEstimate_def Let_def)
  with 1 that show ?case by blast
qed

lemma authorizationBody_grants: "authorizationBody e c roId p s = Inr (v, s') \<Longrightarrow> grants_step (grants s) (grants s')"
  by (auto simp: authorizationBody_def recordDecision_def recordROEvent_def Let_def split: if_splits
      dest: consume_grants_step)

lemmas on_grants = all_frames [THEN arg_cong [where f = grants], simplified]

lemma exec_grants: "grants_step (grants s) (grants (snd (exec e c q s)))"
proof (cases q)
  case (TransitionRO roId st p)
  show ?thesis unfolding TransitionRO exec.simps outcome_sel transitionRO_def
    by (rule grants_audited, rule emitAudit_shape) (erule transitionBody_grants, simp add: gates_grants_step)
next
  case (RecordAuthorization roId p)
  show ?thesis unfolding RecordAuthorization exec.simps outcome_sel recordAuthorization_def
    by (rule grants_audited, rule emitAudit_shape) (rule authorizationBody_grants)
qed (simp_all add: on_grants)

text \<open>Nothing makes a grant good again: what cannot be spent now can never be spent.\<close>

definition unspendable :: "env \<Rightarrow> grant_spend \<Rightarrow> db \<Rightarrow> bool" where
  "unspendable e i s = (\<forall>g \<in> set (grants s). \<not> grantMatches e i g)"

lemma unspendable_step:
  assumes "grants_step (grants s) (grants s')" "unspendable e i s"
  shows "unspendable e i s'"
proof -
  have "\<not> grantMatches e i g'" if "g' \<in> set (grants s')" for g'
  proof -
    from that obtain k where "k < length (grants s')" "grants s' ! k = g'" by (auto simp: in_set_conv_nth)
    with assms(1) have "grants s ! k \<in> set (grants s) \<and> (g' = grants s ! k \<or> (\<exists>t. g' = (grants s ! k)\<lparr>rg_consumed := Some t\<rparr>))"
      by (auto simp: grants_step_def list_all2_conv_all_nth)
    with assms(2) show ?thesis by (auto simp: unspendable_def grantMatches_def)
  qed
  then show ?thesis by (simp add: unspendable_def)
qed

definition leads_to :: "db \<Rightarrow> db \<Rightarrow> bool" where
  "leads_to = (\<lambda>s s'. \<exists>q. service_step s q s')\<^sup>*\<^sup>*"

lemma leads_to_keeps:
  assumes "leads_to s s'" "K s" "\<And>s e c q. K s \<Longrightarrow> fresh e s \<Longrightarrow> K (snd (exec e c q s))"
  shows "K s'"
  using assms(1) unfolding leads_to_def
proof (induction rule: rtranclp_induct)
  case (step s1 s2)
  then obtain q where "service_step s1 q s2" by blast
  then show ?case by (rule service_stepE) (metis assms(3) step.IH snd_conv)
qed (rule assms(2))

lemma grantMatches_earlier:
  assumes "sha256hex e' = sha256hex e" "now e \<le> now e'" "pgUuid rid' = pgUuid rid"
    "grantMatches e' (orderSpend tok c act rid') g"
  shows "grantMatches e (orderSpend tok c act rid) g"
  using assms by (simp add: grantMatches_def orderSpend_def)

lemma grantMatches_consumed: "\<not> grantMatches e i (g\<lparr>rg_consumed := Some t\<rparr>)"
  by (simp add: grantMatches_def)

lemma spent_for_good:
  assumes "consumeSensitiveActionGrant e tok c act rid s = Inr (u, s')" "leads_to s' s''"
    and "sha256hex e' = sha256hex e" "now e \<le> now e'" "pgUuid rid' = pgUuid rid"
  shows "unspendable e' (orderSpend tok c act rid') s''"
proof (rule leads_to_keeps [OF assms(2)])
  have "\<not> grantMatches e' (orderSpend tok c act rid') g" if "g \<in> set (grants s')" for g
    using that grantMatches_earlier [OF assms(3-5), of tok c act g] unfolding grant_spent(2) [OF assms(1)] in_update_where
    by (metis grantMatches_consumed)
  then show "unspendable e' (orderSpend tok c act rid') s'" by (simp add: unspendable_def)
qed (use unspendable_step exec_grants in blast)

lemma spent_later:
  assumes "consumeSensitiveActionGrant e tok c act rid s = Inr (u, s1)" "grants s' = grants s1" "leads_to s' s''"
    and "sha256hex e' = sha256hex e" "now e \<le> now e'" "pgUuid rid' = pgUuid rid"
  shows "unspendable e' (orderSpend tok c act rid') s''"
proof (rule leads_to_keeps [OF assms(3)])
  have "unspendable e' (orderSpend tok c act rid') s1"
    by (rule spent_for_good [OF assms(1) _ assms(4-6)]) (simp add: leads_to_def)
  with assms(2) show "unspendable e' (orderSpend tok c act rid') s'" by (simp add: unspendable_def)
qed (use unspendable_step exec_grants in blast)

lemma unspendable_refused:
  assumes "unspendable e (orderSpend tok c act rid) s"
  shows "consumeSensitiveActionGrant e tok c act rid s = Inl (ForbiddenError ''step_up_required'')"
proof -
  have "filter (grantMatches e (orderSpend tok c act rid)) (grants s) = []"
    using assms by (simp add: unspendable_def filter_empty_conv)
  then show ?thesis
    by (simp add: consumeSensitiveActionGrant_def consumeReauthenticationGrant_def orderSpend_def
        consumeReauthenticationGrantReturningId_def Let_def)
qed

end
