(* ===== verification/CockpitLines.thy ===== *)
theory CockpitLines
  imports CockpitLifecycle
begin

text \<open>
  Line items over the whole service: who may change what of a line, and the authorization row
  behind every approved one.
\<close>

section \<open>How a request moves the lines\<close>

text \<open>
  \<open>line_moves d l l'\<close>: a line keeps its place and, once quoted or approved, its terms; a
  decision on it is final; and only where \<open>d\<close> holds is a line decided, a pending one.
\<close>

definition line_moves :: "bool \<Rightarrow> ro_line_item \<Rightarrow> ro_line_item \<Rightarrow> bool" where
  "line_moves d l l' =
     (li_id l' = li_id l \<and> li_ro l' = li_ro l \<and> li_tenant l' = li_tenant l \<and>
      (li_auth l \<in> {LA_pending, LA_approved} \<longrightarrow> lineTerms l' = lineTerms l) \<and>
      (if li_auth l \<in> {LA_approved, LA_declined} then li_auth l' = li_auth l \<and> li_auth_ref l' = li_auth_ref l
       else li_auth l' \<in> {LA_approved, LA_declined} \<longrightarrow> d \<and> li_auth l = LA_pending))"

definition unshown :: "ro_line_item \<Rightarrow> bool" where
  "unshown l = (li_auth l = LA_not_required \<and> li_auth_ref l = None)"

definition lines_step :: "bool \<Rightarrow> ro_line_item list \<Rightarrow> ro_line_item list \<Rightarrow> bool" where
  "lines_step d ls ls' = (\<exists>ys new. ls' = ys @ new \<and> list_all2 (line_moves d) ls ys \<and> list_all unshown new)"

lemma line_moves_refl [simp]: "line_moves d l l"
  by (auto simp: line_moves_def)

lemma lines_step_new: "list_all unshown new \<Longrightarrow> lines_step d ls (ls @ new)"
  unfolding lines_step_def by (rule exI [of _ ls], rule exI [of _ new]) (simp add: list_all2_refl)

lemma lines_step_refl [simp]: "lines_step d ls ls"
  using lines_step_new [of "[]" d ls] by simp

lemma lines_step_map:
  assumes "\<And>l. l \<in> set ls \<Longrightarrow> line_moves d l (f l)"
  shows "lines_step d ls (map f ls)"
proof -
  have "list_all2 (line_moves d) ls (map f ls)" using assms by (auto simp: list_all2_conv_all_nth)
  then show ?thesis unfolding lines_step_def by (intro exI [of _ "map f ls"] exI [of _ "[]"]) simp
qed

lemma lines_step_update:
  "(\<And>l. l \<in> set ls \<Longrightarrow> P l \<Longrightarrow> line_moves d l (f l)) \<Longrightarrow> lines_step d ls (update_where P f ls)"
  unfolding update_where_def by (rule lines_step_map) simp

lemma lines_tx:
  "(\<And>v s'. body s = Inr (v, s') \<Longrightarrow> lines_step d (line_items s) (line_items s')) \<Longrightarrow>
   lines_step d (line_items s) (line_items (snd (withTransaction body s)))"
  by (rule transaction_keeps [where I = "\<lambda>s'. lines_step d (line_items s) (line_items s')"]) simp_all

lemma lines_audited:
  assumes "\<And>v s'. \<exists>a. f v s' = s'\<lparr>audit := a\<rparr>"
    and "\<And>v s'. body s = Inr (v, s') \<Longrightarrow> lines_step d (line_items s) (line_items s')"
  shows "lines_step d (line_items s) (line_items (snd (andAudit f (withTransaction body s))))"
  by (rule audited_keeps [where I = "\<lambda>s'. lines_step d (line_items s) (line_items s')"]) (use assms in simp_all)

lemma addLineItem_lines: "lines_step d (line_items s) (line_items (snd (addLineItem e c roId p s)))"
  unfolding addLineItem_def
  by (rule lines_tx) (auto simp: Let_def unshown_def intro!: lines_step_new)

lemma dispatchTech_lines: "lines_step d (line_items s) (line_items (snd (dispatchTech e c p s)))"
  unfolding dispatchTech_def
  by (rule lines_tx) (auto simp: Let_def line_moves_def lineTerms_def intro!: lines_step_update)

lemma moveRO_lines: "moveRO e n c rid froms st s = Inr s' \<Longrightarrow> line_items s' = line_items s"
  by (erule moveRO_cases) auto

lemma generateEstimate_lines: "lines_step d (line_items s) (line_items (snd (generateEstimate e c roId p s)))"
  unfolding generateEstimate_def
  by (rule lines_tx) (auto simp: Let_def quotedLine_def line_moves_def lineTerms_def recordROEvent_def
      intro!: lines_step_update dest!: moveRO_lines)

lemma transitionRO_lines: "lines_step d (line_items s) (line_items (snd (transitionRO e c roId toStatus p s)))"
  unfolding transitionRO_def
proof (rule lines_audited, rule emitAudit_shape)
  fix v s' assume "transitionBody e c roId toStatus p s = Inr (v, s')"
  then show "lines_step d (line_items s) (line_items s')"
  proof (rule transitionBody_success, goal_cases)
    case (1 rid ro s1 row st s4)
    have "line_items s1 = line_items s" using transitionGates_frame [OF 1(4)] by auto
    moreover have "line_items s' = line_items (movedState c (pgUuid rid) (ro_status ro) toStatus st s1)"
      using 1(7,8) by (auto simp: syncQueueForRO_rows recordROEvent_def)
    ultimately show ?case
      by (auto simp: movedState_def withdrawEstimate_def Let_def line_moves_def lineTerms_def intro!: lines_step_update)
  qed
qed

lemma setLineField_ref [simp]: "li_auth_ref (setLineField kv l) = li_auth_ref l"
  by (auto simp: setLineField_def split: prod.splits option.splits)

lemma setLineFields_ref [simp]: "li_auth_ref (fold setLineField kvs l) = li_auth_ref l"
  by (induction kvs arbitrary: l) simp_all

lemma fold_setLineField_terms:
  "\<forall>kv \<in> set kvs. fst kv \<notin> set LINE_ITEM_COMMERCIAL_FIELDS \<Longrightarrow> lineTerms (fold setLineField kvs l) = lineTerms l"
proof (induction kvs arbitrary: l)
  case (Cons kv kvs)
  have "lineTerms (setLineField kv l) = lineTerms l"
    using Cons.prems by (auto simp: setLineField_def lineTerms_def LINE_ITEM_COMMERCIAL_FIELDS_def split: prod.splits option.splits)
  with Cons show ?case by simp
qed simp

lemma updateLineItem_lines: "lines_step d (line_items s) (line_items (snd (updateLineItem c roId lid updates s)))"
  unfolding updateLineItem_def
proof (rule lines_tx, goal_cases)
  case (1 v s')
  let ?sets = "filter (\<lambda>kv. fst kv \<in> set (LINE_ITEM_PROGRESS_FIELDS @
      (if supervises c then LINE_ITEM_COMMERCIAL_FIELDS else []))) updates"
  from 1 obtain line where allowed: "lineUpdateAllowed c updates line = Inr ()"
    and s': "line_items s' = update_where (\<lambda>l. li_id l = pgUuid (stringOf lid) \<and> li_ro l = pgUuid (stringOf roId)
        \<and> li_tenant l = tenantId c \<and> li_auth l = li_auth line) (fold setLineField ?sets) (line_items s)"
    by (auto simp: Let_def split: option.splits if_splits)
  have "lineTerms (fold setLineField ?sets l) = lineTerms l" if "li_auth line \<in> {LA_pending, LA_approved}" for l
  proof (rule fold_setLineField_terms)
    have "filter (jhas updates) LINE_ITEM_COMMERCIAL_FIELDS = []"
      using allowed that by (auto simp: lineUpdateAllowed_def Let_def)
    then show "\<forall>kv \<in> set ?sets. fst kv \<notin> set LINE_ITEM_COMMERCIAL_FIELDS"
      by (auto simp: filter_empty_conv jhas_def list_ex_iff)
  qed
  then show ?case unfolding s'
    by (intro lines_step_update) (auto simp: line_moves_def)
qed

text \<open>A decision touches lines that were pending, and no others.\<close>

lemma decidedLines_pending:
  assumes "decidedLines c rid d s = Inr ls" "l \<in> set (line_items s)" "li_ro l = pgUuid rid" "li_tenant l = tenantId c"
    and "li_id l \<in> set (uuidList (de_approved d @ de_declined d))"
  shows "l \<in> set ls \<and> li_auth l = LA_pending"
proof -
  from assms(1) have rows: "assertLineItemsOnRO c rid (de_approved d @ de_declined d) s = Inr ls"
    and pending: "filter (\<lambda>l. li_auth l \<noteq> LA_pending) ls = []"
    by (auto simp: decidedLines_def)
  from assms(5) have "de_approved d @ de_declined d \<noteq> []" by (auto simp: uuidList_def)
  with rows have "ls = filter (\<lambda>l. li_id l \<in> set (uuidList (de_approved d @ de_declined d)) \<and> li_ro l = pgUuid rid
      \<and> li_tenant l = tenantId c) (line_items s)"
    by (auto simp: assertLineItemsOnRO_def uuidList_def Let_def simp del: map_append split: if_splits)
  with assms(2-5) have "l \<in> set ls" by simp
  with pending show ?thesis by (auto simp: filter_empty_conv)
qed

lemma applyDecision_map:
  "applyDecision c rid a d rows = map (\<lambda>l.
     if li_ro l = rid \<and> li_tenant l = tenantId c \<and> li_id l \<in> set (uuidList (de_declined d))
     then l\<lparr>li_auth := LA_declined, li_status := LI_declined, li_auth_ref := Some a\<rparr>
     else if li_ro l = rid \<and> li_tenant l = tenantId c \<and> li_id l \<in> set (uuidList (de_approved d))
     then l\<lparr>li_auth := LA_approved, li_auth_ref := Some a\<rparr> else l) rows"
  by (auto simp: applyDecision_def update_where_def uuidList_def Let_def)

lemma authorizationBody_success:
  assumes "authorizationBody e c roId p s = Inr (v, s')"
  obtains d rid eid ls s1 where "decidedLines c (stringOf roId) d s1 = Inr ls" "rid = pgUuid (stringOf roId)"
    "(v, s') = recordDecision e c rid eid d ls s1" "\<exists>g a. s1 = s\<lparr>grants := g, audit := a\<rparr>"
proof -
  let ?spend = "\<lambda>d. if methodRequiresStepUp (de_method d)
     then consumeSensitiveActionGrant e (jget p ''step_up_token'') c
       (''service.ro.authorization.record:'' @ methodName (de_method d)) (stringOf roId) s
     else Inr ((), s)"
  from assms obtain d x where spend: "?spend d = Inr x"
    and rest: "(case x of (_, s1) \<Rightarrow>
       bindR (decidableEstimate c (pgUuid (stringOf roId)) (pgUuid (stringOf (jget p ''estimate_id''))) s1) (\<lambda>_.
       bindR (decidedLines c (stringOf roId) d s1) (\<lambda>ls.
         Inr (recordDecision e c (pgUuid (stringOf roId)) (pgUuid (stringOf (jget p ''estimate_id''))) d ls s1)))) = Inr (v, s')"
    unfolding authorizationBody_def Let_def bindR_eq_Inr by blast
  obtain s1 where x: "x = ((), s1)" by (cases x) auto
  from rest obtain ls where "decidedLines c (stringOf roId) d s1 = Inr ls"
    "(v, s') = recordDecision e c (pgUuid (stringOf roId)) (pgUuid (stringOf (jget p ''estimate_id''))) d ls s1"
    by (auto simp: x)
  moreover have "\<exists>g a. s1 = s\<lparr>grants := g, audit := a\<rparr>"
    using spend x consumeSensitiveActionGrant_frame [of e "jget p ''step_up_token''" c _ "stringOf roId" s "()" s1] no_grant [of s]
    by (auto split: if_splits)
  ultimately show thesis using that by blast
qed

lemma authorizationBody_lines:
  assumes "authorizationBody e c roId p s = Inr (v, s')"
  shows "lines_step True (line_items s) (line_items s')"
  using assms
proof (rule authorizationBody_success, goal_cases)
  case (1 d rid eid ls s1)
  then have lines: "line_items s1 = line_items s" "line_items s' = applyDecision c rid (ids e 0) d (line_items s)"
    by (auto simp: recordDecision_def recordROEvent_def Let_def)
  have "li_auth l = LA_pending" if "l \<in> set (line_items s)" "li_ro l = rid" "li_tenant l = tenantId c"
    "li_id l \<in> set (uuidList (de_approved d)) \<union> set (uuidList (de_declined d))" for l
    using decidedLines_pending [OF 1(1), of l] that lines(1) 1(2) by (auto simp: uuidList_def)
  then show ?case unfolding lines(2) applyDecision_map
    by (intro lines_step_map) (auto simp: line_moves_def lineTerms_def)
qed

lemmas on_line_items = all_frames [THEN arg_cong [where f = line_items], simplified]

definition decides_lines :: "svc_request \<Rightarrow> bool" where
  "decides_lines q = (case q of RecordAuthorization _ _ \<Rightarrow> True | _ \<Rightarrow> False)"

lemma exec_lines: "lines_step (decides_lines q) (line_items s) (line_items (snd (exec e c q s)))"
proof (cases q)
  case (RecordAuthorization roId p)
  have "lines_step True (line_items s) (line_items (snd (recordAuthorization e c roId p s)))"
    unfolding recordAuthorization_def
    by (rule lines_audited, rule emitAudit_shape) (rule authorizationBody_lines)
  then show ?thesis by (simp add: RecordAuthorization decides_lines_def)
qed (simp_all add: addLineItem_lines dispatchTech_lines generateEstimate_lines transitionRO_lines updateLineItem_lines,
     simp_all add: on_line_items)

end
