(* ===== verification/CockpitSamples.thy ===== *)
theory CockpitSamples
  imports CockpitLifecycle "HOL-Library.Code_Target_Nat"
begin

text \<open>
  A repair the witnesses follow: a car is booked, checked in, quoted and sent to the customer,
  the customer agrees in the portal, and the order is authorized with a step-up grant.
\<close>

definition stepUp :: "nat \<Rightarrow> string \<Rightarrow> reauthentication_grant" where
  "stepUp n st = \<lparr>rg_id = uuidOf 33 n, rg_tenant = tenantId demoCtx, rg_user = userId demoCtx,
     rg_action = ''service.ro.transition:'' @ st, rg_resource_type = Some ''repair_order'',
     rg_resource_id = Some (uuidOf 17 0), rg_hash = ''token'', rg_expires = 9000000, rg_consumed = None,
     rg_level = AL_fresh_and_mfa_policy, rg_mfa_certified = True\<rparr>"

definition shopStart :: db where
  "shopStart = emptyDb\<lparr>grants := [stepUp 0 ''authorized'']\<rparr>"

abbreviation "theOrder \<equiv> JStr (uuidOf 17 0)"
abbreviation "theLine \<equiv> JStr (uuidOf 18 0)"
abbreviation "theEstimate \<equiv> JStr (uuidOf 20 0)"

definition agreed :: svc_request where
  "agreed = RecordAuthorization theOrder [(''estimate_id'', theEstimate), (''method'', JStr ''portal''),
     (''approved_items'', JArr [theLine]), (''evidence_refs'', JObj [(''portal_task'', JStr ''t'')])]"

definition authorize :: svc_request where
  "authorize = TransitionRO theOrder ''authorized'' [(''step_up_token'', JStr ''token'')]"

definition shopCalls :: "service_call list" where
  "shopCalls = [(demoEnv 16, demoCtx, CreateAppointment bookingBody),
     (demoEnv 17, demoCtx, CheckIn (JStr (uuidOf 16 0)) []),
     (demoEnv 18, demoCtx, AddLineItem theOrder [(''line_type'', JStr ''labor''), (''description'', JStr ''Brakes'')]),
     (demoEnv 19, demoCtx, UpdateLineItem theOrder theLine
        [(''price_ref'', JObj [(''amount_cents'', JNum (Fin 5000)), (''currency'', JStr ''USD'')])]),
     (demoEnv 20, demoCtx, GenerateEstimate theOrder []),
     (demoEnv 21, demoCtx, SendEstimate theOrder theEstimate []),
     (demoEnv 22, demoCtx, agreed), (demoEnv 23, demoCtx, authorize),
     (demoEnv 24, demoCtx, TransitionRO theOrder ''in_repair'' []),
     (demoEnv 25, demoCtx, UpdateLineItem theOrder theLine [(''status'', JStr ''completed'')]),
     (demoEnv 26, demoCtx, TransitionRO theOrder ''qc'' [])]"

text \<open>The shop after its first \<open>k\<close> requests: quoted after 6, agreed after 7, authorized after 8.\<close>

definition shopAfter :: "nat \<Rightarrow> db" where
  "shopAfter k = snd (runAll serve (take k shopCalls) shopStart)"

lemma shopStart_initial: "initial shopStart"
  by (simp add: initial_def shopStart_def emptyDb_def)

lemma shopCalls_ok: "allOk serve freshCall shopCalls shopStart"
  by code_simp

lemma runAll_snd_append: "snd (runAll run (xs @ ys) s) = snd (runAll run ys (snd (runAll run xs s)))"
  by (induction xs arbitrary: s) (simp_all add: split_def)

lemma allOk_append: "allOk run ok (xs @ ys) s \<longleftrightarrow> allOk run ok xs s \<and> allOk run ok ys (snd (runAll run xs s))"
  by (induction xs arbitrary: s) (simp_all add: split_def)

lemma shopAfter_ok: "allOk serve freshCall (take k shopCalls) shopStart \<and> allOk serve freshCall (drop k shopCalls) (shopAfter k)"
  using shopCalls_ok allOk_append [of serve freshCall "take k shopCalls" "drop k shopCalls"]
  by (simp add: shopAfter_def)

lemma shopAfter_reachable: "reachable (shopAfter k)"
  unfolding shopAfter_def
  using runAll_reachable [OF reachable_start [OF shopStart_initial]] shopAfter_ok by blast

lemma shopAfter_step:
  assumes "k < length shopCalls" "shopCalls ! k = (e, c, q)"
  shows "fresh e (shopAfter k)" "shopAfter (Suc k) = snd (exec e c q (shopAfter k))"
proof -
  from assms have rest: "drop k shopCalls = (e, c, q) # drop (Suc k) shopCalls" by (metis Cons_nth_drop_Suc)
  with shopAfter_ok [of k] show "fresh e (shopAfter k)" by (simp add: freshCall_def)
  have "take (Suc k) shopCalls = take k shopCalls @ [(e, c, q)]" using assms by (simp add: take_Suc_conv_app_nth)
  then show "shopAfter (Suc k) = snd (exec e c q (shopAfter k))"
    by (simp add: shopAfter_def runAll_snd_append serve_def split_def)
qed

text \<open>What the shop has come to, evaluated once.\<close>

definition shopSummary :: "db \<Rightarrow> ROStatus list \<times> (LineStatus \<times> LineAuth) list \<times> EstimateStatus list \<times> nat" where
  "shopSummary s = (map ro_status (repair_orders s), map (\<lambda>l. (li_status l, li_auth l)) (line_items s),
     map es_status (estimates s), length (filter (\<lambda>g. rg_consumed g = None) (grants s)))"

lemma shop_quoted: "shopSummary (shopAfter 6) = ([RO_awaiting_authorization], [(LI_proposed, LA_pending)], [ES_sent], 1)"
  by code_simp

lemma shop_agreed: "shopSummary (shopAfter 7) = ([RO_awaiting_authorization], [(LI_proposed, LA_approved)], [ES_approved], 1)"
  by code_simp

lemma shop_authorized: "shopSummary (shopAfter 8) = ([RO_authorized], [(LI_proposed, LA_approved)], [ES_approved], 0)"
  by code_simp

lemma shop_done: "shopSummary (shopAfter 11) = ([RO_qc], [(LI_completed, LA_approved)], [ES_approved], 0)"
  by code_simp

end
