(* ===== verification/CockpitPromises.thy ===== *)
theory CockpitPromises
  imports CockpitSamples
begin

text \<open>
  What the service cockpit promises about repair orders, over every history of requests, with
  each promise applied to the sample shop.
\<close>

lemmas shop_authorizes = shopAfter_step [of 7 "demoEnv 23" demoCtx authorize]

lemma shop_call_7: "7 < length shopCalls \<and> shopCalls ! 7 = (demoEnv 23, demoCtx, authorize)"
  by (simp add: shopCalls_def)

lemma shop_8: "shopAfter 8 = snd (exec (demoEnv 23) demoCtx authorize (shopAfter 7))"
  using shop_authorizes(2) shop_call_7 by (simp add: eval_nat_numeral)

lemma shop_order:
  assumes "map ro_status (repair_orders s) = [st]"
  obtains r where "repair_orders s = [r]" "ro_status r = st"
  using assms by (auto simp: map_eq_Cons_conv)

lemma shop_orders:
  "map ro_status (repair_orders (shopAfter 7)) = [RO_awaiting_authorization]"
  "map ro_status (repair_orders (shopAfter 8)) = [RO_authorized]"
  "map ro_status (repair_orders (shopAfter 11)) = [RO_qc]"
  using shop_agreed shop_authorized shop_done by (simp_all add: shopSummary_def)

section \<open>No work without authorization\<close>

text \<open>
  C1. Over the whole service, whatever the requests, an order at a status where work is done,
  or beyond, stood authorized in an earlier store of the same history.
\<close>

theorem no_work_without_authorization:
  assumes "history ss" "r \<in> set (repair_orders (last ss))" "\<not> intakeStatus (ro_status r)"
  shows "\<exists>s \<in> set ss. r\<lparr>ro_status := RO_authorized\<rparr> \<in> set (repair_orders s)"
  using assms by (rule was_authorized)

lemma shop_history: "k \<le> length shopCalls \<Longrightarrow> history (map shopAfter [0..<Suc k])"
proof (induction k)
  case 0
  have "shopAfter 0 = shopStart" by (simp add: shopAfter_def)
  with history_start [OF shopStart_initial] show ?case by simp
next
  case (Suc k)
  obtain e c q where q: "shopCalls ! k = (e, c, q)" by (cases "shopCalls ! k") auto
  have "service_step (shopAfter k) (e, c, q) (shopAfter (Suc k))"
    using shopAfter_step [OF _ q] Suc.prems service_step [of e "shopAfter k" c q] by (metis Suc_le_lessD prod.collapse)
  with history_step [of "map shopAfter [0..<k]" "shopAfter k"] Suc show ?case by simp
qed

theorem no_work_without_authorization_witness:
  "\<exists>r s. r \<in> set (repair_orders (shopAfter 11)) \<and> ro_status r = RO_qc \<and>
     s \<in> set (map shopAfter [0..<12]) \<and> r\<lparr>ro_status := RO_authorized\<rparr> \<in> set (repair_orders s)"
proof -
  obtain r where r: "repair_orders (shopAfter 11) = [r]" "ro_status r = RO_qc" by (rule shop_order [OF shop_orders(3)])
  have "history (map shopAfter [0..<12])"
    using shop_history [of 11] by (simp add: shopCalls_def eval_nat_numeral)
  moreover have "last (map shopAfter [0..<12]) = shopAfter 11" by (simp add: last_map eval_nat_numeral)
  ultimately show ?thesis
    using no_work_without_authorization [of "map shopAfter [0..<12]" r] r by auto
qed

text \<open>
  C13. An order becomes authorized only by a transition that found a customer's approval, with
  at least one line, of the order's current estimate, and that spent a step-up grant of the
  acting user for this very order: exactly one grant matched, and in the new store it is
  consumed.
\<close>

theorem authorized_on_evidence:
  assumes "r' \<in> set (repair_orders (snd (exec e c q s)))" "r' \<notin> set (repair_orders s)" "ro_status r' = RO_authorized"
  shows "\<exists>rid p a est g. q = TransitionRO (JStr rid) ''authorized'' p \<and> ro_id r' = pgUuid rid \<and> ro_tenant r' = tenantId c \<and>
    a \<in> set (authorizations s) \<and> au_ro a = ro_id r' \<and> au_tenant a = tenantId c \<and> au_status a = AU_approved \<and>
    au_approved a \<noteq> [] \<and> currentEstimate c (ro_id r') s = Some est \<and> au_estimate a = es_id est \<and>
    filter (grantMatches e (orderSpend (jget p ''step_up_token'') c ''service.ro.transition:authorized'' rid)) (grants s) = [g] \<and>
    g\<lparr>rg_consumed := Some (now e)\<rparr> \<in> set (grants (snd (exec e c q s)))"
proof (rule arrival_gates [OF assms(1,2)])
  show "ro_status r' \<notin> untested" using assms(3) by (simp add: untested_def)
  fix rid p ro s1
  assume q: "q = TransitionRO (JStr rid) (ROStatusName (ro_status r')) p" "ro_id r' = pgUuid rid" "ro_tenant r' = tenantId c"
    and gates: "transitionGates e c rid (ROStatusName (ro_status r')) (jget p ''step_up_token'') ro s = Inr ((), s1)"
    and after: "grants (snd (exec e c q s)) = grants s1"
  have name: "ROStatusName RO_authorized = ''authorized''" by (simp add: ROStatusName_def RO_STATUSES_def)
  have req: "transitionRequiresStepUp ''authorized''" "transitionRequiresAuthorization ''authorized''" by code_simp+
  from gates have spend: "consumeSensitiveActionGrant e (jget p ''step_up_token'') c ''service.ro.transition:authorized'' rid s = Inr ((), s1)"
    and auth: "authorizationGate c (pgUuid rid) s1 = Inr ()"
    by (simp_all add: transitionGates_Inr assms(3) name req)
  from transitionGates_frame [OF gates] have same: "authorizations s1 = authorizations s" "estimates s1 = estimates s" by auto
  from auth obtain a where "authorizationEvidence c (pgUuid rid) s1 = Some a" by (auto simp: authorizationGate_def)
  moreover have "currentEstimate c (pgUuid rid) s1 = currentEstimate c (pgUuid rid) s" by (simp add: currentEstimate_def same)
  ultimately obtain est
    where a: "a \<in> set (authorizations s)" "au_ro a = pgUuid rid" "au_tenant a = tenantId c" "au_status a = AU_approved"
      "au_approved a \<noteq> []" "currentEstimate c (pgUuid rid) s = Some est" "au_estimate a = es_id est"
    using same by (cases "currentEstimate c (pgUuid rid) s") (auto simp: authorizationEvidence_def dest!: find_SomeD)
  from grant_spent(1) [OF spend] obtain g where
    g: "filter (grantMatches e (orderSpend (jget p ''step_up_token'') c ''service.ro.transition:authorized'' rid)) (grants s) = [g]" by blast
  then have "g \<in> set (filter (grantMatches e (orderSpend (jget p ''step_up_token'') c ''service.ro.transition:authorized'' rid)) (grants s))"
    by simp
  then have "g\<lparr>rg_consumed := Some (now e)\<rparr> \<in> set (grants s1)"
    unfolding grant_spent(2) [OF spend] in_update_where by auto
  with q a g after show ?thesis
    by (intro exI [of _ rid] exI [of _ p] exI [of _ a] exI [of _ est] exI [of _ g]) (simp add: assms(3) name)
qed

theorem authorized_on_evidence_witness:
  "\<exists>a g. a \<in> set (authorizations (shopAfter 7)) \<and> au_status a = AU_approved \<and>
     g\<lparr>rg_consumed := Some 1500000\<rparr> \<in> set (grants (shopAfter 8))"
proof -
  obtain r where r: "repair_orders (shopAfter 7) = [r]" "ro_status r = RO_awaiting_authorization"
    by (rule shop_order [OF shop_orders(1)])
  obtain r' where r': "repair_orders (shopAfter 8) = [r']" "ro_status r' = RO_authorized"
    by (rule shop_order [OF shop_orders(2)])
  have "now (demoEnv 23) = 1500000" "r' \<noteq> r" using r r' by (auto simp: demoEnv_def)
  with authorized_on_evidence [of r' "demoEnv 23" demoCtx authorize "shopAfter 7"] r r' show ?thesis
    unfolding shop_8 [symmetric] by auto
qed

text \<open>
  C26. An order becomes ready for pickup only by a transition, and only when none of its lines
  is still to be worked and no line is left that the customer has yet to decide or that
  carries a price nobody quoted.
\<close>

theorem pickup_only_when_done:
  assumes "r' \<in> set (repair_orders (snd (exec e c q s)))" "r' \<notin> set (repair_orders s)" "ro_status r' = RO_ready_for_pickup"
    and "l \<in> set (line_items s)" "li_ro l = ro_id r'" "li_tenant l = ro_tenant r'"
  shows "li_status l \<in> {LI_declined, LI_completed, LI_canceled} \<and>
    (li_status l = LI_canceled \<or>
     (li_auth l \<noteq> LA_pending \<and> (li_auth l = LA_not_required \<longrightarrow> \<not> chargeable (li_price l))))"
proof (rule arrival_gates [OF assms(1,2)])
  show "ro_status r' \<notin> untested" using assms(3) by (simp add: untested_def)
  fix rid p ro s1
  assume q: "ro_id r' = pgUuid rid" "ro_tenant r' = tenantId c"
    and gates: "transitionGates e c rid (ROStatusName (ro_status r')) (jget p ''step_up_token'') ro s = Inr ((), s1)"
  have name: "ROStatusName RO_ready_for_pickup = ''ready_for_pickup''" by (simp add: ROStatusName_def RO_STATUSES_def)
  have "line_items s1 = line_items s" using transitionGates_frame [OF gates] by auto
  moreover from gates have "pickupGate c (pgUuid rid) s1 = Inr ()" by (simp add: transitionGates_Inr assms(3) name)
  ultimately have "openWork c (pgUuid rid) s = []" "undecidedWork c (pgUuid rid) s = []"
    by (simp_all add: pickupGate_def openWork_def undecidedWork_def)
  with assms(4-6) q show ?thesis
    by (cases "li_status l") (auto simp: openWork_def undecidedWork_def undecidedLine_def filter_empty_conv)
qed

definition readyStore :: db where
  "readyStore = snd (exec (demoEnv 27) demoCtx (TransitionRO theOrder ''ready_for_pickup'' []) (shopAfter 11))"

lemma readyStore_status: "map ro_status (repair_orders readyStore) = [RO_ready_for_pickup]"
  by code_simp

lemma shop_line: "map (\<lambda>l. (li_ro l, li_tenant l)) (line_items (shopAfter 11)) = map (\<lambda>r. (ro_id r, ro_tenant r)) (repair_orders readyStore)"
  by code_simp

theorem pickup_only_when_done_witness:
  "\<exists>l \<in> set (line_items (shopAfter 11)). li_status l \<in> {LI_declined, LI_completed, LI_canceled}"
proof -
  obtain r where r: "repair_orders (shopAfter 11) = [r]" "ro_status r = RO_qc" by (rule shop_order [OF shop_orders(3)])
  obtain r' where r': "repair_orders readyStore = [r']" "ro_status r' = RO_ready_for_pickup"
    by (rule shop_order [OF readyStore_status])
  obtain l where l: "line_items (shopAfter 11) = [l]" "li_ro l = ro_id r'" "li_tenant l = ro_tenant r'"
    using shop_line r' by (auto simp: map_eq_Cons_conv)
  have ready: "r' \<in> set (repair_orders (snd (exec (demoEnv 27) demoCtx (TransitionRO theOrder ''ready_for_pickup'' []) (shopAfter 11))))"
    using r' by (simp add: readyStore_def)
  have "r' \<notin> set (repair_orders (shopAfter 11))" "l \<in> set (line_items (shopAfter 11))" using r r' l by auto
  from pickup_only_when_done [OF ready this(1) r'(2) this(2) l(2,3)] this(2) show ?thesis by blast
qed

section \<open>Step-up grants\<close>

text \<open>
  C27. A step-up grant is good for one act: once a transition that needs one has succeeded, no
  later request with the same token, by the same user on the same order to the same status,
  succeeds, whatever happened in between.
\<close>

theorem step_up_spent_once:
  assumes "transitionRO e c (JStr rid) st p s = (Inr ro, s')" "transitionRequiresStepUp st" "leads_to s' s''"
    and "sha256hex e' = sha256hex e" "now e \<le> now e'" "pgUuid rid' = pgUuid rid"
    and "jget p' ''step_up_token'' = jget p ''step_up_token''"
  shows "\<exists>err. transitionRO e' c (JStr rid') st p' s'' = (Inl err, s'')"
proof -
  from assms(1) obtain s1 where "transitionBody e c (JStr rid) st p s = Inr (ro, s1)" "grants s' = grants s1"
    by (auto simp: transitionRO_def andAudit_def withTransaction_def emitAudit_def split: sum.splits prod.splits if_splits)
  then obtain ro0 s2 where gates: "transitionGates e c rid st (jget p ''step_up_token'') ro0 s = Inr ((), s2)" "grants s' = grants s2"
    by (auto elim: transitionBody_grants)
  from gates(1) assms(2) have "consumeSensitiveActionGrant e (jget p ''step_up_token'') c (''service.ro.transition:'' @ st) rid s = Inr ((), s2)"
    by (simp add: transitionGates_Inr)
  then have "unspendable e' (orderSpend (jget p ''step_up_token'') c (''service.ro.transition:'' @ st) rid') s''"
    using spent_later [OF _ gates(2) assms(3-6)] by blast
  from unspendable_refused [OF this] assms(2,7) have "\<nexists>v s3. transitionBody e' c (JStr rid') st p' s'' = Inr (v, s3)"
    by (auto elim!: transitionBody_grants simp: transitionGates_Inr)
  then show ?thesis
    by (cases "transitionBody e' c (JStr rid') st p' s''") (auto simp: transitionRO_def andAudit_def withTransaction_def)
qed

theorem step_up_spent_once_witness:
  "\<exists>err. transitionRO (demoEnv 24) demoCtx theOrder ''authorized'' [(''step_up_token'', JStr ''token'')] (shopAfter 8) =
     (Inl err, shopAfter 8)"
proof -
  let ?r = "transitionRO (demoEnv 23) demoCtx theOrder ''authorized'' [(''step_up_token'', JStr ''token'')] (shopAfter 7)"
  have "snd ?r = shopAfter 8" by (simp add: shop_8 authorize_def)
  moreover have "fst ?r \<noteq> Inl err" for err
  proof
    assume "fst ?r = Inl err"
    then have "snd ?r = shopAfter 7" by (auto simp: transitionRO_def andAudit_def withTransaction_def split: sum.splits)
    with \<open>snd ?r = shopAfter 8\<close> shop_orders(1,2) show False by simp
  qed
  ultimately obtain ro where "?r = (Inr ro, shopAfter 8)" by (cases ?r; cases "fst ?r") auto
  moreover have "transitionRequiresStepUp ''authorized''" by code_simp
  moreover have "leads_to (shopAfter 8) (shopAfter 8)" by (simp add: leads_to_def)
  ultimately show ?thesis
    by (rule step_up_spent_once) (simp_all add: demoEnv_def)
qed

end
