(* ===== verification/Vin.thy ===== *)
theory Vin
  imports JsValues
begin

text \<open>
  Vehicle identification numbers (packages/inventory/src/vin.ts): the transliteration and
  weights of the check character, the model-year cycle and the one entry point
  \<open>normalizeVin\<close>.  Strings are lists of 8-bit characters; the two of them whose capital lies
  outside that range (the micro sign and y with diaeresis) stay as they are, which is not a
  VIN character either way.
\<close>

section \<open>Definitions\<close>

definition LETTER_VALUES :: "(char \<times> nat) list" where
  "LETTER_VALUES =
    [(CHR ''A'', 1), (CHR ''B'', 2), (CHR ''C'', 3), (CHR ''D'', 4), (CHR ''E'', 5), (CHR ''F'', 6),
     (CHR ''G'', 7), (CHR ''H'', 8), (CHR ''J'', 1), (CHR ''K'', 2), (CHR ''L'', 3), (CHR ''M'', 4),
     (CHR ''N'', 5), (CHR ''P'', 7), (CHR ''R'', 9), (CHR ''S'', 2), (CHR ''T'', 3), (CHR ''U'', 4),
     (CHR ''V'', 5), (CHR ''W'', 6), (CHR ''X'', 7), (CHR ''Y'', 8), (CHR ''Z'', 9)]"

definition WEIGHTS :: "nat list" where
  "WEIGHTS = [8, 7, 6, 5, 4, 3, 2, 10, 0, 9, 8, 7, 6, 5, 4, 3, 2]"

definition YEAR_CODES :: string where
  "YEAR_CODES = ''ABCDEFGHJKLMNPRSTVWXY123456789''"

definition VIN_LENGTH :: nat where
  "VIN_LENGTH = 17"

definition isDigit :: "char \<Rightarrow> bool" where
  "isDigit c = (48 \<le> (of_char c :: nat) \<and> (of_char c :: nat) \<le> 57)"

definition isVinChar :: "char \<Rightarrow> bool" where
  "isVinChar c =
     (let n = (of_char c :: nat) in
      (65 \<le> n \<and> n \<le> 72) \<or> (74 \<le> n \<and> n \<le> 78) \<or> n = 80 \<or> (82 \<le> n \<and> n \<le> 90) \<or> isDigit c)"

definition VIN_PATTERN :: "string \<Rightarrow> bool" where
  "VIN_PATTERN s = (length s = 17 \<and> list_all isVinChar s)"

datatype VinRejection = VR_empty | VR_wrong_length | VR_illegal_character | VR_excluded_letter

record VinNormalization =
  vn_vin :: "string option"
  vn_rejection :: "VinRejection option"
  vn_checkDigitValid :: bool
  vn_modelYear :: "int option"
  vn_wmi :: "string option"

text \<open>\<open>toUpperCase\<close> of one character: sharp s becomes two letters.\<close>

definition toUpperChars :: "char \<Rightarrow> string" where
  "toUpperChars c =
     (let n = (of_char c :: nat) in
      if 97 \<le> n \<and> n \<le> 122 then [char_of (n - 32)]
      else if n = 223 then ''SS''
      else if 224 \<le> n \<and> n \<le> 254 \<and> n \<noteq> 247 then [char_of (n - 32)]
      else [c])"

definition normalizeVinInput :: "string \<Rightarrow> string" where
  "normalizeVinInput raw =
     concat (map toUpperChars (filter (\<lambda>c. \<not> isSpace c \<and> c \<noteq> CHR ''-'') raw))"

definition charValue :: "char \<Rightarrow> nat option" where
  "charValue c = (if isDigit c then Some (of_char c - 48) else map_of LETTER_VALUES c)"

fun weighFrom :: "string \<Rightarrow> nat list \<Rightarrow> nat \<Rightarrow> nat option" where
  "weighFrom _ [] tot = Some tot"
| "weighFrom [] (_ # _) _ = None"
| "weighFrom (ch # rest) (w # ws) tot =
     (case charValue ch of None \<Rightarrow> None | Some v \<Rightarrow> weighFrom rest ws (tot + v * w))"

definition vinCheckCharacter :: "string \<Rightarrow> char option" where
  "vinCheckCharacter vin =
     (case weighFrom vin WEIGHTS 0 of
        None \<Rightarrow> None
      | Some tot \<Rightarrow>
          (let r = tot mod 11 in Some (if r = 10 then CHR ''X'' else char_of (48 + r))))"

text \<open>The remainder of JavaScript takes the sign of the dividend.\<close>

definition jsRem :: "int \<Rightarrow> int \<Rightarrow> int" where
  "jsRem a b = (if a < 0 then - ((- a) mod b) else a mod b)"

fun indexOf :: "'a list \<Rightarrow> 'a \<Rightarrow> nat option" where
  "indexOf [] _ = None"
| "indexOf (y # ys) x = (if y = x then Some 0 else map_option Suc (indexOf ys x))"

definition vinModelYear :: "string \<Rightarrow> int \<Rightarrow> int option" where
  "vinModelYear vin referenceYear =
     (if length vin \<le> 9 then None
      else case indexOf YEAR_CODES (vin ! 9) of
             None \<Rightarrow> None
           | Some index \<Rightarrow>
               (let latest = referenceYear + 1
                in Some (latest - jsRem (latest - (1980 + int index)) 30)))"

definition rejected :: "VinRejection \<Rightarrow> VinNormalization" where
  "rejected why = \<lparr>vn_vin = None, vn_rejection = Some why, vn_checkDigitValid = False,
     vn_modelYear = None, vn_wmi = None\<rparr>"

definition normalizeVin :: "jsval \<Rightarrow> int \<Rightarrow> VinNormalization" where
  "normalizeVin raw referenceYear =
     (if \<not> isString raw \<or> blank (stringOf raw) then rejected VR_empty
      else
        (let candidate = normalizeVinInput (stringOf raw) in
         if length candidate \<noteq> VIN_LENGTH then rejected VR_wrong_length
         else if list_ex (\<lambda>c. c \<in> set ''IOQ'') candidate then rejected VR_excluded_letter
         else if \<not> VIN_PATTERN candidate then rejected VR_illegal_character
         else \<lparr>vn_vin = Some candidate, vn_rejection = None,
               vn_checkDigitValid = (vinCheckCharacter candidate = Some (candidate ! 8)),
               vn_modelYear = vinModelYear candidate referenceYear,
               vn_wmi = Some (take 3 candidate)\<rparr>))"

section \<open>Characters\<close>

text \<open>What every VIN character satisfies, by inspection of the 33 of them.\<close>

definition vinAlphabet :: string where
  "vinAlphabet = ''ABCDEFGHJKLMNPRSTUVWXYZ0123456789''"

lemma isVinChar_alphabet: "isVinChar c \<longleftrightarrow> c \<in> set vinAlphabet"
proof
  let ?codes = "{65..72} \<union> {74..78} \<union> {80} \<union> {82..90} \<union> {48..57} :: nat set"
  assume "isVinChar c"
  then have "of_char c \<in> ?codes"
    unfolding isVinChar_def isDigit_def Let_def by auto
  then have "char_of (of_char c :: nat) \<in> (char_of :: nat \<Rightarrow> char) ` ?codes"
    by blast
  moreover have "(char_of :: nat \<Rightarrow> char) ` ?codes \<subseteq> set vinAlphabet"
    by code_simp
  ultimately show "c \<in> set vinAlphabet" by auto
next
  have "list_all isVinChar vinAlphabet" by code_simp
  then show "c \<in> set vinAlphabet \<Longrightarrow> isVinChar c" by (simp add: list_all_iff)
qed

lemma vinChar_facts:
  assumes "isVinChar c"
  shows "\<exists>v. charValue c = Some v \<and> v < 10" and "\<not> isSpace c" and "c \<noteq> CHR ''-''"
    and "toUpperChars c = [c]" and "c \<notin> set ''IOQ''"
proof -
  have "list_all (\<lambda>c. (case charValue c of Some v \<Rightarrow> v < 10 | None \<Rightarrow> False) \<and> \<not> isSpace c \<and> c \<noteq> CHR ''-''
      \<and> toUpperChars c = [c] \<and> c \<notin> set ''IOQ'') vinAlphabet"
    by code_simp
  with assms show "\<exists>v. charValue c = Some v \<and> v < 10" "\<not> isSpace c" "c \<noteq> CHR ''-''"
    "toUpperChars c = [c]" "c \<notin> set ''IOQ''"
    by (auto simp: isVinChar_alphabet list_all_iff split: option.splits)
qed

lemma normalizeVinInput_vin: "list_all isVinChar s \<Longrightarrow> normalizeVinInput s = s"
  by (induction s) (simp_all add: normalizeVinInput_def vinChar_facts)

lemma blank_vin: "VIN_PATTERN s \<Longrightarrow> \<not> blank s"
  by (cases s) (auto simp: VIN_PATTERN_def blank_def dest: vinChar_facts(2))

lemma normalizeVin_Some:
  "vn_vin (normalizeVin raw y) = Some v \<longleftrightarrow>
   (\<exists>s. raw = JStr s \<and> \<not> blank s \<and> v = normalizeVinInput s \<and> VIN_PATTERN v)"
proof -
  have "\<not> list_ex (\<lambda>c. c \<in> set ''IOQ'') s" if "VIN_PATTERN s" for s
    using that vinChar_facts(5) by (fastforce simp: VIN_PATTERN_def list_ex_iff list_all_iff)
  then show ?thesis
    by (cases raw) (auto simp: normalizeVin_def rejected_def Let_def VIN_LENGTH_def VIN_PATTERN_def)
qed

section \<open>The weighted sum\<close>

text \<open>What the loop adds up, as a sum over positions.\<close>

definition weightOf :: "string \<Rightarrow> nat list \<Rightarrow> nat" where
  "weightOf s ws = sum_list (map2 (\<lambda>ch w. the (charValue ch) * w) s ws)"

lemma weighFrom_sum:
  "list_all isVinChar s \<Longrightarrow> length s = length ws \<Longrightarrow> weighFrom s ws tot = Some (tot + weightOf s ws)"
proof (induction s ws tot rule: weighFrom.induct)
  case (3 ch rest w ws tot)
  obtain v where "charValue ch = Some v" using 3(2) vinChar_facts(1) by auto
  with 3 show ?case by (simp add: weightOf_def)
qed (simp_all add: weightOf_def)

lemma vinCheckCharacter_sum:
  "VIN_PATTERN s \<Longrightarrow>
   vinCheckCharacter s =
     Some (let r = weightOf s WEIGHTS mod 11 in if r = 10 then CHR ''X'' else char_of (48 + r))"
  by (simp add: vinCheckCharacter_def VIN_PATTERN_def weighFrom_sum WEIGHTS_def Let_def)

lemma checkChar_inj:
  assumes "(let r = m mod (11::nat) in if r = 10 then CHR ''X'' else char_of (48 + r)) =
           (let r = n mod 11 in if r = 10 then CHR ''X'' else char_of (48 + r))"
  shows "m mod 11 = n mod 11"
proof -
  have "\<forall>a \<in> set [0..<11]. \<forall>b \<in> set [0..<11].
      (if a = 10 then CHR ''X'' else char_of (48 + a)) =
      (if b = 10 then CHR ''X'' else char_of (48 + (b::nat))) \<longrightarrow> a = b"
    by code_simp
  moreover have "m mod 11 \<in> set [0..<11]" "n mod 11 \<in> set [0..<11]" by simp_all
  ultimately show ?thesis using assms unfolding Let_def by blast
qed

lemma vinCheckCharacter_eq:
  "VIN_PATTERN s \<Longrightarrow> VIN_PATTERN t \<Longrightarrow>
   vinCheckCharacter s = vinCheckCharacter t \<longleftrightarrow> weightOf s WEIGHTS mod 11 = weightOf t WEIGHTS mod 11"
  by (auto simp: vinCheckCharacter_sum dest: checkChar_inj)

lemma weightOf_update:
  "i < length s \<Longrightarrow> length s = length ws \<Longrightarrow>
   int (weightOf (s[i := c]) ws) =
     int (weightOf s ws) + (int (the (charValue c)) - int (the (charValue (s ! i)))) * int (ws ! i)"
proof (induction s arbitrary: i ws)
  case (Cons a s)
  obtain w ws' where ws: "ws = w # ws'" using Cons.prems(2) by (cases ws) auto
  show ?case
  proof (cases i)
    case (Suc j)
    with Cons.IH [of j ws'] Cons.prems ws show ?thesis by (simp add: weightOf_def)
  qed (simp add: weightOf_def ws algebra_simps)
qed simp

lemma VIN_PATTERN_update: "VIN_PATTERN s \<Longrightarrow> isVinChar c \<Longrightarrow> VIN_PATTERN (s[i := c])"
  by (auto simp: VIN_PATTERN_def list_all_iff dest!: set_update_subset_insert [THEN subsetD])

lemma no_multiple_of_11:
  fixes d w :: int
  assumes "\<bar>d\<bar> < 11" "d \<noteq> 0" "\<bar>w\<bar> < 11" "w \<noteq> 0"
  shows "\<not> 11 dvd d * w"
proof -
  have "\<forall>d \<in> set [-10..10]. \<forall>w \<in> set [-10..10]. d \<noteq> 0 \<longrightarrow> w \<noteq> 0 \<longrightarrow> d * w mod 11 \<noteq> (0::int)"
    by code_simp
  moreover from assms have "d \<in> set [-10..10]" "w \<in> set [-10..10]"
    unfolding set_upto by auto
  ultimately show ?thesis using assms by (meson dvd_imp_mod_0)
qed

lemma weight_range: "i < 17 \<Longrightarrow> i \<noteq> 8 \<Longrightarrow> 0 < WEIGHTS ! i \<and> WEIGHTS ! i < 11"
proof -
  have "\<forall>i \<in> set [0..<17]. i \<noteq> 8 \<longrightarrow> 0 < WEIGHTS ! i \<and> WEIGHTS ! i < 11" by code_simp
  then show "i < 17 \<Longrightarrow> i \<noteq> 8 \<Longrightarrow> ?thesis" by simp
qed

lemma neighbour_weights:
  "i < 16 \<Longrightarrow> i \<noteq> 7 \<Longrightarrow> i \<noteq> 8 \<Longrightarrow> WEIGHTS ! i \<noteq> WEIGHTS ! Suc i"
proof -
  have "\<forall>i \<in> set [0..<16]. i \<noteq> 7 \<longrightarrow> i \<noteq> 8 \<longrightarrow> WEIGHTS ! i \<noteq> WEIGHTS ! Suc i" by code_simp
  then show "i < 16 \<Longrightarrow> i \<noteq> 7 \<Longrightarrow> i \<noteq> 8 \<Longrightarrow> ?thesis" by simp
qed

lemma same_residue_dvd:
  "(m :: nat) mod 11 = n mod 11 \<Longrightarrow> int n = int m + k \<Longrightarrow> (11::int) dvd k"
  by (metis add_diff_cancel_left' mod_eq_dvd_iff of_nat_mod of_nat_numeral)

lemma VIN_weights: "VIN_PATTERN s \<Longrightarrow> length s = length WEIGHTS"
  by (simp add: VIN_PATTERN_def WEIGHTS_def)

lemma VIN_value: "VIN_PATTERN s \<Longrightarrow> i < 17 \<Longrightarrow> the (charValue (s ! i)) < 10"
  using vinChar_facts(1) [of "s ! i"] by (auto simp: VIN_PATTERN_def list_all_length)

lemma digit_gap: "a < 10 \<Longrightarrow> b < 10 \<Longrightarrow> \<bar>int a - int b\<bar> < 11"
  by linarith

section \<open>What a VIN check promises\<close>

text \<open>
  C38. The entry point returns a VIN exactly in canonical form, and asking again about what it
  returned changes nothing: an accepted VIN has 17 characters of the standard's alphabet, its
  check character can be computed, and normalizing it gives the same answer in every field.
\<close>

theorem normalizeVin_canonical:
  assumes "vn_vin (normalizeVin raw y) = Some v"
  shows "VIN_PATTERN v \<and> vinCheckCharacter v \<noteq> None \<and> normalizeVin (JStr v) y = normalizeVin raw y"
proof -
  from assms obtain s where s: "raw = JStr s" "\<not> blank s" "v = normalizeVinInput s" and v: "VIN_PATTERN v"
    by (auto simp: normalizeVin_Some)
  have "normalizeVinInput v = v" using v by (simp add: VIN_PATTERN_def normalizeVinInput_vin)
  then have "normalizeVin (JStr v) y = normalizeVin raw y"
    using s blank_vin [OF v] by (simp add: normalizeVin_def)
  with v show ?thesis by (simp add: vinCheckCharacter_sum)
qed

theorem normalizeVin_canonical_witness:
  "vn_vin (normalizeVin (JStr ''1m8-gdm9a xkp042788'') 2026) = Some ''1M8GDM9AXKP042788'' \<and>
   normalizeVin (JStr ''1M8GDM9AXKP042788'') 2026 = normalizeVin (JStr ''1m8-gdm9a xkp042788'') 2026"
proof -
  have "vn_vin (normalizeVin (JStr ''1m8-gdm9a xkp042788'') 2026) = Some ''1M8GDM9AXKP042788''"
    by code_simp
  with normalizeVin_canonical [OF this] show ?thesis by blast
qed

text \<open>
  The check character catches every misread character: two well-formed VINs that differ
  in one position other than the ninth, by characters of different value, do not have the
  same check character.
\<close>

theorem check_catches_substitution:
  assumes "VIN_PATTERN vin" and "isVinChar c" and "i < 17" and "i \<noteq> 8"
    and "charValue c \<noteq> charValue (vin ! i)"
  shows "vinCheckCharacter (vin[i := c]) \<noteq> vinCheckCharacter vin"
proof
  assume "vinCheckCharacter (vin[i := c]) = vinCheckCharacter vin"
  with assms(1,2) have "weightOf vin WEIGHTS mod 11 = weightOf (vin[i := c]) WEIGHTS mod 11"
    by (simp add: vinCheckCharacter_eq VIN_PATTERN_update)
  moreover have "i < length vin" using assms(1,3) by (simp add: VIN_PATTERN_def)
  ultimately have "11 dvd (int (the (charValue c)) - int (the (charValue (vin ! i)))) * int (WEIGHTS ! i)"
    using weightOf_update [OF _ VIN_weights [OF assms(1)]] same_residue_dvd by metis
  moreover obtain a where "charValue c = Some a" "a < 10" using vinChar_facts(1) [OF assms(2)] by blast
  moreover obtain b where "charValue (vin ! i) = Some b" "b < 10"
    using vinChar_facts(1) [of "vin ! i"] assms(1,3) by (auto simp: VIN_PATTERN_def list_all_length)
  ultimately show False
    using no_multiple_of_11 [of "int a - int b" "int (WEIGHTS ! i)"] weight_range [OF assms(3,4)] assms(5)
      digit_gap [of a b] by simp
qed

theorem check_catches_substitution_witness:
  "vinCheckCharacter (''1M8GDM9AXKP042788''[0 := CHR ''4'']) \<noteq> vinCheckCharacter ''1M8GDM9AXKP042788''"
  by (rule check_catches_substitution) code_simp+

text \<open>
  The check character catches a transposition: swapping two neighbouring characters of
  different value, neither of them the ninth, changes it.
\<close>

theorem check_catches_transposition:
  assumes "VIN_PATTERN vin" and "i < 16" and "i \<noteq> 7" and "i \<noteq> 8"
    and "charValue (vin ! i) \<noteq> charValue (vin ! Suc i)"
  shows "vinCheckCharacter (vin[i := vin ! Suc i, Suc i := vin ! i]) \<noteq> vinCheckCharacter vin"
proof
  let ?v = "vin[i := vin ! Suc i]" and ?w = "vin[i := vin ! Suc i, Suc i := vin ! i]"
  have len: "length vin = 17" using assms(1) by (simp add: VIN_PATTERN_def)
  have chars: "isVinChar (vin ! i)" "isVinChar (vin ! Suc i)"
    using assms(1,2) len by (auto simp: VIN_PATTERN_def list_all_length)
  then have v: "VIN_PATTERN ?v" and w: "VIN_PATTERN ?w" using assms(1) by (simp_all add: VIN_PATTERN_update)
  obtain a where a: "charValue (vin ! i) = Some a" "a < 10" using vinChar_facts(1) [OF chars(1)] by blast
  obtain b where b: "charValue (vin ! Suc i) = Some b" "b < 10" using vinChar_facts(1) [OF chars(2)] by blast
  have "int (weightOf ?w WEIGHTS) = int (weightOf vin WEIGHTS) +
      (int b - int a) * (int (WEIGHTS ! i) - int (WEIGHTS ! Suc i))"
    using weightOf_update [OF _ VIN_weights [OF assms(1)], of i "vin ! Suc i"]
      weightOf_update [OF _ VIN_weights [OF v], of "Suc i" "vin ! i"] assms(2) len a(1) b(1)
    by (simp add: algebra_simps)
  moreover assume "vinCheckCharacter ?w = vinCheckCharacter vin"
  ultimately have "11 dvd (int b - int a) * (int (WEIGHTS ! i) - int (WEIGHTS ! Suc i))"
    using vinCheckCharacter_eq [OF w assms(1)] same_residue_dvd by metis
  moreover have "int (WEIGHTS ! i) - int (WEIGHTS ! Suc i) \<noteq> 0"
    using neighbour_weights [OF assms(2-4)] by simp
  moreover have "\<bar>int (WEIGHTS ! i) - int (WEIGHTS ! Suc i)\<bar> < 11"
    using weight_range [of i] weight_range [of "Suc i"] assms(2-4) by auto
  ultimately show False
    using no_multiple_of_11 [of "int b - int a"] digit_gap [OF b(2) a(2)] assms(5) a(1) b(1) by auto
qed

theorem check_catches_transposition_witness:
  "vinCheckCharacter (''1M8GDM9AXKP042788''[14 := CHR ''8'', Suc 14 := CHR ''7''])
     \<noteq> vinCheckCharacter ''1M8GDM9AXKP042788''"
proof -
  have "''1M8GDM9AXKP042788'' ! Suc 14 = CHR ''8''" "''1M8GDM9AXKP042788'' ! 14 = CHR ''7''"
    by code_simp+
  then show ?thesis
    using check_catches_transposition [of "''1M8GDM9AXKP042788''" 14] by code_simp
qed

lemma indexOf_Some: "indexOf xs x = Some i \<Longrightarrow> i < length xs \<and> xs ! i = x"
  by (induction xs arbitrary: i) (auto split: if_splits)

text \<open>
  For any reference year of this century from 2008 on, the model year read off the tenth
  character is the one year of the thirty that end with next year's models whose code that
  character is.
\<close>

theorem vinModelYear_window:
  assumes "vinModelYear vin y = Some m" and "2008 \<le> y"
  shows "y + 1 - 30 < m \<and> m \<le> y + 1 \<and> YEAR_CODES ! nat ((m - 1980) mod 30) = vin ! 9"
proof -
  from assms(1) obtain i where i: "indexOf YEAR_CODES (vin ! 9) = Some i"
    and m: "m = y + 1 - jsRem (y + 1 - (1980 + int i)) 30"
    by (auto simp: vinModelYear_def Let_def split: if_splits option.splits)
  have "i < 30" "YEAR_CODES ! i = vin ! 9"
    using indexOf_Some [OF i] by (simp_all add: YEAR_CODES_def)
  moreover have "m = y + 1 - (y - 1979 - int i) mod 30"
    using m assms(2) \<open>i < 30\<close> by (simp add: jsRem_def algebra_simps)
  moreover have "(m - 1980) mod 30 = int i"
  proof -
    have "m - 1980 = y - 1979 - (y - 1979 - int i) mod 30"
      using \<open>m = y + 1 - (y - 1979 - int i) mod 30\<close> by simp
    then have "(m - 1980) mod 30 = (y - 1979 - (y - 1979 - int i)) mod 30"
      by (simp only: mod_diff_right_eq)
    then show ?thesis using \<open>i < 30\<close> by simp
  qed
  ultimately show ?thesis by simp
qed

theorem vinModelYear_window_witness:
  "vinModelYear ''1M8GDM9AXTP042788'' 2026 = Some 2026 \<and> YEAR_CODES ! nat ((2026 - 1980) mod 30) = CHR ''T''"
proof -
  have "vinModelYear ''1M8GDM9AXTP042788'' 2026 = Some 2026" by code_simp
  with vinModelYear_window [OF this] show ?thesis by simp
qed

end
