(* ===== verification/DeskMoney.thy ===== *)
theory DeskMoney
  imports JsValues "HOL-Library.Multiset" "HOL-Library.Char_ord" "HOL-Library.List_Lexorder"
begin

text \<open>
  The desk's arithmetic (packages/desking/src/money.ts).  Every figure there is a JavaScript
  \<open>bigint\<close>, that is an unbounded integer, so \<open>int\<close> is its exact model; \<open>bigint\<close> division
  truncates, which is \<open>div\<close> on the non-negative operands the code divides.  The order on
  strings is by character code, as \<open><\<close> compares strings in JavaScript.
\<close>

section \<open>Rounding and rates\<close>

datatype desk_error = RangeError string | TypeError string

type_synonym 'a desk = "desk_error + 'a"

definition PPM :: int where
  "PPM = 1000000"

definition PAYMENT_SCALE :: int where
  "PAYMENT_SCALE = 1000000000000"

definition roundHalfAway :: "int \<Rightarrow> int \<Rightarrow> int" where
  "roundHalfAway dividend divisor =
     (let magnitude = (if dividend < 0 then - dividend else dividend);
          rounded = (magnitude * 2 + divisor) div (divisor * 2)
      in if dividend < 0 then - rounded else rounded)"

definition roundDiv :: "int \<Rightarrow> int \<Rightarrow> int desk" where
  "roundDiv dividend divisor =
     (if divisor \<le> 0 then Inl (RangeError ''roundDiv'') else Inr (roundHalfAway dividend divisor))"

text \<open>The divisor is a positive constant here, so the guard of \<open>roundDiv\<close> never fires.\<close>

definition applyRate :: "int \<Rightarrow> int \<Rightarrow> int" where
  "applyRate amountCents ratePpm = roundHalfAway (amountCents * ratePpm) PPM"

lemma applyRate_roundDiv: "roundDiv (a * r) PPM = Inr (applyRate a r)"
  by (simp add: roundDiv_def applyRate_def PPM_def)

section \<open>The monthly payment\<close>

fun growthLoop :: "int \<Rightarrow> nat \<Rightarrow> int" where
  "growthLoop onePlusR 0 = PAYMENT_SCALE"
| "growthLoop onePlusR (Suc i) = (growthLoop onePlusR i * onePlusR) div PAYMENT_SCALE"

fun wholeMonths :: "jsnum \<Rightarrow> int option" where
  "wholeMonths (Fin q) = (if of_int \<lfloor>q\<rfloor> = q \<and> \<not> q < 1 \<and> \<not> q > 120 then Some \<lfloor>q\<rfloor> else None)"
| "wholeMonths _ = None"

definition payment :: "int \<Rightarrow> int \<Rightarrow> int \<Rightarrow> int" where
  "payment amountFinancedCents n aprPpm =
     (if amountFinancedCents \<le> 0 then 0
      else if aprPpm = 0 then roundHalfAway amountFinancedCents n
      else
        (let r = roundHalfAway (aprPpm * PAYMENT_SCALE) (PPM * 12) in
         if r = 0 then roundHalfAway amountFinancedCents n
         else
           (let growth = growthLoop (PAYMENT_SCALE + r) (nat n);
                denominator = growth - PAYMENT_SCALE
            in if denominator \<le> 0 then roundHalfAway amountFinancedCents n
               else roundHalfAway (amountFinancedCents * r * growth) (denominator * PAYMENT_SCALE))))"

definition monthlyPayment :: "int \<Rightarrow> jsnum \<Rightarrow> int \<Rightarrow> int desk" where
  "monthlyPayment amountFinancedCents termMonths aprPpm =
     (case wholeMonths termMonths of
        None \<Rightarrow> Inl (RangeError ''monthlyPayment: term'')
      | Some n \<Rightarrow>
          if aprPpm < 0 then Inl (RangeError ''monthlyPayment: rate'')
          else Inr (payment amountFinancedCents n aprPpm))"

section \<open>Decimal text\<close>

definition digitChar :: "nat \<Rightarrow> char" where
  "digitChar d = char_of (48 + d)"

fun natText :: "nat \<Rightarrow> string" where
  "natText n = (if n < 10 then [digitChar n] else natText (n div 10) @ [digitChar (n mod 10)])"

declare natText.simps [simp del]

definition intText :: "int \<Rightarrow> string" where
  "intText i = (if i < 0 then ''-'' @ natText (nat (- i)) else natText (nat i))"

definition isDecDigit :: "char \<Rightarrow> bool" where
  "isDecDigit c = (48 \<le> (of_char c :: nat) \<and> (of_char c :: nat) \<le> 57)"

definition readNat :: "string \<Rightarrow> nat" where
  "readNat s = foldl (\<lambda>acc c. acc * 10 + (of_char c - 48)) 0 s"

definition allDigits :: "string \<Rightarrow> bool" where
  "allDigits s = (s \<noteq> [] \<and> list_all isDecDigit s)"

text \<open>\<open>BigInt(value)\<close> on a string that matches an optional minus sign and digits.\<close>

fun readDecimal :: "string \<Rightarrow> int option" where
  "readDecimal (c # cs) =
     (if c = CHR ''-'' then (if allDigits cs then Some (- int (readNat cs)) else None)
      else if allDigits (c # cs) then Some (int (readNat (c # cs))) else None)"
| "readDecimal [] = None"

text \<open>The values \<open>toCents\<close> distinguishes: a bigint, or any other JavaScript value.\<close>

datatype amount = BigInt int | Plain jsval

fun isSafeInteger :: "jsnum \<Rightarrow> bool" where
  "isSafeInteger (Fin q) = (of_int \<lfloor>q\<rfloor> = q \<and> \<bar>q\<bar> \<le> 9007199254740991)"
| "isSafeInteger _ = False"

fun toCents :: "amount \<Rightarrow> int desk" where
  "toCents (BigInt i) = Inr i"
| "toCents (Plain (JNum (Fin q))) =
     (if isSafeInteger (Fin q) then Inr \<lfloor>q\<rfloor> else Inl (TypeError ''toCents: not a safe integer''))"
| "toCents (Plain (JNum _)) = Inl (TypeError ''toCents: not a safe integer'')"
| "toCents (Plain (JStr s)) =
     (case readDecimal s of Some i \<Rightarrow> Inr i | None \<Rightarrow> Inl (TypeError ''toCents: not an integer amount''))"
| "toCents (Plain _) = Inl (TypeError ''toCents: not an integer amount'')"

definition padStart2 :: "string \<Rightarrow> string" where
  "padStart2 s = replicate (2 - length s) (CHR ''0'') @ s"

definition formatCents :: "int \<Rightarrow> string" where
  "formatCents cents =
     (let magnitude = (if cents < 0 then - cents else cents) in
      (if cents < 0 then ''-'' else '''') @ intText (magnitude div 100) @ ''.''
        @ padStart2 (intText (magnitude mod 100)))"

section \<open>Facts about rounding\<close>

lemma roundHalfAway_minus: "roundHalfAway (- a) d = - roundHalfAway a d" if "d > 0"
  using that by (auto simp: roundHalfAway_def Let_def)

lemma div_unique_bounds:
  fixes a d q :: int
  assumes "d > 0"
  shows "a div d = q \<longleftrightarrow> q * d \<le> a \<and> a < (q + 1) * d"
proof
  show "a div d = q \<Longrightarrow> q * d \<le> a \<and> a < (q + 1) * d"
    using assms by (metis add.commute div_mult_mod_eq distrib_right le_add_same_cancel1 mult_1
        pos_mod_bound pos_mod_sign add_less_cancel_left)
  assume "q * d \<le> a \<and> a < (q + 1) * d"
  then have "a - q * d \<ge> 0" "a - q * d < d" by (simp_all add: distrib_right)
  then have "(a - q * d) div d = 0" using assms by simp
  then show "a div d = q" using assms div_mult_self1 [of d "a - q * d" q] by simp
qed

lemma roundHalfAway_nonneg:
  assumes "d > 0" "a \<ge> 0"
  shows "roundHalfAway a d = q \<longleftrightarrow> 2 * (q * d - a) \<le> d \<and> 2 * (a - q * d) < d"
proof -
  have "roundHalfAway a d = (a * 2 + d) div (d * 2)"
    using assms by (simp add: roundHalfAway_def Let_def)
  then show ?thesis
    using div_unique_bounds [of "d * 2" "a * 2 + d" q] assms by (auto simp: algebra_simps)
qed

text \<open>The nearest multiple, ties away from zero: the specification the code is held to.\<close>

definition nearest :: "int \<Rightarrow> int \<Rightarrow> int \<Rightarrow> bool" where
  "nearest a d q = (2 * \<bar>q * d - a\<bar> \<le> d \<and> (2 * \<bar>q * d - a\<bar> = d \<longrightarrow> \<bar>a\<bar> < \<bar>q * d\<bar>))"

lemma nearest_minus: "nearest (- a) d (- q) = nearest a d q"
proof -
  have "\<bar>- q * d - - a\<bar> = \<bar>q * d - a\<bar>" by simp
  then show ?thesis by (simp add: nearest_def)
qed

lemma roundHalfAway_nearest_nonneg:
  assumes d: "d > 0" and a: "a \<ge> 0"
  shows "roundHalfAway a d = q \<longleftrightarrow> nearest a d q"
proof -
  have below: "2 * (a - q * d) < d" if "nearest a d q"
  proof (rule ccontr)
    assume "\<not> 2 * (a - q * d) < d"
    moreover have abs_rule: "2 * \<bar>x\<bar> \<le> d \<Longrightarrow> \<not> - 2 * x < d \<Longrightarrow> - 2 * x = d \<and> 2 * \<bar>x\<bar> = d" for x :: int
      using d by linarith
    ultimately have "- 2 * (q * d - a) = d \<and> 2 * \<bar>q * d - a\<bar> = d"
      using that by (intro abs_rule) (simp_all add: nearest_def)
    then have tie: "2 * (a - q * d) = d" "\<bar>a\<bar> < \<bar>q * d\<bar>"
      using that by (simp_all add: nearest_def)
    show False
    proof (cases "q \<ge> 0")
      case True
      with tie d a show False by (auto simp: abs_of_nonneg)
    next
      case False
      then have "q * d \<le> - 1 * d" using d by (intro mult_right_mono) auto
      with tie d a show False by auto
    qed
  qed
  have "nearest a d q" if "2 * (q * d - a) \<le> d" "2 * (a - q * d) < d"
    using that a d by (auto simp: nearest_def abs_if)
  with below show ?thesis
    unfolding roundHalfAway_nonneg [OF d a] by (auto simp: nearest_def abs_if split: if_splits)
qed

lemma roundHalfAway_nearest: "d > 0 \<Longrightarrow> roundHalfAway a d = q \<longleftrightarrow> nearest a d q"
  using roundHalfAway_nearest_nonneg [of d a q] roundHalfAway_nearest_nonneg [of d "- a" "- q"]
    roundHalfAway_minus [of d a] nearest_minus [of a d q]
  by (cases "a \<ge> 0") auto

text \<open>
  C25. Rounding is exact to the cent: for every dividend, of either sign, \<open>roundDiv\<close> answers
  with the nearest whole number, the one further from zero on a tie, and with nothing else;
  it refuses exactly the divisors that are not positive.
\<close>

theorem roundDiv_nearest: "roundDiv a d = Inr q \<longleftrightarrow> d > 0 \<and> nearest a d q"
  using roundHalfAway_nearest [of d a q] by (auto simp: roundDiv_def)

lemma div_times_le: "d > 0 \<Longrightarrow> a div d * d \<le> (a :: int)"
  using div_unique_bounds by blast

lemma div_mono_ratio:
  fixes a b d e :: int
  assumes "d > 0" "e > 0" "a * e \<le> b * d"
  shows "a div d \<le> b div e"
proof -
  have "(a div d) * e * d \<le> a * e"
    using mult_right_mono [of "(a div d) * d" a e] div_times_le [OF assms(1), of a] assms(2)
    by (simp add: algebra_simps)
  with assms have "(a div d) * e * d \<le> b * d" by linarith
  with assms(1) have "(a div d) * e \<le> b" by (simp add: mult_le_cancel_right)
  then have "(a div d) * e div e \<le> b div e" using assms(2) by (intro zdiv_mono1)
  with assms(2) show ?thesis by simp
qed

lemma roundHalfAway_mono_ratio:
  assumes "d > 0" "e > 0" "0 \<le> a" "0 \<le> b" "a * e \<le> b * d"
  shows "roundHalfAway a d \<le> roundHalfAway b e"
proof -
  have "(a * 2 + d) * (e * 2) \<le> (b * 2 + e) * (d * 2)"
    using assms(5) by (simp add: algebra_simps)
  then have "(a * 2 + d) div (d * 2) \<le> (b * 2 + e) div (e * 2)"
    using assms by (intro div_mono_ratio) auto
  with assms show ?thesis by (simp add: roundHalfAway_def Let_def)
qed

section \<open>Facts about the payment\<close>

lemma growth_step:
  assumes "r \<ge> 0" "growthLoop (PAYMENT_SCALE + r) k \<ge> 0"
  shows "growthLoop (PAYMENT_SCALE + r) k \<le> growthLoop (PAYMENT_SCALE + r) (Suc k)"
    and "PAYMENT_SCALE * growthLoop (PAYMENT_SCALE + r) (Suc k) \<le>
           growthLoop (PAYMENT_SCALE + r) k * (PAYMENT_SCALE + r)"
proof -
  let ?g = "growthLoop (PAYMENT_SCALE + r) k"
  have S: "PAYMENT_SCALE > 0" by (simp add: PAYMENT_SCALE_def)
  have "?g * PAYMENT_SCALE div PAYMENT_SCALE \<le> ?g * (PAYMENT_SCALE + r) div PAYMENT_SCALE"
    using S assms by (intro zdiv_mono1) (simp_all add: distrib_left)
  with S show "?g \<le> growthLoop (PAYMENT_SCALE + r) (Suc k)" by simp
  show "PAYMENT_SCALE * growthLoop (PAYMENT_SCALE + r) (Suc k) \<le> ?g * (PAYMENT_SCALE + r)"
    using div_times_le [OF S, of "?g * (PAYMENT_SCALE + r)"] by (simp add: mult.commute)
qed

lemma growth_pos: "r \<ge> 0 \<Longrightarrow> PAYMENT_SCALE \<le> growthLoop (PAYMENT_SCALE + r) k"
proof (induction k)
  case (Suc k)
  then have "0 \<le> growthLoop (PAYMENT_SCALE + r) k" by (simp add: PAYMENT_SCALE_def)
  from growth_step(1) [OF Suc.prems this] Suc show ?case by linarith
qed simp

lemma growth_mono: "r \<ge> 0 \<Longrightarrow> growthLoop (PAYMENT_SCALE + r) k \<le> growthLoop (PAYMENT_SCALE + r) (Suc k)"
  by (rule growth_step(1)) (use growth_pos [of r k] in \<open>simp_all add: PAYMENT_SCALE_def\<close>)

lemma growth_exceeds: "r > 0 \<Longrightarrow> k \<ge> 1 \<Longrightarrow> PAYMENT_SCALE < growthLoop (PAYMENT_SCALE + r) k"
proof (induction k)
  case (Suc k)
  have "growthLoop (PAYMENT_SCALE + r) k \<le> growthLoop (PAYMENT_SCALE + r) (Suc k)"
    using growth_mono Suc.prems by simp
  then show ?case using Suc by (cases k) (simp_all add: PAYMENT_SCALE_def)
qed simp

text \<open>Compound growth never outruns the interest that \<open>k\<close> months on the grown balance would bear.\<close>

lemma growth_bound:
  assumes "r \<ge> 0"
  shows "PAYMENT_SCALE * (growthLoop (PAYMENT_SCALE + r) k - PAYMENT_SCALE) \<le>
           int k * r * growthLoop (PAYMENT_SCALE + r) k"
proof (induction k)
  case (Suc k)
  let ?S = PAYMENT_SCALE and ?g = "growthLoop (PAYMENT_SCALE + r) k"
    and ?h = "growthLoop (PAYMENT_SCALE + r) (Suc k)"
  have "?g \<ge> 0" using growth_pos [OF assms, of k] by (simp add: PAYMENT_SCALE_def)
  then have "?S * ?h \<le> ?g * (?S + r)" by (rule growth_step(2) [OF assms])
  then have "?S * (?h - ?S) \<le> ?S * (?g - ?S) + r * ?g" by (simp add: algebra_simps)
  also have "\<dots> \<le> int (Suc k) * r * ?g" using Suc by (simp add: algebra_simps)
  also have "\<dots> \<le> int (Suc k) * r * ?h"
    using growth_mono [OF assms, of k] assms by (intro mult_left_mono) auto
  finally show ?case .
qed simp

lemma wholeMonths_range:
  assumes "wholeMonths t = Some n"
  shows "1 \<le> n \<and> n \<le> 120"
proof (cases t)
  case (Fin q)
  with assms have q: "q = of_int n" "\<not> q < 1" "\<not> q > 120" by (auto split: if_splits)
  then have "(1::rat) \<le> of_int n" "(of_int n :: rat) \<le> 120" by auto
  then show ?thesis by linarith
qed (use assms in auto)

lemma roundHalfAway_ge0: "d > 0 \<Longrightarrow> a \<ge> 0 \<Longrightarrow> roundHalfAway a d \<ge> 0"
  by (simp add: roundHalfAway_def Let_def pos_imp_zdiv_nonneg_iff)

text \<open>The two shapes of a payment on a positive balance: interest-free, and the annuity.\<close>

lemma payment_cases:
  assumes "apr \<ge> 0" "n \<ge> 1"
  obtains "\<And>Q. Q > 0 \<Longrightarrow> payment Q n apr = roundHalfAway Q n"
  | r g where "r > 0" "g > PAYMENT_SCALE" "PAYMENT_SCALE * (g - PAYMENT_SCALE) \<le> n * r * g"
      "\<And>Q. Q > 0 \<Longrightarrow> payment Q n apr = roundHalfAway (Q * r * g) ((g - PAYMENT_SCALE) * PAYMENT_SCALE)"
proof -
  let ?r = "roundHalfAway (apr * PAYMENT_SCALE) (PPM * 12)"
  let ?g = "growthLoop (PAYMENT_SCALE + ?r) (nat n)"
  have r: "?r \<ge> 0" using assms(1) by (intro roundHalfAway_ge0) (simp_all add: PPM_def PAYMENT_SCALE_def)
  show thesis
  proof (cases "apr = 0 \<or> ?r = 0")
    case True
    then have "payment Q n apr = roundHalfAway Q n" if "Q > 0" for Q
      using that by (auto simp: payment_def Let_def)
    then show thesis by (rule that(1))
  next
    case False
    with r have r0: "?r > 0" by auto
    then have g: "?g > PAYMENT_SCALE" using assms(2) by (intro growth_exceeds) auto
    have "PAYMENT_SCALE * (?g - PAYMENT_SCALE) \<le> n * ?r * ?g"
      using growth_bound [OF r, of "nat n"] assms(2) by simp
    with r0 g show thesis by (rule that(2)) (use False g in \<open>simp add: payment_def Let_def\<close>)
  qed
qed

lemma PAYMENT_SCALE_pos: "PAYMENT_SCALE > 0"
  by (simp add: PAYMENT_SCALE_def)

lemma payment_covers:
  assumes "P > 0" "apr \<ge> 0" "n \<ge> 1"
  shows "roundHalfAway P n \<le> payment P n apr"
  using assms(2,3)
proof (cases rule: payment_cases [case_names free annuity])
  case (annuity r g)
  have "P * (PAYMENT_SCALE * (g - PAYMENT_SCALE)) \<le> P * (n * r * g)"
    using annuity(3) assms(1) by (intro mult_left_mono) auto
  then have "P * ((g - PAYMENT_SCALE) * PAYMENT_SCALE) \<le> P * r * g * n" by (simp add: algebra_simps)
  moreover have "0 \<le> P * r * g" using annuity(1,2) PAYMENT_SCALE_pos assms(1) by simp
  ultimately have "roundHalfAway P n \<le> roundHalfAway (P * r * g) ((g - PAYMENT_SCALE) * PAYMENT_SCALE)"
    using annuity(2) PAYMENT_SCALE_pos assms by (intro roundHalfAway_mono_ratio) auto
  with annuity(4) assms(1) show ?thesis by simp
qed (use assms in simp)

lemma payment_mono:
  assumes "P > 0" "apr \<ge> 0" "n \<ge> 1" "P \<le> Q"
  shows "payment P n apr \<le> payment Q n apr"
  using assms(2,3)
proof (cases rule: payment_cases [case_names free annuity])
  case free
  with assms show ?thesis by (simp add: roundHalfAway_mono_ratio)
next
  case (annuity r g)
  have "P * r * g \<le> Q * r * g" "0 \<le> P * r * g"
    using annuity(1,2) PAYMENT_SCALE_pos assms by (auto intro!: mult_right_mono)
  then have "roundHalfAway (P * r * g) ((g - PAYMENT_SCALE) * PAYMENT_SCALE)
      \<le> roundHalfAway (Q * r * g) ((g - PAYMENT_SCALE) * PAYMENT_SCALE)"
    using annuity(2) PAYMENT_SCALE_pos by (intro roundHalfAway_mono_ratio) (auto intro!: mult_right_mono)
  with annuity(4) assms show ?thesis by simp
qed

text \<open>
  A payment schedule pays the loan: for a balance above zero, a whole term of 1 to 120
  months and a rate that is not negative, \<open>monthlyPayment\<close> returns; interest never makes the
  payment smaller than the interest-free share; over the term the payments fall short of the
  balance by at most half a cent a month; and financing more never costs less.
\<close>

theorem monthlyPayment_adequate:
  assumes "wholeMonths term = Some n" and "0 \<le> apr" and "0 < P"
  shows "\<exists>p. monthlyPayment P term apr = Inr p \<and> roundHalfAway P n \<le> p \<and> 2 * (P - n * p) \<le> n \<and>
    (\<forall>Q \<ge> P. \<exists>q \<ge> p. monthlyPayment Q term apr = Inr q)"
proof -
  have n: "n \<ge> 1" using wholeMonths_range [OF assms(1)] by simp
  have low: "roundHalfAway P n \<le> payment P n apr" using payment_covers assms n by simp
  have "2 * (P - roundHalfAway P n * n) < n"
    using roundHalfAway_nonneg [of n P "roundHalfAway P n"] n assms(3) by simp
  moreover have "roundHalfAway P n * n \<le> payment P n apr * n" using low n by (intro mult_right_mono) auto
  ultimately have "2 * (P - n * payment P n apr) \<le> n" by (simp add: mult.commute)
  moreover have "monthlyPayment Q term apr = Inr (payment Q n apr)" for Q
    using assms by (simp add: monthlyPayment_def)
  ultimately show ?thesis using low payment_mono [OF assms(3,2) n] by auto
qed

lemma growthLoop_numeral:
  "growthLoop x (numeral k) = growthLoop x (pred_numeral k) * x div PAYMENT_SCALE"
  by (simp add: numeral_eq_Suc)

theorem monthlyPayment_adequate_witness:
  "monthlyPayment 1200000 (Fin 12) 60000 = Inr 103280 \<and> 2 * (1200000 - 12 * 103280) \<le> (12::int)"
proof -
  have "monthlyPayment 1200000 (Fin 12) 60000 = Inr 103280"
    by (simp add: monthlyPayment_def payment_def roundHalfAway_def PPM_def PAYMENT_SCALE_def Let_def
        growthLoop_numeral)
  moreover have "wholeMonths (Fin 12) = Some 12" by simp
  ultimately show ?thesis using monthlyPayment_adequate [of "Fin 12" 12 60000 1200000] by simp
qed

section \<open>Facts about decimal text\<close>

lemma readNat_append: "readNat (xs @ ys) = readNat xs * 10 ^ length ys + readNat ys"
proof -
  have step: "foldl (\<lambda>acc c. acc * 10 + (of_char c - 48)) a ys = a * 10 ^ length ys + readNat ys" for a
    unfolding readNat_def
  proof (induction ys arbitrary: a)
    case (Cons y ys)
    obtain v :: nat where "of_char y - 48 = v" by blast
    then show ?case
      using Cons.IH [of "a * 10 + v"] Cons.IH [of v] by (simp add: add_mult_distrib)
  qed simp
  show ?thesis using step [of "readNat xs"] by (simp only: readNat_def foldl_append)
qed

lemma readNat_digit: "d < 10 \<Longrightarrow> readNat [digitChar d] = d"
  by (simp add: readNat_def digitChar_def)

lemma isDecDigit_digit: "d < 10 \<Longrightarrow> isDecDigit (digitChar d)"
  by (simp add: isDecDigit_def digitChar_def)

lemma natText_digits: "allDigits (natText n)"
proof (induction n rule: natText.induct)
  case (1 n)
  then show ?case by (subst natText.simps) (auto simp: allDigits_def isDecDigit_digit)
qed

lemma readNat_natText: "readNat (natText n) = n"
proof (induction n rule: natText.induct)
  case (1 n)
  then show ?case by (subst natText.simps) (auto simp: readNat_append readNat_digit)
qed

lemma no_minus_digit: "isDecDigit c \<Longrightarrow> c \<noteq> CHR ''-'' \<and> c \<noteq> CHR ''.''"
  by (auto simp: isDecDigit_def)

lemma readDecimal_digits: "allDigits s \<Longrightarrow> readDecimal s = Some (int (readNat s))"
  by (cases s) (auto simp: allDigits_def dest: no_minus_digit)

lemma readDecimal_intText: "readDecimal (intText i) = Some i"
  by (auto simp: intText_def readDecimal_digits natText_digits readNat_natText)

text \<open>
  An amount survives the database: the decimal text a bigint is written as reads back as
  the same amount, and reading is the identity on an amount that never left the program.
\<close>

theorem toCents_round_trip:
  "toCents (Plain (JStr (intText i))) = Inr i \<and> toCents (BigInt i) = Inr i"
  by (simp add: readDecimal_intText)

lemma natText_small: "p < 100 \<Longrightarrow> length (natText p) \<le> 2"
  by (subst natText.simps, simp, subst natText.simps, auto)

lemma padStart2_facts:
  assumes "p < 100"
  shows "length (padStart2 (natText p)) = 2" "allDigits (padStart2 (natText p))"
    "readNat (padStart2 (natText p)) = p"
proof -
  have "natText p \<noteq> []" using natText_digits [of p] by (simp add: allDigits_def)
  then have len: "length (natText p) = 1 \<or> length (natText p) = 2"
    using natText_small [OF assms] by (cases "natText p") (auto simp: le_Suc_eq)
  then show "length (padStart2 (natText p)) = 2" by (auto simp: padStart2_def)
  have zero: "isDecDigit (CHR ''0'')" "readNat ''0'' = 0" by (simp_all add: isDecDigit_def readNat_def)
  from len show "allDigits (padStart2 (natText p))"
    using natText_digits [of p] zero by (auto simp: padStart2_def allDigits_def)
  from len show "readNat (padStart2 (natText p)) = p"
    using readNat_append [of "''0''" "natText p"] zero by (auto simp: padStart2_def readNat_natText)
qed

lemma filter_point: "allDigits s \<Longrightarrow> filter (\<lambda>c. c \<noteq> CHR ''.'') s = s"
  by (auto simp: allDigits_def list_all_iff filter_id_conv dest: no_minus_digit)

text \<open>
  C39. What a screen shows is the amount: the text has two digits after its point, and with
  the point taken out it reads back as exactly the cents that were formatted, sign included.
\<close>

theorem formatCents_exact:
  "readDecimal (filter (\<lambda>c. c \<noteq> CHR ''.'') (formatCents c)) = Some c \<and>
   (\<exists>whole part. formatCents c = whole @ ''.'' @ part \<and> length part = 2 \<and> allDigits part)"
proof -
  let ?w = "natText (nat (\<bar>c\<bar> div 100))" and ?p = "padStart2 (natText (nat (\<bar>c\<bar> mod 100)))"
  have format: "formatCents c = (if c < 0 then ''-'' else '''') @ ?w @ ''.'' @ ?p"
    by (auto simp: formatCents_def intText_def Let_def abs_if pos_imp_zdiv_nonneg_iff)
  have small: "nat (\<bar>c\<bar> mod 100) < 100" by (simp add: nat_less_iff)
  note p = padStart2_facts [OF small]
  have wp: "allDigits (?w @ ?p)" using natText_digits p(2) by (simp add: allDigits_def)
  have "readNat (?w @ ?p) = nat (\<bar>c\<bar> div 100) * 100 + nat (\<bar>c\<bar> mod 100)"
    using p(1,3) by (simp add: readNat_append readNat_natText)
  moreover have "int (nat (\<bar>c\<bar> div 100) * 100 + nat (\<bar>c\<bar> mod 100)) = \<bar>c\<bar>"
    by (simp add: pos_imp_zdiv_nonneg_iff)
  ultimately have "int (readNat (?w @ ?p)) = \<bar>c\<bar>" by simp
  moreover have "filter (\<lambda>c. c \<noteq> CHR ''.'') (formatCents c) = (if c < 0 then ''-'' else '''') @ ?w @ ?p"
    unfolding format by (simp add: filter_point natText_digits p(2))
  ultimately have "readDecimal (filter (\<lambda>c. c \<noteq> CHR ''.'') (formatCents c)) = Some c"
    by (cases "c < 0") (simp_all only: if_True if_False append_Nil append_Cons readDecimal.simps wp
        readDecimal_digits [OF wp] simp_thms, simp_all)
  moreover have "formatCents c = ((if c < 0 then ''-'' else '''') @ ?w) @ ''.'' @ ?p"
    unfolding format by simp
  ultimately show ?thesis using p(1,2) by blast
qed

end
