(* ===== verification/DeskCanon.thy ===== *)
theory DeskCanon
  imports DeskMoney
begin

text \<open>
  The canonical text behind every fingerprint (\<open>canonicalize\<close> and \<open>fingerprint\<close> of
  packages/desking/src/money.ts).  How JavaScript prints a finite number and the SHA-256
  digest are parameters; strings are quoted the way \<open>JSON.stringify\<close> does.
\<close>

section \<open>Definitions\<close>

text \<open>The values \<open>canonicalize\<close> tells apart; \<open>COther\<close> is a function or a symbol.\<close>

datatype cval =
    CUndef
  | CNull
  | CBool bool
  | CNum jsnum
  | CBig int
  | CStr string
  | CDate string
  | CArr "cval list"
  | CObj "(string \<times> cval) list"
  | COther

definition hexLower :: "nat \<Rightarrow> char" where
  "hexLower d = (if d < 10 then char_of (48 + d) else char_of (87 + d))"

definition escapeChar :: "char \<Rightarrow> string" where
  "escapeChar c =
     (let n = (of_char c :: nat) in
      if n = 34 then [CHR 0x5C, CHR 0x22]
      else if n = 92 then [CHR 0x5C, CHR 0x5C]
      else if n = 8 then CHR 0x5C # ''b''
      else if n = 9 then CHR 0x5C # ''t''
      else if n = 10 then CHR 0x5C # ''n''
      else if n = 12 then CHR 0x5C # ''f''
      else if n = 13 then CHR 0x5C # ''r''
      else if n < 32 then CHR 0x5C # ''u00'' @ [hexLower (n div 16), hexLower (n mod 16)]
      else [c])"

definition quoteJSON :: "string \<Rightarrow> string" where
  "quoteJSON s = CHR 0x22 # concat (map escapeChar s) @ [CHR 0x22]"

fun joinComma :: "string list \<Rightarrow> string" where
  "joinComma [] = []"
| "joinComma [x] = x"
| "joinComma (x # y # ys) = x @ '','' @ joinComma (y # ys)"

fun mapD :: "('a \<Rightarrow> 'b desk) \<Rightarrow> 'a list \<Rightarrow> 'b list desk" where
  "mapD f [] = Inr []"
| "mapD f (x # xs) = bindR (f x) (\<lambda>y. bindR (mapD f xs) (\<lambda>ys. Inr (y # ys)))"

lemma mapD_cong [fundef_cong]:
  "xs = ys \<Longrightarrow> (\<And>x. x \<in> set ys \<Longrightarrow> f x = g x) \<Longrightarrow> mapD f xs = mapD g ys"
proof (induction ys arbitrary: xs)
  case (Cons y ys)
  then have "mapD f ys = mapD g ys" by simp
  with Cons.prems show ?case by simp
qed simp

lemma size_of_entry: "kv \<in> set kvs \<Longrightarrow> size (snd kv) < Suc (size_list (size_prod (\<lambda>x. 0) size) kvs)"
proof (induction kvs)
  case (Cons p kvs)
  then show ?case by (cases p) (auto simp: less_SucI trans_less_add2)
qed simp

function canonicalize :: "(rat \<Rightarrow> string) \<Rightarrow> cval \<Rightarrow> string desk" where
  "canonicalize nt CNull = Inr ''null''"
| "canonicalize nt (CBig i) = Inr (CHR 0x22 # intText i @ [CHR 0x22])"
| "canonicalize nt (CNum x) =
     (case x of Fin q \<Rightarrow> Inr (nt q) | _ \<Rightarrow> Inl (TypeError ''canonicalize: a non-finite number''))"
| "canonicalize nt (CStr s) = Inr (quoteJSON s)"
| "canonicalize nt (CBool b) = Inr (if b then ''true'' else ''false'')"
| "canonicalize nt (CDate d) = Inr (quoteJSON d)"
| "canonicalize nt (CArr vs) =
     bindR (mapD (canonicalize nt) vs) (\<lambda>ts. Inr (''['' @ joinComma ts @ '']''))"
| "canonicalize nt (CObj kvs) =
     (let entries = sort_key fst (filter (\<lambda>kv. snd kv \<noteq> CUndef) kvs) in
      bindR (mapD (\<lambda>kv. bindR (canonicalize nt (snd kv)) (\<lambda>t. Inr (quoteJSON (fst kv) @ '':'' @ t))) entries)
        (\<lambda>ts. Inr (''{'' @ joinComma ts @ ''}'')))"
| "canonicalize nt CUndef = Inl (TypeError ''canonicalize: no canonical form'')"
| "canonicalize nt COther = Inl (TypeError ''canonicalize: no canonical form'')"
  by pat_completeness auto

termination
  by (relation "measure (size \<circ> snd)") (auto dest: size_of_entry simp: less_Suc_eq_le size_list_estimation')

definition fingerprint :: "(rat \<Rightarrow> string) \<Rightarrow> (string \<Rightarrow> string) \<Rightarrow> cval \<Rightarrow> string desk" where
  "fingerprint nt sha v = bindR (canonicalize nt v) (\<lambda>t. Inr (sha t))"

section \<open>Unique readability of quoted strings\<close>

definition escaped :: "char \<Rightarrow> bool" where
  "escaped c = (let n = (of_char c :: nat) in n < 32 \<or> n = 34 \<or> n = 92)"

text \<open>Reading an escape back: the character its second, fifth and sixth characters stand for.\<close>

definition unhex :: "char \<Rightarrow> nat" where
  "unhex h = (let n = of_char h in if n < 58 then n - 48 else n - 87)"

definition unescape :: "string \<Rightarrow> nat" where
  "unescape xs =
     (let b = xs ! 1 in
      if b = CHR ''b'' then 8 else if b = CHR ''t'' then 9 else if b = CHR ''n'' then 10
      else if b = CHR ''f'' then 12 else if b = CHR ''r'' then 13
      else if b = CHR ''u'' then unhex (xs ! 4) * 16 + unhex (xs ! 5) else of_char b)"

definition escapedChars :: string where
  "escapedChars = map char_of ([0..<32] @ [34, 92::nat])"

lemma escaped_list: "escaped c \<Longrightarrow> c \<in> set escapedChars"
proof -
  assume "escaped c"
  then have "of_char c \<in> set ([0..<32] @ [34, 92::nat])" by (auto simp: escaped_def Let_def)
  then have "char_of (of_char c :: nat) \<in> set escapedChars" unfolding escapedChars_def set_map by blast
  then show ?thesis by simp
qed

lemma unescape_escape: "escaped c \<Longrightarrow> unescape (escapeChar c @ u) = of_char c"
proof -
  assume "escaped c"
  have "list_all (\<lambda>c. unescape (escapeChar c) = of_char c \<and> 2 \<le> length (escapeChar c) \<and>
      (escapeChar c ! 1 = CHR ''u'' \<longrightarrow> length (escapeChar c) = 6)) escapedChars"
    by code_simp
  with escaped_list [OF \<open>escaped c\<close>] have "unescape (escapeChar c) = of_char c" "2 \<le> length (escapeChar c)"
    "escapeChar c ! 1 = CHR ''u'' \<longrightarrow> length (escapeChar c) = 6"
    by (simp_all add: list_all_iff)
  then show ?thesis by (auto simp: unescape_def nth_append Let_def)
qed

lemma escapeChar_plain: "\<not> escaped c \<Longrightarrow> escapeChar c = [c] \<and> c \<noteq> CHR 0x5C \<and> c \<noteq> CHR 0x22"
  by (auto simp: escaped_def escapeChar_def Let_def)

lemma escapeChar_escaped: "escaped c \<Longrightarrow> \<exists>t. escapeChar c = CHR 0x5C # t"
  by (auto simp: escaped_def escapeChar_def Let_def)

lemma escapeChar_start: "\<exists>a t. escapeChar c = a # t \<and> a \<noteq> CHR 0x22"
  by (cases "escaped c") (auto dest: escapeChar_plain escapeChar_escaped)

lemma escapeChar_prefix:
  assumes "escapeChar c @ u = escapeChar d @ v"
  shows "c = d \<and> u = v"
proof -
  have both: "c = d" if "escaped c" "escaped d"
    using unescape_escape [OF that(1), of u] unescape_escape [OF that(2), of v] assms by simp
  have "c = d"
    using assms both escapeChar_plain [of c] escapeChar_plain [of d]
      escapeChar_escaped [of c] escapeChar_escaped [of d]
    by (cases "escaped c"; cases "escaped d") auto
  with assms show ?thesis by simp
qed

lemma quoted_prefix:
  "concat (map escapeChar s) @ CHR 0x22 # x = concat (map escapeChar t) @ CHR 0x22 # y \<Longrightarrow> s = t \<and> x = y"
proof (induction s arbitrary: t)
  case Nil
  then show ?case using escapeChar_start [of "hd t"] by (cases t) auto
next
  case (Cons c s)
  show ?case
  proof (cases t)
    case Nil
    with Cons.prems escapeChar_start [of c] show ?thesis by auto
  next
    case (Cons d t')
    with Cons.prems have "escapeChar c @ (concat (map escapeChar s) @ CHR 0x22 # x) =
        escapeChar d @ (concat (map escapeChar t') @ CHR 0x22 # y)"
      by simp
    from escapeChar_prefix [OF this] Cons.IH [of t'] Cons show ?thesis by auto
  qed
qed

lemma quoteJSON_prefix: "quoteJSON s @ x = quoteJSON t @ y \<Longrightarrow> s = t \<and> x = y"
  using quoted_prefix [of s x t y] by (simp add: quoteJSON_def)

section \<open>What a value means\<close>

text \<open>
  The content a canonical text carries: amounts and dates are their text, entries without a
  value are absent, keys are in order.
\<close>

datatype content =
    NNull
  | NBool bool
  | NNum rat
  | NStr string
  | NArr "content list"
  | NObj "(string \<times> content) list"

fun allSome :: "'a option list \<Rightarrow> 'a list option" where
  "allSome [] = Some []"
| "allSome (x # xs) = (case x of None \<Rightarrow> None | Some y \<Rightarrow> map_option (Cons y) (allSome xs))"

function meaning :: "cval \<Rightarrow> content option" where
  "meaning CNull = Some NNull"
| "meaning (CBig i) = Some (NStr (intText i))"
| "meaning (CNum x) = (case x of Fin q \<Rightarrow> Some (NNum q) | _ \<Rightarrow> None)"
| "meaning (CStr s) = Some (NStr s)"
| "meaning (CBool b) = Some (NBool b)"
| "meaning (CDate d) = Some (NStr d)"
| "meaning (CArr vs) = map_option NArr (allSome (map meaning vs))"
| "meaning (CObj kvs) =
     map_option NObj (allSome (map (\<lambda>kv. map_option (Pair (fst kv)) (meaning (snd kv)))
       (sort_key fst (filter (\<lambda>kv. snd kv \<noteq> CUndef) kvs))))"
| "meaning CUndef = None"
| "meaning COther = None"
  by pat_completeness auto

termination
  by (relation "measure size") (auto dest: size_of_entry simp: less_Suc_eq_le size_list_estimation')

fun contentText :: "(rat \<Rightarrow> string) \<Rightarrow> content \<Rightarrow> string" where
  "contentText nt NNull = ''null''"
| "contentText nt (NBool b) = (if b then ''true'' else ''false'')"
| "contentText nt (NNum q) = nt q"
| "contentText nt (NStr s) = quoteJSON s"
| "contentText nt (NArr vs) = ''['' @ joinComma (map (contentText nt) vs) @ '']''"
| "contentText nt (NObj kvs) =
     ''{'' @ joinComma (map (\<lambda>kv. quoteJSON (fst kv) @ '':'' @ contentText nt (snd kv)) kvs) @ ''}''"

lemma escape_digits: "list_all isDecDigit s \<Longrightarrow> concat (map escapeChar s) = s"
  by (induction s) (auto simp: isDecDigit_def escapeChar_def Let_def)

lemma quote_intText: "quoteJSON (intText i) = CHR 0x22 # intText i @ [CHR 0x22]"
proof -
  have "escapeChar (CHR ''-'') = ''-''" by (simp add: escapeChar_def)
  then show ?thesis
    using natText_digits by (auto simp: quoteJSON_def intText_def allDigits_def escape_digits)
qed

lemma mapD_allSome:
  assumes "\<And>x t. x \<in> set xs \<Longrightarrow> f x = Inr t \<longleftrightarrow> (\<exists>m. g x = Some m \<and> t = h m)"
  shows "mapD f xs = Inr ts \<longleftrightarrow> (\<exists>ms. allSome (map g xs) = Some ms \<and> ts = map h ms)"
  using assms
proof (induction xs arbitrary: ts)
  case (Cons x xs)
  have "mapD f xs = Inr ts \<longleftrightarrow> (\<exists>ms. allSome (map g xs) = Some ms \<and> ts = map h ms)" for ts
    using Cons by simp
  moreover have "f x = Inr t \<longleftrightarrow> (\<exists>m. g x = Some m \<and> t = h m)" for t using Cons.prems by simp
  ultimately show ?case by (cases "g x") auto
qed auto

lemma canonicalize_meaning:
  "canonicalize nt v = Inr t \<longleftrightarrow> (\<exists>m. meaning v = Some m \<and> t = contentText nt m)"
proof (induction v arbitrary: t rule: meaning.induct)
  case (7 vs)
  show ?case using mapD_allSome [of vs, OF 7] by auto
next
  case (8 kvs)
  let ?es = "sort_key fst (filter (\<lambda>kv. snd kv \<noteq> CUndef) kvs)"
  have "bindR (canonicalize nt (snd kv)) (\<lambda>t. Inr (quoteJSON (fst kv) @ '':'' @ t)) = Inr t \<longleftrightarrow>
      (\<exists>m. map_option (Pair (fst kv)) (meaning (snd kv)) = Some m \<and>
           t = quoteJSON (fst m) @ '':'' @ contentText nt (snd m))" if "kv \<in> set ?es" for kv t
    using 8 [OF that] by auto
  from mapD_allSome [of ?es, OF this] show ?case by (auto simp: Let_def)
qed (auto simp: quote_intText split: jsnum.splits)

section \<open>Equal texts, equal contents\<close>

definition delimited :: "string \<Rightarrow> bool" where
  "delimited x = (x = [] \<or> hd x \<in> set '',]}'')"

definition numChar :: "char \<Rightarrow> bool" where
  "numChar c = (c \<in> set ''0123456789-+.e'')"

text \<open>What is relied on of JavaScript's printing of finite numbers.\<close>

definition number_text :: "(rat \<Rightarrow> string) \<Rightarrow> bool" where
  "number_text nt = (inj nt \<and> (\<forall>q. nt q \<noteq> [] \<and> list_all numChar (nt q)))"

lemma number_prefix:
  assumes "number_text nt" "nt q @ x = nt r @ y" "delimited x" "delimited y"
  shows "q = r \<and> x = y"
proof -
  have stop: "takeWhile numChar x = []" if "delimited x" for x
    using that by (cases x) (auto simp: delimited_def numChar_def)
  have "takeWhile numChar (nt q @ x) = nt q" if "delimited x" for q x
    using assms(1) stop [OF that] by (simp add: number_text_def list_all_iff)
  with assms(2-4) have "nt q = nt r" by metis
  with assms(1,2) show ?thesis by (auto simp: number_text_def inj_eq)
qed

fun leadOk :: "content \<Rightarrow> char \<Rightarrow> bool" where
  "leadOk NNull c = (c = CHR ''n'')"
| "leadOk (NBool b) c = (c = (if b then CHR ''t'' else CHR ''f''))"
| "leadOk (NNum _) c = numChar c"
| "leadOk (NStr _) c = (c = CHR 0x22)"
| "leadOk (NArr _) c = (c = CHR ''['')"
| "leadOk (NObj _) c = (c = CHR ''{'')"

lemma contentText_lead: "number_text nt \<Longrightarrow> \<exists>c t. contentText nt v = c # t \<and> leadOk v c"
proof (cases v)
  case (NNum q)
  assume "number_text nt"
  then have "nt q \<noteq> []" "list_all numChar (nt q)" by (simp_all add: number_text_def)
  with NNum show ?thesis by (cases "nt q") auto
qed (auto simp: quoteJSON_def)

lemma leadOk_delim: "leadOk v c \<Longrightarrow> c \<notin> set '',]}''"
  by (cases v) (auto simp: numChar_def split: if_splits)

lemma joinComma_Cons: "joinComma (x # xs) = x @ (if xs = [] then [] else '','' @ joinComma xs)"
  by (cases xs) auto

lemma joinComma_prefix:
  assumes "\<And>v w x y. v \<in> set vs \<Longrightarrow> f v @ x = f w @ y \<Longrightarrow> delimited x \<Longrightarrow> delimited y \<Longrightarrow> v = w \<and> x = y"
    and start: "\<And>v. \<exists>c t. f v = c # t \<and> c \<notin> set '',]}''" and "c \<in> set '']}''"
    and "joinComma (map f vs) @ c # x = joinComma (map f ws) @ c # y"
  shows "vs = ws \<and> x = y"
  using assms(1,4)
proof (induction vs arbitrary: ws)
  case Nil
  then show ?case using start [of "hd ws"] assms(3) by (cases ws) (auto simp: joinComma_Cons)
next
  case (Cons v vs)
  let ?tail = "\<lambda>us z. (if us = [] then [] else '','' @ joinComma (map f us)) @ c # z"
  show ?case
  proof (cases ws)
    case Nil
    with Cons.prems start [of v] assms(3) show ?thesis by (auto simp: joinComma_Cons)
  next
    case ws: (Cons w ws')
    with Cons.prems(2) have eq: "f v @ ?tail vs x = f w @ ?tail ws' y"
      by (simp add: joinComma_Cons split: if_splits)
    have del: "delimited (?tail us z)" for us z using assms(3) by (auto simp: delimited_def)
    have "v = w \<and> ?tail vs x = ?tail ws' y" using Cons.prems(1) [OF _ eq del del] by simp
    moreover have "vs = ws' \<and> x = y" if "joinComma (map f vs) @ c # x = joinComma (map f ws') @ c # y"
      by (rule Cons.IH [OF Cons.prems(1) that]) simp_all
    ultimately show ?thesis using ws assms(3) by (cases "vs = []"; cases "ws' = []") auto
  qed
qed

lemma contentText_prefix:
  assumes nt: "number_text nt"
  shows "contentText nt v @ x = contentText nt w @ y \<Longrightarrow> delimited x \<Longrightarrow> delimited y \<Longrightarrow> v = w \<and> x = y"
proof (induction v arbitrary: w x y)
  case NNull
  with contentText_lead [OF nt, of w] show ?case by (cases w) (auto simp: numChar_def split: if_splits)
next
  case (NBool b)
  with contentText_lead [OF nt, of w] show ?case by (cases w) (auto simp: numChar_def split: if_splits)
next
  case (NNum q)
  obtain c t where "contentText nt w = c # t" "leadOk w c" using contentText_lead [OF nt] by blast
  moreover obtain d u where "nt q = d # u" "numChar d" using contentText_lead [OF nt, of "NNum q"] by auto
  ultimately obtain r where "w = NNum r"
    using NNum.prems(1) by (cases w) (auto simp: numChar_def split: if_splits)
  then show ?case using number_prefix [OF nt, of q x r y] NNum.prems by simp
next
  case (NStr s)
  with contentText_lead [OF nt, of w] obtain s' where "w = NStr s'"
    by (cases w) (auto simp: numChar_def quoteJSON_def split: if_splits)
  then show ?case using NStr.prems(1) quoteJSON_prefix [of s x s' y] by simp
next
  case (NArr vs)
  with contentText_lead [OF nt, of w] obtain ws where w: "w = NArr ws"
    by (cases w) (auto simp: numChar_def split: if_splits)
  have "\<exists>c t. contentText nt v = c # t \<and> c \<notin> set '',]}''" for v
    using contentText_lead [OF nt, of v] leadOk_delim by blast
  moreover have "joinComma (map (contentText nt) vs) @ CHR '']'' # x =
      joinComma (map (contentText nt) ws) @ CHR '']'' # y"
    using NArr.prems(1) w by simp
  ultimately have "vs = ws \<and> x = y"
    by (intro joinComma_prefix [where f = "contentText nt" and c = "CHR '']''"] NArr.IH) simp_all
  with w show ?case by simp
next
  case (NObj kvs)
  with contentText_lead [OF nt, of w] obtain ws where w: "w = NObj ws"
    by (cases w) (auto simp: numChar_def split: if_splits)
  let ?f = "\<lambda>kv. quoteJSON (fst kv) @ '':'' @ contentText nt (snd kv)"
  have elem: "kv = kw \<and> x = y" if "kv \<in> set kvs" "?f kv @ x = ?f kw @ y" "delimited x" "delimited y" for kv kw x y
  proof -
    from that(2) have keys: "fst kv = fst kw" and rest: "contentText nt (snd kv) @ x = contentText nt (snd kw) @ y"
      using quoteJSON_prefix [of "fst kv" "'':'' @ contentText nt (snd kv) @ x"] by auto
    have "snd kv \<in> Basic_BNFs.snds kv" by (cases kv) simp
    from NObj.IH [OF that(1) this rest that(3,4)] keys show ?thesis by (simp add: prod_eq_iff)
  qed
  have start: "\<exists>c t. ?f v = c # t \<and> c \<notin> set '',]}''" for v by (simp add: quoteJSON_def)
  have eq: "joinComma (map ?f kvs) @ CHR ''}'' # x = joinComma (map ?f ws) @ CHR ''}'' # y"
    using NObj.prems(1) w by simp
  have "kvs = ws \<and> x = y" by (rule joinComma_prefix [where f = ?f, OF elem start _ eq]) simp_all
  with w show ?case by simp
qed

lemma canonicalize_same:
  assumes "number_text nt" and "canonicalize nt v = Inr t"
  shows "canonicalize nt w = Inr t \<longleftrightarrow> meaning w = meaning v"
proof -
  from assms(2) obtain m where m: "meaning v = Some m" "t = contentText nt m"
    by (auto simp: canonicalize_meaning)
  have "n = m" if "contentText nt n = contentText nt m" for n
    using contentText_prefix [OF assms(1), of n "[]" m "[]"] that by (simp add: delimited_def)
  with m show ?thesis by (auto simp: canonicalize_meaning)
qed

text \<open>
  An undefined entry of an object is dropped; undefined anywhere else is refused.
\<close>

lemma canonicalize_drops: "canonicalize nt (CObj (kvs @ (k, CUndef) # kvs')) = canonicalize nt (CObj (kvs @ kvs'))"
  by simp

lemma mapD_refuses: "(\<exists>err. f x = Inl err) \<Longrightarrow> \<exists>err. mapD f (xs @ x # ys) = Inl err"
proof (induction xs)
  case (Cons y ys)
  then show ?case by (cases "f y") (auto simp: bindR_def)
qed auto

lemma canonicalize_refuses: "\<exists>err. canonicalize nt (CArr (vs @ CUndef # vs')) = Inl err"
  using mapD_refuses [of "canonicalize nt" CUndef vs vs'] by auto

text \<open>
  C37. A canonical text says what was priced: two values have the same canonical text exactly
  when they mean the same, that is up to the order of object keys, entries whose value is
  undefined, and amounts and dates being their own text.  The comment above the code promises
  that undefined is refused rather than silently dropped; that holds of undefined itself and
  inside an array, and not of an object's entry: such an entry is dropped, and the object has
  the text, and the fingerprint, it has without it.
\<close>

theorem canonicalize_faithful:
  assumes "number_text nt" and "canonicalize nt v = Inr t"
  shows "(canonicalize nt w = Inr t \<longleftrightarrow> meaning w = meaning v) \<and>
    (\<forall>kvs k kvs'. v = CObj (kvs @ kvs') \<longrightarrow> canonicalize nt (CObj (kvs @ (k, CUndef) # kvs')) = Inr t) \<and>
    (\<exists>err. canonicalize nt CUndef = Inl err) \<and> (\<forall>vs vs'. \<exists>err. canonicalize nt (CArr (vs @ CUndef # vs')) = Inl err)"
proof (intro conjI allI impI)
  show "canonicalize nt w = Inr t \<longleftrightarrow> meaning w = meaning v" by (rule canonicalize_same [OF assms])
  show "canonicalize nt (CObj (kvs @ (k, CUndef) # kvs')) = Inr t" if "v = CObj (kvs @ kvs')" for kvs k kvs'
    unfolding canonicalize_drops that [symmetric] by (rule assms(2))
  show "\<exists>err. canonicalize nt (CArr (vs @ CUndef # vs')) = Inl err" for vs vs' by (rule canonicalize_refuses)
qed simp

text \<open>A printing of numbers the hypothesis holds of: numerator, point, denominator.\<close>

definition fractionText :: "rat \<Rightarrow> string" where
  "fractionText q = (case quotient_of q of (a, b) \<Rightarrow> intText a @ ''.'' @ intText b)"

lemma intText_chars: "c \<in> set (intText i) \<Longrightarrow> isDecDigit c \<or> c = CHR ''-''"
  using natText_digits by (auto simp: intText_def allDigits_def list_all_iff split: if_splits)

lemma intText_inj: "intText i = intText j \<Longrightarrow> i = j"
  using readDecimal_intText by (metis option.inject)

lemma isDecDigit_numChar: "isDecDigit c \<Longrightarrow> numChar c"
proof -
  assume "isDecDigit c"
  then have "char_of (of_char c :: nat) \<in> (char_of :: nat \<Rightarrow> char) ` {48..57}"
    unfolding isDecDigit_def by (intro imageI) simp
  moreover have "\<forall>c \<in> (char_of :: nat \<Rightarrow> char) ` {48..57}. numChar c" by code_simp
  ultimately show "numChar c" by auto
qed

lemma fractionText_number: "number_text fractionText"
proof -
  have "inj fractionText"
  proof (rule injI)
    fix q r :: rat
    obtain a b c d where q: "quotient_of q = (a, b)" and r: "quotient_of r = (c, d)" by fastforce
    assume "fractionText q = fractionText r"
    then have eq: "intText a @ CHR ''.'' # intText b = intText c @ CHR ''.'' # intText d"
      by (simp add: fractionText_def q r)
    have stop: "takeWhile (\<lambda>x. x \<noteq> CHR ''.'') (intText i @ CHR ''.'' # t) = intText i" for i t
    proof -
      have "\<forall>x \<in> set (intText i). x \<noteq> CHR ''.''" using intText_chars [of _ i] no_minus_digit by fastforce
      then show ?thesis by (simp add: takeWhile_append)
    qed
    have "intText a = intText c" using stop [of a "intText b"] stop [of c "intText d"] eq by simp
    with eq have "a = c" "b = d" by (auto dest: intText_inj)
    with q r show "q = r" by (intro quotient_of_inject) simp
  qed
  moreover have "fractionText q \<noteq> [] \<and> list_all numChar (fractionText q)" for q
  proof -
    obtain a b where q: "quotient_of q = (a, b)" by force
    have "numChar (CHR ''.'')" "numChar (CHR ''-'')" by (simp_all add: numChar_def)
    then have "list_all numChar (intText i)" for i
      using intText_chars [of _ i] isDecDigit_numChar by (fastforce simp: list_all_iff)
    with \<open>numChar (CHR ''.'')\<close> show ?thesis by (simp add: fractionText_def q)
  qed
  ultimately show ?thesis by (simp add: number_text_def)
qed

theorem canonicalize_faithful_witness:
  "canonicalize fractionText (CObj [(''b'', CBig 5), (''a'', CNull)]) =
     canonicalize fractionText (CObj [(''a'', CNull), (''b'', CStr ''5'')]) \<and>
   canonicalize fractionText (CObj [(''b'', CBig 5), (''c'', CUndef), (''a'', CNull)]) =
     canonicalize fractionText (CObj [(''b'', CBig 5), (''a'', CNull)])"
    (is "canonicalize _ ?v = canonicalize _ ?w \<and> canonicalize _ ?u = _")
proof -
  obtain t where t: "canonicalize fractionText ?v = Inr t" by (simp add: Let_def)
  have "meaning ?w = meaning ?v" by code_simp
  moreover note faithful = canonicalize_faithful [OF fractionText_number t, of ?w]
  ultimately have w: "canonicalize fractionText ?w = Inr t" by (rule iffD2 [OF conjunct1, rotated])
  have "?v = CObj ([(''b'', CBig 5)] @ [(''a'', CNull)])" by (simp only: append.simps)
  with faithful have "canonicalize fractionText (CObj ([(''b'', CBig 5)] @ (''c'', CUndef) # [(''a'', CNull)])) = Inr t" by blast
  then have u: "canonicalize fractionText ?u = Inr t" by (simp only: append.simps)
  show ?thesis unfolding t w u by (intro conjI refl)
qed

end
