(* ===== verification/DeskCalculator.thy ===== *)
theory DeskCalculator
  imports DeskCanon "HOL-Library.Product_Lexorder"
begin

text \<open>
  The desk calculator (packages/desking/src/calculator.ts): rules and inputs in, figures,
  lines, rule applications and fingerprints out.  The loop's mutable totals and its
  \<open>push\<close> and \<open>applied\<close> closures are the fields and updates of \<open>desk_run\<close>.
\<close>

section \<open>Definitions\<close>

datatype RuleKind = RK_tax | RK_fee | RK_incentive | RK_valuation | RK_policy
datatype RuleBasis = RB_rate_ppm | RB_flat_amount
datatype RuleTarget = RT_vehicle_price | RT_taxable_amount | RT_total
datatype LineKind = LK_price | LK_trade | LK_tax | LK_fee | LK_incentive | LK_down_payment

record ResolvedRule =
  ruleId :: string
  ruleKind :: RuleKind
  ruleCode :: string
  ruleLabel :: string
  ruleSource :: string
  ruleJurisdiction :: string
  rooftopScoped :: bool
  ruleVersion :: int
  effectiveFrom :: string
  effectiveTo :: "string option"
  ruleBasis :: RuleBasis
  ratePpm :: "int option"
  ruleAmountCents :: "int option"
  appliesTo :: RuleTarget

record ScenarioInputs =
  vehiclePriceCents :: int
  tradeAllowanceCents :: int
  tradePayoffCents :: int
  cashDownCents :: int
  termMonths :: "jsnum option"
  aprPpm :: "int option"
  currency :: string
  jurisdiction :: string
  pricedAt :: string

record ComputedLine =
  sequenceNo :: nat
  lineKind :: LineKind
  lineCode :: string
  lineLabel :: string
  amountCents :: int
  lineRuleId :: "string option"
  lineRuleVersion :: "int option"

record RuleApplication =
  appRuleId :: string
  appRuleKind :: RuleKind
  appRuleCode :: string
  appRuleVersion :: int
  appSource :: string
  appJurisdiction :: string
  appRooftopScoped :: bool
  appEffectiveFrom :: string
  appEffectiveTo :: "string option"
  resolvedAmountCents :: int

record ComputedScenario =
  tradeEquityCents :: int
  taxableAmountCents :: int
  taxTotalCents :: int
  feeTotalCents :: int
  incentiveTotalCents :: int
  amountFinancedCents :: int
  monthlyPaymentCents :: "int option"
  csLines :: "ComputedLine list"
  csApplications :: "RuleApplication list"
  inputFingerprint :: string
  outputFingerprint :: string

definition TRADE_TAX_CREDIT :: string where
  "TRADE_TAX_CREDIT = ''trade_tax_credit''"

definition orZero :: "int option \<Rightarrow> int" where
  "orZero x = (case x of Some i \<Rightarrow> i | None \<Rightarrow> 0)"

definition magnitude :: "ResolvedRule \<Rightarrow> int \<Rightarrow> int" where
  "magnitude rule base =
     (if ruleBasis rule = RB_flat_amount then orZero (ruleAmountCents rule)
      else applyRate base (orZero (ratePpm rule)))"

fun rank :: "RuleKind \<Rightarrow> nat" where
  "rank RK_policy = 0"
| "rank RK_tax = 1"
| "rank RK_fee = 2"
| "rank RK_incentive = 3"
| "rank RK_valuation = 4"

definition ruleKey :: "ResolvedRule \<Rightarrow> nat \<times> string \<times> int" where
  "ruleKey r = (rank (ruleKind r), ruleCode r, ruleVersion r)"

definition ordered :: "ResolvedRule list \<Rightarrow> ResolvedRule list" where
  "ordered rules = sort_key ruleKey rules"

record desk_run =
  dr_lines :: "ComputedLine list"
  dr_applications :: "RuleApplication list"
  dr_sequenceNo :: nat
  dr_tax :: int
  dr_fee :: int
  dr_incentive :: int

definition push ::
  "LineKind \<Rightarrow> string \<Rightarrow> string \<Rightarrow> int \<Rightarrow> string option \<Rightarrow> int option \<Rightarrow> desk_run \<Rightarrow> desk_run" where
  "push kind code label amount rid ver st =
     st\<lparr>dr_sequenceNo := dr_sequenceNo st + 1,
        dr_lines := dr_lines st @ [\<lparr>sequenceNo = dr_sequenceNo st + 1, lineKind = kind, lineCode = code,
          lineLabel = label, amountCents = amount, lineRuleId = rid, lineRuleVersion = ver\<rparr>]\<rparr>"

definition applied :: "ResolvedRule \<Rightarrow> int \<Rightarrow> desk_run \<Rightarrow> desk_run" where
  "applied rule amount st =
     st\<lparr>dr_applications := dr_applications st @ [\<lparr>appRuleId = ruleId rule, appRuleKind = ruleKind rule,
          appRuleCode = ruleCode rule, appRuleVersion = ruleVersion rule, appSource = ruleSource rule,
          appJurisdiction = ruleJurisdiction rule, appRooftopScoped = rooftopScoped rule,
          appEffectiveFrom = effectiveFrom rule, appEffectiveTo = effectiveTo rule,
          resolvedAmountCents = amount\<rparr>]\<rparr>"

fun lineKindOf :: "RuleKind \<Rightarrow> LineKind" where
  "lineKindOf RK_tax = LK_tax"
| "lineKindOf RK_fee = LK_fee"
| "lineKindOf _ = LK_incentive"

definition isLineRule :: "ResolvedRule \<Rightarrow> bool" where
  "isLineRule r = (ruleKind r \<in> {RK_tax, RK_fee, RK_incentive})"

text \<open>The body both passes run for a rule, given the base it is computed on.\<close>

definition applyRule :: "(ResolvedRule \<Rightarrow> int) \<Rightarrow> ResolvedRule \<Rightarrow> desk_run \<Rightarrow> desk_run" where
  "applyRule base rule st =
     (let amount = magnitude rule (base rule);
          st1 = applied rule amount st;
          st2 = (case ruleKind rule of
                   RK_tax \<Rightarrow> st1\<lparr>dr_tax := dr_tax st1 + amount\<rparr>
                 | RK_fee \<Rightarrow> st1\<lparr>dr_fee := dr_fee st1 + amount\<rparr>
                 | _ \<Rightarrow> st1\<lparr>dr_incentive := dr_incentive st1 + amount\<rparr>)
      in push (lineKindOf (ruleKind rule)) (ruleCode rule) (ruleLabel rule)
           (if ruleKind rule = RK_incentive then - amount else amount)
           (Some (ruleId rule)) (Some (ruleVersion rule)) st2)"

definition emptyRun :: desk_run where
  "emptyRun = \<lparr>dr_lines = [], dr_applications = [], dr_sequenceNo = 0, dr_tax = 0, dr_fee = 0,
     dr_incentive = 0\<rparr>"

definition carAndTrade :: "ScenarioInputs \<Rightarrow> desk_run \<Rightarrow> desk_run" where
  "carAndTrade i st =
     (let st1 = push LK_price ''vehicle_price'' ''Vehicle price'' (vehiclePriceCents i) None None st in
      if tradeAllowanceCents i \<noteq> 0 \<or> tradePayoffCents i \<noteq> 0
      then push LK_trade ''trade_equity'' ''Trade equity (allowance less payoff)''
             (- (tradeAllowanceCents i - tradePayoffCents i)) None None st1
      else st1)"

definition creditRule :: "ResolvedRule list \<Rightarrow> ResolvedRule option" where
  "creditRule book =
     find (\<lambda>r. ruleKind r = RK_policy \<and> ruleCode r = TRADE_TAX_CREDIT \<and> ruleBasis r = RB_rate_ppm) book"

definition taxCredit :: "ScenarioInputs \<Rightarrow> ResolvedRule list \<Rightarrow> int" where
  "taxCredit i book =
     (case creditRule book of
        None \<Rightarrow> 0
      | Some r \<Rightarrow> applyRate (tradeAllowanceCents i) (orZero (ratePpm r)))"

definition taxableBase :: "ScenarioInputs \<Rightarrow> ResolvedRule list \<Rightarrow> int" where
  "taxableBase i book =
     (if vehiclePriceCents i - taxCredit i book > 0 then vehiclePriceCents i - taxCredit i book else 0)"

definition firstPass :: "ScenarioInputs \<Rightarrow> ResolvedRule list \<Rightarrow> desk_run \<Rightarrow> desk_run" where
  "firstPass i book st =
     fold (applyRule (\<lambda>r. if appliesTo r = RT_taxable_amount then taxableBase i book else vehiclePriceCents i))
       (filter (\<lambda>r. isLineRule r \<and> appliesTo r \<noteq> RT_total) book) st"

definition secondPass :: "ScenarioInputs \<Rightarrow> ResolvedRule list \<Rightarrow> desk_run \<Rightarrow> desk_run" where
  "secondPass i book st =
     (let subtotalCents = vehiclePriceCents i + dr_tax st + dr_fee st
      in fold (applyRule (\<lambda>_. subtotalCents)) (filter (\<lambda>r. isLineRule r \<and> appliesTo r = RT_total) book) st)"

text \<open>Steps 1 to 6: everything but the monthly figure and the fingerprints.\<close>

definition runBook :: "ScenarioInputs \<Rightarrow> ResolvedRule list \<Rightarrow> desk_run" where
  "runBook i book =
     (let st1 = carAndTrade i emptyRun;
          st2 = (case creditRule book of None \<Rightarrow> st1 | Some r \<Rightarrow> applied r (taxCredit i book) st1);
          st4 = secondPass i book (firstPass i book st2)
      in if cashDownCents i \<noteq> 0
         then push LK_down_payment ''cash_down'' ''Cash down'' (- cashDownCents i) None None st4
         else st4)"

definition financed :: "ScenarioInputs \<Rightarrow> desk_run \<Rightarrow> int" where
  "financed i st =
     vehiclePriceCents i + dr_tax st + dr_fee st - dr_incentive st - cashDownCents i
       - (tradeAllowanceCents i - tradePayoffCents i)"

definition monthlyFigure :: "ScenarioInputs \<Rightarrow> int \<Rightarrow> int option desk" where
  "monthlyFigure i amount =
     (case (termMonths i, aprPpm i) of
        (Some t, Some a) \<Rightarrow> bindR (monthlyPayment amount t a) (\<lambda>p. Inr (Some p))
      | _ \<Rightarrow> Inr None)"

definition orCNull :: "('a \<Rightarrow> cval) \<Rightarrow> 'a option \<Rightarrow> cval" where
  "orCNull f x = (case x of None \<Rightarrow> CNull | Some y \<Rightarrow> f y)"

fun lineKindName :: "LineKind \<Rightarrow> string" where
  "lineKindName LK_price = ''price''"
| "lineKindName LK_trade = ''trade''"
| "lineKindName LK_tax = ''tax''"
| "lineKindName LK_fee = ''fee''"
| "lineKindName LK_incentive = ''incentive''"
| "lineKindName LK_down_payment = ''down_payment''"

definition inputRecord :: "ScenarioInputs \<Rightarrow> RuleApplication list \<Rightarrow> cval" where
  "inputRecord i apps = CObj
     [(''vehicle_price_cents'', CBig (vehiclePriceCents i)),
      (''trade_allowance_cents'', CBig (tradeAllowanceCents i)),
      (''trade_payoff_cents'', CBig (tradePayoffCents i)),
      (''cash_down_cents'', CBig (cashDownCents i)),
      (''term_months'', orCNull CNum (termMonths i)),
      (''apr_ppm'', orCNull CBig (aprPpm i)),
      (''currency'', CStr (currency i)),
      (''jurisdiction'', CStr (jurisdiction i)),
      (''priced_at'', CStr (pricedAt i)),
      (''rules'', CArr (map (\<lambda>a. CArr [CStr (appRuleId a), CNum (Fin (of_int (appRuleVersion a)))]) apps))]"

definition lineRecord :: "ComputedLine \<Rightarrow> cval" where
  "lineRecord l = CArr [CNum (Fin (of_nat (sequenceNo l))), CStr (lineKindName (lineKind l)),
     CStr (lineCode l), CBig (amountCents l)]"

definition outputRecord :: "ScenarioInputs \<Rightarrow> int \<Rightarrow> desk_run \<Rightarrow> int option \<Rightarrow> cval" where
  "outputRecord i taxable st monthly = CObj
     [(''trade_equity_cents'', CBig (tradeAllowanceCents i - tradePayoffCents i)),
      (''taxable_amount_cents'', CBig taxable),
      (''tax_total_cents'', CBig (dr_tax st)),
      (''fee_total_cents'', CBig (dr_fee st)),
      (''incentive_total_cents'', CBig (dr_incentive st)),
      (''amount_financed_cents'', CBig (financed i st)),
      (''monthly_payment_cents'', orCNull CBig monthly),
      (''lines'', CArr (map lineRecord (dr_lines st)))]"

definition computeScenario ::
  "(rat \<Rightarrow> string) \<Rightarrow> (string \<Rightarrow> string) \<Rightarrow> ScenarioInputs \<Rightarrow> ResolvedRule list \<Rightarrow> ComputedScenario desk" where
  "computeScenario nt sha i rules =
     (let book = ordered rules; st = runBook i book; taxable = taxableBase i book in
      bindR (monthlyFigure i (financed i st)) (\<lambda>monthly.
      bindR (fingerprint nt sha (inputRecord i (dr_applications st))) (\<lambda>inputFp.
      bindR (fingerprint nt sha (outputRecord i taxable st monthly)) (\<lambda>outputFp.
        Inr \<lparr>tradeEquityCents = tradeAllowanceCents i - tradePayoffCents i,
             taxableAmountCents = taxable, taxTotalCents = dr_tax st, feeTotalCents = dr_fee st,
             incentiveTotalCents = dr_incentive st, amountFinancedCents = financed i st,
             monthlyPaymentCents = monthly, csLines = dr_lines st, csApplications = dr_applications st,
             inputFingerprint = inputFp, outputFingerprint = outputFp\<rparr>))))"

text \<open>\<open>bigint\<close> division and remainder truncate towards zero.\<close>

definition bigDiv :: "int \<Rightarrow> int \<Rightarrow> int" where
  "bigDiv a b = (if a < 0 then - ((- a) div b) else a div b)"

definition bigRem :: "int \<Rightarrow> int \<Rightarrow> int" where
  "bigRem a b = a - b * bigDiv a b"

definition padStart4 :: "string \<Rightarrow> string" where
  "padStart4 s = replicate (4 - length s) (CHR ''0'') @ s"

definition ratePercent :: "int \<Rightarrow> string" where
  "ratePercent r =
     (let whole = bigDiv r (PPM div 100); part = bigDiv (bigRem r (PPM div 100) * 10000) (PPM div 100)
      in intText whole @ ''.'' @ padStart4 (intText part) @ ''%'')"

section \<open>The book of a run\<close>

definition lineTotal :: "LineKind \<Rightarrow> desk_run \<Rightarrow> int" where
  "lineTotal k st = sum_list (map amountCents (filter (\<lambda>l. lineKind l = k) (dr_lines st)))"

text \<open>The totals are those of the lines, and the lines are numbered from one.\<close>

definition well_kept :: "desk_run \<Rightarrow> bool" where
  "well_kept st =
     (map sequenceNo (dr_lines st) = [1..<Suc (length (dr_lines st))] \<and>
      dr_sequenceNo st = length (dr_lines st) \<and>
      dr_tax st = lineTotal LK_tax st \<and> dr_fee st = lineTotal LK_fee st \<and>
      dr_incentive st = - lineTotal LK_incentive st)"

text \<open>What the lines add up to beyond the totals of the rules.\<close>

definition beyondRules :: "desk_run \<Rightarrow> int" where
  "beyondRules st = sum_list (map amountCents (dr_lines st)) - (dr_tax st + dr_fee st - dr_incentive st)"

lemmas run_defs = well_kept_def beyondRules_def lineTotal_def push_def applied_def

lemma push_kept:
  "well_kept st \<Longrightarrow> k \<notin> {LK_tax, LK_fee, LK_incentive} \<Longrightarrow> well_kept (push k code label a rid ver st)"
  by (auto simp: run_defs)

lemma push_beyond: "beyondRules (push k code label a rid ver st) = beyondRules st + a"
  by (simp add: run_defs)

lemma applied_kept [simp]:
  "well_kept (applied r a st) = well_kept st" "beyondRules (applied r a st) = beyondRules st"
  by (simp_all add: run_defs)

lemma applyRule_kept:
  assumes "isLineRule r"
  shows "well_kept st \<Longrightarrow> well_kept (applyRule b r st)" and "beyondRules (applyRule b r st) = beyondRules st"
  using assms by (cases "ruleKind r"; auto simp: applyRule_def Let_def isLineRule_def run_defs)+

lemma fold_applyRule_kept:
  "\<forall>r \<in> set rs. isLineRule r \<Longrightarrow>
   (well_kept st \<longrightarrow> well_kept (fold (applyRule b) rs st)) \<and> beyondRules (fold (applyRule b) rs st) = beyondRules st"
  by (induction rs arbitrary: st) (simp_all add: applyRule_kept)

lemma firstPass_kept:
  "well_kept st \<Longrightarrow> well_kept (firstPass i book st)" "beyondRules (firstPass i book st) = beyondRules st"
  using fold_applyRule_kept [of "filter (\<lambda>r. isLineRule r \<and> appliesTo r \<noteq> RT_total) book"]
  by (simp_all add: firstPass_def)

lemma secondPass_kept:
  "well_kept st \<Longrightarrow> well_kept (secondPass i book st)" "beyondRules (secondPass i book st) = beyondRules st"
  using fold_applyRule_kept [of "filter (\<lambda>r. isLineRule r \<and> appliesTo r = RT_total) book"]
  by (simp_all add: secondPass_def Let_def)

lemma emptyRun_kept: "well_kept emptyRun" "beyondRules emptyRun = 0"
  by (simp_all add: run_defs emptyRun_def)

lemma runBook_kept: "well_kept (runBook i book)"
  unfolding runBook_def carAndTrade_def Let_def
  by (auto simp: push_kept firstPass_kept secondPass_kept emptyRun_kept split: option.splits)

lemma runBook_beyond:
  "beyondRules (runBook i book) =
     vehiclePriceCents i - (tradeAllowanceCents i - tradePayoffCents i) - cashDownCents i"
  unfolding runBook_def carAndTrade_def Let_def
  by (auto simp: push_beyond firstPass_kept secondPass_kept emptyRun_kept split: option.splits)

lemma computeScenario_fields:
  assumes "computeScenario nt sha i rules = Inr r"
  defines "book \<equiv> ordered rules"
  defines "st \<equiv> runBook i book"
  shows "csLines r = dr_lines st" "csApplications r = dr_applications st"
    "taxTotalCents r = dr_tax st" "feeTotalCents r = dr_fee st" "incentiveTotalCents r = dr_incentive st"
    "amountFinancedCents r = financed i st" "taxableAmountCents r = taxableBase i book"
    "tradeEquityCents r = tradeAllowanceCents i - tradePayoffCents i"
    "monthlyFigure i (financed i st) = Inr (monthlyPaymentCents r)"
    "fingerprint nt sha (inputRecord i (dr_applications st)) = Inr (inputFingerprint r)"
    "fingerprint nt sha (outputRecord i (taxableBase i book) st (monthlyPaymentCents r)) = Inr (outputFingerprint r)"
  using assms by (auto simp: computeScenario_def Let_def)

definition balanced :: "ComputedScenario \<Rightarrow> bool" where
  "balanced r =
     (amountFinancedCents r = sum_list (map amountCents (csLines r)) \<and>
      taxTotalCents r = sum_list (map amountCents (filter (\<lambda>l. lineKind l = LK_tax) (csLines r))) \<and>
      feeTotalCents r = sum_list (map amountCents (filter (\<lambda>l. lineKind l = LK_fee) (csLines r))) \<and>
      - incentiveTotalCents r = sum_list (map amountCents (filter (\<lambda>l. lineKind l = LK_incentive) (csLines r))) \<and>
      map sequenceNo (csLines r) = [1..<Suc (length (csLines r))])"

lemma computeScenario_balanced:
  assumes "computeScenario nt sha i rules = Inr r"
  shows "balanced r"
proof -
  note kept = runBook_kept [of i "ordered rules", unfolded well_kept_def lineTotal_def]
  have "amountFinancedCents r = sum_list (map amountCents (csLines r))"
    using runBook_beyond [of i "ordered rules"] computeScenario_fields [OF assms]
    by (simp add: beyondRules_def financed_def)
  moreover have "taxTotalCents r = sum_list (map amountCents (filter (\<lambda>l. lineKind l = LK_tax) (csLines r)))"
    "feeTotalCents r = sum_list (map amountCents (filter (\<lambda>l. lineKind l = LK_fee) (csLines r)))"
    "- incentiveTotalCents r = sum_list (map amountCents (filter (\<lambda>l. lineKind l = LK_incentive) (csLines r)))"
    "map sequenceNo (csLines r) = [1..<Suc (length (csLines r))]"
    using kept by (simp_all only: computeScenario_fields [OF assms] minus_minus)
  ultimately show ?thesis unfolding balanced_def by blast
qed

text \<open>
  C9. A scenario's figures are its lines: the amount financed is exactly what the lines add
  up to, each of the tax, fee and incentive totals is the sum of the lines of that kind, and
  the lines are numbered one after another from one.
\<close>

theorem scenario_balances:
  assumes "computeScenario nt sha i rules = Inr r"
  shows "amountFinancedCents r = sum_list (map amountCents (csLines r)) \<and>
    taxTotalCents r = sum_list (map amountCents (filter (\<lambda>l. lineKind l = LK_tax) (csLines r))) \<and>
    feeTotalCents r = sum_list (map amountCents (filter (\<lambda>l. lineKind l = LK_fee) (csLines r))) \<and>
    - incentiveTotalCents r = sum_list (map amountCents (filter (\<lambda>l. lineKind l = LK_incentive) (csLines r))) \<and>
    map sequenceNo (csLines r) = [1..<Suc (length (csLines r))]"
  using computeScenario_balanced [OF assms] unfolding balanced_def .

section \<open>The order of the rules\<close>

lemma filter_own_key: "distinct (map f zs) \<Longrightarrow> k \<in> set zs \<Longrightarrow> filter (\<lambda>x. f k = f x) zs = [k]"
proof (induction zs)
  case (Cons z zs)
  have "filter (\<lambda>x. f z = f x) zs = []"
    using Cons.prems(1) by (auto simp: filter_empty_conv image_iff)
  with Cons show ?case by (auto simp: image_iff)
qed simp

lemma sort_key_perm:
  assumes "mset xs = mset ys" and "distinct (map f xs)"
  shows "sort_key f xs = sort_key f ys"
proof -
  have ys: "distinct (map f ys)" using assms by (metis mset_eq_imp_distinct_iff mset_map)
  have sorted: "distinct (map f (sort_key f xs))" using assms(2) by (metis mset_eq_imp_distinct_iff mset_map mset_sort)
  have "set (sort_key f xs) = set ys" using assms(1) by (metis mset_eq_setD set_sort)
  then have "sort_key f ys = sort_key f xs"
    using assms(1) by (intro properties_for_sort_key) (simp_all add: filter_own_key ys sorted)
  then show ?thesis by simp
qed

lemma computeScenario_perm:
  assumes "mset rules = mset rules'" and "distinct (map ruleKey rules)"
  shows "computeScenario nt sha i rules = computeScenario nt sha i rules'"
  using sort_key_perm [OF assms] by (simp add: computeScenario_def ordered_def)

section \<open>When a scenario can be computed\<close>

lemma meaning_fingerprint: "(\<exists>t. fingerprint nt sha v = Inr t) \<longleftrightarrow> meaning v \<noteq> None"
  by (auto simp: fingerprint_def canonicalize_meaning)

lemma allSome_map: "(\<And>x. x \<in> set xs \<Longrightarrow> f x \<noteq> None) \<Longrightarrow> allSome (map f xs) = Some (map (the \<circ> f) xs)"
proof (induction xs)
  case (Cons x xs)
  obtain y where "f x = Some y" using Cons.prems [of x] by auto
  with Cons show ?case by simp
qed simp

lemma meaning_lineRecord:
  "meaning (lineRecord l) = Some (NArr [NNum (of_nat (sequenceNo l)), NStr (lineKindName (lineKind l)),
     NStr (lineCode l), NStr (intText (amountCents l))])"
  by (simp add: lineRecord_def)

lemma meaning_outputRecord:
  "meaning (outputRecord i taxable st monthly) = Some (NObj
     [(''amount_financed_cents'', NStr (intText (financed i st))),
      (''fee_total_cents'', NStr (intText (dr_fee st))),
      (''incentive_total_cents'', NStr (intText (dr_incentive st))),
      (''lines'', NArr (map (the \<circ> meaning \<circ> lineRecord) (dr_lines st))),
      (''monthly_payment_cents'', (case monthly of None \<Rightarrow> NNull | Some p \<Rightarrow> NStr (intText p))),
      (''tax_total_cents'', NStr (intText (dr_tax st))),
      (''taxable_amount_cents'', NStr (intText taxable)),
      (''trade_equity_cents'', NStr (intText (tradeAllowanceCents i - tradePayoffCents i)))])"
  using allSome_map [of "dr_lines st" "meaning \<circ> lineRecord"]
  by (simp add: outputRecord_def orCNull_def meaning_lineRecord comp_def split: option.splits)

lemma meaning_inputRecord:
  "meaning (inputRecord i apps) \<noteq> None \<longleftrightarrow> (case termMonths i of Some t \<Rightarrow> numIsFinite t | None \<Rightarrow> True)"
proof -
  have "allSome (map (\<lambda>a. meaning (CArr [CStr (appRuleId a), CNum (Fin (of_int (appRuleVersion a)))])) apps)
      = Some (map (the \<circ> (\<lambda>a. meaning (CArr [CStr (appRuleId a), CNum (Fin (of_int (appRuleVersion a)))]))) apps)"
    by (rule allSome_map) simp
  then show ?thesis
    by (auto simp: inputRecord_def orCNull_def comp_def split: option.splits jsnum.splits)
qed

lemma scenario_returns:
  "(\<exists>r. computeScenario nt sha i rules = Inr r) \<longleftrightarrow>
     (case (termMonths i, aprPpm i) of
        (Some t, Some a) \<Rightarrow> wholeMonths t \<noteq> None \<and> 0 \<le> a
      | (Some t, None) \<Rightarrow> numIsFinite t
      | (None, _) \<Rightarrow> True)"
proof -
  let ?st = "runBook i (ordered rules)" and ?b = "taxableBase i (ordered rules)"
  have out: "\<exists>t. fingerprint nt sha (outputRecord i ?b ?st m) = Inr t" for m
    unfolding meaning_fingerprint by (simp add: meaning_outputRecord)
  have inp: "(\<exists>t. fingerprint nt sha (inputRecord i (dr_applications ?st)) = Inr t) \<longleftrightarrow>
      (case termMonths i of Some t \<Rightarrow> numIsFinite t | None \<Rightarrow> True)"
    unfolding meaning_fingerprint by (rule meaning_inputRecord)
  have month: "(\<exists>m. monthlyFigure i x = Inr m) \<longleftrightarrow>
      (case (termMonths i, aprPpm i) of (Some t, Some a) \<Rightarrow> wholeMonths t \<noteq> None \<and> 0 \<le> a | _ \<Rightarrow> True)" for x
    by (auto simp: monthlyFigure_def monthlyPayment_def split: option.splits)
  have fin: "wholeMonths t \<noteq> None \<Longrightarrow> numIsFinite t" for t by (cases t) auto
  have "(\<exists>r. computeScenario nt sha i rules = Inr r) \<longleftrightarrow>
      (\<exists>m. monthlyFigure i (financed i ?st) = Inr m) \<and>
      (\<exists>t. fingerprint nt sha (inputRecord i (dr_applications ?st)) = Inr t)"
    using out by (simp add: computeScenario_def Let_def) blast
  then show ?thesis unfolding inp month using fin by (auto split: option.splits)
qed

text \<open>
  The calculator refuses exactly what it cannot price: it returns a scenario unless a term
  and a rate were both given and the term is not a whole number of 1 to 120 months or the rate
  is negative, or a term that is no number at all was given without a rate.
\<close>

theorem scenario_returns_iff:
  "(\<exists>r. computeScenario nt sha i rules = Inr r) \<longleftrightarrow>
     (case (termMonths i, aprPpm i) of
        (Some t, Some a) \<Rightarrow> wholeMonths t \<noteq> None \<and> 0 \<le> a
      | (Some t, None) \<Rightarrow> numIsFinite t
      | (None, _) \<Rightarrow> True)"
  by (rule scenario_returns)

section \<open>What a fingerprint stands for\<close>

definition figures :: "ComputedScenario \<Rightarrow>
  int list \<times> int option \<times> (nat \<times> LineKind \<times> string \<times> int) list" where
  "figures r =
     ([tradeEquityCents r, taxableAmountCents r, taxTotalCents r, feeTotalCents r, incentiveTotalCents r,
       amountFinancedCents r], monthlyPaymentCents r,
      map (\<lambda>l. (sequenceNo l, lineKind l, lineCode l, amountCents l)) (csLines r))"

lemma intText_eq: "intText i = intText j \<longleftrightarrow> i = j"
  using intText_inj by blast

lemma lineKindName_eq: "lineKindName a = lineKindName b \<longleftrightarrow> a = b"
  by (cases a; cases b) simp_all

lemma monthly_content_eq:
  "(case m of None \<Rightarrow> NNull | Some p \<Rightarrow> NStr (intText p)) =
   (case m' of None \<Rightarrow> NNull | Some p \<Rightarrow> NStr (intText p)) \<longleftrightarrow> m = m'"
  by (auto simp: intText_eq split: option.splits)

lemma map_eq_coarser:
  assumes "map f xs = map f ys" and "\<And>x y. f x = f y \<Longrightarrow> g x = g y"
  shows "map g xs = map g ys"
  using map_eq_imp_length_eq [OF assms(1)] assms(1)
proof (induction xs ys rule: list_induct2)
  case (Cons x xs y ys)
  then show ?case using assms(2) [of x y] by simp
qed simp

lemma line_contents_eq:
  assumes "map (the \<circ> meaning \<circ> lineRecord) ls = map (the \<circ> meaning \<circ> lineRecord) ls'"
  shows "map (\<lambda>l. (sequenceNo l, lineKind l, lineCode l, amountCents l)) ls =
         map (\<lambda>l. (sequenceNo l, lineKind l, lineCode l, amountCents l)) ls'"
  using assms
  by (rule map_eq_coarser) (simp add: meaning_lineRecord intText_eq lineKindName_eq)

text \<open>The text a scenario's output fingerprint is the digest of.\<close>

definition sealedText :: "(rat \<Rightarrow> string) \<Rightarrow> ScenarioInputs \<Rightarrow> ResolvedRule list \<Rightarrow> ComputedScenario \<Rightarrow> string desk" where
  "sealedText nt i rules r =
     canonicalize nt (outputRecord i (taxableBase i (ordered rules)) (runBook i (ordered rules)) (monthlyPaymentCents r))"

lemma outputFingerprint_sealed:
  "computeScenario nt sha i rules = Inr r \<Longrightarrow> \<exists>t. sealedText nt i rules r = Inr t \<and> outputFingerprint r = sha t"
  using computeScenario_fields(11) [of nt sha i rules r] by (auto simp: fingerprint_def sealedText_def)

lemma sealed_figures:
  assumes "number_text nt"
    and "computeScenario nt sha i rules = Inr r" and "computeScenario nt sha i' rules' = Inr r'"
    and "sealedText nt i rules r = Inr t" and "sealedText nt i' rules' r' = Inr t"
  shows "figures r = figures r'"
proof -
  let ?st = "runBook i (ordered rules)" and ?st' = "runBook i' (ordered rules')"
  let ?v = "outputRecord i (taxableBase i (ordered rules)) ?st (monthlyPaymentCents r)"
  let ?w = "outputRecord i' (taxableBase i' (ordered rules')) ?st' (monthlyPaymentCents r')"
  from canonicalize_same [OF assms(1), of ?v t ?w] assms(4,5) have "meaning ?w = meaning ?v"
    by (simp add: sealedText_def)
  then have same: "financed i' ?st' = financed i ?st" "dr_fee ?st' = dr_fee ?st" "dr_tax ?st' = dr_tax ?st"
    "dr_incentive ?st' = dr_incentive ?st" "monthlyPaymentCents r' = monthlyPaymentCents r"
    "taxableBase i' (ordered rules') = taxableBase i (ordered rules)"
    "tradeAllowanceCents i' - tradePayoffCents i' = tradeAllowanceCents i - tradePayoffCents i"
    and lines: "map (the \<circ> meaning \<circ> lineRecord) (dr_lines ?st') = map (the \<circ> meaning \<circ> lineRecord) (dr_lines ?st)"
    by (simp_all only: meaning_outputRecord option.inject content.inject list.inject prod.inject
        intText_eq monthly_content_eq)
  show "figures r = figures r'"
    unfolding figures_def computeScenario_fields(1,3-8) [OF assms(2)] computeScenario_fields(1,3-8) [OF assms(3)]
      same line_contents_eq [OF lines] ..
qed

text \<open>
  A fingerprint pins the figures: two scenarios with the same output fingerprint have the
  same figures and the same lines, unless the two texts that were digested are themselves a
  collision of the digest.  This is what lets an approval name a version by its fingerprint.
\<close>

theorem fingerprint_pins_figures:
  assumes "number_text nt"
    and "computeScenario nt sha i rules = Inr r" and "computeScenario nt sha i' rules' = Inr r'"
    and "outputFingerprint r = outputFingerprint r'"
  shows "figures r = figures r' \<or>
    (\<exists>a b. sealedText nt i rules r = Inr a \<and> sealedText nt i' rules' r' = Inr b \<and> a \<noteq> b \<and> sha a = sha b)"
  using outputFingerprint_sealed [OF assms(2)] outputFingerprint_sealed [OF assms(3)]
    sealed_figures [OF assms(1-3)] assms(4) by metis

section \<open>A worked deal\<close>

text \<open>
  A car at $250.00 with a $100.00 trade owing $40.00, a 6.5 percent tax on the taxable base
  with a full trade credit, a flat fee, a percentage fee on the total, and $10.00 down.
\<close>

definition deskRule :: "RuleKind \<Rightarrow> string \<Rightarrow> RuleBasis \<Rightarrow> int \<Rightarrow> RuleTarget \<Rightarrow> ResolvedRule" where
  "deskRule kind code basis n target =
     \<lparr>ruleId = code, ruleKind = kind, ruleCode = code, ruleLabel = code, ruleSource = ''statute'',
      ruleJurisdiction = ''US-XX'', rooftopScoped = False, ruleVersion = 1,
      effectiveFrom = ''2026-01-01T00:00:00.000Z'', effectiveTo = None, ruleBasis = basis,
      ratePpm = (if basis = RB_rate_ppm then Some n else None),
      ruleAmountCents = (if basis = RB_flat_amount then Some n else None), appliesTo = target\<rparr>"

definition deskBook :: "ResolvedRule list" where
  "deskBook =
     [deskRule RK_fee ''title'' RB_flat_amount 1500 RT_vehicle_price,
      deskRule RK_tax ''sales'' RB_rate_ppm 65000 RT_taxable_amount,
      deskRule RK_fee ''doc'' RB_rate_ppm 10000 RT_total,
      deskRule RK_policy TRADE_TAX_CREDIT RB_rate_ppm 1000000 RT_taxable_amount]"

definition deskDeal :: ScenarioInputs where
  "deskDeal = \<lparr>vehiclePriceCents = 25000, tradeAllowanceCents = 10000, tradePayoffCents = 4000,
     cashDownCents = 1000, termMonths = None, aprPpm = None, currency = ''USD'',
     jurisdiction = ''US-XX'', pricedAt = ''2026-02-01T00:00:00.000Z''\<rparr>"

lemma deskDeal_priced: "\<exists>r. computeScenario fractionText id deskDeal deskBook = Inr r"
  by (simp add: scenario_returns deskDeal_def)

theorem scenario_balances_witness:
  "\<exists>r. computeScenario fractionText id deskDeal deskBook = Inr r \<and>
       amountFinancedCents r = 20750 \<and> sum_list (map amountCents (csLines r)) = 20750"
proof -
  obtain r where r: "computeScenario fractionText id deskDeal deskBook = Inr r"
    using deskDeal_priced by blast
  have "financed deskDeal (runBook deskDeal (ordered deskBook)) = 20750" by code_simp
  then have "amountFinancedCents r = 20750" using computeScenario_fields(6) [OF r] by simp
  with scenario_balances [OF r] r show ?thesis by simp
qed

theorem fingerprint_pins_figures_witness:
  "\<exists>r r'. computeScenario fractionText id deskDeal deskBook = Inr r \<and>
     computeScenario fractionText id (deskDeal\<lparr>currency := ''CAD''\<rparr>) (rev deskBook) = Inr r' \<and>
     outputFingerprint r = outputFingerprint r' \<and> figures r = figures r'"
proof -
  let ?deal = "deskDeal\<lparr>currency := ''CAD''\<rparr>"
  obtain r where r: "computeScenario fractionText id deskDeal deskBook = Inr r"
    using deskDeal_priced by blast
  obtain r' where r': "computeScenario fractionText id ?deal (rev deskBook) = Inr r'"
    using scenario_returns [of fractionText id ?deal "rev deskBook"] by (auto simp: deskDeal_def)
  have "monthlyPaymentCents r = None" "monthlyPaymentCents r' = None"
    using computeScenario_fields(9) [OF r] computeScenario_fields(9) [OF r']
    by (auto simp: monthlyFigure_def deskDeal_def)
  moreover have "outputRecord deskDeal (taxableBase deskDeal (ordered deskBook))
      (runBook deskDeal (ordered deskBook)) None =
    outputRecord ?deal (taxableBase ?deal (ordered (rev deskBook))) (runBook ?deal (ordered (rev deskBook))) None"
    by code_simp
  ultimately have "outputFingerprint r = outputFingerprint r'"
    using computeScenario_fields(11) [OF r] computeScenario_fields(11) [OF r'] by simp
  with fingerprint_pins_figures [OF fractionText_number r r'] r r' show ?thesis by auto
qed

end
