(* ===== verification/DeskReference.thy ===== *)
theory DeskReference
  imports DeskCalculator
begin

text \<open>
  An order-free account of the calculator: its figures as sums over the rules, whatever order
  the book is handed over in, and the order in which the rules' lines are written.
\<close>

section \<open>The reference\<close>

text \<open>A rule of the first pass is computed on the car's price or on the taxable amount.\<close>

definition firstShare :: "ScenarioInputs \<Rightarrow> int \<Rightarrow> ResolvedRule \<Rightarrow> int" where
  "firstShare i taxable r =
     magnitude r (if appliesTo r = RT_taxable_amount then taxable else vehiclePriceCents i)"

definition firstTotal :: "RuleKind \<Rightarrow> ScenarioInputs \<Rightarrow> int \<Rightarrow> ResolvedRule list \<Rightarrow> int" where
  "firstTotal k i taxable rules =
     (\<Sum>r \<leftarrow> rules. if ruleKind r = k \<and> appliesTo r \<noteq> RT_total then firstShare i taxable r else 0)"

text \<open>A rule of the second pass, on the price with the taxes and fees of the first.\<close>

definition subtotalOf :: "ScenarioInputs \<Rightarrow> int \<Rightarrow> ResolvedRule list \<Rightarrow> int" where
  "subtotalOf i taxable rules =
     vehiclePriceCents i + firstTotal RK_tax i taxable rules + firstTotal RK_fee i taxable rules"

definition refTotal :: "RuleKind \<Rightarrow> ScenarioInputs \<Rightarrow> int \<Rightarrow> ResolvedRule list \<Rightarrow> int" where
  "refTotal k i taxable rules = firstTotal k i taxable rules +
     (\<Sum>r \<leftarrow> rules. if ruleKind r = k \<and> appliesTo r = RT_total then magnitude r (subtotalOf i taxable rules) else 0)"

definition isTradeCredit :: "ResolvedRule \<Rightarrow> bool" where
  "isTradeCredit r = (ruleKind r = RK_policy \<and> ruleCode r = TRADE_TAX_CREDIT \<and> ruleBasis r = RB_rate_ppm)"

text \<open>Taxes come before fees and fees before incentives; then by code, and then by version.\<close>

definition comesBefore :: "ResolvedRule \<Rightarrow> ResolvedRule \<Rightarrow> bool" where
  "comesBefore r r' =
     (ruleKind r = RK_tax \<and> ruleKind r' \<in> {RK_fee, RK_incentive} \<or> ruleKind r = RK_fee \<and> ruleKind r' = RK_incentive \<or>
      ruleKind r = ruleKind r' \<and> (ruleCode r < ruleCode r' \<or> ruleCode r = ruleCode r' \<and> ruleVersion r < ruleVersion r'))"

text \<open>What a rule puts on its line, given its amount.\<close>

definition lineOf :: "ResolvedRule \<Rightarrow> int \<Rightarrow> LineKind \<times> string \<times> string \<times> int \<times> string option \<times> int option" where
  "lineOf r amount =
     (lineKindOf (ruleKind r), ruleCode r, ruleLabel r, if ruleKind r = RK_incentive then - amount else amount,
      Some (ruleId r), Some (ruleVersion r))"

definition ruleLines :: "ComputedLine list \<Rightarrow> (LineKind \<times> string \<times> string \<times> int \<times> string option \<times> int option) list" where
  "ruleLines ls = map (\<lambda>l. (lineKind l, lineCode l, lineLabel l, amountCents l, lineRuleId l, lineRuleVersion l))
     (filter (\<lambda>l. lineRuleId l \<noteq> None) ls)"

section \<open>The sorted book\<close>

lemma rank_inj: "rank k = rank k' \<longleftrightarrow> k = k'"
  by (cases k; cases k') simp_all

lemma distinct_keys:
  assumes "distinct (map (\<lambda>r. (ruleKind r, ruleCode r, ruleVersion r)) rules)"
  shows "distinct (map ruleKey rules)"
proof -
  let ?f = "\<lambda>r. (ruleKind r, ruleCode r, ruleVersion r)" and ?g = "\<lambda>(k, c, n :: int). (rank k, c :: string, n)"
  have "inj_on ?g (set (map ?f rules))" by (rule inj_onI) (auto simp: rank_inj)
  then have "distinct (map ?g (map ?f rules))" using assms distinct_map [of ?g "map ?f rules"] by blast
  then show ?thesis by (simp add: ruleKey_def [abs_def] comp_def)
qed

lemma ordered_strict:
  assumes "distinct (map ruleKey rules)"
  shows "sorted_wrt (\<lambda>r r'. ruleKey r < ruleKey r') (ordered rules)"
proof -
  have "distinct (map ruleKey (ordered rules))"
    unfolding ordered_def using assms by (metis mset_eq_imp_distinct_iff mset_map mset_sort)
  then have "sorted_wrt (<) (map ruleKey (ordered rules))" by (simp add: strict_sorted_iff ordered_def)
  then show ?thesis by (simp add: sorted_wrt_map)
qed

lemma ruleKey_before:
  assumes "ruleKey r < ruleKey r'" "isLineRule r" "isLineRule r'"
  shows "comesBefore r r'"
  using assms by (cases "ruleKind r"; cases "ruleKind r'") (auto simp: comesBefore_def ruleKey_def isLineRule_def)

lemma ordered_before:
  assumes "distinct (map ruleKey rules)" "\<And>r. P r \<Longrightarrow> isLineRule r"
  shows "sorted_wrt comesBefore (filter P (ordered rules))"
  by (rule sorted_wrt_mono_rel [OF _ sorted_wrt_filter [OF ordered_strict [OF assms(1)]]])
    (use assms(2) ruleKey_before in auto)

lemma ordered_perm: "mset (ordered rules) = mset rules"
  by (simp add: ordered_def)

lemma ordered_sum: "(\<Sum>r \<leftarrow> ordered rules. f r :: int) = (\<Sum>r \<leftarrow> rules. f r)"
  by (metis ordered_perm mset_map sum_mset_sum_list)

lemma find_first:
  "find P xs = Some r \<Longrightarrow> sorted_wrt R xs \<Longrightarrow> x \<in> set xs \<Longrightarrow> P x \<Longrightarrow> x = r \<or> R r x"
  by (induction xs) (auto split: if_splits dest: find_SomeD)

lemma creditRule_least:
  assumes "distinct (map ruleKey rules)" "r \<in> set rules" "isTradeCredit r"
    and "\<forall>x \<in> set rules. isTradeCredit x \<longrightarrow> ruleVersion r \<le> ruleVersion x"
  shows "creditRule (ordered rules) = Some r"
proof -
  have set: "set (ordered rules) = set rules" by (simp add: ordered_def)
  have find: "creditRule (ordered rules) = find isTradeCredit (ordered rules)"
    by (simp add: creditRule_def isTradeCredit_def [abs_def])
  then obtain c where c: "creditRule (ordered rules) = Some c" using assms(2,3) set by (fastforce simp: find_None_iff)
  then have found: "isTradeCredit c" "c \<in> set rules" unfolding find using set by (auto dest: find_SomeD)
  have "r = c \<or> ruleKey c < ruleKey r"
    using find_first [OF c [unfolded find] ordered_strict [OF assms(1)]] assms(2,3) set by simp
  moreover have "ruleVersion r \<le> ruleVersion c" using assms(4) found by blast
  ultimately have "r = c" using found(1) assms(3) by (auto simp: ruleKey_def isTradeCredit_def)
  with c show ?thesis by simp
qed

lemma creditRule_none: "\<forall>r \<in> set rules. \<not> isTradeCredit r \<Longrightarrow> creditRule (ordered rules) = None"
  by (auto simp: creditRule_def isTradeCredit_def find_None_iff ordered_def)

section \<open>The passes\<close>

fun totalOf :: "RuleKind \<Rightarrow> desk_run \<Rightarrow> int" where
  "totalOf RK_tax st = dr_tax st"
| "totalOf RK_fee st = dr_fee st"
| "totalOf _ st = dr_incentive st"

definition bookKind :: "RuleKind \<Rightarrow> bool" where
  "bookKind k = (k \<in> {RK_tax, RK_fee, RK_incentive})"

lemma applyRule_total:
  "isLineRule r \<Longrightarrow> bookKind k \<Longrightarrow>
   totalOf k (applyRule b r st) = totalOf k st + (if ruleKind r = k then magnitude r (b r) else 0)"
  by (cases "ruleKind r"; cases k) (auto simp: applyRule_def Let_def isLineRule_def bookKind_def push_def applied_def)

lemma fold_total:
  "\<forall>r \<in> set rs. isLineRule r \<Longrightarrow> bookKind k \<Longrightarrow>
   totalOf k (fold (applyRule b) rs st) = totalOf k st + (\<Sum>r \<leftarrow> rs. if ruleKind r = k then magnitude r (b r) else 0)"
  by (induction rs arbitrary: st) (simp_all add: applyRule_total)

lemma sum_filter:
  "(\<And>r. ruleKind r = k \<Longrightarrow> isLineRule r) \<Longrightarrow>
   (\<Sum>r \<leftarrow> filter (\<lambda>r. isLineRule r \<and> P r) rs. if ruleKind r = k then f r else 0) =
   (\<Sum>r \<leftarrow> rs. if ruleKind r = k \<and> P r then f r else 0 :: int)"
  by (induction rs) auto

lemma bookKind_line: "bookKind k \<Longrightarrow> ruleKind r = k \<Longrightarrow> isLineRule r"
  by (simp add: bookKind_def isLineRule_def)

lemma firstPass_total:
  assumes "bookKind k"
  shows "totalOf k (firstPass i book st) = totalOf k st + firstTotal k i (taxableBase i book) book"
  unfolding firstPass_def firstTotal_def firstShare_def
  by (simp add: fold_total [OF _ assms] sum_filter bookKind_line [OF assms])

lemma secondPass_total:
  assumes "bookKind k"
  shows "totalOf k (secondPass i book st) = totalOf k st +
    (\<Sum>r \<leftarrow> book. if ruleKind r = k \<and> appliesTo r = RT_total then magnitude r (vehiclePriceCents i + dr_tax st + dr_fee st) else 0)"
  unfolding secondPass_def Let_def
  by (simp add: fold_total [OF _ assms] sum_filter bookKind_line [OF assms])

lemma applyRule_lines:
  "ruleLines (dr_lines (applyRule b r st)) = ruleLines (dr_lines st) @ [lineOf r (magnitude r (b r))]"
  by (cases "ruleKind r") (auto simp: applyRule_def Let_def push_def applied_def ruleLines_def lineOf_def)

lemma fold_lines:
  "ruleLines (dr_lines (fold (applyRule b) rs st)) = ruleLines (dr_lines st) @ map (\<lambda>r. lineOf r (magnitude r (b r))) rs"
  by (induction rs arbitrary: st) (simp_all add: applyRule_lines)

lemma push_lines [simp]: "ruleLines (dr_lines (push k c l a None n st)) = ruleLines (dr_lines st)"
  by (simp add: push_def ruleLines_def)

lemma outside_totals [simp]:
  "totalOf k (push lk c l a rid n st) = totalOf k st" "totalOf k (applied r x st) = totalOf k st"
  "dr_lines (applied r x st) = dr_lines st"
  by (cases k; simp add: push_def applied_def)+

lemma before_book:
  "totalOf k (carAndTrade i emptyRun) = 0" "ruleLines (dr_lines (carAndTrade i emptyRun)) = []"
  by (cases k; simp add: carAndTrade_def Let_def emptyRun_def ruleLines_def push_def)+

text \<open>The state the two passes start from.\<close>

lemma runBook_passes:
  obtains st where "totalOf RK_tax st = 0" "totalOf RK_fee st = 0" "totalOf RK_incentive st = 0" "ruleLines (dr_lines st) = []"
    "\<And>k. totalOf k (runBook i book) = totalOf k (secondPass i book (firstPass i book st))"
    "ruleLines (dr_lines (runBook i book)) = ruleLines (dr_lines (secondPass i book (firstPass i book st)))"
proof
  let ?st = "case creditRule book of None \<Rightarrow> carAndTrade i emptyRun | Some r \<Rightarrow> applied r (taxCredit i book) (carAndTrade i emptyRun)"
  show "totalOf RK_tax ?st = 0" "totalOf RK_fee ?st = 0" "totalOf RK_incentive ?st = 0" "ruleLines (dr_lines ?st) = []"
    by (cases "creditRule book"; simp only: option.case outside_totals before_book)+
  show "totalOf k (runBook i book) = totalOf k (secondPass i book (firstPass i book ?st))" for k
    by (simp add: runBook_def Let_def)
  show "ruleLines (dr_lines (runBook i book)) = ruleLines (dr_lines (secondPass i book (firstPass i book ?st)))"
    by (simp add: runBook_def Let_def)
qed

lemma runBook_total:
  assumes "bookKind k"
  shows "totalOf k (runBook i book) = refTotal k i (taxableBase i book) book"
proof -
  obtain st where st: "totalOf RK_tax st = 0" "totalOf RK_fee st = 0" "totalOf RK_incentive st = 0"
    and run: "totalOf k (runBook i book) = totalOf k (secondPass i book (firstPass i book st))"
    using runBook_passes [of i book] by metis
  have "totalOf k st = 0" using st assms by (auto simp: bookKind_def)
  moreover have "dr_tax (firstPass i book st) = firstTotal RK_tax i (taxableBase i book) book"
    "dr_fee (firstPass i book st) = firstTotal RK_fee i (taxableBase i book) book"
    using firstPass_total [of RK_tax i book st] firstPass_total [of RK_fee i book st] st by (simp_all add: bookKind_def)
  ultimately show ?thesis
    by (simp add: run secondPass_total [OF assms] firstPass_total [OF assms] refTotal_def subtotalOf_def cong: if_cong)
qed

lemma runBook_lines:
  "ruleLines (dr_lines (runBook i book)) =
     map (\<lambda>r. lineOf r (firstShare i (taxableBase i book) r)) (filter (\<lambda>r. isLineRule r \<and> appliesTo r \<noteq> RT_total) book) @
     map (\<lambda>r. lineOf r (magnitude r (subtotalOf i (taxableBase i book) book))) (filter (\<lambda>r. isLineRule r \<and> appliesTo r = RT_total) book)"
proof -
  obtain st where st: "totalOf RK_tax st = 0" "totalOf RK_fee st = 0" "ruleLines (dr_lines st) = []"
    and run: "ruleLines (dr_lines (runBook i book)) = ruleLines (dr_lines (secondPass i book (firstPass i book st)))"
    using runBook_passes [of i book] by metis
  have "dr_tax (firstPass i book st) = firstTotal RK_tax i (taxableBase i book) book"
    "dr_fee (firstPass i book st) = firstTotal RK_fee i (taxableBase i book) book"
    using firstPass_total [of RK_tax i book st] firstPass_total [of RK_fee i book st] st by (simp_all add: bookKind_def)
  then show ?thesis
    unfolding run by (simp add: secondPass_def firstPass_def fold_lines st(3) firstShare_def [abs_def] subtotalOf_def Let_def)
qed

lemma subtotalOf_ordered: "subtotalOf i taxable (ordered rules) = subtotalOf i taxable rules"
  by (simp add: subtotalOf_def firstTotal_def ordered_sum)

lemma refTotal_ordered: "refTotal k i taxable (ordered rules) = refTotal k i taxable rules"
  by (simp only: refTotal_def firstTotal_def subtotalOf_ordered ordered_sum)

section \<open>The calculator against the reference\<close>

lemma computeScenario_taxable:
  assumes "distinct (map ruleKey rules)" "computeScenario nt sha i rules = Inr sc"
    and "r \<in> set rules" "isTradeCredit r" "\<forall>x \<in> set rules. isTradeCredit x \<longrightarrow> ruleVersion r \<le> ruleVersion x"
  shows "taxableAmountCents sc = max 0 (vehiclePriceCents i - applyRate (tradeAllowanceCents i) (orZero (ratePpm r)))"
  using computeScenario_fields(7) [OF assms(2)] creditRule_least [OF assms(1,3-5)] by (simp add: taxableBase_def taxCredit_def max_def)

lemma computeScenario_untaxed:
  assumes "computeScenario nt sha i rules = Inr sc" "\<forall>r \<in> set rules. \<not> isTradeCredit r"
  shows "taxableAmountCents sc = max 0 (vehiclePriceCents i)"
  using computeScenario_fields(7) [OF assms(1)] creditRule_none [OF assms(2)] by (simp add: taxableBase_def taxCredit_def max_def)

lemma computeScenario_totals:
  assumes "computeScenario nt sha i rules = Inr sc"
  shows "taxTotalCents sc = refTotal RK_tax i (taxableAmountCents sc) rules"
    "feeTotalCents sc = refTotal RK_fee i (taxableAmountCents sc) rules"
    "incentiveTotalCents sc = refTotal RK_incentive i (taxableAmountCents sc) rules"
  using runBook_total [of RK_tax i "ordered rules"] runBook_total [of RK_fee i "ordered rules"]
    runBook_total [of RK_incentive i "ordered rules"] computeScenario_fields [OF assms]
  by (simp_all add: bookKind_def refTotal_ordered)

lemma computeScenario_lines:
  assumes "computeScenario nt sha i rules = Inr sc"
  shows "ruleLines (csLines sc) =
     map (\<lambda>r. lineOf r (firstShare i (taxableAmountCents sc) r)) (filter (\<lambda>r. isLineRule r \<and> appliesTo r \<noteq> RT_total) (ordered rules)) @
     map (\<lambda>r. lineOf r (magnitude r (subtotalOf i (taxableAmountCents sc) rules)))
       (filter (\<lambda>r. isLineRule r \<and> appliesTo r = RT_total) (ordered rules))"
  using runBook_lines [of i "ordered rules"] computeScenario_fields [OF assms] by (simp add: subtotalOf_ordered)

text \<open>
  C35. The calculator is a function of the rules and not of the order they are handed over in.
  For a book no two rules of which agree in kind, code and version, every permutation gives the
  same answer, and a scenario's figures are the order-free reference's: the taxable amount is
  the price less the trade credit of the least version, never below zero; each of the tax, fee
  and incentive totals is the sum over the rules of that kind, first on the price or the taxable
  amount, then on the price with the first taxes and fees.  The rules' lines are written pass
  by pass, each with its rule's own figure, taxes before fees before incentives, then by code
  and by version.
\<close>

theorem scenario_matches_reference:
  assumes "distinct (map (\<lambda>r. (ruleKind r, ruleCode r, ruleVersion r)) rules)" "mset rules = mset rules'"
  shows "computeScenario nt sha i rules' = computeScenario nt sha i rules \<and>
    (\<forall>sc taxable. computeScenario nt sha i rules = Inr sc \<and> taxable = taxableAmountCents sc \<longrightarrow>
      ((\<forall>r \<in> set rules. \<not> isTradeCredit r) \<longrightarrow> taxable = max 0 (vehiclePriceCents i)) \<and>
      (\<forall>r \<in> set rules. isTradeCredit r \<and> (\<forall>x \<in> set rules. isTradeCredit x \<longrightarrow> ruleVersion r \<le> ruleVersion x) \<longrightarrow>
         taxable = max 0 (vehiclePriceCents i - applyRate (tradeAllowanceCents i) (orZero (ratePpm r)))) \<and>
      taxTotalCents sc = refTotal RK_tax i taxable rules \<and> feeTotalCents sc = refTotal RK_fee i taxable rules \<and>
      incentiveTotalCents sc = refTotal RK_incentive i taxable rules \<and>
      (\<exists>first second. mset first = mset (filter (\<lambda>r. isLineRule r \<and> appliesTo r \<noteq> RT_total) rules) \<and> sorted_wrt comesBefore first \<and>
         mset second = mset (filter (\<lambda>r. isLineRule r \<and> appliesTo r = RT_total) rules) \<and> sorted_wrt comesBefore second \<and>
         ruleLines (csLines sc) = map (\<lambda>r. lineOf r (firstShare i taxable r)) first @
           map (\<lambda>r. lineOf r (magnitude r (subtotalOf i taxable rules))) second))"
proof (intro conjI allI impI; (elim conjE)?)
  note keys = distinct_keys [OF assms(1)]
  show "computeScenario nt sha i rules' = computeScenario nt sha i rules" using computeScenario_perm [OF assms(2) keys] by simp
  fix sc taxable assume sc: "computeScenario nt sha i rules = Inr sc" and tx: "taxable = taxableAmountCents sc"
  show "taxable = max 0 (vehiclePriceCents i)" if "\<forall>r \<in> set rules. \<not> isTradeCredit r"
    using computeScenario_untaxed [OF sc that] tx by simp
  show "\<forall>r \<in> set rules. isTradeCredit r \<and> (\<forall>x \<in> set rules. isTradeCredit x \<longrightarrow> ruleVersion r \<le> ruleVersion x) \<longrightarrow>
      taxable = max 0 (vehiclePriceCents i - applyRate (tradeAllowanceCents i) (orZero (ratePpm r)))"
    using computeScenario_taxable [OF keys sc] tx by blast
  show "taxTotalCents sc = refTotal RK_tax i taxable rules" "feeTotalCents sc = refTotal RK_fee i taxable rules"
    "incentiveTotalCents sc = refTotal RK_incentive i taxable rules"
    unfolding tx by (rule computeScenario_totals [OF sc])+
  show "\<exists>first second. mset first = mset (filter (\<lambda>r. isLineRule r \<and> appliesTo r \<noteq> RT_total) rules) \<and> sorted_wrt comesBefore first \<and>
     mset second = mset (filter (\<lambda>r. isLineRule r \<and> appliesTo r = RT_total) rules) \<and> sorted_wrt comesBefore second \<and>
     ruleLines (csLines sc) = map (\<lambda>r. lineOf r (firstShare i taxable r)) first @
       map (\<lambda>r. lineOf r (magnitude r (subtotalOf i taxable rules))) second"
    unfolding tx computeScenario_lines [OF sc]
    by (intro exI [of _ "filter (\<lambda>r. isLineRule r \<and> appliesTo r \<noteq> RT_total) (ordered rules)"]
        exI [of _ "filter (\<lambda>r. isLineRule r \<and> appliesTo r = RT_total) (ordered rules)"] conjI ordered_before [OF keys] refl)
      (simp_all add: ordered_perm)
qed

text \<open>Two taxes of one code, the later version handed over first.\<close>

definition twoTaxes :: "ResolvedRule list" where
  "twoTaxes = (deskRule RK_tax ''sales'' RB_flat_amount 300 RT_vehicle_price)\<lparr>ruleId := ''v2'', ruleVersion := 2\<rparr> # deskBook"

theorem scenario_matches_reference_witness:
  "\<exists>sc. computeScenario fractionText id deskDeal twoTaxes = Inr sc \<and> computeScenario fractionText id deskDeal (rev twoTaxes) = Inr sc \<and>
     taxTotalCents sc = 1275 \<and> feeTotalCents sc = 1778"
proof -
  have keys: "distinct (map (\<lambda>r. (ruleKind r, ruleCode r, ruleVersion r)) twoTaxes)" by code_simp
  obtain sc where sc: "computeScenario fractionText id deskDeal twoTaxes = Inr sc"
    using scenario_returns [of fractionText id deskDeal twoTaxes] by (auto simp: deskDeal_def)
  have "taxableAmountCents sc = 15000" using computeScenario_fields(7) [OF sc] by simp code_simp
  moreover have "refTotal RK_tax deskDeal 15000 twoTaxes = 1275" "refTotal RK_fee deskDeal 15000 twoTaxes = 1778" by code_simp+
  ultimately show ?thesis
    using scenario_matches_reference [OF keys, of "rev twoTaxes" fractionText id deskDeal] sc by simp
qed

end
