(* ===== verification/DeskStore.thy ===== *)
theory DeskStore
  imports DeskCalculator
begin

text \<open>
  The desk's tables (migration 065 and the columns it reads of 055 and 064), the transaction
  every desking command runs in, and the reads of identity-access the desk relies on: who the
  actor is (\<open>requireActor\<close>), which rooftops the actor works (\<open>permittedRooftopIds\<close>) and the
  audit row every command writes (\<open>recordMutation\<close>).  Identifiers in a request are UUIDs, as
  the routes check; columns hold their lower-case form (\<open>pgUuid\<close>).
\<close>

section \<open>Rows\<close>

datatype ScopeLevel =
  SL_platform | SL_tenant | SL_dealer_group | SL_legal_entity | SL_rooftop | SL_department

record rooftop =
  rt_id :: string
  rt_tenant :: string
  rt_active :: bool
  rt_legal_entity :: string
  rt_dealer_group :: string

record role_binding =
  rb_tenant :: "string option"
  rb_user :: string
  rb_role :: string
  rb_level :: ScopeLevel
  rb_scope :: "string option"
  rb_active :: bool
  rb_from :: int
  rb_to :: "int option"

datatype DeskingHandoffStatus = DH_not_yet_available | DH_available

record desking_handoff =
  dh_id :: string
  dh_tenant :: string
  dh_opportunity :: string
  dh_rooftop :: string
  dh_party :: string
  dh_stock :: "string option"
  dh_by :: string
  dh_outbox :: string
  dh_status :: DeskingHandoffStatus

datatype DeskingCaseState = DC_open | DC_approved

record desking_case =
  dc_id :: string
  dc_tenant :: string
  dc_rooftop :: string
  dc_opportunity :: string
  dc_party :: string
  dc_stock :: "string option"
  dc_handoff :: string
  dc_outbox :: string
  dc_state :: DeskingCaseState
  dc_opened_by :: string
  dc_approved_at :: "int option"
  dc_version :: int

record desking_rule =
  rl_id :: string
  rl_tenant :: string
  rl_kind :: RuleKind
  rl_code :: string
  rl_label :: string
  rl_source :: string
  rl_jurisdiction :: string
  rl_rooftop :: "string option"
  rl_version :: int
  rl_from :: int
  rl_to :: "int option"
  rl_basis :: RuleBasis
  rl_rate :: "int option"
  rl_amount :: "int option"
  rl_currency :: string
  rl_target :: RuleTarget
  rl_by :: string

datatype ScenarioState = SS_draft | SS_submitted | SS_approved | SS_rejected | SS_expired | SS_superseded

record desking_scenario =
  sc_id :: string
  sc_tenant :: string
  sc_rooftop :: string
  sc_case :: string
  sc_version_no :: int
  sc_supersedes :: "string option"
  sc_label :: string
  sc_state :: ScenarioState
  sc_inputs :: ScenarioInputs
  sc_computed :: ComputedScenario
  sc_expires :: "int option"
  sc_built_by :: string
  sc_version :: int

record scenario_state_event =
  se_tenant :: string
  se_scenario :: string
  se_from :: "ScenarioState option"
  se_to :: ScenarioState
  se_by :: string

datatype Decision = D_approved | D_rejected

record scenario_approval =
  sa_id :: string
  sa_tenant :: string
  sa_case :: string
  sa_scenario :: string
  sa_version_no :: int
  sa_decision :: Decision
  sa_fingerprint :: string
  sa_by :: string
  sa_override_reason :: "string option"
  sa_limit_reason :: "string option"

record desk_audit =
  da_tenant :: string
  da_event :: string
  da_entity_type :: string
  da_entity :: string
  da_actor :: string

record desk_db =
  user_links :: "string list"
  rooftops :: "rooftop list"
  role_bindings :: "role_binding list"
  handoffs :: "desking_handoff list"
  cases :: "desking_case list"
  desk_rules :: "desking_rule list"
  scenarios :: "desking_scenario list"
  state_events :: "scenario_state_event list"
  approvals :: "scenario_approval list"
  desk_audits :: "desk_audit list"

text \<open>
  What a desking command takes from outside: the clock, the identifiers Postgres generates
  for the rows of the command, how Postgres reads a timestamp (None refuses it) and JavaScript
  prints one, how numbers print, and the digest.
\<close>

record desk_env =
  dnow :: int
  newId :: "nat \<Rightarrow> string"
  instantOf :: "string \<Rightarrow> int option"
  isoText :: "int \<Rightarrow> string"
  numText :: "rat \<Rightarrow> string"
  sha :: "string \<Rightarrow> string"

section \<open>Transactions\<close>

type_synonym 'a dtx = "desk_db \<Rightarrow> ('a \<times> desk_db) result"

text \<open>An exception rolls back; an answer, refusals included, commits.\<close>

definition withTenantTransaction :: "('s \<Rightarrow> ('a \<times> 's) result) \<Rightarrow> 's \<Rightarrow> 'a result \<times> 's" where
  "withTenantTransaction body s =
     (case body s of Inl err \<Rightarrow> (Inl err, s) | Inr (v, s') \<Rightarrow> (Inr v, s'))"

section \<open>Identity\<close>

definition requireActor :: "string \<Rightarrow> desk_db \<Rightarrow> string result" where
  "requireActor actor s =
     (if isUuidString actor \<and> pgUuid actor \<in> set (user_links s) then Inr actor
      else Inl (DatabaseError ''unattributable_mutation''))"

definition EFFECTIVE_ROLE_BINDING :: "int \<Rightarrow> role_binding \<Rightarrow> bool" where
  "EFFECTIVE_ROLE_BINDING t rb =
     (rb_active rb \<and> rb_from rb \<le> t \<and> (case rb_to rb of None \<Rightarrow> True | Some e \<Rightarrow> e > t))"

definition org_ancestry :: "rooftop \<Rightarrow> (ScopeLevel \<times> string) list" where
  "org_ancestry r =
     [(SL_tenant, rt_tenant r), (SL_dealer_group, rt_dealer_group r),
      (SL_legal_entity, rt_legal_entity r), (SL_rooftop, rt_id r)]"

definition bindingCovers :: "rooftop \<Rightarrow> role_binding \<Rightarrow> bool" where
  "bindingCovers r rb =
     (rb_level rb = SL_tenant
      \<or> (rb_level rb = SL_rooftop \<and> rb_scope rb = Some (rt_id r))
      \<or> (\<exists>x \<in> set (org_ancestry r). fst x = rb_level rb \<and> Some (snd x) = rb_scope rb))"

definition permittedRooftopIds :: "desk_env \<Rightarrow> string \<Rightarrow> string \<Rightarrow> desk_db \<Rightarrow> string list" where
  "permittedRooftopIds e tenant user s =
     map rt_id (filter (\<lambda>r. rt_tenant r = tenant \<and> rt_active r
        \<and> list_ex (\<lambda>rb. rb_tenant rb = Some (rt_tenant r) \<and> rb_user rb = pgUuid user
                       \<and> EFFECTIVE_ROLE_BINDING (dnow e) rb \<and> bindingCovers r rb) (role_bindings s))
       (rooftops s))"

definition reaches :: "desk_env \<Rightarrow> string \<Rightarrow> string \<Rightarrow> string \<Rightarrow> desk_db \<Rightarrow> bool" where
  "reaches e tenant user rooftopId s = (rooftopId \<in> set (permittedRooftopIds e tenant user s))"

definition isEligibleManager :: "desk_env \<Rightarrow> string \<Rightarrow> string \<Rightarrow> string \<Rightarrow> desk_db \<Rightarrow> bool" where
  "isEligibleManager e tenant user rooftopId s =
     list_ex (\<lambda>r. rt_tenant r = tenant \<and> rt_id r = rooftopId \<and> rt_active r
        \<and> list_ex (\<lambda>rb. rb_tenant rb = Some (rt_tenant r) \<and> EFFECTIVE_ROLE_BINDING (dnow e) rb
                       \<and> rb_user rb = pgUuid user \<and> rb_role rb \<in> {''sales_manager'', ''tenant_admin''}
                       \<and> bindingCovers r rb) (role_bindings s)) (rooftops s)"

definition recordMutation ::
  "string \<Rightarrow> string \<Rightarrow> string \<Rightarrow> string \<Rightarrow> string \<Rightarrow> desk_db \<Rightarrow> desk_db" where
  "recordMutation tenant entityType entityId eventType actor s =
     s\<lparr>desk_audits := desk_audits s @ [\<lparr>da_tenant = tenant, da_event = eventType,
        da_entity_type = entityType, da_entity = entityId, da_actor = actor\<rparr>]\<rparr>"

lemma recordMutation_tables [simp]:
  "handoffs (recordMutation t a b c d s) = handoffs s" "user_links (recordMutation t a b c d s) = user_links s"
  by (simp_all add: recordMutation_def)

lemma withTenantTransaction_ok:
  "withTenantTransaction body s = (Inr v, s') \<longleftrightarrow> body s = Inr (v, s')"
  by (auto simp: withTenantTransaction_def split: sum.splits)

lemma desk_transaction_keeps:
  "I s \<Longrightarrow> (\<And>v s'. body s = Inr (v, s') \<Longrightarrow> I s') \<Longrightarrow> I (snd (withTenantTransaction body s))"
  by (auto simp: withTenantTransaction_def split: sum.splits)

end
