(* ===== verification/DeskRules.thy ===== *)
theory DeskRules
  imports DeskStore
begin

text \<open>
  The rule book (packages/desking/src/rules.ts): recording a version of a rule, and the book
  in force at an instant for one jurisdiction and one rooftop.
\<close>

section \<open>Recording a rule\<close>

definition RULE_KINDS :: "(string \<times> RuleKind) list" where
  "RULE_KINDS = [(''tax'', RK_tax), (''fee'', RK_fee), (''incentive'', RK_incentive),
     (''valuation'', RK_valuation), (''policy'', RK_policy)]"

definition RULE_BASES :: "(string \<times> RuleBasis) list" where
  "RULE_BASES = [(''rate_ppm'', RB_rate_ppm), (''flat_amount'', RB_flat_amount)]"

definition RULE_TARGETS :: "(string \<times> RuleTarget) list" where
  "RULE_TARGETS = [(''vehicle_price'', RT_vehicle_price), (''taxable_amount'', RT_taxable_amount),
     (''total'', RT_total)]"

definition mapRule :: "desk_env \<Rightarrow> desking_rule \<Rightarrow> ResolvedRule" where
  "mapRule e row =
     \<lparr>ruleId = rl_id row, ruleKind = rl_kind row, ruleCode = rl_code row, ruleLabel = rl_label row,
      ruleSource = rl_source row, ruleJurisdiction = rl_jurisdiction row,
      rooftopScoped = (rl_rooftop row \<noteq> None), ruleVersion = rl_version row,
      effectiveFrom = isoText e (rl_from row), effectiveTo = map_option (isoText e) (rl_to row),
      ruleBasis = rl_basis row, ratePpm = rl_rate row, ruleAmountCents = rl_amount row,
      appliesTo = rl_target row\<rparr>"

record rule_input =
  ri_kind :: string
  ri_code :: string
  ri_label :: string
  ri_source :: string
  ri_jurisdiction :: string
  ri_rooftop :: "string option"
  ri_from :: string
  ri_to :: "string option"
  ri_basis :: string
  ri_rate :: "int option"
  ri_amount :: "int option"
  ri_target :: string
  ri_currency :: "string option"

datatype RecordRuleOutcome = RR_recorded ResolvedRule | RR_overlaps | RR_invalid

text \<open>\<open>tstzrange(from, to) &&\<close>: half-open intervals, without an end when there is none.\<close>

definition startsBefore :: "int \<Rightarrow> int option \<Rightarrow> bool" where
  "startsBefore t end' = (case end' of None \<Rightarrow> True | Some x \<Rightarrow> t < x)"

definition intervalsOverlap :: "desking_rule \<Rightarrow> desking_rule \<Rightarrow> bool" where
  "intervalsOverlap a b = (startsBefore (rl_from a) (rl_to b) \<and> startsBefore (rl_from b) (rl_to a))"

definition sameRuleKey :: "desking_rule \<Rightarrow> desking_rule \<Rightarrow> bool" where
  "sameRuleKey a b =
     (rl_tenant a = rl_tenant b \<and> rl_kind a = rl_kind b \<and> rl_code a = rl_code b
      \<and> rl_jurisdiction a = rl_jurisdiction b \<and> rl_rooftop a = rl_rooftop b)"

definition uq_desking_rules_no_overlap :: "desking_rule \<Rightarrow> desking_rule list \<Rightarrow> bool" where
  "uq_desking_rules_no_overlap row rows =
     (\<not> list_ex (\<lambda>r. sameRuleKey row r \<and> intervalsOverlap row r) rows)"

definition charIn :: "nat \<Rightarrow> nat \<Rightarrow> char \<Rightarrow> bool" where
  "charIn lo hi c = (lo \<le> of_char c \<and> of_char c \<le> hi)"

definition codeOk :: "string \<Rightarrow> bool" where
  "codeOk s = (2 \<le> length s \<and> length s \<le> 40
     \<and> list_all (\<lambda>c. charIn 97 122 c \<or> charIn 48 57 c \<or> c = CHR ''_'') s)"

definition jurisdictionOk :: "string \<Rightarrow> bool" where
  "jurisdictionOk s = (2 \<le> length s \<and> length s \<le> 40
     \<and> list_all (\<lambda>c. charIn 65 90 c \<or> charIn 48 57 c \<or> c = CHR ''-'') s)"

definition currencyOk :: "string \<Rightarrow> bool" where
  "currencyOk s = (length s = 3 \<and> list_all (charIn 65 90) s)"

definition fitsBigint :: "int \<Rightarrow> bool" where
  "fitsBigint i = (- 9223372036854775808 \<le> i \<and> i \<le> 9223372036854775807)"

text \<open>The CHECK constraints of the table.\<close>

definition ruleRowOk :: "desking_rule \<Rightarrow> bool" where
  "ruleRowOk r =
     (codeOk (rl_code r) \<and> 1 \<le> length (rl_label r) \<and> length (rl_label r) \<le> 120
      \<and> 1 \<le> length (rl_source r) \<and> length (rl_source r) \<le> 200 \<and> jurisdictionOk (rl_jurisdiction r)
      \<and> startsBefore (rl_from r) (rl_to r)
      \<and> (case rl_rate r of None \<Rightarrow> True | Some x \<Rightarrow> 0 \<le> x \<and> x \<le> 100000000)
      \<and> (case rl_amount r of None \<Rightarrow> True | Some x \<Rightarrow> 0 \<le> x \<and> fitsBigint x)
      \<and> currencyOk (rl_currency r)
      \<and> (if rl_basis r = RB_rate_ppm then rl_rate r \<noteq> None \<and> rl_amount r = None
         else rl_amount r \<noteq> None \<and> rl_rate r = None))"

definition nextRuleVersion :: "string \<Rightarrow> RuleKind \<Rightarrow> string \<Rightarrow> desk_db \<Rightarrow> int" where
  "nextRuleVersion tenant kind code s =
     fold max (map rl_version (filter (\<lambda>r. rl_tenant r = tenant \<and> rl_kind r = kind \<and> rl_code r = code)
       (desk_rules s))) 0 + 1"

definition valueMatchesBasis :: "RuleBasis \<Rightarrow> int option \<Rightarrow> int option \<Rightarrow> bool" where
  "valueMatchesBasis basis rate amount =
     (case basis of
        RB_rate_ppm \<Rightarrow> \<not> (rate = None \<or> amount \<noteq> None)
      | RB_flat_amount \<Rightarrow> \<not> (amount = None \<or> rate \<noteq> None))"

text \<open>\<open>effectiveTo <= effectiveFrom\<close> compares the two texts.\<close>

definition stopsAfterStart :: "rule_input \<Rightarrow> bool" where
  "stopsAfterStart i =
     (case ri_to i of None \<Rightarrow> True | Some t \<Rightarrow> strLess (ri_from i) t)"

definition ruleRow ::
  "desk_env \<Rightarrow> string \<Rightarrow> string \<Rightarrow> rule_input \<Rightarrow> RuleKind \<Rightarrow> RuleBasis \<Rightarrow> RuleTarget \<Rightarrow> desk_db
   \<Rightarrow> desking_rule result" where
  "ruleRow e tenant actor i kind basis target s =
     (case (instantOf e (ri_from i), (case ri_to i of None \<Rightarrow> Some None
              | Some t \<Rightarrow> map_option Some (instantOf e t))) of
        (Some from, Some to') \<Rightarrow>
          Inr \<lparr>rl_id = newId e 0, rl_tenant = tenant, rl_kind = kind, rl_code = ri_code i,
               rl_label = ri_label i, rl_source = ri_source i, rl_jurisdiction = ri_jurisdiction i,
               rl_rooftop = map_option pgUuid (ri_rooftop i),
               rl_version = nextRuleVersion tenant kind (ri_code i) s, rl_from = from, rl_to = to',
               rl_basis = basis, rl_rate = ri_rate i, rl_amount = ri_amount i,
               rl_currency = (case ri_currency i of Some c \<Rightarrow> c | None \<Rightarrow> ''USD''),
               rl_target = target, rl_by = pgUuid actor\<rparr>
      | _ \<Rightarrow> Inl (DatabaseError ''invalid_datetime''))"

text \<open>The INSERT: the CHECK constraints first, then the exclusion constraint.\<close>

definition insertRule ::
  "desk_env \<Rightarrow> string \<Rightarrow> string \<Rightarrow> rule_input \<Rightarrow> RuleKind \<Rightarrow> RuleBasis \<Rightarrow> RuleTarget
   \<Rightarrow> RecordRuleOutcome dtx" where
  "insertRule e tenant actor i kind basis target s =
     bindR (ruleRow e tenant actor i kind basis target s) (\<lambda>row.
     bindR (ensure (ruleRowOk row) (DatabaseError ''check_violation'')) (\<lambda>_.
       if \<not> uq_desking_rules_no_overlap row (desk_rules s) then Inr (RR_overlaps, s)
       else Inr (RR_recorded (mapRule e row),
              recordMutation tenant ''desking_rule'' (rl_id row) ''desking.rule.recorded'' actor
                (s\<lparr>desk_rules := desk_rules s @ [row]\<rparr>))))"

definition recordRuleWithin ::
  "desk_env \<Rightarrow> string \<Rightarrow> string \<Rightarrow> rule_input \<Rightarrow> RecordRuleOutcome dtx" where
  "recordRuleWithin e tenant actingUser i s =
     bindR (requireActor actingUser s) (\<lambda>actor.
       case (map_of RULE_KINDS (ri_kind i), map_of RULE_BASES (ri_basis i), map_of RULE_TARGETS (ri_target i)) of
         (Some kind, Some basis, Some target) \<Rightarrow>
           if \<not> valueMatchesBasis basis (ri_rate i) (ri_amount i) then Inr (RR_invalid, s)
           else if \<not> stopsAfterStart i then Inr (RR_invalid, s)
           else if (case ri_rooftop i of None \<Rightarrow> False | Some r \<Rightarrow> \<not> reaches e tenant actor r s)
           then Inr (RR_invalid, s)
           else insertRule e tenant actor i kind basis target s
       | _ \<Rightarrow> Inr (RR_invalid, s))"

definition recordRule ::
  "desk_env \<Rightarrow> string \<Rightarrow> string \<Rightarrow> rule_input \<Rightarrow> desk_db \<Rightarrow> RecordRuleOutcome result \<times> desk_db" where
  "recordRule e tenant actingUser i s = withTenantTransaction (recordRuleWithin e tenant actingUser i) s"

section \<open>Reading the book\<close>

record RuleBook =
  bookRules :: "ResolvedRule list"
  bookMissing :: "RuleKind list"
  bookExpired :: "RuleKind list"

definition ruleScope :: "string \<Rightarrow> string \<Rightarrow> string \<Rightarrow> desking_rule \<Rightarrow> bool" where
  "ruleScope tenant juris rooftopId r =
     (rl_tenant r = tenant \<and> rl_jurisdiction r = juris
      \<and> (rl_rooftop r = None \<or> rl_rooftop r = Some rooftopId))"

definition inForceAt :: "int \<Rightarrow> desking_rule \<Rightarrow> bool" where
  "inForceAt t r = (rl_from r \<le> t \<and> startsBefore t (rl_to r))"

text \<open>
  The \<open>Map\<close> from kind and code to the rule held, in insertion order: replacing a value keeps
  its place.
\<close>

definition bookKey :: "ResolvedRule \<Rightarrow> RuleKind \<times> string" where
  "bookKey r = (ruleKind r, ruleCode r)"

definition chooseRule :: "ResolvedRule \<Rightarrow> ResolvedRule list \<Rightarrow> ResolvedRule list" where
  "chooseRule rule chosen =
     (case find (\<lambda>h. bookKey h = bookKey rule) chosen of
        None \<Rightarrow> chosen @ [rule]
      | Some held \<Rightarrow>
          if rooftopScoped rule \<and> \<not> rooftopScoped held
          then map (\<lambda>h. if bookKey h = bookKey rule then rule else h) chosen
          else chosen)"

definition resolveRuleBookWithin ::
  "desk_env \<Rightarrow> string \<Rightarrow> string \<Rightarrow> string \<Rightarrow> int \<Rightarrow> desk_db \<Rightarrow> RuleBook" where
  "resolveRuleBookWithin e tenant juris rooftopId t s =
     (let scoped = filter (ruleScope tenant juris rooftopId) (desk_rules s);
          inForce = map (mapRule e) (filter (inForceAt t) scoped);
          chosen = fold chooseRule inForce [];
          everKinds = map rl_kind scoped;
          staleKinds = filter (\<lambda>k. \<not> list_ex (\<lambda>r. rl_kind r = k \<and> startsBefore t (rl_to r)) scoped) everKinds;
          priceable = [RK_tax]
      in \<lparr>bookRules = chosen,
          bookMissing = filter (\<lambda>k. k \<notin> set everKinds) priceable,
          bookExpired = filter (\<lambda>k. k \<in> set everKinds \<and> k \<in> set staleKinds) priceable\<rparr>)"

section \<open>The rules in force\<close>

text \<open>
  What the exclusion constraint keeps of the table: two different rules of the same tenant,
  kind, code, jurisdiction and rooftop scope never cover the same instant.  Versions are
  unique within a tenant, kind and code.
\<close>

definition rules_wf :: "desking_rule list \<Rightarrow> bool" where
  "rules_wf rows =
     (sorted_wrt (\<lambda>a b. \<not> (sameRuleKey a b \<and> intervalsOverlap a b)) rows \<and>
      distinct (map (\<lambda>r. (rl_tenant r, rl_kind r, rl_code r, rl_version r)) rows) \<and>
      list_all ruleRowOk rows)"

lemma sameRuleKey_sym: "sameRuleKey a b = sameRuleKey b a"
  by (auto simp: sameRuleKey_def)

lemma intervalsOverlap_sym: "intervalsOverlap a b = intervalsOverlap b a"
  by (auto simp: intervalsOverlap_def)

lemma fold_max_bound: "x \<in> set xs \<Longrightarrow> x \<le> fold max xs (a :: int)"
proof (induction xs arbitrary: a)
  case (Cons y xs)
  have "a \<le> fold max xs a" for a :: int
    by (induction xs arbitrary: a) (auto intro: order_trans [OF max.cobounded2])
  from this [of "max y a"] Cons show ?case by auto
qed simp

lemma ruleRow_fields:
  "ruleRow e tenant actor i kind basis target s = Inr row \<Longrightarrow>
   rl_id row = newId e 0 \<and> rl_tenant row = tenant \<and>
   rl_version row = nextRuleVersion tenant (rl_kind row) (rl_code row) s"
  by (auto simp: ruleRow_def split: option.splits)

text \<open>What a recorded rule adds to the store.\<close>

definition addsRule :: "desk_env \<Rightarrow> string \<Rightarrow> desk_db \<Rightarrow> desking_rule \<Rightarrow> desk_db \<Rightarrow> bool" where
  "addsRule e tenant s row s' =
     (ruleRowOk row \<and> uq_desking_rules_no_overlap row (desk_rules s) \<and> rl_id row = newId e 0 \<and>
      rl_tenant row = tenant \<and> rl_version row = nextRuleVersion tenant (rl_kind row) (rl_code row) s \<and>
      (\<exists>a. s' = s\<lparr>desk_rules := desk_rules s @ [row], desk_audits := a\<rparr>))"

lemma insertRule_success:
  "insertRule e tenant actor i kind basis target s = Inr (out, s') \<Longrightarrow>
   s' = s \<or> (\<exists>row. out = RR_recorded (mapRule e row) \<and> addsRule e tenant s row s')"
  by (auto simp: insertRule_def addsRule_def recordMutation_def dest: ruleRow_fields split: if_splits)

lemma recordRuleWithin_success:
  assumes "recordRuleWithin e tenant u i s = Inr (out, s')"
  shows "s' = s \<or> (\<exists>row. out = RR_recorded (mapRule e row) \<and> addsRule e tenant s row s')"
  using assms
  by (auto simp: recordRuleWithin_def split: option.splits if_splits dest: insertRule_success)

lemma rules_wf_append:
  assumes "rules_wf rows" "ruleRowOk row" "uq_desking_rules_no_overlap row rows"
    and "\<forall>r \<in> set rows. rl_tenant r = rl_tenant row \<longrightarrow> rl_kind r = rl_kind row \<longrightarrow> rl_code r = rl_code row
           \<longrightarrow> rl_version r < rl_version row"
  shows "rules_wf (rows @ [row])"
  using assms unfolding rules_wf_def uq_desking_rules_no_overlap_def
  by (auto simp: sorted_wrt_append list_ex_iff sameRuleKey_sym [of _ row] intervalsOverlap_sym [of _ row])

lemma recordRule_keeps:
  assumes "rules_wf (desk_rules s)"
  shows "rules_wf (desk_rules (snd (recordRule e tenant u i s)))"
  unfolding recordRule_def
proof (rule desk_transaction_keeps [where I = "\<lambda>s. rules_wf (desk_rules s)"], rule assms)
  fix out s'
  assume "recordRuleWithin e tenant u i s = Inr (out, s')"
  from recordRuleWithin_success [OF this] show "rules_wf (desk_rules s')"
  proof
    assume "\<exists>row. out = RR_recorded (mapRule e row) \<and> addsRule e tenant s row s'"
    then obtain row where row: "ruleRowOk row" "uq_desking_rules_no_overlap row (desk_rules s)"
      "rl_tenant row = tenant" "rl_version row = nextRuleVersion tenant (rl_kind row) (rl_code row) s"
      "desk_rules s' = desk_rules s @ [row]"
      by (auto simp: addsRule_def)
    have "rl_version r < rl_version row" if "r \<in> set (desk_rules s)" "rl_tenant r = rl_tenant row"
      "rl_kind r = rl_kind row" "rl_code r = rl_code row" for r
      using fold_max_bound [of "rl_version r" "map rl_version (filter (\<lambda>r. rl_tenant r = tenant \<and>
          rl_kind r = rl_kind row \<and> rl_code r = rl_code row) (desk_rules s))" 0] that row(3,4)
      by (auto simp: nextRuleVersion_def)
    with rules_wf_append [OF assms row(1,2)] row(5) show ?thesis by simp
  qed (use assms in simp)
qed

lemma sorted_wrt_pair:
  assumes "sorted_wrt P xs" "x \<in> set xs" "y \<in> set xs" "x \<noteq> y"
  shows "P x y \<or> P y x"
  using assms by (induction xs) auto

lemma in_force_unique:
  assumes "rules_wf rows" "a \<in> set rows" "b \<in> set rows" "sameRuleKey a b" "inForceAt t a" "inForceAt t b"
  shows "a = b"
proof (rule ccontr)
  assume "a \<noteq> b"
  moreover have "intervalsOverlap a b"
    using assms(5,6) by (auto simp: inForceAt_def intervalsOverlap_def startsBefore_def split: option.splits)
  ultimately show False
    using sorted_wrt_pair [of _ rows a b] assms(1-4)
    unfolding rules_wf_def by (metis sameRuleKey_sym intervalsOverlap_sym)
qed

section \<open>The book chosen\<close>

lemma chooseRule_keys:
  "distinct (map bookKey chosen) \<Longrightarrow> distinct (map bookKey (chooseRule r chosen))"
proof -
  have "map bookKey (map (\<lambda>h. if bookKey h = bookKey r then r else h) chosen) = map bookKey chosen"
    by (induction chosen) auto
  then show "distinct (map bookKey chosen) \<Longrightarrow> ?thesis"
    by (auto simp: chooseRule_def find_None_notin image_iff simp del: find_None_iff map_map split: option.splits)
qed

lemma chooseRule_from: "set (chooseRule r chosen) \<subseteq> insert r (set chosen)"
  by (auto simp: chooseRule_def split: option.splits if_splits)

lemma chooseRule_holds:
  assumes "r' = r \<or> (\<exists>h \<in> set chosen. bookKey h = bookKey r' \<and> (rooftopScoped r' \<longrightarrow> rooftopScoped h))"
    and "distinct (map bookKey chosen)"
  shows "\<exists>h \<in> set (chooseRule r chosen). bookKey h = bookKey r' \<and> (rooftopScoped r' \<longrightarrow> rooftopScoped h)"
proof (cases "find (\<lambda>h. bookKey h = bookKey r) chosen")
  case None
  with assms(1) show ?thesis by (auto simp: chooseRule_def)
next
  case (Some held)
  then have held: "held \<in> set chosen" "bookKey held = bookKey r" using find_SomeD by fastforce+
  show ?thesis
  proof (cases "rooftopScoped r \<and> \<not> rooftopScoped held")
    case True
    then have "chooseRule r chosen = map (\<lambda>h. if bookKey h = bookKey r then r else h) chosen"
      using Some by (simp add: chooseRule_def)
    then have in_c: "(if bookKey h = bookKey r then r else h) \<in> set (chooseRule r chosen)" if "h \<in> set chosen" for h
      using that by simp
    show ?thesis
    proof (cases "bookKey r' = bookKey r")
      case True
      with in_c [OF held(1)] held(2) \<open>rooftopScoped r \<and> \<not> rooftopScoped held\<close> show ?thesis by auto
    next
      case False
      then obtain h where "h \<in> set chosen" "bookKey h = bookKey r'" "rooftopScoped r' \<longrightarrow> rooftopScoped h"
        using assms(1) by auto
      with in_c [of h] False show ?thesis by auto
    qed
  next
    case False
    then have "chooseRule r chosen = chosen" using Some by (auto simp: chooseRule_def)
    with False held assms(1) show ?thesis by auto
  qed
qed

lemma fold_chooseRule:
  "distinct (map bookKey (fold chooseRule rs [])) \<and> set (fold chooseRule rs []) \<subseteq> set rs \<and>
   (\<forall>r \<in> set rs. \<exists>h \<in> set (fold chooseRule rs []). bookKey h = bookKey r \<and>
      (rooftopScoped r \<longrightarrow> rooftopScoped h))"
proof (induction rs rule: rev_induct)
  case (snoc r rs)
  then have dist: "distinct (map bookKey (fold chooseRule rs []))" by blast
  have "\<exists>h \<in> set (chooseRule r (fold chooseRule rs [])). bookKey h = bookKey r' \<and>
      (rooftopScoped r' \<longrightarrow> rooftopScoped h)" if "r' \<in> set (rs @ [r])" for r'
    by (rule chooseRule_holds [OF _ dist]) (use that snoc in auto)
  moreover have "set (chooseRule r (fold chooseRule rs [])) \<subseteq> set (rs @ [r])"
    using chooseRule_from [of r "fold chooseRule rs []"] snoc by auto
  ultimately show ?case using chooseRule_keys [OF dist] by simp
qed simp

lemma fold_chooseRule_exact:
  assumes "\<And>a b. a \<in> set rs \<Longrightarrow> b \<in> set rs \<Longrightarrow> bookKey a = bookKey b \<Longrightarrow>
      rooftopScoped a = rooftopScoped b \<Longrightarrow> a = b"
  shows "r \<in> set (fold chooseRule rs []) \<longleftrightarrow>
    r \<in> set rs \<and> (rooftopScoped r \<or> \<not> (\<exists>r' \<in> set rs. bookKey r' = bookKey r \<and> rooftopScoped r'))"
proof -
  let ?c = "fold chooseRule rs []"
  have c: "distinct (map bookKey ?c)" "set ?c \<subseteq> set rs" and
    held: "r \<in> set rs \<Longrightarrow> \<exists>h \<in> set ?c. bookKey h = bookKey r \<and> (rooftopScoped r \<longrightarrow> rooftopScoped h)" for r
    using fold_chooseRule [of rs] by blast+
  show ?thesis
  proof
    assume r: "r \<in> set ?c"
    have "rooftopScoped r" if "r' \<in> set rs" "bookKey r' = bookKey r" "rooftopScoped r'" for r'
      using held [OF that(1)] that r c(1) by (metis distinct_map_eq)
    with r c(2) show "r \<in> set rs \<and> (rooftopScoped r \<or> \<not> (\<exists>r' \<in> set rs. bookKey r' = bookKey r \<and> rooftopScoped r'))"
      by blast
  next
    assume r: "r \<in> set rs \<and> (rooftopScoped r \<or> \<not> (\<exists>r' \<in> set rs. bookKey r' = bookKey r \<and> rooftopScoped r'))"
    then obtain h where "h \<in> set ?c" "bookKey h = bookKey r" "rooftopScoped r \<longrightarrow> rooftopScoped h"
      using held by blast
    with r c(2) assms [of h r] show "r \<in> set ?c" by blast
  qed
qed

lemma resolved_rows_unique:
  assumes "rules_wf (desk_rules s)"
    and "a \<in> set (map (mapRule e) (filter (inForceAt t) (filter (ruleScope tenant juris roof) (desk_rules s))))"
    and "b \<in> set (map (mapRule e) (filter (inForceAt t) (filter (ruleScope tenant juris roof) (desk_rules s))))"
    and "bookKey a = bookKey b" "rooftopScoped a = rooftopScoped b"
  shows "a = b"
proof -
  from assms(2,3) obtain x y where x: "x \<in> set (desk_rules s)" "inForceAt t x" "ruleScope tenant juris roof x" "a = mapRule e x"
    and y: "y \<in> set (desk_rules s)" "inForceAt t y" "ruleScope tenant juris roof y" "b = mapRule e y" by auto
  have "sameRuleKey x y"
    using assms(4,5) x(3,4) y(3,4) by (auto simp: sameRuleKey_def bookKey_def mapRule_def ruleScope_def)
  with in_force_unique [OF assms(1) x(1) y(1) _ x(2) y(2)] x(4) y(4) show ?thesis by simp
qed

text \<open>The rule the book holds for a kind and code: the rooftop's own, else the tenant's.\<close>

definition governs :: "string \<Rightarrow> string \<Rightarrow> string \<Rightarrow> int \<Rightarrow> desk_db \<Rightarrow> desking_rule \<Rightarrow> bool" where
  "governs tenant juris roof t s row =
     (row \<in> set (desk_rules s) \<and> ruleScope tenant juris roof row \<and> inForceAt t row \<and>
      (rl_rooftop row = Some roof \<or>
       \<not> list_ex (\<lambda>r. ruleScope tenant juris roof r \<and> inForceAt t r \<and> rl_kind r = rl_kind row
                     \<and> rl_code r = rl_code row \<and> rl_rooftop r = Some roof) (desk_rules s)))"

lemma bookRules_governs:
  assumes "rules_wf (desk_rules s)"
  shows "r \<in> set (bookRules (resolveRuleBookWithin e tenant juris roof t s)) \<longleftrightarrow>
    (\<exists>row. governs tenant juris roof t s row \<and> r = mapRule e row)"
    and "distinct (map bookKey (bookRules (resolveRuleBookWithin e tenant juris roof t s)))"
proof -
  let ?rs = "map (mapRule e) (filter (inForceAt t) (filter (ruleScope tenant juris roof) (desk_rules s)))"
  have book: "bookRules (resolveRuleBookWithin e tenant juris roof t s) = fold chooseRule ?rs []"
    by (simp add: resolveRuleBookWithin_def Let_def)
  show "distinct (map bookKey (bookRules (resolveRuleBookWithin e tenant juris roof t s)))"
    unfolding book using fold_chooseRule by blast
  have "r \<in> set (bookRules (resolveRuleBookWithin e tenant juris roof t s)) \<longleftrightarrow>
      r \<in> set ?rs \<and> (rooftopScoped r \<or> \<not> (\<exists>r' \<in> set ?rs. bookKey r' = bookKey r \<and> rooftopScoped r'))"
    unfolding book by (rule fold_chooseRule_exact) (rule resolved_rows_unique [OF assms])
  also have "\<dots> \<longleftrightarrow> (\<exists>row. governs tenant juris roof t s row \<and> r = mapRule e row)"
    by (fastforce simp: governs_def list_ex_iff bookKey_def mapRule_def ruleScope_def)
  finally show "r \<in> set (bookRules (resolveRuleBookWithin e tenant juris roof t s)) \<longleftrightarrow>
    (\<exists>row. governs tenant juris roof t s row \<and> r = mapRule e row)" .
qed

end
