(* ===== verification/DeskScenarios.thy ===== *)
theory DeskScenarios
  imports DeskRules
begin

text \<open>
  Opening a desk file and the life of a priced version (packages/desking/src/intake.ts and
  scenarios.ts).  The line items and rule applications a version is written with stand in its
  row, inside the computed scenario: they are inserted with it and never touched again.
  Explanatory texts of refusals and of state events are left out.
\<close>

section \<open>Intake\<close>

datatype IntakeOutcome = IO_opened desking_case | IO_already_open desking_case | IO_not_found

definition getDeskingHandoffWithin :: "string \<Rightarrow> string \<Rightarrow> desk_db \<Rightarrow> desking_handoff option" where
  "getDeskingHandoffWithin tenant hid s =
     find (\<lambda>h. dh_tenant h = tenant \<and> dh_id h = pgUuid hid) (handoffs s)"

definition markDeskingHandoffAvailableWithin :: "string \<Rightarrow> string \<Rightarrow> desk_db \<Rightarrow> desk_db" where
  "markDeskingHandoffAvailableWithin tenant hid s =
     s\<lparr>handoffs := update_where (\<lambda>h. dh_tenant h = tenant \<and> dh_id h = pgUuid hid)
        (\<lambda>h. h\<lparr>dh_status := DH_available\<rparr>) (handoffs s)\<rparr>"

text \<open>
  The advisory lock makes the insert's conflict clause and the re-read after it unreachable:
  the case was looked for under the same lock.
\<close>

definition openDeskingCaseWithin ::
  "desk_env \<Rightarrow> string \<Rightarrow> string \<Rightarrow> string \<Rightarrow> IntakeOutcome dtx" where
  "openDeskingCaseWithin e tenant actingUser hid s =
     bindR (requireActor actingUser s) (\<lambda>actor.
       case find (\<lambda>c. dc_tenant c = tenant \<and> dc_handoff c = pgUuid hid) (cases s) of
         Some already \<Rightarrow>
           Inr (if reaches e tenant actor (dc_rooftop already) s then IO_already_open already
                else IO_not_found, s)
       | None \<Rightarrow>
           (case getDeskingHandoffWithin tenant hid s of
              None \<Rightarrow> Inr (IO_not_found, s)
            | Some handoff \<Rightarrow>
                if \<not> reaches e tenant actor (dh_rooftop handoff) s then Inr (IO_not_found, s)
                else if list_ex (\<lambda>c. dc_tenant c = tenant \<and> dc_opportunity c = dh_opportunity handoff) (cases s)
                then Inl (DatabaseError ''unique_violation'')
                else
                  (let opened = \<lparr>dc_id = newId e 0, dc_tenant = tenant, dc_rooftop = dh_rooftop handoff,
                                 dc_opportunity = dh_opportunity handoff, dc_party = dh_party handoff,
                                 dc_stock = dh_stock handoff, dc_handoff = dh_id handoff,
                                 dc_outbox = dh_outbox handoff, dc_state = DC_open,
                                 dc_opened_by = pgUuid actor, dc_approved_at = None, dc_version = 1\<rparr>;
                       s1 = markDeskingHandoffAvailableWithin tenant hid
                              (s\<lparr>cases := cases s @ [opened]\<rparr>)
                   in Inr (IO_opened opened,
                        recordMutation tenant ''desking_case'' (newId e 0) ''desking.case.opened'' actor s1))))"

definition openDeskingCase ::
  "desk_env \<Rightarrow> string \<Rightarrow> string \<Rightarrow> string \<Rightarrow> desk_db \<Rightarrow> IntakeOutcome result \<times> desk_db" where
  "openDeskingCase e tenant actingUser hid s =
     withTenantTransaction (openDeskingCaseWithin e tenant actingUser hid) s"

definition requireCaseWithin ::
  "desk_env \<Rightarrow> string \<Rightarrow> string \<Rightarrow> string \<Rightarrow> desk_db \<Rightarrow> desking_case option" where
  "requireCaseWithin e tenant actor cid s =
     (case find (\<lambda>c. dc_tenant c = tenant \<and> dc_id c = pgUuid cid) (cases s) of
        None \<Rightarrow> None
      | Some c \<Rightarrow> if reaches e tenant actor (dc_rooftop c) s then Some c else None)"

section \<open>Building a version\<close>

record build_input =
  bi_case :: string
  bi_label :: string
  bi_jurisdiction :: string
  bi_price :: int
  bi_allowance :: "int option"
  bi_payoff :: "int option"
  bi_cash_down :: "int option"
  bi_term :: "jsnum option"
  bi_apr :: "int option"
  bi_priced_at :: "string option"
  bi_expires :: "string option"
  bi_supersedes :: "string option"

datatype BuildOutcome =
    BO_built desking_scenario
  | BO_not_found
  | BO_rules_unavailable "RuleKind list" "RuleKind list"
  | BO_invalid

definition stateEvent ::
  "string \<Rightarrow> string \<Rightarrow> ScenarioState option \<Rightarrow> ScenarioState \<Rightarrow> string \<Rightarrow> desk_db \<Rightarrow> desk_db" where
  "stateEvent tenant scenarioId from to' actor s =
     s\<lparr>state_events := state_events s @ [\<lparr>se_tenant = tenant, se_scenario = scenarioId, se_from = from,
        se_to = to', se_by = pgUuid actor\<rparr>]\<rparr>"

text \<open>\<open>termMonths < 1 || termMonths > 120\<close>, which a NaN passes.\<close>

fun termOutOfRange :: "jsnum \<Rightarrow> bool" where
  "termOutOfRange (Fin q) = (q < 1 \<or> q > 120)"
| "termOutOfRange PosInf = True"
| "termOutOfRange NegInf = True"
| "termOutOfRange NaN = False"

text \<open>An error the calculator throws escapes the transaction, which rolls back.\<close>

definition uncaught :: "'a desk \<Rightarrow> 'a result" where
  "uncaught r = (case r of Inl _ \<Rightarrow> Inl (DatabaseError ''uncaught'') | Inr x \<Rightarrow> Inr x)"

definition scenarioInputs :: "build_input \<Rightarrow> string \<Rightarrow> ScenarioInputs" where
  "scenarioInputs i at' =
     \<lparr>vehiclePriceCents = bi_price i, tradeAllowanceCents = orZero (bi_allowance i),
      tradePayoffCents = orZero (bi_payoff i), cashDownCents = orZero (bi_cash_down i),
      termMonths = bi_term i, aprPpm = bi_apr i, currency = ''USD'',
      jurisdiction = bi_jurisdiction i, pricedAt = at'\<rparr>"

definition nextVersionNo :: "string \<Rightarrow> string \<Rightarrow> desk_db \<Rightarrow> int" where
  "nextVersionNo tenant cid s =
     fold max (map sc_version_no (filter (\<lambda>x. sc_tenant x = tenant \<and> sc_case x = cid) (scenarios s))) 0 + 1"

text \<open>The CHECK constraints and the foreign key of the table.\<close>

definition scenarioRowOk :: "desk_env \<Rightarrow> desking_scenario \<Rightarrow> desk_db \<Rightarrow> bool" where
  "scenarioRowOk e x s =
     (let i = sc_inputs x; r = sc_computed x in
      1 \<le> length (sc_label x) \<and> length (sc_label x) \<le> 80 \<and> jurisdictionOk (jurisdiction i)
      \<and> list_all (\<lambda>n. 0 \<le> n) [vehiclePriceCents i, tradeAllowanceCents i, tradePayoffCents i, cashDownCents i,
            taxableAmountCents r, taxTotalCents r, feeTotalCents r, incentiveTotalCents r]
      \<and> list_all fitsBigint [vehiclePriceCents i, tradeAllowanceCents i, tradePayoffCents i, cashDownCents i,
            tradeEquityCents r, taxableAmountCents r, taxTotalCents r, feeTotalCents r,
            incentiveTotalCents r, amountFinancedCents r, orZero (monthlyPaymentCents r)]
      \<and> (case aprPpm i of None \<Rightarrow> True | Some a \<Rightarrow> 0 \<le> a \<and> a \<le> 1000000)
      \<and> (case monthlyPaymentCents r of None \<Rightarrow> True | Some p \<Rightarrow> 0 \<le> p)
      \<and> (case sc_expires x of None \<Rightarrow> True
         | Some t \<Rightarrow> (case instantOf e (pricedAt i) of Some p \<Rightarrow> p < t | None \<Rightarrow> False))
      \<and> (case sc_supersedes x of None \<Rightarrow> True
         | Some sid \<Rightarrow> list_ex (\<lambda>y. sc_tenant y = sc_tenant x \<and> sc_id y = sid) (scenarios s)))"

definition writeScenario ::
  "desk_env \<Rightarrow> string \<Rightarrow> string \<Rightarrow> build_input \<Rightarrow> desking_case \<Rightarrow> ScenarioInputs \<Rightarrow> ComputedScenario
   \<Rightarrow> int option \<Rightarrow> BuildOutcome dtx" where
  "writeScenario e tenant actor i c inputs computed expires s =
     (let row = \<lparr>sc_id = newId e 0, sc_tenant = tenant, sc_rooftop = dc_rooftop c,
                 sc_case = pgUuid (bi_case i), sc_version_no = nextVersionNo tenant (pgUuid (bi_case i)) s,
                 sc_supersedes = map_option pgUuid (bi_supersedes i), sc_label = bi_label i,
                 sc_state = SS_draft, sc_inputs = inputs, sc_computed = computed, sc_expires = expires,
                 sc_built_by = pgUuid actor, sc_version = 1\<rparr>
      in bindR (ensure (scenarioRowOk e row s) (DatabaseError ''check_violation'')) (\<lambda>_.
           Inr (BO_built row,
             recordMutation tenant ''desking_scenario'' (newId e 0) ''desking.scenario.built'' actor
               (stateEvent tenant (newId e 0) None SS_draft actor
                 (s\<lparr>scenarios := scenarios s @ [row]\<rparr>)))))"

definition buildScenarioWithin ::
  "desk_env \<Rightarrow> string \<Rightarrow> string \<Rightarrow> build_input \<Rightarrow> BuildOutcome dtx" where
  "buildScenarioWithin e tenant actingUser i s =
     bindR (requireActor actingUser s) (\<lambda>actor.
       case requireCaseWithin e tenant actor (bi_case i) s of
         None \<Rightarrow> Inr (BO_not_found, s)
       | Some c \<Rightarrow>
           if bi_price i < 0 then Inr (BO_invalid, s)
           else if (bi_term i = None) \<noteq> (bi_apr i = None) then Inr (BO_invalid, s)
           else if (case bi_term i of None \<Rightarrow> False | Some t \<Rightarrow> termOutOfRange t) then Inr (BO_invalid, s)
           else
             (let at' = (case bi_priced_at i of Some x \<Rightarrow> x | None \<Rightarrow> isoText e (dnow e)) in
              case instantOf e at' of
                None \<Rightarrow> Inl (DatabaseError ''invalid_datetime'')
              | Some t \<Rightarrow>
                  (let book = resolveRuleBookWithin e tenant (bi_jurisdiction i) (dc_rooftop c) t s in
                   if bookMissing book \<noteq> [] \<or> bookExpired book \<noteq> []
                   then Inr (BO_rules_unavailable (bookMissing book) (bookExpired book), s)
                   else
                     bindR (uncaught (computeScenario (numText e) (sha e) (scenarioInputs i at') (bookRules book)))
                       (\<lambda>computed.
                     bindR (case bi_expires i of
                              None \<Rightarrow> Inr None
                            | Some x \<Rightarrow> (case instantOf e x of Some t \<Rightarrow> Inr (Some t)
                                         | None \<Rightarrow> Inl (DatabaseError ''invalid_datetime''))) (\<lambda>expires.
                       writeScenario e tenant actor i c (scenarioInputs i at') computed expires s)))))"

definition buildScenario ::
  "desk_env \<Rightarrow> string \<Rightarrow> string \<Rightarrow> build_input \<Rightarrow> desk_db \<Rightarrow> BuildOutcome result \<times> desk_db" where
  "buildScenario e tenant actingUser i s =
     withTenantTransaction (buildScenarioWithin e tenant actingUser i) s"

section \<open>Moving a version\<close>

datatype MoveOutcome =
    MO_moved desking_scenario
  | MO_already_there desking_scenario
  | MO_not_found
  | MO_version_conflict int
  | MO_invalid

definition loadScenarioForUpdate ::
  "desk_env \<Rightarrow> string \<Rightarrow> string \<Rightarrow> string \<Rightarrow> desk_db \<Rightarrow> desking_scenario option" where
  "loadScenarioForUpdate e tenant actor sid s =
     (case find (\<lambda>x. sc_tenant x = tenant \<and> sc_id x = pgUuid sid) (scenarios s) of
        None \<Rightarrow> None
      | Some x \<Rightarrow> (case requireCaseWithin e tenant actor (sc_case x) s of None \<Rightarrow> None | Some _ \<Rightarrow> Some x))"

text \<open>
  The conditional UPDATE of the state, its event and its audit row; the event's reason is at
  most 400 characters long.
\<close>

definition moveScenario ::
  "string \<Rightarrow> string \<Rightarrow> string \<Rightarrow> int \<Rightarrow> ScenarioState \<Rightarrow> ScenarioState \<Rightarrow> string option \<Rightarrow> string
   \<Rightarrow> desking_scenario \<Rightarrow> MoveOutcome dtx" where
  "moveScenario tenant actor sid expectedVersion from to' reason event scenario s =
     (let here = (\<lambda>x. sc_tenant x = tenant \<and> sc_id x = pgUuid sid \<and> sc_version x = expectedVersion);
          write = (\<lambda>x. x\<lparr>sc_state := to', sc_version := sc_version x + 1\<rparr>)
      in case find here (scenarios s) of
           None \<Rightarrow> Inr (MO_version_conflict (sc_version scenario), s)
         | Some row \<Rightarrow>
             bindR (ensure (case reason of None \<Rightarrow> True | Some x \<Rightarrow> length x \<le> 400) (DatabaseError ''check_violation''))
               (\<lambda>_. Inr (MO_moved (write row),
                  recordMutation tenant ''desking_scenario'' (sc_id row) event actor
                    (stateEvent tenant (sc_id row) (Some from) to' actor
                      (s\<lparr>scenarios := update_where here write (scenarios s)\<rparr>)))))"

definition submitBody ::
  "desk_env \<Rightarrow> string \<Rightarrow> string \<Rightarrow> string \<Rightarrow> int \<Rightarrow> MoveOutcome dtx" where
  "submitBody e tenant actingUser sid expectedVersion s =
     bindR (requireActor actingUser s) (\<lambda>actor.
       case loadScenarioForUpdate e tenant actor sid s of
         None \<Rightarrow> Inr (MO_not_found, s)
       | Some scenario \<Rightarrow>
           if sc_state scenario = SS_submitted then Inr (MO_already_there scenario, s)
           else if sc_state scenario \<noteq> SS_draft then Inr (MO_invalid, s)
           else if sc_version scenario \<noteq> expectedVersion
           then Inr (MO_version_conflict (sc_version scenario), s)
           else moveScenario tenant actor sid expectedVersion SS_draft SS_submitted None
                  ''desking.scenario.submitted'' scenario s)"

definition submitScenario ::
  "desk_env \<Rightarrow> string \<Rightarrow> string \<Rightarrow> string \<Rightarrow> int \<Rightarrow> desk_db \<Rightarrow> MoveOutcome result \<times> desk_db" where
  "submitScenario e tenant actingUser sid expectedVersion s =
     withTenantTransaction (submitBody e tenant actingUser sid expectedVersion) s"

definition expireBody ::
  "desk_env \<Rightarrow> string \<Rightarrow> string \<Rightarrow> string \<Rightarrow> int \<Rightarrow> string option \<Rightarrow> MoveOutcome dtx" where
  "expireBody e tenant actingUser sid expectedVersion reason s =
     bindR (requireActor actingUser s) (\<lambda>actor.
       case loadScenarioForUpdate e tenant actor sid s of
         None \<Rightarrow> Inr (MO_not_found, s)
       | Some scenario \<Rightarrow>
           if sc_state scenario = SS_expired then Inr (MO_already_there scenario, s)
           else if sc_state scenario \<noteq> SS_draft \<and> sc_state scenario \<noteq> SS_submitted then Inr (MO_invalid, s)
           else if sc_version scenario \<noteq> expectedVersion
           then Inr (MO_version_conflict (sc_version scenario), s)
           else moveScenario tenant actor sid expectedVersion (sc_state scenario) SS_expired reason
                  ''desking.scenario.expired'' scenario s)"

definition expireScenario ::
  "desk_env \<Rightarrow> string \<Rightarrow> string \<Rightarrow> string \<Rightarrow> int \<Rightarrow> string option \<Rightarrow> desk_db \<Rightarrow> MoveOutcome result \<times> desk_db" where
  "expireScenario e tenant actingUser sid expectedVersion reason s =
     withTenantTransaction (expireBody e tenant actingUser sid expectedVersion reason) s"

section \<open>The decision\<close>

datatype DecisionOutcome =
    DO_decided desking_scenario string
  | DO_already_decided desking_scenario string
  | DO_not_found
  | DO_stale_view string
  | DO_version_conflict int
  | DO_invalid

record decide_input =
  di_decision :: Decision
  di_fingerprint :: string
  di_version :: int
  di_override :: "string option"
  di_limit :: "string option"
  di_now :: "string option"

fun decidedState :: "Decision \<Rightarrow> ScenarioState" where
  "decidedState D_approved = SS_approved"
| "decidedState D_rejected = SS_rejected"

fun decisionEvent :: "Decision \<Rightarrow> string" where
  "decisionEvent D_approved = ''desking.scenario.approved''"
| "decisionEvent D_rejected = ''desking.scenario.rejected''"

text \<open>Approving supersedes whatever version of the case stands approved.\<close>

definition supersedeStanding :: "string \<Rightarrow> string \<Rightarrow> string \<Rightarrow> desk_db \<Rightarrow> desk_db" where
  "supersedeStanding tenant actor cid s =
     (let standing = (\<lambda>x. sc_tenant x = tenant \<and> sc_case x = cid \<and> sc_state x = SS_approved);
          previous = filter standing (scenarios s)
      in fold (\<lambda>p s. stateEvent tenant (sc_id p) (Some SS_approved) SS_superseded actor
                       (s\<lparr>scenarios := update_where (\<lambda>x. sc_tenant x = tenant \<and> sc_id x = sc_id p)
                            (\<lambda>x. x\<lparr>sc_state := SS_superseded, sc_version := sc_version x + 1\<rparr>)
                            (scenarios s)\<rparr>)) previous s)"

definition reasonsOk :: "decide_input \<Rightarrow> bool" where
  "reasonsOk i =
     ((case di_override i of None \<Rightarrow> True | Some x \<Rightarrow> length x \<le> 400) \<and>
      (case di_limit i of None \<Rightarrow> True | Some x \<Rightarrow> length x \<le> 400))"

definition writeDecision ::
  "desk_env \<Rightarrow> string \<Rightarrow> string \<Rightarrow> string \<Rightarrow> decide_input \<Rightarrow> desking_scenario \<Rightarrow> DecisionOutcome dtx" where
  "writeDecision e tenant actor sid i scenario s =
     (let s1 = (if di_decision i = D_approved then supersedeStanding tenant actor (sc_case scenario) s else s);
          approval = \<lparr>sa_id = newId e 0, sa_tenant = tenant, sa_case = sc_case scenario,
                      sa_scenario = sc_id scenario, sa_version_no = sc_version_no scenario,
                      sa_decision = di_decision i, sa_fingerprint = di_fingerprint i,
                      sa_by = pgUuid actor, sa_override_reason = di_override i,
                      sa_limit_reason = di_limit i\<rparr>;
          s2 = s1\<lparr>approvals := approvals s1 @ [approval]\<rparr>;
          here = (\<lambda>x. sc_tenant x = tenant \<and> sc_id x = pgUuid sid \<and> sc_version x = di_version i);
          write = (\<lambda>x. x\<lparr>sc_state := decidedState (di_decision i), sc_version := sc_version x + 1\<rparr>)
      in bindR (ensure (reasonsOk i) (DatabaseError ''check_violation'')) (\<lambda>_.
           case find here (scenarios s2) of
             None \<Rightarrow> Inr (DO_version_conflict (sc_version scenario), s2)
           | Some row \<Rightarrow>
               (let s3 = stateEvent tenant (sc_id row) (Some SS_submitted) (decidedState (di_decision i)) actor
                           (s2\<lparr>scenarios := update_where here write (scenarios s2)\<rparr>);
                    s4 = (if di_decision i = D_approved
                          then s3\<lparr>cases := update_where (\<lambda>c. dc_tenant c = tenant \<and> dc_id c = sc_case row)
                                 (\<lambda>c. c\<lparr>dc_state := DC_approved, dc_approved_at := Some (dnow e),
                                       dc_version := dc_version c + 1\<rparr>) (cases s3)\<rparr>
                          else s3)
                in Inr (DO_decided (write row) (newId e 0),
                     recordMutation tenant ''desking_scenario'' (sc_id row) (decisionEvent (di_decision i)) actor s4))))"

definition decideBody ::
  "desk_env \<Rightarrow> string \<Rightarrow> string \<Rightarrow> string \<Rightarrow> decide_input \<Rightarrow> DecisionOutcome dtx" where
  "decideBody e tenant actingUser sid i s =
     bindR (requireActor actingUser s) (\<lambda>actor.
       case loadScenarioForUpdate e tenant actor sid s of
         None \<Rightarrow> Inr (DO_not_found, s)
       | Some scenario \<Rightarrow>
           (case find (\<lambda>a. sa_tenant a = tenant \<and> sa_scenario a = pgUuid sid) (approvals s) of
              Some a \<Rightarrow>
                Inr (if sa_decision a = di_decision i then DO_already_decided scenario (sa_id a) else DO_invalid, s)
            | None \<Rightarrow>
                if sc_state scenario \<noteq> SS_submitted then Inr (DO_invalid, s)
                else if \<not> isEligibleManager e tenant actor (sc_rooftop scenario) s then Inr (DO_not_found, s)
                else if (case sc_expires scenario of
                           None \<Rightarrow> False
                         | Some t \<Rightarrow> \<not> strLess (case di_now i of Some x \<Rightarrow> x | None \<Rightarrow> isoText e (dnow e))
                                             (isoText e t))
                then Inr (DO_invalid, s)
                else if outputFingerprint (sc_computed scenario) \<noteq> di_fingerprint i
                then Inr (DO_stale_view (outputFingerprint (sc_computed scenario)), s)
                else if sc_version scenario \<noteq> di_version i
                then Inr (DO_version_conflict (sc_version scenario), s)
                else if di_decision i = D_rejected \<and> (case di_limit i of None \<Rightarrow> True | Some x \<Rightarrow> blank x)
                then Inr (DO_invalid, s)
                else writeDecision e tenant actor sid i scenario s))"

definition decideScenario ::
  "desk_env \<Rightarrow> string \<Rightarrow> string \<Rightarrow> string \<Rightarrow> decide_input \<Rightarrow> desk_db \<Rightarrow> DecisionOutcome result \<times> desk_db" where
  "decideScenario e tenant actingUser sid i s =
     withTenantTransaction (decideBody e tenant actingUser sid i) s"

end
