(* ===== verification/Simulation.thy ===== *)
theory Simulation
  imports Main
begin

text \<open>
  What it takes for a component to implement an abstract machine: its start states look well
  formed, the machine keeps well-formedness, and every step of the component, seen through the
  view, is a step of the machine.  Then every run of the component is a run of the machine.
\<close>

locale simulation =
  fixes start :: "'c \<Rightarrow> bool" and step :: "'c \<Rightarrow> 'c \<Rightarrow> bool"
    and view :: "'c \<Rightarrow> 'a" and spec :: "'a \<Rightarrow> 'a \<Rightarrow> bool" and ok :: "'a \<Rightarrow> bool"
  assumes start_ok: "start s \<Longrightarrow> ok (view s)"
    and ok_spec: "ok v \<Longrightarrow> spec v v' \<Longrightarrow> ok v'"
    and simulates: "ok (view s) \<Longrightarrow> step s s' \<Longrightarrow> spec (view s) (view s')"
begin

inductive reached :: "'c \<Rightarrow> bool" where
  reached_start: "start s \<Longrightarrow> reached s"
| reached_step: "reached s \<Longrightarrow> step s s' \<Longrightarrow> reached s'"

lemma reached_ok: "reached s \<Longrightarrow> ok (view s)"
  by (induction rule: reached.induct) (auto intro: start_ok ok_spec simulates)

lemma reached_simulates: "reached s \<Longrightarrow> step s s' \<Longrightarrow> spec (view s) (view s')"
  using reached_ok simulates by blast

lemma run_simulates:
  assumes "reached s" "step\<^sup>*\<^sup>* s s'"
  shows "reached s' \<and> spec\<^sup>*\<^sup>* (view s) (view s')"
  using assms(2)
proof (induction rule: rtranclp_induct)
  case (step s' s'')
  then have "reached s''" "spec (view s') (view s'')" by (blast intro: reached_step reached_simulates)+
  with step.IH show ?case by (blast intro: rtranclp.rtrancl_into_rtrancl)
qed (simp add: assms(1))

text \<open>What the machine never loses along its steps, the component never loses along a run.\<close>

lemma run_keeps:
  assumes "reached s" "step\<^sup>*\<^sup>* s s'" "K (view s)" "\<And>v v'. ok v \<Longrightarrow> K v \<Longrightarrow> spec v v' \<Longrightarrow> K v'"
  shows "K (view s')"
  using assms(2)
proof (induction rule: rtranclp_induct)
  case (step s' s'')
  have "reached s'" using run_simulates [OF assms(1) step.hyps(1)] ..
  with step assms(4) show ?case by (blast intro: reached_ok reached_simulates)
qed (rule assms(3))

end

end
