(* ===== verification/DeskLife.thy ===== *)
theory DeskLife
  imports DeskScenarios Simulation
begin

text \<open>
  The desk as a transition system: every desking command, the stores they lead to, and what
  holds of all of them: one decision per version, one standing approval per case, decisions
  that name exactly the figures they were taken on, and figures that never change.
\<close>

section \<open>Commands and steps\<close>

datatype desk_request =
    OpenDeskingCase string
  | RecordRule rule_input
  | BuildScenario build_input
  | SubmitScenario string int
  | ExpireScenario string int "string option"
  | DecideScenario string decide_input

fun desk_exec :: "desk_env \<Rightarrow> string \<Rightarrow> string \<Rightarrow> desk_request \<Rightarrow> desk_db \<Rightarrow> desk_db" where
  "desk_exec e tenant user (OpenDeskingCase hid) s = snd (openDeskingCase e tenant user hid s)"
| "desk_exec e tenant user (RecordRule i) s = snd (recordRule e tenant user i s)"
| "desk_exec e tenant user (BuildScenario i) s = snd (buildScenario e tenant user i s)"
| "desk_exec e tenant user (SubmitScenario sid v) s = snd (submitScenario e tenant user sid v s)"
| "desk_exec e tenant user (ExpireScenario sid v r) s = snd (expireScenario e tenant user sid v r s)"
| "desk_exec e tenant user (DecideScenario sid i) s = snd (decideScenario e tenant user sid i s)"

text \<open>The identifier Postgres generates for a new row is in use nowhere.\<close>

definition newIdFresh :: "desk_env \<Rightarrow> desk_db \<Rightarrow> bool" where
  "newIdFresh e s =
     (newId e 0 \<notin> set (map dc_id (cases s) @ map sc_id (scenarios s) @ map sa_id (approvals s)
        @ map rl_id (desk_rules s)))"

text \<open>Number printing and the digest are those of the platform, the same for every command.\<close>

inductive desk_step :: "(rat \<Rightarrow> string) \<Rightarrow> (string \<Rightarrow> string) \<Rightarrow> desk_db \<Rightarrow> desk_db \<Rightarrow> bool" for nt sh where
  desk_step: "newIdFresh e s \<Longrightarrow> numText e = nt \<Longrightarrow> sha e = sh \<Longrightarrow> desk_step nt sh s (desk_exec e tenant user q s)"

inductive_cases desk_stepE: "desk_step nt sh s s'"

definition desk_initial :: "desk_db \<Rightarrow> bool" where
  "desk_initial s =
     (cases s = [] \<and> desk_rules s = [] \<and> scenarios s = [] \<and> state_events s = [] \<and> approvals s = [])"

section \<open>What each command does to the versions\<close>

definition bump :: "(desking_scenario \<Rightarrow> bool) \<Rightarrow> ScenarioState \<Rightarrow> desking_scenario list \<Rightarrow> desking_scenario list" where
  "bump P st rows = update_where P (\<lambda>x. x\<lparr>sc_state := st, sc_version := sc_version x + 1\<rparr>) rows"

lemma bump_keys [simp]: "(\<And>x b n. k (x\<lparr>sc_state := b, sc_version := n\<rparr>) = k x) \<Longrightarrow> map k (bump P st rows) = map k rows"
  unfolding bump_def by (rule map_update_where) simp

lemma in_bump:
  "x' \<in> set (bump P st rows) \<longleftrightarrow>
   (\<exists>x \<in> set rows. x' = (if P x then x\<lparr>sc_state := st, sc_version := sc_version x + 1\<rparr> else x))"
  by (auto simp: bump_def in_update_where)

lemma bex_update_where:
  "(\<exists>r \<in> set (update_where P f rows). Q r) \<longleftrightarrow> (\<exists>r \<in> set rows. if P r then Q (f r) else Q r)"
  by (induction rows) auto

lemma ball_update_where:
  "(\<forall>r \<in> set (update_where P f rows). Q r) \<longleftrightarrow> (\<forall>r \<in> set rows. if P r then Q (f r) else Q r)"
  by (induction rows) auto

lemma bex_bump:
  "(\<exists>x' \<in> set (bump P st rows). Q x') \<longleftrightarrow>
   (\<exists>x \<in> set rows. if P x then Q (x\<lparr>sc_state := st, sc_version := sc_version x + 1\<rparr>) else Q x)"
  by (simp add: bump_def bex_update_where ball_update_where)

lemma ball_bump:
  "(\<forall>x' \<in> set (bump P st rows). Q x') \<longleftrightarrow>
   (\<forall>x \<in> set rows. if P x then Q (x\<lparr>sc_state := st, sc_version := sc_version x + 1\<rparr>) else Q x)"
  by (simp add: bump_def bex_update_where ball_update_where)

lemma bump_cong: "(\<And>x. x \<in> set rows \<Longrightarrow> P x = Q x) \<Longrightarrow> bump P st rows = bump Q st rows"
  by (simp add: bump_def update_where_def)

text \<open>
  \<open>rows_by s s' P st\<close>: the command moved the versions that satisfy \<open>P\<close> to \<open>st\<close> and left
  approvals, cases and rules alone.
\<close>

definition moved_by :: "(desking_scenario \<Rightarrow> bool) \<Rightarrow> ScenarioState \<Rightarrow> desk_db \<Rightarrow> desk_db \<Rightarrow> bool" where
  "moved_by P st s s' =
     (scenarios s' = bump P st (scenarios s) \<and> approvals s' = approvals s \<and> cases s' = cases s \<and>
      desk_rules s' = desk_rules s)"

abbreviation same_row :: "string \<Rightarrow> desking_scenario \<Rightarrow> bool" where
  "same_row i x \<equiv> sc_id x = i"

lemma loadScenario_found:
  "loadScenarioForUpdate e t a sid s = Some x \<Longrightarrow>
   x \<in> set (scenarios s) \<and> sc_tenant x = t \<and> sc_id x = pgUuid sid"
  by (auto simp: loadScenarioForUpdate_def dest: find_SomeD split: option.splits)

lemma row_by_id:
  "distinct (map sc_id rows) \<Longrightarrow> x \<in> set rows \<Longrightarrow> y \<in> set rows \<Longrightarrow> sc_id x = sc_id y \<Longrightarrow> x = y"
  by (rule distinct_map_eq)

lemma find_row:
  assumes "distinct (map sc_id rows)" "x \<in> set rows" "P x" "\<And>y. P y \<Longrightarrow> sc_id y = sc_id x"
  shows "find P rows = Some x"
proof -
  obtain y where y: "find P rows = Some y" using assms(2,3) by (cases "find P rows") (auto simp: find_None_iff)
  then have "y \<in> set rows" "P y" by (auto dest: find_SomeD)
  with row_by_id [OF assms(1) _ assms(2)] assms(4) y show ?thesis by metis
qed

text \<open>A row the conditional UPDATE names: its tenant, its identifier, the version expected.\<close>

abbreviation here_row :: "string \<Rightarrow> string \<Rightarrow> int \<Rightarrow> desking_scenario \<Rightarrow> bool" where
  "here_row t sid v \<equiv> \<lambda>y. sc_tenant y = t \<and> sc_id y = pgUuid sid \<and> sc_version y = v"

lemma here_row_unique:
  assumes "distinct (map sc_id rows)" "x \<in> set rows" "here_row t sid v x"
  shows "find (here_row t sid v) rows = Some x"
    and "bump (here_row t sid v) st rows = bump (same_row (sc_id x)) st rows"
proof -
  show "find (here_row t sid v) rows = Some x" using find_row [of rows x "here_row t sid v"] assms by metis
  show "bump (here_row t sid v) st rows = bump (same_row (sc_id x)) st rows"
  proof (rule bump_cong)
    fix y assume "y \<in> set rows"
    with row_by_id [OF assms(1) this assms(2)] assms(3)
    show "here_row t sid v y = (sc_id y = sc_id x)" by metis
  qed
qed

lemma moveScenario_moves:
  assumes "distinct (map sc_id (scenarios s))" "x \<in> set (scenarios s)" "here_row t sid v x"
    and "moveScenario t a sid v from st r ev x s = Inr (out, s')"
  shows "moved_by (same_row (sc_id x)) st s s'"
  using assms(4) here_row_unique [OF assms(1-3)]
  by (auto simp: moveScenario_def Let_def moved_by_def stateEvent_def recordMutation_def bump_def)

lemma submitBody_moves:
  assumes "distinct (map sc_id (scenarios s))" "submitBody e t u sid v s = Inr (out, s')"
  shows "s' = s \<or> (\<exists>x \<in> set (scenarios s). sc_state x = SS_draft \<and> moved_by (same_row (sc_id x)) SS_submitted s s')"
proof (cases "requireActor u s")
  case (Inr a)
  show ?thesis
  proof (cases "loadScenarioForUpdate e t a sid s")
    case (Some x)
    with loadScenario_found [OF this] moveScenario_moves [OF assms(1)] assms(2) Inr show ?thesis
      by (auto simp: submitBody_def split: if_splits)
  qed (use assms(2) Inr in \<open>auto simp: submitBody_def\<close>)
qed (use assms(2) in \<open>simp add: submitBody_def\<close>)

lemma expireBody_moves:
  assumes "distinct (map sc_id (scenarios s))" "expireBody e t u sid v r s = Inr (out, s')"
  shows "s' = s \<or> (\<exists>x \<in> set (scenarios s). sc_state x \<in> {SS_draft, SS_submitted} \<and>
     moved_by (same_row (sc_id x)) SS_expired s s')"
proof (cases "requireActor u s")
  case (Inr a)
  show ?thesis
  proof (cases "loadScenarioForUpdate e t a sid s")
    case (Some x)
    with loadScenario_found [OF this] moveScenario_moves [OF assms(1)] assms(2) Inr show ?thesis
      by (auto simp: expireBody_def split: if_splits)
  qed (use assms(2) Inr in \<open>auto simp: expireBody_def\<close>)
qed (use assms(2) in \<open>simp add: expireBody_def\<close>)

section \<open>The desk as it is meant\<close>

text \<open>
  The abstract desk: cases, versions and decisions, and six moves.  A version is drafted with
  a number of its own, is submitted or expires, and is decided once; approving one supersedes
  whatever version of the case stands approved and marks the case.
\<close>

type_synonym desk_view = "desking_case list \<times> desking_scenario list \<times> scenario_approval list"

definition view :: "desk_db \<Rightarrow> desk_view" where
  "view s = (cases s, scenarios s, approvals s)"

definition same_case :: "desking_scenario \<Rightarrow> desking_scenario \<Rightarrow> bool" where
  "same_case x y = (sc_tenant x = sc_tenant y \<and> sc_case x = sc_case y)"

definition standing :: "desking_scenario \<Rightarrow> desking_scenario \<Rightarrow> bool" where
  "standing x y = (same_case x y \<and> sc_state y = SS_approved)"

definition case_of :: "desking_scenario \<Rightarrow> desking_case \<Rightarrow> bool" where
  "case_of x = (\<lambda>c. dc_tenant c = sc_tenant x \<and> dc_id c = sc_case x)"

definition about :: "scenario_approval \<Rightarrow> desking_scenario \<Rightarrow> bool" where
  "about a x =
     (sa_tenant a = sc_tenant x \<and> sa_case a = sc_case x \<and> sa_scenario a = sc_id x \<and>
      sa_version_no a = sc_version_no x \<and> sa_fingerprint a = outputFingerprint (sc_computed x))"

definition mark_approved :: "(desking_case \<Rightarrow> bool) \<Rightarrow> int \<Rightarrow> desking_case list \<Rightarrow> desking_case list" where
  "mark_approved P t cs =
     update_where P (\<lambda>c. c\<lparr>dc_state := DC_approved, dc_approved_at := Some t, dc_version := dc_version c + 1\<rparr>) cs"

text \<open>A version's figures are those its inputs give under some rule book.\<close>

definition priced :: "(rat \<Rightarrow> string) \<Rightarrow> (string \<Rightarrow> string) \<Rightarrow> desking_scenario \<Rightarrow> bool" where
  "priced nt sh x = (\<exists>book. computeScenario nt sh (sc_inputs x) book = Inr (sc_computed x))"

inductive desk_spec :: "(rat \<Rightarrow> string) \<Rightarrow> (string \<Rightarrow> string) \<Rightarrow> desk_view \<Rightarrow> desk_view \<Rightarrow> bool" for nt sh where
  spec_idle: "desk_spec nt sh v v"
| spec_open: "dc_id c \<notin> dc_id ` set cs \<Longrightarrow> dc_state c = DC_open \<Longrightarrow>
    \<forall>d \<in> set cs. dc_tenant d = dc_tenant c \<longrightarrow> dc_handoff d \<noteq> dc_handoff c \<and> dc_opportunity d \<noteq> dc_opportunity c \<Longrightarrow>
    desk_spec nt sh (cs, xs, as) (cs @ [c], xs, as)"
| spec_draft: "sc_id x \<notin> sc_id ` set xs \<Longrightarrow> sc_state x = SS_draft \<Longrightarrow> priced nt sh x \<Longrightarrow> \<exists>c \<in> set cs. case_of x c \<Longrightarrow>
    \<forall>y \<in> set xs. same_case x y \<longrightarrow> sc_version_no y < sc_version_no x \<Longrightarrow>
    desk_spec nt sh (cs, xs, as) (cs, xs @ [x], as)"
| spec_submit: "x \<in> set xs \<Longrightarrow> sc_state x = SS_draft \<Longrightarrow>
    desk_spec nt sh (cs, xs, as) (cs, bump (same_row (sc_id x)) SS_submitted xs, as)"
| spec_expire: "x \<in> set xs \<Longrightarrow> sc_state x \<in> {SS_draft, SS_submitted} \<Longrightarrow>
    desk_spec nt sh (cs, xs, as) (cs, bump (same_row (sc_id x)) SS_expired xs, as)"
| spec_reject: "x \<in> set xs \<Longrightarrow> sc_state x = SS_submitted \<Longrightarrow> about a x \<Longrightarrow> sa_decision a = D_rejected \<Longrightarrow>
    \<forall>b \<in> set as. sa_tenant b = sc_tenant x \<longrightarrow> sa_scenario b \<noteq> sc_id x \<Longrightarrow>
    desk_spec nt sh (cs, xs, as) (cs, bump (same_row (sc_id x)) SS_rejected xs, as @ [a])"
| spec_approve: "x \<in> set xs \<Longrightarrow> sc_state x = SS_submitted \<Longrightarrow> about a x \<Longrightarrow> sa_decision a = D_approved \<Longrightarrow>
    \<forall>b \<in> set as. sa_tenant b = sc_tenant x \<longrightarrow> sa_scenario b \<noteq> sc_id x \<Longrightarrow>
    desk_spec nt sh (cs, xs, as)
      (mark_approved (case_of x) t cs,
       bump (same_row (sc_id x)) SS_approved (bump (standing x) SS_superseded xs), as @ [a])"

section \<open>Every command is a move of the abstract desk\<close>

lemma fold_field: "(\<And>p s. k (f p s) = g p (k s)) \<Longrightarrow> k (fold f ps s) = fold g ps (k s)"
  by (induction ps arbitrary: s) simp_all

lemma fold_keeps_field: "(\<And>p s. k (f p s) = k s) \<Longrightarrow> k (fold f ps s) = k s"
  by (induction ps arbitrary: s) simp_all

text \<open>Bumping rows one by one, by identifier, is bumping them all: a bumped row is bumped once.\<close>

lemma fold_bump:
  assumes "distinct (map sc_id ps)" "\<And>p y. p \<in> set ps \<Longrightarrow> y \<in> set rows \<Longrightarrow> P p y \<longleftrightarrow> sc_id y = sc_id p"
    and "\<And>p y b n. P p (y\<lparr>sc_state := b, sc_version := n\<rparr>) = P p y"
  shows "fold (\<lambda>p. bump (P p) st) ps rows = bump (\<lambda>y. sc_id y \<in> sc_id ` set ps) st rows"
  using assms(1,2)
proof (induction ps arbitrary: rows)
  case Nil
  then show ?case by (simp add: bump_def update_where_def)
next
  case (Cons p ps)
  have "P q y \<longleftrightarrow> sc_id y = sc_id q" if "q \<in> set ps" "y \<in> set (bump (P p) st rows)" for q y
    using that Cons.prems(2) assms(3) by (auto simp: in_bump)
  then have "fold (\<lambda>p. bump (P p) st) ps (bump (P p) st rows) =
      bump (\<lambda>y. sc_id y \<in> sc_id ` set ps) st (bump (P p) st rows)"
    using Cons by simp
  also have "\<dots> = bump (\<lambda>y. sc_id y \<in> sc_id ` set (p # ps)) st rows"
    using Cons.prems by (auto simp: bump_def update_where_def)
  finally show ?case by simp
qed

lemma supersedeStanding_moves:
  assumes "distinct (map sc_id (scenarios s))" "sc_tenant x = tenant" "sc_case x = cid"
  shows "moved_by (standing x) SS_superseded s (supersedeStanding tenant actor cid s)"
proof -
  let ?st = "\<lambda>x. sc_tenant x = tenant \<and> sc_case x = cid \<and> sc_state x = SS_approved"
  let ?ps = "filter ?st (scenarios s)"
  let ?by = "\<lambda>p y. sc_tenant y = tenant \<and> sc_id y = sc_id p"
  have "scenarios (supersedeStanding tenant actor cid s) = fold (\<lambda>p. bump (?by p) SS_superseded) ?ps (scenarios s)"
    unfolding supersedeStanding_def Let_def
    by (rule fold_field) (simp add: stateEvent_def bump_def)
  also have "\<dots> = bump (\<lambda>y. sc_id y \<in> sc_id ` set ?ps) SS_superseded (scenarios s)"
  proof (rule fold_bump)
    show "distinct (map sc_id ?ps)" using assms(1) by (rule distinct_map_filter)
    show "?by p y \<longleftrightarrow> sc_id y = sc_id p" if "p \<in> set ?ps" "y \<in> set (scenarios s)" for p y
      using that row_by_id [OF assms(1)] by auto
  qed simp
  also have "\<dots> = bump (standing x) SS_superseded (scenarios s)"
  proof (rule bump_cong)
    fix y assume y: "y \<in> set (scenarios s)"
    have "sc_id y \<in> sc_id ` set ?ps \<longleftrightarrow> y \<in> set ?ps"
      using row_by_id [OF assms(1) y] by (metis (no_types, lifting) filter_is_subset image_iff subsetD)
    with y assms(2,3) show "(sc_id y \<in> sc_id ` set ?ps) = standing x y" by (auto simp: standing_def same_case_def)
  qed
  finally show ?thesis
    unfolding moved_by_def supersedeStanding_def Let_def
    by (auto intro!: fold_keeps_field simp: stateEvent_def)
qed

lemma requireCase_found:
  "requireCaseWithin e t a cid s = Some c \<Longrightarrow> c \<in> set (cases s) \<and> dc_tenant c = t \<and> dc_id c = pgUuid cid"
  by (auto simp: requireCaseWithin_def dest: find_SomeD split: option.splits if_splits)

text \<open>The row a decision finds after superseding what stood: the one it was asked about.\<close>

lemma decided_row:
  fixes a :: string
  assumes "distinct (map sc_id (scenarios s))" "x \<in> set (scenarios s)" "here_row t sid (di_version i) x"
    and "sc_state x = SS_submitted"
  defines "s1 \<equiv> (if di_decision i = D_approved then supersedeStanding t a (sc_case x) s else s)"
  shows "cases s1 = cases s" "approvals s1 = approvals s" "scenarios s1 =
      (if di_decision i = D_approved then bump (standing x) SS_superseded (scenarios s) else scenarios s)"
    "find (here_row t sid (di_version i)) (scenarios s1) = Some x"
    "bump (here_row t sid (di_version i)) st (scenarios s1) = bump (same_row (sc_id x)) st (scenarios s1)"
proof -
  show s1: "cases s1 = cases s" "approvals s1 = approvals s" "scenarios s1 =
      (if di_decision i = D_approved then bump (standing x) SS_superseded (scenarios s) else scenarios s)"
    using supersedeStanding_moves [OF assms(1), of x t "sc_case x" a] assms(3) by (auto simp: moved_by_def s1_def)
  then have "distinct (map sc_id (scenarios s1))" "x \<in> set (scenarios s1)"
    using assms(1,2,4) by (auto simp: in_bump standing_def intro: bexI [of _ x])
  from here_row_unique [OF this assms(3)]
  show "find (here_row t sid (di_version i)) (scenarios s1) = Some x"
    "bump (here_row t sid (di_version i)) st (scenarios s1) = bump (same_row (sc_id x)) st (scenarios s1)" .
qed

lemma writeDecision_moves:
  assumes "distinct (map sc_id (scenarios s))" "x \<in> set (scenarios s)" "here_row t sid (di_version i) x"
    and "sc_state x = SS_submitted" "di_fingerprint i = outputFingerprint (sc_computed x)"
    and "\<forall>b \<in> set (approvals s). sa_tenant b = t \<longrightarrow> sa_scenario b \<noteq> sc_id x"
    and "writeDecision e t a sid i x s = Inr (out, s')"
  shows "desk_spec nt sh (view s) (view s')"
proof -
  let ?s1 = "if di_decision i = D_approved then supersedeStanding t a (sc_case x) s else s"
  let ?a = "\<lparr>sa_id = newId e 0, sa_tenant = t, sa_case = sc_case x,
                      sa_scenario = sc_id x, sa_version_no = sc_version_no x,
                      sa_decision = di_decision i, sa_fingerprint = di_fingerprint i,
                      sa_by = pgUuid a, sa_override_reason = di_override i,
                      sa_limit_reason = di_limit i\<rparr>"
  note s1 = decided_row(1-3) [OF assms(1-4), where a = a] and row = decided_row(4,5) [OF assms(1-4), where a = a]
  have a: "about ?a x" using assms(3,5) by (simp add: about_def)
  have "view s' = ((if di_decision i = D_approved then mark_approved (case_of x) (dnow e) (cases s) else cases s),
      bump (same_row (sc_id x)) (decidedState (di_decision i)) (scenarios ?s1), approvals s @ [?a])"
    using assms(3,7) row s1(1,2)
    by (auto simp: writeDecision_def Let_def view_def bump_def stateEvent_def recordMutation_def mark_approved_def
        case_of_def split: if_splits)
  from this [unfolded s1(3)] show ?thesis
    using spec_approve [OF assms(2,4) a] spec_reject [OF assms(2,4) a] assms(3,6)
    by (cases "di_decision i") (auto simp: view_def)
qed

lemma writeDecision_decides:
  assumes "distinct (map sc_id (scenarios s))" "x \<in> set (scenarios s)" "here_row t sid (di_version i) x"
    and "sc_state x = SS_submitted" "writeDecision e t a sid i x s = Inr (out, s')"
  shows "\<exists>x a. out = DO_decided x a"
  using assms(5) decided_row [OF assms(1-4)] by (auto simp: writeDecision_def Let_def split: if_splits)

text \<open>What a command that writes a decision went through.\<close>

definition lapsed :: "desk_env \<Rightarrow> decide_input \<Rightarrow> desking_scenario \<Rightarrow> bool" where
  "lapsed e i x =
     (case sc_expires x of
        None \<Rightarrow> False
      | Some t \<Rightarrow> \<not> strLess (case di_now i of Some x \<Rightarrow> x | None \<Rightarrow> isoText e (dnow e)) (isoText e t))"

definition decides ::
  "desk_env \<Rightarrow> string \<Rightarrow> string \<Rightarrow> string \<Rightarrow> decide_input \<Rightarrow> desk_db \<Rightarrow> string \<Rightarrow> desking_scenario \<Rightarrow> bool" where
  "decides e t u sid i s a x =
     (requireActor u s = Inr a \<and> loadScenarioForUpdate e t a sid s = Some x \<and>
      (\<forall>b \<in> set (approvals s). sa_tenant b = t \<longrightarrow> sa_scenario b \<noteq> sc_id x) \<and>
      sc_state x = SS_submitted \<and> isEligibleManager e t a (sc_rooftop x) s \<and> \<not> lapsed e i x \<and>
      outputFingerprint (sc_computed x) = di_fingerprint i \<and> sc_version x = di_version i)"

lemma decideBody_cases:
  assumes "decideBody e t u sid i s = Inr (out, s')"
  shows "(s' = s \<and> (\<forall>x a. out \<noteq> DO_decided x a)) \<or>
    (\<exists>a x. decides e t u sid i s a x \<and> writeDecision e t a sid i x s = Inr (out, s'))"
proof -
  from assms obtain a where a: "requireActor u s = Inr a" by (auto simp: decideBody_def)
  show ?thesis
  proof (cases "loadScenarioForUpdate e t a sid s")
    case None
    with assms a show ?thesis by (auto simp: decideBody_def)
  next
    case x: (Some x)
    show ?thesis
    proof (cases "find (\<lambda>a. sa_tenant a = t \<and> sa_scenario a = pgUuid sid) (approvals s)")
      case (Some b)
      with assms a x show ?thesis by (auto simp: decideBody_def split: if_splits)
    next
      case None
      with loadScenario_found [OF x] have "\<forall>b \<in> set (approvals s). sa_tenant b = t \<longrightarrow> sa_scenario b \<noteq> sc_id x"
        by (auto simp: find_None_notin)
      with assms a x None show ?thesis
        unfolding decideBody_def decides_def lapsed_def [symmetric] by (auto split: if_splits)
    qed
  qed
qed

lemma decideBody_moves:
  assumes "distinct (map sc_id (scenarios s))" "decideBody e t u sid i s = Inr (out, s')"
  shows "desk_spec nt sh (view s) (view s')"
  using decideBody_cases [OF assms(2)]
proof (elim disjE exE conjE)
  fix a x assume d: "decides e t u sid i s a x" and w: "writeDecision e t a sid i x s = Inr (out, s')"
  then have x: "x \<in> set (scenarios s)" "here_row t sid (di_version i) x"
    using loadScenario_found [of e t a sid s x] by (auto simp: decides_def)
  show ?thesis by (rule writeDecision_moves [OF assms(1) x _ _ _ w]) (use d in \<open>simp_all add: decides_def\<close>)
qed (simp add: spec_idle)

lemma openDeskingCaseWithin_moves:
  assumes "newIdFresh e s" "openDeskingCaseWithin e t u hid s = Inr (out, s')"
  shows "desk_spec nt sh (view s) (view s')"
proof (cases "find (\<lambda>c. dc_tenant c = t \<and> dc_handoff c = pgUuid hid) (cases s)")
  case None
  show ?thesis
  proof (cases "getDeskingHandoffWithin t hid s")
    case (Some h)
    then have h: "dh_id h = pgUuid hid" by (auto simp: getDeskingHandoffWithin_def dest: find_SomeD)
    from None Some assms(2) show ?thesis
      by (auto simp: openDeskingCaseWithin_def spec_idle split: if_splits)
        (use h assms(1) in \<open>auto simp: markDeskingHandoffAvailableWithin_def recordMutation_def Let_def newIdFresh_def
          view_def find_None_notin list_ex_iff intro!: spec_open\<close>)
  qed (use assms(2) None in \<open>auto simp: openDeskingCaseWithin_def spec_idle\<close>)
qed (use assms(2) in \<open>auto simp: openDeskingCaseWithin_def spec_idle\<close>)

lemma openDeskingCaseWithin_opened:
  assumes "openDeskingCaseWithin e t u hid s = Inr (IO_opened c, s')"
  shows "find (\<lambda>c. dc_tenant c = t \<and> dc_handoff c = pgUuid hid) (cases s') = Some c"
proof (cases "find (\<lambda>c. dc_tenant c = t \<and> dc_handoff c = pgUuid hid) (cases s)")
  case None
  show ?thesis
  proof (cases "getDeskingHandoffWithin t hid s")
    case (Some h)
    then have h: "dh_id h = pgUuid hid" by (auto simp: getDeskingHandoffWithin_def dest: find_SomeD)
    from None Some assms show ?thesis
      by (auto simp: openDeskingCaseWithin_def markDeskingHandoffAvailableWithin_def recordMutation_def Let_def
          find_append h split: if_splits)
  qed (use assms None in \<open>auto simp: openDeskingCaseWithin_def\<close>)
qed (use assms in \<open>auto simp: openDeskingCaseWithin_def split: if_splits\<close>)

lemma nextVersionNo_above:
  "y \<in> set (scenarios s) \<Longrightarrow> sc_tenant y = t \<Longrightarrow> sc_case y = cid \<Longrightarrow> sc_version_no y < nextVersionNo t cid s"
  using fold_max_bound [of "sc_version_no y" "map sc_version_no (filter (\<lambda>x. sc_tenant x = t \<and> sc_case x = cid) (scenarios s))" 0]
  by (auto simp: nextVersionNo_def)

lemma writeScenario_moves:
  assumes "newIdFresh e s" "c \<in> set (cases s)" "dc_tenant c = t" "dc_id c = pgUuid (bi_case i)"
    and "computeScenario (numText e) (sha e) inputs book = Inr computed"
    and "writeScenario e t a i c inputs computed expires s = Inr (out, s')"
  shows "desk_spec (numText e) (sha e) (view s) (view s')"
  using assms
  by (auto simp: writeScenario_def Let_def view_def recordMutation_def stateEvent_def newIdFresh_def case_of_def
      same_case_def nextVersionNo_above priced_def intro!: spec_draft bexI [of _ c] exI [of _ book])

text \<open>What a command that drafts a version went through.\<close>

definition drafts ::
  "desk_env \<Rightarrow> string \<Rightarrow> string \<Rightarrow> build_input \<Rightarrow> desk_db \<Rightarrow> BuildOutcome \<Rightarrow> desk_db \<Rightarrow> bool" where
  "drafts e t u i s out s' =
     (\<exists>a c at' tm r expires. requireActor u s = Inr a \<and> requireCaseWithin e t a (bi_case i) s = Some c \<and>
        instantOf e at' = Some tm \<and>
        (let book = resolveRuleBookWithin e t (bi_jurisdiction i) (dc_rooftop c) tm s in
         bookMissing book = [] \<and> bookExpired book = [] \<and>
         computeScenario (numText e) (sha e) (scenarioInputs i at') (bookRules book) = Inr r) \<and>
        writeScenario e t a i c (scenarioInputs i at') r expires s = Inr (out, s'))"

lemma uncaught_Inr [simp]: "uncaught r = Inr x \<longleftrightarrow> r = Inr x"
  by (simp add: uncaught_def split: sum.splits)

lemma buildScenarioWithin_cases:
  assumes "buildScenarioWithin e t u i s = Inr (out, s')"
  shows "(s' = s \<and> (\<forall>x. out \<noteq> BO_built x)) \<or> drafts e t u i s out s'"
proof -
  from assms obtain a where a: "requireActor u s = Inr a" by (auto simp: buildScenarioWithin_def)
  show ?thesis
  proof (cases "requireCaseWithin e t a (bi_case i) s")
    case None
    with assms a show ?thesis by (auto simp: buildScenarioWithin_def)
  next
    case (Some c)
    let ?at = "case bi_priced_at i of Some x \<Rightarrow> x | None \<Rightarrow> isoText e (dnow e)"
    show ?thesis
    proof (cases "instantOf e ?at")
      case None
      with assms a Some show ?thesis by (simp add: buildScenarioWithin_def Let_def split: if_splits)
    next
      case at: (Some tm)
      from assms a Some at show ?thesis
        by (auto simp: buildScenarioWithin_def Let_def drafts_def split: if_splits)
    qed
  qed
qed

lemma buildScenarioWithin_moves:
  assumes "newIdFresh e s" "buildScenarioWithin e t u i s = Inr (out, s')"
  shows "desk_spec (numText e) (sha e) (view s) (view s')"
  using buildScenarioWithin_cases [OF assms(2)]
proof
  assume "drafts e t u i s out s'"
  then obtain a c at' r book expires where c: "requireCaseWithin e t a (bi_case i) s = Some c"
    and r: "computeScenario (numText e) (sha e) (scenarioInputs i at') book = Inr r"
    and w: "writeScenario e t a i c (scenarioInputs i at') r expires s = Inr (out, s')"
    unfolding drafts_def Let_def by blast
  from requireCase_found [OF c] show ?thesis by (intro writeScenario_moves [OF assms(1) _ _ _ r w]) simp_all
qed (simp add: spec_idle)

lemma moved_by_view: "moved_by P st s s' \<Longrightarrow> view s' = (cases s, bump P st (scenarios s), approvals s)"
  by (simp add: moved_by_def view_def)

lemma desk_refines:
  "(\<And>v s'. body s = Inr (v, s') \<Longrightarrow> desk_spec nt sh (view s) (view s')) \<Longrightarrow>
   desk_spec nt sh (view s) (view (snd (withTenantTransaction body s)))"
  by (rule desk_transaction_keeps [where I = "\<lambda>s'. desk_spec nt sh (view s) (view s')"]) (simp_all add: spec_idle)

lemma submitBody_refines:
  assumes "distinct (map sc_id (scenarios s))" "submitBody e t u sid v s = Inr (out, s')"
  shows "desk_spec nt sh (view s) (view s')"
  using submitBody_moves [OF assms]
proof (elim disjE bexE conjE)
  fix x assume "x \<in> set (scenarios s)" "sc_state x = SS_draft" "moved_by (same_row (sc_id x)) SS_submitted s s'"
  from spec_submit [OF this(1,2)] moved_by_view [OF this(3)] show ?thesis by (simp add: view_def [of s])
qed (simp add: spec_idle)

lemma expireBody_refines:
  assumes "distinct (map sc_id (scenarios s))" "expireBody e t u sid v r s = Inr (out, s')"
  shows "desk_spec nt sh (view s) (view s')"
  using expireBody_moves [OF assms]
proof (elim disjE bexE conjE)
  fix x assume "x \<in> set (scenarios s)" "sc_state x \<in> {SS_draft, SS_submitted}"
    "moved_by (same_row (sc_id x)) SS_expired s s'"
  from spec_expire [OF this(1,2)] moved_by_view [OF this(3)] show ?thesis by (simp add: view_def [of s])
qed (simp add: spec_idle)

lemma recordRule_refines:
  "recordRuleWithin e t u i s = Inr (out, s') \<Longrightarrow> desk_spec nt sh (view s) (view s')"
  by (drule recordRuleWithin_success) (auto simp: addsRule_def view_def spec_idle)

lemma desk_exec_refines:
  assumes "distinct (map sc_id (scenarios s))" "newIdFresh e s"
  shows "desk_spec (numText e) (sha e) (view s) (view (desk_exec e t u q s))"
proof (cases q)
  case (OpenDeskingCase hid)
  show ?thesis unfolding OpenDeskingCase desk_exec.simps openDeskingCase_def
    by (rule desk_refines) (rule openDeskingCaseWithin_moves [OF assms(2)])
next
  case (RecordRule i)
  show ?thesis unfolding RecordRule desk_exec.simps recordRule_def
    by (rule desk_refines) (rule recordRule_refines)
next
  case (BuildScenario i)
  show ?thesis unfolding BuildScenario desk_exec.simps buildScenario_def
    by (rule desk_refines) (rule buildScenarioWithin_moves [OF assms(2)])
next
  case (SubmitScenario sid v)
  show ?thesis unfolding SubmitScenario desk_exec.simps submitScenario_def
    by (rule desk_refines) (rule submitBody_refines [OF assms(1)])
next
  case (ExpireScenario sid v r)
  show ?thesis unfolding ExpireScenario desk_exec.simps expireScenario_def
    by (rule desk_refines) (rule expireBody_refines [OF assms(1)])
next
  case (DecideScenario sid i)
  show ?thesis unfolding DecideScenario desk_exec.simps decideScenario_def
    by (rule desk_refines) (rule decideBody_moves [OF assms(1)])
qed

section \<open>What the abstract desk keeps\<close>

definition agrees :: "Decision \<Rightarrow> ScenarioState \<Rightarrow> bool" where
  "agrees d st = (if d = D_approved then st = SS_approved \<or> st = SS_superseded else st = SS_rejected)"

text \<open>
  Identifiers and version numbers are unique; at most one version of a case stands approved;
  decisions and decided versions correspond, one to one, and a decision names the figures of
  its version; a case is marked approved exactly while one of its versions stands approved.
\<close>

definition rows_ok :: "desk_view \<Rightarrow> bool" where
  "rows_ok = (\<lambda>(cs, xs, as).
     distinct (map dc_id cs) \<and> distinct (map sc_id xs) \<and> distinct (map sa_scenario as) \<and>
     distinct (map (\<lambda>c. (dc_tenant c, dc_handoff c)) cs) \<and>
     distinct (map (\<lambda>x. (sc_tenant x, sc_case x, sc_version_no x)) xs) \<and>
     (\<forall>x \<in> set xs. \<exists>c \<in> set cs. case_of x c))"

definition decisions_ok :: "desk_view \<Rightarrow> bool" where
  "decisions_ok = (\<lambda>(cs, xs, as).
     (\<forall>a \<in> set as. \<exists>x \<in> set xs. about a x \<and> agrees (sa_decision a) (sc_state x)) \<and>
     (\<forall>x \<in> set xs. sc_state x \<in> {SS_approved, SS_rejected, SS_superseded} \<longrightarrow> (\<exists>a \<in> set as. about a x)))"

definition approvals_ok :: "desk_view \<Rightarrow> bool" where
  "approvals_ok = (\<lambda>(cs, xs, as).
     (\<forall>x \<in> set xs. \<forall>y \<in> set xs. sc_state x = SS_approved \<longrightarrow> standing x y \<longrightarrow> x = y) \<and>
     (\<forall>c \<in> set cs. dc_state c = DC_approved \<longleftrightarrow> (\<exists>x \<in> set xs. case_of x c \<and> sc_state x = SS_approved)))"

definition desk_ok :: "desk_view \<Rightarrow> bool" where
  "desk_ok v = (rows_ok v \<and> decisions_ok v \<and> approvals_ok v)"

lemma about_moved [simp]: "about a (x\<lparr>sc_state := st, sc_version := n\<rparr>) = about a x"
  by (simp add: about_def)

lemma case_of_moved [simp]: "case_of (x\<lparr>sc_state := st, sc_version := n\<rparr>) = case_of x"
  by (simp add: case_of_def)

lemma mark_keys [simp]:
  "(\<And>c b v n. k (c\<lparr>dc_state := b, dc_approved_at := v, dc_version := n\<rparr>) = k c) \<Longrightarrow>
   map k (mark_approved P t cs) = map k cs"
  unfolding mark_approved_def by (rule map_update_where) simp

lemma in_mark:
  "c' \<in> set (mark_approved P t cs) \<longleftrightarrow> (\<exists>c \<in> set cs. c' =
     (if P c then c\<lparr>dc_state := DC_approved, dc_approved_at := Some t, dc_version := dc_version c + 1\<rparr> else c))"
  by (auto simp: mark_approved_def in_update_where)

lemma bex_mark:
  "(\<exists>c' \<in> set (mark_approved P t cs). Q c') \<longleftrightarrow> (\<exists>c \<in> set cs.
     if P c then Q (c\<lparr>dc_state := DC_approved, dc_approved_at := Some t, dc_version := dc_version c + 1\<rparr>) else Q c)"
  by (simp add: mark_approved_def bex_update_where ball_update_where)

lemma ball_mark:
  "(\<forall>c' \<in> set (mark_approved P t cs). Q c') \<longleftrightarrow> (\<forall>c \<in> set cs.
     if P c then Q (c\<lparr>dc_state := DC_approved, dc_approved_at := Some t, dc_version := dc_version c + 1\<rparr>) else Q c)"
  by (simp add: mark_approved_def bex_update_where ball_update_where)

lemma case_of_marked [simp]:
  "case_of x (c\<lparr>dc_state := b, dc_approved_at := v, dc_version := n\<rparr>) = case_of x c"
  by (simp add: case_of_def)

lemma fresh_scenario:
  assumes "rows_ok (cs, xs, as)" "decisions_ok (cs, xs, as)" "x \<in> set xs"
    "\<forall>b \<in> set as. sa_tenant b = sc_tenant x \<longrightarrow> sa_scenario b \<noteq> sc_id x"
  shows "sc_id x \<notin> sa_scenario ` set as"
proof
  assume "sc_id x \<in> sa_scenario ` set as"
  then obtain b where b: "b \<in> set as" "sa_scenario b = sc_id x" by auto
  from assms(2) this(1) obtain y where "y \<in> set xs" "about b y" by (auto simp: decisions_ok_def)
  with b assms row_by_id [of xs x y] show False by (auto simp: about_def rows_ok_def)
qed

lemma rows_bump: "rows_ok (cs, xs, as) \<Longrightarrow> rows_ok (cs, bump P st xs, as)"
  by (auto simp: rows_ok_def in_bump)

lemma rows_mark: "rows_ok (cs, xs, as) \<Longrightarrow> rows_ok (mark_approved P t cs, xs, as)"
  by (auto simp: rows_ok_def bex_mark)

lemma rows_decided: "rows_ok (cs, xs, as) \<Longrightarrow> sa_scenario a \<notin> sa_scenario ` set as \<Longrightarrow> rows_ok (cs, xs, as @ [a])"
  by (simp add: rows_ok_def)

lemma about_id: "about a x \<Longrightarrow> sa_scenario a = sc_id x"
  by (simp add: about_def)

lemma rows_ok_step:
  assumes "desk_spec nt sh v v'" "rows_ok v" "decisions_ok v"
  shows "rows_ok v'"
  using assms
proof (induction rule: desk_spec.induct)
  case (spec_open c cs xs as)
  then show ?case by (auto simp: rows_ok_def)
next
  case (spec_draft x xs cs as)
  then show ?case by (fastforce simp: rows_ok_def same_case_def)
next
  case (spec_reject x xs a as cs)
  with fresh_scenario [OF spec_reject(6,7,1,5)] show ?case by (simp add: rows_bump rows_decided about_id)
next
  case (spec_approve x xs a as cs t)
  with fresh_scenario [OF spec_approve(6,7,1,5)] show ?case
    by (simp add: rows_bump rows_decided rows_mark about_id)
qed (simp_all add: rows_bump)

definition decided :: "ScenarioState \<Rightarrow> bool" where
  "decided st = (st \<in> {SS_approved, SS_rejected, SS_superseded})"

lemma agrees_decided: "agrees d st \<Longrightarrow> decided st"
  by (auto simp: agrees_def decided_def split: if_splits)

lemma agrees_superseded: "agrees d SS_approved \<Longrightarrow> agrees d SS_superseded"
  by (simp add: agrees_def split: if_splits)

lemma decisions_ok_alt:
  "decisions_ok (cs, xs, as) \<longleftrightarrow>
     (\<forall>a \<in> set as. \<exists>x \<in> set xs. about a x \<and> agrees (sa_decision a) (sc_state x)) \<and>
     (\<forall>x \<in> set xs. decided (sc_state x) \<longrightarrow> (\<exists>a \<in> set as. about a x))"
  by (simp add: decisions_ok_def decided_def)

text \<open>A move between states that agree with the same decisions keeps the correspondence.\<close>

lemma decisions_bump:
  assumes "decisions_ok (cs, xs, as)"
    and "\<And>x d. x \<in> set xs \<Longrightarrow> P x \<Longrightarrow> agrees d (sc_state x) \<Longrightarrow> agrees d st"
    and "\<And>x. x \<in> set xs \<Longrightarrow> P x \<Longrightarrow> decided st \<Longrightarrow> decided (sc_state x)"
  shows "decisions_ok (cs', bump P st xs, as)"
  unfolding decisions_ok_alt
proof (intro conjI ballI impI)
  fix a assume "a \<in> set as"
  then obtain x where x: "x \<in> set xs" "about a x" "agrees (sa_decision a) (sc_state x)"
    using assms(1) by (auto simp: decisions_ok_alt)
  then show "\<exists>x \<in> set (bump P st xs). about a x \<and> agrees (sa_decision a) (sc_state x)"
    unfolding bex_bump using assms(2) by (intro bexI [of _ x]) auto
next
  fix y assume "y \<in> set (bump P st xs)" "decided (sc_state y)"
  then obtain x where "x \<in> set xs" "decided (sc_state x)" "\<And>a. about a y = about a x"
    using assms(3) by (auto simp: in_bump split: if_splits)
  with assms(1) show "\<exists>a \<in> set as. about a y" by (auto simp: decisions_ok_alt)
qed

lemma decisions_decide:
  assumes "decisions_ok (cs, xs, as)" "distinct (map sc_id xs)" "x \<in> set xs" "\<not> decided (sc_state x)" "about a x"
    and "agrees (sa_decision a) st"
  shows "decisions_ok (cs', bump (same_row (sc_id x)) st xs, as @ [a])"
  unfolding decisions_ok_alt bex_bump ball_bump
proof (intro conjI ballI)
  fix b assume "b \<in> set (as @ [a])"
  moreover have "\<exists>y \<in> set xs. about b y \<and> agrees (sa_decision b) (sc_state y) \<and> sc_id y \<noteq> sc_id x" if "b \<in> set as"
    using that assms(1-4) row_by_id [OF assms(2) _ assms(3)] agrees_decided
    unfolding decisions_ok_alt by metis
  ultimately show "\<exists>x' \<in> set xs. if same_row (sc_id x) x'
      then about b (x'\<lparr>sc_state := st, sc_version := sc_version x' + 1\<rparr>) \<and>
        agrees (sa_decision b) (sc_state (x'\<lparr>sc_state := st, sc_version := sc_version x' + 1\<rparr>))
      else about b x' \<and> agrees (sa_decision b) (sc_state x')"
    using assms(3,5,6) by auto
next
  fix y assume "y \<in> set xs"
  then show "if same_row (sc_id x) y
      then decided (sc_state (y\<lparr>sc_state := st, sc_version := sc_version y + 1\<rparr>)) \<longrightarrow>
        (\<exists>a \<in> set (as @ [a]). about a (y\<lparr>sc_state := st, sc_version := sc_version y + 1\<rparr>))
      else decided (sc_state y) \<longrightarrow> (\<exists>a \<in> set (as @ [a]). about a y)"
    using assms(1,5) row_by_id [OF assms(2) _ assms(3)] by (auto simp: decisions_ok_alt)
qed

lemma decisions_ok_step:
  assumes "desk_spec nt sh v v'" "rows_ok v" "decisions_ok v"
  shows "decisions_ok v'"
  using assms
proof (induction rule: desk_spec.induct)
  case (spec_draft x xs cs as)
  then show ?case by (auto simp: decisions_ok_alt decided_def)
next
  case (spec_submit x xs cs as)
  have "sc_state y = SS_draft" if "y \<in> set xs" "sc_id y = sc_id x" for y
    using row_by_id [of xs y x] spec_submit that by (simp add: rows_ok_def)
  with spec_submit show ?case by (intro decisions_bump) (auto simp: agrees_def decided_def split: if_splits)
next
  case (spec_expire x xs cs as)
  have "\<not> decided (sc_state y)" if "y \<in> set xs" "sc_id y = sc_id x" for y
    using row_by_id [of xs y x] spec_expire that by (auto simp: rows_ok_def decided_def)
  with spec_expire agrees_decided show ?case by (intro decisions_bump) (auto simp: decided_def)
next
  case (spec_reject x xs a as cs)
  then show ?case
    by (intro decisions_decide) (auto simp: rows_ok_def decided_def agrees_def)
next
  case (spec_approve x xs a as cs t)
  have "decisions_ok (cs, bump (standing x) SS_superseded xs, as)"
    using spec_approve agrees_superseded by (intro decisions_bump) (auto simp: decided_def standing_def)
  moreover have "x \<in> set (bump (standing x) SS_superseded xs)"
    using spec_approve(1,2) by (auto simp: in_bump standing_def intro!: bexI [of _ x])
  ultimately show ?case
    using spec_approve by (intro decisions_decide) (auto simp: rows_ok_def decided_def agrees_def)
qed (simp_all add: decisions_ok_def)

definition approved :: "desking_scenario list \<Rightarrow> desking_scenario set" where
  "approved xs = {x \<in> set xs. sc_state x = SS_approved}"

lemma approvals_ok_alt:
  "approvals_ok (cs, xs, as) \<longleftrightarrow>
     (\<forall>x \<in> approved xs. \<forall>y \<in> approved xs. same_case x y \<longrightarrow> x = y) \<and>
     (\<forall>c \<in> set cs. dc_state c = DC_approved \<longleftrightarrow> (\<exists>x \<in> approved xs. case_of x c))"
  by (auto simp: approvals_ok_def approved_def standing_def)

lemma approved_bump:
  "st \<noteq> SS_approved \<Longrightarrow> approved (bump P st xs) = {x \<in> approved xs. \<not> P x}"
  by (auto simp: approved_def in_bump split: if_splits dest: arg_cong [where f = sc_state])

lemma set_bump_row:
  assumes "distinct (map sc_id ys)" "x \<in> set ys"
  shows "set (bump (same_row (sc_id x)) st ys) =
    insert (x\<lparr>sc_state := st, sc_version := sc_version x + 1\<rparr>) {y \<in> set ys. sc_id y \<noteq> sc_id x}"
  using assms row_by_id [OF assms(1) _ assms(2)] by (fastforce simp: in_bump)

lemma approved_other:
  assumes "distinct (map sc_id xs)" "x \<in> set xs" "sc_state x \<noteq> SS_approved"
  shows "{y \<in> approved xs. sc_id y \<noteq> sc_id x} = approved xs"
proof -
  have "sc_id y \<noteq> sc_id x" if "y \<in> approved xs" for y
    using that assms(3) row_by_id [OF assms(1) _ assms(2), of y] unfolding approved_def by blast
  then show ?thesis by blast
qed

lemma approved_approve:
  assumes "distinct (map sc_id xs)" "x \<in> set xs" "sc_state x = SS_submitted"
  shows "approved (bump (same_row (sc_id x)) SS_approved (bump (standing x) SS_superseded xs)) =
    insert (x\<lparr>sc_state := SS_approved, sc_version := sc_version x + 1\<rparr>) {y \<in> approved xs. \<not> same_case x y}"
    (is "approved (bump ?P _ ?ys) = insert ?x _")
proof -
  have x: "x \<in> set ?ys" using assms(2,3) by (auto simp: in_bump standing_def intro!: bexI [of _ x])
  have "approved (bump ?P SS_approved ?ys) = insert ?x {y \<in> approved ?ys. sc_id y \<noteq> sc_id x}"
    using set_bump_row [of ?ys x SS_approved] x assms(1) by (auto simp: approved_def)
  also have "\<dots> = insert ?x {y \<in> approved xs. sc_id y \<noteq> sc_id x \<and> \<not> same_case x y}"
    by (auto simp: approved_bump standing_def) (simp add: approved_def)+
  also have "\<dots> = insert ?x {y \<in> approved xs. \<not> same_case x y}"
    using approved_other [OF assms(1,2)] assms(3) by auto
  finally show ?thesis .
qed

lemma approvals_ok_step:
  assumes "desk_spec nt sh v v'" "rows_ok v" "approvals_ok v"
  shows "approvals_ok v'"
  using assms
proof (induction rule: desk_spec.induct)
  case (spec_open c cs xs as)
  then have "\<not> case_of x c" if "x \<in> set xs" for x
    using that by (force simp: rows_ok_def case_of_def)
  with spec_open show ?case by (auto simp: approvals_ok_alt approved_def)
next
  case (spec_draft x xs cs as)
  then have "approved (xs @ [x]) = approved xs" by (auto simp: approved_def)
  with spec_draft show ?case by (simp add: approvals_ok_alt)
next
  case (spec_submit x xs cs as)
  have "{y \<in> approved xs. sc_id y \<noteq> sc_id x} = approved xs"
    using spec_submit by (intro approved_other) (auto simp: rows_ok_def)
  with spec_submit show ?case by (simp add: approvals_ok_alt approved_bump)
next
  case (spec_expire x xs cs as)
  have "{y \<in> approved xs. sc_id y \<noteq> sc_id x} = approved xs"
    using spec_expire by (intro approved_other) (auto simp: rows_ok_def)
  with spec_expire show ?case by (simp add: approvals_ok_alt approved_bump)
next
  case (spec_reject x xs a as cs)
  have "{y \<in> approved xs. sc_id y \<noteq> sc_id x} = approved xs"
    using spec_reject by (intro approved_other) (auto simp: rows_ok_def)
  with spec_reject show ?case by (simp add: approvals_ok_alt approved_bump)
next
  case (spec_approve x xs a as cs t)
  then have set: "approved (bump (same_row (sc_id x)) SS_approved (bump (standing x) SS_superseded xs)) =
    insert (x\<lparr>sc_state := SS_approved, sc_version := sc_version x + 1\<rparr>) {y \<in> approved xs. \<not> same_case x y}"
    by (intro approved_approve) (auto simp: rows_ok_def)
  let ?x = "x\<lparr>sc_state := SS_approved, sc_version := sc_version x + 1\<rparr>"
  have "dc_state c = DC_approved \<longleftrightarrow> (\<exists>y \<in> approved xs. \<not> same_case x y \<and> case_of y c)"
    if "c \<in> set cs" "\<not> case_of x c" for c
  proof -
    have "\<not> same_case x y" if "case_of y c" for y using that \<open>\<not> case_of x c\<close> by (auto simp: case_of_def same_case_def)
    with spec_approve(7) that(1) show ?thesis unfolding approvals_ok_alt by blast
  qed
  moreover have "\<forall>y \<in> {y \<in> approved xs. \<not> same_case x y}. \<not> same_case ?x y \<and> \<not> same_case y ?x"
    by (auto simp: same_case_def)
  ultimately show ?case
    using spec_approve(7) unfolding approvals_ok_alt set ball_mark by auto
qed (simp)

lemma desk_ok_step: "desk_spec nt sh v v' \<Longrightarrow> desk_ok v \<Longrightarrow> desk_ok v'"
  unfolding desk_ok_def using rows_ok_step decisions_ok_step approvals_ok_step by blast

lemma rules_transaction:
  "(\<And>v s'. body s = Inr (v, s') \<Longrightarrow> desk_rules s' = desk_rules s) \<Longrightarrow>
   desk_rules (snd (withTenantTransaction body s)) = desk_rules s"
  by (rule desk_transaction_keeps [where I = "\<lambda>s'. desk_rules s' = desk_rules s"]) simp_all

lemma supersede_rules: "desk_rules (supersedeStanding t a cid s) = desk_rules s"
  unfolding supersedeStanding_def Let_def by (rule fold_keeps_field) (simp add: stateEvent_def)

lemma moveScenario_rules: "moveScenario t a sid v from st r ev x s = Inr (out, s') \<Longrightarrow> desk_rules s' = desk_rules s"
  by (auto simp: moveScenario_def Let_def stateEvent_def recordMutation_def split: option.splits)

lemma writeDecision_rules: "writeDecision e t a sid i x s = Inr (out, s') \<Longrightarrow> desk_rules s' = desk_rules s"
  by (auto simp: writeDecision_def Let_def stateEvent_def recordMutation_def supersede_rules split: option.splits if_splits)

lemma writeScenario_rules: "writeScenario e t a i c inp r ex s = Inr (out, s') \<Longrightarrow> desk_rules s' = desk_rules s"
  by (auto simp: writeScenario_def Let_def stateEvent_def recordMutation_def)

lemma buildScenario_rules: "desk_rules (snd (buildScenario e t u i s)) = desk_rules s"
  unfolding buildScenario_def
proof (rule rules_transaction)
  fix out s' assume "buildScenarioWithin e t u i s = Inr (out, s')"
  from buildScenarioWithin_cases [OF this] show "desk_rules s' = desk_rules s"
    unfolding drafts_def Let_def using writeScenario_rules by blast
qed

lemma openDeskingCase_rules: "desk_rules (snd (openDeskingCase e t u hid s)) = desk_rules s"
  unfolding openDeskingCase_def
  by (rule rules_transaction) (auto simp: openDeskingCaseWithin_def markDeskingHandoffAvailableWithin_def
      recordMutation_def Let_def split: option.splits if_splits)

lemma submitScenario_rules: "desk_rules (snd (submitScenario e t u sid v s)) = desk_rules s"
  unfolding submitScenario_def
  by (rule rules_transaction) (auto simp: submitBody_def dest: moveScenario_rules split: option.splits if_splits)

lemma expireScenario_rules: "desk_rules (snd (expireScenario e t u sid v r s)) = desk_rules s"
  unfolding expireScenario_def
  by (rule rules_transaction) (auto simp: expireBody_def dest: moveScenario_rules split: option.splits if_splits)

lemma decideScenario_rules: "desk_rules (snd (decideScenario e t u sid di s)) = desk_rules s"
  unfolding decideScenario_def
proof (rule rules_transaction)
  fix out s' assume "decideBody e t u sid di s = Inr (out, s')"
  from decideBody_cases [OF this] show "desk_rules s' = desk_rules s" using writeDecision_rules by blast
qed

lemmas rules_kept = buildScenario_rules openDeskingCase_rules submitScenario_rules expireScenario_rules
  decideScenario_rules

section \<open>Reachable desks\<close>

interpretation desk: simulation desk_initial "desk_step nt sh" view "desk_spec nt sh" desk_ok for nt sh
proof
  show "desk_ok (view s)" if "desk_initial s" for s
    using that by (simp add: desk_initial_def desk_ok_def rows_ok_def decisions_ok_def approvals_ok_def view_def)
  show "desk_ok v'" if "desk_ok v" "desk_spec nt sh v v'" for v v' using that desk_ok_step by blast
  show "desk_spec nt sh (view s) (view s')" if "desk_ok (view s)" "desk_step nt sh s s'" for s s'
    using that(2)
  proof (rule desk_stepE)
    fix e tenant user q
    assume "s' = desk_exec e tenant user q s" "newIdFresh e s" "numText e = nt" "sha e = sh"
    moreover have "distinct (map sc_id (scenarios s))" using that(1) by (simp add: desk_ok_def rows_ok_def view_def)
    ultimately show ?thesis using desk_exec_refines by blast
  qed
qed

abbreviation desk_reachable :: "(rat \<Rightarrow> string) \<Rightarrow> (string \<Rightarrow> string) \<Rightarrow> desk_db \<Rightarrow> bool" where
  "desk_reachable nt sh \<equiv> desk.reached nt sh"

lemma desk_invariant:
  assumes "desk_reachable nt sh s" and "\<And>s. desk_initial s \<Longrightarrow> I s"
    and "\<And>s e t u q. I s \<Longrightarrow> newIdFresh e s \<Longrightarrow> numText e = nt \<Longrightarrow> sha e = sh \<Longrightarrow> I (desk_exec e t u q s)"
  shows "I s"
  using assms(1)
proof (induction rule: desk.reached.induct)
  case (reached_step s s')
  then show ?case using assms(3) by (metis desk_stepE)
qed (rule assms(2))

lemmas desk_view_ok = desk.reached_ok

lemma desk_rows:
  assumes "desk_reachable nt sh s"
  shows "distinct (map sc_id (scenarios s))" "distinct (map dc_id (cases s))" "distinct (map sa_scenario (approvals s))"
    "distinct (map (\<lambda>c. (dc_tenant c, dc_handoff c)) (cases s))"
    "distinct (map (\<lambda>x. (sc_tenant x, sc_case x, sc_version_no x)) (scenarios s))"
  using desk_view_ok [OF assms] by (simp_all add: desk_ok_def rows_ok_def view_def)

lemma desk_rules_wf: "desk_reachable nt sh s \<Longrightarrow> rules_wf (desk_rules s)"
proof (rule desk_invariant [where I = "\<lambda>s. rules_wf (desk_rules s)"])
  fix s :: desk_db and e t u q
  assume wf: "rules_wf (desk_rules s)"
  show "rules_wf (desk_rules (desk_exec e t u q s))"
  proof (cases q)
    case (RecordRule i)
    with recordRule_keeps [OF wf] show ?thesis by simp
  qed (use wf in \<open>simp_all add: rules_kept\<close>)
qed (auto simp: desk_initial_def rules_wf_def)

text \<open>A version apart from where it stands: what it was priced on and what it came to.\<close>

definition frozen :: "desking_scenario \<Rightarrow> desking_scenario" where
  "frozen x = x\<lparr>sc_state := SS_draft, sc_version := 0\<rparr>"

definition may_move :: "ScenarioState \<Rightarrow> ScenarioState \<Rightarrow> bool" where
  "may_move a b =
     (a = b \<or> (a = SS_draft \<and> b \<in> {SS_submitted, SS_expired}) \<or>
      (a = SS_submitted \<and> b \<in> {SS_approved, SS_rejected, SS_expired}) \<or>
      (a = SS_approved \<and> b = SS_superseded))"

lemma bump_keeps:
  assumes "x \<in> set xs" "P x \<Longrightarrow> may_move (sc_state x) st"
  shows "\<exists>x' \<in> set (bump P st xs). frozen x' = frozen x \<and> may_move (sc_state x) (sc_state x') \<and> (\<not> P x \<longrightarrow> x' = x)"
  unfolding bex_bump using assms by (intro bexI [of _ x]) (auto simp: frozen_def may_move_def)

lemma spec_keeps_versions:
  assumes "desk_spec nt sh v v'" "rows_ok v" "x \<in> set (fst (snd v))"
  shows "\<exists>x' \<in> set (fst (snd v')). frozen x' = frozen x \<and> may_move (sc_state x) (sc_state x')"
  using assms
proof (induction rule: desk_spec.induct)
  case (spec_submit y xs cs as)
  then show ?case using bump_keeps [of x xs "same_row (sc_id y)" SS_submitted] row_by_id [of xs x y]
    by (auto simp: may_move_def rows_ok_def)
next
  case (spec_expire y xs cs as)
  then show ?case using bump_keeps [of x xs "same_row (sc_id y)" SS_expired] row_by_id [of xs x y]
    by (auto simp: may_move_def rows_ok_def)
next
  case (spec_reject y xs a as cs)
  then show ?case using bump_keeps [of x xs "same_row (sc_id y)" SS_rejected] row_by_id [of xs x y]
    by (auto simp: may_move_def rows_ok_def)
next
  case (spec_approve y xs a as cs t)
  show ?case
  proof (cases "x = y")
    case True
    then have "x \<in> set (bump (standing y) SS_superseded xs)"
      using spec_approve(1,2) by (auto simp: in_bump standing_def intro!: bexI [of _ y])
    from bump_keeps [OF this, of "same_row (sc_id y)" SS_approved] True spec_approve(2) show ?thesis
      by (auto simp: may_move_def)
  next
    case False
    then have other: "sc_id x \<noteq> sc_id y" using spec_approve row_by_id [of xs x y] by (auto simp: rows_ok_def)
    from bump_keeps [of x xs "standing y" SS_superseded] spec_approve(7)
    obtain x1 where x1: "x1 \<in> set (bump (standing y) SS_superseded xs)" "frozen x1 = frozen x"
      "may_move (sc_state x) (sc_state x1)" by (auto simp: standing_def may_move_def)
    from x1(2) other have "sc_id x1 \<noteq> sc_id y" by (auto simp: frozen_def dest: arg_cong [where f = sc_id])
    with bump_keeps [OF x1(1), of "same_row (sc_id y)" SS_approved] x1 show ?thesis by auto
  qed
qed (auto simp: may_move_def)

lemma spec_keeps_decisions: "desk_spec nt sh v v' \<Longrightarrow> \<exists>new. snd (snd v') = snd (snd v) @ new"
  by (induction rule: desk_spec.induct) auto


lemma spec_priced:
  assumes "desk_spec nt sh v v'" "\<forall>x \<in> set (fst (snd v)). priced nt sh x"
  shows "\<forall>x \<in> set (fst (snd v')). priced nt sh x"
proof -
  have [simp]: "priced nt sh (x\<lparr>sc_state := b, sc_version := n\<rparr>) = priced nt sh x" for x b n
    by (simp add: priced_def)
  from assms show ?thesis by (induction rule: desk_spec.induct) (auto simp: in_bump)
qed

lemma desk_priced:
  assumes "desk_reachable nt sh s"
  shows "\<forall>x \<in> set (scenarios s). priced nt sh x"
proof -
  have "desk_ok (view s) \<and> (\<forall>x \<in> set (fst (snd (view s))). priced nt sh x)"
  proof (rule desk_invariant [OF assms])
    fix s :: desk_db and e t u q
    assume ok: "desk_ok (view s) \<and> (\<forall>x \<in> set (fst (snd (view s))). priced nt sh x)"
      and e: "newIdFresh e s" "numText e = nt" "sha e = sh"
    then have "distinct (map sc_id (scenarios s))" by (simp add: desk_ok_def rows_ok_def view_def)
    from desk_exec_refines [OF this e(1), of t u q] e(2,3) have "desk_spec nt sh (view s) (view (desk_exec e t u q s))"
      by simp
    from desk_ok_step [OF this] spec_priced [OF this] ok
    show "desk_ok (view (desk_exec e t u q s)) \<and> (\<forall>x \<in> set (fst (snd (view (desk_exec e t u q s)))). priced nt sh x)"
      by blast
  qed (auto simp: desk_initial_def desk_ok_def rows_ok_def decisions_ok_def approvals_ok_def view_def)
  then show ?thesis by (simp add: view_def)
qed

section \<open>Only a decision decides\<close>

lemma approvals_kept:
  assumes "distinct (map sc_id (scenarios s))" "\<And>sid i. q \<noteq> DecideScenario sid i"
  shows "approvals (desk_exec e t u q s) = approvals s"
proof -
  have tx: "(\<And>v s'. body s = Inr (v, s') \<Longrightarrow> approvals s' = approvals s) \<Longrightarrow>
      approvals (snd (withTenantTransaction body s)) = approvals s" for body :: "'x dtx"
    by (rule desk_transaction_keeps [where I = "\<lambda>s'. approvals s' = approvals s"]) simp_all
  show ?thesis
  proof (cases q)
    case (OpenDeskingCase hid)
    show ?thesis unfolding OpenDeskingCase desk_exec.simps openDeskingCase_def
      by (rule tx) (auto simp: openDeskingCaseWithin_def markDeskingHandoffAvailableWithin_def
          recordMutation_def Let_def split: option.splits if_splits)
  next
    case (RecordRule i)
    show ?thesis unfolding RecordRule desk_exec.simps recordRule_def
      by (rule tx) (auto simp: addsRule_def dest!: recordRuleWithin_success)
  next
    case (BuildScenario i)
    show ?thesis unfolding BuildScenario desk_exec.simps buildScenario_def
      by (rule tx) (auto simp: drafts_def writeScenario_def stateEvent_def recordMutation_def Let_def
          dest!: buildScenarioWithin_cases)
  next
    case (SubmitScenario sid v)
    show ?thesis unfolding SubmitScenario desk_exec.simps submitScenario_def
      by (rule tx) (auto simp: moved_by_def dest!: submitBody_moves [OF assms(1)])
  next
    case (ExpireScenario sid v r)
    show ?thesis unfolding ExpireScenario desk_exec.simps expireScenario_def
      by (rule tx) (auto simp: moved_by_def dest!: expireBody_moves [OF assms(1)])
  qed (use assms(2) in blast)
qed

lemma decision_authority:
  assumes "distinct (map sc_id (scenarios s))" "approvals (desk_exec e t u q s) \<noteq> approvals s"
  shows "\<exists>sid i a x. q = DecideScenario sid i \<and> x \<in> set (scenarios s) \<and> decides e t u sid i s a x"
proof -
  obtain sid i where q: "q = DecideScenario sid i" using approvals_kept [OF assms(1)] assms(2) by blast
  then obtain out s' where d: "decideBody e t u sid i s = Inr (out, s')" "approvals s' \<noteq> approvals s"
    using assms(2) by (auto simp: decideScenario_def withTenantTransaction_def split: sum.splits)
  from decideBody_cases [OF d(1)] d(2) obtain a x where "decides e t u sid i s a x" by auto
  moreover from this have "x \<in> set (scenarios s)" using loadScenario_found [of e t a sid s x] by (simp add: decides_def)
  ultimately show ?thesis using q by blast
qed

lemma refused_decision:
  assumes "distinct (map sc_id (scenarios s))" "\<And>x a. fst (decideScenario e t u sid i s) \<noteq> Inr (DO_decided x a)"
  shows "snd (decideScenario e t u sid i s) = s"
proof (cases "decideBody e t u sid i s")
  case (Inr r)
  obtain out s' where r: "r = (out, s')" by force
  have "s' = s"
  proof (rule ccontr)
    assume "s' \<noteq> s"
    with decideBody_cases [of e t u sid i s out s'] Inr r obtain a x where d: "decides e t u sid i s a x"
      and w: "writeDecision e t a sid i x s = Inr (out, s')" by blast
    then have x: "x \<in> set (scenarios s)" "here_row t sid (di_version i) x"
      using loadScenario_found [of e t a sid s x] by (auto simp: decides_def)
    have "\<exists>x a. out = DO_decided x a" by (rule writeDecision_decides [OF assms(1) x _ w]) (use d in \<open>simp add: decides_def\<close>)
    with assms(2) Inr r show False by (auto simp: decideScenario_def withTenantTransaction_def)
  qed
  with Inr r show ?thesis by (simp add: decideScenario_def withTenantTransaction_def)
qed (simp add: decideScenario_def withTenantTransaction_def)

end
