(* ===== verification/DeskSamples.thy ===== *)
theory DeskSamples
  imports DeskLife Samples "HOL-Library.Code_Target_Nat"
begin

text \<open>
  A desk the witnesses run on: one rooftop, a sales manager, two handoffs, and a script of
  commands that opens a file, records a tax, prices two versions and decides them.
\<close>

definition deskInstants :: "(string \<times> int) list" where
  "deskInstants = [(''2026-01-01T00:00:00.000Z'', 1), (''2026-01-02T00:00:00.000Z'', 2),
     (''2027-01-01T00:00:00.000Z'', 365)]"

definition deskEnv :: "nat \<Rightarrow> desk_env" where
  "deskEnv n = \<lparr>dnow = 2, newId = (\<lambda>_. uuidOf 32 n), instantOf = map_of deskInstants,
     isoText = (\<lambda>t. case map_of (map (\<lambda>(a, b). (b, a)) deskInstants) t of Some x \<Rightarrow> x | None \<Rightarrow> ''''),
     numText = fractionText, sha = id\<rparr>"

abbreviation "deskTenant \<equiv> uuidOf 1 0"
abbreviation "deskManager \<equiv> uuidOf 1 1"
abbreviation "deskRooftop \<equiv> uuidOf 9 0"

definition deskHandoff :: "nat \<Rightarrow> desking_handoff" where
  "deskHandoff n = \<lparr>dh_id = uuidOf 10 n, dh_tenant = deskTenant, dh_opportunity = uuidOf 11 n, dh_rooftop = deskRooftop,
     dh_party = uuidOf 12 n, dh_stock = None, dh_by = uuidOf 14 n, dh_outbox = uuidOf 13 n, dh_status = DH_not_yet_available\<rparr>"

definition deskStore :: desk_db where
  "deskStore = \<lparr>user_links = [deskManager],
     rooftops = [\<lparr>rt_id = deskRooftop, rt_tenant = deskTenant, rt_active = True, rt_legal_entity = uuidOf 14 0,
       rt_dealer_group = uuidOf 15 0\<rparr>],
     role_bindings = [\<lparr>rb_tenant = Some deskTenant, rb_user = deskManager, rb_role = ''sales_manager'',
       rb_level = SL_rooftop, rb_scope = Some deskRooftop, rb_active = True, rb_from = 0, rb_to = None\<rparr>],
     handoffs = [deskHandoff 0, deskHandoff 1], cases = [], desk_rules = [], scenarios = [], state_events = [],
     approvals = [], desk_audits = []\<rparr>"

definition taxInput :: "string \<Rightarrow> rule_input" where
  "taxInput from = \<lparr>ri_kind = ''tax'', ri_code = ''sales'', ri_label = ''Sales tax'', ri_source = ''statute'',
     ri_jurisdiction = ''US-XX'', ri_rooftop = None, ri_from = from, ri_to = None, ri_basis = ''rate_ppm'',
     ri_rate = Some 65000, ri_amount = None, ri_target = ''taxable_amount'', ri_currency = None\<rparr>"

text \<open>The command a step issues may read the store, as a screen shows it.\<close>

definition quote :: "int \<Rightarrow> desk_db \<Rightarrow> desk_request" where
  "quote price s = BuildScenario \<lparr>bi_case = dc_id (hd (cases s)), bi_label = ''Quote'', bi_jurisdiction = ''US-XX'',
     bi_price = price, bi_allowance = None, bi_payoff = None, bi_cash_down = None, bi_term = None, bi_apr = None,
     bi_priced_at = None, bi_expires = None, bi_supersedes = None\<rparr>"

definition lastVersion :: "desk_db \<Rightarrow> desking_scenario" where
  "lastVersion s = last (scenarios s)"

definition offer :: "desk_db \<Rightarrow> desk_request" where
  "offer s = SubmitScenario (sc_id (lastVersion s)) (sc_version (lastVersion s))"

definition deskDecision :: "Decision \<Rightarrow> desk_db \<Rightarrow> decide_input" where
  "deskDecision d s = \<lparr>di_decision = d, di_fingerprint = outputFingerprint (sc_computed (lastVersion s)),
     di_version = sc_version (lastVersion s), di_override = None, di_limit = Some ''limit'', di_now = None\<rparr>"

definition decideLast :: "Decision \<Rightarrow> desk_db \<Rightarrow> desk_request" where
  "decideLast d s = DecideScenario (sc_id (lastVersion s)) (deskDecision d s)"

fun runDesk :: "(desk_db \<Rightarrow> desk_request) list \<Rightarrow> nat \<Rightarrow> desk_db \<Rightarrow> desk_db" where
  "runDesk [] n s = s"
| "runDesk (q # qs) n s = runDesk qs (Suc n) (desk_exec (deskEnv n) deskTenant deskManager (q s) s)"

fun freshRun :: "(desk_db \<Rightarrow> desk_request) list \<Rightarrow> nat \<Rightarrow> desk_db \<Rightarrow> bool" where
  "freshRun [] n s = True"
| "freshRun (q # qs) n s =
     (newIdFresh (deskEnv n) s \<and> freshRun qs (Suc n) (desk_exec (deskEnv n) deskTenant deskManager (q s) s))"

lemma runDesk_reachable:
  "freshRun qs n s \<Longrightarrow> desk_reachable fractionText id s \<Longrightarrow> desk_reachable fractionText id (runDesk qs n s)"
proof (induction qs arbitrary: n s)
  case (Cons q qs)
  have "numText (deskEnv n) = fractionText" "sha (deskEnv n) = id" by (simp_all add: deskEnv_def)
  with Cons desk_step desk.reached_step show ?case by (metis freshRun.simps(2) runDesk.simps(2))
qed simp

definition deskScript :: "(desk_db \<Rightarrow> desk_request) list" where
  "deskScript = [\<lambda>_. OpenDeskingCase (uuidOf 10 0), \<lambda>_. RecordRule (taxInput ''2026-01-01T00:00:00.000Z''),
     quote 25000, offer, decideLast D_approved, quote 24000, offer]"

definition deskOpen :: desk_db where
  "deskOpen = runDesk deskScript 0 deskStore"

text \<open>The desk after its second version is approved over the first.\<close>

definition deskDone :: desk_db where
  "deskDone = runDesk (deskScript @ [decideLast D_approved]) 0 deskStore"

lemma deskStore_reachable: "desk_reachable fractionText id deskStore"
  by (rule desk.reached_start) (simp add: desk_initial_def deskStore_def)

end
