(* ===== verification/DeskPromises.thy ===== *)
theory DeskPromises
  imports DeskSamples
begin

text \<open>
  What the desk promises, stated of every store its commands can lead to, with each promise
  applied to the sample desk.
\<close>

lemma deskScript_fresh: "freshRun (deskScript @ [decideLast D_approved]) 0 deskStore"
  by code_simp

lemma freshRun_append: "freshRun (qs @ rs) n s \<longleftrightarrow> freshRun qs n s \<and> freshRun rs (n + length qs) (runDesk qs n s)"
  by (induction qs arbitrary: n s) simp_all

lemma runDesk_append: "runDesk (qs @ rs) n s = runDesk rs (n + length qs) (runDesk qs n s)"
  by (induction qs arbitrary: n s) simp_all

lemma deskScript_length: "length deskScript = 7"
  by (simp add: deskScript_def)

lemma deskDone_step: "deskDone = desk_exec (deskEnv 7) deskTenant deskManager (decideLast D_approved deskOpen) deskOpen"
  by (simp add: deskDone_def deskOpen_def runDesk_append deskScript_length)

lemma deskOpen_reachable: "desk_reachable fractionText id deskOpen"
  unfolding deskOpen_def
  by (rule runDesk_reachable) (use deskScript_fresh deskStore_reachable in \<open>simp_all add: freshRun_append\<close>)

lemma deskDone_reachable: "desk_reachable fractionText id deskDone"
  unfolding deskDone_def by (rule runDesk_reachable [OF deskScript_fresh deskStore_reachable])

lemma deskOpen_fresh: "newIdFresh (deskEnv 7) deskOpen"
proof -
  have "freshRun [decideLast D_approved] (0 + length deskScript) deskOpen"
    using deskScript_fresh unfolding freshRun_append deskOpen_def by (rule conjunct2)
  then show ?thesis by (simp add: deskScript_length)
qed

text \<open>The desk while it was being filled: the rule recorded, and the first version approved.\<close>

definition deskRuled :: desk_db where
  "deskRuled = runDesk (take 2 deskScript) 0 deskStore"

definition deskSold :: desk_db where
  "deskSold = runDesk (take 5 deskScript) 0 deskStore"

lemma prefix_reachable: "desk_reachable fractionText id (runDesk (take k deskScript) 0 deskStore)"
proof (rule runDesk_reachable)
  have "freshRun (take k deskScript @ drop k deskScript @ [decideLast D_approved]) 0 deskStore"
    using deskScript_fresh by (metis append_assoc append_take_drop_id)
  then show "freshRun (take k deskScript) 0 deskStore" unfolding freshRun_append by (rule conjunct1)
qed (rule deskStore_reachable)

lemmas deskRuled_reachable = prefix_reachable [of 2, folded deskRuled_def]
  and deskSold_reachable = prefix_reachable [of 5, folded deskSold_def]

lemma deskEnv_platform: "numText (deskEnv n) = fractionText" "sha (deskEnv n) = id"
  by (simp_all add: deskEnv_def)

text \<open>What the sample desk has come to, evaluated once.\<close>

definition summary :: "desk_db \<Rightarrow> (string \<times> string) list \<times> (string \<times> string \<times> ScenarioState) list \<times> Decision list" where
  "summary s = (map (\<lambda>c. (dc_tenant c, dc_id c)) (cases s),
     map (\<lambda>x. (sc_tenant x, sc_case x, sc_state x)) (scenarios s), map sa_decision (approvals s))"

lemma deskDone_summary:
  "summary deskDone = ([(deskTenant, uuidOf 32 0)],
     [(deskTenant, uuidOf 32 0, SS_superseded), (deskTenant, uuidOf 32 0, SS_approved)], [D_approved, D_approved])"
  by code_simp

lemma deskOpen_summary:
  "summary deskOpen = ([(deskTenant, uuidOf 32 0)],
     [(deskTenant, uuidOf 32 0, SS_approved), (deskTenant, uuidOf 32 0, SS_submitted)], [D_approved])"
  by code_simp

lemma deskDone_rows:
  obtains c x y a b where "cases deskDone = [c]" "scenarios deskDone = [x, y]" "approvals deskDone = [a, b]"
    "dc_tenant c = deskTenant" "dc_id c = uuidOf 32 0" "sc_tenant y = deskTenant" "sc_case y = uuidOf 32 0"
    "sc_state x = SS_superseded" "sc_state y = SS_approved"
  using deskDone_summary by (auto simp: summary_def map_eq_Cons_conv)

lemma deskOpen_rows:
  obtains x y where "scenarios deskOpen = [x, y]" "sc_state x = SS_approved" "sc_state y = SS_submitted"
  using deskOpen_summary by (auto simp: summary_def map_eq_Cons_conv)

section \<open>The desk implements its specification\<close>

text \<open>
  C6. Every desking command, on any store the commands lead to, is one move of the abstract
  desk: it changes nothing, opens one file for a handoff that had none, drafts one priced
  version with a number of its own, submits or expires one version, or decides one version
  that nobody had decided; an approval supersedes what stood approved and marks the file, all
  at once.
\<close>

theorem desk_implements_spec:
  assumes "desk_reachable nt sh s" "newIdFresh e s" "numText e = nt" "sha e = sh"
  shows "desk_spec nt sh (view s) (view (desk_exec e t u q s))"
  by (rule desk.reached_simulates [OF assms(1)]) (rule desk_step [OF assms(2-4)])

theorem desk_implements_spec_witness:
  "desk_spec fractionText id (view deskOpen) (view deskDone) \<and> approvals deskDone \<noteq> approvals deskOpen"
proof -
  have "approvals deskDone \<noteq> approvals deskOpen"
    using deskDone_summary deskOpen_summary by (auto simp: summary_def)
  with desk_implements_spec [OF deskOpen_reachable deskOpen_fresh deskEnv_platform, of deskTenant deskManager
      "decideLast D_approved deskOpen"] show ?thesis
    unfolding deskDone_step [symmetric] ..
qed

text \<open>
  C2. At most one version of a desk file stands approved, and the file is marked approved
  exactly while one does.
\<close>

theorem one_standing_approval:
  assumes "desk_reachable nt sh s"
  shows "(\<forall>x \<in> set (scenarios s). \<forall>y \<in> set (scenarios s).
      sc_state x = SS_approved \<and> sc_state y = SS_approved \<and> sc_tenant x = sc_tenant y \<and> sc_case x = sc_case y \<longrightarrow> x = y) \<and>
    (\<forall>c \<in> set (cases s). dc_state c = DC_approved \<longleftrightarrow>
      (\<exists>x \<in> set (scenarios s). sc_tenant x = dc_tenant c \<and> sc_case x = dc_id c \<and> sc_state x = SS_approved))"
proof -
  have "approvals_ok (cases s, scenarios s, approvals s)"
    using desk_view_ok [OF assms] by (simp add: desk_ok_def view_def)
  then show ?thesis
    unfolding approvals_ok_def case_prod_conv standing_def same_case_def case_of_def
    by (metis (no_types, lifting))
qed

theorem one_standing_approval_witness:
  "map dc_state (cases deskDone) = [DC_approved] \<and> map sc_state (scenarios deskDone) = [SS_superseded, SS_approved]"
proof (rule deskDone_rows)
  fix c x y a b
  assume "cases deskDone = [c]" "scenarios deskDone = [x, y]" "approvals deskDone = [a, b]"
    "dc_tenant c = deskTenant" "dc_id c = uuidOf 32 0" "sc_tenant y = deskTenant" "sc_case y = uuidOf 32 0"
    "sc_state x = SS_superseded" "sc_state y = SS_approved"
  with one_standing_approval [OF deskDone_reachable] show ?thesis by simp
qed

text \<open>
  C16. A decision names exactly one version, of the same tenant, file and number, by the
  fingerprint of the figures it holds, and it is the only decision on it; the version stands
  where the decision put it, or is superseded if it was approved.
\<close>

theorem decision_names_its_version:
  assumes "desk_reachable nt sh s" "a \<in> set (approvals s)"
  shows "\<exists>x. filter (\<lambda>x. sc_id x = sa_scenario a) (scenarios s) = [x] \<and>
     sc_tenant x = sa_tenant a \<and> sc_case x = sa_case a \<and> sc_version_no x = sa_version_no a \<and>
     outputFingerprint (sc_computed x) = sa_fingerprint a \<and>
     filter (\<lambda>b. sa_scenario b = sc_id x) (approvals s) = [a] \<and>
     sc_state x \<in> (if sa_decision a = D_approved then {SS_approved, SS_superseded} else {SS_rejected})"
proof -
  from desk_view_ok [OF assms(1)] assms(2) obtain x where x: "x \<in> set (scenarios s)" "about a x"
    "agrees (sa_decision a) (sc_state x)"
    by (auto simp: desk_ok_def decisions_ok_def view_def)
  have "filter (\<lambda>y. sc_id y = sc_id x) (scenarios s) = [x]"
    using filter_own_key [OF desk_rows(1) [OF assms(1)] x(1)] by (simp add: eq_commute)
  moreover have "filter (\<lambda>b. sa_scenario b = sa_scenario a) (approvals s) = [a]"
    using filter_own_key [OF desk_rows(3) [OF assms(1)] assms(2)] by (simp add: eq_commute)
  ultimately show ?thesis using x(2,3) by (auto simp: about_def agrees_def intro!: exI [of _ x] split: if_splits)
qed

theorem decision_names_its_version_witness:
  "\<exists>a x. a \<in> set (approvals deskDone) \<and> filter (\<lambda>x. sc_id x = sa_scenario a) (scenarios deskDone) = [x] \<and>
     outputFingerprint (sc_computed x) = sa_fingerprint a"
proof -
  obtain a where "a \<in> set (approvals deskDone)" by (rule deskDone_rows) auto
  with decision_names_its_version [OF deskDone_reachable this] show ?thesis by blast
qed

text \<open>
  C30. Nothing ever changes the figures of a version: after any command every version is still
  there with the same inputs, figures and lines, in the same state or in one its state may
  move to, and every decision taken is still there unchanged.
\<close>

theorem figures_never_change:
  assumes "desk_reachable nt sh s" "newIdFresh e s" "numText e = nt" "sha e = sh"
  shows "(\<forall>x \<in> set (scenarios s). \<exists>x' \<in> set (scenarios (desk_exec e t u q s)).
      frozen x' = frozen x \<and> may_move (sc_state x) (sc_state x')) \<and>
    (\<exists>new. approvals (desk_exec e t u q s) = approvals s @ new)"
proof -
  have step: "desk_spec nt sh (view s) (view (desk_exec e t u q s))"
    by (rule desk.reached_simulates [OF assms(1)]) (rule desk_step [OF assms(2-4)])
  have "rows_ok (view s)" using desk_view_ok [OF assms(1)] by (simp add: desk_ok_def)
  with spec_keeps_versions [OF step] spec_keeps_decisions [OF step] show ?thesis by (simp add: view_def)
qed

theorem figures_never_change_witness:
  "\<exists>x \<in> set (scenarios deskOpen). \<exists>x' \<in> set (scenarios deskDone).
     frozen x' = frozen x \<and> may_move (sc_state x) (sc_state x')"
proof -
  obtain x where "x \<in> set (scenarios deskOpen)" by (rule deskOpen_rows) auto
  with figures_never_change [OF deskOpen_reachable deskOpen_fresh deskEnv_platform] show ?thesis
    unfolding deskDone_step by blast
qed

text \<open>
  C31. Every version on file was computed from its own inputs and balances: its amount financed
  is the sum of its lines and its totals are the sums of the lines of their kind.
\<close>

theorem stored_versions_balance:
  assumes "desk_reachable nt sh s" "x \<in> set (scenarios s)"
  shows "balanced (sc_computed x) \<and> (\<exists>book. computeScenario nt sh (sc_inputs x) book = Inr (sc_computed x))"
  using desk_priced [OF assms(1)] assms(2) computeScenario_balanced unfolding priced_def by blast

theorem stored_versions_balance_witness:
  "\<exists>x \<in> set (scenarios deskDone). balanced (sc_computed x) \<and> sc_state x = SS_approved"
proof -
  obtain x where "x \<in> set (scenarios deskDone)" "sc_state x = SS_approved" by (rule deskDone_rows) auto
  with stored_versions_balance [OF deskDone_reachable this(1)] show ?thesis by blast
qed

section \<open>Who decides, and what a refusal leaves\<close>

text \<open>
  C34. A decision appears only when a manager of the version's rooftop decides, in a decision
  request, a version of the same tenant that stands submitted and has not lapsed, naming the
  very fingerprint and row version on file.
\<close>

theorem decision_needs_a_manager:
  assumes "desk_reachable nt sh s" "approvals (desk_exec e t u q s) \<noteq> approvals s"
  shows "\<exists>sid i x. q = DecideScenario sid i \<and> x \<in> set (scenarios s) \<and> sc_tenant x = t \<and> sc_id x = pgUuid sid \<and>
    isEligibleManager e t u (sc_rooftop x) s \<and> sc_state x = SS_submitted \<and> \<not> lapsed e i x \<and>
    di_fingerprint i = outputFingerprint (sc_computed x) \<and> di_version i = sc_version x"
proof -
  obtain sid i a x where q: "q = DecideScenario sid i" "x \<in> set (scenarios s)" and d: "decides e t u sid i s a x"
    using decision_authority [OF desk_rows(1) [OF assms(1)] assms(2)] by blast
  from d have "a = u" by (simp add: decides_def requireActor_def split: if_splits)
  moreover from d have "sc_tenant x = t \<and> sc_id x = pgUuid sid"
    using loadScenario_found [of e t a sid s x] by (simp add: decides_def)
  ultimately show ?thesis using q d by (intro exI [of _ sid] exI [of _ i] exI [of _ x]) (simp add: decides_def)
qed

theorem decision_needs_a_manager_witness:
  "\<exists>x. isEligibleManager (deskEnv 7) deskTenant deskManager (sc_rooftop x) deskOpen \<and> sc_state x = SS_submitted \<and>
     x \<in> set (scenarios deskOpen)"
proof -
  have "approvals deskDone \<noteq> approvals deskOpen"
    using deskDone_summary deskOpen_summary by (auto simp: summary_def)
  from decision_needs_a_manager [OF deskOpen_reachable this [unfolded deskDone_step]] show ?thesis by blast
qed

text \<open>
  A decision that is refused, for any reason, has written nothing: not the approval, not
  the superseding of what stood, not the file.
\<close>

theorem refused_decision_writes_nothing:
  assumes "desk_reachable nt sh s" "\<And>x a. fst (decideScenario e t u sid i s) \<noteq> Inr (DO_decided x a)"
  shows "snd (decideScenario e t u sid i s) = s"
  using desk_rows(1) [OF assms(1)] assms(2) by (rule refused_decision)

text \<open>The version already decided, decided again the other way.\<close>

definition secondThoughts :: "desk_db \<Rightarrow> DecisionOutcome result \<times> desk_db" where
  "secondThoughts s = decideScenario (deskEnv 8) deskTenant deskManager (sc_id (lastVersion s)) (deskDecision D_rejected s) s"

lemma secondThoughts_refused: "fst (secondThoughts deskSold) = Inr DO_invalid"
  by code_simp

theorem refused_decision_writes_nothing_witness:
  "fst (secondThoughts deskSold) = Inr DO_invalid \<and> snd (secondThoughts deskSold) = deskSold"
  using refused_decision_writes_nothing [OF deskSold_reachable, of "deskEnv 8" deskTenant deskManager
      "sc_id (lastVersion deskSold)" "deskDecision D_rejected deskSold"] secondThoughts_refused
  unfolding secondThoughts_def by simp

section \<open>Opening a file\<close>

text \<open>
  Opening is idempotent: once a handoff's file is open, opening the same handoff again, by
  anyone who works the rooftop and however the identifier is spelt, answers the same file and
  changes nothing.
\<close>

theorem opening_again_finds_the_file:
  assumes "openDeskingCase e t u hid s = (Inr (IO_opened c), s')"
    and "pgUuid hid' = pgUuid hid" "requireActor u' s' = Inr u'" "reaches e' t u' (dc_rooftop c) s'"
  shows "openDeskingCase e' t u' hid' s' = (Inr (IO_already_open c), s')"
proof -
  have "find (\<lambda>c. dc_tenant c = t \<and> dc_handoff c = pgUuid hid) (cases s') = Some c"
    using openDeskingCaseWithin_opened assms(1) unfolding openDeskingCase_def withTenantTransaction_ok by blast
  with assms(2-4) show ?thesis
    by (simp add: openDeskingCase_def openDeskingCaseWithin_def withTenantTransaction_def)
qed

theorem opening_again_finds_the_file_witness:
  "\<exists>c s'. openDeskingCase (deskEnv 0) deskTenant deskManager (uuidOf 10 0) deskStore = (Inr (IO_opened c), s') \<and>
     openDeskingCase (deskEnv 1) deskTenant deskManager (uuidOf 10 0) s' = (Inr (IO_already_open c), s')"
proof -
  let ?r = "openDeskingCase (deskEnv 0) deskTenant deskManager (uuidOf 10 0) deskStore"
  have "(case fst ?r of Inr (IO_opened c) \<Rightarrow> dc_rooftop c = deskRooftop | _ \<Rightarrow> False)" by code_simp
  then obtain c s' where r: "?r = (Inr (IO_opened c), s')" "dc_rooftop c = deskRooftop"
    by (cases ?r) (auto split: sum.splits IntakeOutcome.splits)
  have "requireActor deskManager (snd ?r) = Inr deskManager" "reaches (deskEnv 1) deskTenant deskManager deskRooftop (snd ?r)"
    by code_simp+
  with opening_again_finds_the_file [OF r(1), of "uuidOf 10 0" deskManager "deskEnv 1"] r show ?thesis by simp
qed

section \<open>The book a version is priced on\<close>

text \<open>
  C36. The rule book is the rules in force, most specific first: it holds exactly the rules of
  the tenant and jurisdiction in force at the instant, a rooftop's own rule in place of the
  tenant's of the same kind and code, and never two rules of one kind and code.
\<close>

theorem book_is_most_specific:
  assumes "desk_reachable nt sh s"
  shows "(r \<in> set (bookRules (resolveRuleBookWithin e t juris roof tm s)) \<longleftrightarrow>
      (\<exists>row. governs t juris roof tm s row \<and> r = mapRule e row)) \<and>
    distinct (map bookKey (bookRules (resolveRuleBookWithin e t juris roof tm s)))"
  using bookRules_governs [OF desk_rules_wf [OF assms]] by blast

lemma deskRuled_rule: "map rl_code (filter (\<lambda>row. governs deskTenant ''US-XX'' deskRooftop 2 deskRuled row) (desk_rules deskRuled)) = [''sales'']"
  by code_simp

theorem book_is_most_specific_witness:
  "\<exists>row. rl_code row = ''sales'' \<and>
     mapRule (deskEnv 8) row \<in> set (bookRules (resolveRuleBookWithin (deskEnv 8) deskTenant ''US-XX'' deskRooftop 2 deskRuled))"
proof -
  obtain row where "governs deskTenant ''US-XX'' deskRooftop 2 deskRuled row" "rl_code row = ''sales''"
    using deskRuled_rule by (auto simp: map_eq_Cons_conv filter_eq_Cons_iff)
  with book_is_most_specific [OF deskRuled_reachable, of "mapRule (deskEnv 8) row" "deskEnv 8" deskTenant "''US-XX''" deskRooftop 2]
  show ?thesis by blast
qed

lemma book_refuses_no_tax:
  assumes "bookMissing (resolveRuleBookWithin e t juris roof tm s) = []"
    "bookExpired (resolveRuleBookWithin e t juris roof tm s) = []"
  shows "\<exists>row \<in> set (desk_rules s). ruleScope t juris roof row \<and> rl_kind row = RK_tax \<and> startsBefore tm (rl_to row)"
  using assms by (auto simp: resolveRuleBookWithin_def Let_def list_ex_iff split: if_splits)

lemma writeScenario_built:
  "writeScenario e t a i c inputs computed expires s = Inr (BO_built x, s') \<Longrightarrow>
   sc_inputs x = inputs \<and> sc_computed x = computed \<and> sc_case x = pgUuid (bi_case i)"
  by (auto simp: writeScenario_def Let_def)

text \<open>
  A version is priced by the book: on the file named, with the rules that govern the
  file's rooftop at the instant of pricing and no others, by the calculator; and only when the
  jurisdiction has a tax rule that has not ended.
\<close>

theorem built_by_the_book:
  assumes "desk_reachable nt sh s" "buildScenario e t u i s = (Inr (BO_built x), s')"
  shows "\<exists>c tm rules. c \<in> set (cases s) \<and> dc_tenant c = t \<and> dc_id c = sc_case x \<and>
    instantOf e (pricedAt (sc_inputs x)) = Some tm \<and>
    set rules = mapRule e ` {row. governs t (bi_jurisdiction i) (dc_rooftop c) tm s row} \<and> distinct (map bookKey rules) \<and>
    computeScenario (numText e) (sha e) (sc_inputs x) rules = Inr (sc_computed x) \<and>
    (\<exists>row \<in> set (desk_rules s). ruleScope t (bi_jurisdiction i) (dc_rooftop c) row \<and> rl_kind row = RK_tax \<and>
       startsBefore tm (rl_to row))"
proof -
  from assms(2) have "buildScenarioWithin e t u i s = Inr (BO_built x, s')"
    by (simp add: buildScenario_def withTenantTransaction_ok)
  then have "drafts e t u i s (BO_built x) s'" using buildScenarioWithin_cases by blast
  then obtain a c at' tm r expires where c: "requireCaseWithin e t a (bi_case i) s = Some c"
    and tm: "instantOf e at' = Some tm"
    and book: "bookMissing (resolveRuleBookWithin e t (bi_jurisdiction i) (dc_rooftop c) tm s) = []"
      "bookExpired (resolveRuleBookWithin e t (bi_jurisdiction i) (dc_rooftop c) tm s) = []"
    and r: "computeScenario (numText e) (sha e) (scenarioInputs i at')
        (bookRules (resolveRuleBookWithin e t (bi_jurisdiction i) (dc_rooftop c) tm s)) = Inr r"
    and w: "writeScenario e t a i c (scenarioInputs i at') r expires s = Inr (BO_built x, s')"
    unfolding drafts_def Let_def by blast
  let ?rules = "bookRules (resolveRuleBookWithin e t (bi_jurisdiction i) (dc_rooftop c) tm s)"
  have "set ?rules = mapRule e ` {row. governs t (bi_jurisdiction i) (dc_rooftop c) tm s row}"
    using bookRules_governs(1) [OF desk_rules_wf [OF assms(1)], of _ e t "bi_jurisdiction i" "dc_rooftop c" tm] by blast
  moreover have "distinct (map bookKey ?rules)" by (rule bookRules_governs(2) [OF desk_rules_wf [OF assms(1)]])
  ultimately show ?thesis
    using requireCase_found [OF c] writeScenario_built [OF w] tm r book_refuses_no_tax [OF book]
    by (intro exI [of _ c] exI [of _ tm] exI [of _ ?rules]) (simp add: scenarioInputs_def)
qed

definition firstQuote :: "desk_db \<Rightarrow> BuildOutcome result \<times> desk_db" where
  "firstQuote s = (case quote 25000 s of BuildScenario i \<Rightarrow> buildScenario (deskEnv 2) deskTenant deskManager i s)"

definition taxOf :: "BuildOutcome result \<Rightarrow> int option" where
  "taxOf r = (case r of Inr (BO_built x) \<Rightarrow> Some (taxTotalCents (sc_computed x)) | _ \<Rightarrow> None)"

lemma taxOf_Some: "taxOf r = Some n \<longleftrightarrow> (\<exists>x. r = Inr (BO_built x) \<and> taxTotalCents (sc_computed x) = n)"
  by (auto simp: taxOf_def split: sum.splits BuildOutcome.splits)

lemma firstQuote_built: "taxOf (fst (firstQuote deskRuled)) = Some 1625"
  by code_simp

theorem built_by_the_book_witness:
  "\<exists>x rules. fst (firstQuote deskRuled) = Inr (BO_built x) \<and> taxTotalCents (sc_computed x) = 1625 \<and>
     computeScenario fractionText id (sc_inputs x) rules = Inr (sc_computed x)"
proof -
  from firstQuote_built obtain x where x: "fst (firstQuote deskRuled) = Inr (BO_built x)" "taxTotalCents (sc_computed x) = 1625"
    by (auto simp: taxOf_Some)
  then obtain i where "buildScenario (deskEnv 2) deskTenant deskManager i deskRuled = (Inr (BO_built x), snd (firstQuote deskRuled))"
    by (simp add: firstQuote_def quote_def prod_eq_iff)
  from built_by_the_book [OF deskRuled_reachable this] deskEnv_platform [of 2] x show ?thesis by auto
qed

text \<open>
  A jurisdiction whose only tax rule has yet to start prices without tax: the rule has not
  ended, so the book calls the tax neither missing nor expired, and it is not in force, so it
  is not in the book.
\<close>

lemma tax_yet_to_start_prices_untaxed:
  "map (taxTotalCents \<circ> sc_computed) (scenarios (runDesk
     [\<lambda>_. OpenDeskingCase (uuidOf 10 0), \<lambda>_. RecordRule (taxInput ''2027-01-01T00:00:00.000Z''), quote 25000] 0 deskStore)) = [0]"
  by code_simp

end
