(* ===== verification/CrmStore.thy ===== *)
theory CrmStore
  imports DeskStore
begin

text \<open>
  The tables the CRM package works on: the customers of inventory (migration 062, \<open>parties\<close>
  and their consents), everything of migration 063 (leads, their history, activities,
  appointments, campaigns, sends, attribution) and the outbox of 061.  They stand beside the
  tables of identity-access in one database, which is the \<open>desk\<close> part of the store: actors,
  rooftops, role bindings and the audit trail are shared.  Identifiers in a request are UUIDs,
  as the routes check; a UUID column holds the lower-case form (\<open>pgUuid\<close>).  Instants are
  milliseconds.
\<close>

section \<open>Enumerations\<close>

datatype PartyType = PT_person | PT_organization
datatype PartyStatus = PS_active | PS_merged | PS_archived
datatype ConsentChannel = CC_email | CC_sms | CC_phone | CC_postal
datatype ConsentPurpose = CP_sales_marketing | CP_service_reminder | CP_transactional | CP_research
datatype ConsentState = CS_granted | CS_withdrawn | CS_unknown
datatype SuppressionKind = SK_email | SK_phone
datatype SuppressionReason = SR_unsubscribe | SR_complaint | SR_bounce | SR_do_not_contact | SR_manual

datatype SourceChannel =
    SC_web | SC_phone | SC_walk_in | SC_email | SC_sms | SC_chat | SC_marketplace | SC_referral
  | SC_campaign | SC_import | SC_manual

datatype SourceMedium = SM_organic | SM_paid | SM_owned | SM_referral | SM_direct | SM_unknown

datatype LeadState = LS_new | LS_working | LS_qualified | LS_appointment_set | LS_handed_off | LS_closed

datatype LeadDisposition =
    LD_sold_elsewhere | LD_not_interested | LD_unqualified | LD_duplicate | LD_no_contact | LD_handed_to_sales

datatype IntakeChannel = IC_manual | IC_import | IC_campaign | IC_website | IC_provider
datatype LeadIntakeOutcome = IO_created | IO_merged_into_existing | IO_rejected

datatype AssignmentReason =
  AR_initial_routing | AR_manual_assignment | AR_reassignment | AR_escalation | AR_queue_return

datatype ActivityKind = AK_task | AK_note | AK_call | AK_email | AK_sms | AK_reminder
datatype ActivityDirection = AD_inbound | AD_outbound
datatype ActivityState = AS_open | AS_completed | AS_cancelled

datatype AppointmentPurpose =
  AP_test_drive | AP_showroom_visit | AP_consultation | AP_delivery_preview | AP_callback

datatype AppointmentState = AT_scheduled | AT_confirmed | AT_completed | AT_cancelled | AT_no_show
datatype AppointmentEventType = AE_rescheduled | AE_state AppointmentState

datatype CampaignChannel = CH_email | CH_sms
datatype CampaignPurpose = CU_sales_marketing | CU_service_reminder | CU_research
datatype CampaignStatus = CM_draft | CM_active | CM_archived
datatype CampaignVersionState = CV_draft | CV_approved | CV_executing | CV_completed | CV_cancelled
datatype AudienceRule = AU_all_active_customers | AU_open_leads | AU_prior_buyers | AU_manual_selection

datatype SendState = SD_pending | SD_sent | SD_failed | SD_suppressed | SD_deferred_quiet_hours

datatype WithheldReason =
    WR_suppressed_contact | WR_consent_not_granted | WR_quiet_hours | WR_no_contact_value | WR_party_inactive

datatype SendEventType = SE_requested | SE_sent | SE_failed | SE_suppressed | SE_deferred | SE_reconciled
datatype ResponseType = RS_reply | RS_click | RS_opt_out | RS_bounce
datatype AttributionModel = AM_first_touch | AM_last_touch | AM_linear

section \<open>Rows\<close>

record party =
  pa_id :: string
  pa_tenant :: string
  pa_type :: PartyType
  pa_display :: string
  pa_given :: "string option"
  pa_family :: "string option"
  pa_organization :: "string option"
  pa_email :: "string option"
  pa_phone :: "string option"
  pa_line1 :: "string option"
  pa_city :: "string option"
  pa_region :: "string option"
  pa_postal :: "string option"
  pa_country :: "string option"
  pa_status :: PartyStatus
  pa_merged_into :: "string option"
  pa_override :: bool
  pa_version :: int

record party_consent =
  pc_tenant :: string
  pc_party :: string
  pc_channel :: ConsentChannel
  pc_state :: ConsentState
  pc_source :: string
  pc_note :: "string option"
  pc_version :: int

record party_merge =
  pm_tenant :: string
  pm_surviving :: string
  pm_merged :: string
  pm_repointed :: nat
  pm_adopted :: nat
  pm_reason :: "string option"

record purpose_consent =
  cn_tenant :: string
  cn_party :: string
  cn_channel :: ConsentChannel
  cn_purpose :: ConsentPurpose
  cn_state :: ConsentState
  cn_source :: string
  cn_version :: int

record contact_suppression =
  su_id :: string
  su_tenant :: string
  su_kind :: SuppressionKind
  su_value :: string
  su_reason :: SuppressionReason
  su_party :: "string option"
  su_active :: bool
  su_version :: int

record lead_source =
  so_id :: string
  so_tenant :: string
  so_code :: string
  so_name :: string
  so_channel :: SourceChannel
  so_medium :: SourceMedium
  so_active :: bool
  so_version :: int

record lead_queue =
  lq_id :: string
  lq_tenant :: string
  lq_rooftop :: string
  lq_name :: string
  lq_active :: bool

record lead_sla_policy =
  sp_id :: string
  sp_tenant :: string
  sp_rooftop :: string
  sp_first :: int
  sp_escalate :: int
  sp_active :: bool
  sp_version :: int

record lead =
  ld_id :: string
  ld_tenant :: string
  ld_rooftop :: string
  ld_party :: string
  ld_stock :: "string option"
  ld_vehicle :: "string option"
  ld_state :: LeadState
  ld_disposition :: "LeadDisposition option"
  ld_owner :: "string option"
  ld_queue :: "string option"
  ld_source :: string
  ld_due :: "int option"
  ld_escalate :: "int option"
  ld_first_response :: "int option"
  ld_escalated :: "int option"
  ld_handed_off :: "int option"
  ld_closed :: "int option"
  ld_version :: int
  ld_created :: int

record lead_status_event =
  le_tenant :: string
  le_lead :: string
  le_from :: LeadState
  le_to :: LeadState
  le_disposition :: "LeadDisposition option"
  le_note :: "string option"
  le_by :: string

record lead_assignment =
  la_tenant :: string
  la_lead :: string
  la_from :: "string option"
  la_to :: "string option"
  la_queue :: "string option"
  la_reason :: AssignmentReason
  la_note :: "string option"
  la_by :: string

record lead_escalation =
  lx_tenant :: string
  lx_lead :: string
  lx_due :: int

record lead_intake =
  li_tenant :: string
  li_key :: string
  li_channel :: IntakeChannel
  li_lead :: "string option"
  li_outcome :: LeadIntakeOutcome
  li_reason :: "string option"
  li_fingerprint :: string
  li_by :: string

record lead_source_touch =
  lt_id :: string
  lt_tenant :: string
  lt_lead :: string
  lt_source :: string
  lt_campaign_version :: "string option"
  lt_seq :: int

record handed_snapshot =
  hs_lead :: string
  hs_rooftop :: string
  hs_party :: string
  hs_stock :: "string option"
  hs_vehicle :: "string option"
  hs_source :: string
  hs_owner :: "string option"
  hs_first_response :: "int option"
  hs_handed_off :: "int option"

record lead_handoff =
  lh_id :: string
  lh_tenant :: string
  lh_lead :: string
  lh_snapshot :: handed_snapshot
  lh_to :: string
  lh_by :: string

record lead_activity =
  ac_id :: string
  ac_tenant :: string
  ac_lead :: string
  ac_kind :: ActivityKind
  ac_direction :: "ActivityDirection option"
  ac_subject :: string
  ac_body :: "string option"
  ac_state :: ActivityState
  ac_due :: "int option"
  ac_completed :: "int option"
  ac_assigned :: "string option"
  ac_version :: int

record crm_appointment =
  at_id :: string
  at_tenant :: string
  at_rooftop :: string
  at_lead :: string
  at_party :: string
  at_stock :: "string option"
  at_purpose :: AppointmentPurpose
  at_starts :: int
  at_ends :: int
  at_state :: AppointmentState
  at_cancelled_reason :: "string option"
  at_cancelled :: "int option"
  at_completed :: "int option"
  at_reschedules :: nat
  at_assigned :: "string option"
  at_version :: int

record crm_appointment_event =
  ae_tenant :: string
  ae_appointment :: string
  ae_type :: AppointmentEventType
  ae_from :: "int option"
  ae_to :: "int option"
  ae_note :: "string option"
  ae_by :: string

record campaign =
  ca_id :: string
  ca_tenant :: string
  ca_rooftop :: string
  ca_name :: string
  ca_channel :: CampaignChannel
  ca_purpose :: CampaignPurpose
  ca_source :: string
  ca_quiet_start :: int
  ca_quiet_end :: int
  ca_zone :: string
  ca_status :: CampaignStatus
  ca_version :: int

record campaign_version =
  cv_id :: string
  cv_tenant :: string
  cv_campaign :: string
  cv_number :: int
  cv_state :: CampaignVersionState
  cv_approved_by :: "string option"
  cv_version :: int

record campaign_template =
  ct_tenant :: string
  ct_version :: string
  ct_subject :: "string option"
  ct_body :: string
  ct_opt_out :: bool

record audience_member =
  am_tenant :: string
  am_version :: string
  am_party :: string
  am_because :: AudienceRule

record campaign_send =
  sd_id :: string
  sd_tenant :: string
  sd_version :: string
  sd_party :: string
  sd_channel :: CampaignChannel
  sd_contact :: string
  sd_state :: SendState
  sd_withheld :: "WithheldReason option"
  sd_attempts :: int
  sd_ref :: "string option"
  sd_error :: "string option"
  sd_available :: int
  sd_sent_at :: "int option"
  sd_row_version :: int

record campaign_send_event =
  sv_tenant :: string
  sv_send :: string
  sv_type :: SendEventType
  sv_attempt :: int
  sv_ref :: "string option"

record campaign_response =
  cr_id :: string
  cr_tenant :: string
  cr_send :: string
  cr_type :: ResponseType
  cr_lead :: "string option"
  cr_detail :: "string option"

record outbox_event =
  ob_id :: string
  ob_tenant :: string
  ob_type :: string
  ob_subject :: string
  ob_available :: int
  ob_attempts :: nat
  ob_delivered :: "int option"

record attribution_run =
  an_id :: string
  an_tenant :: string
  an_rooftop :: string
  an_model :: AttributionModel
  an_start :: int
  an_end :: int
  an_computed :: bool
  an_leads :: nat
  an_touches :: nat
  an_version :: int

record lead_attribution =
  lw_tenant :: string
  lw_run :: string
  lw_lead :: string
  lw_touch :: string
  lw_source :: string
  lw_campaign_version :: "string option"
  lw_weight :: nat

text \<open>Of the stock table, the columns customers and campaigns refer to.\<close>

record stock_item =
  sk_id :: string
  sk_tenant :: string
  sk_rooftop :: string
  sk_party :: "string option"
  sk_retired :: bool

record crm_db =
  desk :: desk_db
  parties :: "party list"
  party_consents :: "party_consent list"
  party_merges :: "party_merge list"
  purpose_consents :: "purpose_consent list"
  suppressions :: "contact_suppression list"
  stock_items :: "stock_item list"
  vehicle_ids :: "(string \<times> string) list"
  lead_sources :: "lead_source list"
  lead_queues :: "lead_queue list"
  sla_policies :: "lead_sla_policy list"
  leads :: "lead list"
  lead_events :: "lead_status_event list"
  lead_assignments :: "lead_assignment list"
  lead_escalations :: "lead_escalation list"
  lead_intakes :: "lead_intake list"
  lead_touches :: "lead_source_touch list"
  lead_handoffs :: "lead_handoff list"
  lead_activities :: "lead_activity list"
  crm_appointments :: "crm_appointment list"
  crm_appointment_events :: "crm_appointment_event list"
  campaigns :: "campaign list"
  campaign_versions :: "campaign_version list"
  campaign_templates :: "campaign_template list"
  audience_members :: "audience_member list"
  campaign_sends :: "campaign_send list"
  send_events :: "campaign_send_event list"
  campaign_responses :: "campaign_response list"
  outbox :: "outbox_event list"
  outbox_deliveries :: "string list"
  attribution_runs :: "attribution_run list"
  lead_attributions :: "lead_attribution list"

section \<open>What comes from outside\<close>

datatype ProviderOutcome = PO_sent string | PO_failed bool string

record ProviderRequest =
  rq_send :: string
  rq_channel :: CampaignChannel
  rq_contact :: string
  rq_attempt :: int
  rq_subject :: "string option"
  rq_body :: string

text \<open>
  Beside the platform's clock, identifiers and digest: \<open>new Date(text)\<close> (None is an invalid
  date), the hour and minute \<open>Intl.DateTimeFormat\<close> shows for an instant in a named zone (None
  is the RangeError of a zone it does not know), and the message provider's answer.
\<close>

record crm_env =
  platform :: desk_env
  jsDate :: "string \<Rightarrow> int option"
  intlParts :: "int \<Rightarrow> string \<Rightarrow> (nat \<times> nat) option"
  provider :: "ProviderRequest \<Rightarrow> ProviderOutcome"

abbreviation clock :: "crm_env \<Rightarrow> int" where
  "clock e \<equiv> dnow (platform e)"

abbreviation drawn :: "crm_env \<Rightarrow> nat \<Rightarrow> string" where
  "drawn e \<equiv> newId (platform e)"

type_synonym 'a ctx = "crm_db \<Rightarrow> ('a \<times> crm_db) result"

abbreviation check_violation :: app_error where
  "check_violation \<equiv> DatabaseError ''check_violation''"

abbreviation foreign_key :: app_error where
  "foreign_key \<equiv> DatabaseError ''foreign_key_violation''"

abbreviation unique_violation :: app_error where
  "unique_violation \<equiv> DatabaseError ''unique_violation''"

definition actor_of :: "string \<Rightarrow> crm_db \<Rightarrow> string result" where
  "actor_of u s = requireActor u (desk s)"

definition audited :: "string \<Rightarrow> string \<Rightarrow> string \<Rightarrow> string \<Rightarrow> string \<Rightarrow> crm_db \<Rightarrow> crm_db" where
  "audited tenant entityType entityId eventType actor s =
     s\<lparr>desk := recordMutation tenant entityType entityId eventType actor (desk s)\<rparr>"

section \<open>Text and references\<close>

definition trim :: "string \<Rightarrow> string" where
  "trim s = rev (dropWhile isSpace (rev (dropWhile isSpace s)))"

text \<open>\<open>toLowerCase\<close>, and Postgres' \<open>lower\<close>, on 8-bit characters.\<close>

definition lowerChar :: "char \<Rightarrow> char" where
  "lowerChar c = (let n = (of_char c :: nat) in
     if (65 \<le> n \<and> n \<le> 90) \<or> (192 \<le> n \<and> n \<le> 222 \<and> n \<noteq> 215) then char_of (n + 32) else c)"

definition toLowerCase :: "string \<Rightarrow> string" where
  "toLowerCase s = map lowerChar s"

definition lengthIn :: "nat \<Rightarrow> nat \<Rightarrow> string option \<Rightarrow> bool" where
  "lengthIn lo hi x = (case x of None \<Rightarrow> True | Some v \<Rightarrow> lo \<le> length v \<and> length v \<le> hi)"

definition hasRooftop :: "string \<Rightarrow> string \<Rightarrow> crm_db \<Rightarrow> bool" where
  "hasRooftop tenant rid s = list_ex (\<lambda>r. rt_tenant r = tenant \<and> rt_id r = pgUuid rid) (rooftops (desk s))"

definition hasUser :: "string option \<Rightarrow> crm_db \<Rightarrow> bool" where
  "hasUser u s = (case u of None \<Rightarrow> True | Some x \<Rightarrow> pgUuid x \<in> set (user_links (desk s)))"

definition hasParty :: "string \<Rightarrow> string option \<Rightarrow> crm_db \<Rightarrow> bool" where
  "hasParty tenant p s =
     (case p of None \<Rightarrow> True | Some x \<Rightarrow> list_ex (\<lambda>r. pa_tenant r = tenant \<and> pa_id r = pgUuid x) (parties s))"

definition hasStock :: "string \<Rightarrow> string option \<Rightarrow> crm_db \<Rightarrow> bool" where
  "hasStock tenant k s =
     (case k of None \<Rightarrow> True | Some x \<Rightarrow> list_ex (\<lambda>r. sk_tenant r = tenant \<and> sk_id r = pgUuid x) (stock_items s))"

definition hasVehicle :: "string \<Rightarrow> string option \<Rightarrow> crm_db \<Rightarrow> bool" where
  "hasVehicle tenant k s = (case k of None \<Rightarrow> True | Some x \<Rightarrow> (tenant, pgUuid x) \<in> set (vehicle_ids s))"

lemma audited_rows [simp]:
  "parties (audited t a b c d s) = parties s" "leads (audited t a b c d s) = leads s"
  "suppressions (audited t a b c d s) = suppressions s" "campaign_sends (audited t a b c d s) = campaign_sends s"
  by (simp_all add: audited_def)

end
