(* ===== verification/Parties.thy ===== *)
theory Parties
  imports CrmStore
begin

text \<open>
  Customers, as \<open>inventory/src/parties.ts\<close> keeps them: normal forms of contact values, the
  duplicate decision, creation, update, channel consent, merge and import.  A detail of a
  request is absent, null or text; the advisory locks only serialise.  The unique indexes
  \<open>uq_parties_unshared_email\<close> and \<open>uq_parties_unshared_phone\<close> back up the decision made here:
  \<open>contacts_unshared\<close> in \<open>CrmPromises\<close> shows that they never fire.
\<close>

section \<open>Normal forms\<close>

datatype opt_text = Omitted | Cleared | Given string

text \<open>\<open>d ?? other\<close>, and \<open>d === undefined ? other : d\<close>.\<close>

fun textOr :: "opt_text \<Rightarrow> string option \<Rightarrow> string option" where
  "textOr (Given x) _ = Some x"
| "textOr _ y = y"

fun textSet :: "opt_text \<Rightarrow> string option \<Rightarrow> string option" where
  "textSet Omitted y = y"
| "textSet Cleared _ = None"
| "textSet (Given x) _ = Some x"

abbreviation orNone :: "opt_text \<Rightarrow> string option" where
  "orNone d \<equiv> textOr d None"

definition orEmpty :: "string option \<Rightarrow> string" where
  "orEmpty x = (case x of None \<Rightarrow> '''' | Some v \<Rightarrow> v)"

definition normalizePhone :: "string option \<Rightarrow> string option" where
  "normalizePhone raw =
     (case raw of
        None \<Rightarrow> None
      | Some r \<Rightarrow>
          (let trimmed = trim r;
               plus = (trimmed \<noteq> [] \<and> hd trimmed = CHR ''+'');
               digits = filter isDecDigit trimmed
           in if trimmed = [] then None
              else if length digits < 7 \<or> length digits > 15 then None
              else Some ((if plus then ''+'' else '''') @ digits)))"

definition normalizeEmail :: "string option \<Rightarrow> string option" where
  "normalizeEmail raw =
     (case raw of
        None \<Rightarrow> None
      | Some r \<Rightarrow>
          (let trimmed = toLowerCase (trim r) in
           if length trimmed < 3 \<or> length trimmed > 320 \<or> CHR ''@'' \<notin> set trimmed then None
           else Some trimmed))"

fun joinSpace :: "string list \<Rightarrow> string" where
  "joinSpace [] = []"
| "joinSpace [x] = x"
| "joinSpace (x # y # ys) = x @ '' '' @ joinSpace (y # ys)"

definition partyDisplayName ::
  "PartyType \<Rightarrow> string option \<Rightarrow> string option \<Rightarrow> string option \<Rightarrow> string option \<Rightarrow> string option" where
  "partyDisplayName ptype given family organization display =
     (let shown = trim (orEmpty display);
          org = trim (orEmpty organization);
          person = joinSpace (filter (\<lambda>p. p \<noteq> []) (map trim [orEmpty given, orEmpty family]))
      in if shown \<noteq> [] then Some (take 200 shown)
         else if ptype = PT_organization then (if org \<noteq> [] then Some (take 200 org) else None)
         else if person \<noteq> [] then Some (take 200 person) else None)"

record party_details =
  pd_display :: opt_text
  pd_given :: opt_text
  pd_family :: opt_text
  pd_organization :: opt_text
  pd_email :: opt_text
  pd_phone :: opt_text
  pd_line1 :: opt_text
  pd_city :: opt_text
  pd_region :: opt_text
  pd_postal :: opt_text
  pd_country :: opt_text

section \<open>The duplicate decision\<close>

definition sharesEmail :: "string option \<Rightarrow> party \<Rightarrow> bool" where
  "sharesEmail email p = (email \<noteq> None \<and> map_option toLowerCase (pa_email p) = email)"

definition sharesPhone :: "string option \<Rightarrow> party \<Rightarrow> bool" where
  "sharesPhone phone p = (phone \<noteq> None \<and> pa_phone p = phone)"

definition identifyingCollisions ::
  "string \<Rightarrow> string option \<Rightarrow> string option \<Rightarrow> string option \<Rightarrow> crm_db \<Rightarrow> (party \<times> SuppressionKind) list" where
  "identifyingCollisions tenant email phone exclude s =
     map (\<lambda>p. (p, if sharesEmail email p then SK_email else SK_phone))
       (take 25 (sort_key pa_id (filter (\<lambda>p. pa_tenant p = tenant \<and> pa_status p = PS_active
            \<and> (case exclude of None \<Rightarrow> True | Some x \<Rightarrow> pa_id p \<noteq> pgUuid x)
            \<and> (sharesEmail email p \<or> sharesPhone phone p)) (parties s))))"

text \<open>The CHECKs of the table that the service does not decide itself.\<close>

definition isUpper :: "char \<Rightarrow> bool" where
  "isUpper c = (65 \<le> (of_char c :: nat) \<and> (of_char c :: nat) \<le> 90)"

definition partyRowOk :: "party \<Rightarrow> bool" where
  "partyRowOk p =
     (lengthIn 1 100 (pa_given p) \<and> lengthIn 1 100 (pa_family p) \<and> lengthIn 1 200 (pa_organization p)
      \<and> lengthIn 1 200 (pa_line1 p) \<and> lengthIn 1 100 (pa_city p) \<and> lengthIn 1 100 (pa_region p)
      \<and> lengthIn 1 20 (pa_postal p)
      \<and> (case pa_country p of None \<Rightarrow> True | Some c \<Rightarrow> length c = 2 \<and> list_all isUpper c))"

section \<open>Creation\<close>

datatype PartyCreateOutcome =
  PC_created party | PC_duplicate "(party \<times> SuppressionKind) list" | PC_invalid string

definition readPartyType :: "string \<Rightarrow> PartyType option" where
  "readPartyType = map_of [(''person'', PT_person), (''organization'', PT_organization)]"

definition unusable :: "opt_text \<Rightarrow> string option \<Rightarrow> bool" where
  "unusable d normal = (case d of Given x \<Rightarrow> trim x \<noteq> [] \<and> normal = None | _ \<Rightarrow> False)"

definition newParty ::
  "string \<Rightarrow> string \<Rightarrow> PartyType \<Rightarrow> string \<Rightarrow> party_details \<Rightarrow> string option \<Rightarrow> string option \<Rightarrow> bool \<Rightarrow> party" where
  "newParty pid tenant ptype display d email phone sharing =
     \<lparr>pa_id = pid, pa_tenant = tenant, pa_type = ptype, pa_display = display,
      pa_given = orNone (pd_given d), pa_family = orNone (pd_family d),
      pa_organization = (if ptype = PT_organization then textOr (pd_organization d) (Some display) else None),
      pa_email = email, pa_phone = phone, pa_line1 = orNone (pd_line1 d), pa_city = orNone (pd_city d),
      pa_region = orNone (pd_region d), pa_postal = orNone (pd_postal d), pa_country = orNone (pd_country d),
      pa_status = PS_active, pa_merged_into = None, pa_override = sharing, pa_version = 1\<rparr>"

definition insertParty ::
  "string \<Rightarrow> string \<Rightarrow> string \<Rightarrow> PartyType \<Rightarrow> string \<Rightarrow> party_details \<Rightarrow> bool \<Rightarrow> PartyCreateOutcome ctx" where
  "insertParty pid tenant user ptype display d allowDuplicate s =
     (let email = normalizeEmail (orNone (pd_email d));
          phone = normalizePhone (orNone (pd_phone d));
          collisions = identifyingCollisions tenant email phone None s;
          row = newParty pid tenant ptype display d email phone (collisions \<noteq> [])
      in bindR (actor_of user s) (\<lambda>actor.
           if collisions \<noteq> [] \<and> \<not> allowDuplicate then Inr (PC_duplicate collisions, s)
           else bindR (ensure (partyRowOk row) check_violation) (\<lambda>_.
             Inr (PC_created row, audited tenant ''party'' pid ''inventory.party.created'' actor
                    (s\<lparr>parties := parties s @ [row]\<rparr>)))))"

definition createPartyWithin ::
  "string \<Rightarrow> string \<Rightarrow> string \<Rightarrow> string \<Rightarrow> party_details \<Rightarrow> bool \<Rightarrow> PartyCreateOutcome ctx" where
  "createPartyWithin pid tenant user partyType d allowDuplicate s =
     (case readPartyType partyType of
        None \<Rightarrow> Inr (PC_invalid ''party_type must be person or organization'', s)
      | Some ptype \<Rightarrow>
          (case partyDisplayName ptype (orNone (pd_given d)) (orNone (pd_family d)) (orNone (pd_organization d))
                  (orNone (pd_display d)) of
             None \<Rightarrow> Inr (PC_invalid (if ptype = PT_organization then ''an organization needs a name''
                                      else ''a person needs a given or family name''), s)
           | Some display \<Rightarrow>
               if unusable (pd_email d) (normalizeEmail (orNone (pd_email d)))
               then Inr (PC_invalid ''the email address is not usable'', s)
               else if unusable (pd_phone d) (normalizePhone (orNone (pd_phone d)))
               then Inr (PC_invalid ''the phone number is not usable'', s)
               else insertParty pid tenant user ptype display d allowDuplicate s))"

definition createParty ::
  "crm_env \<Rightarrow> string \<Rightarrow> string \<Rightarrow> string \<Rightarrow> party_details \<Rightarrow> bool \<Rightarrow> crm_db \<Rightarrow> PartyCreateOutcome result \<times> crm_db" where
  "createParty e tenant user partyType d allowDuplicate s =
     withTenantTransaction (createPartyWithin (drawn e 0) tenant user partyType d allowDuplicate) s"

section \<open>Update\<close>

datatype PartyUpdateOutcome =
    PU_saved party | PU_version_conflict int | PU_not_found
  | PU_duplicate "(party \<times> SuppressionKind) list" | PU_invalid

definition editedParty :: "party_details \<Rightarrow> string \<Rightarrow> string option \<Rightarrow> string option \<Rightarrow> bool \<Rightarrow> party \<Rightarrow> party" where
  "editedParty d display email phone sharing p =
     p\<lparr>pa_display := display, pa_given := textSet (pd_given d) (pa_given p),
       pa_family := textSet (pd_family d) (pa_family p),
       pa_organization := (if pa_type p = PT_organization
          then Some (case textOr (pd_organization d) (pa_organization p) of Some x \<Rightarrow> x | None \<Rightarrow> display) else None),
       pa_email := email, pa_phone := phone, pa_line1 := textSet (pd_line1 d) (pa_line1 p),
       pa_city := textSet (pd_city d) (pa_city p), pa_region := textSet (pd_region d) (pa_region p),
       pa_postal := textSet (pd_postal d) (pa_postal p), pa_country := textSet (pd_country d) (pa_country p),
       pa_override := sharing, pa_version := pa_version p + 1\<rparr>"

definition updateBody ::
  "string \<Rightarrow> string \<Rightarrow> string \<Rightarrow> int \<Rightarrow> party_details \<Rightarrow> bool \<Rightarrow> PartyUpdateOutcome ctx" where
  "updateBody tenant user partyId expected d allowDuplicate s =
     bindR (actor_of user s) (\<lambda>actor.
       let here = (\<lambda>p. pa_tenant p = tenant \<and> pa_id p = pgUuid partyId) in
       case find here (parties s) of
         None \<Rightarrow> Inr (PU_not_found, s)
       | Some current \<Rightarrow>
           if pa_status current \<noteq> PS_active then Inr (PU_invalid, s)
           else if pa_version current \<noteq> expected then Inr (PU_version_conflict (pa_version current), s)
           else
             (case partyDisplayName (pa_type current) (textOr (pd_given d) (pa_given current))
                     (textOr (pd_family d) (pa_family current)) (textOr (pd_organization d) (pa_organization current))
                     (orNone (pd_display d)) of
                None \<Rightarrow> Inr (PU_invalid, s)
              | Some display \<Rightarrow>
                  (let email = (if pd_email d = Omitted then pa_email current else normalizeEmail (orNone (pd_email d)));
                       phone = (if pd_phone d = Omitted then pa_phone current else normalizePhone (orNone (pd_phone d)));
                       collisions = identifyingCollisions tenant email phone (Some partyId) s;
                       edit = editedParty d display email phone (collisions \<noteq> [])
                   in if collisions \<noteq> [] \<and> \<not> allowDuplicate then Inr (PU_duplicate collisions, s)
                      else bindR (ensure (partyRowOk (edit current)) check_violation) (\<lambda>_.
                        Inr (PU_saved (edit current), audited tenant ''party'' (pa_id current) ''inventory.party.updated'' actor
                          (s\<lparr>parties := update_where (\<lambda>p. here p \<and> pa_version p = expected) edit (parties s)\<rparr>))))))"

definition updateParty ::
  "string \<Rightarrow> string \<Rightarrow> string \<Rightarrow> int \<Rightarrow> party_details \<Rightarrow> bool \<Rightarrow> crm_db \<Rightarrow> PartyUpdateOutcome result \<times> crm_db" where
  "updateParty tenant user partyId expected d allowDuplicate s =
     withTenantTransaction (updateBody tenant user partyId expected d allowDuplicate) s"

section \<open>Channel consent\<close>

datatype ConsentOutcome = CO_saved "party_consent list" | CO_not_found | CO_invalid

definition CONSENT_CHANNELS :: "(string \<times> ConsentChannel) list" where
  "CONSENT_CHANNELS = [(''email'', CC_email), (''sms'', CC_sms), (''phone'', CC_phone), (''postal'', CC_postal)]"

definition CONSENT_STATES :: "(string \<times> ConsentState) list" where
  "CONSENT_STATES = [(''granted'', CS_granted), (''withdrawn'', CS_withdrawn), (''unknown'', CS_unknown)]"

text \<open>\<open>ORDER BY channel\<close>: the order of the names.\<close>

fun channelRank :: "ConsentChannel \<Rightarrow> nat" where
  "channelRank CC_email = 0"
| "channelRank CC_phone = 1"
| "channelRank CC_postal = 2"
| "channelRank CC_sms = 3"

definition upsertConsent :: "party_consent \<Rightarrow> party_consent list \<Rightarrow> party_consent list" where
  "upsertConsent row rows =
     (let same = (\<lambda>r. pc_tenant r = pc_tenant row \<and> pc_party r = pc_party row \<and> pc_channel r = pc_channel row) in
      if list_ex same rows
      then update_where same (\<lambda>r. r\<lparr>pc_state := pc_state row, pc_source := pc_source row, pc_note := pc_note row,
             pc_version := pc_version r + 1\<rparr>) rows
      else rows @ [row])"

definition consentBody ::
  "string \<Rightarrow> string \<Rightarrow> string \<Rightarrow> ConsentChannel \<Rightarrow> ConsentState \<Rightarrow> string \<Rightarrow> string option \<Rightarrow> ConsentOutcome ctx" where
  "consentBody tenant user partyId channel state source note s =
     bindR (actor_of user s) (\<lambda>actor.
       case find (\<lambda>p. pa_tenant p = tenant \<and> pa_id p = pgUuid partyId) (parties s) of
         None \<Rightarrow> Inr (CO_not_found, s)
       | Some p \<Rightarrow>
           if pa_status p \<noteq> PS_active then Inr (CO_invalid, s)
           else bindR (ensure (lengthIn 0 500 note) check_violation) (\<lambda>_.
             let row = \<lparr>pc_tenant = tenant, pc_party = pa_id p, pc_channel = channel, pc_state = state,
                        pc_source = source, pc_note = note, pc_version = 1\<rparr>;
                 rows = upsertConsent row (party_consents s)
             in Inr (CO_saved (sort_key (\<lambda>r. channelRank (pc_channel r))
                       (filter (\<lambda>r. pc_tenant r = tenant \<and> pc_party r = pa_id p) rows)),
                  audited tenant ''party_consent'' partyId ''inventory.party.consent_recorded'' actor
                    (s\<lparr>party_consents := rows\<rparr>))))"

definition setPartyConsent ::
  "string \<Rightarrow> string \<Rightarrow> string \<Rightarrow> string \<Rightarrow> string \<Rightarrow> string \<Rightarrow> string option \<Rightarrow> crm_db \<Rightarrow> ConsentOutcome result \<times> crm_db" where
  "setPartyConsent tenant user partyId channel state source note s =
     (case (map_of CONSENT_CHANNELS channel, map_of CONSENT_STATES state) of
        (Some ch, Some st) \<Rightarrow>
          (if trim source = [] \<or> length (trim source) > 100 then (Inr CO_invalid, s)
           else withTenantTransaction (consentBody tenant user partyId ch st (trim source) note) s)
      | _ \<Rightarrow> (Inr CO_invalid, s))"

section \<open>Merge\<close>

datatype PartyMergeOutcome = PM_merged party party nat nat | PM_not_found | PM_invalid

definition adoptedConsents :: "string \<Rightarrow> string \<Rightarrow> string \<Rightarrow> party_consent list \<Rightarrow> party_consent list" where
  "adoptedConsents tenant surviving merged rows =
     map (\<lambda>m. m\<lparr>pc_party := surviving, pc_version := 1\<rparr>)
       (filter (\<lambda>m. pc_tenant m = tenant \<and> pc_party m = merged
          \<and> \<not> list_ex (\<lambda>r. pc_tenant r = tenant \<and> pc_party r = surviving \<and> pc_channel r = pc_channel m) rows) rows)"

definition mergedState :: "string \<Rightarrow> party \<Rightarrow> party \<Rightarrow> string option \<Rightarrow> crm_db \<Rightarrow> crm_db" where
  "mergedState tenant surviving merged reason s =
     (let repoint = (\<lambda>k. sk_tenant k = tenant \<and> sk_party k = Some (pa_id merged));
          adopted = adoptedConsents tenant (pa_id surviving) (pa_id merged) (party_consents s);
          absorbed = update_where (\<lambda>p. pa_tenant p = tenant \<and> pa_id p = pa_id merged \<and> pa_status p = PS_active)
            (\<lambda>p. p\<lparr>pa_status := PS_merged, pa_merged_into := Some (pa_id surviving), pa_version := pa_version p + 1\<rparr>)
            (parties s)
      in s\<lparr>stock_items := update_where repoint (\<lambda>k. k\<lparr>sk_party := Some (pa_id surviving)\<rparr>) (stock_items s),
           party_consents := party_consents s @ adopted,
           parties := update_where (\<lambda>p. pa_tenant p = tenant \<and> pa_id p = pa_id surviving)
             (\<lambda>p. p\<lparr>pa_version := pa_version p + 1\<rparr>) absorbed,
           party_merges := party_merges s @ [\<lparr>pm_tenant = tenant, pm_surviving = pa_id surviving, pm_merged = pa_id merged,
             pm_repointed = length (filter repoint (stock_items s)), pm_adopted = length adopted, pm_reason = reason\<rparr>]\<rparr>)"

definition mergeBody :: "string \<Rightarrow> string \<Rightarrow> string \<Rightarrow> string \<Rightarrow> string option \<Rightarrow> PartyMergeOutcome ctx" where
  "mergeBody tenant user survivingId mergedId reason s =
     bindR (actor_of user s) (\<lambda>actor.
       let rows = filter (\<lambda>p. pa_tenant p = tenant \<and> pa_id p \<in> {pgUuid survivingId, pgUuid mergedId}) (parties s) in
       if length rows \<noteq> 2 then Inr (PM_not_found, s)
       else
         (case (find (\<lambda>p. pa_id p = survivingId) rows, find (\<lambda>p. pa_id p = mergedId) rows) of
            (Some surviving, Some merged) \<Rightarrow>
              if pa_status surviving \<noteq> PS_active \<or> pa_status merged \<noteq> PS_active then Inr (PM_invalid, s)
              else bindR (ensure (lengthIn 0 500 reason) check_violation) (\<lambda>_.
                let s1 = mergedState tenant surviving merged reason s in
                Inr (PM_merged (surviving\<lparr>pa_version := pa_version surviving + 1\<rparr>)
                       (merged\<lparr>pa_status := PS_merged, pa_merged_into := Some (pa_id surviving), pa_version := pa_version merged + 1\<rparr>)
                       (pm_repointed (last (party_merges s1))) (pm_adopted (last (party_merges s1))),
                     audited tenant ''party'' (pa_id surviving) ''inventory.party.merged'' actor s1))
          | _ \<Rightarrow> Inr (PM_not_found, s)))"

definition mergeParties ::
  "string \<Rightarrow> string \<Rightarrow> string \<Rightarrow> string \<Rightarrow> string option \<Rightarrow> crm_db \<Rightarrow> PartyMergeOutcome result \<times> crm_db" where
  "mergeParties tenant user survivingId mergedId reason s =
     (if survivingId = mergedId then (Inr PM_invalid, s)
      else withTenantTransaction (mergeBody tenant user survivingId mergedId reason) s)"

section \<open>Import\<close>

datatype ImportResult = IR_created string | IR_duplicate string | IR_invalid
datatype PartyImportOutcome = PI_error | PI_rows "ImportResult list"

definition PARTY_IMPORT_LIMIT :: nat where
  "PARTY_IMPORT_LIMIT = 200"

text \<open>A row carries names and contact values, and no address.\<close>

definition importDetails :: "party_details \<Rightarrow> party_details" where
  "importDetails d =
     d\<lparr>pd_line1 := Omitted, pd_city := Omitted, pd_region := Omitted, pd_postal := Omitted, pd_country := Omitted\<rparr>"

text \<open>One row under its savepoint: what it raises is its outcome, and it leaves nothing behind.\<close>

definition importRow ::
  "string \<Rightarrow> string \<Rightarrow> string \<Rightarrow> string option \<times> party_details \<Rightarrow> crm_db \<Rightarrow> ImportResult \<times> crm_db" where
  "importRow pid tenant user row s =
     (case createPartyWithin pid tenant user (case fst row of None \<Rightarrow> ''person'' | Some t \<Rightarrow> t)
             (importDetails (snd row)) False s of
        Inl _ \<Rightarrow> (IR_invalid, s)
      | Inr (PC_created p, s') \<Rightarrow> (IR_created (pa_id p), s')
      | Inr (PC_duplicate cs, _) \<Rightarrow> (IR_duplicate (pa_id (fst (hd cs))), s)
      | Inr (PC_invalid _, _) \<Rightarrow> (IR_invalid, s))"

fun importRows ::
  "(nat \<Rightarrow> string) \<Rightarrow> string \<Rightarrow> string \<Rightarrow> nat \<Rightarrow> (string option \<times> party_details) list \<Rightarrow> crm_db \<Rightarrow> ImportResult list \<times> crm_db" where
  "importRows draw tenant user i [] s = ([], s)"
| "importRows draw tenant user i (row # rows) s =
     (case importRow (draw i) tenant user row s of
        (r, s1) \<Rightarrow> (case importRows draw tenant user (Suc i) rows s1 of (rs, s2) \<Rightarrow> (r # rs, s2)))"

definition importParties ::
  "crm_env \<Rightarrow> string \<Rightarrow> string \<Rightarrow> (string option \<times> party_details) list \<Rightarrow> crm_db \<Rightarrow> PartyImportOutcome result \<times> crm_db" where
  "importParties e tenant user rows s =
     (if rows = [] \<or> length rows > PARTY_IMPORT_LIMIT then (Inr PI_error, s)
      else withTenantTransaction (\<lambda>s. case importRows (drawn e) tenant user 0 rows s of (rs, s') \<Rightarrow> Inr (PI_rows rs, s')) s)"

end
