(* ===== verification/CrmConsent.thy ===== *)
theory CrmConsent
  imports Parties
begin

text \<open>
  Permission to contact a customer: the gate of \<open>crm/src/consent.ts\<close> with its quiet hours, and
  the records behind it (\<open>crm/src/consent-records.ts\<close>).
\<close>

section \<open>The gate\<close>

definition contactKindForChannel :: "CampaignChannel \<Rightarrow> SuppressionKind" where
  "contactKindForChannel channel = (if channel = CH_email then SK_email else SK_phone)"

definition normalizeContact :: "SuppressionKind \<Rightarrow> string option \<Rightarrow> string option" where
  "normalizeContact kind raw = (if kind = SK_email then normalizeEmail raw else normalizePhone raw)"

text \<open>A campaign's channel and purpose among those consent is recorded for.\<close>

fun consentChannel :: "CampaignChannel \<Rightarrow> ConsentChannel" where
  "consentChannel CH_email = CC_email"
| "consentChannel CH_sms = CC_sms"

fun consentPurpose :: "CampaignPurpose \<Rightarrow> ConsentPurpose" where
  "consentPurpose CU_sales_marketing = CP_sales_marketing"
| "consentPurpose CU_service_reminder = CP_service_reminder"
| "consentPurpose CU_research = CP_research"

datatype SendEligibility = Eligible string | Ineligible WithheldReason

definition contactOf :: "SuppressionKind \<Rightarrow> party \<Rightarrow> string option" where
  "contactOf kind p = (if kind = SK_email then pa_email p else pa_phone p)"

definition consentOn :: "string \<Rightarrow> string \<Rightarrow> ConsentChannel \<Rightarrow> ConsentPurpose \<Rightarrow> crm_db \<Rightarrow> ConsentState" where
  "consentOn tenant partyId channel purpose s =
     (case find (\<lambda>c. cn_tenant c = tenant \<and> cn_party c = partyId \<and> cn_channel c = channel \<and> cn_purpose c = purpose)
             (purpose_consents s) of
        None \<Rightarrow> CS_unknown
      | Some c \<Rightarrow> cn_state c)"

definition suppressed :: "string \<Rightarrow> SuppressionKind \<Rightarrow> string \<Rightarrow> crm_db \<Rightarrow> bool" where
  "suppressed tenant kind v s =
     list_ex (\<lambda>u. su_tenant u = tenant \<and> su_kind u = kind \<and> su_value u = v \<and> su_active u) (suppressions s)"

definition sendEligibility ::
  "string \<Rightarrow> string \<Rightarrow> CampaignChannel \<Rightarrow> ConsentPurpose \<Rightarrow> crm_db \<Rightarrow> SendEligibility" where
  "sendEligibility tenant partyId channel purpose s =
     (let kind = contactKindForChannel channel in
      case find (\<lambda>p. pa_tenant p = tenant \<and> pa_id p = partyId) (parties s) of
        None \<Rightarrow> Ineligible WR_no_contact_value
      | Some p \<Rightarrow>
          if pa_status p \<noteq> PS_active then Ineligible WR_party_inactive
          else
            (case normalizeContact kind (contactOf kind p) of
               None \<Rightarrow> Ineligible WR_no_contact_value
             | Some v \<Rightarrow>
                 if consentOn tenant partyId (consentChannel channel) purpose s \<noteq> CS_granted
                 then Ineligible WR_consent_not_granted
                 else if suppressed tenant kind v s then Ineligible WR_suppressed_contact
                 else Eligible v))"

section \<open>Quiet hours\<close>

record QuietHours =
  startMinute :: int
  endMinute :: int
  timeZone :: string

abbreviation range_error :: app_error where
  "range_error \<equiv> DatabaseError ''RangeError: invalid time zone''"

definition localMinuteOfDay :: "crm_env \<Rightarrow> int \<Rightarrow> string \<Rightarrow> int result" where
  "localMinuteOfDay e t zone =
     (case intlParts e t zone of
        None \<Rightarrow> Inl range_error
      | Some (hour, minute) \<Rightarrow> Inr (int hour * 60 + int minute))"

definition insideQuietHours :: "crm_env \<Rightarrow> int \<Rightarrow> QuietHours \<Rightarrow> bool result" where
  "insideQuietHours e t quiet =
     (if startMinute quiet = endMinute quiet then Inr False
      else bindR (localMinuteOfDay e t (timeZone quiet)) (\<lambda>minute.
        if startMinute quiet < endMinute quiet
        then Inr (startMinute quiet \<le> minute \<and> minute < endMinute quiet)
        else Inr (startMinute quiet \<le> minute \<or> minute < endMinute quiet)))"

definition quietHoursEndAfter :: "crm_env \<Rightarrow> int \<Rightarrow> QuietHours \<Rightarrow> int result" where
  "quietHoursEndAfter e t quiet =
     bindR (insideQuietHours e t quiet) (\<lambda>inside.
       if \<not> inside then Inr t
       else bindR (localMinuteOfDay e t (timeZone quiet)) (\<lambda>minute.
         let until = (if endMinute quiet > minute then endMinute quiet - minute else 1440 - minute + endMinute quiet)
         in Inr (t + until * 60000)))"

section \<open>Recording permission\<close>

definition CONSENT_PURPOSES :: "(string \<times> ConsentPurpose) list" where
  "CONSENT_PURPOSES = [(''sales_marketing'', CP_sales_marketing), (''service_reminder'', CP_service_reminder),
     (''transactional'', CP_transactional), (''research'', CP_research)]"

datatype PurposeOutcome = PP_saved "purpose_consent list" | PP_not_found | PP_invalid

fun purposeRank :: "ConsentPurpose \<Rightarrow> nat" where
  "purposeRank CP_research = 0"
| "purposeRank CP_sales_marketing = 1"
| "purposeRank CP_service_reminder = 2"
| "purposeRank CP_transactional = 3"

definition readConsents :: "string \<Rightarrow> string \<Rightarrow> purpose_consent list \<Rightarrow> purpose_consent list" where
  "readConsents tenant partyId rows =
     sort_key (\<lambda>c. channelRank (cn_channel c) * 4 + purposeRank (cn_purpose c))
       (filter (\<lambda>c. cn_tenant c = tenant \<and> cn_party c = partyId) rows)"

definition upsertPurposeConsent :: "purpose_consent \<Rightarrow> purpose_consent list \<Rightarrow> purpose_consent list" where
  "upsertPurposeConsent row rows =
     (let same = (\<lambda>c. cn_tenant c = cn_tenant row \<and> cn_party c = cn_party row
                       \<and> cn_channel c = cn_channel row \<and> cn_purpose c = cn_purpose row) in
      if list_ex same rows
      then update_where same (\<lambda>c. c\<lparr>cn_state := cn_state row, cn_source := cn_source row,
             cn_version := cn_version c + 1\<rparr>) rows
      else rows @ [row])"

definition purposeBody ::
  "string \<Rightarrow> string \<Rightarrow> string \<Rightarrow> ConsentChannel \<Rightarrow> ConsentPurpose \<Rightarrow> ConsentState \<Rightarrow> string \<Rightarrow> PurposeOutcome ctx" where
  "purposeBody tenant user partyId channel purpose state source s =
     bindR (actor_of user s) (\<lambda>actor.
       case find (\<lambda>p. pa_tenant p = tenant \<and> pa_id p = pgUuid partyId) (parties s) of
         None \<Rightarrow> Inr (PP_not_found, s)
       | Some p \<Rightarrow>
           if pa_status p \<noteq> PS_active then Inr (PP_invalid, s)
           else
             (let row = \<lparr>cn_tenant = tenant, cn_party = pa_id p, cn_channel = channel, cn_purpose = purpose,
                         cn_state = state, cn_source = source, cn_version = 1\<rparr>;
                  rows = upsertPurposeConsent row (purpose_consents s)
              in Inr (PP_saved (readConsents tenant (pa_id p) rows),
                   audited tenant ''party_purpose_consent'' partyId ''crm.consent.recorded'' actor
                     (s\<lparr>purpose_consents := rows\<rparr>))))"

definition setPurposeConsent ::
  "string \<Rightarrow> string \<Rightarrow> string \<Rightarrow> string \<Rightarrow> string \<Rightarrow> string \<Rightarrow> string \<Rightarrow> crm_db \<Rightarrow> PurposeOutcome result \<times> crm_db" where
  "setPurposeConsent tenant user partyId channel purpose state source s =
     (case (map_of CONSENT_CHANNELS channel, map_of CONSENT_PURPOSES purpose, map_of CONSENT_STATES state) of
        (Some ch, Some pu, Some st) \<Rightarrow>
          (if trim source = [] \<or> length (trim source) > 100 then (Inr PP_invalid, s)
           else withTenantTransaction (purposeBody tenant user partyId ch pu st (trim source)) s)
      | _ \<Rightarrow> (Inr PP_invalid, s))"

datatype SuppressOutcome = SO_suppressed contact_suppression | SO_already_suppressed contact_suppression | SO_invalid

definition suppressContactWithin ::
  "string \<Rightarrow> string \<Rightarrow> string \<Rightarrow> SuppressionKind \<Rightarrow> string \<Rightarrow> SuppressionReason \<Rightarrow> string option \<Rightarrow> SuppressOutcome ctx" where
  "suppressContactWithin sid tenant user kind contact reason partyId s =
     (case normalizeContact kind (Some contact) of
        None \<Rightarrow> Inr (SO_invalid, s)
      | Some v \<Rightarrow>
          bindR (actor_of user s) (\<lambda>actor.
            case find (\<lambda>u. su_tenant u = tenant \<and> su_kind u = kind \<and> su_value u = v \<and> su_active u) (suppressions s) of
              Some u \<Rightarrow> Inr (SO_already_suppressed u, s)
            | None \<Rightarrow>
                (let row = \<lparr>su_id = sid, su_tenant = tenant, su_kind = kind, su_value = v, su_reason = reason,
                            su_party = map_option pgUuid partyId, su_active = True, su_version = 1\<rparr>
                 in bindR (ensure (hasParty tenant partyId s) foreign_key) (\<lambda>_.
                      Inr (SO_suppressed row,
                        audited tenant ''contact_suppression'' sid ''crm.contact.suppressed'' actor
                          (s\<lparr>suppressions := suppressions s @ [row]\<rparr>))))))"

definition suppressContact ::
  "crm_env \<Rightarrow> string \<Rightarrow> string \<Rightarrow> SuppressionKind \<Rightarrow> string \<Rightarrow> SuppressionReason \<Rightarrow> string option \<Rightarrow> crm_db \<Rightarrow>
   SuppressOutcome result \<times> crm_db" where
  "suppressContact e tenant user kind contact reason partyId s =
     withTenantTransaction (suppressContactWithin (drawn e 0) tenant user kind contact reason partyId) s"

end
