(* ===== verification/CrmLeads.thy ===== *)
theory CrmLeads
  imports CrmConsent Vin
begin

text \<open>
  Leads: the source catalog (\<open>crm/src/sources.ts\<close>), intake, lifecycle, first response and the
  handoff to sales (\<open>crm/src/leads.ts\<close>), with the intake fingerprint of \<open>crm/src/providers.ts\<close>.
\<close>

section \<open>The source catalog\<close>

definition isLowerLetter :: "char \<Rightarrow> bool" where
  "isLowerLetter c = (97 \<le> (of_char c :: nat) \<and> (of_char c :: nat) \<le> 122)"

definition sourceCodeOk :: "string \<Rightarrow> bool" where
  "sourceCodeOk code =
     (code \<noteq> [] \<and> length code \<le> 64 \<and> isLowerLetter (hd code)
      \<and> list_all (\<lambda>c. isLowerLetter c \<or> isDecDigit c \<or> c = CHR ''_'') code)"

datatype SourceOutcome = SX_saved lead_source | SX_duplicate lead_source | SX_invalid

definition defineLeadSourceWithin ::
  "string \<Rightarrow> string \<Rightarrow> string \<Rightarrow> string \<Rightarrow> string \<Rightarrow> SourceChannel \<Rightarrow> SourceMedium \<Rightarrow> SourceOutcome ctx" where
  "defineLeadSourceWithin sid tenant user sourceCode displayName channel medium s =
     (let code = toLowerCase (trim sourceCode); name = trim displayName in
      if \<not> sourceCodeOk code then Inr (SX_invalid, s)
      else if name = [] \<or> length name > 120 then Inr (SX_invalid, s)
      else bindR (actor_of user s) (\<lambda>actor.
        case find (\<lambda>x. so_tenant x = tenant \<and> so_code x = code) (lead_sources s) of
          Some x \<Rightarrow> Inr (SX_duplicate x, s)
        | None \<Rightarrow>
            (let row = \<lparr>so_id = sid, so_tenant = tenant, so_code = code, so_name = name, so_channel = channel,
                        so_medium = medium, so_active = True, so_version = 1\<rparr>
             in Inr (SX_saved row, audited tenant ''lead_source'' sid ''crm.lead_source.defined'' actor
                  (s\<lparr>lead_sources := lead_sources s @ [row]\<rparr>)))))"

definition defineLeadSource ::
  "crm_env \<Rightarrow> string \<Rightarrow> string \<Rightarrow> string \<Rightarrow> string \<Rightarrow> SourceChannel \<Rightarrow> SourceMedium \<Rightarrow> crm_db \<Rightarrow>
   SourceOutcome result \<times> crm_db" where
  "defineLeadSource e tenant user code name channel medium s =
     withTenantTransaction (defineLeadSourceWithin (drawn e 0) tenant user code name channel medium) s"

datatype RetireOutcome = RX_retired lead_source | RX_version_conflict int | RX_not_found

definition retireBody :: "string \<Rightarrow> string \<Rightarrow> string \<Rightarrow> int \<Rightarrow> RetireOutcome ctx" where
  "retireBody tenant user sourceId expected s =
     bindR (actor_of user s) (\<lambda>actor.
       let here = (\<lambda>x. so_tenant x = tenant \<and> so_id x = pgUuid sourceId);
           retire = (\<lambda>x. x\<lparr>so_active := False, so_version := so_version x + 1\<rparr>) in
       case find here (lead_sources s) of
         None \<Rightarrow> Inr (RX_not_found, s)
       | Some current \<Rightarrow>
           if so_version current \<noteq> expected then Inr (RX_version_conflict (so_version current), s)
           else Inr (RX_retired (retire current),
                  audited tenant ''lead_source'' (so_id current) ''crm.lead_source.retired'' actor
                    (s\<lparr>lead_sources := update_where (\<lambda>x. here x \<and> so_version x = expected) retire (lead_sources s)\<rparr>)))"

definition retireLeadSource ::
  "string \<Rightarrow> string \<Rightarrow> string \<Rightarrow> int \<Rightarrow> crm_db \<Rightarrow> RetireOutcome result \<times> crm_db" where
  "retireLeadSource tenant user sourceId expected s =
     withTenantTransaction (retireBody tenant user sourceId expected) s"

section \<open>The intake fingerprint\<close>

record ProviderLeadPayload =
  pl_external :: "string option"
  pl_given :: "string option"
  pl_family :: "string option"
  pl_email :: "string option"
  pl_phone :: "string option"
  pl_comment :: "string option"
  pl_vin :: "string option"

text \<open>\<open>x || null\<close> on text, and a member of the JSON text.\<close>

definition orNullText :: "string \<Rightarrow> string option" where
  "orNullText x = (if x = [] then None else Some x)"

definition jsonMember :: "string \<Rightarrow> string option \<Rightarrow> string" where
  "jsonMember k v = quoteJSON k @ '':'' @ (case v of None \<Rightarrow> ''null'' | Some x \<Rightarrow> quoteJSON x)"

definition payloadFingerprint :: "(string \<Rightarrow> string) \<Rightarrow> ProviderLeadPayload \<Rightarrow> string" where
  "payloadFingerprint digest p =
     digest (''{'' @ joinComma [
       jsonMember ''externalId'' (pl_external p),
       jsonMember ''givenName'' (pl_given p),
       jsonMember ''familyName'' (pl_family p),
       jsonMember ''email'' (orNullText (toLowerCase (trim (orEmpty (pl_email p))))),
       jsonMember ''phone'' (orNullText (filter (\<lambda>c. isDecDigit c \<or> c = CHR ''+'') (orEmpty (pl_phone p)))),
       jsonMember ''vin'' (orNullText (concat (map toUpperChars (trim (orEmpty (pl_vin p)))))),
       jsonMember ''comment'' (pl_comment p)] @ ''}'')"

section \<open>Capture\<close>

record LeadCaptureInput =
  lc_rooftop :: string
  lc_key :: string
  lc_channel :: IntakeChannel
  lc_source_code :: string
  lc_party_id :: "string option"
  lc_party :: "party_details option"
  lc_stock :: "string option"
  lc_vehicle :: "string option"
  lc_campaign_version :: "string option"
  lc_payload :: "ProviderLeadPayload option"

definition fingerprintOf :: "(string \<Rightarrow> string) \<Rightarrow> LeadCaptureInput \<Rightarrow> string" where
  "fingerprintOf digest i =
     payloadFingerprint digest
       (case lc_payload i of
          Some p \<Rightarrow> p
        | None \<Rightarrow>
            (let field = (\<lambda>f. case lc_party i of None \<Rightarrow> None | Some d \<Rightarrow> orNone (f d)) in
             \<lparr>pl_external = Some (lc_key i), pl_given = field pd_given, pl_family = field pd_family,
              pl_email = field pd_email, pl_phone = field pd_phone, pl_comment = None, pl_vin = None\<rparr>))"

datatype LeadCaptureOutcome = LC_created lead string | LC_merged_into_existing lead string bool | LC_invalid string

definition recordIntake ::
  "string \<Rightarrow> string \<Rightarrow> IntakeChannel \<Rightarrow> string option \<Rightarrow> LeadIntakeOutcome \<Rightarrow> string option \<Rightarrow> string \<Rightarrow> string \<Rightarrow> crm_db \<Rightarrow> crm_db" where
  "recordIntake tenant key channel leadId outcome reason print actor s =
     s\<lparr>lead_intakes := lead_intakes s @ [\<lparr>li_tenant = tenant, li_key = key, li_channel = channel, li_lead = leadId,
        li_outcome = outcome, li_reason = map_option (take 200) reason, li_fingerprint = print, li_by = pgUuid actor\<rparr>]\<rparr>"

datatype ResolvedParty = RP_party string | RP_invalid string

definition resolveParty :: "string \<Rightarrow> string \<Rightarrow> string \<Rightarrow> LeadCaptureInput \<Rightarrow> ResolvedParty ctx" where
  "resolveParty pid tenant actor i s =
     (case lc_party_id i of
        Some x \<Rightarrow>
          (case find (\<lambda>p. pa_tenant p = tenant \<and> pa_id p = pgUuid x \<and> pa_status p = PS_active) (parties s) of
             None \<Rightarrow> Inr (RP_invalid ''that customer does not exist'', s)
           | Some p \<Rightarrow> Inr (RP_party (pa_id p), s))
      | None \<Rightarrow>
          (case lc_party i of
             None \<Rightarrow> Inr (RP_invalid ''a lead needs a customer or the details to identify one'', s)
           | Some d \<Rightarrow>
               if normalizeEmail (orNone (pd_email d)) = None \<and> normalizePhone (orNone (pd_phone d)) = None
               then Inr (RP_invalid ''a lead needs an email address or a phone number'', s)
               else bindR (createPartyWithin pid tenant actor ''person'' d False s) (\<lambda>(created, s1).
                 Inr (case created of
                        PC_created p \<Rightarrow> (RP_party (pa_id p), s1)
                      | PC_duplicate [] \<Rightarrow> (RP_invalid ''the customer could not be resolved'', s1)
                      | PC_duplicate (c # _) \<Rightarrow> (RP_party (pa_id (fst c)), s1)
                      | PC_invalid err \<Rightarrow> (RP_invalid err, s1)))))"

text \<open>The generated column \<open>interest_key\<close>, and the key the service derives from the request.\<close>

definition interestKey :: "lead \<Rightarrow> string" where
  "interestKey l = (case ld_stock l of Some x \<Rightarrow> x | None \<Rightarrow> (case ld_vehicle l of Some y \<Rightarrow> y | None \<Rightarrow> ''general''))"

definition interestKeyOf :: "LeadCaptureInput \<Rightarrow> string" where
  "interestKeyOf i = (case lc_stock i of Some x \<Rightarrow> x | None \<Rightarrow> (case lc_vehicle i of Some y \<Rightarrow> y | None \<Rightarrow> ''general''))"

definition finished :: "LeadState \<Rightarrow> bool" where
  "finished st = (st = LS_handed_off \<or> st = LS_closed)"

definition openLead :: "string \<Rightarrow> string \<Rightarrow> string \<Rightarrow> string \<Rightarrow> lead \<Rightarrow> bool" where
  "openLead tenant rooftop partyId key l =
     (ld_tenant l = tenant \<and> ld_rooftop l = rooftop \<and> ld_party l = partyId \<and> interestKey l = key
      \<and> \<not> finished (ld_state l))"

text \<open>The trigger \<open>crm_touch_seq_is_derived\<close> gives a touch its place in the lead's history.\<close>

definition nextTouchSeq :: "string \<Rightarrow> string \<Rightarrow> lead_source_touch list \<Rightarrow> int" where
  "nextTouchSeq tenant leadId rows =
     fold (\<lambda>t m. max m (lt_seq t)) (filter (\<lambda>t. lt_tenant t = tenant \<and> lt_lead t = leadId) rows) 0 + 1"

definition hasVersion :: "string \<Rightarrow> string option \<Rightarrow> crm_db \<Rightarrow> bool" where
  "hasVersion tenant v s =
     (case v of None \<Rightarrow> True | Some x \<Rightarrow> list_ex (\<lambda>r. cv_tenant r = tenant \<and> cv_id r = pgUuid x) (campaign_versions s))"

definition recordSourceTouchWithin ::
  "string \<Rightarrow> string \<Rightarrow> string \<Rightarrow> string \<Rightarrow> string option \<Rightarrow> unit ctx" where
  "recordSourceTouchWithin touchId tenant leadId sourceId campaignVersion s =
     bindR (ensure (hasVersion tenant campaignVersion s) foreign_key) (\<lambda>_.
       Inr ((), s\<lparr>lead_touches := lead_touches s @ [\<lparr>lt_id = touchId, lt_tenant = tenant, lt_lead = leadId,
         lt_source = sourceId, lt_campaign_version = map_option pgUuid campaignVersion,
         lt_seq = nextTouchSeq tenant leadId (lead_touches s)\<rparr>]\<rparr>))"

definition newLead ::
  "string \<Rightarrow> int \<Rightarrow> string \<Rightarrow> string \<Rightarrow> string \<Rightarrow> LeadCaptureInput \<Rightarrow> lead_sla_policy option \<Rightarrow> lead" where
  "newLead leadId t tenant partyId sourceId i sla =
     \<lparr>ld_id = leadId, ld_tenant = tenant, ld_rooftop = pgUuid (lc_rooftop i), ld_party = partyId,
      ld_stock = map_option pgUuid (lc_stock i), ld_vehicle = map_option pgUuid (lc_vehicle i),
      ld_state = LS_new, ld_disposition = None, ld_owner = None, ld_queue = None, ld_source = sourceId,
      ld_due = map_option (\<lambda>p. t + sp_first p * 60000) sla,
      ld_escalate = map_option (\<lambda>p. t + sp_escalate p * 60000) sla,
      ld_first_response = None, ld_escalated = None, ld_handed_off = None, ld_closed = None,
      ld_version = 1, ld_created = t\<rparr>"

text \<open>
  With the customer known: join the open lead about the same interest, or open one.  The
  partial unique index \<open>uq_leads_open_interest\<close> compares the column, the service's own question
  compares the request's spelling.
\<close>

definition claimInterest ::
  "crm_env \<Rightarrow> (nat \<Rightarrow> string) \<Rightarrow> string \<Rightarrow> string \<Rightarrow> string \<Rightarrow> string \<Rightarrow> string \<Rightarrow> LeadCaptureInput \<Rightarrow> LeadCaptureOutcome ctx" where
  "claimInterest e draw tenant actor key sourceId partyId i s =
     (let rooftop = pgUuid (lc_rooftop i);
          intake = (\<lambda>leadId outcome. recordIntake tenant key (lc_channel i) (Some leadId) outcome None
                      (fingerprintOf (sha (platform e)) i) actor)
      in case find (openLead tenant rooftop partyId (interestKeyOf i)) (leads s) of
           Some l \<Rightarrow>
             bindR (recordSourceTouchWithin (draw 2) tenant (ld_id l) sourceId (lc_campaign_version i) s) (\<lambda>(_, s1).
               Inr (LC_merged_into_existing l partyId False, intake (ld_id l) IO_merged_into_existing s1))
         | None \<Rightarrow>
             (let sla = find (\<lambda>p. sp_tenant p = tenant \<and> sp_rooftop p = rooftop \<and> sp_active p) (sla_policies s);
                  l = newLead (draw 1) (clock e) tenant partyId sourceId i sla
              in bindR (ensure (hasRooftop tenant (lc_rooftop i) s \<and> hasStock tenant (lc_stock i) s
                          \<and> hasVehicle tenant (lc_vehicle i) s) foreign_key) (\<lambda>_.
                 bindR (ensure (\<not> list_ex (openLead tenant rooftop partyId (interestKey l)) (leads s)) unique_violation) (\<lambda>_.
                 bindR (recordSourceTouchWithin (draw 2) tenant (ld_id l) sourceId (lc_campaign_version i)
                          (s\<lparr>leads := leads s @ [l]\<rparr>)) (\<lambda>(_, s1).
                   Inr (LC_created l partyId,
                     audited tenant ''lead'' (ld_id l) ''crm.lead.captured'' actor (intake (ld_id l) IO_created s1)))))))"

text \<open>A repeat of the same capture returns the same answer.\<close>

definition replayIntake :: "string \<Rightarrow> lead_intake \<Rightarrow> crm_db \<Rightarrow> LeadCaptureOutcome" where
  "replayIntake tenant prior s =
     (case li_lead prior of
        None \<Rightarrow> LC_invalid (case li_reason prior of Some r \<Rightarrow> r | None \<Rightarrow> ''the intake was refused'')
      | Some lid \<Rightarrow>
          (case find (\<lambda>l. ld_tenant l = tenant \<and> ld_id l = lid) (leads s) of
             None \<Rightarrow> LC_invalid ''the recorded lead no longer exists''
           | Some l \<Rightarrow> LC_merged_into_existing l (ld_party l) True))"

definition captureLeadWithin ::
  "crm_env \<Rightarrow> (nat \<Rightarrow> string) \<Rightarrow> string \<Rightarrow> string \<Rightarrow> LeadCaptureInput \<Rightarrow> LeadCaptureOutcome ctx" where
  "captureLeadWithin e draw tenant user i s =
     (let key = trim (lc_key i) in
      if key = [] \<or> length key > 200 then Inr (LC_invalid ''an intake needs a key'', s)
      else if lc_stock i \<noteq> None \<and> lc_vehicle i \<noteq> None
      then Inr (LC_invalid ''a lead is about one car or one model, not both'', s)
      else bindR (actor_of user s) (\<lambda>actor.
        case find (\<lambda>x. li_tenant x = tenant \<and> li_key x = key) (lead_intakes s) of
          Some prior \<Rightarrow> Inr (replayIntake tenant prior s, s)
        | None \<Rightarrow>
            (case find (\<lambda>x. so_tenant x = tenant \<and> so_code x = lc_source_code i \<and> so_active x) (lead_sources s) of
               None \<Rightarrow> Inr (LC_invalid (''no active lead source named '' @ lc_source_code i), s)
             | Some source \<Rightarrow>
                 bindR (resolveParty (draw 0) tenant actor i s) (\<lambda>(resolved, s1).
                   case resolved of
                     RP_invalid err \<Rightarrow>
                       Inr (LC_invalid err, recordIntake tenant key (lc_channel i) None IO_rejected (Some err)
                              (fingerprintOf (sha (platform e)) i) actor s1)
                   | RP_party pid \<Rightarrow> claimInterest e draw tenant actor key (so_id source) pid i s1))))"

definition captureLead ::
  "crm_env \<Rightarrow> string \<Rightarrow> string \<Rightarrow> LeadCaptureInput \<Rightarrow> crm_db \<Rightarrow> LeadCaptureOutcome result \<times> crm_db" where
  "captureLead e tenant user i s = withTenantTransaction (captureLeadWithin e (drawn e) tenant user i) s"

section \<open>Lifecycle\<close>

definition LEAD_STATES :: "(string \<times> LeadState) list" where
  "LEAD_STATES = [(''new'', LS_new), (''working'', LS_working), (''qualified'', LS_qualified),
     (''appointment_set'', LS_appointment_set), (''handed_off'', LS_handed_off), (''closed'', LS_closed)]"

fun LEGAL_TRANSITIONS :: "LeadState \<Rightarrow> LeadState list" where
  "LEGAL_TRANSITIONS LS_new = [LS_working, LS_closed]"
| "LEGAL_TRANSITIONS LS_working = [LS_qualified, LS_closed]"
| "LEGAL_TRANSITIONS LS_qualified = [LS_appointment_set, LS_handed_off, LS_closed]"
| "LEGAL_TRANSITIONS LS_appointment_set = [LS_qualified, LS_handed_off, LS_closed]"
| "LEGAL_TRANSITIONS LS_handed_off = []"
| "LEGAL_TRANSITIONS LS_closed = []"

datatype LeadTransitionOutcome = LT_moved lead | LT_version_conflict int | LT_not_found | LT_invalid

definition leadEvent ::
  "string \<Rightarrow> string \<Rightarrow> LeadState \<Rightarrow> LeadState \<Rightarrow> LeadDisposition option \<Rightarrow> string option \<Rightarrow> string \<Rightarrow> crm_db \<Rightarrow> crm_db" where
  "leadEvent tenant leadId a b disposition note actor s =
     s\<lparr>lead_events := lead_events s @ [\<lparr>le_tenant = tenant, le_lead = pgUuid leadId, le_from = a, le_to = b,
        le_disposition = disposition, le_note = note, le_by = pgUuid actor\<rparr>]\<rparr>"

definition leadHere :: "string \<Rightarrow> string \<Rightarrow> lead \<Rightarrow> bool" where
  "leadHere tenant leadId l = (ld_tenant l = tenant \<and> ld_id l = pgUuid leadId)"

definition transitionLeadBody ::
  "crm_env \<Rightarrow> string \<Rightarrow> string \<Rightarrow> string \<Rightarrow> LeadState \<Rightarrow> int \<Rightarrow> LeadDisposition option \<Rightarrow> string option \<Rightarrow>
   LeadTransitionOutcome ctx" where
  "transitionLeadBody e tenant user leadId toState expected disposition note s =
     bindR (actor_of user s) (\<lambda>actor.
       case find (leadHere tenant leadId) (leads s) of
         None \<Rightarrow> Inr (LT_not_found, s)
       | Some current \<Rightarrow>
           if ld_version current \<noteq> expected then Inr (LT_version_conflict (ld_version current), s)
           else if toState \<notin> set (LEGAL_TRANSITIONS (ld_state current)) then Inr (LT_invalid, s)
           else if toState = LS_closed \<and> disposition = None then Inr (LT_invalid, s)
           else if toState = LS_handed_off then Inr (LT_invalid, s)
           else
             (let why = (if toState = LS_closed then disposition else None);
                  move = (\<lambda>l. l\<lparr>ld_state := toState, ld_disposition := why,
                       ld_closed := (if toState = LS_closed then Some (clock e) else ld_closed l),
                       ld_version := ld_version l + 1\<rparr>)
              in bindR (ensure (lengthIn 0 500 note) check_violation) (\<lambda>_.
                   Inr (LT_moved (move current),
                     audited tenant ''lead'' (ld_id current) ''crm.lead.transitioned'' actor
                       (leadEvent tenant leadId (ld_state current) toState why note actor
                         (s\<lparr>leads := update_where (\<lambda>l. leadHere tenant leadId l \<and> ld_version l = expected) move (leads s)\<rparr>))))))"

definition transitionLead ::
  "crm_env \<Rightarrow> string \<Rightarrow> string \<Rightarrow> string \<Rightarrow> string \<Rightarrow> int \<Rightarrow> LeadDisposition option \<Rightarrow> string option \<Rightarrow> crm_db \<Rightarrow>
   LeadTransitionOutcome result \<times> crm_db" where
  "transitionLead e tenant user leadId toState expected disposition note s =
     (case map_of LEAD_STATES toState of
        None \<Rightarrow> (Inr LT_invalid, s)
      | Some st \<Rightarrow> withTenantTransaction (transitionLeadBody e tenant user leadId st expected disposition note) s)"

definition stampFirstResponseWithin :: "crm_env \<Rightarrow> string \<Rightarrow> string \<Rightarrow> crm_db \<Rightarrow> crm_db" where
  "stampFirstResponseWithin e tenant leadId s =
     s\<lparr>leads := update_where (\<lambda>l. leadHere tenant leadId l \<and> ld_first_response l = None)
        (\<lambda>l. l\<lparr>ld_first_response := Some (clock e)\<rparr>) (leads s)\<rparr>"

section \<open>The sales handoff\<close>

datatype HandoffOutcome =
  HO_handed_off lead string | HO_already_handed_off string | HO_version_conflict int | HO_not_found | HO_invalid

definition snapshotOf :: "lead \<Rightarrow> handed_snapshot" where
  "snapshotOf l =
     \<lparr>hs_lead = ld_id l, hs_rooftop = ld_rooftop l, hs_party = ld_party l, hs_stock = ld_stock l,
      hs_vehicle = ld_vehicle l, hs_source = ld_source l, hs_owner = ld_owner l,
      hs_first_response = ld_first_response l, hs_handed_off = ld_handed_off l\<rparr>"

definition handOffBody :: "crm_env \<Rightarrow> string \<Rightarrow> string \<Rightarrow> string \<Rightarrow> int \<Rightarrow> string \<Rightarrow> HandoffOutcome ctx" where
  "handOffBody e tenant user leadId expected handedTo s =
     bindR (actor_of user s) (\<lambda>actor.
       case find (leadHere tenant leadId) (leads s) of
         None \<Rightarrow> Inr (HO_not_found, s)
       | Some current \<Rightarrow>
           (case find (\<lambda>h. lh_tenant h = tenant \<and> lh_lead h = pgUuid leadId) (lead_handoffs s) of
              Some h \<Rightarrow> Inr (HO_already_handed_off (lh_id h), s)
            | None \<Rightarrow>
                if ld_version current \<noteq> expected then Inr (HO_version_conflict (ld_version current), s)
                else if LS_handed_off \<notin> set (LEGAL_TRANSITIONS (ld_state current)) then Inr (HO_invalid, s)
                else
                  (let give = (\<lambda>l. l\<lparr>ld_state := LS_handed_off, ld_disposition := Some LD_handed_to_sales,
                            ld_handed_off := Some (clock e), ld_version := ld_version l + 1\<rparr>);
                       row = \<lparr>lh_id = drawn e 0, lh_tenant = tenant, lh_lead = pgUuid leadId,
                              lh_snapshot = snapshotOf (give current), lh_to = pgUuid handedTo, lh_by = pgUuid actor\<rparr>
                   in bindR (ensure (hasUser (Some handedTo) s) foreign_key) (\<lambda>_.
                        Inr (HO_handed_off (give current) (drawn e 0),
                          audited tenant ''lead'' (ld_id current) ''crm.lead.handed_off'' actor
                            (leadEvent tenant leadId (ld_state current) LS_handed_off (Some LD_handed_to_sales) None actor
                              (s\<lparr>leads := update_where (\<lambda>l. leadHere tenant leadId l \<and> ld_version l = expected) give (leads s),
                                 lead_handoffs := lead_handoffs s @ [row]\<rparr>)))))))"

definition handOffLead ::
  "crm_env \<Rightarrow> string \<Rightarrow> string \<Rightarrow> string \<Rightarrow> int \<Rightarrow> string \<Rightarrow> crm_db \<Rightarrow> HandoffOutcome result \<times> crm_db" where
  "handOffLead e tenant user leadId expected handedTo s =
     withTenantTransaction (handOffBody e tenant user leadId expected handedTo) s"

end
