(* ===== verification/CrmRouting.thy ===== *)
theory CrmRouting
  imports CrmLeads
begin

text \<open>
  Who has a lead, for how long, and what was done about it: queues, assignment, the response
  clock and its sweep (\<open>crm/src/routing.ts\<close>), the timeline and the appointments
  (\<open>crm/src/activities.ts\<close>).
\<close>

section \<open>Queues\<close>

datatype QueueOutcome = QO_saved lead_queue | QO_duplicate lead_queue | QO_invalid

definition createQueueWithin :: "string \<Rightarrow> string \<Rightarrow> string \<Rightarrow> string \<Rightarrow> string \<Rightarrow> QueueOutcome ctx" where
  "createQueueWithin qid tenant user rooftopId rawName s =
     (let name = trim rawName in
      if name = [] \<or> length name > 120 then Inr (QO_invalid, s)
      else bindR (actor_of user s) (\<lambda>actor.
        case find (\<lambda>q. lq_tenant q = tenant \<and> lq_rooftop q = pgUuid rooftopId
                     \<and> toLowerCase (lq_name q) = toLowerCase name \<and> lq_active q) (lead_queues s) of
          Some q \<Rightarrow> Inr (QO_duplicate q, s)
        | None \<Rightarrow>
            (let row = \<lparr>lq_id = qid, lq_tenant = tenant, lq_rooftop = pgUuid rooftopId, lq_name = name, lq_active = True\<rparr>
             in bindR (ensure (hasRooftop tenant rooftopId s) foreign_key) (\<lambda>_.
                  Inr (QO_saved row, audited tenant ''lead_queue'' qid ''crm.queue.created'' actor
                    (s\<lparr>lead_queues := lead_queues s @ [row]\<rparr>))))))"

definition createQueue ::
  "crm_env \<Rightarrow> string \<Rightarrow> string \<Rightarrow> string \<Rightarrow> string \<Rightarrow> crm_db \<Rightarrow> QueueOutcome result \<times> crm_db" where
  "createQueue e tenant user rooftopId name s =
     withTenantTransaction (createQueueWithin (drawn e 0) tenant user rooftopId name) s"

section \<open>Assignment\<close>

datatype AssignOutcome = AO_assigned lead | AO_version_conflict int | AO_not_found | AO_invalid

text \<open>
  Putting the lead in somebody's hands.  The history table refuses (CHECK) a move from an owner
  to the same owner.
\<close>

definition writeAssignment ::
  "string \<Rightarrow> string \<Rightarrow> string \<Rightarrow> lead \<Rightarrow> int \<Rightarrow> string option \<Rightarrow> string option \<Rightarrow> AssignmentReason \<Rightarrow> string option \<Rightarrow>
   AssignOutcome ctx" where
  "writeAssignment tenant actor leadId current expected toUser queueId reason note s =
     (let owner = map_option pgUuid toUser; queue = map_option pgUuid queueId;
          assign = (\<lambda>l. l\<lparr>ld_owner := owner, ld_queue := queue,
             ld_state := (if ld_state l = LS_new \<and> owner \<noteq> None then LS_working else ld_state l),
             ld_version := ld_version l + 1\<rparr>);
          row = \<lparr>la_tenant = tenant, la_lead = pgUuid leadId, la_from = ld_owner current, la_to = owner, la_queue = queue,
                 la_reason = reason, la_note = note, la_by = pgUuid actor\<rparr>;
          s1 = s\<lparr>leads := update_where (\<lambda>l. leadHere tenant leadId l \<and> ld_version l = expected) assign (leads s)\<rparr>;
          s2 = (if ld_state current = LS_new \<and> ld_state (assign current) = LS_working
                then leadEvent tenant leadId LS_new LS_working None None actor s1 else s1)
      in bindR (ensure ((la_from row = None \<or> la_from row \<noteq> la_to row) \<and> lengthIn 0 500 note) check_violation) (\<lambda>_.
           Inr (AO_assigned (assign current),
             audited tenant ''lead'' (ld_id current) ''crm.lead.assigned'' actor
               (s2\<lparr>lead_assignments := lead_assignments s2 @ [row]\<rparr>))))"

definition assignBody ::
  "crm_env \<Rightarrow> string \<Rightarrow> string \<Rightarrow> string \<Rightarrow> int \<Rightarrow> string option \<Rightarrow> string option \<Rightarrow> AssignmentReason \<Rightarrow> string option \<Rightarrow>
   AssignOutcome ctx" where
  "assignBody e tenant user leadId expected toUser queueId reason note s =
     bindR (actor_of user s) (\<lambda>actor.
       case find (leadHere tenant leadId) (leads s) of
         None \<Rightarrow> Inr (AO_not_found, s)
       | Some current \<Rightarrow>
           if finished (ld_state current) then Inr (AO_invalid, s)
           else if ld_version current \<noteq> expected then Inr (AO_version_conflict (ld_version current), s)
           else if ld_owner current = toUser \<and> ld_queue current = queueId then Inr (AO_invalid, s)
           else if (case toUser of
                      None \<Rightarrow> False
                    | Some u \<Rightarrow> ld_rooftop current \<notin> set (permittedRooftopIds (platform e) tenant u (desk s)))
           then Inr (AO_invalid, s)
           else
             (case queueId of
                None \<Rightarrow> writeAssignment tenant actor leadId current expected toUser queueId reason note s
              | Some qid \<Rightarrow>
                  (case find (\<lambda>q. lq_tenant q = tenant \<and> lq_id q = pgUuid qid \<and> lq_active q) (lead_queues s) of
                     None \<Rightarrow> Inr (AO_not_found, s)
                   | Some q \<Rightarrow>
                       if lq_rooftop q \<noteq> ld_rooftop current then Inr (AO_invalid, s)
                       else writeAssignment tenant actor leadId current expected toUser queueId reason note s)))"

definition assignLead ::
  "crm_env \<Rightarrow> string \<Rightarrow> string \<Rightarrow> string \<Rightarrow> int \<Rightarrow> string option \<Rightarrow> string option \<Rightarrow> AssignmentReason \<Rightarrow> string option \<Rightarrow>
   crm_db \<Rightarrow> AssignOutcome result \<times> crm_db" where
  "assignLead e tenant user leadId expected toUser queueId reason note s =
     (if toUser = None \<and> queueId = None then (Inr AO_invalid, s)
      else withTenantTransaction (assignBody e tenant user leadId expected toUser queueId reason note) s)"

section \<open>The clock\<close>

fun numLess :: "jsnum \<Rightarrow> jsnum \<Rightarrow> bool" where
  "numLess (Fin a) (Fin b) = (a < b)"
| "numLess (Fin _) PosInf = True"
| "numLess NegInf (Fin _) = True"
| "numLess NegInf PosInf = True"
| "numLess _ _ = False"

text \<open>A number as an \<open>INTEGER\<close> column reads it: refused unless it is a whole number.\<close>

definition pgInt :: "jsnum \<Rightarrow> int option" where
  "pgInt n = (case n of Fin q \<Rightarrow> (if of_int \<lfloor>q\<rfloor> = q then Some \<lfloor>q\<rfloor> else None) | _ \<Rightarrow> None)"

datatype SlaOutcome = SL_saved lead_sla_policy | SL_invalid

definition slaBody :: "crm_env \<Rightarrow> string \<Rightarrow> string \<Rightarrow> string \<Rightarrow> jsnum \<Rightarrow> jsnum \<Rightarrow> SlaOutcome ctx" where
  "slaBody e tenant user rooftopId first escalate s =
     bindR (actor_of user s) (\<lambda>actor.
       let superseded = update_where (\<lambda>p. sp_tenant p = tenant \<and> sp_rooftop p = pgUuid rooftopId \<and> sp_active p)
             (\<lambda>p. p\<lparr>sp_active := False, sp_version := sp_version p + 1\<rparr>) (sla_policies s) in
       case (pgInt first, pgInt escalate) of
         (Some f, Some x) \<Rightarrow>
           (let row = \<lparr>sp_id = drawn e 0, sp_tenant = tenant, sp_rooftop = pgUuid rooftopId, sp_first = f,
                       sp_escalate = x, sp_active = True, sp_version = 1\<rparr>
            in bindR (ensure (1 \<le> f \<and> f \<le> 10080 \<and> 1 \<le> x \<and> x \<le> 20160 \<and> f \<le> x) check_violation) (\<lambda>_.
               bindR (ensure (hasRooftop tenant rooftopId s) foreign_key) (\<lambda>_.
                 Inr (SL_saved row, audited tenant ''lead_sla_policy'' (drawn e 0) ''crm.sla_policy.set'' actor
                   (s\<lparr>sla_policies := superseded @ [row]\<rparr>)))))
       | _ \<Rightarrow> Inl (DatabaseError ''invalid_text_representation''))"

definition setSlaPolicy ::
  "crm_env \<Rightarrow> string \<Rightarrow> string \<Rightarrow> string \<Rightarrow> jsnum \<Rightarrow> jsnum \<Rightarrow> crm_db \<Rightarrow> SlaOutcome result \<times> crm_db" where
  "setSlaPolicy e tenant user rooftopId first escalate s =
     (if \<not> numIsInteger first \<or> numLess first (Fin 1) then (Inr SL_invalid, s)
      else if numLess escalate first then (Inr SL_invalid, s)
      else withTenantTransaction (slaBody e tenant user rooftopId first escalate) s)"

record EscalationSweepResult =
  er_examined :: nat
  er_escalated :: nat
  er_already :: nat

definition escalationDue :: "int \<Rightarrow> string \<Rightarrow> lead \<Rightarrow> bool" where
  "escalationDue t tenant l =
     (ld_tenant l = tenant \<and> ld_first_response l = None \<and> ld_escalated l = None
      \<and> (case ld_escalate l of None \<Rightarrow> False | Some x \<Rightarrow> x \<le> t) \<and> \<not> finished (ld_state l))"

definition escalateOne ::
  "int \<Rightarrow> string \<Rightarrow> lead \<Rightarrow> EscalationSweepResult \<times> crm_db \<Rightarrow> EscalationSweepResult \<times> crm_db" where
  "escalateOne t tenant l acc =
     (case acc of (r, s) \<Rightarrow>
        if list_ex (\<lambda>x. lx_tenant x = tenant \<and> lx_lead x = ld_id l) (lead_escalations s)
        then (r\<lparr>er_already := er_already r + 1\<rparr>, s)
        else (r\<lparr>er_escalated := er_escalated r + 1\<rparr>,
              s\<lparr>lead_escalations := lead_escalations s
                  @ [\<lparr>lx_tenant = tenant, lx_lead = ld_id l, lx_due = the (ld_escalate l)\<rparr>],
                leads := update_where (\<lambda>x. ld_tenant x = tenant \<and> ld_id x = ld_id l \<and> ld_escalated x = None)
                  (\<lambda>x. x\<lparr>ld_escalated := Some t\<rparr>) (leads s)\<rparr>))"

definition bounded :: "int \<Rightarrow> int \<Rightarrow> int option \<Rightarrow> nat" where
  "bounded hi usual limit = nat (min (max (case limit of None \<Rightarrow> usual | Some n \<Rightarrow> n) 1) hi)"

definition runEscalationSweep ::
  "crm_env \<Rightarrow> string \<Rightarrow> int option \<Rightarrow> crm_db \<Rightarrow> EscalationSweepResult result \<times> crm_db" where
  "runEscalationSweep e tenant limit s =
     withTenantTransaction (\<lambda>s.
       let due = take (bounded 500 100 limit)
                   (sort_key (\<lambda>l. the (ld_escalate l)) (filter (escalationDue (clock e) tenant) (leads s)))
       in Inr (fold (escalateOne (clock e) tenant) due
                 (\<lparr>er_examined = length due, er_escalated = 0, er_already = 0\<rparr>, s))) s"

section \<open>The timeline\<close>

datatype ActivityOutcome = AY_logged lead_activity lead | AY_not_found | AY_invalid

definition isCommunication :: "ActivityKind \<Rightarrow> bool" where
  "isCommunication k = (k = AK_call \<or> k = AK_email \<or> k = AK_sms)"

definition isSchedulable :: "ActivityKind \<Rightarrow> bool" where
  "isSchedulable k = (k = AK_task \<or> k = AK_reminder)"

record activity_input =
  ai_kind :: ActivityKind
  ai_direction :: "ActivityDirection option"
  ai_subject :: string
  ai_body :: "string option"
  ai_due :: "string option"
  ai_assigned :: "string option"

definition writeActivity ::
  "crm_env \<Rightarrow> string \<Rightarrow> string \<Rightarrow> string \<Rightarrow> string \<Rightarrow> activity_input \<Rightarrow> int option \<Rightarrow> ActivityOutcome ctx" where
  "writeActivity e tenant actor leadId subject i due s =
     (let row = \<lparr>ac_id = drawn e 0, ac_tenant = tenant, ac_lead = pgUuid leadId, ac_kind = ai_kind i,
                 ac_direction = ai_direction i, ac_subject = subject, ac_body = ai_body i, ac_state = AS_open,
                 ac_due = due, ac_completed = None, ac_assigned = map_option pgUuid (ai_assigned i), ac_version = 1\<rparr>;
          s1 = s\<lparr>lead_activities := lead_activities s @ [row]\<rparr>;
          s2 = (if isCommunication (ai_kind i) \<and> ai_direction i = Some AD_outbound
                then stampFirstResponseWithin e tenant leadId s1 else s1)
      in bindR (ensure (lengthIn 0 4000 (ai_body i)) check_violation) (\<lambda>_.
         bindR (ensure (hasUser (ai_assigned i) s) foreign_key) (\<lambda>_.
           Inr (AY_logged row (the (find (leadHere tenant leadId) (leads s2))),
             audited tenant ''lead_activity'' (drawn e 0) ''crm.activity.logged'' actor s2))))"

definition logActivityWithin ::
  "crm_env \<Rightarrow> string \<Rightarrow> string \<Rightarrow> string \<Rightarrow> activity_input \<Rightarrow> ActivityOutcome ctx" where
  "logActivityWithin e tenant user leadId i s =
     (let subject = trim (ai_subject i) in
      if subject = [] \<or> length subject > 200 then Inr (AY_invalid, s)
      else if isCommunication (ai_kind i) \<noteq> (ai_direction i \<noteq> None) then Inr (AY_invalid, s)
      else if ai_due i \<noteq> None \<and> \<not> isSchedulable (ai_kind i) then Inr (AY_invalid, s)
      else bindR (actor_of user s) (\<lambda>actor.
        case find (leadHere tenant leadId) (leads s) of
          None \<Rightarrow> Inr (AY_not_found, s)
        | Some l \<Rightarrow>
            if finished (ld_state l) then Inr (AY_invalid, s)
            else
              (case ai_due i of
                 None \<Rightarrow> writeActivity e tenant actor leadId subject i None s
               | Some text \<Rightarrow>
                   (case instantOf (platform e) text of
                      None \<Rightarrow> Inl (DatabaseError ''invalid_datetime_format'')
                    | Some t \<Rightarrow> writeActivity e tenant actor leadId subject i (Some t) s))))"

definition logActivity ::
  "crm_env \<Rightarrow> string \<Rightarrow> string \<Rightarrow> string \<Rightarrow> activity_input \<Rightarrow> crm_db \<Rightarrow> ActivityOutcome result \<times> crm_db" where
  "logActivity e tenant user leadId i s = withTenantTransaction (logActivityWithin e tenant user leadId i) s"

datatype ActivityCloseOutcome = AC_closed lead_activity | AC_version_conflict int | AC_not_found | AC_invalid

definition closeBody ::
  "crm_env \<Rightarrow> string \<Rightarrow> string \<Rightarrow> string \<Rightarrow> string \<Rightarrow> int \<Rightarrow> ActivityState \<Rightarrow> ActivityCloseOutcome ctx" where
  "closeBody e tenant user leadId activityId expected state s =
     bindR (actor_of user s) (\<lambda>actor.
       let here = (\<lambda>a. ac_tenant a = tenant \<and> ac_id a = pgUuid activityId);
           close = (\<lambda>a. a\<lparr>ac_state := state, ac_completed := (if state = AS_completed then Some (clock e) else None),
                          ac_version := ac_version a + 1\<rparr>) in
       case find here (lead_activities s) of
         None \<Rightarrow> Inr (AC_not_found, s)
       | Some current \<Rightarrow>
           if ac_lead current \<noteq> leadId then Inr (AC_not_found, s)
           else if (case find (\<lambda>l. ld_tenant l = tenant \<and> ld_id l = ac_lead current) (leads s) of
                      None \<Rightarrow> False | Some l \<Rightarrow> finished (ld_state l))
           then Inr (AC_invalid, s)
           else if ac_state current \<noteq> AS_open then Inr (AC_invalid, s)
           else if ac_version current \<noteq> expected then Inr (AC_version_conflict (ac_version current), s)
           else Inr (AC_closed (close current),
                  audited tenant ''lead_activity'' (ac_id current) ''crm.activity.closed'' actor
                    (s\<lparr>lead_activities := update_where (\<lambda>a. here a \<and> ac_version a = expected) close (lead_activities s)\<rparr>)))"

definition closeActivity ::
  "crm_env \<Rightarrow> string \<Rightarrow> string \<Rightarrow> string \<Rightarrow> string \<Rightarrow> int \<Rightarrow> ActivityState \<Rightarrow> crm_db \<Rightarrow>
   ActivityCloseOutcome result \<times> crm_db" where
  "closeActivity e tenant user leadId activityId expected state s =
     (if state \<noteq> AS_completed \<and> state \<noteq> AS_cancelled then (Inr AC_invalid, s)
      else withTenantTransaction (closeBody e tenant user leadId activityId expected state) s)"

section \<open>Appointments\<close>

datatype CrmAppointmentOutcome = AA_scheduled crm_appointment lead | AA_not_found | AA_invalid

definition appointmentEvent ::
  "string \<Rightarrow> string \<Rightarrow> AppointmentEventType \<Rightarrow> int option \<Rightarrow> int option \<Rightarrow> string option \<Rightarrow> string \<Rightarrow> crm_db \<Rightarrow> crm_db" where
  "appointmentEvent tenant aid kind from to note actor s =
     s\<lparr>crm_appointment_events := crm_appointment_events s @ [\<lparr>ae_tenant = tenant, ae_appointment = aid, ae_type = kind,
        ae_from = from, ae_to = to, ae_note = note, ae_by = pgUuid actor\<rparr>]\<rparr>"

definition advanceToAppointment :: "string \<Rightarrow> string \<Rightarrow> string \<Rightarrow> lead \<Rightarrow> crm_db \<Rightarrow> lead \<times> crm_db" where
  "advanceToAppointment tenant actor leadId current s =
     (let advance = (\<lambda>l. l\<lparr>ld_state := LS_appointment_set, ld_version := ld_version l + 1\<rparr>);
          movable = (\<lambda>l. ld_state l \<in> {LS_new, LS_working, LS_qualified})
      in if movable current
         then (advance current, leadEvent tenant leadId (ld_state current) LS_appointment_set None None actor
                (s\<lparr>leads := update_where (\<lambda>l. leadHere tenant leadId l \<and> movable l) advance (leads s)\<rparr>))
         else (current, s))"

definition scheduleAppointmentWithin ::
  "crm_env \<Rightarrow> string \<Rightarrow> string \<Rightarrow> string \<Rightarrow> AppointmentPurpose \<Rightarrow> string \<Rightarrow> string \<Rightarrow> string option \<Rightarrow> string option \<Rightarrow>
   CrmAppointmentOutcome ctx" where
  "scheduleAppointmentWithin e tenant user leadId purpose startsAt endsAt stock assigned s =
     (case (jsDate e startsAt, jsDate e endsAt) of
        (Some starts, Some ends) \<Rightarrow>
          (if ends \<le> starts then Inr (AA_invalid, s)
           else bindR (actor_of user s) (\<lambda>actor.
             case find (leadHere tenant leadId) (leads s) of
               None \<Rightarrow> Inr (AA_not_found, s)
             | Some current \<Rightarrow>
                 if finished (ld_state current) then Inr (AA_invalid, s)
                 else
                   (let row = \<lparr>at_id = drawn e 0, at_tenant = tenant, at_rooftop = ld_rooftop current,
                               at_lead = pgUuid leadId, at_party = ld_party current, at_stock = map_option pgUuid stock,
                               at_purpose = purpose, at_starts = starts, at_ends = ends, at_state = AT_scheduled,
                               at_cancelled_reason = None, at_cancelled = None, at_completed = None, at_reschedules = 0,
                               at_assigned = map_option pgUuid assigned, at_version = 1\<rparr>
                    in bindR (ensure (hasStock tenant stock s \<and> hasUser assigned s) foreign_key) (\<lambda>_.
                       case advanceToAppointment tenant actor leadId current
                              (appointmentEvent tenant (drawn e 0) (AE_state AT_scheduled) None None None actor
                                (s\<lparr>crm_appointments := crm_appointments s @ [row]\<rparr>)) of
                         (l, s1) \<Rightarrow> Inr (AA_scheduled row l,
                           audited tenant ''appointment'' (drawn e 0) ''crm.appointment.scheduled'' actor s1)))))
      | _ \<Rightarrow> Inr (AA_invalid, s))"

definition scheduleAppointment ::
  "crm_env \<Rightarrow> string \<Rightarrow> string \<Rightarrow> string \<Rightarrow> AppointmentPurpose \<Rightarrow> string \<Rightarrow> string \<Rightarrow> string option \<Rightarrow> string option \<Rightarrow>
   crm_db \<Rightarrow> CrmAppointmentOutcome result \<times> crm_db" where
  "scheduleAppointment e tenant user leadId purpose startsAt endsAt stock assigned s =
     withTenantTransaction (scheduleAppointmentWithin e tenant user leadId purpose startsAt endsAt stock assigned) s"

fun APPOINTMENT_TRANSITIONS :: "AppointmentState \<Rightarrow> AppointmentState list" where
  "APPOINTMENT_TRANSITIONS AT_scheduled = [AT_confirmed, AT_completed, AT_cancelled, AT_no_show]"
| "APPOINTMENT_TRANSITIONS AT_confirmed = [AT_completed, AT_cancelled, AT_no_show]"
| "APPOINTMENT_TRANSITIONS AT_completed = []"
| "APPOINTMENT_TRANSITIONS AT_cancelled = []"
| "APPOINTMENT_TRANSITIONS AT_no_show = []"

datatype AppointmentMoveOutcome = AV_moved crm_appointment | AV_version_conflict int | AV_not_found | AV_invalid

definition appointmentHere :: "string \<Rightarrow> string \<Rightarrow> crm_appointment \<Rightarrow> bool" where
  "appointmentHere tenant aid a = (at_tenant a = tenant \<and> at_id a = pgUuid aid)"

text \<open>The trigger \<open>crm_reschedule_count_is_derived\<close>.\<close>

definition rescheduleCount :: "string \<Rightarrow> string \<Rightarrow> crm_appointment_event list \<Rightarrow> nat" where
  "rescheduleCount tenant aid rows =
     length (filter (\<lambda>v. ae_tenant v = tenant \<and> ae_appointment v = pgUuid aid \<and> ae_type v = AE_rescheduled) rows)"

definition rescheduleBody ::
  "string \<Rightarrow> string \<Rightarrow> string \<Rightarrow> int \<Rightarrow> int \<Rightarrow> int \<Rightarrow> string option \<Rightarrow> AppointmentMoveOutcome ctx" where
  "rescheduleBody tenant user aid expected starts ends note s =
     bindR (actor_of user s) (\<lambda>actor.
       case find (appointmentHere tenant aid) (crm_appointments s) of
         None \<Rightarrow> Inr (AV_not_found, s)
       | Some current \<Rightarrow>
           if APPOINTMENT_TRANSITIONS (at_state current) = [] then Inr (AV_invalid, s)
           else if at_version current \<noteq> expected then Inr (AV_version_conflict (at_version current), s)
           else
             (let s1 = appointmentEvent tenant (pgUuid aid) AE_rescheduled (Some (at_starts current)) (Some starts) note actor s;
                  n = rescheduleCount tenant aid (crm_appointment_events s1);
                  move = (\<lambda>a. a\<lparr>at_starts := starts, at_ends := ends, at_version := at_version a + 1, at_reschedules := n\<rparr>)
              in bindR (ensure (lengthIn 0 500 note) check_violation) (\<lambda>_.
                   Inr (AV_moved (move current),
                     audited tenant ''appointment'' (at_id current) ''crm.appointment.rescheduled'' actor
                       (s1\<lparr>crm_appointments := update_where (\<lambda>a. appointmentHere tenant aid a \<and> at_version a = expected) move
                          (crm_appointments s1)\<rparr>)))))"

definition rescheduleAppointment ::
  "crm_env \<Rightarrow> string \<Rightarrow> string \<Rightarrow> string \<Rightarrow> int \<Rightarrow> string \<Rightarrow> string \<Rightarrow> string option \<Rightarrow> crm_db \<Rightarrow>
   AppointmentMoveOutcome result \<times> crm_db" where
  "rescheduleAppointment e tenant user aid expected startsAt endsAt note s =
     (case (jsDate e startsAt, jsDate e endsAt) of
        (Some starts, Some ends) \<Rightarrow>
          (if ends \<le> starts then (Inr AV_invalid, s)
           else withTenantTransaction (rescheduleBody tenant user aid expected starts ends note) s)
      | _ \<Rightarrow> (Inr AV_invalid, s))"

definition setAppointmentStateWithin ::
  "crm_env \<Rightarrow> string \<Rightarrow> string \<Rightarrow> string \<Rightarrow> int \<Rightarrow> AppointmentState \<Rightarrow> string option \<Rightarrow> AppointmentMoveOutcome ctx" where
  "setAppointmentStateWithin e tenant user aid expected state reason s =
     bindR (actor_of user s) (\<lambda>actor.
       case find (appointmentHere tenant aid) (crm_appointments s) of
         None \<Rightarrow> Inr (AV_not_found, s)
       | Some current \<Rightarrow>
           if state \<notin> set (APPOINTMENT_TRANSITIONS (at_state current)) then Inr (AV_invalid, s)
           else if state = AT_cancelled \<and> trim (orEmpty reason) = [] then Inr (AV_invalid, s)
           else if at_version current \<noteq> expected then Inr (AV_version_conflict (at_version current), s)
           else
             (let move = (\<lambda>a. a\<lparr>at_state := state,
                    at_cancelled := (if state = AT_cancelled then Some (clock e) else at_cancelled a),
                    at_cancelled_reason := (if state = AT_cancelled then reason else at_cancelled_reason a),
                    at_completed := (if state = AT_completed then Some (clock e) else at_completed a),
                    at_version := at_version a + 1\<rparr>)
              in bindR (ensure ((state = AT_cancelled \<longrightarrow> lengthIn 0 200 reason) \<and> lengthIn 0 500 reason) check_violation) (\<lambda>_.
                   Inr (AV_moved (move current),
                     audited tenant ''appointment'' (at_id current) ''crm.appointment.state_changed'' actor
                       (appointmentEvent tenant (pgUuid aid) (AE_state state) None None reason actor
                         (s\<lparr>crm_appointments := update_where (\<lambda>a. appointmentHere tenant aid a \<and> at_version a = expected) move
                            (crm_appointments s)\<rparr>))))))"

definition setAppointmentState ::
  "crm_env \<Rightarrow> string \<Rightarrow> string \<Rightarrow> string \<Rightarrow> int \<Rightarrow> AppointmentState \<Rightarrow> string option \<Rightarrow> crm_db \<Rightarrow>
   AppointmentMoveOutcome result \<times> crm_db" where
  "setAppointmentState e tenant user aid expected state reason s =
     withTenantTransaction (setAppointmentStateWithin e tenant user aid expected state reason) s"

end
