(* ===== verification/CrmCampaigns.thy ===== *)
theory CrmCampaigns
  imports CrmRouting
begin

text \<open>
  Campaigns and their versions (\<open>crm/src/campaigns.ts\<close>): creation, drafting, the audience,
  approval and launch; and attribution (\<open>crm/src/attribution.ts\<close>).
\<close>

section \<open>Campaigns\<close>

definition CAMPAIGN_DISPATCH_EVENT :: string where
  "CAMPAIGN_DISPATCH_EVENT = ''marketing.campaign.dispatch''"

record campaign_input =
  ci_rooftop :: string
  ci_name :: string
  ci_channel :: string
  ci_purpose :: CampaignPurpose
  ci_source_code :: string
  ci_quiet_start :: "jsnum option"
  ci_quiet_end :: "jsnum option"
  ci_zone :: "string option"

datatype CampaignOutcome = CX_created campaign | CX_duplicate campaign | CX_invalid

definition readCampaignChannel :: "string \<Rightarrow> CampaignChannel option" where
  "readCampaignChannel = map_of [(''email'', CH_email), (''sms'', CH_sms)]"

text \<open>\<open>COALESCE($n::int, d)\<close>: None is a number the cast refuses.\<close>

definition minuteOr :: "int \<Rightarrow> jsnum option \<Rightarrow> int option" where
  "minuteOr d n = (case n of None \<Rightarrow> Some d | Some x \<Rightarrow> pgInt x)"

definition insertCampaign ::
  "string \<Rightarrow> string \<Rightarrow> string \<Rightarrow> string \<Rightarrow> CampaignChannel \<Rightarrow> string \<Rightarrow> campaign_input \<Rightarrow> CampaignOutcome ctx" where
  "insertCampaign cid tenant actor name channel sourceId i s =
     (case (minuteOr 1260 (ci_quiet_start i), minuteOr 480 (ci_quiet_end i)) of
        (Some a, Some b) \<Rightarrow>
          (let zone = (case ci_zone i of None \<Rightarrow> ''UTC'' | Some z \<Rightarrow> z);
               row = \<lparr>ca_id = cid, ca_tenant = tenant, ca_rooftop = pgUuid (ci_rooftop i), ca_name = name,
                      ca_channel = channel, ca_purpose = ci_purpose i, ca_source = sourceId, ca_quiet_start = a,
                      ca_quiet_end = b, ca_zone = zone, ca_status = CM_draft, ca_version = 1\<rparr>
           in bindR (ensure (0 \<le> a \<and> a \<le> 1439 \<and> 0 \<le> b \<and> b \<le> 1439 \<and> lengthIn 1 64 (Some zone)) check_violation) (\<lambda>_.
              bindR (ensure (hasRooftop tenant (ci_rooftop i) s) foreign_key) (\<lambda>_.
                Inr (CX_created row, audited tenant ''campaign'' cid ''crm.campaign.created'' actor
                  (s\<lparr>campaigns := campaigns s @ [row]\<rparr>)))))
      | _ \<Rightarrow> Inl (DatabaseError ''invalid_text_representation''))"

definition createCampaignWithin :: "string \<Rightarrow> string \<Rightarrow> string \<Rightarrow> campaign_input \<Rightarrow> CampaignOutcome ctx" where
  "createCampaignWithin cid tenant user i s =
     (let name = trim (ci_name i) in
      if name = [] \<or> length name > 160 then Inr (CX_invalid, s)
      else
        (case readCampaignChannel (ci_channel i) of
           None \<Rightarrow> Inr (CX_invalid, s)
         | Some channel \<Rightarrow>
             bindR (actor_of user s) (\<lambda>actor.
               case find (\<lambda>x. so_tenant x = tenant \<and> so_code x = ci_source_code i \<and> so_active x) (lead_sources s) of
                 None \<Rightarrow> Inr (CX_invalid, s)
               | Some source \<Rightarrow>
                   (case find (\<lambda>c. ca_tenant c = tenant \<and> ca_rooftop c = pgUuid (ci_rooftop i)
                             \<and> toLowerCase (ca_name c) = toLowerCase name \<and> ca_status c \<noteq> CM_archived) (campaigns s) of
                      Some c \<Rightarrow> Inr (CX_duplicate c, s)
                    | None \<Rightarrow> insertCampaign cid tenant actor name channel (so_id source) i s))))"

definition createCampaign ::
  "crm_env \<Rightarrow> string \<Rightarrow> string \<Rightarrow> campaign_input \<Rightarrow> crm_db \<Rightarrow> CampaignOutcome result \<times> crm_db" where
  "createCampaign e tenant user i s = withTenantTransaction (createCampaignWithin (drawn e 0) tenant user i) s"

section \<open>Versions\<close>

datatype VersionOutcome = VO_drafted campaign_version | VO_not_found | VO_invalid

definition nextVersionNumber :: "string \<Rightarrow> string \<Rightarrow> campaign_version list \<Rightarrow> int" where
  "nextVersionNumber tenant cid rows =
     fold (\<lambda>v m. max m (cv_number v)) (filter (\<lambda>v. cv_tenant v = tenant \<and> cv_campaign v = cid) rows) 0 + 1"

definition draftCampaignVersionWithin ::
  "string \<Rightarrow> string \<Rightarrow> string \<Rightarrow> string \<Rightarrow> string option \<Rightarrow> string \<Rightarrow> bool option \<Rightarrow> VersionOutcome ctx" where
  "draftCampaignVersionWithin vid tenant user campaignId subject rawBody includesOptOut s =
     (let body = trim rawBody; subj = trim (orEmpty subject) in
      if body = [] \<or> length body > 20000 then Inr (VO_invalid, s)
      else bindR (actor_of user s) (\<lambda>actor.
        case find (\<lambda>c. ca_tenant c = tenant \<and> ca_id c = pgUuid campaignId) (campaigns s) of
          None \<Rightarrow> Inr (VO_not_found, s)
        | Some parent \<Rightarrow>
            if ca_status parent = CM_archived then Inr (VO_invalid, s)
            else if ca_channel parent = CH_email \<and> subj = [] then Inr (VO_invalid, s)
            else
              (let row = \<lparr>cv_id = vid, cv_tenant = tenant, cv_campaign = pgUuid campaignId,
                          cv_number = nextVersionNumber tenant (pgUuid campaignId) (campaign_versions s),
                          cv_state = CV_draft, cv_approved_by = None, cv_version = 1\<rparr>;
                   template = \<lparr>ct_tenant = tenant, ct_version = vid, ct_subject = orNullText subj, ct_body = body,
                               ct_opt_out = (case includesOptOut of None \<Rightarrow> True | Some b \<Rightarrow> b)\<rparr>
               in bindR (ensure (lengthIn 1 200 (orNullText subj)) check_violation) (\<lambda>_.
                    Inr (VO_drafted row, audited tenant ''campaign_version'' vid ''crm.campaign_version.drafted'' actor
                      (s\<lparr>campaign_versions := campaign_versions s @ [row],
                         campaign_templates := campaign_templates s @ [template]\<rparr>))))))"

definition draftCampaignVersion ::
  "crm_env \<Rightarrow> string \<Rightarrow> string \<Rightarrow> string \<Rightarrow> string option \<Rightarrow> string \<Rightarrow> bool option \<Rightarrow> crm_db \<Rightarrow>
   VersionOutcome result \<times> crm_db" where
  "draftCampaignVersion e tenant user campaignId subject body includesOptOut s =
     withTenantTransaction (draftCampaignVersionWithin (drawn e 0) tenant user campaignId subject body includesOptOut) s"

definition versionBelongsTo :: "string \<Rightarrow> string \<Rightarrow> string \<Rightarrow> crm_db \<Rightarrow> bool" where
  "versionBelongsTo tenant campaignId versionId s =
     list_ex (\<lambda>v. cv_tenant v = tenant \<and> cv_id v = pgUuid versionId \<and> cv_campaign v = pgUuid campaignId) (campaign_versions s)"

text \<open>The version joined with its campaign.\<close>

definition campaignOf :: "campaign_version \<Rightarrow> crm_db \<Rightarrow> campaign option" where
  "campaignOf v s = find (\<lambda>c. ca_tenant c = cv_tenant v \<and> ca_id c = cv_campaign v) (campaigns s)"

definition versionHere :: "string \<Rightarrow> string \<Rightarrow> campaign_version \<Rightarrow> bool" where
  "versionHere tenant versionId v = (cv_tenant v = tenant \<and> cv_id v = pgUuid versionId)"

definition versionAndCampaign :: "string \<Rightarrow> string \<Rightarrow> crm_db \<Rightarrow> (campaign_version \<times> campaign) option" where
  "versionAndCampaign tenant versionId s =
     (case find (versionHere tenant versionId) (campaign_versions s) of
        None \<Rightarrow> None
      | Some v \<Rightarrow> map_option (Pair v) (campaignOf v s))"

definition templateOf :: "campaign_version \<Rightarrow> crm_db \<Rightarrow> campaign_template option" where
  "templateOf v s = find (\<lambda>t. ct_tenant t = cv_tenant v \<and> ct_version t = cv_id v) (campaign_templates s)"

section \<open>The audience\<close>

record AudienceResult =
  au_considered :: nat
  au_included :: nat
  au_no_contact :: nat
  au_no_consent :: nat
  au_suppressed :: nat

datatype AudienceOutcome = AX_built AudienceResult | AX_not_found | AX_invalid

definition resolveAudienceCandidates :: "string \<Rightarrow> string \<Rightarrow> AudienceRule \<Rightarrow> string list \<Rightarrow> crm_db \<Rightarrow> string list" where
  "resolveAudienceCandidates tenant rooftop rule partyIds s =
     (let active = filter (\<lambda>p. pa_tenant p = tenant \<and> pa_status p = PS_active) (parties s) in
      case rule of
        AU_manual_selection \<Rightarrow> sort (map pa_id (filter (\<lambda>p. pa_id p \<in> set (map pgUuid partyIds)) active))
      | AU_open_leads \<Rightarrow> sort (remdups (map ld_party (filter (\<lambda>l. ld_tenant l = tenant \<and> ld_rooftop l = rooftop
                            \<and> \<not> finished (ld_state l)) (leads s))))
      | AU_prior_buyers \<Rightarrow> sort (remdups (List.map_filter sk_party (filter (\<lambda>k. sk_tenant k = tenant
                            \<and> sk_rooftop k = rooftop) (stock_items s))))
      | AU_all_active_customers \<Rightarrow> sort (map pa_id active))"

definition audienceResult :: "SendEligibility list \<Rightarrow> AudienceResult" where
  "audienceResult es =
     (let count = (\<lambda>P. length (filter P es)) in
      \<lparr>au_considered = length es,
       au_included = count (\<lambda>x. case x of Eligible _ \<Rightarrow> True | _ \<Rightarrow> False),
       au_no_contact = count (\<lambda>x. x = Ineligible WR_no_contact_value),
       au_no_consent = count (\<lambda>x. x = Ineligible WR_consent_not_granted),
       au_suppressed = count (\<lambda>x. case x of Ineligible r \<Rightarrow> r \<noteq> WR_no_contact_value \<and> r \<noteq> WR_consent_not_granted
                                              | _ \<Rightarrow> False)\<rparr>)"

definition isEligible :: "SendEligibility \<Rightarrow> bool" where
  "isEligible x = (case x of Eligible _ \<Rightarrow> True | Ineligible _ \<Rightarrow> False)"

definition audienceBody ::
  "string \<Rightarrow> string \<Rightarrow> string \<Rightarrow> string \<Rightarrow> AudienceRule \<Rightarrow> string list \<Rightarrow> AudienceOutcome ctx" where
  "audienceBody tenant user campaignId versionId rule partyIds s =
     bindR (actor_of user s) (\<lambda>actor.
       if \<not> versionBelongsTo tenant campaignId versionId s then Inr (AX_not_found, s)
       else
         (case versionAndCampaign tenant versionId s of
            None \<Rightarrow> Inr (AX_not_found, s)
          | Some (v, c) \<Rightarrow>
              if cv_state v \<noteq> CV_draft then Inr (AX_invalid, s)
              else
                (let gate = (\<lambda>p. sendEligibility tenant p (ca_channel c) (consentPurpose (ca_purpose c)) s);
                     candidates = resolveAudienceCandidates tenant (ca_rooftop c) rule partyIds s;
                     members = map (\<lambda>p. \<lparr>am_tenant = tenant, am_version = cv_id v, am_party = p, am_because = rule\<rparr>)
                       (filter (\<lambda>p. isEligible (gate p)) candidates)
                 in Inr (AX_built (audienceResult (map gate candidates)),
                      audited tenant ''campaign_version'' versionId ''crm.campaign_version.audience_built'' actor
                        (s\<lparr>audience_members := filter (\<lambda>m. \<not> (am_tenant m = tenant \<and> am_version m = cv_id v))
                             (audience_members s) @ members\<rparr>)))))"

definition buildAudience ::
  "string \<Rightarrow> string \<Rightarrow> string \<Rightarrow> string \<Rightarrow> AudienceRule \<Rightarrow> string list \<Rightarrow> crm_db \<Rightarrow> AudienceOutcome result \<times> crm_db" where
  "buildAudience tenant user campaignId versionId rule partyIds s =
     withTenantTransaction (audienceBody tenant user campaignId versionId rule partyIds) s"

section \<open>Approval\<close>

datatype ApprovalOutcome = AP_approved campaign_version | AP_version_conflict int | AP_not_found | AP_invalid

definition membersOf :: "string \<Rightarrow> string \<Rightarrow> crm_db \<Rightarrow> string list" where
  "membersOf tenant vid s =
     sort (map am_party (filter (\<lambda>m. am_tenant m = tenant \<and> am_version m = vid) (audience_members s)))"

definition approveBody :: "string \<Rightarrow> string \<Rightarrow> string \<Rightarrow> string \<Rightarrow> int \<Rightarrow> ApprovalOutcome ctx" where
  "approveBody tenant user campaignId versionId expected s =
     bindR (actor_of user s) (\<lambda>actor.
       if \<not> versionBelongsTo tenant campaignId versionId s then Inr (AP_not_found, s)
       else
         (case versionAndCampaign tenant versionId s of
            None \<Rightarrow> Inr (AP_not_found, s)
          | Some (v, c) \<Rightarrow>
              if cv_state v \<noteq> CV_draft then Inr (AP_invalid, s)
              else if cv_version v \<noteq> expected then Inr (AP_version_conflict (cv_version v), s)
              else
                (case templateOf v s of
                   None \<Rightarrow> Inr (AP_invalid, s)
                 | Some t \<Rightarrow>
                     if ca_purpose c \<noteq> CU_service_reminder \<and> \<not> ct_opt_out t then Inr (AP_invalid, s)
                     else if membersOf tenant (cv_id v) s = [] then Inr (AP_invalid, s)
                     else
                       (let approve = (\<lambda>v. v\<lparr>cv_state := CV_approved, cv_approved_by := Some (pgUuid actor),
                                             cv_version := cv_version v + 1\<rparr>)
                        in Inr (AP_approved (approve v),
                             audited tenant ''campaign_version'' (cv_id v) ''crm.campaign_version.approved'' actor
                               (s\<lparr>campaign_versions := update_where (\<lambda>v. versionHere tenant versionId v \<and> cv_version v = expected)
                                    approve (campaign_versions s)\<rparr>))))))"

definition approveCampaignVersion ::
  "string \<Rightarrow> string \<Rightarrow> string \<Rightarrow> string \<Rightarrow> int \<Rightarrow> crm_db \<Rightarrow> ApprovalOutcome result \<times> crm_db" where
  "approveCampaignVersion tenant user campaignId versionId expected s =
     withTenantTransaction (approveBody tenant user campaignId versionId expected) s"

section \<open>Launch\<close>

datatype ExecutionOutcome =
    EX_executing campaign_version nat nat | EX_already_executing campaign_version
  | EX_version_conflict int | EX_not_found | EX_invalid

definition newSend ::
  "string \<Rightarrow> int \<Rightarrow> string \<Rightarrow> string \<Rightarrow> string \<Rightarrow> CampaignChannel \<Rightarrow> SendEligibility \<Rightarrow> campaign_send" where
  "newSend sid t tenant vid partyId channel gate =
     \<lparr>sd_id = sid, sd_tenant = tenant, sd_version = vid, sd_party = partyId, sd_channel = channel,
      sd_contact = (case gate of Eligible v \<Rightarrow> v | Ineligible _ \<Rightarrow> ''(withheld)''),
      sd_state = (case gate of Eligible _ \<Rightarrow> SD_pending | Ineligible _ \<Rightarrow> SD_suppressed),
      sd_withheld = (case gate of Eligible _ \<Rightarrow> None | Ineligible r \<Rightarrow> Some r),
      sd_attempts = 0, sd_ref = None, sd_error = None, sd_available = t, sd_sent_at = None, sd_row_version = 1\<rparr>"

text \<open>\<open>ON CONFLICT (tenant_id, campaign_version_id, party_id) DO NOTHING\<close>.\<close>

definition insertSend :: "campaign_send \<Rightarrow> campaign_send list \<Rightarrow> campaign_send list" where
  "insertSend row rows =
     (if list_ex (\<lambda>x. sd_tenant x = sd_tenant row \<and> sd_version x = sd_version row \<and> sd_party x = sd_party row) rows
      then rows else rows @ [row])"

fun prepareSends ::
  "(nat \<Rightarrow> string) \<Rightarrow> int \<Rightarrow> string \<Rightarrow> string \<Rightarrow> CampaignChannel \<Rightarrow> (string \<Rightarrow> SendEligibility) \<Rightarrow> nat \<Rightarrow> string list \<Rightarrow>
   campaign_send list \<Rightarrow> campaign_send list" where
  "prepareSends draw t tenant vid channel gate n [] rows = rows"
| "prepareSends draw t tenant vid channel gate n (p # ps) rows =
     prepareSends draw t tenant vid channel gate (Suc n) ps
       (insertSend (newSend (draw n) t tenant vid p channel (gate p)) rows)"

definition launch ::
  "crm_env \<Rightarrow> string \<Rightarrow> string \<Rightarrow> string \<Rightarrow> int \<Rightarrow> campaign_version \<Rightarrow> campaign \<Rightarrow> ExecutionOutcome ctx" where
  "launch e tenant actor versionId expected v c s =
     (let gate = (\<lambda>p. sendEligibility tenant p (ca_channel c) (consentPurpose (ca_purpose c)) s);
          members = membersOf tenant (cv_id v) s;
          start = (\<lambda>v. v\<lparr>cv_state := CV_executing, cv_version := cv_version v + 1\<rparr>);
          event = \<lparr>ob_id = drawn e 0, ob_tenant = tenant, ob_type = CAMPAIGN_DISPATCH_EVENT, ob_subject = cv_id v,
                   ob_available = clock e, ob_attempts = 0, ob_delivered = None\<rparr>
      in bindR (ensure (\<not> list_ex (\<lambda>x. cv_tenant x = tenant \<and> cv_campaign x = cv_campaign v \<and> cv_state x = CV_executing)
                        (campaign_versions s)) unique_violation) (\<lambda>_.
           Inr (EX_executing (start v) (length (filter (\<lambda>p. isEligible (gate p)) members))
                  (length (filter (\<lambda>p. \<not> isEligible (gate p)) members)),
             audited tenant ''campaign_version'' (cv_id v) ''crm.campaign_version.executing'' actor
               (s\<lparr>campaign_sends := prepareSends (drawn e) (clock e) tenant (cv_id v) (ca_channel c) gate 1 members (campaign_sends s),
                  campaign_versions := update_where (\<lambda>v. versionHere tenant versionId v \<and> cv_version v = expected)
                    start (campaign_versions s),
                  campaigns := update_where (\<lambda>x. ca_tenant x = tenant \<and> ca_id x = cv_campaign v \<and> ca_status x = CM_draft)
                    (\<lambda>x. x\<lparr>ca_status := CM_active, ca_version := ca_version x + 1\<rparr>) (campaigns s),
                  outbox := outbox s @ [event]\<rparr>))))"

definition executeBody :: "crm_env \<Rightarrow> string \<Rightarrow> string \<Rightarrow> string \<Rightarrow> string \<Rightarrow> int \<Rightarrow> ExecutionOutcome ctx" where
  "executeBody e tenant user campaignId versionId expected s =
     bindR (actor_of user s) (\<lambda>actor.
       if \<not> versionBelongsTo tenant campaignId versionId s then Inr (EX_not_found, s)
       else
         (case versionAndCampaign tenant versionId s of
            None \<Rightarrow> Inr (EX_not_found, s)
          | Some (v, c) \<Rightarrow>
              if cv_state v = CV_executing then Inr (EX_already_executing v, s)
              else if cv_state v \<noteq> CV_approved then Inr (EX_invalid, s)
              else if cv_version v \<noteq> expected then Inr (EX_version_conflict (cv_version v), s)
              else launch e tenant actor versionId expected v c s))"

definition executeCampaignVersion ::
  "crm_env \<Rightarrow> string \<Rightarrow> string \<Rightarrow> string \<Rightarrow> string \<Rightarrow> int \<Rightarrow> crm_db \<Rightarrow> ExecutionOutcome result \<times> crm_db" where
  "executeCampaignVersion e tenant user campaignId versionId expected s =
     withTenantTransaction (executeBody e tenant user campaignId versionId expected) s"

section \<open>Attribution\<close>

definition attributionWeights :: "AttributionModel \<Rightarrow> nat \<Rightarrow> nat list" where
  "attributionWeights model touchCount =
     (if touchCount = 0 then []
      else case model of
        AM_first_touch \<Rightarrow> 10000 # replicate (touchCount - 1) 0
      | AM_last_touch \<Rightarrow> replicate (touchCount - 1) 0 @ [10000]
      | AM_linear \<Rightarrow>
          (let base = 10000 div touchCount; remainder = 10000 - base * touchCount in
           map (\<lambda>i. base + (if i < remainder then 1 else 0)) [0..<touchCount]))"

definition ATTRIBUTION_MODELS :: "(string \<times> AttributionModel) list" where
  "ATTRIBUTION_MODELS = [(''first_touch'', AM_first_touch), (''last_touch'', AM_last_touch), (''linear'', AM_linear)]"

datatype AttributionOutcome = AB_computed attribution_run | AB_invalid

definition touchesOf :: "string \<Rightarrow> string \<Rightarrow> crm_db \<Rightarrow> lead_source_touch list" where
  "touchesOf tenant leadId s = sort_key lt_seq (filter (\<lambda>t. lt_tenant t = tenant \<and> lt_lead t = leadId) (lead_touches s))"

definition creditsOf :: "string \<Rightarrow> string \<Rightarrow> AttributionModel \<Rightarrow> crm_db \<Rightarrow> string \<Rightarrow> lead_attribution list" where
  "creditsOf tenant runId model s leadId =
     (let touches = touchesOf tenant leadId s in
      map (\<lambda>(t, w). \<lparr>lw_tenant = tenant, lw_run = runId, lw_lead = leadId, lw_touch = lt_id t, lw_source = lt_source t,
                      lw_campaign_version = lt_campaign_version t, lw_weight = w\<rparr>)
        (filter (\<lambda>(t, w). w \<noteq> 0) (zip touches (attributionWeights model (length touches)))))"

definition leadsInWindow :: "string \<Rightarrow> string \<Rightarrow> int \<Rightarrow> int \<Rightarrow> crm_db \<Rightarrow> string list" where
  "leadsInWindow tenant rooftop a b s =
     sort (map ld_id (filter (\<lambda>l. ld_tenant l = tenant \<and> ld_rooftop l = rooftop \<and> a \<le> ld_created l \<and> ld_created l < b) (leads s)))"

definition attributionBody ::
  "crm_env \<Rightarrow> string \<Rightarrow> string \<Rightarrow> string \<Rightarrow> AttributionModel \<Rightarrow> int \<Rightarrow> int \<Rightarrow> AttributionOutcome ctx" where
  "attributionBody e tenant user rooftopId model start end' s =
     bindR (actor_of user s) (\<lambda>actor.
       let rooftop = pgUuid rooftopId; runId = drawn e 0;
           superseded = update_where (\<lambda>r. an_tenant r = tenant \<and> an_rooftop r = rooftop \<and> an_model r = model
               \<and> an_start r = start \<and> an_end r = end' \<and> an_computed r)
             (\<lambda>r. r\<lparr>an_computed := False, an_version := an_version r + 1\<rparr>) (attribution_runs s);
           considered = leadsInWindow tenant rooftop start end' s;
           credits = concat (map (creditsOf tenant runId model s) considered);
           run = \<lparr>an_id = runId, an_tenant = tenant, an_rooftop = rooftop, an_model = model, an_start = start, an_end = end',
                  an_computed = True, an_leads = length considered, an_touches = length credits, an_version = 1\<rparr>
       in bindR (ensure (hasRooftop tenant rooftopId s) foreign_key) (\<lambda>_.
            Inr (AB_computed run, audited tenant ''attribution_run'' runId ''crm.attribution.computed'' actor
              (s\<lparr>attribution_runs := superseded @ [run], lead_attributions := lead_attributions s @ credits\<rparr>))))"

definition computeAttribution ::
  "crm_env \<Rightarrow> string \<Rightarrow> string \<Rightarrow> string \<Rightarrow> string \<Rightarrow> string \<Rightarrow> string \<Rightarrow> crm_db \<Rightarrow> AttributionOutcome result \<times> crm_db" where
  "computeAttribution e tenant user rooftopId model windowStart windowEnd s =
     (case (map_of ATTRIBUTION_MODELS model, jsDate e windowStart, jsDate e windowEnd) of
        (Some m, Some a, Some b) \<Rightarrow>
          (if b \<le> a then (Inr AB_invalid, s)
           else withTenantTransaction (attributionBody e tenant user rooftopId m a b) s)
      | _ \<Rightarrow> (Inr AB_invalid, s))"

end
