(* ===== verification/CrmSends.thy ===== *)
theory CrmSends
  imports CrmCampaigns
begin

text \<open>
  Delivery (\<open>crm/src/sends.ts\<close>): the dispatch pass with its second permission check, the outbox,
  reconciliation and responses; the simulated provider (\<open>crm/src/providers.ts\<close>) and the worker's
  passes (\<open>crm/src/worker.ts\<close>).  What was asked of the provider is returned beside the store: a
  transaction that rolls back takes its rows with it, and not the message.
\<close>

section \<open>The simulated provider\<close>

definition simulatedProviderRef :: "(string \<Rightarrow> string) \<Rightarrow> string \<Rightarrow> string" where
  "simulatedProviderRef digest sendId = ''MSG-'' @ concat (map toUpperChars (take 12 (digest sendId)))"

definition startsWith :: "string \<Rightarrow> string \<Rightarrow> bool" where
  "startsWith prefix x = (take (length prefix) (toLowerCase x) = prefix)"

definition phonePattern :: "string \<Rightarrow> bool" where
  "phonePattern x =
     (let d = (if x \<noteq> [] \<and> hd x = CHR ''+'' then tl x else x) in
      list_all isDecDigit d \<and> 7 \<le> length d \<and> length d \<le> 15)"

definition simulatedMessageProvider :: "(string \<Rightarrow> string) \<Rightarrow> ProviderRequest \<Rightarrow> ProviderOutcome" where
  "simulatedMessageProvider digest rq =
     (let v = trim (rq_contact rq) in
      if v = [] then PO_failed True ''no contact value''
      else if rq_channel rq = CH_email \<and> CHR ''@'' \<notin> set v then PO_failed True ''not an email address''
      else if rq_channel rq = CH_sms \<and> \<not> phonePattern v then PO_failed True ''not a phone number''
      else if startsWith ''bounce@'' v \<or> startsWith ''invalid@'' v \<or> startsWith ''no-such-mailbox@'' v
      then PO_failed True ''undeliverable address''
      else if startsWith ''flaky@'' v \<and> rq_attempt rq \<le> 1 then PO_failed False ''channel temporarily unavailable''
      else if trim (rq_body rq) = [] then PO_failed True ''empty message body''
      else PO_sent (simulatedProviderRef digest (rq_send rq)))"

section \<open>One message\<close>

definition RETRY_BACKOFF_SECONDS :: "int list" where
  "RETRY_BACKOFF_SECONDS = [60, 300, 900]"

definition MAX_ATTEMPTS :: int where
  "MAX_ATTEMPTS = 4"

definition backoffSeconds :: "int \<Rightarrow> int" where
  "backoffSeconds attempt = RETRY_BACKOFF_SECONDS ! nat (min (attempt - 1) 2)"

text \<open>The CHECKs of \<open>campaign_sends\<close>.\<close>

definition sendRowOk :: "campaign_send \<Rightarrow> bool" where
  "sendRowOk r =
     ((sd_state r \<noteq> SD_sent \<or> sd_sent_at r \<noteq> None)
      \<and> (sd_state r \<in> {SD_suppressed, SD_deferred_quiet_hours}) = (sd_withheld r \<noteq> None)
      \<and> (sd_ref r = None \<or> sd_state r = SD_sent) \<and> lengthIn 1 100 (sd_ref r) \<and> lengthIn 0 500 (sd_error r)
      \<and> 0 \<le> sd_attempts r)"

definition sendHere :: "string \<Rightarrow> string \<Rightarrow> campaign_send \<Rightarrow> bool" where
  "sendHere tenant sid r = (sd_tenant r = tenant \<and> sd_id r = sid)"

definition updateSend :: "campaign_send \<Rightarrow> (campaign_send \<Rightarrow> campaign_send) \<Rightarrow> crm_db \<Rightarrow> crm_db result" where
  "updateSend row f s =
     (if sendRowOk (f row)
      then Inr (s\<lparr>campaign_sends := update_where (sendHere (sd_tenant row) (sd_id row))
             (\<lambda>r. (f r)\<lparr>sd_row_version := sd_row_version r + 1\<rparr>) (campaign_sends s)\<rparr>)
      else Inl check_violation)"

definition writeSendEvent ::
  "string \<Rightarrow> string \<Rightarrow> SendEventType \<Rightarrow> int \<Rightarrow> string option \<Rightarrow> crm_db \<Rightarrow> crm_db" where
  "writeSendEvent tenant sid kind attempt ref s =
     (if list_ex (\<lambda>v. sv_tenant v = tenant \<and> sv_send v = sid \<and> sv_type v = kind \<and> sv_attempt v = attempt) (send_events s)
      then s
      else s\<lparr>send_events := send_events s @ [\<lparr>sv_tenant = tenant, sv_send = sid, sv_type = kind, sv_attempt = attempt,
             sv_ref = ref\<rparr>]\<rparr>)"

datatype DispatchStep = DS_drained | DS_sent | DS_deferred | DS_suppressed | DS_retrying | DS_failed

type_synonym asked = "(ProviderRequest \<times> ProviderOutcome) list"

text \<open>A send joined with its version, campaign and template, when it is due.\<close>

definition dueWith ::
  "string \<Rightarrow> int \<Rightarrow> crm_db \<Rightarrow> campaign_send \<Rightarrow> (campaign_send \<times> campaign \<times> campaign_template) option" where
  "dueWith tenant t s r =
     (if sd_tenant r = tenant \<and> sd_state r \<in> {SD_pending, SD_deferred_quiet_hours} \<and> sd_available r \<le> t
      then
        (case find (\<lambda>v. cv_tenant v = sd_tenant r \<and> cv_id v = sd_version r) (campaign_versions s) of
           None \<Rightarrow> None
         | Some v \<Rightarrow>
             if cv_state v \<noteq> CV_executing then None
             else (case (campaignOf v s, templateOf v s) of
                     (Some c, Some m) \<Rightarrow> Some (r, c, m)
                   | _ \<Rightarrow> None))
      else None)"

definition nextDue :: "string \<Rightarrow> int \<Rightarrow> crm_db \<Rightarrow> (campaign_send \<times> campaign \<times> campaign_template) option" where
  "nextDue tenant t s =
     (case sort_key (\<lambda>x. sd_available (fst x)) (List.map_filter (dueWith tenant t s) (campaign_sends s)) of
        [] \<Rightarrow> None
      | x # _ \<Rightarrow> Some x)"

definition quietHoursOf :: "campaign \<Rightarrow> QuietHours" where
  "quietHoursOf c = \<lparr>startMinute = ca_quiet_start c, endMinute = ca_quiet_end c, timeZone = ca_zone c\<rparr>"

definition recordAnswer :: "crm_env \<Rightarrow> campaign_send \<Rightarrow> int \<Rightarrow> ProviderOutcome \<Rightarrow> DispatchStep ctx" where
  "recordAnswer e row attempt answer s =
     (case answer of
        PO_sent ref \<Rightarrow>
          bindR (updateSend row (\<lambda>r. r\<lparr>sd_state := SD_sent, sd_sent_at := Some (clock e), sd_attempts := attempt,
              sd_ref := Some ref, sd_error := None, sd_withheld := None\<rparr>) s) (\<lambda>s1.
            Inr (DS_sent, writeSendEvent (sd_tenant row) (sd_id row) SE_sent attempt (Some ref) s1))
      | PO_failed permanent detail \<Rightarrow>
          (let giveUp = (permanent \<or> attempt \<ge> MAX_ATTEMPTS) in
           bindR (updateSend row (\<lambda>r. r\<lparr>sd_state := (if giveUp then SD_failed else SD_pending), sd_attempts := attempt,
               sd_error := Some (take 500 detail),
               sd_available := (if giveUp then sd_available r else clock e + backoffSeconds attempt * 1000)\<rparr>) s) (\<lambda>s1.
             Inr (if giveUp then DS_failed else DS_retrying,
                  writeSendEvent (sd_tenant row) (sd_id row) SE_failed attempt None s1))))"

definition dispatchRow ::
  "crm_env \<Rightarrow> int \<Rightarrow> campaign_send \<Rightarrow> campaign \<Rightarrow> campaign_template \<Rightarrow> crm_db \<Rightarrow> asked \<times> (DispatchStep \<times> crm_db) result" where
  "dispatchRow e t row c m s =
     (let tenant = sd_tenant row; event = writeSendEvent tenant (sd_id row) in
      case sendEligibility tenant (sd_party row) (sd_channel row) (consentPurpose (ca_purpose c)) s of
        Ineligible reason \<Rightarrow>
          ([], bindR (updateSend row (\<lambda>r. r\<lparr>sd_state := SD_suppressed, sd_withheld := Some reason\<rparr>) s) (\<lambda>s1.
                 Inr (DS_suppressed, event SE_suppressed (sd_attempts row) None s1)))
      | Eligible contact \<Rightarrow>
          (case insideQuietHours e t (quietHoursOf c) of
             Inl err \<Rightarrow> ([], Inl err)
           | Inr True \<Rightarrow>
               ([], bindR (quietHoursEndAfter e t (quietHoursOf c)) (\<lambda>openAt.
                      bindR (updateSend row (\<lambda>r. r\<lparr>sd_state := SD_deferred_quiet_hours, sd_withheld := Some WR_quiet_hours,
                          sd_available := openAt\<rparr>) s) (\<lambda>s1.
                        Inr (DS_deferred, event SE_deferred (sd_attempts row) None s1))))
           | Inr False \<Rightarrow>
               (let attempt = sd_attempts row + 1;
                    request = \<lparr>rq_send = sd_id row, rq_channel = sd_channel row, rq_contact = contact, rq_attempt = attempt,
                               rq_subject = ct_subject m, rq_body = ct_body m\<rparr>;
                    answer = provider e request
                in ([(request, answer)], recordAnswer e row attempt answer (event SE_requested attempt None s)))))"

definition dispatchOne :: "crm_env \<Rightarrow> string \<Rightarrow> int option \<Rightarrow> crm_db \<Rightarrow> asked \<times> DispatchStep result \<times> crm_db" where
  "dispatchOne e tenant nowGiven s =
     (let t = (case nowGiven of None \<Rightarrow> clock e | Some x \<Rightarrow> x) in
      case nextDue tenant t s of
        None \<Rightarrow> ([], Inr DS_drained, s)
      | Some (row, c, m) \<Rightarrow>
          (case dispatchRow e t row c m s of
             (a, r) \<Rightarrow> (a, withTenantTransaction (\<lambda>_. r) s)))"

section \<open>The pass\<close>

record DispatchResult =
  dr_claimed :: nat
  dr_sent :: nat
  dr_deferred :: nat
  dr_suppressed :: nat
  dr_retrying :: nat
  dr_failed :: nat

definition noDispatch :: DispatchResult where
  "noDispatch = \<lparr>dr_claimed = 0, dr_sent = 0, dr_deferred = 0, dr_suppressed = 0, dr_retrying = 0, dr_failed = 0\<rparr>"

definition tallyStep :: "DispatchStep \<Rightarrow> DispatchResult \<Rightarrow> DispatchResult" where
  "tallyStep step r =
     (let r1 = r\<lparr>dr_claimed := dr_claimed r + 1\<rparr> in
      case step of
        DS_sent \<Rightarrow> r1\<lparr>dr_sent := dr_sent r1 + 1\<rparr>
      | DS_deferred \<Rightarrow> r1\<lparr>dr_deferred := dr_deferred r1 + 1\<rparr>
      | DS_suppressed \<Rightarrow> r1\<lparr>dr_suppressed := dr_suppressed r1 + 1\<rparr>
      | DS_retrying \<Rightarrow> r1\<lparr>dr_retrying := dr_retrying r1 + 1\<rparr>
      | _ \<Rightarrow> r1\<lparr>dr_failed := dr_failed r1 + 1\<rparr>)"

text \<open>
  One transaction per message: \<open>es i\<close> is what the \<open>i\<close>-th transaction takes from outside.  An
  exception ends the pass; what was committed before it stays.
\<close>

fun dispatchLoop ::
  "(nat \<Rightarrow> crm_env) \<Rightarrow> string \<Rightarrow> int option \<Rightarrow> nat \<Rightarrow> nat \<Rightarrow> DispatchResult \<Rightarrow> crm_db \<Rightarrow>
   asked \<times> DispatchResult result \<times> crm_db" where
  "dispatchLoop es tenant nowGiven 0 i r s = ([], Inr r, s)"
| "dispatchLoop es tenant nowGiven (Suc n) i r s =
     (case dispatchOne (es i) tenant nowGiven s of
        (a, Inl err, s1) \<Rightarrow> (a, Inl err, s1)
      | (a, Inr DS_drained, s1) \<Rightarrow> (a, Inr r, s1)
      | (a, Inr step, s1) \<Rightarrow>
          (case dispatchLoop es tenant nowGiven n (Suc i) (tallyStep step r) s1 of (b, res, s2) \<Rightarrow> (a @ b, res, s2)))"

definition completeFinishedVersions :: "string \<Rightarrow> crm_db \<Rightarrow> crm_db" where
  "completeFinishedVersions tenant s =
     s\<lparr>campaign_versions := update_where
        (\<lambda>v. cv_tenant v = tenant \<and> cv_state v = CV_executing
           \<and> \<not> list_ex (\<lambda>r. sd_tenant r = cv_tenant v \<and> sd_version r = cv_id v
                \<and> sd_state r \<in> {SD_pending, SD_deferred_quiet_hours}) (campaign_sends s))
        (\<lambda>v. v\<lparr>cv_state := CV_completed, cv_version := cv_version v + 1\<rparr>) (campaign_versions s)\<rparr>"

definition dispatchDueSends ::
  "(nat \<Rightarrow> crm_env) \<Rightarrow> string \<Rightarrow> int option \<Rightarrow> int option \<Rightarrow> crm_db \<Rightarrow> asked \<times> DispatchResult result \<times> crm_db" where
  "dispatchDueSends es tenant limit nowGiven s =
     (case dispatchLoop es tenant nowGiven (bounded 200 25 limit) 0 noDispatch s of
        (a, Inl err, s1) \<Rightarrow> (a, Inl err, s1)
      | (a, Inr r, s1) \<Rightarrow> (a, Inr r, completeFinishedVersions tenant s1))"

section \<open>The outbox\<close>

record OutboxDrainResult =
  od_claimed :: nat
  od_delivered :: nat
  od_replayed :: nat

definition deliverOne :: "int \<Rightarrow> outbox_event \<Rightarrow> OutboxDrainResult \<times> crm_db \<Rightarrow> OutboxDrainResult \<times> crm_db" where
  "deliverOne t ev acc =
     (case acc of (r, s) \<Rightarrow>
        (let seen = (ob_id ev \<in> set (outbox_deliveries s)) in
         (if seen then r\<lparr>od_replayed := od_replayed r + 1\<rparr> else r\<lparr>od_delivered := od_delivered r + 1\<rparr>,
          s\<lparr>outbox_deliveries := (if seen then outbox_deliveries s else outbox_deliveries s @ [ob_id ev]),
            outbox := update_where (\<lambda>x. ob_id x = ob_id ev)
              (\<lambda>x. x\<lparr>ob_delivered := Some t, ob_attempts := ob_attempts x + 1\<rparr>) (outbox s)\<rparr>)))"

definition drainMarketingOutbox ::
  "crm_env \<Rightarrow> string \<Rightarrow> int option \<Rightarrow> crm_db \<Rightarrow> OutboxDrainResult result \<times> crm_db" where
  "drainMarketingOutbox e tenant limit s =
     withTenantTransaction (\<lambda>s.
       let due = take (bounded 100 10 limit) (sort_key ob_available (filter (\<lambda>x. ob_tenant x = tenant
                   \<and> ob_delivered x = None \<and> ob_available x \<le> clock e \<and> take 10 (ob_type x) = ''marketing.'') (outbox s)))
       in Inr (fold (deliverOne (clock e)) due (\<lparr>od_claimed = length due, od_delivered = 0, od_replayed = 0\<rparr>, s))) s"

section \<open>Reconciliation\<close>

datatype ReconcileOutcome = RO_corrected SendState | RO_agreed SendState | RO_not_found

definition sendOfCampaign :: "string \<Rightarrow> string \<Rightarrow> string \<Rightarrow> crm_db \<Rightarrow> campaign_send option" where
  "sendOfCampaign tenant campaignId sendId s =
     find (\<lambda>r. sendHere tenant (pgUuid sendId) r
         \<and> list_ex (\<lambda>v. cv_tenant v = tenant \<and> cv_id v = sd_version r \<and> cv_campaign v = pgUuid campaignId) (campaign_versions s))
       (campaign_sends s)"

definition reconcileBody ::
  "crm_env \<Rightarrow> string \<Rightarrow> string \<Rightarrow> string \<Rightarrow> bool \<Rightarrow> string option \<Rightarrow> string option \<Rightarrow> ReconcileOutcome ctx" where
  "reconcileBody e tenant campaignId sendId providerSent detail externalRef s =
     (let claimed = (if providerSent then SD_sent else SD_failed) in
      case sendOfCampaign tenant campaignId sendId s of
        None \<Rightarrow> Inr (RO_not_found, s)
      | Some row \<Rightarrow>
          if sd_state row = claimed
          then Inr (RO_agreed claimed, writeSendEvent tenant (sd_id row) SE_reconciled (sd_attempts row) None s)
          else bindR (updateSend row (\<lambda>r. r\<lparr>sd_state := claimed,
                 sd_sent_at := (if providerSent then Some (case sd_sent_at r of Some x \<Rightarrow> x | None \<Rightarrow> clock e) else None),
                 sd_ref := (if providerSent then (case externalRef of Some x \<Rightarrow> Some x | None \<Rightarrow> sd_ref r) else None),
                 sd_error := (if providerSent then None
                              else Some (take 500 (case detail of Some d \<Rightarrow> d | None \<Rightarrow> ''reconciled as failed''))),
                 sd_withheld := None\<rparr>) s) (\<lambda>s1.
            Inr (RO_corrected claimed, writeSendEvent tenant (sd_id row) SE_reconciled (sd_attempts row) None s1)))"

definition reconcileSend ::
  "crm_env \<Rightarrow> string \<Rightarrow> string \<Rightarrow> string \<Rightarrow> bool \<Rightarrow> string option \<Rightarrow> string option \<Rightarrow> crm_db \<Rightarrow>
   ReconcileOutcome result \<times> crm_db" where
  "reconcileSend e tenant campaignId sendId providerSent detail externalRef s =
     withTenantTransaction (reconcileBody e tenant campaignId sendId providerSent detail externalRef) s"

section \<open>Responses\<close>

datatype ResponseOutcome =
    RR_recorded string "string option" | RR_already_recorded string "string option" | RR_not_found | RR_invalid

fun responseName :: "ResponseType \<Rightarrow> string" where
  "responseName RS_reply = ''reply''"
| "responseName RS_click = ''click''"
| "responseName RS_opt_out = ''opt_out''"
| "responseName RS_bounce = ''bounce''"

definition writeResponse ::
  "crm_env \<Rightarrow> string \<Rightarrow> string \<Rightarrow> string \<Rightarrow> ResponseType \<Rightarrow> string option \<Rightarrow> string option \<Rightarrow> ResponseOutcome ctx" where
  "writeResponse e tenant actor sendId kind leadId detail s =
     Inr (RR_recorded (drawn e 3) leadId,
       audited tenant ''campaign_send'' sendId ''crm.campaign_response.recorded'' actor
         (s\<lparr>campaign_responses := campaign_responses s @ [\<lparr>cr_id = drawn e 3, cr_tenant = tenant, cr_send = pgUuid sendId,
            cr_type = kind, cr_lead = leadId, cr_detail = orNullText (take 500 (orEmpty detail))\<rparr>]\<rparr>))"

definition replyCapture ::
  "string \<Rightarrow> ResponseType \<Rightarrow> campaign_send \<Rightarrow> campaign \<Rightarrow> lead_source \<Rightarrow> LeadCaptureInput" where
  "replyCapture sendId kind row c source =
     \<lparr>lc_rooftop = ca_rooftop c, lc_key = ''campaign-response:'' @ sendId @ '':'' @ responseName kind,
      lc_channel = IC_campaign, lc_source_code = so_code source, lc_party_id = Some (sd_party row), lc_party = None,
      lc_stock = None, lc_vehicle = None, lc_campaign_version = Some (sd_version row), lc_payload = None\<rparr>"

definition respondTo ::
  "crm_env \<Rightarrow> string \<Rightarrow> string \<Rightarrow> string \<Rightarrow> ResponseType \<Rightarrow> string option \<Rightarrow> campaign_send \<Rightarrow> campaign \<Rightarrow> lead_source \<Rightarrow>
   ResponseOutcome ctx" where
  "respondTo e tenant actor sendId kind detail row c source s =
     (if kind = RS_reply \<or> kind = RS_click
      then bindR (captureLeadWithin e (drawn e) tenant actor (replyCapture sendId kind row c source) s) (\<lambda>(captured, s1).
             case captured of
               LC_invalid _ \<Rightarrow> Inr (RR_invalid, s1)
             | LC_created l _ \<Rightarrow> writeResponse e tenant actor sendId kind (Some (ld_id l)) detail s1
             | LC_merged_into_existing l _ _ \<Rightarrow> writeResponse e tenant actor sendId kind (Some (ld_id l)) detail s1)
      else bindR (suppressContactWithin (drawn e 4) tenant actor (contactKindForChannel (sd_channel row)) (sd_contact row)
                    (if kind = RS_opt_out then SR_unsubscribe else SR_bounce) (Some (sd_party row)) s) (\<lambda>(done, s1).
             case done of
               SO_invalid \<Rightarrow> Inr (RR_invalid, s1)
             | _ \<Rightarrow> writeResponse e tenant actor sendId kind None detail s1))"

definition responseBody ::
  "crm_env \<Rightarrow> string \<Rightarrow> string \<Rightarrow> string \<Rightarrow> string \<Rightarrow> ResponseType \<Rightarrow> string option \<Rightarrow> ResponseOutcome ctx" where
  "responseBody e tenant user campaignId sendId kind detail s =
     bindR (actor_of user s) (\<lambda>actor.
       case sendOfCampaign tenant campaignId sendId s of
         None \<Rightarrow> Inr (RR_not_found, s)
       | Some row \<Rightarrow>
           (case find (\<lambda>c. ca_tenant c = tenant \<and> ca_id c = pgUuid campaignId) (campaigns s) of
              None \<Rightarrow> Inr (RR_not_found, s)
            | Some c \<Rightarrow>
                (case find (\<lambda>x. so_tenant x = tenant \<and> so_id x = ca_source c) (lead_sources s) of
                   None \<Rightarrow> Inr (RR_not_found, s)
                 | Some source \<Rightarrow>
                     (case find (\<lambda>r. cr_tenant r = tenant \<and> cr_send r = pgUuid sendId \<and> cr_type r = kind) (campaign_responses s) of
                        Some r \<Rightarrow> Inr (RR_already_recorded (cr_id r) (cr_lead r), s)
                      | None \<Rightarrow> respondTo e tenant actor sendId kind detail row c source s))))"

definition recordCampaignResponse ::
  "crm_env \<Rightarrow> string \<Rightarrow> string \<Rightarrow> string \<Rightarrow> string \<Rightarrow> ResponseType \<Rightarrow> string option \<Rightarrow> crm_db \<Rightarrow>
   ResponseOutcome result \<times> crm_db" where
  "recordCampaignResponse e tenant user campaignId sendId kind detail s =
     withTenantTransaction (responseBody e tenant user campaignId sendId kind detail) s"

section \<open>The worker's passes\<close>

text \<open>
  Tenant by tenant: drain the outbox, then dispatch.  The active tenants, in the order of their
  identifiers, come from the \<open>tenants\<close> table; the \<open>k\<close>-th one's transactions take \<open>es k i\<close> from
  outside.  An exception ends the pass; what was committed before it stays.
\<close>

fun dispatchTenants ::
  "(nat \<Rightarrow> nat \<Rightarrow> crm_env) \<Rightarrow> int \<Rightarrow> nat \<Rightarrow> string list \<Rightarrow> crm_db \<Rightarrow>
   asked \<times> (OutboxDrainResult \<times> DispatchResult) list result \<times> crm_db" where
  "dispatchTenants es limit k [] s = ([], Inr [], s)"
| "dispatchTenants es limit k (tenant # tenants) s =
     (case drainMarketingOutbox (es k 0) tenant None s of
        (Inl err, s1) \<Rightarrow> ([], Inl err, s1)
      | (Inr d, s1) \<Rightarrow>
          (case dispatchDueSends (\<lambda>i. es k (Suc i)) tenant (Some limit) None s1 of
             (a, Inl err, s2) \<Rightarrow> (a, Inl err, s2)
           | (a, Inr r, s2) \<Rightarrow>
               (case dispatchTenants es limit (Suc k) tenants s2 of
                  (b, res, s3) \<Rightarrow> (a @ b, bindR res (\<lambda>rs. Inr ((d, r) # rs)), s3))))"

record CampaignDispatchPass =
  cp_tenants :: nat
  cp_delivered :: nat
  cp_replayed :: nat
  cp_sent :: nat
  cp_deferred :: nat
  cp_suppressed :: nat
  cp_retrying :: nat
  cp_failed :: nat

definition runCampaignDispatchPass ::
  "(nat \<Rightarrow> nat \<Rightarrow> crm_env) \<Rightarrow> int option \<Rightarrow> nat option \<Rightarrow> string list \<Rightarrow> crm_db \<Rightarrow>
   asked \<times> CampaignDispatchPass result \<times> crm_db" where
  "runCampaignDispatchPass es perTenantLimit tenantLimit active s =
     (let tenants = take (case tenantLimit of None \<Rightarrow> 200 | Some n \<Rightarrow> n) active in
      case dispatchTenants es (case perTenantLimit of None \<Rightarrow> 25 | Some n \<Rightarrow> n) 0 tenants s of
        (a, res, s') \<Rightarrow>
          (a, bindR res (\<lambda>rs. Inr \<lparr>cp_tenants = length tenants,
                cp_delivered = sum_list (map (\<lambda>x. od_delivered (fst x)) rs),
                cp_replayed = sum_list (map (\<lambda>x. od_replayed (fst x)) rs),
                cp_sent = sum_list (map (\<lambda>x. dr_sent (snd x)) rs),
                cp_deferred = sum_list (map (\<lambda>x. dr_deferred (snd x)) rs),
                cp_suppressed = sum_list (map (\<lambda>x. dr_suppressed (snd x)) rs),
                cp_retrying = sum_list (map (\<lambda>x. dr_retrying (snd x)) rs),
                cp_failed = sum_list (map (\<lambda>x. dr_failed (snd x)) rs)\<rparr>), s'))"

record SlaSweepPass =
  ss_tenants :: nat
  ss_examined :: nat
  ss_escalated :: nat
  ss_already :: nat

fun sweepTenants ::
  "(nat \<Rightarrow> crm_env) \<Rightarrow> int \<Rightarrow> nat \<Rightarrow> string list \<Rightarrow> crm_db \<Rightarrow> EscalationSweepResult list result \<times> crm_db" where
  "sweepTenants es limit k [] s = (Inr [], s)"
| "sweepTenants es limit k (tenant # tenants) s =
     (case runEscalationSweep (es k) tenant (Some limit) s of
        (Inl err, s1) \<Rightarrow> (Inl err, s1)
      | (Inr r, s1) \<Rightarrow>
          (case sweepTenants es limit (Suc k) tenants s1 of (res, s2) \<Rightarrow> (bindR res (\<lambda>rs. Inr (r # rs)), s2)))"

definition runSlaSweepPass ::
  "(nat \<Rightarrow> crm_env) \<Rightarrow> int option \<Rightarrow> nat option \<Rightarrow> string list \<Rightarrow> crm_db \<Rightarrow> SlaSweepPass result \<times> crm_db" where
  "runSlaSweepPass es perTenantLimit tenantLimit active s =
     (let tenants = take (case tenantLimit of None \<Rightarrow> 200 | Some n \<Rightarrow> n) active in
      case sweepTenants es (case perTenantLimit of None \<Rightarrow> 100 | Some n \<Rightarrow> n) 0 tenants s of
        (res, s') \<Rightarrow>
          (bindR res (\<lambda>rs. Inr \<lparr>ss_tenants = length tenants, ss_examined = sum_list (map er_examined rs),
             ss_escalated = sum_list (map er_escalated rs), ss_already = sum_list (map er_already rs)\<rparr>), s'))"

end
