(* ===== verification/CrmService.thy ===== *)
theory CrmService
  imports CrmSends
begin

text \<open>
  The CRM as a transition system: every state-changing command of the package and of the
  customer file, the runs they make together with the worker's transactions, and the log of
  what was asked of the message provider on the way.  The locale \<open>kept\<close> is the contract of a
  property every command keeps, \<open>tracked\<close> that of a relation between a store and all later ones.
\<close>

section \<open>Commands\<close>

datatype crm_request =
    CreateParty string party_details bool
  | UpdateParty string int party_details bool
  | SetPartyConsent string string string string "string option"
  | MergeParties string string "string option"
  | ImportParties "(string option \<times> party_details) list"
  | SetPurposeConsent string string string string string
  | SuppressContact SuppressionKind string SuppressionReason "string option"
  | DefineLeadSource string string SourceChannel SourceMedium
  | RetireLeadSource string int
  | CaptureLead LeadCaptureInput
  | TransitionLead string string int "LeadDisposition option" "string option"
  | HandOffLead string int string
  | CreateQueue string string
  | AssignLead string int "string option" "string option" AssignmentReason "string option"
  | SetSlaPolicy string jsnum jsnum
  | RunEscalationSweep "int option"
  | LogActivity string activity_input
  | CloseActivity string string int ActivityState
  | ScheduleAppointment string AppointmentPurpose string string "string option" "string option"
  | RescheduleAppointment string int string string "string option"
  | SetAppointmentState string int AppointmentState "string option"
  | CreateCampaign campaign_input
  | DraftCampaignVersion string "string option" string "bool option"
  | BuildAudience string string AudienceRule "string list"
  | ApproveCampaignVersion string string int
  | ExecuteCampaignVersion string string int
  | ComputeAttribution string string string string
  | DispatchOne "int option"
  | CompleteFinishedVersions
  | DrainMarketingOutbox "int option"
  | ReconcileSend string string bool "string option" "string option"
  | RecordCampaignResponse string string ResponseType "string option"

fun crm_exec :: "crm_env \<Rightarrow> string \<Rightarrow> string \<Rightarrow> crm_request \<Rightarrow> crm_db \<Rightarrow> asked \<times> crm_db" where
  "crm_exec e tenant user (CreateParty ptype d dup) s = ([], snd (createParty e tenant user ptype d dup s))"
| "crm_exec e tenant user (UpdateParty pid v d dup) s = ([], snd (updateParty tenant user pid v d dup s))"
| "crm_exec e tenant user (SetPartyConsent pid ch st src note) s = ([], snd (setPartyConsent tenant user pid ch st src note s))"
| "crm_exec e tenant user (MergeParties a b reason) s = ([], snd (mergeParties tenant user a b reason s))"
| "crm_exec e tenant user (ImportParties rows) s = ([], snd (importParties e tenant user rows s))"
| "crm_exec e tenant user (SetPurposeConsent pid ch pu st src) s = ([], snd (setPurposeConsent tenant user pid ch pu st src s))"
| "crm_exec e tenant user (SuppressContact k v reason p) s = ([], snd (suppressContact e tenant user k v reason p s))"
| "crm_exec e tenant user (DefineLeadSource code name ch md) s = ([], snd (defineLeadSource e tenant user code name ch md s))"
| "crm_exec e tenant user (RetireLeadSource sid v) s = ([], snd (retireLeadSource tenant user sid v s))"
| "crm_exec e tenant user (CaptureLead i) s = ([], snd (captureLead e tenant user i s))"
| "crm_exec e tenant user (TransitionLead lid st v d note) s = ([], snd (transitionLead e tenant user lid st v d note s))"
| "crm_exec e tenant user (HandOffLead lid v to) s = ([], snd (handOffLead e tenant user lid v to s))"
| "crm_exec e tenant user (CreateQueue r name) s = ([], snd (createQueue e tenant user r name s))"
| "crm_exec e tenant user (AssignLead lid v to q r note) s = ([], snd (assignLead e tenant user lid v to q r note s))"
| "crm_exec e tenant user (SetSlaPolicy r a b) s = ([], snd (setSlaPolicy e tenant user r a b s))"
| "crm_exec e tenant user (RunEscalationSweep limit) s = ([], snd (runEscalationSweep e tenant limit s))"
| "crm_exec e tenant user (LogActivity lid i) s = ([], snd (logActivity e tenant user lid i s))"
| "crm_exec e tenant user (CloseActivity lid aid v st) s = ([], snd (closeActivity e tenant user lid aid v st s))"
| "crm_exec e tenant user (ScheduleAppointment lid p a b k u) s = ([], snd (scheduleAppointment e tenant user lid p a b k u s))"
| "crm_exec e tenant user (RescheduleAppointment aid v a b note) s =
     ([], snd (rescheduleAppointment e tenant user aid v a b note s))"
| "crm_exec e tenant user (SetAppointmentState aid v st reason) s =
     ([], snd (setAppointmentState e tenant user aid v st reason s))"
| "crm_exec e tenant user (CreateCampaign i) s = ([], snd (createCampaign e tenant user i s))"
| "crm_exec e tenant user (DraftCampaignVersion cid subject body opt) s =
     ([], snd (draftCampaignVersion e tenant user cid subject body opt s))"
| "crm_exec e tenant user (BuildAudience cid vid rule ps) s = ([], snd (buildAudience tenant user cid vid rule ps s))"
| "crm_exec e tenant user (ApproveCampaignVersion cid vid v) s = ([], snd (approveCampaignVersion tenant user cid vid v s))"
| "crm_exec e tenant user (ExecuteCampaignVersion cid vid v) s = ([], snd (executeCampaignVersion e tenant user cid vid v s))"
| "crm_exec e tenant user (ComputeAttribution r m a b) s = ([], snd (computeAttribution e tenant user r m a b s))"
| "crm_exec e tenant user (DispatchOne nowGiven) s = (case dispatchOne e tenant nowGiven s of (a, _, s1) \<Rightarrow> (a, s1))"
| "crm_exec e tenant user CompleteFinishedVersions s = ([], completeFinishedVersions tenant s)"
| "crm_exec e tenant user (DrainMarketingOutbox limit) s = ([], snd (drainMarketingOutbox e tenant limit s))"
| "crm_exec e tenant user (ReconcileSend cid sid ok detail ref) s =
     ([], snd (reconcileSend e tenant cid sid ok detail ref s))"
| "crm_exec e tenant user (RecordCampaignResponse cid sid kind detail) s =
     ([], snd (recordCampaignResponse e tenant user cid sid kind detail s))"

section \<open>Runs\<close>

text \<open>The identifiers Postgres draws for the rows of a command are new, and differ from each other.\<close>

definition usedIds :: "crm_db \<Rightarrow> string list" where
  "usedIds s = map pa_id (parties s) @ map ld_id (leads s) @ map sd_id (campaign_sends s)"

definition crm_fresh :: "crm_env \<Rightarrow> crm_db \<Rightarrow> bool" where
  "crm_fresh e s = (inj (drawn e) \<and> (\<forall>n. drawn e n \<notin> set (usedIds s)))"

text \<open>
  A run: commands one after another, whatever they are and whoever issues them, with the other
  packages changing their own tables in between; and what the provider was asked on the way,
  each request with the tenant it was sent for.  A command whose commit is lost, because the
  connection, the database or the process fails before it, leaves the store as it was, and what
  it asked of the provider stays asked.
\<close>

type_synonym crm_log = "(string \<times> ProviderRequest \<times> ProviderOutcome) list"

inductive crm_run :: "crm_db \<Rightarrow> crm_log \<Rightarrow> crm_db \<Rightarrow> bool" where
  run_none: "crm_run s [] s"
| run_call: "crm_run s msgs s1 \<Longrightarrow> crm_fresh e s1 \<Longrightarrow>
    crm_run s (msgs @ map (Pair tenant) (fst (crm_exec e tenant user q s1))) (snd (crm_exec e tenant user q s1))"
| run_lost: "crm_run s msgs s1 \<Longrightarrow> crm_fresh e s1 \<Longrightarrow>
    crm_run s (msgs @ map (Pair tenant) (fst (crm_exec e tenant user q s1))) s1"
| run_outside: "crm_run s msgs s1 \<Longrightarrow> crm_run s msgs (s1\<lparr>desk := d, stock_items := ks, vehicle_ids := vs, outbox := ob\<rparr>)"

definition crm_initial :: "crm_db \<Rightarrow> bool" where
  "crm_initial s =
     (parties s = [] \<and> suppressions s = [] \<and> leads s = [] \<and> lead_intakes s = [] \<and> lead_touches s = []
      \<and> campaign_sends s = [])"

lemma crm_run_trans:
  assumes "crm_run s1 msgs2 s2" "crm_run s msgs1 s1"
  shows "crm_run s (msgs1 @ msgs2) s2"
  using assms by (induction rule: crm_run.induct) (auto simp flip: append_assoc intro: crm_run.intros)

lemma dispatchOne_run:
  assumes "crm_fresh e s"
  shows "crm_run s (map (Pair tenant) (fst (dispatchOne e tenant nowGiven s))) (snd (snd (dispatchOne e tenant nowGiven s)))"
proof -
  obtain a r s1 where d: "dispatchOne e tenant nowGiven s = (a, r, s1)" by (cases "dispatchOne e tenant nowGiven s") auto
  then show ?thesis using run_call [OF run_none assms, of tenant "[]" "DispatchOne nowGiven"] by simp
qed

section \<open>Contracts\<close>

locale kept =
  fixes I :: "crm_db \<Rightarrow> bool"
  assumes exec_keeps: "I s \<Longrightarrow> crm_fresh e s \<Longrightarrow> I (snd (crm_exec e tenant user q s))"
    and outside_keeps: "I s \<Longrightarrow> I (s\<lparr>desk := d, stock_items := ks, vehicle_ids := vs, outbox := ob\<rparr>)"
begin

lemma run_keeps: "crm_run s msgs s' \<Longrightarrow> I s \<Longrightarrow> I s'"
  by (induction rule: crm_run.induct) (auto intro: exec_keeps outside_keeps)

end

locale tracked = kept +
  fixes R :: "crm_db \<Rightarrow> crm_db \<Rightarrow> bool"
  assumes R_refl: "R s s"
    and R_trans: "R s1 s2 \<Longrightarrow> R s2 s3 \<Longrightarrow> R s1 s3"
    and exec_tracks: "I s \<Longrightarrow> crm_fresh e s \<Longrightarrow> R s (snd (crm_exec e tenant user q s))"
    and outside_tracks: "R s (s\<lparr>desk := d, stock_items := ks, vehicle_ids := vs, outbox := ob\<rparr>)"
begin

lemma run_tracks: "crm_run s msgs s' \<Longrightarrow> I s \<Longrightarrow> R s s'"
proof (induction rule: crm_run.induct)
  case (run_call s msgs s1 e tenant user q)
  then show ?case using run_keeps exec_tracks R_trans by blast
qed (auto intro: R_refl R_trans outside_tracks)

end

end
