(* ===== verification/CrmFrames.thy ===== *)
theory CrmFrames
  imports CrmService
begin

text \<open>
  Which tables a command writes.  The judgement \<open>yields m Q\<close> says that what a transaction's body
  leaves behind satisfies \<open>Q\<close>; its rules follow the structure of the code.  Of the tables the
  CRM's promises are about (customers, suppressions, leads, intakes, touches, sends and their
  events), each
  command leaves all but a few as they are.
\<close>

section \<open>What a body leaves behind\<close>

definition yields :: "('a \<times> 's) result \<Rightarrow> ('s \<Rightarrow> bool) \<Rightarrow> bool" where
  "yields m Q = (\<forall>v s'. m = Inr (v, s') \<longrightarrow> Q s')"

named_theorems yields_intros \<open>one rule per construct of a transaction's body\<close>

lemma yieldsI: "(\<And>v s'. m = Inr (v, s') \<Longrightarrow> Q s') \<Longrightarrow> yields m Q"
  by (simp add: yields_def)

lemma yieldsD: "yields m Q \<Longrightarrow> m = Inr (v, s') \<Longrightarrow> Q s'"
  by (simp add: yields_def)

lemma yields_weaken: "yields m Q \<Longrightarrow> (\<And>s'. Q s' \<Longrightarrow> Q' s') \<Longrightarrow> yields m Q'"
  by (auto simp: yields_def)

lemma yields_Inl [yields_intros]: "yields (Inl err) Q"
  by (simp add: yields_def)

lemma yields_Inr [yields_intros]: "Q s \<Longrightarrow> yields (Inr (v, s)) Q"
  by (simp add: yields_def)

lemma yields_if [yields_intros]: "(c \<Longrightarrow> yields a Q) \<Longrightarrow> (\<not> c \<Longrightarrow> yields b Q) \<Longrightarrow> yields (if c then a else b) Q"
  by simp

lemma yields_option [yields_intros]:
  "(x = None \<Longrightarrow> yields a Q) \<Longrightarrow> (\<And>y. x = Some y \<Longrightarrow> yields (b y) Q) \<Longrightarrow>
   yields (case x of None \<Rightarrow> a | Some y \<Rightarrow> b y) Q"
  by (cases x) simp_all

lemma yields_prod [yields_intros]:
  "(\<And>a b. x = (a, b) \<Longrightarrow> yields (f a b) Q) \<Longrightarrow> yields (case x of (a, b) \<Rightarrow> f a b) Q"
  by (cases x) simp

lemma yields_let [yields_intros]: "yields (f a) Q \<Longrightarrow> yields (Let a f) Q"
  by simp

text \<open>A step that returns a value, and a step that returns a value and a store.\<close>

lemma yields_value [yields_intros]:
  "(\<And>x. m = Inr x \<Longrightarrow> yields (f x) Q) \<Longrightarrow> yields (bindR m f) Q"
  by (auto simp: yields_def)

lemma yields_step:
  "yields m Q1 \<Longrightarrow> (\<And>v s1. m = Inr (v, s1) \<Longrightarrow> Q1 s1 \<Longrightarrow> yields (f (v, s1)) Q) \<Longrightarrow> yields (bindR m f) Q"
  by (auto simp: yields_def)

lemma yields_transaction: "Q s \<Longrightarrow> yields (body s) Q \<Longrightarrow> Q (snd (withTenantTransaction body s))"
  by (auto simp: yields_def withTenantTransaction_def split: sum.splits)

lemma yields_sum [yields_intros]:
  "(\<And>x. m = Inl x \<Longrightarrow> yields (f x) Q) \<Longrightarrow> (\<And>x. m = Inr x \<Longrightarrow> yields (g x) Q) \<Longrightarrow> yields (case m of Inl x \<Rightarrow> f x | Inr x \<Rightarrow> g x) Q"
  by (cases m) simp_all

section \<open>Tables written\<close>

datatype crm_table = T_parties | T_contact | T_leads | T_intake | T_sends

text \<open>The tables outside \<open>W\<close> are as they were, and so are the facts handed to the desk.\<close>

definition frame :: "crm_table set \<Rightarrow> crm_db \<Rightarrow> crm_db \<Rightarrow> bool" where
  "frame W s s' =
     ((T_parties \<notin> W \<longrightarrow> parties s' = parties s) \<and> (T_contact \<notin> W \<longrightarrow> suppressions s' = suppressions s)
      \<and> (T_leads \<notin> W \<longrightarrow> leads s' = leads s)
      \<and> (T_intake \<notin> W \<longrightarrow> lead_intakes s' = lead_intakes s \<and> lead_touches s' = lead_touches s)
      \<and> (T_sends \<notin> W \<longrightarrow> campaign_sends s' = campaign_sends s \<and> send_events s' = send_events s)
      \<and> handoffs (desk s') = handoffs (desk s))"

lemma frame_refl [simp]: "frame W s s"
  by (simp add: frame_def)

lemma frame_trans: "frame W s s1 \<Longrightarrow> frame W s1 s2 \<Longrightarrow> frame W s s2"
  by (auto simp: frame_def)

lemma frame_mono: "frame W s s' \<Longrightarrow> W \<subseteq> W' \<Longrightarrow> frame W' s s'"
  by (auto simp: frame_def)

lemma crm_frame_audited [simp]: "frame W s (audited a b c d x s') = frame W s s'"
  by (simp add: frame_def audited_def)

lemma frame_fold:
  assumes step: "\<And>x acc. frame W (snd acc) (snd (f x acc))"
  shows "frame W (snd acc) (snd (fold f xs acc))"
proof (induction xs arbitrary: acc)
  case (Cons x xs)
  show ?case using frame_trans [OF step Cons.IH] by simp
qed simp

lemma crm_frame_transaction: "yields (body s) (frame W s) \<Longrightarrow> frame W s (snd (withTenantTransaction body s))"
  by (rule yields_transaction) simp_all

lemma consentBody_frame: "yields (consentBody tenant user pid ch st src note s) (frame {} s)"
  unfolding consentBody_def by (intro yields_intros) (simp_all add: frame_def audited_def)

lemma purposeBody_frame: "yields (purposeBody tenant user pid ch pu st src s) (frame {} s)"
  unfolding purposeBody_def by (intro yields_intros) (simp_all add: frame_def audited_def)

lemma defineLeadSourceWithin_frame: "yields (defineLeadSourceWithin sid tenant user code name ch md s) (frame {} s)"
  unfolding defineLeadSourceWithin_def by (intro yields_intros) (simp_all add: frame_def audited_def)

lemma retireBody_frame: "yields (retireBody tenant user sid n s) (frame {} s)"
  unfolding retireBody_def by (intro yields_intros) (simp_all add: frame_def audited_def)

lemma createQueueWithin_frame: "yields (createQueueWithin qid tenant user r name s) (frame {} s)"
  unfolding createQueueWithin_def by (intro yields_intros) (simp_all add: frame_def audited_def)

lemma slaBody_frame: "yields (slaBody e tenant user r a b s) (frame {} s)"
  unfolding slaBody_def by (intro yields_intros) (simp_all add: frame_def audited_def)

lemma closeBody_frame: "yields (closeBody e tenant user lid aid n st s) (frame {} s)"
  unfolding closeBody_def by (intro yields_intros) (simp_all add: frame_def audited_def)

lemma rescheduleBody_frame: "yields (rescheduleBody tenant user aid n a b note s) (frame {} s)"
  unfolding rescheduleBody_def by (intro yields_intros) (simp_all add: frame_def audited_def appointmentEvent_def)

lemma setAppointmentStateWithin_frame: "yields (setAppointmentStateWithin e tenant user aid n st reason s) (frame {} s)"
  unfolding setAppointmentStateWithin_def by (intro yields_intros) (simp_all add: frame_def audited_def appointmentEvent_def)

lemma insertCampaign_frame: "yields (insertCampaign cid tenant actor name ch src i s) (frame {} s)"
  unfolding insertCampaign_def by (intro yields_intros) (simp_all add: frame_def audited_def)

lemma createCampaignWithin_frame: "yields (createCampaignWithin cid tenant user i s) (frame {} s)"
  unfolding createCampaignWithin_def by (intro yields_intros insertCampaign_frame) simp_all

lemma draftCampaignVersionWithin_frame: "yields (draftCampaignVersionWithin vid tenant user cid subject body opt s) (frame {} s)"
  unfolding draftCampaignVersionWithin_def by (intro yields_intros) (simp_all add: frame_def audited_def)

lemma audienceBody_frame: "yields (audienceBody tenant user cid vid rule ps s) (frame {} s)"
  unfolding audienceBody_def by (intro yields_intros) (simp_all add: frame_def audited_def)

lemma approveBody_frame: "yields (approveBody tenant user cid vid n s) (frame {} s)"
  unfolding approveBody_def by (intro yields_intros) (simp_all add: frame_def audited_def)

lemma attributionBody_frame: "yields (attributionBody e tenant user r m a b s) (frame {} s)"
  unfolding attributionBody_def by (intro yields_intros) (simp_all add: frame_def audited_def)

lemma insertParty_frame: "yields (insertParty pid tenant user ptype display d dup s) (frame {T_parties} s)"
  unfolding insertParty_def by (intro yields_intros) (simp_all add: frame_def audited_def)

lemma createPartyWithin_frame: "yields (createPartyWithin pid tenant user ptype d dup s) (frame {T_parties} s)"
  unfolding createPartyWithin_def by (intro yields_intros insertParty_frame) simp_all

lemma updateBody_frame: "yields (updateBody tenant user pid n d dup s) (frame {T_parties} s)"
  unfolding updateBody_def by (intro yields_intros) (simp_all add: frame_def audited_def)

lemma mergeBody_frame: "yields (mergeBody tenant user a b reason s) (frame {T_parties} s)"
  unfolding mergeBody_def by (intro yields_intros) (simp_all add: frame_def audited_def mergedState_def Let_def)

lemma suppressContactWithin_frame: "yields (suppressContactWithin sid tenant user kind contact reason p s) (frame {T_contact} s)"
  unfolding suppressContactWithin_def by (intro yields_intros) (simp_all add: frame_def audited_def)

lemma transitionLeadBody_frame: "yields (transitionLeadBody e tenant user lid st n d note s) (frame {T_leads} s)"
  unfolding transitionLeadBody_def by (intro yields_intros) (simp_all add: frame_def audited_def leadEvent_def)

lemma handOffBody_frame: "yields (handOffBody e tenant user lid n to s) (frame {T_leads} s)"
  unfolding handOffBody_def by (intro yields_intros) (simp_all add: frame_def audited_def leadEvent_def)

lemma writeAssignment_frame: "yields (writeAssignment tenant actor lid cur n to qid reason note s) (frame {T_leads} s)"
  unfolding writeAssignment_def by (intro yields_intros) (simp_all add: frame_def audited_def leadEvent_def)

lemma assignBody_frame: "yields (assignBody e tenant user lid n to qid reason note s) (frame {T_leads} s)"
  unfolding assignBody_def by (intro yields_intros writeAssignment_frame) simp_all

lemma writeActivity_frame: "yields (writeActivity e tenant actor lid subject i due s) (frame {T_leads} s)"
  unfolding writeActivity_def by (intro yields_intros) (simp_all add: frame_def audited_def stampFirstResponseWithin_def)

lemma logActivityWithin_frame: "yields (logActivityWithin e tenant user lid i s) (frame {T_leads} s)"
  unfolding logActivityWithin_def by (intro yields_intros writeActivity_frame) simp_all

lemma recordSourceTouchWithin_frame: "yields (recordSourceTouchWithin tid tenant lid src v s) (frame {T_intake} s)"
  unfolding recordSourceTouchWithin_def by (intro yields_intros) (simp_all add: frame_def audited_def)

lemma launch_frame: "yields (launch e tenant actor vid n v c s) (frame {T_sends} s)"
  unfolding launch_def by (intro yields_intros) (simp_all add: frame_def audited_def)

lemma executeBody_frame: "yields (executeBody e tenant user cid vid n s) (frame {T_sends} s)"
  unfolding executeBody_def by (intro yields_intros launch_frame) simp_all

lemma writeResponse_frame: "yields (writeResponse e tenant actor sid kind lid detail s) (frame {} s)"
  unfolding writeResponse_def by (intro yields_intros) (simp_all add: frame_def audited_def)

lemma deliverOne_frame: "frame {} (snd acc) (snd (deliverOne t ev acc))"
  by (cases acc) (simp add: deliverOne_def frame_def Let_def)

lemma deliver_frame: "frame {} (snd acc) (snd (fold (deliverOne t) evs acc))"
  by (rule frame_fold) (rule deliverOne_frame)

lemma importRow_frame: "frame {T_parties} s (snd (importRow pid tenant user row s))"
  using yieldsD [OF createPartyWithin_frame]
  by (auto simp: importRow_def split: sum.splits prod.splits PartyCreateOutcome.splits)

lemma importRows_frame: "frame {T_parties} s (snd (importRows draw tenant user i rows s))"
proof (induction rows arbitrary: i s)
  case (Cons row rows)
  show ?case using frame_trans [OF importRow_frame Cons.IH] by (simp add: case_prod_beta)
qed simp

lemma escalateOne_frame: "frame {T_leads} (snd acc) (snd (escalateOne t tenant l acc))"
  by (cases acc) (simp add: escalateOne_def frame_def)

lemma escalate_frame: "frame {T_leads} (snd acc) (snd (fold (escalateOne t tenant) ls acc))"
  by (rule frame_fold) (rule escalateOne_frame)

lemma advanceToAppointment_frame: "frame {T_leads} s (snd (advanceToAppointment tenant actor lid l s))"
  by (simp add: advanceToAppointment_def frame_def leadEvent_def)

lemma scheduleAppointmentWithin_frame:
  "yields (scheduleAppointmentWithin e tenant user lid p a b k u s) (frame {T_leads} s)"
  unfolding scheduleAppointmentWithin_def
  by (intro yields_intros) (auto dest!: arg_cong [where f = snd] simp: advanceToAppointment_def appointmentEvent_def leadEvent_def frame_def audited_def)

section \<open>Capture, responses and sends\<close>

lemma resolveParty_frame: "yields (resolveParty pid tenant actor i s) (frame {T_parties} s)"
  unfolding resolveParty_def
  by (intro yields_intros yields_step [OF createPartyWithin_frame])
    (auto simp: yields_def split: PartyCreateOutcome.splits list.splits)

lemma claimInterest_frame:
  "yields (claimInterest e draw tenant actor key src pid i s) (frame {T_leads, T_intake} s)"
  unfolding claimInterest_def recordSourceTouchWithin_def
  by (intro yields_intros) (auto simp: frame_def audited_def recordIntake_def)

lemma captureLeadWithin_frame:
  "yields (captureLeadWithin e draw tenant user i s) (frame {T_parties, T_leads, T_intake} s)"
proof -
  let ?W = "{T_parties, T_leads, T_intake}"
  have "yields (claimInterest e draw tenant actor key src p i s1) (frame ?W s)" if "frame {T_parties} s s1" for actor key src p s1
    using that by (blast intro: yields_weaken [OF claimInterest_frame] frame_trans [of ?W] frame_mono)
  moreover have "frame ?W s (recordIntake tenant key ch l out reason print actor s1)" if "frame {T_parties} s s1"
    for key ch l out reason print actor s1
    using that by (simp add: frame_def recordIntake_def)
  ultimately show ?thesis
    unfolding captureLeadWithin_def
    by (intro yields_intros yields_step [OF resolveParty_frame]) (auto simp: yields_def split: ResolvedParty.splits)
qed

lemma writeSendEvent_frame [simp]: "T_sends \<in> W \<Longrightarrow> frame W s0 (writeSendEvent tenant sid k n ref s) = frame W s0 s"
  by (simp add: writeSendEvent_def frame_def)

lemma updateSend_frame: "updateSend row f s = Inr s' \<Longrightarrow> frame {T_sends} s s'"
  by (auto simp: updateSend_def frame_def split: if_splits)

lemma reconcileBody_frame: "yields (reconcileBody e tenant cid sid ok detail ref s) (frame {T_sends} s)"
  unfolding reconcileBody_def by (intro yields_intros) (auto intro: updateSend_frame)

lemma respondTo_frame:
  "yields (respondTo e tenant actor sid kind detail row c src s) (frame {T_parties, T_contact, T_leads, T_intake} s)"
proof -
  let ?W = "{T_parties, T_contact, T_leads, T_intake}"
  have w: "yields (writeResponse e tenant actor sid kind lid detail s1) (frame ?W s)"
    if "frame {T_parties, T_leads, T_intake} s s1 \<or> frame {T_contact} s s1" for lid s1
    using that by (blast intro: yields_weaken [OF writeResponse_frame] frame_trans [of ?W] frame_mono)
  show ?thesis
    unfolding respondTo_def
    by (intro yields_intros yields_step [OF captureLeadWithin_frame] yields_step [OF suppressContactWithin_frame])
      (auto simp: w split: LeadCaptureOutcome.splits SuppressOutcome.splits intro: frame_mono yields_Inr)
qed

lemma responseBody_frame:
  "yields (responseBody e tenant user cid sid kind detail s) (frame {T_parties, T_contact, T_leads, T_intake} s)"
  unfolding responseBody_def by (intro yields_intros respondTo_frame) simp_all

lemma writeSendEvent_before [simp]: "T_sends \<in> W \<Longrightarrow> frame W (writeSendEvent tenant sid k n ref s0) s = frame W s0 s"
  by (simp add: writeSendEvent_def frame_def)

lemma recordAnswer_frame: "yields (recordAnswer e row n answer s) (frame {T_sends} s)"
  unfolding recordAnswer_def
  by (cases answer) (auto simp: yields_def Let_def dest!: updateSend_frame)

lemma dispatchRow_frame: "yields (snd (dispatchRow e t row c m s)) (frame {T_sends} s)"
  by (auto simp: dispatchRow_def yields_def Let_def split: SendEligibility.splits sum.splits bool.splits
      dest!: updateSend_frame yieldsD [OF recordAnswer_frame])

lemma dispatchOne_row:
  assumes "dispatchOne e tenant nowGiven s = (a, r, s')"
  obtains "a = []" "r = Inr DS_drained" "s' = s" "nextDue tenant (case nowGiven of None \<Rightarrow> clock e | Some x \<Rightarrow> x) s = None"
  | t row c m where "t = (case nowGiven of None \<Rightarrow> clock e | Some x \<Rightarrow> x)" "nextDue tenant t s = Some (row, c, m)"
      "a = fst (dispatchRow e t row c m s)" "(r, s') = withTenantTransaction (\<lambda>_. snd (dispatchRow e t row c m s)) s"
proof (cases "nextDue tenant (case nowGiven of None \<Rightarrow> clock e | Some x \<Rightarrow> x) s")
  case None
  with assms that(1) show ?thesis by (simp add: dispatchOne_def)
next
  case (Some x)
  moreover obtain row c m where "x = (row, c, m)" by (cases x) auto
  ultimately show ?thesis
    using assms that(2) [OF refl] by (simp add: dispatchOne_def case_prod_beta Let_def)
qed

lemma dispatchOne_frame: "dispatchOne e tenant nowGiven s = (a, r, s') \<Longrightarrow> frame {T_sends} s s'"
proof (erule dispatchOne_row)
  fix t row c m
  assume "(r, s') = withTenantTransaction (\<lambda>_. snd (dispatchRow e t row c m s)) s"
  then have "s' = snd (withTenantTransaction (\<lambda>_. snd (dispatchRow e t row c m s)) s)" by (metis snd_conv)
  then show ?thesis by (simp add: crm_frame_transaction dispatchRow_frame)
qed simp

section \<open>Every command\<close>

fun writes :: "crm_request \<Rightarrow> crm_table set" where
  "writes (CreateParty _ _ _) = {T_parties}"
| "writes (UpdateParty _ _ _ _) = {T_parties}"
| "writes (MergeParties _ _ _) = {T_parties}"
| "writes (ImportParties _) = {T_parties}"
| "writes (SuppressContact _ _ _ _) = {T_contact}"
| "writes (CaptureLead _) = {T_parties, T_leads, T_intake}"
| "writes (TransitionLead _ _ _ _ _) = {T_leads}"
| "writes (HandOffLead _ _ _) = {T_leads}"
| "writes (AssignLead _ _ _ _ _ _) = {T_leads}"
| "writes (RunEscalationSweep _) = {T_leads}"
| "writes (LogActivity _ _) = {T_leads}"
| "writes (ScheduleAppointment _ _ _ _ _ _) = {T_leads}"
| "writes (ExecuteCampaignVersion _ _ _) = {T_sends}"
| "writes (DispatchOne _) = {T_sends}"
| "writes (ReconcileSend _ _ _ _ _) = {T_sends}"
| "writes (RecordCampaignResponse _ _ _ _) = {T_parties, T_contact, T_leads, T_intake}"
| "writes _ = {}"

lemma importParties_frame: "frame {T_parties} s (snd (importParties e tenant user rows s))"
  using importRows_frame [of s "drawn e" tenant user 0 rows]
  by (auto simp: importParties_def withTenantTransaction_def split: prod.splits)

lemma runEscalationSweep_frame: "frame {T_leads} s (snd (runEscalationSweep e tenant limit s))"
  using escalate_frame [where acc = "(r, s)" for r]
  by (simp add: runEscalationSweep_def withTenantTransaction_def Let_def case_prod_beta)

lemma drainMarketingOutbox_frame: "frame {} s (snd (drainMarketingOutbox e tenant limit s))"
  using deliver_frame [where acc = "(r, s)" for r]
  by (simp add: drainMarketingOutbox_def withTenantTransaction_def Let_def case_prod_beta)

lemma completeFinishedVersions_frame: "frame {} s (completeFinishedVersions tenant s)"
  by (simp add: completeFinishedVersions_def frame_def)

lemma createParty_frame: "frame {T_parties} s (snd (createParty e tenant user ptype d dup s))"
  unfolding createParty_def by (auto split: option.splits intro: crm_frame_transaction [OF createPartyWithin_frame])

lemma updateParty_frame: "frame {T_parties} s (snd (updateParty tenant user pid n d dup s))"
  unfolding updateParty_def by (auto split: option.splits intro: crm_frame_transaction [OF updateBody_frame])

lemma setPartyConsent_frame: "frame {} s (snd (setPartyConsent tenant user pid ch st src note s))"
  unfolding setPartyConsent_def by (auto split: option.splits intro: crm_frame_transaction [OF consentBody_frame])

lemma mergeParties_frame: "frame {T_parties} s (snd (mergeParties tenant user a b reason s))"
  unfolding mergeParties_def by (auto split: option.splits intro: crm_frame_transaction [OF mergeBody_frame])

lemma setPurposeConsent_frame: "frame {} s (snd (setPurposeConsent tenant user pid ch pu st src s))"
  unfolding setPurposeConsent_def by (auto split: option.splits intro: crm_frame_transaction [OF purposeBody_frame])

lemma suppressContact_frame: "frame {T_contact} s (snd (suppressContact e tenant user k v reason p s))"
  unfolding suppressContact_def by (auto split: option.splits intro: crm_frame_transaction [OF suppressContactWithin_frame])

lemma defineLeadSource_frame: "frame {} s (snd (defineLeadSource e tenant user code name ch md s))"
  unfolding defineLeadSource_def by (auto split: option.splits intro: crm_frame_transaction [OF defineLeadSourceWithin_frame])

lemma retireLeadSource_frame: "frame {} s (snd (retireLeadSource tenant user sid n s))"
  unfolding retireLeadSource_def by (auto split: option.splits intro: crm_frame_transaction [OF retireBody_frame])

lemma captureLead_frame: "frame {T_parties, T_leads, T_intake} s (snd (captureLead e tenant user i s))"
  unfolding captureLead_def by (auto split: option.splits intro: crm_frame_transaction [OF captureLeadWithin_frame])

lemma transitionLead_frame: "frame {T_leads} s (snd (transitionLead e tenant user lid st n d note s))"
  unfolding transitionLead_def by (auto split: option.splits intro: crm_frame_transaction [OF transitionLeadBody_frame])

lemma handOffLead_frame: "frame {T_leads} s (snd (handOffLead e tenant user lid n to s))"
  unfolding handOffLead_def by (auto split: option.splits intro: crm_frame_transaction [OF handOffBody_frame])

lemma createQueue_frame: "frame {} s (snd (createQueue e tenant user r name s))"
  unfolding createQueue_def by (auto split: option.splits intro: crm_frame_transaction [OF createQueueWithin_frame])

lemma assignLead_frame: "frame {T_leads} s (snd (assignLead e tenant user lid n to qid reason note s))"
  unfolding assignLead_def by (auto split: option.splits intro: crm_frame_transaction [OF assignBody_frame])

lemma setSlaPolicy_frame: "frame {} s (snd (setSlaPolicy e tenant user r a b s))"
  unfolding setSlaPolicy_def by (auto split: option.splits intro: crm_frame_transaction [OF slaBody_frame])

lemma logActivity_frame: "frame {T_leads} s (snd (logActivity e tenant user lid i s))"
  unfolding logActivity_def by (auto split: option.splits intro: crm_frame_transaction [OF logActivityWithin_frame])

lemma closeActivity_frame: "frame {} s (snd (closeActivity e tenant user lid aid n st s))"
  unfolding closeActivity_def by (auto split: option.splits intro: crm_frame_transaction [OF closeBody_frame])

lemma scheduleAppointment_frame: "frame {T_leads} s (snd (scheduleAppointment e tenant user lid p a b k u s))"
  unfolding scheduleAppointment_def by (auto split: option.splits intro: crm_frame_transaction [OF scheduleAppointmentWithin_frame])

lemma rescheduleAppointment_frame: "frame {} s (snd (rescheduleAppointment e tenant user aid n a b note s))"
  unfolding rescheduleAppointment_def by (auto split: option.splits intro: crm_frame_transaction [OF rescheduleBody_frame])

lemma setAppointmentState_frame: "frame {} s (snd (setAppointmentState e tenant user aid n st reason s))"
  unfolding setAppointmentState_def by (auto split: option.splits intro: crm_frame_transaction [OF setAppointmentStateWithin_frame])

lemma createCampaign_frame: "frame {} s (snd (createCampaign e tenant user i s))"
  unfolding createCampaign_def by (auto split: option.splits intro: crm_frame_transaction [OF createCampaignWithin_frame])

lemma draftCampaignVersion_frame: "frame {} s (snd (draftCampaignVersion e tenant user cid subject body opt s))"
  unfolding draftCampaignVersion_def by (auto split: option.splits intro: crm_frame_transaction [OF draftCampaignVersionWithin_frame])

lemma buildAudience_frame: "frame {} s (snd (buildAudience tenant user cid vid rule ps s))"
  unfolding buildAudience_def by (auto split: option.splits intro: crm_frame_transaction [OF audienceBody_frame])

lemma approveCampaignVersion_frame: "frame {} s (snd (approveCampaignVersion tenant user cid vid n s))"
  unfolding approveCampaignVersion_def by (auto split: option.splits intro: crm_frame_transaction [OF approveBody_frame])

lemma executeCampaignVersion_frame: "frame {T_sends} s (snd (executeCampaignVersion e tenant user cid vid n s))"
  unfolding executeCampaignVersion_def by (auto split: option.splits intro: crm_frame_transaction [OF executeBody_frame])

lemma computeAttribution_frame: "frame {} s (snd (computeAttribution e tenant user r m a b s))"
  unfolding computeAttribution_def by (auto split: option.splits intro: crm_frame_transaction [OF attributionBody_frame])

lemma reconcileSend_frame: "frame {T_sends} s (snd (reconcileSend e tenant cid sid ok detail ref s))"
  unfolding reconcileSend_def by (auto split: option.splits intro: crm_frame_transaction [OF reconcileBody_frame])

lemma recordCampaignResponse_frame: "frame {T_parties, T_contact, T_leads, T_intake} s (snd (recordCampaignResponse e tenant user cid sid kind detail s))"
  unfolding recordCampaignResponse_def by (auto split: option.splits intro: crm_frame_transaction [OF responseBody_frame])

lemmas command_frames = createParty_frame updateParty_frame setPartyConsent_frame mergeParties_frame
  setPurposeConsent_frame suppressContact_frame defineLeadSource_frame retireLeadSource_frame
  captureLead_frame transitionLead_frame handOffLead_frame createQueue_frame assignLead_frame
  setSlaPolicy_frame logActivity_frame closeActivity_frame scheduleAppointment_frame
  rescheduleAppointment_frame setAppointmentState_frame createCampaign_frame draftCampaignVersion_frame
  buildAudience_frame approveCampaignVersion_frame executeCampaignVersion_frame computeAttribution_frame
  reconcileSend_frame recordCampaignResponse_frame importParties_frame runEscalationSweep_frame
  drainMarketingOutbox_frame completeFinishedVersions_frame

lemma exec_frame: "frame (writes q) s (snd (crm_exec e tenant user q s))"
proof (cases q)
  case (DispatchOne nowGiven)
  then show ?thesis
    using dispatchOne_frame by (cases "dispatchOne e tenant nowGiven s") auto
qed (simp_all add: command_frames)

end
