(* ===== verification/CrmDelivery.thy ===== *)
theory CrmDelivery
  imports CrmFrames
begin

text \<open>
  What is asked of the message provider, and how often: a request rests on a permission found in
  the same transaction, suppressions are never lifted, and a send the provider accepted is
  settled for good.
\<close>

section \<open>The gate\<close>

lemma sendEligibility_Eligible:
  assumes "sendEligibility tenant pid channel purpose s = Eligible v"
  obtains p where "p \<in> set (parties s)" "pa_tenant p = tenant" "pa_id p = pid" "pa_status p = PS_active"
    "normalizeContact (contactKindForChannel channel) (contactOf (contactKindForChannel channel) p) = Some v"
    "consentOn tenant pid (consentChannel channel) purpose s = CS_granted"
    "\<not> suppressed tenant (contactKindForChannel channel) v s"
  using assms by (auto simp: sendEligibility_def Let_def split: option.splits if_splits dest!: find_SomeD)

definition unsettled :: "campaign_send \<Rightarrow> bool" where
  "unsettled r = (sd_state r \<in> {SD_pending, SD_deferred_quiet_hours})"

text \<open>What is due is an open send of the tenant, of a version that is executing.\<close>

lemma dueWith_Some:
  assumes "dueWith tenant t s r = Some (row, c, m)"
  obtains v where "row = r" "sd_tenant row = tenant" "unsettled row" "sd_available row \<le> t"
    "v \<in> set (campaign_versions s)" "cv_tenant v = tenant" "cv_id v = sd_version row" "cv_state v = CV_executing"
    "campaignOf v s = Some c" "templateOf v s = Some m"
  using assms by (fastforce simp: dueWith_def unsettled_def split: if_splits option.splits dest!: find_SomeD)

lemma nextDue_Some:
  assumes "nextDue tenant t s = Some (row, c, m)"
  shows "row \<in> set (campaign_sends s)" "dueWith tenant t s row = Some (row, c, m)"
proof -
  obtain x xs where "sort_key (\<lambda>x. sd_available (fst x)) (List.map_filter (dueWith tenant t s) (campaign_sends s)) = x # xs"
    "x = (row, c, m)"
    using assms by (auto simp: nextDue_def split: list.splits)
  then have "(row, c, m) \<in> set (List.map_filter (dueWith tenant t s) (campaign_sends s))"
    by (metis list.set_intros(1) set_sort)
  then obtain r where r: "r \<in> set (campaign_sends s)" "dueWith tenant t s r = Some (row, c, m)"
    by (auto simp: List.map_filter_def)
  moreover from r(2) have "row = r" by (rule dueWith_Some)
  ultimately show "row \<in> set (campaign_sends s)" "dueWith tenant t s row = Some (row, c, m)" by simp_all
qed

lemma dispatchRow_asked:
  assumes "(rq, ans) \<in> set (fst (dispatchRow e t row c m s))"
  shows "sendEligibility (sd_tenant row) (sd_party row) (sd_channel row) (consentPurpose (ca_purpose c)) s = Eligible (rq_contact rq)"
    "insideQuietHours e t (quietHoursOf c) = Inr False"
    "rq_send rq = sd_id row" "rq_channel rq = sd_channel row" "rq_attempt rq = sd_attempts row + 1"
    "rq_subject rq = ct_subject m" "rq_body rq = ct_body m" "ans = provider e rq"
    "fst (dispatchRow e t row c m s) = [(rq, ans)]"
    "snd (dispatchRow e t row c m s) =
       recordAnswer e row (sd_attempts row + 1) ans (writeSendEvent (sd_tenant row) (sd_id row) SE_requested (sd_attempts row + 1) None s)"
  using assms by (auto simp: dispatchRow_def Let_def split: SendEligibility.splits sum.splits bool.splits)

lemma exec_asked:
  assumes "(rq, ans) \<in> set (fst (crm_exec e tenant user q s))"
  obtains nowGiven t row c m where "q = DispatchOne nowGiven" "t = (case nowGiven of None \<Rightarrow> clock e | Some x \<Rightarrow> x)"
    "nextDue tenant t s = Some (row, c, m)" "(rq, ans) \<in> set (fst (dispatchRow e t row c m s))"
    "fst (crm_exec e tenant user q s) = [(rq, ans)]"
    "snd (crm_exec e tenant user q s) = snd (withTenantTransaction (\<lambda>_. snd (dispatchRow e t row c m s)) s)"
proof (cases q)
  case (DispatchOne nowGiven)
  obtain a r s' where d: "dispatchOne e tenant nowGiven s = (a, r, s')" by (cases "dispatchOne e tenant nowGiven s") auto
  with DispatchOne have x: "crm_exec e tenant user q s = (a, s')" by simp
  from d show ?thesis
  proof (cases rule: dispatchOne_row)
    case 1
    with x assms show ?thesis by simp
  next
    case (2 t row c m)
    from 2(4) have "s' = snd (withTenantTransaction (\<lambda>_. snd (dispatchRow e t row c m s)) s)" by (metis snd_conv)
    with DispatchOne 2 x assms dispatchRow_asked(9) [of rq ans e t row c m s] that show ?thesis by simp
  qed
qed (use assms in simp_all)

section \<open>Suppressions\<close>

lemma suppressContactWithin_grows:
  "yields (suppressContactWithin sid tenant user kind contact reason p s) (\<lambda>s'. \<exists>us. suppressions s' = suppressions s @ us)"
  unfolding suppressContactWithin_def by (intro yields_intros) (auto simp: audited_def)

lemma frame_contact: "frame W s s' \<Longrightarrow> T_contact \<notin> W \<Longrightarrow> suppressions s' = suppressions s"
  by (simp add: frame_def)

lemma respondTo_grows:
  "yields (respondTo e tenant actor sid kind detail row c src s) (\<lambda>s'. \<exists>us. suppressions s' = suppressions s @ us)"
proof -
  have w: "yields (writeResponse e tenant actor sid k lid detail s1) (\<lambda>s'. \<exists>us. suppressions s' = suppressions s @ us)"
    if "\<exists>us. suppressions s1 = suppressions s @ us" for k lid s1
    using that frame_contact [OF yieldsD [OF writeResponse_frame]] by (auto simp: yields_def)
  show ?thesis
    unfolding respondTo_def
    by (intro yields_step [OF captureLeadWithin_frame] yields_step [OF suppressContactWithin_grows] yields_intros)
      (auto split: LeadCaptureOutcome.splits SuppressOutcome.splits intro!: w yields_Inr dest!: frame_contact)
qed

lemma suppressions_grow: "\<exists>us. suppressions (snd (crm_exec e tenant user q s)) = suppressions s @ us"
proof (cases "T_contact \<in> writes q")
  case False
  with exec_frame [of q s e tenant user] show ?thesis by (simp add: frame_def)
next
  case True
  have "\<exists>us. suppressions (snd (suppressContact e tenant user k v r p s)) = suppressions s @ us" for k v r p
    unfolding suppressContact_def by (rule yields_transaction) (simp_all add: suppressContactWithin_grows)
  moreover have "yields (responseBody e tenant user cid sid kind detail s) (\<lambda>s'. \<exists>us. suppressions s' = suppressions s @ us)"
    for cid sid kind detail
    unfolding responseBody_def by (intro yields_intros respondTo_grows) simp_all
  then have "\<exists>us. suppressions (snd (recordCampaignResponse e tenant user cid sid kind detail s)) = suppressions s @ us"
    for cid sid kind detail
    unfolding recordCampaignResponse_def by (rule yields_transaction [rotated]) simp
  ultimately show ?thesis using True by (cases q) simp_all
qed

interpretation suppression: tracked "\<lambda>_. True" "\<lambda>s s'. \<exists>us. suppressions s' = suppressions s @ us"
  by unfold_locales (use suppressions_grow in auto)

lemma suppressed_stays:
  assumes "crm_run s msgs s'" "suppressed tenant kind v s"
  shows "suppressed tenant kind v s'"
proof -
  obtain us where "suppressions s' = suppressions s @ us" using suppression.run_tracks [OF assms(1)] by auto
  with assms(2) show ?thesis by (simp add: suppressed_def)
qed

lemma run_split:
  assumes "crm_run s msgs s'" "x \<in> set msgs"
  obtains msgs1 s1 e tenant user q y
    where "crm_run s msgs1 s1" "crm_fresh e s1" "x = (tenant, y)" "y \<in> set (fst (crm_exec e tenant user q s1))"
  using assms by (induction rule: crm_run.induct) auto

section \<open>Sends\<close>

text \<open>Attempts are bounded, an open send has one left, and the table's CHECKs hold of the row.\<close>

definition attemptsOk :: "campaign_send \<Rightarrow> bool" where
  "attemptsOk r = (0 \<le> sd_attempts r \<and> sd_attempts r \<le> MAX_ATTEMPTS \<and> (unsettled r \<longrightarrow> sd_attempts r < MAX_ATTEMPTS))"

definition sendOk :: "campaign_send \<Rightarrow> bool" where
  "sendOk r = (attemptsOk r \<and> sendRowOk r)"

lemma sendOk_attempts: "sendOk r \<Longrightarrow> attemptsOk r"
  by (simp add: sendOk_def)

definition sends_ok :: "crm_db \<Rightarrow> bool" where
  "sends_ok s = (distinct (map sd_id (campaign_sends s)) \<and> list_all sendOk (campaign_sends s))"

text \<open>What may become of a send: it stays who it is, and once settled it is never open again.\<close>

definition sendMove :: "campaign_send \<Rightarrow> campaign_send \<Rightarrow> bool" where
  "sendMove r r' =
     (sd_id r' = sd_id r \<and> sd_tenant r' = sd_tenant r \<and> sd_attempts r \<le> sd_attempts r' \<and> (unsettled r' \<longrightarrow> unsettled r))"

definition sendsMove :: "crm_db \<Rightarrow> crm_db \<Rightarrow> bool" where
  "sendsMove s s' = (\<forall>r \<in> set (campaign_sends s). \<exists>r' \<in> set (campaign_sends s'). sendMove r r')"

lemma sendMove_refl [simp]: "sendMove r r"
  by (simp add: sendMove_def)

lemma sendMove_trans: "sendMove a b \<Longrightarrow> sendMove b c \<Longrightarrow> sendMove a c"
  by (auto simp: sendMove_def)

lemma sendsMove_refl [simp]: "sendsMove s s"
  unfolding sendsMove_def using sendMove_refl by blast

lemma sendsMove_trans: "sendsMove s1 s2 \<Longrightarrow> sendsMove s2 s3 \<Longrightarrow> sendsMove s1 s3"
  unfolding sendsMove_def by (meson sendMove_trans)

lemma sends_same:
  "campaign_sends s' = campaign_sends s \<Longrightarrow> (sends_ok s' \<longleftrightarrow> sends_ok s) \<and> sendsMove s s'"
  unfolding sends_ok_def sendsMove_def using sendMove_refl by metis

abbreviation "sends_step s s' \<equiv> sends_ok s' \<and> sendsMove s s'"

lemma sends_step_map:
  assumes "campaign_sends s' = map g (campaign_sends s)" "sends_ok s"
    and "\<And>r. r \<in> set (campaign_sends s) \<Longrightarrow> sendOk (g r) \<and> sendMove r (g r)"
  shows "sends_step s s'"
proof -
  have ids: "map sd_id (campaign_sends s') = map sd_id (campaign_sends s)" using assms(1,3) by (simp add: sendMove_def)
  have "sends_ok s'" unfolding sends_ok_def ids using assms by (simp add: sends_ok_def list_all_iff)
  moreover have "sendsMove s s'" unfolding sendsMove_def using assms(1,3) by auto
  ultimately show ?thesis by blast
qed

lemma sends_step_add:
  assumes "campaign_sends s' = campaign_sends s @ xs" "sends_ok s"
    and "list_all sendOk xs" "distinct (map sd_id xs)" "sd_id ` set xs \<inter> sd_id ` set (campaign_sends s) = {}"
  shows "sends_step s s'"
  unfolding sends_ok_def sendsMove_def assms(1)
proof (intro conjI ballI)
  show "distinct (map sd_id (campaign_sends s @ xs))" "list_all sendOk (campaign_sends s @ xs)"
    using assms by (auto simp: sends_ok_def)
  fix r assume "r \<in> set (campaign_sends s)"
  then show "\<exists>r' \<in> set (campaign_sends s @ xs). sendMove r r'" by (intro bexI [of _ r]) simp_all
qed

text \<open>A write to one send.\<close>

abbreviation "putSend row r' rows \<equiv> map (\<lambda>r. if r = row then r' else r) rows"

lemma updateSend_list:
  assumes ok: "sends_ok s" and row: "row \<in> set (campaign_sends s)"
    and upd: "updateSend row f s0 = Inr s'" and s0: "campaign_sends s0 = campaign_sends s"
  shows "campaign_sends s' = putSend row ((f row)\<lparr>sd_row_version := sd_row_version row + 1\<rparr>) (campaign_sends s)"
proof -
  have "sendHere (sd_tenant row) (sd_id row) r \<longleftrightarrow> r = row" if "r \<in> set (campaign_sends s)" for r
    using ok row that distinct_map_eq [of sd_id "campaign_sends s" r row] by (auto simp: sends_ok_def sendHere_def)
  with upd s0 show ?thesis by (auto simp: updateSend_def update_where_def split: if_splits)
qed

lemma updateSend_step:
  assumes "sends_ok s" "row \<in> set (campaign_sends s)" "updateSend row f s0 = Inr s'" "campaign_sends s0 = campaign_sends s"
    and f: "attemptsOk (f row)" "sendMove row (f row)"
  shows "sends_step s s'" "(f row)\<lparr>sd_row_version := sd_row_version row + 1\<rparr> \<in> set (campaign_sends s')"
proof -
  let ?r = "(f row)\<lparr>sd_row_version := sd_row_version row + 1\<rparr>"
  note sends = updateSend_list [OF assms(1-4)]
  have "sendRowOk (f row)" using assms(3) by (simp add: updateSend_def split: if_splits)
  then have "sendOk ?r" "sendMove row ?r"
    using f by (simp_all add: sendOk_def attemptsOk_def sendRowOk_def sendMove_def unsettled_def)
  with assms(1) have "sendOk (if r = row then ?r else r) \<and> sendMove r (if r = row then ?r else r)"
    if "r \<in> set (campaign_sends s)" for r
    using that by (auto simp: sends_ok_def list_all_iff)
  then show "sends_step s s'" using sends_step_map [OF sends assms(1)] by blast
  show "?r \<in> set (campaign_sends s')" using assms(2) by (force simp: sends)
qed

lemma writeSendEvent_sends [simp]: "campaign_sends (writeSendEvent tenant sid k n ref s) = campaign_sends s"
  by (simp add: writeSendEvent_def)

text \<open>Launching a version adds sends, each with an identifier of its own.\<close>

lemma prepareSends_adds:
  "\<exists>xs. prepareSends draw t tenant vid ch gate n ps rows = rows @ xs \<and> list_all sendOk xs
     \<and> (inj draw \<longrightarrow> distinct (map sd_id xs)) \<and> sd_id ` set xs \<subseteq> draw ` {n..}"
proof (induction ps arbitrary: n rows)
  case (Cons p ps)
  let ?r = "newSend (draw n) t tenant vid p ch (gate p)"
  obtain ys where ys: "insertSend ?r rows = rows @ ys" "ys = [] \<or> ys = [?r]"
    by (cases "insertSend ?r rows = rows") (auto simp: insertSend_def split: if_splits)
  obtain xs where xs: "prepareSends draw t tenant vid ch gate (Suc n) ps (rows @ ys) = (rows @ ys) @ xs"
    "list_all sendOk xs" "inj draw \<longrightarrow> distinct (map sd_id xs)" "sd_id ` set xs \<subseteq> draw ` {Suc n..}"
    using Cons.IH [of "Suc n" "rows @ ys"] by blast
  have "sendOk ?r" "sd_id ?r = draw n" by (simp_all add: newSend_def sendOk_def attemptsOk_def sendRowOk_def lengthIn_def MAX_ATTEMPTS_def split: SendEligibility.split)
  moreover have "inj draw \<Longrightarrow> draw n \<notin> draw ` {Suc n..}" by (simp add: inj_image_mem_iff)
  then have "inj draw \<Longrightarrow> draw n \<notin> sd_id ` set xs" using xs(4) by (meson subsetD)
  moreover have "draw ` {Suc n..} \<subseteq> draw ` {n..}" by (intro image_mono) auto
  ultimately show ?case using ys xs by (intro exI [of _ "ys @ xs"]) auto
qed auto

lemma launch_step: "sends_ok s \<Longrightarrow> crm_fresh e s \<Longrightarrow> yields (launch e tenant actor vid n v c s) (sends_step s)"
  unfolding launch_def
proof (intro yields_intros)
  assume ok: "sends_ok s" and fresh: "crm_fresh e s"
  let ?gate = "\<lambda>p. sendEligibility tenant p (ca_channel c) (consentPurpose (ca_purpose c)) s"
  obtain xs where xs: "prepareSends (drawn e) (clock e) tenant (cv_id v) (ca_channel c) ?gate 1 (membersOf tenant (cv_id v) s)
      (campaign_sends s) = campaign_sends s @ xs" "list_all sendOk xs" "distinct (map sd_id xs)" "sd_id ` set xs \<subseteq> drawn e ` {1..}"
    using prepareSends_adds [of "drawn e" "clock e" tenant "cv_id v" "ca_channel c" ?gate 1 "membersOf tenant (cv_id v) s" "campaign_sends s"]
      fresh unfolding crm_fresh_def by metis
  have "range (drawn e) \<inter> sd_id ` set (campaign_sends s) = {}" using fresh by (auto simp: crm_fresh_def usedIds_def)
  moreover have "drawn e ` {1..} \<subseteq> range (drawn e)" by (rule image_mono) simp
  ultimately have "sd_id ` set xs \<inter> sd_id ` set (campaign_sends s) = {}" using xs(4) by (meson disjoint_iff subsetD)
  with xs show "sends_step s
     (audited tenant ''campaign_version'' (cv_id v) ''crm.campaign_version.executing'' actor
       (s\<lparr>campaign_sends := prepareSends (drawn e) (clock e) tenant (cv_id v) (ca_channel c) ?gate 1
            (membersOf tenant (cv_id v) s) (campaign_sends s),
          campaign_versions := vs, campaigns := cs, outbox := os\<rparr>))" for vs cs os
    by (intro sends_step_add [OF _ ok]) (simp_all add: audited_def)
qed

lemma executeBody_step: "sends_ok s \<Longrightarrow> crm_fresh e s \<Longrightarrow> yields (executeBody e tenant user cid vid n s) (sends_step s)"
  unfolding executeBody_def by (intro yields_intros launch_step) simp_all

lemma sends_ok_row: "sends_ok s \<Longrightarrow> r \<in> set (campaign_sends s) \<Longrightarrow> sendOk r"
  by (simp add: sends_ok_def list_all_iff)

lemma yields_updateSend:
  assumes "sends_ok s" "row \<in> set (campaign_sends s)" "campaign_sends s0 = campaign_sends s"
    and "attemptsOk (f row)" "sendMove row (f row)"
    and "\<And>s1. sends_step s s1 \<Longrightarrow> yields (g s1) (sends_step s)"
  shows "yields (bindR (updateSend row f s0) g) (sends_step s)"
proof (rule yields_value)
  fix s1 assume "updateSend row f s0 = Inr s1"
  with assms(6) updateSend_step(1) [of s row f s0 s1] assms(1-5) show "yields (g s1) (sends_step s)" by blast
qed

lemma sends_step_event [simp]:
  "sends_ok (writeSendEvent tenant sid k n ref s1) = sends_ok s1"
  "sendsMove s (writeSendEvent tenant sid k n ref s1) = sendsMove s s1"
  by (simp_all add: sends_ok_def sendsMove_def)

lemma sendOfCampaign_row: "sendOfCampaign tenant cid sid s = Some row \<Longrightarrow> row \<in> set (campaign_sends s)"
  by (auto simp: sendOfCampaign_def dest: find_SomeD)

lemma reconcileBody_step:
  "sends_ok s \<Longrightarrow> yields (reconcileBody e tenant cid sid ok detail ref s) (sends_step s)"
  unfolding reconcileBody_def Let_def
  by (intro yields_updateSend yields_intros)
    (auto simp: attemptsOk_def sendMove_def unsettled_def dest: sendOfCampaign_row dest!: sends_ok_row sendOk_attempts)

lemma recordAnswer_step:
  assumes "sends_ok s" "row \<in> set (campaign_sends s)" "unsettled row" "campaign_sends s0 = campaign_sends s"
  shows "yields (recordAnswer e row (sd_attempts row + 1) answer s0) (sends_step s)"
proof -
  have "attemptsOk row" using assms by (simp add: sends_ok_row sendOk_attempts)
  with assms(3) have n: "0 \<le> sd_attempts row" "sd_attempts row + 1 \<le> MAX_ATTEMPTS" by (auto simp: attemptsOk_def)
  show ?thesis
  proof (cases answer)
    case (PO_sent ref)
    with n assms(1,2,4) show ?thesis
      unfolding recordAnswer_def
      by (auto intro!: yields_updateSend yields_Inr simp: attemptsOk_def sendMove_def unsettled_def)
  next
    case (PO_failed permanent detail)
    with n assms show ?thesis
      unfolding recordAnswer_def
      by (auto intro!: yields_updateSend yields_Inr simp: attemptsOk_def sendMove_def unsettled_def Let_def)
  qed
qed

lemma dispatchRow_step:
  assumes "sends_ok s" "row \<in> set (campaign_sends s)" "unsettled row"
  shows "yields (snd (dispatchRow e t row c m s)) (sends_step s)"
proof -
  have "attemptsOk row" using assms by (simp add: sends_ok_row sendOk_attempts)
  with assms show ?thesis
    unfolding dispatchRow_def Let_def
    by (auto intro!: recordAnswer_step yields_updateSend yields_Inr yields_Inl yields_value [of "quietHoursEndAfter e t q" for q]
        split: SendEligibility.splits sum.splits bool.splits simp: attemptsOk_def sendMove_def unsettled_def)
qed

lemma dispatchOne_step:
  assumes "sends_ok s" "dispatchOne e tenant nowGiven s = (a, r, s')"
  shows "sends_step s s'"
  using assms(2)
proof (cases rule: dispatchOne_row)
  case (2 t row c m)
  then have row: "row \<in> set (campaign_sends s)" "unsettled row"
    by (auto dest: nextDue_Some elim!: dueWith_Some)
  from 2(4) have "s' = snd (withTenantTransaction (\<lambda>_. snd (dispatchRow e t row c m s)) s)" by (metis snd_conv)
  moreover have "sends_step s s" using assms(1) by simp
  ultimately show ?thesis
    using dispatchRow_step [OF assms(1) row] yields_transaction [of "sends_step s" s "\<lambda>_. snd (dispatchRow e t row c m s)"] by simp
qed (use assms(1) in simp)

lemma exec_sends_step:
  assumes "sends_ok s" "crm_fresh e s"
  shows "sends_step s (snd (crm_exec e tenant user q s))"
proof (cases "T_sends \<in> writes q")
  case False
  then have "campaign_sends (snd (crm_exec e tenant user q s)) = campaign_sends s"
    using exec_frame [of q s e tenant user] by (simp add: frame_def)
  with assms(1) sends_same show ?thesis by blast
next
  case True
  have s: "sends_step s s" using assms(1) by simp
  have "sends_step s (snd (reconcileSend e tenant cid sid ok detail ref s))" for cid sid ok detail ref
    unfolding reconcileSend_def by (rule yields_transaction) (use s reconcileBody_step [OF assms(1)] in blast)+
  moreover have "sends_step s (snd (executeCampaignVersion e tenant user cid vid n s))" for cid vid n
    unfolding executeCampaignVersion_def by (rule yields_transaction) (use s executeBody_step [OF assms] in blast)+
  moreover have "sends_step s (snd (snd (dispatchOne e tenant nowGiven s)))" for nowGiven
    using dispatchOne_step [OF assms(1)] by (metis prod.collapse)
  ultimately show ?thesis using True by (cases q) (auto simp: case_prod_beta)
qed

interpretation sends: tracked sends_ok sendsMove
proof
  show "sends_ok (s\<lparr>desk := d, stock_items := ks, vehicle_ids := vs, outbox := ob\<rparr>)" if "sends_ok s" for s d ks vs ob
    using that by (simp add: sends_ok_def)
  show "sendsMove s (s\<lparr>desk := d, stock_items := ks, vehicle_ids := vs, outbox := ob\<rparr>)" for s d ks vs ob
    using sends_same by simp
qed (use exec_sends_step sendsMove_trans in auto)

section \<open>Accepted messages\<close>

definition accepts :: "ProviderOutcome \<Rightarrow> bool" where
  "accepts ans = (case ans of PO_sent _ \<Rightarrow> True | PO_failed _ _ \<Rightarrow> False)"

definition acceptances :: "string \<Rightarrow> crm_log \<Rightarrow> nat" where
  "acceptances sid msgs = length (filter (\<lambda>(_, rq, ans). rq_send rq = sid \<and> accepts ans) msgs)"

definition referenceFits :: "ProviderOutcome \<Rightarrow> bool" where
  "referenceFits ans = (case ans of PO_sent ref \<Rightarrow> 1 \<le> length ref \<and> length ref \<le> 100 | PO_failed _ _ \<Rightarrow> True)"

definition settledSend :: "string \<Rightarrow> crm_db \<Rightarrow> bool" where
  "settledSend sid s = (\<exists>r \<in> set (campaign_sends s). sd_id r = sid \<and> \<not> unsettled r)"

text \<open>The effect of a delivery: the event that a send went out.\<close>

definition sentEvents :: "string \<Rightarrow> crm_db \<Rightarrow> nat" where
  "sentEvents sid s = length (filter (\<lambda>v. sv_send v = sid \<and> sv_type v = SE_sent) (send_events s))"

lemma settledSend_move: "settledSend sid s \<Longrightarrow> sendsMove s s' \<Longrightarrow> settledSend sid s'"
  unfolding settledSend_def sendsMove_def sendMove_def by metis

lemma settledSend_event [simp]: "settledSend sid (writeSendEvent tenant sd k n ref s) = settledSend sid s"
  by (simp add: settledSend_def)

lemma unsettled_open: "sends_ok s \<Longrightarrow> row \<in> set (campaign_sends s) \<Longrightarrow> unsettled row \<Longrightarrow> \<not> settledSend (sd_id row) s"
  using distinct_map_eq [of sd_id "campaign_sends s" _ row] unfolding settledSend_def sends_ok_def by metis

lemma sentEvents_write:
  "sentEvents sid (writeSendEvent tenant sd k n ref s) = sentEvents sid s \<or>
     sd = sid \<and> k = SE_sent \<and> sentEvents sid (writeSendEvent tenant sd k n ref s) = Suc (sentEvents sid s)"
  by (simp add: sentEvents_def writeSendEvent_def)

lemma sentEvents_first: "sentEvents sid s = 0 \<Longrightarrow> sentEvents sid (writeSendEvent tenant sid SE_sent n ref s) = 1"
  by (auto simp: sentEvents_def writeSendEvent_def filter_empty_conv list_ex_iff)

lemma sentEvents_other [simp]: "k \<noteq> SE_sent \<Longrightarrow> sentEvents sid (writeSendEvent tenant sd k n ref s) = sentEvents sid s"
  using sentEvents_write by blast

lemma updateSend_events: "updateSend row f s = Inr s' \<Longrightarrow> sentEvents sid s' = sentEvents sid s"
  by (auto simp: updateSend_def sentEvents_def split: if_splits)

text \<open>The write of an accepted message settles its row; only a reference too long or empty is refused.\<close>

abbreviation "sentRow e row ref \<equiv> \<lambda>r. r\<lparr>sd_state := SD_sent, sd_sent_at := Some (clock e), sd_attempts := sd_attempts row + 1,
     sd_ref := Some ref, sd_error := None, sd_withheld := None\<rparr>"

lemma sentRow_settles:
  assumes "sends_ok s" "row \<in> set (campaign_sends s)" "unsettled row" "campaign_sends s0 = campaign_sends s"
    and "updateSend row (sentRow e row ref) s0 = Inr s1"
  shows "settledSend (sd_id row) s1"
proof -
  have "attemptsOk (sentRow e row ref row)" "sendMove row (sentRow e row ref row)"
    using sends_ok_row [OF assms(1,2)] assms(3) by (auto simp: sendOk_def attemptsOk_def sendMove_def unsettled_def)
  from updateSend_step(2) [OF assms(1,2,5,4) this] show ?thesis
    unfolding settledSend_def by (rule bexI [rotated]) (simp add: unsettled_def)
qed

lemma sentRow_fits:
  assumes "sendOk row"
  shows "(\<exists>s1. updateSend row (sentRow e row ref) s0 = Inr s1) \<longleftrightarrow> referenceFits (PO_sent ref)"
  using assms by (auto simp: updateSend_def sendRowOk_def sendOk_def attemptsOk_def lengthIn_def referenceFits_def)

text \<open>
  No command writes a second such event: the first settles the send, and a settled send is not
  taken up.
\<close>

definition eventStep :: "crm_db \<Rightarrow> crm_db \<Rightarrow> bool" where
  "eventStep s s' =
     (\<forall>sid. sentEvents sid s' = sentEvents sid s \<or>
        (\<not> settledSend sid s \<and> settledSend sid s' \<and> sentEvents sid s' = Suc (sentEvents sid s)))"

lemma eventStep_refl [simp]: "eventStep s s"
  by (simp add: eventStep_def)

lemma eventStep_same: "(\<And>sid. sentEvents sid s' = sentEvents sid s) \<Longrightarrow> eventStep s s'"
  by (simp add: eventStep_def)

lemma recordAnswer_events:
  assumes "sends_ok s" "row \<in> set (campaign_sends s)" "unsettled row" "campaign_sends s0 = campaign_sends s"
    and "\<And>sid. sentEvents sid s0 = sentEvents sid s"
  shows "yields (recordAnswer e row (sd_attempts row + 1) answer s0) (eventStep s)"
proof (cases answer)
  case (PO_sent ref)
  show ?thesis
    unfolding PO_sent recordAnswer_def ProviderOutcome.case
  proof (intro yields_value yields_Inr)
    fix s1 assume up: "updateSend row (sentRow e row ref) s0 = Inr s1"
    have "sentEvents sid s1 = sentEvents sid s" for sid using updateSend_events [OF up] assms(5) by simp
    with sentRow_settles [OF assms(1-4) up] unsettled_open [OF assms(1-3)] sentEvents_write [where s = s1]
    show "eventStep s (writeSendEvent (sd_tenant row) (sd_id row) SE_sent (sd_attempts row + 1) (Some ref) s1)"
      unfolding eventStep_def by (metis settledSend_event)
  qed
next
  case (PO_failed permanent detail)
  with assms(5) show ?thesis
    unfolding recordAnswer_def
    by (auto intro!: yields_value yields_Inr eventStep_same simp: Let_def dest: updateSend_events)
qed

lemma dispatchRow_events:
  assumes "sends_ok s" "row \<in> set (campaign_sends s)" "unsettled row"
  shows "yields (snd (dispatchRow e t row c m s)) (eventStep s)"
  using assms unfolding dispatchRow_def Let_def
  by (auto intro!: recordAnswer_events yields_value yields_Inr yields_Inl eventStep_same dest: updateSend_events
      split: SendEligibility.splits sum.splits bool.splits)

lemma dispatchOne_events:
  assumes "sends_ok s" "dispatchOne e tenant nowGiven s = (a, r, s')"
  shows "eventStep s s'"
  using assms(2)
proof (cases rule: dispatchOne_row)
  case (2 t row c m)
  then have row: "row \<in> set (campaign_sends s)" "unsettled row"
    by (auto dest: nextDue_Some elim!: dueWith_Some)
  from 2(4) have "s' = snd (withTenantTransaction (\<lambda>_. snd (dispatchRow e t row c m s)) s)" by (metis snd_conv)
  then show ?thesis
    using dispatchRow_events [OF assms(1) row] yields_transaction [of "eventStep s" s "\<lambda>_. snd (dispatchRow e t row c m s)"] by simp
qed simp

lemma reconcileBody_events: "yields (reconcileBody e tenant cid sid ok detail ref s) (eventStep s)"
  unfolding reconcileBody_def Let_def by (intro yields_intros) (auto intro!: eventStep_same dest: updateSend_events)

lemma executeBody_events: "yields (executeBody e tenant user cid vid n s) (eventStep s)"
  unfolding executeBody_def launch_def by (intro yields_intros) (simp_all add: eventStep_same sentEvents_def audited_def)

lemma exec_events:
  assumes "sends_ok s"
  shows "eventStep s (snd (crm_exec e tenant user q s))"
proof (cases "T_sends \<in> writes q")
  case False
  then show ?thesis using exec_frame [of q s e tenant user] by (intro eventStep_same) (simp add: sentEvents_def frame_def)
next
  case True
  have "eventStep s (snd (reconcileSend e tenant cid sid ok detail ref s))" for cid sid ok detail ref
    unfolding reconcileSend_def by (rule yields_transaction) (simp_all add: reconcileBody_events)
  moreover have "eventStep s (snd (executeCampaignVersion e tenant user cid vid n s))" for cid vid n
    unfolding executeCampaignVersion_def by (rule yields_transaction) (simp_all add: executeBody_events)
  moreover have "eventStep s (snd (snd (dispatchOne e tenant nowGiven s)))" for nowGiven
    using dispatchOne_events [OF assms] by (metis prod.collapse)
  ultimately show ?thesis using True by (cases q) (auto simp: case_prod_beta)
qed

definition events_ok :: "crm_db \<Rightarrow> bool" where
  "events_ok s = (sends_ok s \<and> (\<forall>sid. sentEvents sid s = 0 \<or> sentEvents sid s = 1 \<and> settledSend sid s))"

lemma events_ok_open: "events_ok s \<Longrightarrow> \<not> settledSend sid s \<Longrightarrow> sentEvents sid s = 0"
  by (auto simp: events_ok_def)

lemma exec_events_ok:
  assumes "events_ok s" "crm_fresh e s"
  shows "events_ok (snd (crm_exec e tenant user q s))"
proof -
  have s: "sends_ok s" using assms(1) by (simp add: events_ok_def)
  let ?s' = "snd (crm_exec e tenant user q s)"
  have s': "sends_ok ?s'" "sendsMove s ?s'" using exec_sends_step [OF s assms(2)] by simp_all
  have "sentEvents sid ?s' = 0 \<or> sentEvents sid ?s' = 1 \<and> settledSend sid ?s'" for sid
  proof (cases "sentEvents sid ?s' = sentEvents sid s")
    case True
    have "sentEvents sid s = 0 \<or> sentEvents sid s = 1 \<and> settledSend sid s" using assms(1) by (simp add: events_ok_def)
    with True settledSend_move [OF _ s'(2), of sid] show ?thesis by auto
  next
    case False
    then have "\<not> settledSend sid s" "settledSend sid ?s'" "sentEvents sid ?s' = Suc (sentEvents sid s)"
      using exec_events [OF s, of e tenant user q] by (auto simp: eventStep_def)
    with events_ok_open [OF assms(1), of sid] show ?thesis by simp
  qed
  with s'(1) show ?thesis by (simp add: events_ok_def)
qed

lemma outside_events:
  "sentEvents sid (s\<lparr>desk := d, stock_items := ks, vehicle_ids := vs, outbox := ob\<rparr>) = sentEvents sid s"
  "events_ok (s\<lparr>desk := d, stock_items := ks, vehicle_ids := vs, outbox := ob\<rparr>) = events_ok s"
  by (simp_all add: events_ok_def sends_ok_def sentEvents_def settledSend_def)

interpretation deliveries: tracked events_ok "\<lambda>s s'. \<forall>sid. sentEvents sid s \<le> sentEvents sid s'"
proof
  show "\<forall>sid. sentEvents sid s \<le> sentEvents sid (snd (crm_exec e tenant user q s))" if "events_ok s" for s e tenant user q
    using exec_events [of s e tenant user q] that unfolding events_ok_def eventStep_def by (metis le_SucI order_refl)
qed (simp_all add: exec_events_ok outside_events, meson order_trans)

text \<open>What an acceptance leaves: the send settled with its one event, or nothing at all.\<close>

lemma exec_accepted:
  assumes "events_ok s" "(rq, PO_sent ref) \<in> set (fst (crm_exec e tenant user q s))"
  shows "sentEvents (rq_send rq) s = 0" "1 \<le> rq_attempt rq" "rq_attempt rq \<le> MAX_ATTEMPTS"
    "referenceFits (PO_sent ref) \<Longrightarrow> settledSend (rq_send rq) (snd (crm_exec e tenant user q s)) \<and>
       sentEvents (rq_send rq) (snd (crm_exec e tenant user q s)) = 1"
    "\<not> referenceFits (PO_sent ref) \<Longrightarrow> snd (crm_exec e tenant user q s) = s"
proof -
  have ok: "sends_ok s" using assms(1) by (simp add: events_ok_def)
  obtain t row c m where row: "nextDue tenant t s = Some (row, c, m)" and ask: "(rq, PO_sent ref) \<in> set (fst (dispatchRow e t row c m s))"
      and after: "snd (crm_exec e tenant user q s) = snd (withTenantTransaction (\<lambda>_. snd (dispatchRow e t row c m s)) s)"
    using exec_asked [OF assms(2)] by metis
  note asked = dispatchRow_asked [OF ask]
  have r: "row \<in> set (campaign_sends s)" "unsettled row" using nextDue_Some [OF row] by (auto elim: dueWith_Some)
  have sendOk: "sendOk row" using sends_ok_row [OF ok r(1)] .
  with r(2) asked(5) show "1 \<le> rq_attempt rq" "rq_attempt rq \<le> MAX_ATTEMPTS" by (auto simp: sendOk_def attemptsOk_def)
  show none: "sentEvents (rq_send rq) s = 0" using events_ok_open [OF assms(1) unsettled_open [OF ok r]] asked(3) by simp
  let ?s0 = "writeSendEvent (sd_tenant row) (sd_id row) SE_requested (sd_attempts row + 1) None s"
  have body: "snd (dispatchRow e t row c m s) = bindR (updateSend row (sentRow e row ref) ?s0) (\<lambda>s1.
      Inr (DS_sent, writeSendEvent (sd_tenant row) (sd_id row) SE_sent (sd_attempts row + 1) (Some ref) s1))"
    by (simp add: asked(10) recordAnswer_def)
  {
    assume "referenceFits (PO_sent ref)"
    then obtain s1 where up: "updateSend row (sentRow e row ref) ?s0 = Inr s1" using sentRow_fits [OF sendOk] by blast
    have "sentEvents (sd_id row) s1 = 0" using updateSend_events [OF up] none asked(3) by simp
    with up sentRow_settles [OF ok r writeSendEvent_sends up] show "settledSend (rq_send rq) (snd (crm_exec e tenant user q s)) \<and>
       sentEvents (rq_send rq) (snd (crm_exec e tenant user q s)) = 1"
      by (simp add: after body withTenantTransaction_def asked(3) sentEvents_first)
  }
  assume "\<not> referenceFits (PO_sent ref)"
  then obtain err where "updateSend row (sentRow e row ref) ?s0 = Inl err" using sentRow_fits [OF sendOk] by (metis sum.exhaust)
  then show "snd (crm_exec e tenant user q s) = s" by (simp add: after body withTenantTransaction_def)
qed

text \<open>A settled send is not asked for again, and keeps its event.\<close>

lemma settled_not_asked:
  assumes "sends_ok s" "settledSend sid s" "crm_run s msgs s'" "(tenant, rq, ans) \<in> set msgs"
  shows "rq_send rq \<noteq> sid"
proof -
  obtain msgs1 s1 e user q where run: "crm_run s msgs1 s1" and ask: "(rq, ans) \<in> set (fst (crm_exec e tenant user q s1))"
    using run_split [OF assms(3,4)] by (metis prod.inject)
  obtain t row c m where due: "nextDue tenant t s1 = Some (row, c, m)" and row: "(rq, ans) \<in> set (fst (dispatchRow e t row c m s1))"
    using exec_asked [OF ask] by metis
  have r: "row \<in> set (campaign_sends s1)" "unsettled row" using nextDue_Some [OF due] by (auto elim: dueWith_Some)
  have "settledSend sid s1" using settledSend_move [OF assms(2) sends.run_tracks [OF run assms(1)]] .
  with unsettled_open [OF sends.run_keeps [OF run assms(1)] r] dispatchRow_asked(3) [OF row] show ?thesis by auto
qed

lemma settled_keeps_event:
  assumes "events_ok s" "sentEvents sid s = 1" "crm_run s msgs s'"
  shows "sentEvents sid s' = 1"
proof -
  have "events_ok s'" "sentEvents sid s \<le> sentEvents sid s'"
    using deliveries.run_keeps [OF assms(3,1)] deliveries.run_tracks [OF assms(3,1)] by simp_all
  with assms(2) show ?thesis unfolding events_ok_def by (metis not_one_le_zero)
qed

end
