(* ===== verification/CrmPass.thy ===== *)
theory CrmPass
  imports CrmDelivery
begin

text \<open>
  The worker's pass over the due sends: it is a run of single transactions, each takes one message
  off the queue for at least a minute, and a message held for quiet hours comes back when they end.
\<close>

section \<open>A pass is a run\<close>

text \<open>Dispatch leaves the sends who they are, and the customers, leads and campaigns as they are.\<close>

definition sendsOnly :: "crm_db \<Rightarrow> crm_db \<Rightarrow> bool" where
  "sendsOnly s s' =
     (map sd_id (campaign_sends s') = map sd_id (campaign_sends s) \<and> parties s' = parties s \<and> leads s' = leads s
      \<and> campaign_versions s' = campaign_versions s \<and> campaigns s' = campaigns s \<and> campaign_templates s' = campaign_templates s)"

lemma sendsOnly_refl: "sendsOnly s s"
  by (simp add: sendsOnly_def)

lemma sendsOnly_event: "sendsOnly s s1 \<Longrightarrow> sendsOnly s (writeSendEvent tenant sid k n ref s1)"
  by (simp add: sendsOnly_def writeSendEvent_def)

lemma updateSend_only:
  assumes "updateSend row f s1 = Inr s'" "sendsOnly s s1" "\<And>r. sd_id (f r) = sd_id r"
  shows "sendsOnly s s'"
proof -
  have "map sd_id (update_where (sendHere (sd_tenant row) (sd_id row)) (\<lambda>r. (f r)\<lparr>sd_row_version := sd_row_version r + 1\<rparr>)
      (campaign_sends s1)) = map sd_id (campaign_sends s1)"
    by (rule map_update_where) (simp add: assms(3))
  with assms(1,2) show ?thesis by (auto simp: sendsOnly_def updateSend_def split: if_splits)
qed

lemma recordAnswer_only: "sendsOnly s s1 \<Longrightarrow> yields (recordAnswer e row n answer s1) (sendsOnly s)"
  unfolding recordAnswer_def
  by (cases answer) (auto simp: yields_def Let_def intro!: sendsOnly_event elim: updateSend_only)

lemma dispatchRow_only: "yields (snd (dispatchRow e t row c m s)) (sendsOnly s)"
  unfolding dispatchRow_def Let_def
  by (auto split: SendEligibility.splits sum.splits bool.splits simp: sendsOnly_refl
      intro!: recordAnswer_only sendsOnly_event yields_value yields_Inr yields_Inl elim!: updateSend_only)

lemma dispatchOne_only:
  assumes "dispatchOne e tenant nowGiven s = (a, r, s')"
  shows "sendsOnly s s'"
  using assms
proof (cases rule: dispatchOne_row)
  case (2 t row c m)
  from 2(4) have "s' = snd (withTenantTransaction (\<lambda>_. snd (dispatchRow e t row c m s)) s)" by (metis snd_conv)
  then show ?thesis
    using yields_transaction [of "sendsOnly s" s "\<lambda>_. snd (dispatchRow e t row c m s)"] dispatchRow_only sendsOnly_refl by simp
qed (simp add: sendsOnly_refl)

lemma sendsOnly_fresh: "sendsOnly s s' \<Longrightarrow> crm_fresh e s' \<longleftrightarrow> crm_fresh e s"
  by (auto simp: sendsOnly_def crm_fresh_def usedIds_def simp flip: set_map)

lemma dispatchLoop_run:
  assumes "\<forall>i. crm_fresh (es i) s" "dispatchLoop es tenant nowGiven n i r s = (a, res, s')"
  shows "crm_run s (map (Pair tenant) a) s' \<and> (\<forall>j. crm_fresh (es j) s')"
  using assms
proof (induction n arbitrary: i r s a res)
  case (Suc n)
  obtain b step s1 where one: "dispatchOne (es i) tenant nowGiven s = (b, step, s1)"
    by (cases "dispatchOne (es i) tenant nowGiven s") auto
  have first: "crm_run s (map (Pair tenant) b) s1"
    using dispatchOne_run [of "es i" s tenant nowGiven] Suc.prems(1) one by simp
  have fresh: "\<forall>j. crm_fresh (es j) s1" using Suc.prems(1) sendsOnly_fresh [OF dispatchOne_only [OF one]] by blast
  consider (stop) "a = b" "s' = s1"
    | (go) st c where "step = Inr st" "dispatchLoop es tenant nowGiven n (Suc i) (tallyStep st r) s1 = (c, res, s')" "a = b @ c"
    using Suc.prems(2) one by (auto split: sum.splits DispatchStep.splits prod.splits)
  then show ?case
  proof cases
    case go
    with Suc.IH [OF fresh go(2)] crm_run_trans [OF _ first] show ?thesis by simp
  qed (use first fresh in simp)
qed (auto intro: run_none)

lemma dispatchDueSends_run:
  assumes "\<forall>i. crm_fresh (es i) s" "dispatchDueSends es tenant limit nowGiven s = (a, res, s')"
  shows "crm_run s (map (Pair tenant) a) s'"
proof -
  obtain r s1 where loop: "dispatchLoop es tenant nowGiven (bounded 200 25 limit) 0 noDispatch s = (a, r, s1)"
    and s': "s' = s1 \<or> s' = completeFinishedVersions tenant s1"
    using assms(2) by (auto simp: dispatchDueSends_def split: prod.splits sum.splits)
  from dispatchLoop_run [OF assms(1) loop] have "crm_run s (map (Pair tenant) a) s1" "crm_fresh (es 0) s1" by auto
  with s' run_call [of s "map (Pair tenant) a" s1 "es 0" tenant "[]" CompleteFinishedVersions] show ?thesis by auto
qed

text \<open>So is the worker's pass over the tenants: what holds over every run holds over it.\<close>

lemma fresh_ids: "usedIds s' = usedIds s \<Longrightarrow> crm_fresh e s' \<longleftrightarrow> crm_fresh e s"
  by (simp add: crm_fresh_def)

lemma sendsOnly_trans: "sendsOnly s1 s2 \<Longrightarrow> sendsOnly s2 s3 \<Longrightarrow> sendsOnly s1 s3"
  by (simp add: sendsOnly_def)

lemma dispatchLoop_only: "dispatchLoop es tenant nowGiven n i r s = (a, res, s') \<Longrightarrow> sendsOnly s s'"
proof (induction n arbitrary: i r s a)
  case (Suc n)
  obtain b step s1 where one: "dispatchOne (es i) tenant nowGiven s = (b, step, s1)"
    by (cases "dispatchOne (es i) tenant nowGiven s") auto
  have "sendsOnly s1 s'"
    using Suc one sendsOnly_refl by (auto split: sum.splits DispatchStep.splits prod.splits)
  with dispatchOne_only [OF one] show ?case by (rule sendsOnly_trans)
qed (simp add: sendsOnly_refl)

lemma dispatchDueSends_ids:
  assumes "dispatchDueSends es tenant limit nowGiven s = (a, res, s')"
  shows "usedIds s' = usedIds s"
proof -
  obtain r s1 where loop: "dispatchLoop es tenant nowGiven (bounded 200 25 limit) 0 noDispatch s = (a, r, s1)"
    and s': "s' = s1 \<or> s' = completeFinishedVersions tenant s1"
    using assms by (auto simp: dispatchDueSends_def split: prod.splits sum.splits)
  from dispatchLoop_only [OF loop] s' show ?thesis
    by (auto simp: sendsOnly_def usedIds_def completeFinishedVersions_def)
qed

lemma drain_run:
  assumes "crm_fresh e s" "drainMarketingOutbox e tenant limit s = (res, s')"
  shows "crm_run s [] s'" "usedIds s' = usedIds s"
  using run_call [OF run_none assms(1), of tenant "[]" "DrainMarketingOutbox limit"]
    exec_frame [of "DrainMarketingOutbox limit" s e tenant "[]"] assms(2)
  by (simp_all add: frame_def usedIds_def)

lemma dispatchTenants_run:
  assumes "\<forall>k i. crm_fresh (es k i) s" "dispatchTenants es limit k tenants s = (a, res, s')"
  shows "\<exists>msgs. crm_run s msgs s' \<and> map snd msgs = a"
  using assms
proof (induction tenants arbitrary: k s a res)
  case Nil
  then show ?case by (intro exI [of _ "[]"]) (simp add: run_none)
next
  case (Cons tenant tenants)
  obtain d s1 where drain: "drainMarketingOutbox (es k 0) tenant None s = (d, s1)"
    by (cases "drainMarketingOutbox (es k 0) tenant None s")
  note first = drain_run [OF spec [OF spec [OF Cons.prems(1)]] drain]
  have fresh1: "\<forall>k i. crm_fresh (es k i) s1" using Cons.prems(1) fresh_ids [OF first(2)] by blast
  show ?case
  proof (cases d)
    case (Inl err)
    with Cons.prems(2) drain first(1) show ?thesis by (intro exI [of _ "[]"]) simp
  next
    case (Inr d')
    obtain b r s2 where pass: "dispatchDueSends (\<lambda>i. es k (Suc i)) tenant (Some limit) None s1 = (b, r, s2)"
      by (cases "dispatchDueSends (\<lambda>i. es k (Suc i)) tenant (Some limit) None s1") auto
    have second: "crm_run s (map (Pair tenant) b) s2"
      using crm_run_trans [OF dispatchDueSends_run [OF _ pass] first(1)] fresh1 by simp
    have fresh2: "\<forall>k i. crm_fresh (es k i) s2" using fresh1 fresh_ids [OF dispatchDueSends_ids [OF pass]] by blast
    show ?thesis
    proof (cases r)
      case (Inl err)
      with Cons.prems(2) drain Inr pass second show ?thesis by (intro exI [of _ "map (Pair tenant) b"]) (simp add: o_def)
    next
      case r: (Inr r')
      obtain c rs where rest: "dispatchTenants es limit (Suc k) tenants s2 = (c, rs, s')" "a = b @ c"
        using Cons.prems(2) drain Inr pass r by (auto split: prod.splits)
      obtain msgs where "crm_run s2 msgs s'" "map snd msgs = c" using Cons.IH [OF fresh2 rest(1)] by blast
      with crm_run_trans [OF _ second] rest(2) show ?thesis by (intro exI [of _ "map (Pair tenant) b @ msgs"]) (simp add: o_def)
    qed
  qed
qed

section \<open>Quiet hours\<close>

text \<open>Inside them the wait is at least a minute, and it is over within a day.\<close>

definition clockFaces :: "crm_env \<Rightarrow> bool" where
  "clockFaces e = (\<forall>t zone h m. intlParts e t zone = Some (h, m) \<longrightarrow> h < 24 \<and> m < 60)"

lemma localMinute_range:
  assumes "clockFaces e" "localMinuteOfDay e t zone = Inr m"
  shows "0 \<le> m" "m < 1440"
proof -
  obtain h k where "intlParts e t zone = Some (h, k)" "m = int h * 60 + int k"
    using assms(2) by (auto simp: localMinuteOfDay_def split: option.splits)
  with assms(1) have "h < 24" "k < 60" "m = int h * 60 + int k" unfolding clockFaces_def by blast+
  then show "0 \<le> m" "m < 1440" by linarith+
qed

lemma quietHoursEndAfter_inside:
  assumes "insideQuietHours e t q = Inr True" "quietHoursEndAfter e t q = Inr t'"
  obtains m where "localMinuteOfDay e t (timeZone q) = Inr m"
    "t' = t + (if endMinute q > m then endMinute q - m else 1440 - m + endMinute q) * 60000"
  using assms by (auto simp: quietHoursEndAfter_def Let_def)

lemma quietHoursEndAfter_later:
  assumes "clockFaces e" "0 \<le> endMinute q" "insideQuietHours e t q = Inr True" "quietHoursEndAfter e t q = Inr t'"
  shows "t + 60000 \<le> t'"
  using assms(3,4)
proof (rule quietHoursEndAfter_inside)
  fix m
  assume m: "localMinuteOfDay e t (timeZone q) = Inr m"
    "t' = t + (if endMinute q > m then endMinute q - m else 1440 - m + endMinute q) * 60000"
  with localMinute_range [OF assms(1) m(1)] assms(2) show ?thesis by auto
qed

text \<open>
  What a zone adds to the instant's own minute of the day.  The instant given has the local minute
  at which the window ends, moved by whatever the zone's offset changes in between.
\<close>

definition zoneOffset :: "crm_env \<Rightarrow> string \<Rightarrow> int \<Rightarrow> int" where
  "zoneOffset e zone u = (case localMinuteOfDay e u zone of Inr m \<Rightarrow> (m - u div 60000) mod 1440 | Inl _ \<Rightarrow> 0)"

lemma mod_offsets: "(a + (x mod c - y mod c)) mod c = (a + (x - y)) mod (c :: int)"
  by (metis mod_add_right_eq mod_diff_eq)

lemma quiet_end_minute:
  assumes "clockFaces e" "0 \<le> endMinute q" "endMinute q < 1440"
    and "insideQuietHours e t q = Inr True" "quietHoursEndAfter e t q = Inr t'" "localMinuteOfDay e t' (timeZone q) = Inr m'"
  shows "t < t'" "t' \<le> t + 86400000"
    "m' = (endMinute q + (zoneOffset e (timeZone q) t' - zoneOffset e (timeZone q) t)) mod 1440"
proof -
  obtain m where m: "localMinuteOfDay e t (timeZone q) = Inr m"
    and t': "t' = t + (if endMinute q > m then endMinute q - m else 1440 - m + endMinute q) * 60000"
    using quietHoursEndAfter_inside [OF assms(4,5)] .
  define until where "until = (if endMinute q > m then endMinute q - m else 1440 - m + endMinute q)"
  have t'_until: "t' = t + until * 60000" using t' by (simp add: until_def)
  have range: "0 \<le> m" "m < 1440" "0 \<le> m'" "m' < 1440" using localMinute_range [OF assms(1)] m assms(6) by blast+
  then have "0 < until" "until \<le> 1440" using assms(2,3) by (auto simp: until_def)
  with t'_until show "t < t'" "t' \<le> t + 86400000" by simp_all
  have minutes: "t' div 60000 = t div 60000 + until" using t'_until by simp
  have "(endMinute q + (zoneOffset e (timeZone q) t' - zoneOffset e (timeZone q) t)) mod 1440
      = (endMinute q + ((m' - (t div 60000 + until)) - (m - t div 60000))) mod 1440"
    by (simp only: zoneOffset_def m assms(6) minutes sum.case mod_offsets)
  also have "\<dots> = (m' + (if endMinute q > m then 0 else - 1440)) mod 1440"
    by (rule arg_cong [where f = "\<lambda>x. x mod 1440"]) (simp add: until_def)
  also have "\<dots> = m' mod 1440" by simp
  also have "\<dots> = m'" using range by simp
  finally show "m' = (endMinute q + (zoneOffset e (timeZone q) t' - zoneOffset e (timeZone q) t)) mod 1440" by simp
qed

lemma end_is_outside:
  assumes "localMinuteOfDay e t' (timeZone q) = Inr (endMinute q)" "startMinute q \<noteq> endMinute q"
  shows "insideQuietHours e t' q = Inr False"
  using assms by (simp add: insideQuietHours_def)

text \<open>
  Where the zone keeps its offset for the day, the instant given is the first minute outside:
  every earlier minute from now on is inside.
\<close>

definition steadyZone :: "crm_env \<Rightarrow> string \<Rightarrow> int \<Rightarrow> bool" where
  "steadyZone e zone t =
     (\<exists>off. \<forall>u. t \<le> u \<and> u \<le> t + 86400000 \<longrightarrow> localMinuteOfDay e u zone = Inr ((u div 60000 + off) mod 1440))"

lemma later_minute:
  fixes x k :: int
  assumes "0 \<le> k" "k \<le> 1440"
  shows "(x + k) mod 1440 = (if x mod 1440 + k < 1440 then x mod 1440 + k else x mod 1440 + k - 1440)"
proof -
  define y where "y = x mod 1440"
  have y: "0 \<le> y" "y < 1440" by (simp_all add: y_def)
  have "(y + k) mod 1440 = (if y + k < 1440 then y + k else y + k - 1440)"
  proof (cases "y + k < 1440")
    case False
    then have "(y + k) mod 1440 = (y + k - 1440) mod 1440" by (intro mod_pos_geq) simp_all
    also have "\<dots> = y + k - 1440" by (rule mod_pos_pos_trivial) (use False y assms in simp_all)
    finally show ?thesis using False by simp
  qed (use y assms in simp)
  then show ?thesis by (simp add: y_def mod_add_left_eq)
qed

lemma minutes_between: "(t::int) \<le> u \<Longrightarrow> \<exists>k \<ge> 0. u div 60000 = t div 60000 + k"
  by (rule exI [of _ "u div 60000 - t div 60000"]) (simp add: zdiv_mono1)

lemma quiet_end:
  assumes steady: "steadyZone e (timeZone q) t"
    and range: "0 \<le> startMinute q" "startMinute q < 1440" "0 \<le> endMinute q" "endMinute q < 1440"
    and inside: "insideQuietHours e t q = Inr True" and t': "quietHoursEndAfter e t q = Inr t'"
  shows "t < t'" "t' \<le> t + 86400000" "insideQuietHours e t' q = Inr False"
    "t \<le> u \<Longrightarrow> u div 60000 < t' div 60000 \<Longrightarrow> insideQuietHours e u q = Inr True"
proof -
  obtain off where zone: "\<And>u. t \<le> u \<Longrightarrow> u \<le> t + 86400000 \<Longrightarrow> localMinuteOfDay e u (timeZone q) = Inr ((u div 60000 + off) mod 1440)"
    using steady by (auto simp: steadyZone_def)
  define x where "x = t div 60000 + off"
  define until where "until = (if endMinute q > x mod 1440 then endMinute q - x mod 1440 else 1440 - x mod 1440 + endMinute q)"
  have now: "localMinuteOfDay e t (timeZone q) = Inr (x mod 1440)" using zone [of t] by (simp add: x_def)
  with t' inside have t': "t' = t + until * 60000" by (simp add: quietHoursEndAfter_def until_def Let_def)
  have ne: "startMinute q \<noteq> endMinute q" using inside by (auto simp: insideQuietHours_def)
  have x: "0 \<le> x mod 1440" "x mod 1440 < 1440" by simp_all
  with range(3,4) have u: "0 < until" "until \<le> 1440" by (auto simp: until_def)
  with t' show "t < t'" "t' \<le> t + 86400000" by simp_all
  have at_minute: "insideQuietHours e w q = Inr (if startMinute q < endMinute q
      then startMinute q \<le> (x + k) mod 1440 \<and> (x + k) mod 1440 < endMinute q
      else startMinute q \<le> (x + k) mod 1440 \<or> (x + k) mod 1440 < endMinute q)"
    if "t \<le> w" "w \<le> t + 86400000" "w div 60000 = t div 60000 + k" for w k
    using that zone [of w] inside by (auto simp: insideQuietHours_def x_def algebra_simps)
  have "t' div 60000 = t div 60000 + until" using t' by simp
  with at_minute [of t' until] u t' inside at_minute [of t 0] x range ne
  show "insideQuietHours e t' q = Inr False"
    by (simp add: later_minute until_def split: if_splits)
  assume "t \<le> u" "u div 60000 < t' div 60000"
  then obtain k where k: "0 \<le> k" "k < until" "u div 60000 = t div 60000 + k"
    using minutes_between [of t u] t' by auto
  have "u \<le> t + 86400000" using k u by linarith
  with at_minute [of u k] at_minute [of t 0] inside \<open>t \<le> u\<close> k u x range ne
  show "insideQuietHours e u q = Inr True"
    by (simp add: later_minute until_def split: if_splits)
qed

section \<open>Progress\<close>

definition dueCount :: "string \<Rightarrow> int \<Rightarrow> crm_db \<Rightarrow> nat" where
  "dueCount tenant t s = length (filter (\<lambda>r. dueWith tenant t s r \<noteq> None) (campaign_sends s))"

lemma dueWith_cong: "sendsOnly s s' \<Longrightarrow> dueWith tenant t s' = dueWith tenant t s"
proof -
  assume s: "sendsOnly s s'"
  then have "campaignOf v s' = campaignOf v s" "templateOf v s' = templateOf v s" for v
    by (simp_all add: sendsOnly_def campaignOf_def templateOf_def)
  with s show ?thesis by (intro ext) (simp add: dueWith_def sendsOnly_def split: option.split)
qed

lemma nextDue_None: "nextDue tenant t s = None \<longleftrightarrow> dueCount tenant t s = 0"
proof -
  have "nextDue tenant t s = None \<longleftrightarrow> List.map_filter (dueWith tenant t s) (campaign_sends s) = []"
    by (auto simp: nextDue_def split: list.splits) (metis length_0_conv length_sort)
  then show ?thesis by (auto simp: dueCount_def List.map_filter_def)
qed

lemma count_put:
  assumes "distinct rows" "row \<in> set rows" "P row" "\<not> P r'"
  shows "length (filter P rows) = Suc (length (filter P (putSend row r' rows)))"
  using assms
proof (induction rows)
  case (Cons r rows)
  show ?case
  proof (cases "r = row")
    case True
    with Cons.prems(1) have "putSend row r' rows = rows" by (intro map_idI) auto
    with True Cons.prems show ?thesis by simp
  qed (use Cons in simp)
qed simp

text \<open>A committed step leaves its message settled, or available only a minute later or more.\<close>

definition takenOff :: "int \<Rightarrow> campaign_send \<Rightarrow> crm_db \<Rightarrow> crm_db \<Rightarrow> bool" where
  "takenOff t row s s' =
     (\<exists>r'. campaign_sends s' = putSend row r' (campaign_sends s) \<and> (unsettled r' \<longrightarrow> t + 60000 \<le> sd_available r'))"

lemma takenOff_event [simp]: "takenOff t row s (writeSendEvent tenant sid k n ref s1) = takenOff t row s s1"
  by (simp add: takenOff_def)

lemma dispatchRow_goes_on: "snd (dispatchRow e t row c m s) \<noteq> Inr (DS_drained, s')"
  by (auto simp: dispatchRow_def recordAnswer_def Let_def split: SendEligibility.splits sum.splits bool.splits ProviderOutcome.splits)

lemma yields_taken:
  assumes "sends_ok s" "row \<in> set (campaign_sends s)" "campaign_sends s0 = campaign_sends s"
    and "unsettled (f row) \<Longrightarrow> t + 60000 \<le> sd_available (f row)"
    and "\<And>s1. takenOff t row s s1 \<Longrightarrow> yields (g s1) (takenOff t row s)"
  shows "yields (bindR (updateSend row f s0) g) (takenOff t row s)"
proof (rule yields_value)
  fix s1 assume "updateSend row f s0 = Inr s1"
  from updateSend_list [OF assms(1,2) this assms(3)] assms(4)
  have "takenOff t row s s1" unfolding takenOff_def by (auto simp: unsettled_def)
  with assms(5) show "yields (g s1) (takenOff t row s)" by blast
qed

lemma backoff_minute: "1 \<le> n \<Longrightarrow> 60 \<le> backoffSeconds n"
proof -
  assume "1 \<le> n"
  then have "nat (min (n - 1) 2) \<in> {0, 1, 2}" by auto
  then show ?thesis by (auto simp: backoffSeconds_def RETRY_BACKOFF_SECONDS_def)
qed

lemma recordAnswer_taken:
  assumes "sends_ok s" "row \<in> set (campaign_sends s)" "campaign_sends s0 = campaign_sends s" "t \<le> clock e" "1 \<le> n"
  shows "yields (recordAnswer e row n answer s0) (takenOff t row s)"
  using assms backoff_minute [OF assms(5)]
  by (cases answer) (auto simp: recordAnswer_def Let_def unsettled_def intro!: yields_taken yields_Inr)

lemma dispatchRow_taken:
  assumes "sends_ok s" "row \<in> set (campaign_sends s)" "t \<le> clock e" "clockFaces e" "0 \<le> ca_quiet_end c"
  shows "yields (snd (dispatchRow e t row c m s)) (takenOff t row s)"
proof -
  have "1 \<le> sd_attempts row + 1" using sends_ok_row [OF assms(1,2)] by (simp add: sendOk_def attemptsOk_def)
  moreover have "t + 60000 \<le> t'" if "quietHoursEndAfter e t (quietHoursOf c) = Inr t'" "insideQuietHours e t (quietHoursOf c) = Inr True" for t'
    using quietHoursEndAfter_later [OF assms(4) _ that(2,1)] assms(5) by (simp add: quietHoursOf_def)
  ultimately show ?thesis
    using assms(1-3) unfolding dispatchRow_def Let_def
    by (auto intro!: recordAnswer_taken yields_taken yields_Inr yields_Inl yields_value [of "quietHoursEndAfter e t q" for q]
        split: SendEligibility.splits sum.splits bool.splits simp: unsettled_def)
qed

text \<open>The instant a transaction of the pass works with: the one handed in, or the database's.\<close>

abbreviation stepNow :: "int option \<Rightarrow> crm_env \<Rightarrow> int" where
  "stepNow nowGiven e \<equiv> (case nowGiven of None \<Rightarrow> clock e | Some x \<Rightarrow> x)"

lemma dueWith_later: "dueWith tenant t s r = Some x \<Longrightarrow> t \<le> u \<Longrightarrow> dueWith tenant u s r = Some x"
  by (auto simp: dueWith_def split: if_splits)

lemma dueWith_earlier: "dueWith tenant t s r = Some x \<Longrightarrow> sd_available r \<le> u \<Longrightarrow> dueWith tenant u s r = Some x"
  by (auto simp: dueWith_def split: if_splits)

lemma dueCount_later: "t \<le> u \<Longrightarrow> dueCount tenant u s = 0 \<Longrightarrow> dueCount tenant t s = 0"
  by (auto simp: dueCount_def filter_empty_conv dest: dueWith_later)

lemma nextDue_least:
  assumes "nextDue tenant t s = Some (row, c, m)" "r \<in> set (campaign_sends s)" "dueWith tenant t s r \<noteq> None"
  shows "sd_available row \<le> sd_available r"
proof -
  let ?due = "List.map_filter (dueWith tenant t s) (campaign_sends s)"
  obtain xs where xs: "sort_key (\<lambda>x. sd_available (fst x)) ?due = (row, c, m) # xs"
    using assms(1) by (auto simp: nextDue_def split: list.splits)
  have "sorted (map (\<lambda>x. sd_available (fst x)) ((row, c, m) # xs))" unfolding xs [symmetric] by (rule sorted_sort_key)
  obtain x where x: "dueWith tenant t s r = Some x" using assms(3) by auto
  then have "fst x = r" by (cases x) (auto elim: dueWith_Some)
  have "x \<in> set ?due" unfolding List.map_filter_def using x assms(2) by (cases x) (auto intro!: image_eqI [of _ _ r])
  then have "x \<in> set ((row, c, m) # xs)" unfolding xs [symmetric] by simp
  with \<open>sorted _\<close> \<open>fst x = r\<close> show ?thesis by auto
qed

lemma dispatchOne_takes:
  assumes "sends_ok s" "stepNow nowGiven e \<le> clock e" "clockFaces e" "list_all (\<lambda>c. 0 \<le> ca_quiet_end c) (campaigns s)"
    and one: "dispatchOne e tenant nowGiven s = (a, Inr step, s')" and more: "step \<noteq> DS_drained"
  obtains row c m r' where "nextDue tenant (stepNow nowGiven e) s = Some (row, c, m)"
    "campaign_sends s' = putSend row r' (campaign_sends s)" "\<And>u. u < stepNow nowGiven e + 60000 \<Longrightarrow> dueWith tenant u s r' = None"
  using one
proof (cases rule: dispatchOne_row)
  case 1
  with more show ?thesis by simp
next
  case (2 t row c m)
  from nextDue_Some [OF 2(2)] have row: "row \<in> set (campaign_sends s)" and due: "dueWith tenant t s row = Some (row, c, m)" .
  from due have "c \<in> set (campaigns s)" by (auto simp: campaignOf_def elim!: dueWith_Some dest!: find_SomeD)
  with assms(4) have "0 \<le> ca_quiet_end c" by (auto simp: list_all_iff)
  with dispatchRow_taken [OF assms(1) row assms(2) [folded 2(1)] assms(3)]
  have y: "yields (snd (dispatchRow e t row c m s)) (takenOff t row s)" by blast
  from 2(4) have "withTenantTransaction (\<lambda>_. snd (dispatchRow e t row c m s)) s = (Inr step, s')" by metis
  then have "snd (dispatchRow e t row c m s) = Inr (step, s')" by (simp add: withTenantTransaction_ok)
  from yieldsD [OF y this] obtain r' where r': "campaign_sends s' = putSend row r' (campaign_sends s)" "unsettled r' \<longrightarrow> t + 60000 \<le> sd_available r'"
    unfolding takenOff_def by blast
  have "dueWith tenant u s r' = None" if "u < t + 60000" for u using r'(2) that by (auto simp: dueWith_def unsettled_def)
  with that 2(1,2) r'(1) show ?thesis by blast
qed

text \<open>
  A step takes up one message of those due by any instant of the next minute; where messages have
  been due since \<open>t\<close>, it is one of these.
\<close>

lemma put_due_count:
  assumes "sends_ok s" "row \<in> set (campaign_sends s)" "sendsOnly s s'" "campaign_sends s' = putSend row r' (campaign_sends s)"
    and "dueWith tenant u s row \<noteq> None" "dueWith tenant u s r' = None"
  shows "dueCount tenant u s = Suc (dueCount tenant u s')"
proof -
  have "distinct (campaign_sends s)" using assms(1) by (simp add: sends_ok_def distinct_map)
  from count_put [OF this assms(2), of "\<lambda>r. dueWith tenant u s r \<noteq> None" r'] assms(5,6) show ?thesis
    by (simp add: dueCount_def dueWith_cong [OF assms(3)] assms(4))
qed

lemma dispatchOne_progress:
  assumes "sends_ok s" "clockFaces e" "list_all (\<lambda>c. 0 \<le> ca_quiet_end c) (campaigns s)"
    and T: "T = stepNow nowGiven e" "T \<le> clock e" "t \<le> T" "T \<le> u" "u < t + 60000"
    and one: "dispatchOne e tenant nowGiven s = (a, Inr step, s')" and more: "step \<noteq> DS_drained"
  shows "dueCount tenant u s = Suc (dueCount tenant u s')" "dueCount tenant t s' = dueCount tenant t s - 1"
proof -
  obtain row c m r' where nd: "nextDue tenant T s = Some (row, c, m)"
    and r': "campaign_sends s' = putSend row r' (campaign_sends s)" "\<And>v. v < T + 60000 \<Longrightarrow> dueWith tenant v s r' = None"
    using dispatchOne_takes [OF assms(1) T(2) [unfolded T(1)] assms(2,3) one more] unfolding T(1) by blast
  note due = nextDue_Some [OF nd] and only = dispatchOne_only [OF one]
  show "dueCount tenant u s = Suc (dueCount tenant u s')"
    by (rule put_due_count [OF assms(1) due(1) only r'(1)]) (use dueWith_later [OF due(2) T(4)] r'(2) T(3,5) in simp_all)
  show "dueCount tenant t s' = dueCount tenant t s - 1"
  proof (cases "dueWith tenant t s row = None")
    case True
    have "dueWith tenant t s r = None" if "r \<in> set (campaign_sends s)" for r
    proof (rule ccontr)
      assume r: "dueWith tenant t s r \<noteq> None"
      then have "dueWith tenant T s r \<noteq> None" using dueWith_later [OF _ T(3)] by fastforce
      with nextDue_least [OF nd that] have "sd_available row \<le> sd_available r" .
      also have "sd_available r \<le> t" using r by (auto simp: dueWith_def split: if_splits)
      finally show False using dueWith_earlier [OF due(2)] True by simp
    qed
    moreover have "dueWith tenant t s r' = None" using r'(2) T(3) by simp
    ultimately have "dueCount tenant t s = 0 \<and> dueCount tenant t s' = 0"
      by (auto simp: dueCount_def filter_empty_conv dueWith_cong [OF only] r'(1))
    then show ?thesis by simp
  next
    case False
    with put_due_count [OF assms(1) due(1) only r'(1) False] r'(2) T(3) show ?thesis by simp
  qed
qed

lemma dispatchOne_drained:
  assumes "dispatchOne e tenant nowGiven s = (a, Inr DS_drained, s')"
  shows "s' = s" "dueCount tenant (stepNow nowGiven e) s = 0"
  using assms dispatchRow_goes_on by (auto elim!: dispatchOne_row simp: nextDue_None withTenantTransaction_ok dest!: sym [of "(_, _)"])

lemma tallyStep_claims [simp]: "dr_claimed (tallyStep step r) = Suc (dr_claimed r)"
  by (simp add: tallyStep_def Let_def split: DispatchStep.splits)

text \<open>
  The pass: its transactions work at instants from \<open>t\<close> to \<open>u\<close>, less than a minute apart, none
  later than the database's own clock.
\<close>

definition passTimes :: "(nat \<Rightarrow> crm_env) \<Rightarrow> nat \<Rightarrow> int option \<Rightarrow> int \<Rightarrow> int \<Rightarrow> bool" where
  "passTimes es n nowGiven t u =
     (u < t + 60000 \<and> (\<forall>i<n. t \<le> stepNow nowGiven (es i) \<and> stepNow nowGiven (es i) \<le> u \<and>
        stepNow nowGiven (es i) \<le> clock (es i) \<and> clockFaces (es i)))"

lemma passTimes_step: "passTimes es n nowGiven t u \<Longrightarrow> i < n \<Longrightarrow>
   t \<le> stepNow nowGiven (es i) \<and> stepNow nowGiven (es i) \<le> u \<and> stepNow nowGiven (es i) \<le> clock (es i) \<and> clockFaces (es i) \<and> u < t + 60000"
  by (simp add: passTimes_def)

lemma dispatchLoop_drains:
  assumes "sends_ok s" "passTimes es N nowGiven t u" "i + n \<le> N" "list_all (\<lambda>c. 0 \<le> ca_quiet_end c) (campaigns s)"
    and "dispatchLoop es tenant nowGiven n i r s = (a, Inr r', s')"
  shows "\<exists>k \<le> n. dr_claimed r' = dr_claimed r + k \<and> k + dueCount tenant u s' = dueCount tenant u s \<and>
    dueCount tenant t s' = dueCount tenant t s - k \<and> (k < n \<longrightarrow> dueCount tenant (stepNow nowGiven (es (i + k))) s' = 0)"
  using assms
proof (induction n arbitrary: i r s a)
  case (Suc n)
  obtain b st s1 where one: "dispatchOne (es i) tenant nowGiven s = (b, Inr st, s1)"
    using Suc.prems(5) by (auto split: prod.splits sum.splits)
  show ?case
  proof (cases "st = DS_drained")
    case True
    with one Suc.prems(5) dispatchOne_drained [of "es i" tenant nowGiven s b s1] show ?thesis
      by (intro exI [of _ 0]) (simp split: option.splits)
  next
    case False
    note now = passTimes_step [OF Suc.prems(2), of i]
    have p: "dueCount tenant u s = Suc (dueCount tenant u s1)" "dueCount tenant t s1 = dueCount tenant t s - 1"
      using dispatchOne_progress [OF Suc.prems(1) _ Suc.prems(4) refl _ _ _ _ one False, of t u] now Suc.prems(3) by simp_all
    obtain c where "dispatchLoop es tenant nowGiven n (Suc i) (tallyStep st r) s1 = (c, Inr r', s')"
      using Suc.prems(5) one False by (auto split: DispatchStep.splits prod.splits)
    moreover have "sends_ok s1" using dispatchOne_step [OF Suc.prems(1) one] by blast
    moreover have "campaigns s1 = campaigns s" using dispatchOne_only [OF one] by (simp add: sendsOnly_def)
    ultimately obtain k where k: "k \<le> n" "dr_claimed r' = dr_claimed (tallyStep st r) + k" "k + dueCount tenant u s' = dueCount tenant u s1"
      "dueCount tenant t s' = dueCount tenant t s1 - k" "k < n \<longrightarrow> dueCount tenant (stepNow nowGiven (es (Suc i + k))) s' = 0"
      using Suc.IH [of s1 "Suc i" "tallyStep st r" c] Suc.prems(2,3,4) by auto
    with p show ?thesis by (intro exI [of _ "Suc k"]) (simp split: option.splits)
  qed
qed simp

text \<open>Completing the versions that are done changes nothing of what is due.\<close>

lemma find_update_where:
  "(\<And>x. P (f x) = P x) \<Longrightarrow> find P (update_where Q f xs) = map_option (\<lambda>x. if Q x then f x else x) (find P xs)"
  by (induction xs) auto

lemma dueWith_complete:
  assumes "r \<in> set (campaign_sends s)"
  shows "dueWith tenant t (completeFinishedVersions tenant s) r = dueWith tenant t s r"
proof -
  let ?done = "\<lambda>v. cv_tenant v = tenant \<and> cv_state v = CV_executing
     \<and> \<not> list_ex (\<lambda>r. sd_tenant r = cv_tenant v \<and> sd_version r = cv_id v
          \<and> sd_state r \<in> {SD_pending, SD_deferred_quiet_hours}) (campaign_sends s)"
  let ?f = "\<lambda>v. v\<lparr>cv_state := CV_completed, cv_version := cv_version v + 1\<rparr>"
  have find: "find (\<lambda>v. cv_tenant v = tn \<and> cv_id v = i) (campaign_versions (completeFinishedVersions tenant s)) =
      map_option (\<lambda>v. if ?done v then ?f v else v) (find (\<lambda>v. cv_tenant v = tn \<and> cv_id v = i) (campaign_versions s))" for tn i
    unfolding completeFinishedVersions_def by (simp add: find_update_where)
  have other: "campaignOf v (completeFinishedVersions tenant s) = campaignOf v s" "templateOf v (completeFinishedVersions tenant s) = templateOf v s" for v
    by (simp_all add: completeFinishedVersions_def campaignOf_def templateOf_def)
  show ?thesis
    using assms unfolding dueWith_def find
    by (auto simp: list_ex_iff other split: option.split dest!: find_SomeD)
qed

lemma dueCount_complete: "dueCount tenant t (completeFinishedVersions tenant s) = dueCount tenant t s"
proof -
  have "campaign_sends (completeFinishedVersions tenant s) = campaign_sends s" by (simp add: completeFinishedVersions_def)
  then show ?thesis
    unfolding dueCount_def by (intro arg_cong [where f = length] filter_cong) (simp_all add: dueWith_complete)
qed

lemma pass_drains:
  assumes "sends_ok s" "passTimes es (bounded 200 25 limit) nowGiven t u" "list_all (\<lambda>c. 0 \<le> ca_quiet_end c) (campaigns s)"
    and "dispatchDueSends es tenant limit nowGiven s = (a, Inr r, s')"
  shows "dr_claimed r \<le> bounded 200 25 limit" "dr_claimed r + dueCount tenant u s' = dueCount tenant u s"
    "dueCount tenant t s' = dueCount tenant t s - dr_claimed r"
    "dr_claimed r < bounded 200 25 limit \<Longrightarrow> dueCount tenant (stepNow nowGiven (es (dr_claimed r))) s' = 0 \<and> dueCount tenant t s' = 0"
proof -
  let ?n = "bounded 200 25 limit"
  obtain s1 where loop: "dispatchLoop es tenant nowGiven ?n 0 noDispatch s = (a, Inr r, s1)"
    and s': "s' = completeFinishedVersions tenant s1"
    using assms(4) by (auto simp: dispatchDueSends_def split: prod.splits sum.splits)
  from dispatchLoop_drains [OF assms(1,2) _ assms(3) loop, unfolded add_0]
  have k: "dr_claimed r \<le> ?n" "dr_claimed r + dueCount tenant u s1 = dueCount tenant u s" "dueCount tenant t s1 = dueCount tenant t s - dr_claimed r"
    "dr_claimed r < ?n \<longrightarrow> dueCount tenant (stepNow nowGiven (es (dr_claimed r))) s1 = 0"
    by (auto simp: noDispatch_def)
  then show "dr_claimed r \<le> ?n" "dr_claimed r + dueCount tenant u s' = dueCount tenant u s" "dueCount tenant t s' = dueCount tenant t s - dr_claimed r"
    unfolding s' dueCount_complete by blast+
  show "dueCount tenant (stepNow nowGiven (es (dr_claimed r))) s' = 0 \<and> dueCount tenant t s' = 0" if "dr_claimed r < ?n"
    unfolding s' dueCount_complete using k(4) that passTimes_step [OF assms(2) that] dueCount_later by blast
qed

section \<open>A pass returns\<close>

text \<open>
  Nothing stops a pass where the campaign of every message that falls due during it names a zone
  the platform knows, the provider's references fit their column, and the messages held for
  quiet hours are accepted.
\<close>

definition takesAnswer :: "crm_env \<Rightarrow> campaign_send \<Rightarrow> bool" where
  "takesAnswer e row =
     (\<forall>rq. rq_send rq = sd_id row \<longrightarrow> referenceFits (provider e rq) \<and> (sd_withheld row = None \<or> accepts (provider e rq)))"

definition passReady :: "(nat \<Rightarrow> crm_env) \<Rightarrow> nat \<Rightarrow> int option \<Rightarrow> string \<Rightarrow> int \<Rightarrow> crm_db \<Rightarrow> bool" where
  "passReady es n nowGiven tenant u s =
     (\<forall>row \<in> set (campaign_sends s). \<forall>c m. \<forall>i<n. dueWith tenant u s row = Some (row, c, m) \<longrightarrow>
        intlParts (es i) (stepNow nowGiven (es i)) (ca_zone c) \<noteq> None \<and> takesAnswer (es i) row)"

lemma recordAnswer_returns:
  assumes "sendOk row" "unsettled row" "takesAnswer e row" "rq_send rq = sd_id row"
  shows "\<exists>v. recordAnswer e row (sd_attempts row + 1) (provider e rq) s = Inr v"
proof (cases "provider e rq")
  case (PO_sent ref)
  with assms have "1 \<le> length ref \<and> length ref \<le> 100" unfolding takesAnswer_def referenceFits_def by force
  with assms(1) have "sendRowOk (row\<lparr>sd_state := SD_sent, sd_sent_at := Some (clock e), sd_attempts := sd_attempts row + 1,
      sd_ref := Some ref, sd_error := None, sd_withheld := None\<rparr>)"
    by (simp add: sendOk_def attemptsOk_def sendRowOk_def lengthIn_def)
  with PO_sent show ?thesis by (simp add: recordAnswer_def updateSend_def)
next
  case (PO_failed permanent detail)
  with assms have w: "sd_withheld row = None" unfolding takesAnswer_def accepts_def by force
  have "sendRowOk (row\<lparr>sd_state := st, sd_attempts := sd_attempts row + 1, sd_error := Some (take 500 detail), sd_available := x\<rparr>)"
    if "st \<in> {SD_failed, SD_pending}" for st x
    using assms(1,2) w that by (auto simp: sendOk_def attemptsOk_def sendRowOk_def lengthIn_def unsettled_def)
  with PO_failed show ?thesis by (simp add: recordAnswer_def updateSend_def Let_def)
qed

lemma dispatchRow_returns:
  assumes "sendOk row" "unsettled row" "takesAnswer e row" "intlParts e t (ca_zone c) \<noteq> None"
  shows "\<exists>v. snd (dispatchRow e t row c m s) = Inr v"
proof (cases "sendEligibility (sd_tenant row) (sd_party row) (sd_channel row) (consentPurpose (ca_purpose c)) s")
  case (Eligible contact)
  obtain k where k: "localMinuteOfDay e t (timeZone (quietHoursOf c)) = Inr k"
    using assms(4) by (auto simp: localMinuteOfDay_def quietHoursOf_def)
  then have "\<exists>b. insideQuietHours e t (quietHoursOf c) = Inr b" by (auto simp: insideQuietHours_def)
  then obtain b where b: "insideQuietHours e t (quietHoursOf c) = Inr b" by blast
  show ?thesis
  proof (cases b)
    case True
    have "\<exists>u. quietHoursEndAfter e t (quietHoursOf c) = Inr u" using k b by (auto simp: quietHoursEndAfter_def Let_def)
    then obtain u where "quietHoursEndAfter e t (quietHoursOf c) = Inr u" by blast
    moreover have "sendRowOk (row\<lparr>sd_state := SD_deferred_quiet_hours, sd_withheld := Some WR_quiet_hours, sd_available := u\<rparr>)"
      using assms(1,2) by (auto simp: sendOk_def sendRowOk_def unsettled_def)
    ultimately show ?thesis using Eligible b True by (simp add: dispatchRow_def updateSend_def Let_def)
  next
    case False
    with Eligible b show ?thesis using recordAnswer_returns [OF assms(1-3)] by (simp add: dispatchRow_def Let_def)
  qed
next
  case (Ineligible reason)
  moreover have "sendRowOk (row\<lparr>sd_state := SD_suppressed, sd_withheld := Some reason\<rparr>)"
    using assms(1,2) by (auto simp: sendOk_def sendRowOk_def unsettled_def)
  ultimately show ?thesis by (simp add: dispatchRow_def updateSend_def Let_def)
qed

lemma dispatchOne_returns:
  assumes "sends_ok s" "passReady es N nowGiven tenant u s" "i < N" "stepNow nowGiven (es i) \<le> u"
  shows "\<exists>a step s'. dispatchOne (es i) tenant nowGiven s = (a, Inr step, s')"
proof (cases "nextDue tenant (stepNow nowGiven (es i)) s")
  case (Some x)
  define t where "t = stepNow nowGiven (es i)"
  obtain row c m where x: "x = (row, c, m)" by (cases x)
  with nextDue_Some Some have due: "row \<in> set (campaign_sends s)" "dueWith tenant t s row = Some (row, c, m)" by (simp_all add: t_def)
  then have "unsettled row" by (auto elim: dueWith_Some)
  moreover have "dueWith tenant u s row = Some (row, c, m)" using dueWith_later [OF due(2)] assms(4) by (simp add: t_def)
  then have "intlParts (es i) t (ca_zone c) \<noteq> None" "takesAnswer (es i) row"
    using assms(2,3) due(1) unfolding passReady_def t_def by blast+
  ultimately obtain v where "snd (dispatchRow (es i) t row c m s) = Inr v"
    using dispatchRow_returns sends_ok_row [OF assms(1) due(1)] by blast
  with Some x show ?thesis
    by (cases "dispatchRow (es i) t row c m s", cases v) (simp add: dispatchOne_def withTenantTransaction_def Let_def flip: t_def)
qed (simp add: dispatchOne_def)

lemma passReady_step:
  assumes "passReady es n nowGiven tenant u s" "sendsOnly s s'"
    and "campaign_sends s' = putSend row r' (campaign_sends s)" "dueWith tenant u s r' = None"
  shows "passReady es n nowGiven tenant u s'"
  using assms(1,3,4) unfolding passReady_def dueWith_cong [OF assms(2)]
  by (auto split: if_splits)

lemma dispatchLoop_returns:
  assumes "sends_ok s" "passTimes es N nowGiven t u" "i + n \<le> N" "list_all (\<lambda>c. 0 \<le> ca_quiet_end c) (campaigns s)"
    and "passReady es N nowGiven tenant u s"
  shows "\<exists>a r' s'. dispatchLoop es tenant nowGiven n i r s = (a, Inr r', s')"
  using assms
proof (induction n arbitrary: i r s)
  case (Suc n)
  then have i: "i < N" by simp
  note now = passTimes_step [OF Suc.prems(2) i]
  obtain a step s1 where one: "dispatchOne (es i) tenant nowGiven s = (a, Inr step, s1)"
    using dispatchOne_returns [OF Suc.prems(1,5) i] now by blast
  show ?case
  proof (cases "step = DS_drained")
    case False
    from now have nows: "stepNow nowGiven (es i) \<le> clock (es i)" "clockFaces (es i)" "u < stepNow nowGiven (es i) + 60000" by linarith+
    obtain row r' where r': "campaign_sends s1 = putSend row r' (campaign_sends s)" "dueWith tenant u s r' = None"
      using dispatchOne_takes [OF Suc.prems(1) nows(1,2) Suc.prems(4) one False] nows(3) by metis
    have "passReady es N nowGiven tenant u s1" using passReady_step [OF Suc.prems(5) dispatchOne_only [OF one] r'] .
    moreover have "sends_ok s1" using dispatchOne_step [OF Suc.prems(1) one] by blast
    moreover have "campaigns s1 = campaigns s" using dispatchOne_only [OF one] by (simp add: sendsOnly_def)
    ultimately obtain b r' s' where "dispatchLoop es tenant nowGiven n (Suc i) (tallyStep step r) s1 = (b, Inr r', s')"
      using Suc.IH [of s1 "Suc i" "tallyStep step r"] Suc.prems(2,3,4) by auto
    with one False show ?thesis by (cases step) simp_all
  qed (simp add: one)
qed simp

lemma pass_returns:
  assumes "sends_ok s" "passTimes es (bounded 200 25 limit) nowGiven t u" "list_all (\<lambda>c. 0 \<le> ca_quiet_end c) (campaigns s)"
    and "passReady es (bounded 200 25 limit) nowGiven tenant u s"
  shows "\<exists>a r s'. dispatchDueSends es tenant limit nowGiven s = (a, Inr r, s')"
  using dispatchLoop_returns [OF assms(1,2) _ assms(3,4), of 0 "bounded 200 25 limit" noDispatch] by (auto simp: dispatchDueSends_def)

section \<open>A failure after a deferral\<close>

text \<open>
  The failure branch keeps \<open>withheld_reason\<close>, which a deferred send has and the CHECK of a
  failed or pending one refuses: the transaction raises after the provider was asked.
\<close>

lemma recordAnswer_refused:
  assumes "sd_withheld row \<noteq> None"
  shows "recordAnswer e row n (PO_failed permanent detail) s = Inl check_violation"
  using assms by (auto simp: recordAnswer_def updateSend_def sendRowOk_def Let_def)

lemma deferred_failure:
  assumes "nextDue tenant t s = Some (row, c, m)" "t = (case nowGiven of None \<Rightarrow> clock e | Some x \<Rightarrow> x)"
    and "sd_state row = SD_deferred_quiet_hours" "sendRowOk row"
    and "sendEligibility tenant (sd_party row) (sd_channel row) (consentPurpose (ca_purpose c)) s = Eligible contact"
    and "insideQuietHours e t (quietHoursOf c) = Inr False"
    and "rq = \<lparr>rq_send = sd_id row, rq_channel = sd_channel row, rq_contact = contact, rq_attempt = sd_attempts row + 1,
      rq_subject = ct_subject m, rq_body = ct_body m\<rparr>" "provider e rq = PO_failed permanent detail"
  shows "dispatchOne e tenant nowGiven s = ([(rq, PO_failed permanent detail)], Inl check_violation, s)"
proof -
  have "sd_withheld row \<noteq> None" using assms(3,4) by (simp add: sendRowOk_def)
  moreover have "sd_tenant row = tenant" using nextDue_Some(2) [OF assms(1)] by (rule dueWith_Some)
  ultimately show ?thesis
    using assms(1,5-8) recordAnswer_refused [of row] unfolding dispatchOne_def Let_def assms(2) [symmetric]
    by (simp add: dispatchRow_def withTenantTransaction_def Let_def)
qed

lemma bounded_Suc: "1 \<le> hi \<Longrightarrow> \<exists>n. bounded hi usual limit = Suc n"
  by (rule exI [of _ "bounded hi usual limit - 1"]) (simp add: bounded_def)

lemma pass_stops:
  assumes "dispatchOne (es 0) tenant nowGiven s = (a, Inl err, s)"
  shows "dispatchDueSends es tenant limit nowGiven s = (a, Inl err, s)"
proof -
  obtain n where "bounded 200 25 limit = Suc n" using bounded_Suc [of 200] by auto
  with assms show ?thesis by (simp add: dispatchDueSends_def)
qed

end
