(* ===== verification/CrmPeople.thy ===== *)
theory CrmPeople
  imports CrmFrames
begin

text \<open>
  The duplicate decision over any history: two active customers of a tenant never share an
  email address or a phone number unless somebody chose to allow it, on one of the two rows.
\<close>

section \<open>Normal email addresses\<close>

lemma lowerChar_idem: "lowerChar (lowerChar c) = lowerChar c"
proof -
  define n where "n = (of_char c :: nat)"
  have "n < 256" by (simp add: n_def)
  then have "of_char (char_of (n + 32) :: char) = n + 32" if "n \<le> 222" using that by (simp add: of_char_of)
  then show ?thesis by (auto simp: lowerChar_def Let_def n_def [symmetric])
qed

lemma toLowerCase_idem [simp]: "toLowerCase (toLowerCase x) = toLowerCase x"
  by (simp add: toLowerCase_def lowerChar_idem)

definition lowered :: "string option \<Rightarrow> bool" where
  "lowered x = (map_option toLowerCase x = x)"

lemma lowered_normal [simp]: "lowered (normalizeEmail raw)"
  by (simp add: lowered_def normalizeEmail_def Let_def split: option.split)

section \<open>Sharing\<close>

definition sharesContact :: "party \<Rightarrow> party \<Rightarrow> bool" where
  "sharesContact p q =
     ((pa_email p \<noteq> None \<and> map_option toLowerCase (pa_email p) = map_option toLowerCase (pa_email q))
      \<or> (pa_phone p \<noteq> None \<and> pa_phone p = pa_phone q))"

definition activeIn :: "string \<Rightarrow> party \<Rightarrow> bool" where
  "activeIn tenant p = (pa_tenant p = tenant \<and> pa_status p = PS_active)"

definition clash :: "party \<Rightarrow> party \<Rightarrow> bool" where
  "clash p q = (p \<noteq> q \<and> activeIn (pa_tenant p) p \<and> activeIn (pa_tenant p) q \<and> sharesContact p q
     \<and> \<not> pa_override p \<and> \<not> pa_override q)"

definition parties_ok :: "crm_db \<Rightarrow> bool" where
  "parties_ok s =
     (distinct (map pa_id (parties s)) \<and> (\<forall>p \<in> set (parties s). lowered (pa_email p))
      \<and> (\<forall>p \<in> set (parties s). \<forall>q \<in> set (parties s). \<not> clash p q))"

lemma sharesContact_sym: "sharesContact p q \<longleftrightarrow> sharesContact q p"
  unfolding sharesContact_def by (metis option.map_disc_iff)

lemma clash_sym: "clash p q \<longleftrightarrow> clash q p"
  by (auto simp: clash_def activeIn_def sharesContact_sym)

lemma sort_key_Nil: "sort_key f xs = [] \<longleftrightarrow> xs = []"
  by (metis length_0_conv length_sort)

text \<open>No collision found is no contact shared.\<close>

lemma no_collision:
  assumes "identifyingCollisions tenant email phone exclude s = []" "q \<in> set (parties s)" "activeIn tenant q"
    and "\<And>x. exclude = Some x \<Longrightarrow> pa_id q \<noteq> pgUuid x"
  shows "\<not> sharesEmail email q" "\<not> sharesPhone phone q"
proof -
  have "filter (\<lambda>p. pa_tenant p = tenant \<and> pa_status p = PS_active
            \<and> (case exclude of None \<Rightarrow> True | Some x \<Rightarrow> pa_id p \<noteq> pgUuid x)
            \<and> (sharesEmail email p \<or> sharesPhone phone p)) (parties s) = []"
    using assms(1) by (simp add: identifyingCollisions_def sort_key_Nil)
  with assms(2-4) show "\<not> sharesEmail email q" "\<not> sharesPhone phone q"
    by (auto simp: filter_empty_conv activeIn_def split: option.splits)
qed

lemma no_clash:
  assumes "identifyingCollisions (pa_tenant p) (pa_email p) (pa_phone p) exclude s = [] \<or> pa_override p"
    and "lowered (pa_email p)" "q \<in> set (parties s)" "\<And>x. exclude = Some x \<Longrightarrow> pa_id q \<noteq> pgUuid x"
  shows "\<not> clash p q"
  using assms no_collision [of "pa_tenant p" "pa_email p" "pa_phone p" exclude s q]
  by (auto simp: clash_def sharesContact_def sharesEmail_def sharesPhone_def lowered_def)

section \<open>Every write keeps it\<close>

lemma parties_ok_add:
  assumes "parties_ok s" "parties s' = parties s @ [p]" "pa_id p \<notin> pa_id ` set (parties s)" "lowered (pa_email p)"
    and "\<And>q. q \<in> set (parties s) \<Longrightarrow> \<not> clash p q"
  shows "parties_ok s'"
proof -
  have "\<not> clash q p" if "q \<in> set (parties s)" for q using assms(5) that clash_sym by blast
  moreover have "\<not> clash p p" by (simp add: clash_def)
  ultimately show ?thesis using assms by (auto simp: parties_ok_def)
qed

lemma parties_ok_put:
  assumes ok: "parties_ok s" and s': "parties s' = map (\<lambda>r. if r = p then p' else r) (parties s)" and p: "p \<in> set (parties s)"
    and p': "pa_id p' = pa_id p" "lowered (pa_email p')" "\<And>q. q \<in> set (parties s) \<Longrightarrow> q \<noteq> p \<Longrightarrow> \<not> clash p' q"
  shows "parties_ok s'"
proof -
  have "map pa_id (parties s') = map pa_id (parties s)" using p'(1) by (simp add: s')
  moreover have in_s': "q = p' \<or> q \<in> set (parties s) \<and> q \<noteq> p" if "q \<in> set (parties s')" for q using that by (auto simp: s' split: if_splits)
  then have "lowered (pa_email q)" if "q \<in> set (parties s')" for q using that ok p'(2) by (auto simp: parties_ok_def)
  moreover have "\<not> clash q r" if "q \<in> set (parties s')" "r \<in> set (parties s')" for q r
    using in_s' [OF that(1)] in_s' [OF that(2)] ok p'(3) clash_sym [of q r] by (auto simp: parties_ok_def) (simp add: clash_def)
  ultimately show ?thesis using ok by (auto simp: parties_ok_def)
qed

text \<open>A write that changes neither contact nor decision, and reactivates nobody.\<close>

definition quieter :: "party \<Rightarrow> party \<Rightarrow> bool" where
  "quieter p p' =
     (pa_id p' = pa_id p \<and> pa_tenant p' = pa_tenant p \<and> pa_email p' = pa_email p \<and> pa_phone p' = pa_phone p
      \<and> pa_override p' = pa_override p \<and> (pa_status p' = PS_active \<longrightarrow> pa_status p = PS_active))"

lemma parties_ok_map:
  assumes ok: "parties_ok s" and s': "parties s' = map f (parties s)" and f: "\<And>p. quieter p (f p)"
  shows "parties_ok s'"
proof -
  have "map (pa_id \<circ> f) (parties s) = map pa_id (parties s)" using f by (simp add: quieter_def)
  then have "distinct (map (pa_id \<circ> f) (parties s))" using ok by (simp only: parties_ok_def)
  moreover have "\<not> clash (f p) (f q)" if "p \<in> set (parties s)" "q \<in> set (parties s)" for p q
  proof
    assume "clash (f p) (f q)"
    then have "clash p q" using f [of p] f [of q] by (auto simp: clash_def activeIn_def sharesContact_def quieter_def)
    with ok that show False by (simp add: parties_ok_def)
  qed
  moreover have "lowered (pa_email (f p))" if "p \<in> set (parties s)" for p using that ok f [of p] by (simp add: parties_ok_def quieter_def)
  ultimately show ?thesis using ok unfolding parties_ok_def by (auto simp: s')
qed

lemma newParty_fields [simp]:
  "pa_id (newParty pid tenant ptype display d email phone sharing) = pid"
  "pa_tenant (newParty pid tenant ptype display d email phone sharing) = tenant"
  "pa_email (newParty pid tenant ptype display d email phone sharing) = email"
  "pa_phone (newParty pid tenant ptype display d email phone sharing) = phone"
  "pa_override (newParty pid tenant ptype display d email phone sharing) = sharing"
  by (simp_all add: newParty_def)

lemma insertParty_ok:
  assumes "parties_ok s" "pid \<notin> pa_id ` set (parties s)"
  shows "yields (insertParty pid tenant user ptype display d dup s) parties_ok"
proof -
  let ?email = "normalizeEmail (orNone (pd_email d))" and ?phone = "normalizePhone (orNone (pd_phone d))"
  let ?hits = "identifyingCollisions tenant ?email ?phone None s"
  let ?p = "newParty pid tenant ptype display d ?email ?phone (?hits \<noteq> [])"
  have "\<not> clash ?p q" if "q \<in> set (parties s)" for q
    by (rule no_clash [where exclude = None and s = s]) (use that in auto)
  then have "parties_ok (audited tenant x y z actor (s\<lparr>parties := parties s @ [?p]\<rparr>))" for x y z actor
    by (intro parties_ok_add [OF assms(1), where p = ?p]) (use assms in auto)
  then show ?thesis unfolding insertParty_def Let_def by (intro yields_intros) (use assms in auto)
qed

lemma createPartyWithin_ok:
  assumes "parties_ok s" "pid \<notin> pa_id ` set (parties s)"
  shows "yields (createPartyWithin pid tenant user ptype d dup s) parties_ok"
  unfolding createPartyWithin_def by (intro yields_intros insertParty_ok assms)

lemma editedParty_fields [simp]:
  "pa_id (editedParty d display email phone sharing p) = pa_id p"
  "pa_tenant (editedParty d display email phone sharing p) = pa_tenant p"
  "pa_email (editedParty d display email phone sharing p) = email"
  "pa_phone (editedParty d display email phone sharing p) = phone"
  "pa_override (editedParty d display email phone sharing p) = sharing"
  by (simp_all add: editedParty_def)

lemma edit_ok:
  fixes tenant pid n s
  defines "here \<equiv> \<lambda>p. pa_tenant p = tenant \<and> pa_id p = pgUuid pid"
  assumes ok: "parties_ok s" and p: "p \<in> set (parties s)" "here p" "pa_version p = n" and email: "lowered email"
    and edit: "edit = editedParty d display email phone (identifyingCollisions tenant email phone (Some pid) s \<noteq> [])"
    and s': "parties s' = update_where (\<lambda>p. here p \<and> pa_version p = n) edit (parties s)"
  shows "parties_ok s'"
proof -
  have only: "here q \<longleftrightarrow> q = p" if "q \<in> set (parties s)" for q
    using p that ok distinct_map_eq [of pa_id "parties s" q p] by (auto simp: parties_ok_def here_def)
  then have "parties s' = map (\<lambda>r. if r = p then edit p else r) (parties s)"
    unfolding s' by (intro update_where_one) (use p in auto)
  moreover have "\<not> clash (edit p) q" if "q \<in> set (parties s)" "q \<noteq> p" for q
  proof (rule no_clash [where exclude = "Some pid" and s = s])
    show "identifyingCollisions (pa_tenant (edit p)) (pa_email (edit p)) (pa_phone (edit p)) (Some pid) s = [] \<or> pa_override (edit p)"
      using p(2) by (auto simp: edit here_def)
    show "pa_id q \<noteq> pgUuid x" if "Some pid = Some x" for x
      using that \<open>q \<in> set (parties s)\<close> \<open>q \<noteq> p\<close> only [of q] ok p distinct_map_eq [of pa_id "parties s" q p]
      by (auto simp: here_def parties_ok_def)
  qed (use that email in \<open>simp_all add: edit\<close>)
  ultimately show ?thesis using email by (intro parties_ok_put [OF ok _ p(1), where p' = "edit p"]) (auto simp: edit)
qed

lemma updateBody_ok: "parties_ok s \<Longrightarrow> yields (updateBody tenant user pid n d dup s) parties_ok"
  unfolding updateBody_def Let_def
proof (intro yields_intros)
  assume ok: "parties_ok s"
  fix actor p display u
  assume f: "find (\<lambda>p. pa_tenant p = tenant \<and> pa_id p = pgUuid pid) (parties s) = Some p" "\<not> pa_version p \<noteq> n"
  let ?email = "if pd_email d = Omitted then pa_email p else normalizeEmail (orNone (pd_email d))"
  let ?phone = "if pd_phone d = Omitted then pa_phone p else normalizePhone (orNone (pd_phone d))"
  let ?edit = "editedParty d display ?email ?phone (identifyingCollisions tenant ?email ?phone (Some pid) s \<noteq> [])"
  from f have p: "p \<in> set (parties s)" "pa_tenant p = tenant \<and> pa_id p = pgUuid pid" "pa_version p = n" by (auto dest: find_SomeD)
  have "lowered ?email" using ok p by (simp add: parties_ok_def)
  from edit_ok [OF ok p this refl]
  show "parties_ok (audited tenant ''party'' (pa_id p) ''inventory.party.updated'' actor
      (s\<lparr>parties := update_where (\<lambda>p. (pa_tenant p = tenant \<and> pa_id p = pgUuid pid) \<and> pa_version p = n) ?edit (parties s)\<rparr>))"
    by simp
qed simp_all

lemma mergeBody_ok:
  assumes "parties_ok s"
  shows "yields (mergeBody tenant user a b reason s) parties_ok"
proof -
  have "parties_ok (audited tenant x y z actor (mergedState tenant p q reason s))" for x y z actor p q
    by (rule parties_ok_map [OF assms, where f = "\<lambda>r. (\<lambda>r. if pa_tenant r = tenant \<and> pa_id r = pa_id p
          then r\<lparr>pa_version := pa_version r + 1\<rparr> else r) (if pa_tenant r = tenant \<and> pa_id r = pa_id q \<and> pa_status r = PS_active
          then r\<lparr>pa_status := PS_merged, pa_merged_into := Some (pa_id p), pa_version := pa_version r + 1\<rparr> else r)"])
      (auto simp: mergedState_def Let_def update_where_def quieter_def)
  then show ?thesis using assms unfolding mergeBody_def by (intro yields_intros) simp_all
qed

text \<open>Import: each row draws an identifier of its own.\<close>

lemma createPartyWithin_ids: "yields (createPartyWithin pid tenant user ptype d dup s)
    (\<lambda>s'. pa_id ` set (parties s') \<subseteq> insert pid (pa_id ` set (parties s)))"
  unfolding createPartyWithin_def insertParty_def Let_def by (intro yields_intros) auto

lemma importRow_ok:
  assumes "parties_ok s" "pid \<notin> pa_id ` set (parties s)"
  shows "parties_ok (snd (importRow pid tenant user row s)) \<and>
    pa_id ` set (parties (snd (importRow pid tenant user row s))) \<subseteq> insert pid (pa_id ` set (parties s))"
proof (cases "createPartyWithin pid tenant user (case fst row of None \<Rightarrow> ''person'' | Some t \<Rightarrow> t) (importDetails (snd row)) False s")
  case (Inr x)
  obtain v s1 where x: "x = (v, s1)" by (cases x)
  note made = Inr [unfolded x]
  have "parties_ok s1" "pa_id ` set (parties s1) \<subseteq> insert pid (pa_id ` set (parties s))"
    using yieldsD [OF createPartyWithin_ok [OF assms] made] yieldsD [OF createPartyWithin_ids made] by blast+
  moreover have "pa_id ` set (parties s) \<subseteq> insert pid (pa_id ` set (parties s))" by blast
  ultimately show ?thesis using assms(1) by (cases v) (simp_all add: importRow_def made)
qed (use assms(1) in \<open>auto simp: importRow_def\<close>)

lemma disjoint_grow: "d \<notin> D' \<Longrightarrow> D' \<subseteq> D \<Longrightarrow> A \<subseteq> insert d B \<Longrightarrow> B \<inter> D = {} \<Longrightarrow> A \<inter> D' = {}"
  by blast

lemma importRows_ok:
  assumes "parties_ok s" "inj draw" "pa_id ` set (parties s) \<inter> draw ` {i..} = {}"
  shows "parties_ok (snd (importRows draw tenant user i rows s))"
  using assms
proof (induction rows arbitrary: i s)
  case (Cons row rows)
  obtain s1 where s1: "s1 = snd (importRow (draw i) tenant user row s)" by simp
  have "draw i \<notin> pa_id ` set (parties s)" using Cons.prems(3) by auto
  note one = importRow_ok [OF Cons.prems(1) this, of tenant user row, folded s1]
  have "draw i \<notin> draw ` {Suc i..}" using Cons.prems(2) by (simp add: inj_image_mem_iff)
  moreover have "draw ` {Suc i..} \<subseteq> draw ` {i..}" by (intro image_mono) auto
  ultimately have "pa_id ` set (parties s1) \<inter> draw ` {Suc i..} = {}"
    by (rule disjoint_grow) (use one Cons.prems(3) in simp_all)
  with Cons.IH [of s1 "Suc i"] one Cons.prems(2) s1 show ?case by (simp add: case_prod_beta)
qed simp

lemma importParties_ok:
  assumes "parties_ok s" "crm_fresh e s"
  shows "parties_ok (snd (importParties e tenant user rows s))"
proof -
  have "drawn e n \<notin> pa_id ` set (parties s)" for n using assms(2) by (auto simp: crm_fresh_def usedIds_def)
  then have "pa_id ` set (parties s) \<inter> drawn e ` {0..} = {}" by (metis disjoint_iff imageE)
  moreover have "inj (drawn e)" using assms(2) by (simp add: crm_fresh_def)
  ultimately show ?thesis
    using importRows_ok [OF assms(1), of "drawn e" 0 tenant user rows] assms(1)
    by (simp add: importParties_def withTenantTransaction_def case_prod_beta)
qed

lemma resolveParty_ok:
  assumes "parties_ok s" "pid \<notin> pa_id ` set (parties s)"
  shows "yields (resolveParty pid tenant actor i s) parties_ok"
  unfolding resolveParty_def
  by (intro yields_step [OF createPartyWithin_ok [OF assms]] yields_intros)
    (use assms in \<open>auto simp: yields_def split: PartyCreateOutcome.splits list.splits\<close>)

lemma captureLeadWithin_parties_ok:
  assumes "parties_ok s" "draw 0 \<notin> pa_id ` set (parties s)"
  shows "yields (captureLeadWithin e draw tenant user i s) parties_ok"
proof -
  have "yields (claimInterest e draw tenant actor key src p i s1) parties_ok" if "parties_ok s1" for actor key src p s1
    by (rule yields_weaken [OF claimInterest_frame]) (use that in \<open>auto simp: frame_def parties_ok_def\<close>)
  moreover have "parties_ok (recordIntake tenant key ch l out reason print actor s1) = parties_ok s1"
    for key ch l out reason print actor s1
    by (simp add: recordIntake_def parties_ok_def)
  ultimately show ?thesis
    unfolding captureLeadWithin_def
    by (intro yields_step [OF resolveParty_ok [OF assms]] yields_intros)
      (use assms in \<open>auto split: ResolvedParty.splits intro: yields_Inr\<close>)
qed

lemma respondTo_parties_ok:
  assumes "parties_ok s" "drawn e 0 \<notin> pa_id ` set (parties s)"
  shows "yields (respondTo e tenant actor sid kind detail row c src s) parties_ok"
proof -
  have w: "yields (writeResponse e tenant actor sid k lid detail s1) parties_ok" if "parties_ok s1" for k lid s1
    by (rule yields_weaken [OF writeResponse_frame]) (use that in \<open>auto simp: frame_def parties_ok_def\<close>)
  have "parties_ok s1" if "frame {T_contact} s s1" for s1 using that assms(1) by (simp add: frame_def parties_ok_def)
  with w show ?thesis
    unfolding respondTo_def
    by (intro yields_step [OF captureLeadWithin_parties_ok [of s "drawn e", OF assms]] yields_step [OF suppressContactWithin_frame] yields_intros)
      (auto split: LeadCaptureOutcome.splits SuppressOutcome.splits intro: yields_Inr)
qed

lemma exec_parties_ok:
  assumes ok: "parties_ok s" and fresh: "crm_fresh e s"
  shows "parties_ok (snd (crm_exec e tenant user q s))"
proof (cases "T_parties \<in> writes q")
  case False
  then have "parties (snd (crm_exec e tenant user q s)) = parties s"
    using exec_frame [of q s e tenant user] by (simp add: frame_def)
  with ok show ?thesis by (simp add: parties_ok_def)
next
  case True
  have new: "drawn e n \<notin> pa_id ` set (parties s)" for n using fresh by (auto simp: crm_fresh_def usedIds_def)
  have y: "parties_ok (snd (withTenantTransaction body s))" if "yields (body s) parties_ok" for body :: "'a ctx"
    by (rule yields_transaction [where Q = parties_ok]) (use ok that in simp_all)
  have "parties_ok (snd (createParty e tenant user ptype d dup s))" "parties_ok (snd (captureLead e tenant user i s))"
    for ptype d dup i
    unfolding createParty_def captureLead_def by (intro y createPartyWithin_ok captureLeadWithin_parties_ok ok new)+
  moreover have "parties_ok (snd (updateParty tenant user pid n d dup s))" for pid n d dup
    unfolding updateParty_def by (intro y updateBody_ok ok)
  moreover have "parties_ok (snd (mergeParties tenant user a b reason s))" for a b reason
    unfolding mergeParties_def using ok by (auto intro: y mergeBody_ok)
  moreover have "parties_ok (snd (recordCampaignResponse e tenant user cid sid kind detail s))" for cid sid kind detail
    unfolding recordCampaignResponse_def by (intro y) (unfold responseBody_def, intro yields_intros respondTo_parties_ok ok new)
  ultimately show ?thesis using True importParties_ok [OF ok fresh] by (cases q) simp_all
qed

interpretation people: kept parties_ok
proof
  show "parties_ok (s\<lparr>desk := d, stock_items := ks, vehicle_ids := vs, outbox := ob\<rparr>)" if "parties_ok s" for s d ks vs ob
    using that by (simp add: parties_ok_def)
qed (rule exec_parties_ok)

end
