(* ===== verification/CrmLife.thy ===== *)
theory CrmLife
  imports CrmFrames
begin

text \<open>
  What holds of leads over any history: they are never lost or re-identified, a finished lead is
  never written again, a customer has one open lead per interest, and an intake key answers with
  the same lead for ever.
\<close>

section \<open>Moves of a lead\<close>

definition leadSame :: "lead \<Rightarrow> lead \<Rightarrow> bool" where
  "leadSame l l' =
     (ld_id l' = ld_id l \<and> ld_tenant l' = ld_tenant l \<and> ld_rooftop l' = ld_rooftop l \<and> ld_party l' = ld_party l
      \<and> ld_stock l' = ld_stock l \<and> ld_vehicle l' = ld_vehicle l \<and> ld_source l' = ld_source l \<and> ld_created l' = ld_created l)"

definition leadMove :: "lead \<Rightarrow> lead \<Rightarrow> bool" where
  "leadMove l l' = (leadSame l l' \<and> (finished (ld_state l) \<longrightarrow> l' = l))"

lemma leadMove_refl [simp]: "leadMove l l"
  by (simp add: leadMove_def leadSame_def)

lemma leadMove_trans: "leadMove a b \<Longrightarrow> leadMove b c \<Longrightarrow> leadMove a c"
  by (auto simp: leadMove_def leadSame_def)

lemma leadMove_same: "leadMove l l' \<Longrightarrow> leadSame l l'"
  by (simp add: leadMove_def)

definition rival :: "lead \<Rightarrow> lead \<Rightarrow> bool" where
  "rival l m = (l \<noteq> m \<and> ld_tenant l = ld_tenant m \<and> ld_rooftop l = ld_rooftop m \<and> ld_party l = ld_party m
     \<and> interestKey l = interestKey m \<and> \<not> finished (ld_state l) \<and> \<not> finished (ld_state m))"

definition leadIs :: "string \<Rightarrow> string \<Rightarrow> lead \<Rightarrow> bool" where
  "leadIs tenant lid l = (ld_tenant l = tenant \<and> ld_id l = lid)"

definition touched :: "crm_db \<Rightarrow> lead \<Rightarrow> bool" where
  "touched s l = (\<exists>t \<in> set (lead_touches s). lt_tenant t = ld_tenant l \<and> lt_lead t = ld_id l)"

definition leads_ok :: "crm_db \<Rightarrow> bool" where
  "leads_ok s =
     (distinct (map ld_id (leads s)) \<and> (\<forall>l \<in> set (leads s). \<forall>m \<in> set (leads s). \<not> rival l m)
      \<and> (\<forall>l \<in> set (leads s). touched s l)
      \<and> (\<forall>x \<in> set (lead_intakes s). \<forall>lid. li_lead x = Some lid \<longrightarrow> (\<exists>l \<in> set (leads s). leadIs (li_tenant x) lid l)))"

lemma leads_ok_intake:
  "leads_ok s \<Longrightarrow> x \<in> set (lead_intakes s) \<Longrightarrow> li_lead x = Some lid \<Longrightarrow> \<exists>l \<in> set (leads s). leadIs (li_tenant x) lid l"
  by (simp add: leads_ok_def)

text \<open>A later store: every lead is still there, moved; intakes are only added.\<close>

definition leadsMove :: "crm_db \<Rightarrow> crm_db \<Rightarrow> bool" where
  "leadsMove s s' =
     ((\<forall>l \<in> set (leads s). \<exists>l' \<in> set (leads s'). leadMove l l') \<and> (\<exists>xs. lead_intakes s' = lead_intakes s @ xs))"

lemma leadsMove_grow:
  "leads s' = leads s @ ls \<Longrightarrow> lead_intakes s' = lead_intakes s @ xs \<Longrightarrow> leadsMove s s'"
  unfolding leadsMove_def by (metis Un_iff leadMove_refl set_append)

lemma leadsMove_refl [simp]: "leadsMove s s"
  by (rule leadsMove_grow [of _ _ "[]" "[]"]) simp_all

lemma leadsMove_trans: "leadsMove s1 s2 \<Longrightarrow> leadsMove s2 s3 \<Longrightarrow> leadsMove s1 s3"
  unfolding leadsMove_def by (metis leadMove_trans append_assoc)

definition lead_step :: "crm_db \<Rightarrow> crm_db \<Rightarrow> bool" where
  "lead_step s s' = (leads_ok s' \<and> leadsMove s s')"

lemma lead_step_refl: "leads_ok s \<Longrightarrow> lead_step s s"
  by (simp add: lead_step_def)

lemma lead_step_same:
  assumes "leads_ok s" "leads s' = leads s" "lead_intakes s' = lead_intakes s" "lead_touches s' = lead_touches s"
  shows "lead_step s s'"
proof -
  have "leads_ok s'" using assms by (simp add: leads_ok_def touched_def)
  moreover have "leadsMove s s'" by (rule leadsMove_grow [of _ _ "[]" "[]"]) (simp_all add: assms)
  ultimately show ?thesis by (simp add: lead_step_def)
qed

lemma lead_step_trans: "lead_step s1 s2 \<Longrightarrow> lead_step s2 s3 \<Longrightarrow> lead_step s1 s3"
  using leadsMove_trans by (auto simp: lead_step_def)

lemma interestKey_same: "leadSame l l' \<Longrightarrow> interestKey l' = interestKey l"
  by (simp add: interestKey_def leadSame_def split: option.split)

lemma rival_before: "rival l' m' \<Longrightarrow> leadMove l l' \<Longrightarrow> leadMove m m' \<Longrightarrow> (l = m \<Longrightarrow> l' = m') \<Longrightarrow> rival l m"
  using interestKey_same [of l l'] interestKey_same [of m m'] by (auto simp: rival_def leadMove_def leadSame_def)

text \<open>Writes to leads that are there.\<close>

lemma lead_step_map:
  assumes ok: "leads_ok s" and s': "leads s' = map g (leads s)" "frame {T_leads} s s'"
    and g: "\<And>l. l \<in> set (leads s) \<Longrightarrow> leadMove l (g l)"
  shows "lead_step s s'"
proof -
  have same: "lead_intakes s' = lead_intakes s" "lead_touches s' = lead_touches s" using s'(2) by (simp_all add: frame_def)
  have gl: "leadSame l (g l)" if "l \<in> set (leads s)" for l using g that by (simp add: leadMove_same)
  have "map ld_id (leads s') = map ld_id (leads s)" using gl by (simp add: s' leadSame_def)
  then have "distinct (map ld_id (leads s'))" using ok by (simp only: leads_ok_def)
  moreover have "\<not> rival (g l) (g m)" if "l \<in> set (leads s)" "m \<in> set (leads s)" for l m
    using rival_before [of "g l" "g m" l m] g that ok by (auto simp: leads_ok_def)
  moreover have "touched s' (g l)" if "l \<in> set (leads s)" for l
    using that gl [OF that] ok by (simp add: leads_ok_def touched_def leadSame_def same)
  moreover have "\<exists>l' \<in> set (leads s'). leadIs (li_tenant x) lid l'" if "x \<in> set (lead_intakes s')" "li_lead x = Some lid" for x lid
  proof -
    obtain l where "l \<in> set (leads s)" "leadIs (li_tenant x) lid l"
      using leads_ok_intake [OF ok] \<open>x \<in> set (lead_intakes s')\<close> \<open>li_lead x = Some lid\<close> same by metis
    with gl [of l] show ?thesis unfolding s' by (intro bexI [of _ "g l"]) (auto simp: leadIs_def leadSame_def)
  qed
  ultimately have "leads_ok s'" unfolding leads_ok_def by (simp add: s')
  moreover have "leadsMove s s'" using g unfolding leadsMove_def by (auto simp: s' same)
  ultimately show ?thesis by (simp add: lead_step_def)
qed

lemma lead_step_update:
  assumes ok: "leads_ok s" and cur: "find (leadHere tenant lid) (leads s) = Some cur" "\<not> finished (ld_state cur)"
    and s': "leads s' = update_where P f (leads s)" "frame {T_leads} s s'"
    and P: "\<And>l. P l \<Longrightarrow> leadHere tenant lid l" and f: "\<And>l. leadSame l (f l)"
  shows "lead_step s s'"
proof (rule lead_step_map [OF ok _ s'(2), where g = "\<lambda>l. if P l then f l else l"])
  show "leads s' = map (\<lambda>l. if P l then f l else l) (leads s)" using s'(1) by (simp add: update_where_def)
  fix l assume l: "l \<in> set (leads s)"
  have "l = cur" if "P l"
    using P [OF that] find_SomeD [OF cur(1)] l ok distinct_map_eq [of ld_id "leads s" l cur]
    by (simp add: leads_ok_def leadHere_def)
  then show "leadMove l (if P l then f l else l)" using f [of l] cur(2) by (auto simp: leadMove_def leadSame_def)
qed

text \<open>A new lead, with its touch and its intake.\<close>

lemma lead_step_add:
  assumes ok: "leads_ok s" and s': "leads s' = leads s @ ls" "lead_touches s' = lead_touches s @ ts" "lead_intakes s' = lead_intakes s @ [x]"
    and ls: "\<And>l. l \<in> set ls \<Longrightarrow> touched s' l" "\<And>l m. l \<in> set ls \<Longrightarrow> m \<in> set (leads s) \<Longrightarrow> \<not> rival l m"
      "ls = [] \<or> ls = [new] \<and> ld_id new \<notin> ld_id ` set (leads s)"
    and x: "\<And>lid. li_lead x = Some lid \<Longrightarrow> \<exists>l \<in> set (leads s'). leadIs (li_tenant x) lid l"
  shows "lead_step s s'"
proof -
  have "distinct (map ld_id (leads s'))" using ok ls(3) by (elim disjE conjE) (simp_all add: leads_ok_def s')
  moreover have "\<not> rival l m" if "l \<in> set (leads s')" "m \<in> set (leads s')" for l m
  proof -
    have "rival l m \<longleftrightarrow> rival m l" "\<not> rival l l" by (auto simp: rival_def)
    with that ok ls(2) [of l m] ls(2) [of m l] ls(3) show ?thesis by (auto simp: leads_ok_def s')
  qed
  moreover have "touched s' l" if "l \<in> set (leads s')" for l
    using that ok ls(1) by (auto simp: leads_ok_def s' touched_def)
  moreover have "\<exists>l \<in> set (leads s'). leadIs (li_tenant y) lid l" if "y \<in> set (lead_intakes s')" "li_lead y = Some lid" for y lid
  proof (cases "y = x")
    case False
    with that(1) have "y \<in> set (lead_intakes s)" by (simp add: s')
    from leads_ok_intake [OF ok this that(2)] show ?thesis by (auto simp: s')
  qed (use that x in blast)
  ultimately have "leads_ok s'" unfolding leads_ok_def by blast
  moreover have "leadsMove s s'" using s'(1,3) by (rule leadsMove_grow)
  ultimately show ?thesis by (simp add: lead_step_def)
qed

section \<open>Every command\<close>

lemma legal_open: "st \<in> set (LEGAL_TRANSITIONS a) \<Longrightarrow> \<not> finished a"
  by (cases a) (auto simp: finished_def)

lemma leadEvent_leads [simp]: "leads (leadEvent tenant lid a b d note actor s) = leads s"
  by (simp add: leadEvent_def)

lemma transitionLeadBody_step:
  "leads_ok s \<Longrightarrow> yields (transitionLeadBody e tenant user lid st n d note s) (lead_step s)"
  unfolding transitionLeadBody_def Let_def
  by (intro yields_intros)
    (auto simp: lead_step_refl audited_def frame_def leadEvent_def leadSame_def intro!: lead_step_update dest: legal_open)

lemma handOffBody_step: "leads_ok s \<Longrightarrow> yields (handOffBody e tenant user lid n to s) (lead_step s)"
  unfolding handOffBody_def Let_def
  by (intro yields_intros)
    (auto simp: lead_step_refl audited_def frame_def leadEvent_def leadSame_def intro!: lead_step_update dest: legal_open)

lemma writeAssignment_step:
  assumes "leads_ok s" "find (leadHere tenant lid) (leads s) = Some cur" "\<not> finished (ld_state cur)"
  shows "yields (writeAssignment tenant actor lid cur n to qid reason note s) (lead_step s)"
  unfolding writeAssignment_def Let_def
  by (intro yields_intros lead_step_update [OF assms, where P = "\<lambda>l. leadHere tenant lid l \<and> ld_version l = n"
        and f = "\<lambda>l. l\<lparr>ld_owner := map_option pgUuid to, ld_queue := map_option pgUuid qid,
             ld_state := (if ld_state l = LS_new \<and> map_option pgUuid to \<noteq> None then LS_working else ld_state l),
             ld_version := ld_version l + 1\<rparr>"])
    (auto simp: audited_def frame_def leadEvent_def leadSame_def)

lemma assignBody_step: "leads_ok s \<Longrightarrow> yields (assignBody e tenant user lid n to qid reason note s) (lead_step s)"
  unfolding assignBody_def by (intro yields_intros writeAssignment_step) (simp_all add: lead_step_refl)

lemma writeActivity_step:
  assumes "leads_ok s" "find (leadHere tenant lid) (leads s) = Some cur" "\<not> finished (ld_state cur)"
  shows "yields (writeActivity e tenant actor lid subject i due s) (lead_step s)"
proof -
  have "lead_step s (audited a b c d x (stampFirstResponseWithin e tenant lid (s\<lparr>lead_activities := acts\<rparr>)))" for a b c d x acts
    by (rule lead_step_update [OF assms, where P = "\<lambda>l. leadHere tenant lid l \<and> ld_first_response l = None"
          and f = "\<lambda>l. l\<lparr>ld_first_response := Some (clock e)\<rparr>"])
      (auto simp: audited_def frame_def stampFirstResponseWithin_def leadSame_def)
  moreover have "lead_step s (audited a b c d x (s\<lparr>lead_activities := acts\<rparr>))" for a b c d x acts
    by (rule lead_step_same [OF assms(1)]) (simp_all add: audited_def)
  ultimately show ?thesis unfolding writeActivity_def Let_def by (intro yields_intros) simp
qed

lemma logActivityWithin_step: "leads_ok s \<Longrightarrow> yields (logActivityWithin e tenant user lid i s) (lead_step s)"
  unfolding logActivityWithin_def by (intro yields_intros writeActivity_step) (simp_all add: lead_step_refl)

lemma advanceToAppointment_step:
  assumes "leads_ok s" "find (leadHere tenant lid) (leads s) = Some cur" "\<not> finished (ld_state cur)"
    and "leads s0 = leads s" "frame {} s s0" "advanceToAppointment tenant actor lid cur s0 = (l, s1)"
  shows "lead_step s (audited a b c d x s1)"
proof (cases "s1 = s0")
  case True
  with assms(1,4,5) show ?thesis by (intro lead_step_same) (simp_all add: frame_def audited_def)
next
  case False
  then have "leads (audited a b c d x s1) =
      update_where (\<lambda>l. leadHere tenant lid l \<and> ld_state l \<in> {LS_new, LS_working, LS_qualified})
        (\<lambda>l. l\<lparr>ld_state := LS_appointment_set, ld_version := ld_version l + 1\<rparr>) (leads s)"
    using assms(4,6) by (auto simp: advanceToAppointment_def Let_def split: if_splits)
  moreover have "frame {T_leads} s (audited a b c d x s1)"
    using advanceToAppointment_frame [of s0 tenant actor lid cur] assms(5,6) by (auto simp: frame_def audited_def)
  ultimately show ?thesis by (rule lead_step_update [OF assms(1-3)]) (auto simp: leadSame_def)
qed

lemma scheduleAppointmentWithin_step:
  "leads_ok s \<Longrightarrow> yields (scheduleAppointmentWithin e tenant user lid p a b k u s) (lead_step s)"
  unfolding scheduleAppointmentWithin_def Let_def
  by (intro yields_intros)
    (auto simp: lead_step_refl appointmentEvent_def frame_def elim!: advanceToAppointment_step [rotated -1])

text \<open>The sweep only stamps leads that are not finished.\<close>

definition stamp :: "lead \<Rightarrow> lead \<Rightarrow> bool" where
  "stamp l l' = ((\<exists>t. l' = l\<lparr>ld_escalated := t\<rparr>) \<and> (finished (ld_state l) \<longrightarrow> l' = l))"

definition stamped :: "crm_db \<Rightarrow> crm_db \<Rightarrow> bool" where
  "stamped s s' = (frame {T_leads} s s' \<and> (\<exists>g. leads s' = map g (leads s) \<and> (\<forall>l \<in> set (leads s). stamp l (g l))))"

lemma stamp_refl: "stamp l l"
  unfolding stamp_def by (intro conjI exI [of _ "ld_escalated l"]) simp_all

lemma stamped_refl: "stamped s s"
  unfolding stamped_def by (intro conjI exI [of _ id]) (simp_all add: stamp_refl)

lemma stamp_again: "stamp l l' \<Longrightarrow> \<not> finished (ld_state l) \<Longrightarrow> stamp l (l'\<lparr>ld_escalated := Some t\<rparr>)"
  by (auto simp: stamp_def)

lemma stamp_move: "stamp l l' \<Longrightarrow> leadMove l l'"
  by (auto simp: stamp_def leadMove_def leadSame_def)

lemma stamped_step: "leads_ok s \<Longrightarrow> stamped s s' \<Longrightarrow> lead_step s s'"
  unfolding stamped_def using stamp_move by (metis lead_step_map)

lemma escalateOne_stamps:
  assumes ok: "leads_ok s" and l: "l \<in> set (leads s)" "\<not> finished (ld_state l)" and acc: "stamped s (snd acc)"
  shows "stamped s (snd (escalateOne t tenant l acc))"
proof -
  obtain r s1 where s1: "acc = (r, s1)" by (cases acc)
  obtain g where g: "leads s1 = map g (leads s)" "\<And>m. m \<in> set (leads s) \<Longrightarrow> stamp m (g m)"
    using acc s1 by (auto simp: stamped_def)
  define P where "P x \<longleftrightarrow> ld_tenant x = tenant \<and> ld_id x = ld_id l \<and> ld_escalated x = None" for x :: lead
  define g' where "g' m = (if P (g m) then (g m)\<lparr>ld_escalated := Some t\<rparr> else g m)" for m
  have "stamp m (g' m)" if m: "m \<in> set (leads s)" for m
  proof (cases "P (g m)")
    case True
    with stamp_move [OF g(2) [OF m]] have "ld_id m = ld_id l" by (simp add: P_def leadMove_def leadSame_def)
    with l(1) m ok distinct_map_eq [of ld_id "leads s" m l] have "m = l" by (simp add: leads_ok_def)
    with True l(2) g(2) [OF m] show ?thesis by (simp add: g'_def stamp_again)
  qed (use g(2) [OF m] in \<open>simp add: g'_def\<close>)
  moreover have "update_where P (\<lambda>x. x\<lparr>ld_escalated := Some t\<rparr>) (leads s1) = map g' (leads s)"
    by (simp add: update_where_def g(1) g'_def)
  moreover have "frame {T_leads} s s1" using acc s1 by (simp add: stamped_def)
  ultimately have "stamped s (s1\<lparr>lead_escalations := xs, leads := update_where P (\<lambda>x. x\<lparr>ld_escalated := Some t\<rparr>) (leads s1)\<rparr>)" for xs
    unfolding stamped_def by (intro conjI exI [of _ g']) (simp_all add: frame_def)
  then show ?thesis using acc s1 unfolding P_def by (simp add: escalateOne_def)
qed

lemma escalate_stamps:
  assumes "leads_ok s" "\<forall>l \<in> set ls. l \<in> set (leads s) \<and> \<not> finished (ld_state l)" "stamped s (snd acc)"
  shows "stamped s (snd (fold (escalateOne t tenant) ls acc))"
  using assms(2,3)
proof (induction ls arbitrary: acc)
  case (Cons l ls)
  then show ?case using escalateOne_stamps [OF assms(1), of l acc t tenant] by simp
qed simp

lemma runEscalationSweep_step:
  assumes "leads_ok s"
  shows "lead_step s (snd (runEscalationSweep e tenant limit s))"
proof -
  let ?due = "take (bounded 500 100 limit) (sort_key (\<lambda>l. the (ld_escalate l)) (filter (escalationDue (clock e) tenant) (leads s)))"
  have due: "\<forall>l \<in> set ?due. l \<in> set (leads s) \<and> \<not> finished (ld_state l)"
    by (auto simp: escalationDue_def dest!: in_set_takeD)
  have "stamped s (snd (fold (escalateOne (clock e) tenant) ?due (r, s)))" for r
    by (rule escalate_stamps [OF assms due]) (simp add: stamped_refl)
  then show ?thesis
    using stamped_step [OF assms] by (simp add: runEscalationSweep_def withTenantTransaction_def Let_def case_prod_beta)
qed

section \<open>Capture\<close>

lemma newLead_fields [simp]:
  "ld_id (newLead lid t tenant pid src i sla) = lid"
  "ld_tenant (newLead lid t tenant pid src i sla) = tenant"
  "ld_party (newLead lid t tenant pid src i sla) = pid"
  "ld_rooftop (newLead lid t tenant pid src i sla) = pgUuid (lc_rooftop i)"
  by (simp_all add: newLead_def)

lemma openLead_rival: "\<not> list_ex (openLead (ld_tenant l) (ld_rooftop l) (ld_party l) (interestKey l)) rows \<Longrightarrow> m \<in> set rows \<Longrightarrow> \<not> rival l m"
  by (auto simp: list_ex_iff openLead_def rival_def)

text \<open>What a capture with a customer leaves behind: its intake is on file, under the lead it answered with.\<close>

definition answered :: "string \<Rightarrow> string \<Rightarrow> LeadCaptureOutcome \<Rightarrow> crm_db \<Rightarrow> bool" where
  "answered tenant key r s =
     (\<forall>l p b. r = LC_created l p \<or> r = LC_merged_into_existing l p b \<longrightarrow>
        (\<exists>x. find (\<lambda>x. li_tenant x = tenant \<and> li_key x = key) (lead_intakes s) = Some x \<and> li_lead x = Some (ld_id l))
        \<and> l \<in> set (leads s) \<and> ld_tenant l = tenant \<and> ld_party l = p)"

lemma claimInterest_step:
  assumes ok: "leads_ok s" and fresh: "draw 1 \<notin> ld_id ` set (leads s)"
    and key: "find (\<lambda>x. li_tenant x = tenant \<and> li_key x = key) (lead_intakes s) = None"
    and run: "claimInterest e draw tenant actor key src pid i s = Inr (r, s')"
  shows "lead_step s s' \<and> answered tenant key r s'"
proof (cases "find (openLead tenant (pgUuid (lc_rooftop i)) pid (interestKeyOf i)) (leads s)")
  case (Some l)
  then have l: "l \<in> set (leads s)" "ld_tenant l = tenant" "ld_party l = pid" by (auto simp: openLead_def dest: find_SomeD)
  from run Some obtain ts x where s': "leads s' = leads s" "lead_touches s' = lead_touches s @ ts" "lead_intakes s' = lead_intakes s @ [x]"
    and x: "li_tenant x = tenant" "li_key x = key" "li_lead x = Some (ld_id l)" and r: "r = LC_merged_into_existing l pid False"
    by (auto simp: claimInterest_def recordSourceTouchWithin_def recordIntake_def Let_def)
  have "lead_step s s'"
    by (rule lead_step_add [OF ok, where ls = "[]"]) (use s' x l in \<open>auto simp: leadIs_def\<close>)
  moreover have "answered tenant key r s'" using l by (auto simp: answered_def r s' find_append key x)
  ultimately show ?thesis by simp
next
  case None
  let ?sla = "find (\<lambda>p. sp_tenant p = tenant \<and> sp_rooftop p = pgUuid (lc_rooftop i) \<and> sp_active p) (sla_policies s)"
  let ?l = "newLead (draw 1) (clock e) tenant pid src i ?sla"
  from run None obtain t x where s': "leads s' = leads s @ [?l]" "lead_touches s' = lead_touches s @ [t]" "lead_intakes s' = lead_intakes s @ [x]"
    and x: "li_tenant x = tenant" "li_key x = key" "li_lead x = Some (draw 1)" and t: "lt_tenant t = tenant" "lt_lead t = draw 1"
    and r: "r = LC_created ?l pid" and one: "\<not> list_ex (openLead tenant (pgUuid (lc_rooftop i)) pid (interestKey ?l)) (leads s)"
    by (auto simp: claimInterest_def recordSourceTouchWithin_def recordIntake_def Let_def audited_def)
  have "lead_step s s'"
  proof (rule lead_step_add [OF ok, where ls = "[?l]" and new = ?l])
    show "\<not> rival l m" if "l \<in> set [?l]" "m \<in> set (leads s)" for l m
      using openLead_rival [of ?l "leads s" m] one that by simp
  qed (use s' x t fresh in \<open>auto simp: leadIs_def touched_def\<close>)
  moreover have "answered tenant key r s'" by (auto simp: answered_def r s' find_append key x)
  ultimately show ?thesis by simp
qed

lemma answered_invalid [simp]: "answered tenant key (LC_invalid err) s"
  by (simp add: answered_def)

lemma replayIntake_answers:
  assumes "find (\<lambda>x. li_tenant x = tenant \<and> li_key x = key) (lead_intakes s) = Some prior"
  shows "answered tenant key (replayIntake tenant prior s) s"
  unfolding answered_def
proof (intro allI impI)
  fix l p b
  assume "replayIntake tenant prior s = LC_created l p \<or> replayIntake tenant prior s = LC_merged_into_existing l p b"
  then obtain lid where lid: "li_lead prior = Some lid" "find (\<lambda>l. ld_tenant l = tenant \<and> ld_id l = lid) (leads s) = Some l" "p = ld_party l"
    by (auto simp: replayIntake_def split: option.splits)
  with find_SomeD [OF lid(2)] assms
  show "(\<exists>x. find (\<lambda>x. li_tenant x = tenant \<and> li_key x = key) (lead_intakes s) = Some x \<and> li_lead x = Some (ld_id l))
      \<and> l \<in> set (leads s) \<and> ld_tenant l = tenant \<and> ld_party l = p" by auto
qed

lemma lead_step_parties: "leads_ok s \<Longrightarrow> frame {T_parties} s s' \<Longrightarrow> lead_step s s'"
  by (intro lead_step_same) (simp_all add: frame_def)

lemma captureLeadWithin_step:
  assumes ok: "leads_ok s" and fresh: "draw 1 \<notin> ld_id ` set (leads s)"
    and run: "captureLeadWithin e draw tenant user i s = Inr (r, s')"
  shows "lead_step s s' \<and> answered tenant (trim (lc_key i)) r s'"
proof (cases "find (\<lambda>x. li_tenant x = tenant \<and> li_key x = trim (lc_key i)) (lead_intakes s)")
  case (Some prior)
  with run have "s' = s \<and> (r = replayIntake tenant prior s \<or> (\<exists>err. r = LC_invalid err))"
    by (auto simp: captureLeadWithin_def Let_def split: if_splits)
  with lead_step_refl [OF ok] replayIntake_answers [OF Some] show ?thesis by auto
next
  case None
  let ?key = "trim (lc_key i)"
  consider (refused) err where "s' = s" "r = LC_invalid err"
    | (rejected) err s1 ch print actor where "frame {T_parties} s s1" "r = LC_invalid err"
        "s' = recordIntake tenant ?key ch None IO_rejected (Some err) print actor s1"
    | (claimed) pid s1 actor src where "frame {T_parties} s s1" "claimInterest e draw tenant actor ?key src pid i s1 = Inr (r, s')"
  proof (cases "?key = [] \<or> length ?key > 200 \<or> lc_stock i \<noteq> None \<and> lc_vehicle i \<noteq> None")
    case True
    with run refused show thesis by (auto simp: captureLeadWithin_def Let_def split: if_splits)
  next
    case False
    then have c: "\<not> (?key = [] \<or> length ?key > 200)" "\<not> (lc_stock i \<noteq> None \<and> lc_vehicle i \<noteq> None)" by blast+
    note go = run [unfolded captureLeadWithin_def Let_def if_not_P [OF c(1)] if_not_P [OF c(2)] None option.case(1)]
    then obtain actor where a: "actor_of user s = Inr actor" by auto
    show thesis
    proof (cases "find (\<lambda>x. so_tenant x = tenant \<and> so_code x = lc_source_code i \<and> so_active x) (lead_sources s)")
      case None
      with go a refused show thesis by auto
    next
      case (Some src)
      with go a obtain rp s1 where rp: "resolveParty (draw 0) tenant actor i s = Inr (rp, s1)" by auto
      note fr = yieldsD [OF resolveParty_frame rp]
      show thesis
      proof (cases rp)
        case (RP_party pid)
        with go a Some rp show thesis by (intro claimed [OF fr]) simp
      next
        case (RP_invalid err)
        with go a Some rp show thesis 
          by (intro rejected [OF fr, where err = err and ch = "lc_channel i" and print = "fingerprintOf (sha (platform e)) i"
                and actor = actor]) auto
      qed
    qed
  qed
  then show ?thesis
  proof cases
    case refused
    with lead_step_refl [OF ok] show ?thesis by simp
  next
    case rejected
    then obtain x where x: "lead_intakes s' = lead_intakes s @ [x]" "li_lead x = None" "leads s' = leads s" "lead_touches s' = lead_touches s"
      by (auto simp: recordIntake_def frame_def)
    then have "lead_step s s'" by (intro lead_step_add [OF ok, where ls = "[]" and ts = "[]" and x = x]) simp_all
    with rejected(2) show ?thesis by simp
  next
    case claimed
    have step: "lead_step s s1" by (rule lead_step_parties [OF ok claimed(1)])
    then have "leads_ok s1" by (simp add: lead_step_def)
    moreover have "leads s1 = leads s" "lead_intakes s1 = lead_intakes s" using claimed(1) by (simp_all add: frame_def)
    ultimately have "lead_step s1 s' \<and> answered tenant ?key r s'"
      using claimInterest_step [OF _ _ _ claimed(2)] fresh None by simp
    with lead_step_trans [OF step] show ?thesis by blast
  qed
qed

lemma respondTo_step:
  assumes "leads_ok s" "drawn e 1 \<notin> ld_id ` set (leads s)"
  shows "yields (respondTo e tenant actor sid kind detail row c src s) (lead_step s)"
proof -
  have cap: "yields (captureLeadWithin e (drawn e) tenant actor i s) (lead_step s)" for i
    by (rule yieldsI) (use captureLeadWithin_step [of s "drawn e"] assms in blast)
  have sup: "yields (suppressContactWithin nid tenant actor k v r p s) (lead_step s)" for nid k v r p
    by (rule yields_weaken [OF suppressContactWithin_frame]) (intro lead_step_same, simp_all add: assms frame_def)
  have "yields (writeResponse e tenant actor sid k lid detail s1) (lead_step s)" if "lead_step s s1" for k lid s1
    by (rule yields_weaken [OF writeResponse_frame])
      (intro lead_step_trans [OF that] lead_step_same, use that in \<open>simp_all add: lead_step_def frame_def\<close>)
  then show ?thesis
    unfolding respondTo_def
    by (intro yields_step [OF cap] yields_step [OF sup] yields_intros)
      (auto split: LeadCaptureOutcome.splits SuppressOutcome.splits intro: yields_Inr)
qed

lemma exec_lead_step:
  assumes ok: "leads_ok s" and fresh: "crm_fresh e s"
  shows "lead_step s (snd (crm_exec e tenant user q s))"
proof (cases "T_leads \<in> writes q \<or> T_intake \<in> writes q")
  case False
  then show ?thesis using exec_frame [of q s e tenant user] by (intro lead_step_same [OF ok]) (simp_all add: frame_def)
next
  case True
  have new: "drawn e n \<notin> ld_id ` set (leads s)" for n using fresh by (auto simp: crm_fresh_def usedIds_def)
  have y: "lead_step s (snd (withTenantTransaction body s))" if "yields (body s) (lead_step s)" for body :: "'a ctx"
    by (rule yields_transaction [where Q = "lead_step s"]) (use lead_step_refl [OF ok] that in simp_all)
  have "yields (captureLeadWithin e (drawn e) tenant user i s) (lead_step s)" for i
    by (rule yieldsI) (use captureLeadWithin_step [of s "drawn e"] ok new in blast)
  then have "lead_step s (snd (captureLead e tenant user i s))" for i unfolding captureLead_def by (rule y)
  moreover have "lead_step s (snd (transitionLead e tenant user lid st n d nt s))" for lid st n d nt
    unfolding transitionLead_def using lead_step_refl [OF ok] by (auto intro: y transitionLeadBody_step [OF ok] split: option.split)
  moreover have "lead_step s (snd (handOffLead e tenant user lid n who s))" for lid n who
    unfolding handOffLead_def by (intro y handOffBody_step ok)
  moreover have "lead_step s (snd (assignLead e tenant user lid n who qid reason nt s))" for lid n who qid reason nt
    unfolding assignLead_def using lead_step_refl [OF ok] by (auto intro: y assignBody_step [OF ok])
  moreover have "lead_step s (snd (logActivity e tenant user lid i s))" for lid i
    unfolding logActivity_def by (intro y logActivityWithin_step ok)
  moreover have "lead_step s (snd (scheduleAppointment e tenant user lid p a b k u s))" for lid p a b k u
    unfolding scheduleAppointment_def by (intro y scheduleAppointmentWithin_step ok)
  moreover have "lead_step s (snd (recordCampaignResponse e tenant user cid sid kind detail s))" for cid sid kind detail
    unfolding recordCampaignResponse_def
    by (intro y) (unfold responseBody_def, intro yields_intros respondTo_step lead_step_refl ok new)
  ultimately show ?thesis using True runEscalationSweep_step [OF ok] by (cases q) simp_all
qed

interpretation leads: tracked leads_ok leadsMove
proof
  fix s d ks vs ob
  show "leads_ok s \<Longrightarrow> leads_ok (s\<lparr>desk := d, stock_items := ks, vehicle_ids := vs, outbox := ob\<rparr>)" by (simp add: leads_ok_def touched_def)
  show "leadsMove s (s\<lparr>desk := d, stock_items := ks, vehicle_ids := vs, outbox := ob\<rparr>)"
    by (rule leadsMove_grow [of _ _ "[]" "[]"]) simp_all
qed (use exec_lead_step leadsMove_trans in \<open>auto simp: lead_step_def\<close>)

section \<open>Intake keys\<close>

lemma run_keeps_intake:
  assumes "crm_run s msgs s'" "leads_ok s" "find P (lead_intakes s) = Some x"
  shows "find P (lead_intakes s') = Some x"
proof -
  obtain xs where "lead_intakes s' = lead_intakes s @ xs" using leads.run_tracks [OF assms(1,2)] by (auto simp: leadsMove_def)
  with assms(3) show ?thesis by (simp add: find_append)
qed

lemma run_keeps_lead:
  assumes "crm_run s msgs s'" "leads_ok s" "l \<in> set (leads s)"
  obtains l' where "l' \<in> set (leads s')" "leadMove l l'"
  using leads.run_tracks [OF assms(1,2)] assms(3) by (auto simp: leadsMove_def)

lemma captureLead_replays:
  assumes prior: "find (\<lambda>x. li_tenant x = tenant \<and> li_key x = trim (lc_key i)) (lead_intakes s) = Some x" "li_lead x = Some (ld_id l)"
    and l: "l \<in> set (leads s)" "ld_tenant l = tenant" and ok: "leads_ok s"
    and one: "lc_stock i = None \<or> lc_vehicle i = None" and key: "trim (lc_key i) \<noteq> []" "length (trim (lc_key i)) \<le> 200"
    and run: "captureLead e tenant user i s = (Inr r, s')"
  shows "s' = s" "r = LC_merged_into_existing l (ld_party l) True"
proof -
  have "find (\<lambda>m. ld_tenant m = tenant \<and> ld_id m = ld_id l) (leads s) = Some l"
    using ok l by (intro find_key [of ld_id]) (auto simp: leads_ok_def)
  then have replay: "replayIntake tenant x s = LC_merged_into_existing l (ld_party l) True" by (simp add: replayIntake_def prior)
  have c: "\<not> (trim (lc_key i) = [] \<or> length (trim (lc_key i)) > 200)" "\<not> (lc_stock i \<noteq> None \<and> lc_vehicle i \<noteq> None)"
    using one key by auto
  have "captureLeadWithin e (drawn e) tenant user i s = Inr (r, s')"
    using run by (simp add: captureLead_def withTenantTransaction_ok)
  from this [unfolded captureLeadWithin_def Let_def if_not_P [OF c(1)] if_not_P [OF c(2)] prior(1) option.case(2)]
  show "s' = s" "r = LC_merged_into_existing l (ld_party l) True" by (auto simp: replay)
qed

lemma intake_answer:
  assumes "leads_ok s" "crm_fresh e s" "captureLead e tenant user i s = (Inr r, s1)"
  shows "leads_ok s1" "answered tenant (trim (lc_key i)) r s1"
proof -
  have "captureLeadWithin e (drawn e) tenant user i s = Inr (r, s1)"
    using assms(3) by (simp add: captureLead_def withTenantTransaction_ok)
  moreover have "drawn e 1 \<notin> ld_id ` set (leads s)" using assms(2) by (auto simp: crm_fresh_def usedIds_def)
  ultimately show "leads_ok s1" "answered tenant (trim (lc_key i)) r s1"
    using captureLeadWithin_step [OF assms(1)] by (auto simp: lead_step_def)
qed

lemma capture_key: "captureLead e tenant user i s = (Inr r, s1) \<Longrightarrow> (\<And>err. r \<noteq> LC_invalid err) \<Longrightarrow>
    trim (lc_key i) \<noteq> [] \<and> length (trim (lc_key i)) \<le> 200"
  by (auto simp: captureLead_def withTenantTransaction_ok captureLeadWithin_def Let_def split: if_splits)

section \<open>Attribution\<close>

lemma attributionWeights_length [simp]: "length (attributionWeights model n) = n"
  by (cases model) (auto simp: attributionWeights_def Let_def)

lemma spread_sum: "sum_list (map (\<lambda>i. b + (if i < r then 1 else 0)) [0..<n]) = n * b + min n (r :: nat)"
  by (induction n) (auto simp: min_def)

lemma attributionWeights_sum: "0 < n \<Longrightarrow> sum_list (attributionWeights model n) = 10000"
proof (cases model)
  case AM_linear
  assume n: "0 < n"
  have "10000 - 10000 div n * n = 10000 mod n" by (simp add: minus_div_mult_eq_mod)
  moreover have "10000 mod n \<le> n" using n by (simp add: less_imp_le)
  ultimately show ?thesis using AM_linear n spread_sum [of "10000 div n" "10000 mod n" n] by (simp add: attributionWeights_def Let_def)
qed (simp_all add: attributionWeights_def sum_list_replicate)

lemma sum_nonzero: "sum_list (map snd (filter (\<lambda>(_, w). w \<noteq> 0) xs)) = sum_list (map snd (xs :: ('a \<times> nat) list))"
  by (induction xs) auto

lemma creditsOf_sum:
  assumes "touchesOf tenant lid s \<noteq> []"
  shows "sum_list (map lw_weight (creditsOf tenant run model s lid)) = 10000"
proof -
  let ?z = "zip (touchesOf tenant lid s) (attributionWeights model (length (touchesOf tenant lid s)))"
  have "map lw_weight (creditsOf tenant run model s lid) = map snd (filter (\<lambda>(_, w). w \<noteq> 0) ?z)"
    by (auto simp: creditsOf_def Let_def)
  then show ?thesis using assms attributionWeights_sum by (simp add: sum_nonzero [simplified] map_snd_zip)
qed

lemma creditsOf_lead: "c \<in> set (creditsOf tenant run model s lid) \<Longrightarrow> lw_lead c = lid"
  by (auto simp: creditsOf_def Let_def)

lemma credits_of_one:
  assumes "distinct lids" "lid \<in> set lids"
  shows "filter (\<lambda>c. lw_lead c = lid) (concat (map (creditsOf tenant run model s) lids)) = creditsOf tenant run model s lid"
  using assms
proof (induction lids)
  case (Cons x lids)
  have "filter (\<lambda>c. lw_lead c = lid) (concat (map (creditsOf tenant run model s) lids)) = []" if "lid \<notin> set lids"
    using that by (auto simp: filter_empty_conv dest: creditsOf_lead)
  moreover have "filter (\<lambda>c. lw_lead c = lid) (creditsOf tenant run model s x) = (if x = lid then creditsOf tenant run model s x else [])"
    by (auto simp: filter_empty_conv filter_id_conv dest: creditsOf_lead)
  ultimately show ?case using Cons by auto
qed simp

lemma attribution_full:
  assumes ok: "leads_ok s" and run: "computeAttribution e tenant user rooftop model ws we s = (Inr (AB_computed r), s')"
    and l: "l \<in> set (leads s)" "ld_tenant l = tenant" "ld_rooftop l = pgUuid rooftop" "an_start r \<le> ld_created l" "ld_created l < an_end r"
  shows "\<exists>credits. lead_attributions s' = lead_attributions s @ credits \<and>
    sum_list (map lw_weight (filter (\<lambda>c. lw_lead c = ld_id l) credits)) = 10000"
proof -
  obtain m a b where m: "attributionBody e tenant user rooftop m a b s = Inr (AB_computed r, s')"
    using run by (auto simp: computeAttribution_def withTenantTransaction_ok split: option.splits if_splits)
  let ?lids = "leadsInWindow tenant (pgUuid rooftop) a b s"
  have s': "lead_attributions s' = lead_attributions s @ concat (map (creditsOf tenant (drawn e 0) m s) ?lids)"
    and ab: "an_start r = a" "an_end r = b"
    using m by (auto simp: attributionBody_def Let_def audited_def)
  have "distinct ?lids" using ok unfolding leadsInWindow_def by (simp add: leads_ok_def distinct_map_filter)
  moreover have "ld_id l \<in> set ?lids" using l ab by (auto simp: leadsInWindow_def)
  moreover have "touchesOf tenant (ld_id l) s \<noteq> []"
  proof -
    obtain t where "t \<in> set (lead_touches s)" "lt_tenant t = tenant" "lt_lead t = ld_id l"
      using ok l(1,2) by (auto simp: leads_ok_def touched_def)
    then have "t \<in> set (touchesOf tenant (ld_id l) s)" by (simp add: touchesOf_def)
    then show ?thesis by force
  qed
  ultimately show ?thesis using s' creditsOf_sum credits_of_one by metis
qed

end
