(* ===== verification/CrmSamples.thy ===== *)
theory CrmSamples
  imports CrmPass CrmPeople CrmLife "HOL-Library.Code_Target_Nat"
begin

text \<open>
  A dealership the witnesses run on: one rooftop in UTC, a manager, a simulated provider, and
  scripts of commands, each with the instant it is issued at.
\<close>

definition crmId :: "nat \<Rightarrow> nat \<Rightarrow> string" where
  "crmId n k = replicate (Suc n) CHR ''a'' @ replicate k CHR ''b''"

definition utcParts :: "int \<Rightarrow> string \<Rightarrow> (nat \<times> nat) option" where
  "utcParts t zone = (if zone = ''UTC'' then Some (nat (t div 3600000 mod 24), nat (t div 60000 mod 60)) else None)"

definition crmDates :: "(string \<times> int) list" where
  "crmDates = [(''2026-01-01'', 0), (''2026-01-02'', 86400000)]"

definition crmEnv :: "nat \<Rightarrow> int \<Rightarrow> crm_env" where
  "crmEnv n t = \<lparr>platform = \<lparr>dnow = t, newId = crmId n, instantOf = map_of crmDates, isoText = (\<lambda>_. ''''),
       numText = (\<lambda>_. ''''), sha = id\<rparr>,
     jsDate = map_of crmDates, intlParts = utcParts, provider = simulatedMessageProvider id\<rparr>"

abbreviation "crmTenant \<equiv> ''t''"
abbreviation "crmUser \<equiv> ''00000000-0000-4000-8000-000000000101''"
abbreviation "crmRooftop \<equiv> ''r''"

definition crmDesk :: desk_db where
  "crmDesk = \<lparr>user_links = [crmUser],
     rooftops = [\<lparr>rt_id = crmRooftop, rt_tenant = crmTenant, rt_active = True, rt_legal_entity = ''l'',
       rt_dealer_group = ''g''\<rparr>],
     role_bindings = [], handoffs = [], cases = [], desk_rules = [], scenarios = [], state_events = [],
     approvals = [], desk_audits = []\<rparr>"

definition crmStart :: crm_db where
  "crmStart = \<lparr>desk = crmDesk, parties = [], party_consents = [], party_merges = [], purpose_consents = [], suppressions = [],
     stock_items = [], vehicle_ids = [], lead_sources = [], lead_queues = [], sla_policies = [], leads = [], lead_events = [],
     lead_assignments = [], lead_escalations = [], lead_intakes = [], lead_touches = [], lead_handoffs = [], lead_activities = [],
     crm_appointments = [], crm_appointment_events = [], campaigns = [], campaign_versions = [], campaign_templates = [],
     audience_members = [], campaign_sends = [], send_events = [], campaign_responses = [], outbox = [], outbox_deliveries = [],
     attribution_runs = [], lead_attributions = []\<rparr>"

definition customer :: "string \<Rightarrow> string \<Rightarrow> party_details" where
  "customer name email = \<lparr>pd_display = Omitted, pd_given = Given name, pd_family = Omitted, pd_organization = Omitted,
     pd_email = Given email, pd_phone = Omitted, pd_line1 = Omitted, pd_city = Omitted, pd_region = Omitted,
     pd_postal = Omitted, pd_country = Omitted\<rparr>"

type_synonym crm_script = "(int \<times> crm_request) list"

abbreviation "crmDoes n x s \<equiv> crm_exec (crmEnv n (fst x)) crmTenant crmUser (snd x) s"

fun runCrm :: "crm_script \<Rightarrow> nat \<Rightarrow> crm_db \<Rightarrow> crm_db" where
  "runCrm [] n s = s"
| "runCrm (x # xs) n s = runCrm xs (Suc n) (snd (crmDoes n x s))"

fun sentBy :: "crm_script \<Rightarrow> nat \<Rightarrow> crm_db \<Rightarrow> crm_log" where
  "sentBy [] n s = []"
| "sentBy (x # xs) n s = map (Pair crmTenant) (fst (crmDoes n x s)) @ sentBy xs (Suc n) (snd (crmDoes n x s))"

text \<open>No identifier in use is of the family the \<open>n\<close>-th command draws from.\<close>

definition freshFamily :: "nat \<Rightarrow> crm_db \<Rightarrow> bool" where
  "freshFamily n s = list_all (\<lambda>x. length (takeWhile (\<lambda>c. c = CHR ''a'') x) \<noteq> Suc n) (usedIds s)"

fun freshCrm :: "crm_script \<Rightarrow> nat \<Rightarrow> crm_db \<Rightarrow> bool" where
  "freshCrm [] n s = True"
| "freshCrm (x # xs) n s = (freshFamily n s \<and> freshCrm xs (Suc n) (snd (crmDoes n x s)))"

lemma crmId_family: "length (takeWhile (\<lambda>c. c = CHR ''a'') (crmId n k)) = Suc n"
proof -
  have "takeWhile (\<lambda>c. c = CHR ''a'') (replicate k CHR ''b'') = []" by (cases k) simp_all
  then show ?thesis unfolding crmId_def by (subst takeWhile_append2) auto
qed

lemma crmId_inj: "inj (crmId n)"
  by (rule injI) (metis add_left_cancel crmId_def length_append length_replicate)

lemma freshFamily_fresh: "freshFamily n s \<Longrightarrow> crm_fresh (crmEnv n t) s"
  using crmId_inj crmId_family by (auto simp: crm_fresh_def crmEnv_def freshFamily_def list_all_iff)

lemma runCrm_run: "freshCrm xs n s \<Longrightarrow> crm_run s (sentBy xs n s) (runCrm xs n s)"
proof (induction xs arbitrary: n s)
  case (Cons x xs)
  then have "crm_run s ([] @ map (Pair crmTenant) (fst (crmDoes n x s))) (snd (crmDoes n x s))"
    by (intro run_call run_none freshFamily_fresh) simp
  moreover have "crm_run (snd (crmDoes n x s)) (sentBy xs (Suc n) (snd (crmDoes n x s))) (runCrm (x # xs) n s)" using Cons by simp
  ultimately show ?case using crm_run_trans by fastforce
qed (simp add: run_none)

lemma crmEnv_clock [simp]: "clock (crmEnv n t) = t"
  by (simp add: crmEnv_def)

lemma crmStart_initial: "crm_initial crmStart"
  by (simp add: crm_initial_def crmStart_def)

section \<open>A campaign\<close>

abbreviation "morning \<equiv> 36000000 :: int"
abbreviation "night \<equiv> 79200000 :: int"
abbreviation "opening \<equiv> 115200000 :: int"

definition mailing :: campaign_input where
  "mailing = \<lparr>ci_rooftop = crmRooftop, ci_name = ''C'', ci_channel = ''email'', ci_purpose = CU_sales_marketing,
     ci_source_code = ''w'', ci_quiet_start = None, ci_quiet_end = None, ci_zone = None\<rparr>"

text \<open>A customer agrees to marketing, and a campaign to every customer is launched.\<close>

definition launchScript :: "string \<Rightarrow> crm_script" where
  "launchScript email = map (Pair morning) [CreateParty ''person'' (customer ''A'' email) False,
     DefineLeadSource ''w'' ''W'' SC_web SM_organic, CreateCampaign mailing,
     DraftCampaignVersion (crmId 2 0) (Some ''S'') ''B'' None,
     SetPurposeConsent (crmId 0 0) ''email'' ''sales_marketing'' ''granted'' ''f'',
     BuildAudience (crmId 2 0) (crmId 3 0) AU_all_active_customers [],
     ApproveCampaignVersion (crmId 2 0) (crmId 3 0) 1, ExecuteCampaignVersion (crmId 2 0) (crmId 3 0) 2]"

definition launched :: "string \<Rightarrow> crm_db" where
  "launched email = runCrm (launchScript email) 0 crmStart"

abbreviation "goesOut \<equiv> (morning, DispatchOne None)"

definition mailScript :: crm_script where
  "mailScript = launchScript ''a@b'' @ [goesOut]"

lemma mailScript_fresh: "freshCrm mailScript 0 crmStart"
  by code_simp

lemma mailScript_sends:
  "sentBy mailScript 0 crmStart = [(crmTenant, \<lparr>rq_send = crmId 7 1, rq_channel = CH_email, rq_contact = ''a@b'', rq_attempt = 1,
     rq_subject = Some ''S'', rq_body = ''B''\<rparr>, PO_sent (simulatedProviderRef id (crmId 7 1)))]"
  by code_simp

lemma launched_asks: "fst (crmDoes 8 goesOut (launched ''a@b'')) = [(\<lparr>rq_send = crmId 7 1, rq_channel = CH_email,
     rq_contact = ''a@b'', rq_attempt = 1, rq_subject = Some ''S'', rq_body = ''B''\<rparr>, PO_sent (simulatedProviderRef id (crmId 7 1)))]"
  by code_simp

lemma launched_run: "crm_run crmStart (sentBy (launchScript ''a@b'') 0 crmStart) (launched ''a@b'')"
proof -
  have "freshCrm (launchScript ''a@b'') 0 crmStart" by code_simp
  then show ?thesis unfolding launched_def by (rule runCrm_run)
qed

lemma crmEnv_faces: "clockFaces (crmEnv n t)"
  by (auto simp: clockFaces_def crmEnv_def utcParts_def nat_less_iff split: if_splits)

lemma steady_utc: "timeZone q = ''UTC'' \<Longrightarrow> steadyZone (crmEnv n t) (timeZone q) u"
proof -
  have "int (nat (u div 3600000 mod 24)) * 60 + int (nat (u div 60000 mod 60)) = u div 60000 mod 1440" for u :: int
    using zmod_zmult2_eq [of 24 "u div 60000" 60] zdiv_zmult2_eq [of 60 u 60000] by simp
  then show "timeZone q = ''UTC'' \<Longrightarrow> ?thesis"
    unfolding steadyZone_def by (intro exI [of _ 0]) (simp add: localMinuteOfDay_def crmEnv_def utcParts_def)
qed

lemma simulated_fits: "referenceFits (simulatedMessageProvider digest rq)"
proof -
  have one: "length (toUpperChars c) \<le> 2" for c by (auto simp: toUpperChars_def Let_def)
  have "length (concat (map toUpperChars xs)) \<le> 2 * length xs" for xs
  proof (induction xs)
    case (Cons c xs)
    with one [of c] show ?case by simp
  qed simp
  from this [of "take 12 (digest (rq_send rq))"] have "length (concat (map toUpperChars (take 12 (digest (rq_send rq))))) \<le> 24" by simp
  then show ?thesis by (auto simp: referenceFits_def simulatedMessageProvider_def simulatedProviderRef_def Let_def)
qed

lemma launched_ready: "passReady (\<lambda>i. crmEnv (k i) (T i)) n nowGiven crmTenant u (launched ''a@b'')"
proof -
  have rows: "list_all (\<lambda>row. sd_withheld row = None) (campaign_sends (launched ''a@b''))"
    "list_all (\<lambda>c. ca_zone c = ''UTC'') (campaigns (launched ''a@b''))"
    by code_simp+
  have "intlParts (crmEnv n t) u ''UTC'' \<noteq> None" "sd_withheld row = None \<Longrightarrow> takesAnswer (crmEnv n t) row" for n t u row
    by (simp_all add: crmEnv_def utcParts_def takesAnswer_def simulated_fits)
  moreover have "c \<in> set (campaigns s)" if "dueWith tenant u s row = Some (row, c, m)" for tenant s row c m
    using that by (auto simp: campaignOf_def elim!: dueWith_Some dest!: find_SomeD)
  ultimately show ?thesis using rows unfolding passReady_def list_all_iff by (metis (no_types, lifting))
qed

text \<open>A pass whose transactions follow each other by a millisecond, each with the database's clock.\<close>

abbreviation "ticking \<equiv> \<lambda>i. crmEnv (8 + i) (morning + int i)"

lemma ticking_pass: "passTimes ticking 25 None morning (morning + 24)"
  using crmEnv_faces by (auto simp: passTimes_def)

text \<open>The same message handed over twice: the first commit is lost, the second is not.\<close>

lemma launched_fresh: "freshFamily 8 (launched ''a@b'')"
  by code_simp

lemma lostCommit_run:
  "crm_run crmStart (sentBy (launchScript ''a@b'') 0 crmStart @ map (Pair crmTenant) (fst (crmDoes 8 goesOut (launched ''a@b''))))
     (launched ''a@b'')"
  by (intro run_lost launched_run freshFamily_fresh launched_fresh)

text \<open>A zone whose clocks go forward by an hour, or back by an hour, in the night.\<close>

definition changingParts :: "int \<Rightarrow> int \<Rightarrow> string \<Rightarrow> (nat \<times> nat) option" where
  "changingParts shift t zone = utcParts (if 90000000 \<le> t then t + shift * 3600000 else t) zone"

definition changingEnv :: "int \<Rightarrow> crm_env" where
  "changingEnv shift = (crmEnv 0 night)\<lparr>intlParts := changingParts shift\<rparr>"

lemma changing_faces: "clockFaces (changingEnv shift)"
  by (auto simp: clockFaces_def changingEnv_def changingParts_def utcParts_def nat_less_iff split: if_splits)

text \<open>Somebody else's address is suppressed before the message goes out.\<close>

definition guarded :: crm_db where
  "guarded = runCrm (launchScript ''a@b'' @ [(morning, SuppressContact SK_email ''X@Y'' SR_manual None)]) 0 crmStart"

lemma guarded_suppresses: "suppressed crmTenant SK_email ''x@y'' guarded"
  by code_simp

lemma guarded_sends:
  "freshCrm [goesOut] 9 guarded \<and> map (\<lambda>(_, rq, _). rq_contact rq) (sentBy [goesOut] 9 guarded) = [''a@b'']"
  by code_simp

text \<open>A message held for the night, to an address that fails at first.\<close>

definition heldOver :: crm_db where
  "heldOver = runCrm (launchScript ''flaky@b'' @ [(night, DispatchOne None)]) 0 crmStart"

lemma heldOver_run: "crm_run crmStart (sentBy (launchScript ''flaky@b'' @ [(night, DispatchOne None)]) 0 crmStart) heldOver"
proof -
  have "freshCrm (launchScript ''flaky@b'' @ [(night, DispatchOne None)]) 0 crmStart" by code_simp
  then show ?thesis unfolding heldOver_def by (rule runCrm_run)
qed

lemma heldOver_due:
  "case nextDue crmTenant opening heldOver of None \<Rightarrow> False
   | Some (row, c, m) \<Rightarrow> sd_state row = SD_deferred_quiet_hours
       \<and> sendEligibility crmTenant (sd_party row) (sd_channel row) (consentPurpose (ca_purpose c)) heldOver = Eligible ''flaky@b''
       \<and> insideQuietHours (crmEnv 9 opening) opening (quietHoursOf c) = Inr False
       \<and> sd_channel row = CH_email \<and> sd_attempts row = 0"
  by code_simp

lemma flaky_fails:
  "simulatedMessageProvider id \<lparr>rq_send = sid, rq_channel = CH_email, rq_contact = ''flaky@b'', rq_attempt = 1,
     rq_subject = sub, rq_body = body\<rparr> = PO_failed False ''channel temporarily unavailable''"
proof -
  have "trim ''flaky@b'' = ''flaky@b''" by code_simp
  moreover have "\<not> startsWith ''bounce@'' ''flaky@b''" "\<not> startsWith ''invalid@'' ''flaky@b''"
    "\<not> startsWith ''no-such-mailbox@'' ''flaky@b''" "startsWith ''flaky@'' ''flaky@b''" by code_simp+
  ultimately show ?thesis by (simp add: simulatedMessageProvider_def)
qed

section \<open>Leads\<close>

definition interest :: "string \<Rightarrow> LeadCaptureInput" where
  "interest key = \<lparr>lc_rooftop = crmRooftop, lc_key = key, lc_channel = IC_manual, lc_source_code = ''w'', lc_party_id = None,
     lc_party = Some (customer ''A'' ''a@b''), lc_stock = None, lc_vehicle = None, lc_campaign_version = None, lc_payload = None\<rparr>"

definition leadScript :: crm_script where
  "leadScript = map (Pair morning) [DefineLeadSource ''w'' ''W'' SC_web SM_organic, CaptureLead (interest ''k''),
     CaptureLead (interest ''m''), TransitionLead (crmId 1 1) ''working'' 1 None None,
     TransitionLead (crmId 1 1) ''closed'' 2 (Some LD_no_contact) None, CaptureLead (interest ''n'')]"

definition leadsAfter :: "nat \<Rightarrow> crm_db" where
  "leadsAfter k = runCrm (take k leadScript) 0 crmStart"

lemma leadScript_fresh: "freshCrm leadScript 0 crmStart"
  by code_simp

lemma runCrm_append:
  "runCrm (xs @ ys) n s = runCrm ys (n + length xs) (runCrm xs n s)"
  "freshCrm (xs @ ys) n s = (freshCrm xs n s \<and> freshCrm ys (n + length xs) (runCrm xs n s))"
  by (induction xs arbitrary: n s) simp_all

lemma leadsAfter_run: "crm_run crmStart (sentBy (take k leadScript) 0 crmStart) (leadsAfter k)"
  using leadScript_fresh runCrm_append(2) [of "take k leadScript" "drop k leadScript" 0 crmStart]
  unfolding leadsAfter_def by (intro runCrm_run) simp

lemma leadsAfter_later: "k \<le> 6 \<Longrightarrow> crm_run (leadsAfter k) (sentBy (drop k leadScript) k (leadsAfter k)) (leadsAfter 6)"
proof -
  assume k: "k \<le> 6"
  have len: "length leadScript = 6" by (simp add: leadScript_def)
  with k have "runCrm (drop k leadScript) k (leadsAfter k) = leadsAfter 6" "freshCrm (drop k leadScript) k (leadsAfter k)"
    using leadScript_fresh runCrm_append [of "take k leadScript" "drop k leadScript" 0 crmStart]
    by (simp_all add: leadsAfter_def)
  with runCrm_run show ?thesis by metis
qed

lemma leadsAfter_two: "length (leads (leadsAfter 6)) = 2"
  by code_simp

lemma first_capture:
  "case captureLead (crmEnv 1 morning) crmTenant crmUser (interest ''k'') (leadsAfter 1) of
     (Inr (LC_created l p), _) \<Rightarrow> p = ld_party l | _ \<Rightarrow> False"
  by code_simp

lemma leadsAfter_second: "snd (captureLead (crmEnv 1 morning) crmTenant crmUser (interest ''k'') (leadsAfter 1)) = leadsAfter 2"
  by (simp add: leadsAfter_def leadScript_def numeral_2_eq_2)

lemma leadsAfter_fresh: "crm_fresh (crmEnv 1 morning) (leadsAfter 1)"
proof (rule freshFamily_fresh)
  show "freshFamily 1 (leadsAfter 1)" by code_simp
qed

lemma attributed:
  "case computeAttribution (crmEnv 6 night) crmTenant crmUser crmRooftop ''linear'' ''2026-01-01'' ''2026-01-02'' (leadsAfter 3) of
     (Inr (AB_computed r), _) \<Rightarrow> an_start r = 0 \<and> an_end r = 86400000 | _ \<Rightarrow> False"
  "case leads (leadsAfter 3) of [l] \<Rightarrow> ld_id l = crmId 1 1 \<and> ld_tenant l = crmTenant \<and> ld_rooftop l = pgUuid crmRooftop
     \<and> ld_created l = morning | _ \<Rightarrow> False"
  by code_simp+

text \<open>Two customers under one address, the second by choice.\<close>

definition twinScript :: crm_script where
  "twinScript = map (Pair morning) [CreateParty ''person'' (customer ''A'' ''a@b'') False,
     CreateParty ''person'' (customer ''B'' ''A@b'') True]"

lemma twinScript_fresh: "freshCrm twinScript 0 crmStart"
  by code_simp

lemma twins:
  "case parties (runCrm twinScript 0 crmStart) of
     [p, q] \<Rightarrow> pa_id p \<noteq> pa_id q \<and> pa_tenant p = pa_tenant q \<and> pa_status p = PS_active \<and> pa_status q = PS_active
       \<and> pa_email p \<noteq> None \<and> map_option toLowerCase (pa_email p) = map_option toLowerCase (pa_email q)
   | _ \<Rightarrow> False"
  by code_simp

end
