(* ===== verification/CrmPromises.thy ===== *)
theory CrmPromises
  imports CrmSamples
begin

text \<open>
  What the CRM and the customer file promise, over any history of commands, each promise applied
  to the sample dealership.
\<close>

lemma initial_ok: "crm_initial s \<Longrightarrow> sends_ok s" "crm_initial s \<Longrightarrow> parties_ok s" "crm_initial s \<Longrightarrow> leads_ok s"
  by (simp_all add: crm_initial_def sends_ok_def parties_ok_def leads_ok_def)

section \<open>Permission\<close>

lemma guarded_channel: "map (\<lambda>(_, rq, _). rq_channel rq) (sentBy [goesOut] 9 guarded) = [CH_email]"
  by code_simp

text \<open>
  C3. The message provider is asked only by the dispatch of one due send, and only when in that
  very transaction: its version is executing; the customer is active and the address used is
  the normal form of the customer's own; consent for the channel and the campaign's purpose
  stands granted; the address is not suppressed; and the campaign's quiet hours are over.  The
  message is the version's template and carries the number of the attempt.
\<close>

theorem no_send_without_permission:
  assumes "(rq, ans) \<in> set (fst (crm_exec e tenant user q s))"
  shows "\<exists>nowGiven t row v c m p kind. q = DispatchOne nowGiven \<and> t = (case nowGiven of None \<Rightarrow> clock e | Some x \<Rightarrow> x) \<and>
    row \<in> set (campaign_sends s) \<and> sd_id row = rq_send rq \<and> sd_tenant row = tenant \<and> unsettled row \<and> sd_available row \<le> t \<and>
    rq_attempt rq = sd_attempts row + 1 \<and> rq_channel rq = sd_channel row \<and> kind = contactKindForChannel (sd_channel row) \<and>
    v \<in> set (campaign_versions s) \<and> cv_id v = sd_version row \<and> cv_state v = CV_executing \<and>
    campaignOf v s = Some c \<and> templateOf v s = Some m \<and> rq_subject rq = ct_subject m \<and> rq_body rq = ct_body m \<and>
    p \<in> set (parties s) \<and> pa_tenant p = tenant \<and> pa_id p = sd_party row \<and> pa_status p = PS_active \<and>
    normalizeContact kind (contactOf kind p) = Some (rq_contact rq) \<and>
    consentOn tenant (pa_id p) (consentChannel (sd_channel row)) (consentPurpose (ca_purpose c)) s = CS_granted \<and>
    \<not> suppressed tenant kind (rq_contact rq) s \<and> insideQuietHours e t (quietHoursOf c) = Inr False"
proof -
  obtain nowGiven t row c m where q: "q = DispatchOne nowGiven" "t = (case nowGiven of None \<Rightarrow> clock e | Some x \<Rightarrow> x)"
    and due: "nextDue tenant t s = Some (row, c, m)" and ask: "(rq, ans) \<in> set (fst (dispatchRow e t row c m s))"
    using exec_asked [OF assms] by metis
  obtain v where v: "sd_tenant row = tenant" "unsettled row" "sd_available row \<le> t" "v \<in> set (campaign_versions s)"
      "cv_id v = sd_version row" "cv_state v = CV_executing" "campaignOf v s = Some c" "templateOf v s = Some m"
    using dueWith_Some [OF nextDue_Some(2) [OF due]] by metis
  note asked = dispatchRow_asked [OF ask]
  obtain p where p: "p \<in> set (parties s)" "pa_tenant p = tenant" "pa_id p = sd_party row" "pa_status p = PS_active"
    "normalizeContact (contactKindForChannel (sd_channel row)) (contactOf (contactKindForChannel (sd_channel row)) p) = Some (rq_contact rq)"
    "consentOn tenant (sd_party row) (consentChannel (sd_channel row)) (consentPurpose (ca_purpose c)) s = CS_granted"
    "\<not> suppressed tenant (contactKindForChannel (sd_channel row)) (rq_contact rq) s"
    using sendEligibility_Eligible [OF asked(1) [unfolded v(1)]] by metis
  show ?thesis
    by (intro exI [of _ nowGiven] exI [of _ t] exI [of _ row] exI [of _ v] exI [of _ c] exI [of _ m] exI [of _ p]
        exI [of _ "contactKindForChannel (sd_channel row)"] conjI)
      (use q nextDue_Some(1) [OF due] v asked p in simp_all)
qed

theorem no_send_without_permission_witness:
  "\<exists>row p. row \<in> set (campaign_sends (launched ''a@b'')) \<and> sd_id row = crmId 7 1 \<and>
     p \<in> set (parties (launched ''a@b'')) \<and> pa_id p = sd_party row \<and> pa_status p = PS_active"
proof -
  let ?rq = "\<lparr>rq_send = crmId 7 1, rq_channel = CH_email, rq_contact = ''a@b'', rq_attempt = 1,
     rq_subject = Some ''S'', rq_body = ''B''\<rparr>"
  have "(?rq, PO_sent (simulatedProviderRef id (crmId 7 1))) \<in> set (fst (crmDoes 8 goesOut (launched ''a@b'')))"
    unfolding launched_asks by (rule list.set_intros(1))
  from no_send_without_permission [OF this] show ?thesis by auto
qed

text \<open>
  C8. Once an address is suppressed for a tenant, by a command or by a customer's opt-out or a
  bounce, no message of that tenant is ever sent to it again, whatever commands follow.
\<close>

theorem suppressed_never_contacted:
  assumes "suppressed tenant kind v s" "crm_run s msgs s'" "(tenant, rq, ans) \<in> set msgs" "contactKindForChannel (rq_channel rq) = kind"
  shows "rq_contact rq \<noteq> v"
  using assms(2,3)
proof (rule run_split)
  fix msgs1 s1 e tenant' user q y
  assume run: "crm_run s msgs1 s1" and y: "(tenant, rq, ans) = (tenant', y)" "y \<in> set (fst (crm_exec e tenant' user q s1))"
  then have ask: "(rq, ans) \<in> set (fst (crm_exec e tenant user q s1))" by simp
  obtain t row c m where due: "nextDue tenant t s1 = Some (row, c, m)" and row: "(rq, ans) \<in> set (fst (dispatchRow e t row c m s1))"
    using exec_asked [OF ask] by metis
  have "sd_tenant row = tenant" using nextDue_Some(2) [OF due] by (rule dueWith_Some)
  with dispatchRow_asked(1,4) [OF row] have "\<not> suppressed tenant kind (rq_contact rq) s1"
    using assms(4) by (metis sendEligibility_Eligible)
  with suppressed_stays [OF run assms(1)] show ?thesis by auto
qed

theorem suppressed_never_contacted_witness:
  "suppressed crmTenant SK_email ''x@y'' guarded \<and>
   (\<exists>rq ans. (crmTenant, rq, ans) \<in> set (sentBy [goesOut] 9 guarded) \<and> rq_contact rq \<noteq> ''x@y'')"
proof -
  obtain tn rq ans where m: "sentBy [goesOut] 9 guarded = [(tn, rq, ans)]" "rq_contact rq = ''a@b''"
    using guarded_sends by (auto simp: map_eq_Cons_conv)
  have tn: "tn = crmTenant" using m(1) by (auto simp: map_eq_Cons_conv)
  have kind: "contactKindForChannel (rq_channel rq) = SK_email"
    using guarded_channel unfolding m(1) by (simp add: contactKindForChannel_def)
  have run: "crm_run guarded (sentBy [goesOut] 9 guarded) (runCrm [goesOut] 9 guarded)" using guarded_sends by (intro runCrm_run) blast
  have mem: "(crmTenant, rq, ans) \<in> set (sentBy [goesOut] 9 guarded)" unfolding m(1) tn by (rule list.set_intros(1))
  from suppressed_never_contacted [OF guarded_suppresses run mem kind] guarded_suppresses mem show ?thesis by blast
qed

section \<open>Delivery\<close>

lemma run_attempts:
  assumes "sends_ok s" "crm_run s msgs s'" "(tenant, rq, ans) \<in> set msgs"
  shows "1 \<le> rq_attempt rq" "rq_attempt rq \<le> MAX_ATTEMPTS"
proof -
  obtain msgs1 s1 e user q where run: "crm_run s msgs1 s1" and ask: "(rq, ans) \<in> set (fst (crm_exec e tenant user q s1))"
    using run_split [OF assms(2,3)] by (metis prod.inject)
  obtain t row c m where due: "nextDue tenant t s1 = Some (row, c, m)" and row: "(rq, ans) \<in> set (fst (dispatchRow e t row c m s1))"
    using exec_asked [OF ask] by metis
  have "unsettled row" using nextDue_Some(2) [OF due] by (rule dueWith_Some)
  moreover have "attemptsOk row"
    using sends.run_keeps [OF run assms(1)] nextDue_Some(1) [OF due] by (intro sendOk_attempts) (rule sends_ok_row)
  ultimately show "1 \<le> rq_attempt rq" "rq_attempt rq \<le> MAX_ATTEMPTS"
    using dispatchRow_asked [OF row] by (simp_all add: attemptsOk_def)
qed

lemma initial_events: "crm_initial s \<Longrightarrow> send_events s = [] \<Longrightarrow> events_ok s"
  by (simp add: events_ok_def initial_ok sentEvents_def)

text \<open>
  C5. Delivery is at least once and its effect exactly once.  Whatever commands, passes and lost
  commits came before, when the provider accepts a send no event of its being sent is on
  record yet, and the attempt number is from 1 to \<open>MAX_ATTEMPTS\<close>.  Where the transaction commits,
  the send is settled with exactly one such event, and over whatever follows it keeps exactly
  one and is not handed to the provider again.  Where the reference returned does not fit its
  column the transaction rolls back: the store is as before, as it is when the commit is lost,
  and the send is still to be made.
\<close>

theorem effect_exactly_once:
  assumes "crm_initial s0" "send_events s0 = []" "crm_run s0 msgs s"
    and "(rq, PO_sent ref) \<in> set (fst (crm_exec e tenant user q s))" "crm_fresh e s" "s1 = snd (crm_exec e tenant user q s)"
  shows "sentEvents (rq_send rq) s = 0 \<and> 1 \<le> rq_attempt rq \<and> rq_attempt rq \<le> MAX_ATTEMPTS \<and>
    (if 1 \<le> length ref \<and> length ref \<le> 100
     then settledSend (rq_send rq) s1 \<and>
       (\<forall>msgs' s'. crm_run s1 msgs' s' \<longrightarrow>
          sentEvents (rq_send rq) s' = 1 \<and> (\<forall>(_, rq', _) \<in> set msgs'. rq_send rq' \<noteq> rq_send rq))
     else s1 = s)"
proof -
  have ok: "events_ok s" using deliveries.run_keeps [OF assms(3) initial_events [OF assms(1,2)]] .
  note accepted = exec_accepted [OF ok assms(4), folded assms(6)]
  have ok1: "events_ok s1" unfolding assms(6) by (rule exec_events_ok [OF ok assms(5)])
  then have "sends_ok s1" by (simp add: events_ok_def)
  with accepted settled_not_asked [of s1] settled_keeps_event [OF ok1] show ?thesis
    by (auto simp: referenceFits_def)
qed

theorem effect_exactly_once_witness:
  "\<exists>msgs s. crm_run crmStart msgs s \<and> acceptances (crmId 7 1) msgs = 2 \<and> sentEvents (crmId 7 1) s = 1"
proof -
  let ?rq = "\<lparr>rq_send = crmId 7 1, rq_channel = CH_email, rq_contact = ''a@b'', rq_attempt = 1,
     rq_subject = Some ''S'', rq_body = ''B''\<rparr>"
  let ?ref = "simulatedProviderRef id (crmId 7 1)" and ?s1 = "snd (crmDoes 8 goesOut (launched ''a@b''))"
  have fresh: "crm_fresh (crmEnv 8 morning) (launched ''a@b'')" by (intro freshFamily_fresh launched_fresh)
  have ask: "(?rq, PO_sent ?ref) \<in> set (fst (crmDoes 8 goesOut (launched ''a@b'')))" unfolding launched_asks by (rule list.set_intros(1))
  have "send_events crmStart = []" by (simp add: crmStart_def)
  moreover have "1 \<le> length ?ref \<and> length ?ref \<le> 100" by code_simp
  ultimately have one: "sentEvents (crmId 7 1) ?s1 = 1"
    using effect_exactly_once [OF crmStart_initial _ lostCommit_run ask] fresh run_none [of ?s1] by fastforce
  have none: "acceptances (crmId 7 1) (sentBy (launchScript ''a@b'') 0 crmStart) = 0" by code_simp
  let ?asked = "map (Pair crmTenant) (fst (crmDoes 8 goesOut (launched ''a@b'')))"
  have "acceptances (crmId 7 1) ?asked = 1" unfolding launched_asks by (simp add: acceptances_def accepts_def)
  with none have "acceptances (crmId 7 1) ((sentBy (launchScript ''a@b'') 0 crmStart @ ?asked) @ ?asked) = 2"
    by (simp add: acceptances_def)
  moreover have "crm_run crmStart ((sentBy (launchScript ''a@b'') 0 crmStart @ ?asked) @ ?asked) ?s1"
    using run_call [OF lostCommit_run, of "crmEnv 8 morning" crmTenant crmUser "DispatchOne None"] fresh by simp
  ultimately show ?thesis using one by blast
qed

text \<open>
  C32. A send deferred for quiet hours that the provider then fails cannot be recorded: the failure
  branch leaves \<open>withheld_reason\<close> set, which the table's CHECK refuses for a pending or failed
  row.  The pass raises after the provider was asked and leaves the store as it was, so the
  attempt is not counted and the same send heads the next pass.
\<close>

theorem deferred_failure_stalls:
  assumes "crm_initial s0" "crm_run s0 msgs s"
    and "nextDue tenant t s = Some (row, c, m)" "t = (case nowGiven of None \<Rightarrow> clock (es 0) | Some x \<Rightarrow> x)"
    and "sd_state row = SD_deferred_quiet_hours"
    and "sendEligibility tenant (sd_party row) (sd_channel row) (consentPurpose (ca_purpose c)) s = Eligible contact"
    and "insideQuietHours (es 0) t (quietHoursOf c) = Inr False"
    and "rq = \<lparr>rq_send = sd_id row, rq_channel = sd_channel row, rq_contact = contact, rq_attempt = sd_attempts row + 1,
      rq_subject = ct_subject m, rq_body = ct_body m\<rparr>" "provider (es 0) rq = PO_failed permanent detail"
  shows "dispatchDueSends es tenant limit nowGiven s = ([(rq, PO_failed permanent detail)], Inl check_violation, s)"
proof -
  have "sendOk row" using sends.run_keeps [OF assms(2) initial_ok(1) [OF assms(1)]] nextDue_Some(1) [OF assms(3)] by (rule sends_ok_row)
  then have "sendRowOk row" by (simp add: sendOk_def)
  with assms(3-9) show ?thesis by (intro pass_stops deferred_failure)
qed

theorem deferred_failure_stalls_witness:
  "\<exists>rq. dispatchDueSends (\<lambda>i. crmEnv (9 + i) opening) crmTenant None None heldOver =
     ([(rq, PO_failed False ''channel temporarily unavailable'')], Inl check_violation, heldOver)"
proof -
  obtain row c m where due: "nextDue crmTenant opening heldOver = Some (row, c, m)" "sd_state row = SD_deferred_quiet_hours"
      "sendEligibility crmTenant (sd_party row) (sd_channel row) (consentPurpose (ca_purpose c)) heldOver = Eligible ''flaky@b''"
      "insideQuietHours (crmEnv 9 opening) opening (quietHoursOf c) = Inr False" "sd_channel row = CH_email" "sd_attempts row = 0"
    using heldOver_due by (auto split: option.splits)
  let ?rq = "\<lparr>rq_send = sd_id row, rq_channel = sd_channel row, rq_contact = ''flaky@b'', rq_attempt = sd_attempts row + 1,
      rq_subject = ct_subject m, rq_body = ct_body m\<rparr>"
  have "provider (crmEnv 9 opening) ?rq = PO_failed False ''channel temporarily unavailable''"
    using due(5,6) flaky_fails by (simp add: crmEnv_def)
  with due(4) have "dispatchDueSends (\<lambda>i. crmEnv (9 + i) opening) crmTenant None None heldOver =
      ([(?rq, PO_failed False ''channel temporarily unavailable'')], Inl check_violation, heldOver)"
    by (intro deferred_failure_stalls [OF crmStart_initial heldOver_run due(1) _ due(2,3) _ refl]) simp_all
  then show ?thesis by blast
qed

section \<open>Quiet hours\<close>

text \<open>
  C29. Inside a campaign's quiet hours the instant a message is deferred to lies within a day, and
  its local minute is the end of the window, moved by what the zone's clocks changed in
  between.  Where the zone has the same offset at both instants, the message goes out outside
  the quiet hours; where the offset is kept for the day, every minute before is still inside.
  On a night of a clock change the instant is early, and still inside, or late by the change.
\<close>

theorem quiet_hours_end:
  assumes "clockFaces e" "0 \<le> startMinute q" "startMinute q < 1440" "0 \<le> endMinute q" "endMinute q < 1440"
    and "insideQuietHours e t q = Inr True" "quietHoursEndAfter e t q = Inr t'" "localMinuteOfDay e t' (timeZone q) = Inr m'"
  shows "t < t' \<and> t' \<le> t + 86400000 \<and>
    m' = (endMinute q + (zoneOffset e (timeZone q) t' - zoneOffset e (timeZone q) t)) mod 1440 \<and>
    (zoneOffset e (timeZone q) t' = zoneOffset e (timeZone q) t \<longrightarrow> insideQuietHours e t' q = Inr False) \<and>
    (steadyZone e (timeZone q) t \<longrightarrow>
       (\<forall>u. t \<le> u \<and> u div 60000 < t' div 60000 \<longrightarrow> insideQuietHours e u q = Inr True))"
proof -
  have "startMinute q \<noteq> endMinute q" using assms(6) by (auto simp: insideQuietHours_def)
  with quiet_end_minute [OF assms(1,4-8)] end_is_outside [of e t' q] assms(4,5,8) quiet_end(4) [OF _ assms(2-7)]
  show ?thesis by auto
qed

text \<open>
  In UTC the message waits until eight; where the clocks go back in the night it comes up at seven,
  and is still inside.
\<close>

theorem quiet_hours_end_witness:
  "let q = \<lparr>startMinute = 1260, endMinute = 480, timeZone = ''UTC''\<rparr> in
   quietHoursEndAfter (crmEnv 0 night) night q = Inr opening \<and> insideQuietHours (crmEnv 0 night) opening q = Inr False \<and>
   (\<forall>u. night \<le> u \<and> u div 60000 < 1920 \<longrightarrow> insideQuietHours (crmEnv 0 night) u q = Inr True) \<and>
   quietHoursEndAfter (changingEnv (- 1)) night q = Inr opening \<and> insideQuietHours (changingEnv (- 1)) opening q = Inr True"
proof -
  let ?d = "crmEnv 0 night" and ?e = "changingEnv (- 1)" and ?q = "\<lparr>startMinute = 1260, endMinute = 480, timeZone = ''UTC''\<rparr>"
  have utc: "insideQuietHours ?d night ?q = Inr True" "quietHoursEndAfter ?d night ?q = Inr opening" "localMinuteOfDay ?d opening ''UTC'' = Inr 480"
    "zoneOffset ?d ''UTC'' opening = zoneOffset ?d ''UTC'' night" by code_simp+
  have now: "insideQuietHours ?e night ?q = Inr True" "quietHoursEndAfter ?e night ?q = Inr opening"
    and zone: "zoneOffset ?e ''UTC'' opening = 1380" "zoneOffset ?e ''UTC'' night = 0" by code_simp+
  obtain m' where m': "localMinuteOfDay ?e opening ''UTC'' = Inr m'" by (simp add: localMinuteOfDay_def changingEnv_def changingParts_def utcParts_def)
  with quiet_hours_end [OF changing_faces [of "- 1"], where q = ?q and t = night and t' = "opening" and m' = m'] now zone have "m' = 420" by simp
  with m' now have "insideQuietHours ?e opening ?q = Inr True" by (simp add: insideQuietHours_def)
  moreover have "insideQuietHours ?d opening ?q = Inr False \<and>
      (\<forall>u. night \<le> u \<and> u div 60000 < 1920 \<longrightarrow> insideQuietHours ?d u ?q = Inr True)"
    using quiet_hours_end [OF crmEnv_faces [of 0 night], where q = ?q and t = night and t' = "opening" and m' = 480] utc steady_utc [of ?q]
    by simp
  ultimately show ?thesis using utc now by (simp add: Let_def)
qed

text \<open>Where they go forward, it comes up at nine, an hour after the window ended.\<close>

lemma quiet_hours_end_late:
  "let e = changingEnv 1; q = \<lparr>startMinute = 1260, endMinute = 480, timeZone = ''UTC''\<rparr> in
   quietHoursEndAfter e night q = Inr opening \<and> insideQuietHours e (opening - 3600000) q = Inr False"
  by code_simp

section \<open>The pass\<close>



section \<open>Leads\<close>

lemma at_most_one:
  assumes "distinct xs" "\<And>x y. x \<in> set xs \<Longrightarrow> y \<in> set xs \<Longrightarrow> P x \<Longrightarrow> P y \<Longrightarrow> x = y"
  shows "length (filter P xs) \<le> 1"
proof -
  have "card (set (filter P xs)) \<le> Suc 0" using assms(2) by (subst card_le_Suc0_iff_eq) auto
  with assms(1) distinct_card [of "filter P xs"] show ?thesis by simp
qed

text \<open>
  C15. At any moment a customer has at most one open lead at a rooftop for one interest, whatever
  captures, campaign responses, transitions, assignments and hand-offs came before.
\<close>

theorem one_open_lead:
  assumes "crm_initial s" "crm_run s msgs s'"
  shows "length (filter (openLead tenant rooftop pid key) (leads s')) \<le> 1"
proof -
  have ok: "leads_ok s'" using leads.run_keeps [OF assms(2) initial_ok(3) [OF assms(1)]] .
  show ?thesis
  proof (rule at_most_one)
    show "distinct (leads s')" using ok by (simp add: leads_ok_def distinct_map)
  qed (use ok in \<open>auto simp: leads_ok_def openLead_def rival_def\<close>)
qed

theorem one_open_lead_witness:
  "length (leads (leadsAfter 6)) = 2 \<and>
   length (filter (openLead crmTenant crmRooftop (crmId 1 0) ''general'') (leads (leadsAfter 6))) \<le> 1"
  using one_open_lead [OF crmStart_initial leadsAfter_run [of 6]] leadsAfter_two by blast

text \<open>
  C14. A lead that was handed off or closed is still there in every later store, unchanged: no
  command reopens, reassigns or stamps it.
\<close>

theorem finished_leads_frozen:
  assumes "crm_initial s0" "crm_run s0 msgs s" "l \<in> set (leads s)" "finished (ld_state l)" "crm_run s msgs' s'"
  shows "l \<in> set (leads s')"
  using run_keeps_lead [OF assms(5) leads.run_keeps [OF assms(2) initial_ok(3) [OF assms(1)]] assms(3)] assms(4)
  by (auto simp: leadMove_def)

theorem finished_leads_frozen_witness:
  "hd (leads (leadsAfter 5)) \<in> set (leads (leadsAfter 6)) \<and> ld_state (hd (leads (leadsAfter 5))) = LS_closed"
proof -
  have l: "leads (leadsAfter 5) \<noteq> []" "ld_state (hd (leads (leadsAfter 5))) = LS_closed" by code_simp+
  then have "hd (leads (leadsAfter 5)) \<in> set (leads (leadsAfter 5))" "finished (ld_state (hd (leads (leadsAfter 5))))"
    by (simp_all add: finished_def)
  from finished_leads_frozen [OF crmStart_initial leadsAfter_run this leadsAfter_later [of 5]] l(2) show ?thesis by simp
qed

lemma replay_returns:
  assumes "find (\<lambda>x. li_tenant x = tenant \<and> li_key x = trim (lc_key i)) (lead_intakes s) = Some x"
    and "lc_stock i = None \<or> lc_vehicle i = None" "trim (lc_key i) \<noteq> []" "length (trim (lc_key i)) \<le> 200" "actor_of user s = Inr actor"
  shows "captureLead e tenant user i s = (Inr (replayIntake tenant x s), s)"
  using assms by (auto simp: captureLead_def withTenantTransaction_def captureLeadWithin_def Let_def)

text \<open>
  C23. An intake key answers with one lead for ever.  Once a capture was answered with a lead, a
  later capture under the same key (leading and trailing spaces aside) by any known user, with
  whatever customer and source, after any commands, creates nothing and returns that lead as it
  is then, marked as a replay.
\<close>

theorem intake_converges:
  assumes "crm_initial s0" "crm_run s0 msgs s" "crm_fresh e s"
    and "captureLead e tenant user i s = (Inr r, s1)" "r = LC_created l p \<or> r = LC_merged_into_existing l p b"
    and "crm_run s1 msgs' s2"
    and "trim (lc_key j) = trim (lc_key i)" "lc_stock j = None \<or> lc_vehicle j = None" "actor_of user' s2 = Inr actor"
  shows "\<exists>l'. captureLead e' tenant user' j s2 = (Inr (LC_merged_into_existing l' p True), s2) \<and>
    l' \<in> set (leads s2) \<and> leadMove l l'"
proof -
  have ok: "leads_ok s" using leads.run_keeps [OF assms(2) initial_ok(3) [OF assms(1)]] .
  note ok1 = intake_answer(1) [OF ok assms(3,4)]
  obtain x where x: "find (\<lambda>x. li_tenant x = tenant \<and> li_key x = trim (lc_key i)) (lead_intakes s1) = Some x"
      "li_lead x = Some (ld_id l)" and l: "l \<in> set (leads s1)" "ld_tenant l = tenant" "ld_party l = p"
    using intake_answer(2) [OF ok assms(3,4)] assms(5) unfolding answered_def by blast
  obtain l' where l': "l' \<in> set (leads s2)" "leadMove l l'" using run_keeps_lead [OF assms(6) ok1 l(1)] .
  then have same: "ld_id l' = ld_id l" "ld_tenant l' = tenant" "ld_party l' = p" using l by (simp_all add: leadMove_def leadSame_def)
  have prior: "find (\<lambda>x. li_tenant x = tenant \<and> li_key x = trim (lc_key j)) (lead_intakes s2) = Some x"
    using run_keeps_intake [OF assms(6) ok1 x(1)] by (simp only: assms(7))
  have key: "trim (lc_key j) \<noteq> []" "length (trim (lc_key j)) \<le> 200"
    using capture_key [OF assms(4)] assms(5) by (auto simp: assms(7))
  from replay_returns [OF prior assms(8) key assms(9)]
  have run: "captureLead e' tenant user' j s2 = (Inr (replayIntake tenant x s2), s2)" .
  have "replayIntake tenant x s2 = LC_merged_into_existing l' p True"
    using captureLead_replays(2) [OF prior _ l'(1) same(2) leads.run_keeps [OF assms(6) ok1] assms(8) key run] x(2) same by simp
  with run l' show ?thesis by auto
qed

theorem intake_converges_witness:
  "\<exists>l l'. fst (captureLead (crmEnv 1 morning) crmTenant crmUser (interest ''k'') (leadsAfter 1)) = Inr (LC_created l (ld_party l)) \<and>
     fst (captureLead (crmEnv 6 night) crmTenant crmUser (interest '' k '') (leadsAfter 6)) =
       Inr (LC_merged_into_existing l' (ld_party l) True) \<and> ld_id l' = ld_id l"
proof -
  obtain l where first: "captureLead (crmEnv 1 morning) crmTenant crmUser (interest ''k'') (leadsAfter 1) =
      (Inr (LC_created l (ld_party l)), leadsAfter 2)"
    using first_capture leadsAfter_second
    by (auto split: prod.split_asm sum.split_asm LeadCaptureOutcome.split_asm)
  have "actor_of crmUser (leadsAfter 6) = Inr crmUser" "trim (lc_key (interest '' k '')) = trim (lc_key (interest ''k''))"
    "lc_stock (interest '' k '') = None \<or> lc_vehicle (interest '' k '') = None"
    by code_simp+
  from intake_converges [OF crmStart_initial leadsAfter_run leadsAfter_fresh first disjI1 [OF refl] leadsAfter_later this(2,3,1),
      where e' = "crmEnv 6 night"]
  obtain l' where "captureLead (crmEnv 6 night) crmTenant crmUser (interest '' k '') (leadsAfter 6) =
      (Inr (LC_merged_into_existing l' (ld_party l) True), leadsAfter 6)" "leadMove l l'" by auto
  with first show ?thesis by (auto simp: leadMove_def leadSame_def)
qed

section \<open>Customers\<close>

text \<open>
  C21. Two active customers of one tenant share an e-mail address (case aside) or a telephone
  number only if one of them was saved with the explicit choice to allow the duplicate, whatever
  creations, edits, merges, imports and lead captures came before.
\<close>

theorem contacts_unshared:
  assumes "crm_initial s" "crm_run s msgs s'" "p \<in> set (parties s')" "q \<in> set (parties s')" "p \<noteq> q"
    and "pa_tenant p = pa_tenant q" "pa_status p = PS_active" "pa_status q = PS_active" "sharesContact p q"
  shows "pa_override p \<or> pa_override q"
proof -
  have "\<not> clash p q"
    using people.run_keeps [OF assms(2) initial_ok(2) [OF assms(1)]] assms(3,4) by (simp add: parties_ok_def)
  with assms(5-9) show ?thesis by (simp add: clash_def activeIn_def)
qed

theorem contacts_unshared_witness:
  "\<exists>p q. parties (runCrm twinScript 0 crmStart) = [p, q] \<and> (pa_override p \<or> pa_override q)"
proof -
  obtain p q where two: "parties (runCrm twinScript 0 crmStart) = [p, q]" "pa_id p \<noteq> pa_id q" "pa_tenant p = pa_tenant q"
      "pa_status p = PS_active" "pa_status q = PS_active" "pa_email p \<noteq> None"
      "map_option toLowerCase (pa_email p) = map_option toLowerCase (pa_email q)"
    using twins by (auto split: list.split_asm)
  then have "sharesContact p q" "p \<noteq> q" by (auto simp: sharesContact_def)
  with contacts_unshared [OF crmStart_initial runCrm_run [OF twinScript_fresh], of p q] two show ?thesis by auto
qed

section \<open>Attribution\<close>

text \<open>
  C28. When an attribution run is computed over a reachable store, the credits it adds for every
  lead created in its window sum to exactly 10000 basis points, under each of the three models
  and however many sources touched the lead.
\<close>

theorem attribution_sums:
  assumes "crm_initial s0" "crm_run s0 msgs s"
    and "computeAttribution e tenant user rooftop model ws we s = (Inr (AB_computed r), s')"
    and "l \<in> set (leads s)" "ld_tenant l = tenant" "ld_rooftop l = pgUuid rooftop" "an_start r \<le> ld_created l" "ld_created l < an_end r"
  shows "\<exists>credits. lead_attributions s' = lead_attributions s @ credits \<and>
    sum_list (map lw_weight (filter (\<lambda>c. lw_lead c = ld_id l) credits)) = 10000"
  by (rule attribution_full [OF leads.run_keeps [OF assms(2) initial_ok(3) [OF assms(1)]] assms(3-8)])

theorem attribution_sums_witness:
  "sum_list (map lw_weight (filter (\<lambda>c. lw_lead c = crmId 1 1) (lead_attributions
     (snd (computeAttribution (crmEnv 6 night) crmTenant crmUser crmRooftop ''linear'' ''2026-01-01'' ''2026-01-02'' (leadsAfter 3)))))) = 10000"
proof -
  let ?out = "computeAttribution (crmEnv 6 night) crmTenant crmUser crmRooftop ''linear'' ''2026-01-01'' ''2026-01-02'' (leadsAfter 3)"
  obtain r l where r: "fst ?out = Inr (AB_computed r)" "an_start r = 0" "an_end r = 86400000"
      and l: "leads (leadsAfter 3) = [l]" "ld_id l = crmId 1 1" "ld_tenant l = crmTenant" "ld_rooftop l = pgUuid crmRooftop" "ld_created l = morning"
    using attributed by (auto split: prod.split_asm sum.split_asm AttributionOutcome.split_asm list.split_asm)
  have out: "?out = (Inr (AB_computed r), snd ?out)" using r(1) by (metis prod.collapse)
  have "lead_attributions (leadsAfter 3) = []" by code_simp
  with attribution_sums [OF crmStart_initial leadsAfter_run out, of l] r(2,3) l show ?thesis by auto
qed

end
