(* ===== verification/SalesStore.thy ===== *)
theory SalesStore
  imports CrmRouting
begin

text \<open>
  The tables of the sales package (migration 064) beside those of the CRM, which stay in the
  part \<open>crm\<close> of the store: a lead's handoff, the customers, the stock and the appointments sales
  reads are the CRM's own rows, and the fact handed to the desk is a row of the desk's part.
  Conventions are those of the CRM tables.  The columns \<open>deal_status\<close> and \<open>pricing_status\<close>, which
  a CHECK pins to one value, and the stamps of who wrote a row last are left out.
\<close>

section \<open>Enumerations\<close>

datatype OpportunityOrigin = OO_crm_handoff | OO_walk_in

datatype OpportunityStage =
    OS_received | OS_in_showroom | OS_demonstrated | OS_negotiating | OS_follow_up
  | OS_ready_for_desking | OS_lost

datatype OpportunityDisposition =
    OD_committed_to_purchase | OD_lost_to_competitor | OD_lost_no_decision | OD_lost_credit
  | OD_lost_no_vehicle | OD_customer_unreachable

datatype SalesAssignmentReason =
  SA_floor_rotation | SA_manual_assignment | SA_reassignment | SA_turnover | SA_manager_override

datatype RotationStatus = RT_available | RT_with_customer | RT_unavailable
datatype VisitState = VS_arrived | VS_greeted | VS_with_salesperson | VS_departed

datatype DemonstrationState = DM_issued | DM_in_progress | DM_returned | DM_cancelled | DM_exception
datatype DemonstrationVerdict = DV_interested | DV_not_interested | DV_wants_alternative
datatype DemonstrationExceptionKind = DX_damage | DX_accident | DX_not_returned | DX_breakdown | DX_other

datatype VisitEventType =
    VE_arrived | VE_greeted | VE_accepted | VE_appointment_kept | VE_demonstration DemonstrationState
  | VE_turned_over | VE_departed

datatype VehicleInterestStatus = VI_considering | VI_demonstrated | VI_rejected | VI_selected
datatype VehicleEventType = VT_shortlisted | VT_stood_down | VT_status VehicleInterestStatus

datatype SalesActivityKind = SY_note | SY_call | SY_email | SY_sms | SY_task | SY_appointment_followup
datatype NegotiationEnd = NE_countered | NE_accepted | NE_declined | NE_adjourned
datatype InitiatedBy = IB_customer | IB_dealership
datatype TurnoverReason = TR_price_authority | TR_customer_request | TR_second_voice | TR_escalation | TR_closing

section \<open>Rows\<close>

record opportunity =
  op_id :: string
  op_tenant :: string
  op_rooftop :: string
  op_party :: string
  op_origin :: OpportunityOrigin
  op_handoff :: "string option"
  op_lead :: "string option"
  op_appointment :: "string option"
  op_stock :: "string option"
  op_owner :: "string option"
  op_stage :: OpportunityStage
  op_disposition :: "OpportunityDisposition option"
  op_ready_at :: "int option"
  op_lost_at :: "int option"
  op_version :: int
  op_created :: int

record opportunity_stage_event =
  os_tenant :: string
  os_opportunity :: string
  os_from :: OpportunityStage
  os_to :: OpportunityStage
  os_disposition :: "OpportunityDisposition option"
  os_note :: "string option"
  os_by :: string

record opportunity_assignment =
  oa_tenant :: string
  oa_opportunity :: string
  oa_from :: "string option"
  oa_to :: string
  oa_reason :: SalesAssignmentReason
  oa_note :: "string option"
  oa_by :: string

record floor_rotation =
  fr_id :: string
  fr_tenant :: string
  fr_rooftop :: string
  fr_user :: string
  fr_position :: int
  fr_status :: RotationStatus
  fr_taken :: "int option"
  fr_version :: int

record showroom_visit =
  vi_id :: string
  vi_tenant :: string
  vi_rooftop :: string
  vi_party :: string
  vi_opportunity :: "string option"
  vi_appointment :: "string option"
  vi_greeted_by :: "string option"
  vi_accepted_by :: "string option"
  vi_state :: VisitState
  vi_arrived :: int
  vi_greeted :: "int option"
  vi_accepted :: "int option"
  vi_departed :: "int option"
  vi_version :: int

record visit_event =
  ve_tenant :: string
  ve_visit :: string
  ve_type :: VisitEventType
  ve_note :: "string option"
  ve_by :: string

record opportunity_vehicle =
  vh_id :: string
  vh_tenant :: string
  vh_opportunity :: string
  vh_stock :: string
  vh_rank :: int
  vh_status :: VehicleInterestStatus
  vh_reason :: "string option"
  vh_version :: int

record vehicle_event =
  vx_tenant :: string
  vx_opportunity :: string
  vx_vehicle :: string
  vx_stock :: string
  vx_type :: VehicleEventType
  vx_from :: "VehicleInterestStatus option"
  vx_to :: "VehicleInterestStatus option"
  vx_reason :: "string option"
  vx_by :: string

record demonstration =
  dm_id :: string
  dm_tenant :: string
  dm_rooftop :: string
  dm_opportunity :: string
  dm_stock :: string
  dm_visit :: "string option"
  dm_driver :: string
  dm_escort :: string
  dm_licence :: bool
  dm_state :: DemonstrationState
  dm_outcome :: "DemonstrationVerdict option"
  dm_exception :: "DemonstrationExceptionKind option"
  dm_issued :: int
  dm_started :: "int option"
  dm_ended :: "int option"
  dm_notes :: "string option"
  dm_version :: int

record demonstration_event =
  de_tenant :: string
  de_demonstration :: string
  de_type :: DemonstrationState
  de_outcome :: "DemonstrationVerdict option"
  de_exception :: "DemonstrationExceptionKind option"
  de_note :: "string option"
  de_by :: string

record opportunity_activity =
  oy_id :: string
  oy_tenant :: string
  oy_opportunity :: string
  oy_kind :: SalesActivityKind
  oy_direction :: "ActivityDirection option"
  oy_subject :: string
  oy_body :: "string option"
  oy_state :: ActivityState
  oy_due :: "int option"
  oy_completed :: "int option"
  oy_cancelled :: "int option"
  oy_reason :: "string option"
  oy_outcome :: "string option"
  oy_version :: int

record negotiation_round =
  nr_id :: string
  nr_tenant :: string
  nr_opportunity :: string
  nr_number :: int
  nr_initiated :: InitiatedBy
  nr_summary :: string
  nr_manager :: bool
  nr_outcome :: NegotiationEnd
  nr_by :: string
  nr_at :: int

record manager_turnover =
  mt_id :: string
  mt_tenant :: string
  mt_opportunity :: string
  mt_visit :: "string option"
  mt_by :: string
  mt_manager :: string
  mt_reason :: TurnoverReason
  mt_note :: "string option"

record sales_db =
  crm :: crm_db
  opportunities :: "opportunity list"
  stage_moves :: "opportunity_stage_event list"
  opportunity_assignments :: "opportunity_assignment list"
  floor_rotations :: "floor_rotation list"
  showroom_visits :: "showroom_visit list"
  visit_events :: "visit_event list"
  opportunity_vehicles :: "opportunity_vehicle list"
  vehicle_events :: "vehicle_event list"
  demonstrations :: "demonstration list"
  demonstration_events :: "demonstration_event list"
  opportunity_activities :: "opportunity_activity list"
  negotiation_rounds :: "negotiation_round list"
  manager_turnovers :: "manager_turnover list"

type_synonym 'a stx = "sales_db \<Rightarrow> ('a \<times> sales_db) result"

section \<open>What the commands share\<close>

definition sales_actor :: "string \<Rightarrow> sales_db \<Rightarrow> string result" where
  "sales_actor u s = actor_of u (crm s)"

definition recorded :: "string \<Rightarrow> string \<Rightarrow> string \<Rightarrow> string \<Rightarrow> string \<Rightarrow> sales_db \<Rightarrow> sales_db" where
  "recorded tenant entityType entityId eventType actor s = s\<lparr>crm := audited tenant entityType entityId eventType actor (crm s)\<rparr>"

text \<open>Does this person's authority reach this showroom?  The three modules of the package each hold a copy.\<close>

definition worksAt :: "crm_env \<Rightarrow> string \<Rightarrow> string \<Rightarrow> string \<Rightarrow> sales_db \<Rightarrow> bool" where
  "worksAt e tenant user rooftopId s = reaches (platform e) tenant user rooftopId (desk (crm s))"

definition stockHere :: "string \<Rightarrow> string \<Rightarrow> sales_db \<Rightarrow> stock_item option" where
  "stockHere tenant sid s = find (\<lambda>k. sk_tenant k = tenant \<and> sk_id k = pgUuid sid) (stock_items (crm s))"

definition visitEvent :: "string \<Rightarrow> string \<Rightarrow> VisitEventType \<Rightarrow> string option \<Rightarrow> string \<Rightarrow> sales_db \<Rightarrow> sales_db" where
  "visitEvent tenant vid kind note actor s =
     s\<lparr>visit_events := visit_events s @ [\<lparr>ve_tenant = tenant, ve_visit = pgUuid vid, ve_type = kind, ve_note = note,
        ve_by = pgUuid actor\<rparr>]\<rparr>"

lemma recorded_rows [simp]:
  "opportunities (recorded a b c d x s) = opportunities s" "showroom_visits (recorded a b c d x s) = showroom_visits s"
  "demonstrations (recorded a b c d x s) = demonstrations s" "opportunity_vehicles (recorded a b c d x s) = opportunity_vehicles s"
  "floor_rotations (recorded a b c d x s) = floor_rotations s" "stage_moves (recorded a b c d x s) = stage_moves s"
  "opportunity_assignments (recorded a b c d x s) = opportunity_assignments s"
  "opportunity_activities (recorded a b c d x s) = opportunity_activities s"
  "negotiation_rounds (recorded a b c d x s) = negotiation_rounds s" "manager_turnovers (recorded a b c d x s) = manager_turnovers s"
  "handoffs (desk (crm (recorded a b c d x s))) = handoffs (desk (crm s))"
  by (simp_all add: recorded_def audited_def)

lemma visitEvent_rows [simp]:
  "opportunities (visitEvent a b c d x s) = opportunities s" "showroom_visits (visitEvent a b c d x s) = showroom_visits s"
  "demonstrations (visitEvent a b c d x s) = demonstrations s" "opportunity_vehicles (visitEvent a b c d x s) = opportunity_vehicles s"
  "floor_rotations (visitEvent a b c d x s) = floor_rotations s" "stage_moves (visitEvent a b c d x s) = stage_moves s"
  "opportunity_assignments (visitEvent a b c d x s) = opportunity_assignments s"
  "opportunity_activities (visitEvent a b c d x s) = opportunity_activities s"
  "negotiation_rounds (visitEvent a b c d x s) = negotiation_rounds s" "manager_turnovers (visitEvent a b c d x s) = manager_turnovers s"
  "crm (visitEvent a b c d x s) = crm s"
  by (simp_all add: visitEvent_def)

end
