(* ===== verification/SalesPipeline.thy ===== *)
theory SalesPipeline
  imports SalesStore
begin

text \<open>
  The opportunity (\<open>sales/src/opportunities.ts\<close>): receiving a handed-off lead, opening a walk-in,
  ownership, the stage machine, and the one fact handed to the desk.
\<close>

section \<open>The stage machine\<close>

definition OPPORTUNITY_STAGES :: "(string \<times> OpportunityStage) list" where
  "OPPORTUNITY_STAGES =
     [(''received'', OS_received), (''in_showroom'', OS_in_showroom), (''demonstrated'', OS_demonstrated),
      (''negotiating'', OS_negotiating), (''follow_up'', OS_follow_up),
      (''ready_for_desking'', OS_ready_for_desking), (''lost'', OS_lost)]"

definition OPPORTUNITY_DISPOSITIONS :: "(string \<times> OpportunityDisposition) list" where
  "OPPORTUNITY_DISPOSITIONS =
     [(''committed_to_purchase'', OD_committed_to_purchase), (''lost_to_competitor'', OD_lost_to_competitor),
      (''lost_no_decision'', OD_lost_no_decision), (''lost_credit'', OD_lost_credit),
      (''lost_no_vehicle'', OD_lost_no_vehicle), (''customer_unreachable'', OD_customer_unreachable)]"

definition ASSIGNMENT_REASONS :: "(string \<times> SalesAssignmentReason) list" where
  "ASSIGNMENT_REASONS =
     [(''floor_rotation'', SA_floor_rotation), (''manual_assignment'', SA_manual_assignment),
      (''reassignment'', SA_reassignment), (''turnover'', SA_turnover), (''manager_override'', SA_manager_override)]"

definition TERMINAL_STAGES :: "OpportunityStage list" where
  "TERMINAL_STAGES = [OS_ready_for_desking, OS_lost]"

abbreviation concluded :: "opportunity \<Rightarrow> bool" where
  "concluded o1 \<equiv> op_stage o1 \<in> set TERMINAL_STAGES"

definition DESKING_READY_EVENT :: string where
  "DESKING_READY_EVENT = ''sales.opportunity.ready_for_appraisal_desking''"

fun LEGAL_STAGES :: "OpportunityStage \<Rightarrow> OpportunityStage list" where
  "LEGAL_STAGES OS_received = [OS_in_showroom, OS_demonstrated, OS_negotiating, OS_follow_up, OS_lost]"
| "LEGAL_STAGES OS_in_showroom = [OS_demonstrated, OS_negotiating, OS_follow_up, OS_ready_for_desking, OS_lost]"
| "LEGAL_STAGES OS_demonstrated = [OS_negotiating, OS_in_showroom, OS_follow_up, OS_ready_for_desking, OS_lost]"
| "LEGAL_STAGES OS_negotiating = [OS_demonstrated, OS_follow_up, OS_ready_for_desking, OS_lost]"
| "LEGAL_STAGES OS_follow_up = [OS_in_showroom, OS_demonstrated, OS_negotiating, OS_ready_for_desking, OS_lost]"
| "LEGAL_STAGES OS_ready_for_desking = []"
| "LEGAL_STAGES OS_lost = []"

section \<open>Intake\<close>

definition opportunityHere :: "string \<Rightarrow> string \<Rightarrow> opportunity \<Rightarrow> bool" where
  "opportunityHere tenant oid r = (op_tenant r = tenant \<and> op_id r = pgUuid oid)"

definition openDealFor :: "string \<Rightarrow> string \<Rightarrow> string \<Rightarrow> opportunity \<Rightarrow> bool" where
  "openDealFor tenant rooftop party r = (op_tenant r = tenant \<and> op_rooftop r = rooftop \<and> op_party r = party \<and> \<not> concluded r)"

definition assignmentRow ::
  "string \<Rightarrow> string \<Rightarrow> string option \<Rightarrow> string \<Rightarrow> SalesAssignmentReason \<Rightarrow> string option \<Rightarrow> string \<Rightarrow> sales_db \<Rightarrow> sales_db" where
  "assignmentRow tenant oid from to reason note actor s =
     s\<lparr>opportunity_assignments := opportunity_assignments s @ [\<lparr>oa_tenant = tenant, oa_opportunity = pgUuid oid, oa_from = from,
        oa_to = pgUuid to, oa_reason = reason, oa_note = note, oa_by = pgUuid actor\<rparr>]\<rparr>"

datatype ReceiveOutcome = RV_received opportunity | RV_already_received opportunity | RV_not_found | RV_invalid

text \<open>The appointment the customer is still expected on, soonest first.\<close>

definition expectedOn :: "string \<Rightarrow> string \<Rightarrow> crm_db \<Rightarrow> string option" where
  "expectedOn tenant leadId s =
     (case sort_key at_starts (filter (\<lambda>a. at_tenant a = tenant \<and> at_lead a = pgUuid leadId
              \<and> (at_state a = AT_scheduled \<or> at_state a = AT_confirmed)) (crm_appointments s)) of
        [] \<Rightarrow> None | a # _ \<Rightarrow> Some (at_id a))"

definition receivedRow ::
  "string \<Rightarrow> int \<Rightarrow> string \<Rightarrow> string \<Rightarrow> handed_snapshot \<Rightarrow> string option \<Rightarrow> string option \<Rightarrow> opportunity" where
  "receivedRow oid t tenant handoffId snapshot appointment owner =
     \<lparr>op_id = oid, op_tenant = tenant, op_rooftop = hs_rooftop snapshot, op_party = hs_party snapshot,
      op_origin = OO_crm_handoff, op_handoff = Some (pgUuid handoffId), op_lead = Some (hs_lead snapshot),
      op_appointment = appointment, op_stock = hs_stock snapshot, op_owner = map_option pgUuid owner,
      op_stage = OS_received, op_disposition = None, op_ready_at = None, op_lost_at = None,
      op_version = 1, op_created = t\<rparr>"

text \<open>Whoever the CRM handed the lead to, if they still work there; else the receiver, if they do.\<close>

definition ownerAtReceipt :: "crm_env \<Rightarrow> string \<Rightarrow> string \<Rightarrow> string \<Rightarrow> string \<Rightarrow> sales_db \<Rightarrow> string option" where
  "ownerAtReceipt e tenant handedTo actor rooftop s =
     (if worksAt e tenant handedTo rooftop s then Some handedTo
      else if worksAt e tenant actor rooftop s then Some actor else None)"

text \<open>
  The snapshot the CRM writes is complete, so the refusal of an incomplete one has no case here;
  under the advisory lock neither have the insert's conflict clause on the handoff and the re-read
  after it.  The partial index \<open>uq_opportunities_open_per_party\<close> is a different key.
\<close>

definition receiveHandoffWithin :: "crm_env \<Rightarrow> string \<Rightarrow> string \<Rightarrow> string \<Rightarrow> ReceiveOutcome stx" where
  "receiveHandoffWithin e tenant user handoffId s =
     bindR (sales_actor user s) (\<lambda>actor.
       case find (\<lambda>r. op_tenant r = tenant \<and> op_handoff r = Some (pgUuid handoffId)) (opportunities s) of
         Some existing \<Rightarrow> Inr (RV_already_received existing, s)
       | None \<Rightarrow>
           (case find (\<lambda>h. lh_tenant h = tenant \<and> lh_id h = pgUuid handoffId) (lead_handoffs (crm s)) of
              None \<Rightarrow> Inr (RV_not_found, s)
            | Some h \<Rightarrow>
                (case find (\<lambda>l. ld_tenant l = tenant \<and> ld_id l = lh_lead h) (leads (crm s)) of
                   None \<Rightarrow> Inr (RV_not_found, s)
                 | Some l \<Rightarrow>
                     if ld_state l \<noteq> LS_handed_off then Inr (RV_invalid, s)
                     else
                       (let snapshot = lh_snapshot h;
                            owner = ownerAtReceipt e tenant (lh_to h) actor (hs_rooftop snapshot) s;
                            row = receivedRow (drawn e 0) (clock e) tenant handoffId snapshot
                                    (expectedOn tenant (hs_lead snapshot) (crm s)) owner;
                            s1 = s\<lparr>opportunities := opportunities s @ [row]\<rparr>;
                            s2 = (case owner of None \<Rightarrow> s1
                                  | Some u \<Rightarrow> assignmentRow tenant (drawn e 0) None u SA_manual_assignment
                                                (Some ''established at receipt'') actor s1)
                        in bindR (ensure (\<not> list_ex (openDealFor tenant (hs_rooftop snapshot) (hs_party snapshot)) (opportunities s))
                                   unique_violation) (\<lambda>_.
                             Inr (RV_received row,
                               recorded tenant ''opportunity'' (drawn e 0) ''sales.opportunity.received'' actor s2))))))"

definition receiveHandoff :: "crm_env \<Rightarrow> string \<Rightarrow> string \<Rightarrow> string \<Rightarrow> sales_db \<Rightarrow> ReceiveOutcome result \<times> sales_db" where
  "receiveHandoff e tenant user handoffId s = withTenantTransaction (receiveHandoffWithin e tenant user handoffId) s"

datatype WalkInOutcome = WI_opened opportunity | WI_already_open opportunity | WI_not_found | WI_invalid

definition walkInRow :: "string \<Rightarrow> int \<Rightarrow> string \<Rightarrow> string \<Rightarrow> string \<Rightarrow> string option \<Rightarrow> string \<Rightarrow> opportunity" where
  "walkInRow oid t tenant rooftop party stock actor =
     \<lparr>op_id = oid, op_tenant = tenant, op_rooftop = pgUuid rooftop, op_party = pgUuid party, op_origin = OO_walk_in,
      op_handoff = None, op_lead = None, op_appointment = None, op_stock = map_option pgUuid stock,
      op_owner = Some (pgUuid actor), op_stage = OS_received, op_disposition = None, op_ready_at = None,
      op_lost_at = None, op_version = 1, op_created = t\<rparr>"

text \<open>A car named at the door must be on this lot.\<close>

definition carAtTheDoor :: "string \<Rightarrow> string \<Rightarrow> string option \<Rightarrow> sales_db \<Rightarrow> WalkInOutcome option" where
  "carAtTheDoor tenant rooftop stock s =
     (case stock of
        None \<Rightarrow> None
      | Some sid \<Rightarrow>
          (case stockHere tenant sid s of
             None \<Rightarrow> Some WI_not_found
           | Some k \<Rightarrow> if sk_rooftop k \<noteq> rooftop then Some WI_not_found
                       else if sk_retired k then Some WI_invalid else None))"

definition openWalkInWithin ::
  "crm_env \<Rightarrow> string \<Rightarrow> string \<Rightarrow> string \<Rightarrow> string \<Rightarrow> string option \<Rightarrow> WalkInOutcome stx" where
  "openWalkInWithin e tenant user rooftop party stock s =
     bindR (sales_actor user s) (\<lambda>actor.
       if \<not> worksAt e tenant actor rooftop s then Inr (WI_invalid, s)
       else
         (case find (openDealFor tenant (pgUuid rooftop) (pgUuid party)) (opportunities s) of
            Some r \<Rightarrow> Inr (WI_already_open r, s)
          | None \<Rightarrow>
              (case find (\<lambda>p. pa_tenant p = tenant \<and> pa_id p = pgUuid party) (parties (crm s)) of
                 None \<Rightarrow> Inr (WI_not_found, s)
               | Some p \<Rightarrow>
                   if pa_status p \<noteq> PS_active then Inr (WI_invalid, s)
                   else
                     (case carAtTheDoor tenant rooftop stock s of
                        Some refusal \<Rightarrow> Inr (refusal, s)
                      | None \<Rightarrow>
                          (let row = walkInRow (drawn e 0) (clock e) tenant rooftop party stock actor
                           in Inr (WI_opened row,
                                recorded tenant ''opportunity'' (drawn e 0) ''sales.opportunity.received'' actor
                                  (assignmentRow tenant (drawn e 0) None actor SA_manual_assignment (Some ''took the walk-in'') actor
                                    (s\<lparr>opportunities := opportunities s @ [row]\<rparr>))))))))"

definition openWalkIn ::
  "crm_env \<Rightarrow> string \<Rightarrow> string \<Rightarrow> string \<Rightarrow> string \<Rightarrow> string option \<Rightarrow> sales_db \<Rightarrow> WalkInOutcome result \<times> sales_db" where
  "openWalkIn e tenant user rooftop party stock s =
     withTenantTransaction (openWalkInWithin e tenant user rooftop party stock) s"

section \<open>Ownership\<close>

datatype AcceptOutcome =
    OX_accepted opportunity | OX_already_owned opportunity | OX_version_conflict int | OX_not_found | OX_invalid

definition updateOpportunity ::
  "string \<Rightarrow> string \<Rightarrow> int \<Rightarrow> (opportunity \<Rightarrow> opportunity) \<Rightarrow> sales_db \<Rightarrow> sales_db" where
  "updateOpportunity tenant oid expected f s =
     s\<lparr>opportunities := update_where (\<lambda>r. opportunityHere tenant oid r \<and> op_version r = expected) f (opportunities s)\<rparr>"

definition ownedBy :: "string \<Rightarrow> opportunity \<Rightarrow> opportunity" where
  "ownedBy user r = r\<lparr>op_owner := Some (pgUuid user), op_version := op_version r + 1\<rparr>"

definition acceptBody :: "crm_env \<Rightarrow> string \<Rightarrow> string \<Rightarrow> string \<Rightarrow> int \<Rightarrow> AcceptOutcome stx" where
  "acceptBody e tenant user oid expected s =
     bindR (sales_actor user s) (\<lambda>actor.
       case find (opportunityHere tenant oid) (opportunities s) of
         None \<Rightarrow> Inr (OX_not_found, s)
       | Some current \<Rightarrow>
           if op_owner current = Some actor then Inr (OX_already_owned current, s)
           else if concluded current then Inr (OX_invalid, s)
           else if op_owner current \<noteq> None then Inr (OX_invalid, s)
           else if op_version current \<noteq> expected then Inr (OX_version_conflict (op_version current), s)
           else if \<not> worksAt e tenant actor (op_rooftop current) s then Inr (OX_not_found, s)
           else Inr (OX_accepted (ownedBy actor current),
                  recorded tenant ''opportunity'' (op_id current) ''sales.opportunity.accepted'' actor
                    (assignmentRow tenant oid None actor SA_manual_assignment (Some ''accepted by the salesperson'') actor
                      (updateOpportunity tenant oid expected (ownedBy actor) s))))"

definition acceptOpportunity ::
  "crm_env \<Rightarrow> string \<Rightarrow> string \<Rightarrow> string \<Rightarrow> int \<Rightarrow> sales_db \<Rightarrow> AcceptOutcome result \<times> sales_db" where
  "acceptOpportunity e tenant user oid expected s = withTenantTransaction (acceptBody e tenant user oid expected) s"

datatype SalesAssignOutcome =
    OZ_assigned opportunity | OZ_already_assigned opportunity | OZ_version_conflict int | OZ_not_found | OZ_invalid

text \<open>The replay answer compares spellings; the CHECK of \<open>opportunity_assignments\<close> compares UUIDs.\<close>

definition assignOpportunityBody ::
  "crm_env \<Rightarrow> string \<Rightarrow> string \<Rightarrow> string \<Rightarrow> int \<Rightarrow> string \<Rightarrow> string \<Rightarrow> string option \<Rightarrow> SalesAssignOutcome stx" where
  "assignOpportunityBody e tenant user oid expected to reason note s =
     bindR (sales_actor user s) (\<lambda>actor.
       case find (opportunityHere tenant oid) (opportunities s) of
         None \<Rightarrow> Inr (OZ_not_found, s)
       | Some current \<Rightarrow>
           if op_owner current = Some to then Inr (OZ_already_assigned current, s)
           else if concluded current then Inr (OZ_invalid, s)
           else if op_version current \<noteq> expected then Inr (OZ_version_conflict (op_version current), s)
           else
             (case map_of ASSIGNMENT_REASONS reason of
                None \<Rightarrow> Inr (OZ_invalid, s)
              | Some why \<Rightarrow>
                  if \<not> worksAt e tenant to (op_rooftop current) s then Inr (OZ_invalid, s)
                  else bindR (ensure (hasUser (Some to) (crm s)) foreign_key) (\<lambda>_.
                    bindR (ensure (lengthIn 0 500 note \<and> op_owner current \<noteq> Some (pgUuid to)) check_violation) (\<lambda>_.
                      Inr (OZ_assigned (ownedBy to current),
                        recorded tenant ''opportunity'' (op_id current) ''sales.opportunity.assigned'' actor
                          (assignmentRow tenant oid (op_owner current) to why note actor
                            (updateOpportunity tenant oid expected (ownedBy to) s)))))))"

definition assignOpportunity ::
  "crm_env \<Rightarrow> string \<Rightarrow> string \<Rightarrow> string \<Rightarrow> int \<Rightarrow> string \<Rightarrow> string \<Rightarrow> string option \<Rightarrow> sales_db \<Rightarrow>
   SalesAssignOutcome result \<times> sales_db" where
  "assignOpportunity e tenant user oid expected to reason note s =
     withTenantTransaction (assignOpportunityBody e tenant user oid expected to reason note) s"

section \<open>Moving, and the fact handed on\<close>

datatype StageOutcome =
    ST_moved opportunity "string option" | ST_already_there opportunity "string option"
  | ST_version_conflict int | ST_not_found | ST_invalid

definition movedTo :: "int \<Rightarrow> OpportunityStage \<Rightarrow> OpportunityDisposition option \<Rightarrow> opportunity \<Rightarrow> opportunity" where
  "movedTo t st d r =
     r\<lparr>op_stage := st, op_disposition := d,
       op_ready_at := (if st = OS_ready_for_desking then Some t else op_ready_at r),
       op_lost_at := (if st = OS_lost then Some t else op_lost_at r), op_version := op_version r + 1\<rparr>"

definition stageEvent ::
  "string \<Rightarrow> string \<Rightarrow> OpportunityStage \<Rightarrow> OpportunityStage \<Rightarrow> OpportunityDisposition option \<Rightarrow> string option \<Rightarrow> string \<Rightarrow>
   sales_db \<Rightarrow> sales_db" where
  "stageEvent tenant oid from to d note actor s =
     s\<lparr>stage_moves := stage_moves s @ [\<lparr>os_tenant = tenant, os_opportunity = pgUuid oid, os_from = from, os_to = to,
        os_disposition = d, os_note = note, os_by = pgUuid actor\<rparr>]\<rparr>"

text \<open>Something owed on the deal, without which it cannot go to follow-up.\<close>

definition somethingOwed :: "string \<Rightarrow> string \<Rightarrow> sales_db \<Rightarrow> bool" where
  "somethingOwed tenant oid s =
     list_ex (\<lambda>a. oy_tenant a = tenant \<and> oy_opportunity a = pgUuid oid \<and> oy_state a = AS_open \<and> oy_due a \<noteq> None)
       (opportunity_activities s)"

definition dispositionFits :: "OpportunityStage \<Rightarrow> OpportunityDisposition option \<Rightarrow> bool" where
  "dispositionFits st d =
     ((d \<noteq> None) = (st \<in> set TERMINAL_STAGES)
      \<and> (st = OS_ready_for_desking \<longrightarrow> d = Some OD_committed_to_purchase)
      \<and> (st = OS_lost \<longrightarrow> d \<noteq> Some OD_committed_to_purchase))"

definition enqueueAdminOutboxEvent :: "string \<Rightarrow> int \<Rightarrow> string \<Rightarrow> string \<Rightarrow> string \<Rightarrow> sales_db \<Rightarrow> sales_db" where
  "enqueueAdminOutboxEvent eid t tenant eventType subject s =
     s\<lparr>crm := (crm s)\<lparr>outbox := outbox (crm s) @ [\<lparr>ob_id = eid, ob_tenant = tenant, ob_type = eventType, ob_subject = subject,
        ob_available = t, ob_attempts = 0, ob_delivered = None\<rparr>]\<rparr>\<rparr>"

definition selectedStock :: "string \<Rightarrow> string \<Rightarrow> sales_db \<Rightarrow> string option" where
  "selectedStock tenant oid s =
     map_option vh_stock (find (\<lambda>v. vh_tenant v = tenant \<and> vh_opportunity v = pgUuid oid \<and> vh_status v = VI_selected)
       (opportunity_vehicles s))"

definition deskingFact :: "crm_env \<Rightarrow> string \<Rightarrow> string \<Rightarrow> opportunity \<Rightarrow> sales_db \<Rightarrow> desking_handoff" where
  "deskingFact e tenant actor r s =
     \<lparr>dh_id = drawn e 1, dh_tenant = tenant, dh_opportunity = op_id r, dh_rooftop = op_rooftop r, dh_party = op_party r,
      dh_stock = selectedStock tenant (op_id r) s, dh_by = pgUuid actor, dh_outbox = drawn e 0,
      dh_status = DH_not_yet_available\<rparr>"

text \<open>The event first, so that the row can carry its identifier; the row's unique key makes it exactly one.\<close>

definition handToDesk :: "crm_env \<Rightarrow> string \<Rightarrow> string \<Rightarrow> opportunity \<Rightarrow> string stx" where
  "handToDesk e tenant actor r s =
     (let s1 = enqueueAdminOutboxEvent (drawn e 0) (clock e) tenant DESKING_READY_EVENT (op_id r) s;
          d = desk (crm s1)
      in bindR (ensure (\<not> list_ex (\<lambda>h. dh_tenant h = tenant \<and> dh_opportunity h = op_id r) (handoffs d)) unique_violation) (\<lambda>_.
           Inr (drawn e 1,
             s1\<lparr>crm := (crm s1)\<lparr>desk := d\<lparr>handoffs := handoffs d @ [deskingFact e tenant actor r s]\<rparr>\<rparr>\<rparr>)))"

definition deskingHandoffOf :: "string \<Rightarrow> string \<Rightarrow> sales_db \<Rightarrow> string option" where
  "deskingHandoffOf tenant oid s =
     map_option dh_id (find (\<lambda>h. dh_tenant h = tenant \<and> dh_opportunity h = pgUuid oid) (handoffs (desk (crm s))))"

definition writeMove ::
  "crm_env \<Rightarrow> string \<Rightarrow> string \<Rightarrow> string \<Rightarrow> int \<Rightarrow> opportunity \<Rightarrow> OpportunityStage \<Rightarrow> OpportunityDisposition option \<Rightarrow>
   string option \<Rightarrow> StageOutcome stx" where
  "writeMove e tenant actor oid expected current st d note s =
     (let s1 = stageEvent tenant oid (op_stage current) st d note actor
                 (updateOpportunity tenant oid expected (movedTo (clock e) st d) s);
          done = (\<lambda>fact s2. Inr (ST_moved (movedTo (clock e) st d current) fact,
                    recorded tenant ''opportunity'' (op_id current) ''sales.opportunity.stage_changed'' actor s2))
      in bindR (ensure (lengthIn 0 500 note) check_violation) (\<lambda>_.
           if st = OS_ready_for_desking
           then bindR (handToDesk e tenant actor current s1) (\<lambda>(hid, s2). done (Some hid) s2)
           else done None s1))"

definition moveStageBody ::
  "crm_env \<Rightarrow> string \<Rightarrow> string \<Rightarrow> string \<Rightarrow> OpportunityStage \<Rightarrow> int \<Rightarrow> string option \<Rightarrow> string option \<Rightarrow> StageOutcome stx" where
  "moveStageBody e tenant user oid st expected disposition note s =
     bindR (sales_actor user s) (\<lambda>actor.
       case find (opportunityHere tenant oid) (opportunities s) of
         None \<Rightarrow> Inr (ST_not_found, s)
       | Some current \<Rightarrow>
           if op_stage current = st then Inr (ST_already_there current (deskingHandoffOf tenant oid s), s)
           else if st \<notin> set (LEGAL_STAGES (op_stage current)) then Inr (ST_invalid, s)
           else if op_version current \<noteq> expected then Inr (ST_version_conflict (op_version current), s)
           else
             (let d = (case disposition of None \<Rightarrow> None | Some w \<Rightarrow> map_of OPPORTUNITY_DISPOSITIONS w) in
              if disposition \<noteq> None \<and> d = None then Inr (ST_invalid, s)
              else if \<not> dispositionFits st d then Inr (ST_invalid, s)
              else if st = OS_follow_up \<and> \<not> somethingOwed tenant oid s then Inr (ST_invalid, s)
              else writeMove e tenant actor oid expected current st d note s))"

definition moveOpportunityStage ::
  "crm_env \<Rightarrow> string \<Rightarrow> string \<Rightarrow> string \<Rightarrow> string \<Rightarrow> int \<Rightarrow> string option \<Rightarrow> string option \<Rightarrow> sales_db \<Rightarrow>
   StageOutcome result \<times> sales_db" where
  "moveOpportunityStage e tenant user oid toStage expected disposition note s =
     (case map_of OPPORTUNITY_STAGES toStage of
        None \<Rightarrow> (Inr ST_invalid, s)
      | Some st \<Rightarrow> withTenantTransaction (moveStageBody e tenant user oid st expected disposition note) s)"

text \<open>A concluded opportunity takes no further work.\<close>

datatype OpenAnswer = OA_open opportunity | OA_not_found | OA_finished

definition assertOpportunityOpen :: "string \<Rightarrow> string \<Rightarrow> sales_db \<Rightarrow> OpenAnswer" where
  "assertOpportunityOpen tenant oid s =
     (case find (opportunityHere tenant oid) (opportunities s) of
        None \<Rightarrow> OA_not_found
      | Some r \<Rightarrow> if concluded r then OA_finished else OA_open r)"

end
