(* ===== verification/SalesFloor.thy ===== *)
theory SalesFloor
  imports SalesPipeline
begin

text \<open>
  The showroom (\<open>sales/src/showroom.ts\<close>): the rotation that decides whose turn it is, and the
  visit from arrival to departure.
\<close>

section \<open>The up rotation\<close>

datatype RotationOutcome = RO1_joined floor_rotation | RO1_already_on_the_floor floor_rotation | RO1_invalid

definition onFloor :: "string \<Rightarrow> string \<Rightarrow> floor_rotation \<Rightarrow> bool" where
  "onFloor tenant rooftop r = (fr_tenant r = tenant \<and> fr_rooftop r = pgUuid rooftop)"

definition placeOf :: "string \<Rightarrow> string \<Rightarrow> string \<Rightarrow> floor_rotation \<Rightarrow> bool" where
  "placeOf tenant rooftop user r = (onFloor tenant rooftop r \<and> fr_user r = pgUuid user)"

text \<open>\<open>COALESCE(MAX(position) + 1, 0)\<close> over the rooftop.\<close>

definition backOfQueue :: "string \<Rightarrow> string \<Rightarrow> sales_db \<Rightarrow> int" where
  "backOfQueue tenant rooftop s =
     (case map fr_position (filter (onFloor tenant rooftop) (floor_rotations s)) of
        [] \<Rightarrow> 0 | p # ps \<Rightarrow> fold max ps p + 1)"

definition joinFloorWithin :: "crm_env \<Rightarrow> string \<Rightarrow> string \<Rightarrow> string \<Rightarrow> string \<Rightarrow> RotationOutcome stx" where
  "joinFloorWithin e tenant user rooftop person s =
     bindR (sales_actor user s) (\<lambda>actor.
       if \<not> worksAt e tenant actor rooftop s then Inr (RO1_invalid, s)
       else if \<not> worksAt e tenant person rooftop s then Inr (RO1_invalid, s)
       else
         (case find (placeOf tenant rooftop person) (floor_rotations s) of
            Some r \<Rightarrow> Inr (RO1_already_on_the_floor r, s)
          | None \<Rightarrow>
              (let row = \<lparr>fr_id = drawn e 0, fr_tenant = tenant, fr_rooftop = pgUuid rooftop, fr_user = pgUuid person,
                          fr_position = backOfQueue tenant rooftop s, fr_status = RT_available, fr_taken = None, fr_version = 1\<rparr>
               in bindR (ensure (hasUser (Some person) (crm s)) foreign_key) (\<lambda>_.
                    Inr (RO1_joined row, recorded tenant ''floor_rotation'' (drawn e 0) ''sales.floor.joined'' actor
                      (s\<lparr>floor_rotations := floor_rotations s @ [row]\<rparr>))))))"

definition joinFloor ::
  "crm_env \<Rightarrow> string \<Rightarrow> string \<Rightarrow> string \<Rightarrow> string \<Rightarrow> sales_db \<Rightarrow> RotationOutcome result \<times> sales_db" where
  "joinFloor e tenant user rooftop person s = withTenantTransaction (joinFloorWithin e tenant user rooftop person) s"

definition listFloor :: "string \<Rightarrow> string \<Rightarrow> sales_db \<Rightarrow> floor_rotation list" where
  "listFloor tenant rooftop s = sort_key fr_position (filter (onFloor tenant rooftop) (floor_rotations s))"

text \<open>Busy, and to the back of the queue.\<close>

definition tookTurn :: "int \<Rightarrow> int \<Rightarrow> floor_rotation \<Rightarrow> floor_rotation" where
  "tookTurn t back r =
     r\<lparr>fr_status := RT_with_customer, fr_taken := Some t, fr_position := back, fr_version := fr_version r + 1\<rparr>"

definition takeTurnOf :: "crm_env \<Rightarrow> string \<Rightarrow> string \<Rightarrow> floor_rotation \<Rightarrow> sales_db \<Rightarrow> sales_db" where
  "takeTurnOf e tenant rooftop r s =
     s\<lparr>floor_rotations := update_where (\<lambda>x. fr_tenant x = tenant \<and> fr_id x = fr_id r)
        (tookTurn (clock e) (backOfQueue tenant rooftop s)) (floor_rotations s)\<rparr>"

definition nextUp :: "string \<Rightarrow> string \<Rightarrow> sales_db \<Rightarrow> floor_rotation option" where
  "nextUp tenant rooftop s =
     (case sort_key fr_position (filter (\<lambda>r. onFloor tenant rooftop r \<and> fr_status r = RT_available) (floor_rotations s)) of
        [] \<Rightarrow> None | r # _ \<Rightarrow> Some r)"

definition takeNextTurnWithin :: "crm_env \<Rightarrow> string \<Rightarrow> string \<Rightarrow> sales_db \<Rightarrow> string option \<times> sales_db" where
  "takeNextTurnWithin e tenant rooftop s =
     (case nextUp tenant rooftop s of
        None \<Rightarrow> (None, s)
      | Some r \<Rightarrow> (Some (fr_user r), takeTurnOf e tenant rooftop r s))"

datatype ClaimAnswer = CT_claimed | CT_absent | CT_busy

definition claimNamedTurnWithin :: "crm_env \<Rightarrow> string \<Rightarrow> string \<Rightarrow> string \<Rightarrow> sales_db \<Rightarrow> ClaimAnswer \<times> sales_db" where
  "claimNamedTurnWithin e tenant rooftop person s =
     (case find (placeOf tenant rooftop person) (floor_rotations s) of
        None \<Rightarrow> (CT_absent, s)
      | Some r \<Rightarrow> if fr_status r \<noteq> RT_available then (CT_busy, s) else (CT_claimed, takeTurnOf e tenant rooftop r s))"

datatype ReleaseOutcome = RL_released floor_rotation | RL_not_found

definition backOnFloor :: "floor_rotation \<Rightarrow> floor_rotation" where
  "backOnFloor r = r\<lparr>fr_status := RT_available, fr_version := fr_version r + 1\<rparr>"

definition releaseBody :: "crm_env \<Rightarrow> string \<Rightarrow> string \<Rightarrow> string \<Rightarrow> string \<Rightarrow> ReleaseOutcome stx" where
  "releaseBody e tenant user rooftop person s =
     bindR (sales_actor user s) (\<lambda>actor.
       if \<not> worksAt e tenant actor rooftop s then Inr (RL_not_found, s)
       else
         (case find (placeOf tenant rooftop person) (floor_rotations s) of
            None \<Rightarrow> Inr (RL_not_found, s)
          | Some r \<Rightarrow>
              Inr (RL_released (backOnFloor r), recorded tenant ''floor_rotation'' (fr_id r) ''sales.floor.released'' actor
                (s\<lparr>floor_rotations := update_where (placeOf tenant rooftop person) backOnFloor (floor_rotations s)\<rparr>))))"

definition releaseToFloor ::
  "crm_env \<Rightarrow> string \<Rightarrow> string \<Rightarrow> string \<Rightarrow> string \<Rightarrow> sales_db \<Rightarrow> ReleaseOutcome result \<times> sales_db" where
  "releaseToFloor e tenant user rooftop person s = withTenantTransaction (releaseBody e tenant user rooftop person) s"

text \<open>Frees whoever was with this visit, if the floor still has them busy.\<close>

definition releaseWithin :: "string \<Rightarrow> string \<Rightarrow> string option \<Rightarrow> sales_db \<Rightarrow> sales_db" where
  "releaseWithin tenant rooftop person s =
     (case person of
        None \<Rightarrow> s
      | Some u \<Rightarrow> s\<lparr>floor_rotations := update_where (\<lambda>r. placeOf tenant rooftop u r \<and> fr_status r = RT_with_customer)
                     backOnFloor (floor_rotations s)\<rparr>)"

section \<open>The visit\<close>

text \<open>The CHECKs of \<open>showroom_visits\<close>.\<close>

definition visitRowOk :: "showroom_visit \<Rightarrow> bool" where
  "visitRowOk v =
     ((vi_greeted v \<noteq> None \<longrightarrow> vi_greeted_by v \<noteq> None)
      \<and> (vi_accepted v = None) = (vi_accepted_by v = None)
      \<and> (vi_accepted v \<noteq> None \<longrightarrow> vi_greeted v \<noteq> None)
      \<and> (vi_state v = VS_with_salesperson \<longrightarrow> vi_accepted v \<noteq> None)
      \<and> (vi_state v = VS_departed \<longrightarrow> vi_departed v \<noteq> None)
      \<and> (vi_state v = VS_arrived \<or> vi_greeted v \<noteq> None)
      \<and> (case vi_departed v of None \<Rightarrow> True | Some t \<Rightarrow> vi_arrived v \<le> t)
      \<and> (case vi_accepted v of None \<Rightarrow> True | Some t \<Rightarrow> vi_arrived v \<le> t))"

definition visitHere :: "string \<Rightarrow> string \<Rightarrow> showroom_visit \<Rightarrow> bool" where
  "visitHere tenant vid v = (vi_tenant v = tenant \<and> vi_id v = pgUuid vid)"

definition inTheBuilding :: "string \<Rightarrow> string \<Rightarrow> showroom_visit \<Rightarrow> bool" where
  "inTheBuilding tenant party v = (vi_tenant v = tenant \<and> vi_party v = party \<and> vi_state v \<noteq> VS_departed)"

text \<open>The conditional UPDATE of the visit just read; the row it leaves satisfies the CHECKs.\<close>

definition updateVisit ::
  "string \<Rightarrow> string \<Rightarrow> int \<Rightarrow> showroom_visit \<Rightarrow> (showroom_visit \<Rightarrow> showroom_visit) \<Rightarrow> sales_db \<Rightarrow> sales_db result" where
  "updateVisit tenant vid expected current f s =
     bindR (ensure (visitRowOk (f current)) check_violation) (\<lambda>_.
       Inr (s\<lparr>showroom_visits := update_where (\<lambda>v. visitHere tenant vid v \<and> vi_version v = expected) f (showroom_visits s)\<rparr>))"

datatype CheckInOutcome =
    CI_checked_in showroom_visit bool | CI_already_here showroom_visit bool | CI_not_found | CI_invalid

definition arrivalRow ::
  "string \<Rightarrow> int \<Rightarrow> string \<Rightarrow> string \<Rightarrow> string \<Rightarrow> string option \<Rightarrow> string option \<Rightarrow> showroom_visit" where
  "arrivalRow vid t tenant rooftop party oid aid =
     \<lparr>vi_id = vid, vi_tenant = tenant, vi_rooftop = pgUuid rooftop, vi_party = pgUuid party,
      vi_opportunity = map_option pgUuid oid, vi_appointment = map_option pgUuid aid, vi_greeted_by = None,
      vi_accepted_by = None, vi_state = VS_arrived, vi_arrived = t, vi_greeted = None, vi_accepted = None,
      vi_departed = None, vi_version = 1\<rparr>"

definition writeArrival ::
  "crm_env \<Rightarrow> string \<Rightarrow> string \<Rightarrow> string \<Rightarrow> string \<Rightarrow> string option \<Rightarrow> string option \<Rightarrow> sales_db \<Rightarrow> CheckInOutcome \<times> sales_db" where
  "writeArrival e tenant actor rooftop party oid aid s =
     (let row = arrivalRow (drawn e 0) (clock e) tenant rooftop party oid aid;
          s1 = visitEvent tenant (drawn e 0) VE_arrived None actor (s\<lparr>showroom_visits := showroom_visits s @ [row]\<rparr>);
          s2 = (if aid = None then s1
                else visitEvent tenant (drawn e 0) VE_appointment_kept (Some ''they turned up for their booking'') actor s1)
      in (CI_checked_in row (aid \<noteq> None),
          recorded tenant ''showroom_visit'' (drawn e 0) ''sales.visit.arrived'' actor s2))"

text \<open>An attached opportunity belongs to this rooftop and this customer.\<close>

definition attachedElsewhere :: "string \<Rightarrow> string \<Rightarrow> string \<Rightarrow> string option \<Rightarrow> sales_db \<Rightarrow> CheckInOutcome option" where
  "attachedElsewhere tenant rooftop party oid s =
     (case oid of
        None \<Rightarrow> None
      | Some x \<Rightarrow>
          (case find (opportunityHere tenant x) (opportunities s) of
             None \<Rightarrow> Some CI_not_found
           | Some r \<Rightarrow> if op_rooftop r \<noteq> rooftop \<or> op_party r \<noteq> party then Some CI_invalid else None))"

text \<open>The appointment is marked kept by the CRM's own service, in the same transaction.\<close>

definition keepAppointment ::
  "crm_env \<Rightarrow> string \<Rightarrow> string \<Rightarrow> string \<Rightarrow> string \<Rightarrow> string \<Rightarrow> CheckInOutcome option stx" where
  "keepAppointment e tenant actor rooftop party aid s =
     (case find (appointmentHere tenant aid) (crm_appointments (crm s)) of
        None \<Rightarrow> Inr (Some CI_not_found, s)
      | Some a \<Rightarrow>
          if at_rooftop a \<noteq> rooftop \<or> at_party a \<noteq> party then Inr (Some CI_invalid, s)
          else if at_state a \<noteq> AT_scheduled \<and> at_state a \<noteq> AT_confirmed then Inr (Some CI_invalid, s)
          else bindR (setAppointmentStateWithin e tenant actor aid (at_version a) AT_completed None (crm s)) (\<lambda>(kept, c).
            Inr (case kept of AV_moved _ \<Rightarrow> None | _ \<Rightarrow> Some CI_invalid, s\<lparr>crm := c\<rparr>)))"

definition checkInWithin ::
  "crm_env \<Rightarrow> string \<Rightarrow> string \<Rightarrow> string \<Rightarrow> string \<Rightarrow> string option \<Rightarrow> string option \<Rightarrow> CheckInOutcome stx" where
  "checkInWithin e tenant user rooftop party oid aid s =
     bindR (sales_actor user s) (\<lambda>actor.
       if \<not> worksAt e tenant actor rooftop s then Inr (CI_invalid, s)
       else
         (case find (inTheBuilding tenant (pgUuid party)) (showroom_visits s) of
            Some v \<Rightarrow> Inr (CI_already_here v (vi_appointment v \<noteq> None), s)
          | None \<Rightarrow>
              if \<not> hasParty tenant (Some party) (crm s) then Inr (CI_not_found, s)
              else
                (case attachedElsewhere tenant rooftop party oid s of
                   Some refusal \<Rightarrow> Inr (refusal, s)
                 | None \<Rightarrow>
                     (case aid of
                        None \<Rightarrow> Inr (writeArrival e tenant actor rooftop party oid None s)
                      | Some a \<Rightarrow>
                          bindR (keepAppointment e tenant actor rooftop party a s) (\<lambda>(refusal, s1).
                            case refusal of
                              Some answer \<Rightarrow> Inr (answer, s1)
                            | None \<Rightarrow> Inr (writeArrival e tenant actor rooftop party oid (Some a) s1))))))"

definition checkInVisit ::
  "crm_env \<Rightarrow> string \<Rightarrow> string \<Rightarrow> string \<Rightarrow> string \<Rightarrow> string option \<Rightarrow> string option \<Rightarrow> sales_db \<Rightarrow>
   CheckInOutcome result \<times> sales_db" where
  "checkInVisit e tenant user rooftop party oid aid s =
     withTenantTransaction (checkInWithin e tenant user rooftop party oid aid) s"

datatype GreetOutcome =
    GR_greeted showroom_visit string bool | GR_nobody_available | GR_version_conflict int | GR_not_found | GR_invalid

text \<open>Who greets: the next turn off the floor, or a named person who is on it and free.\<close>

definition greeterFor :: "crm_env \<Rightarrow> string \<Rightarrow> string \<Rightarrow> string option \<Rightarrow> sales_db \<Rightarrow> (GreetOutcome + string) \<times> sales_db" where
  "greeterFor e tenant rooftop named s =
     (case named of
        None \<Rightarrow> (case takeNextTurnWithin e tenant rooftop s of
                    (None, s1) \<Rightarrow> (Inl GR_nobody_available, s1) | (Some u, s1) \<Rightarrow> (Inr u, s1))
      | Some u \<Rightarrow>
          if \<not> worksAt e tenant u rooftop s then (Inl GR_invalid, s)
          else (case claimNamedTurnWithin e tenant rooftop u s of
                  (CT_claimed, s1) \<Rightarrow> (Inr u, s1) | (_, s1) \<Rightarrow> (Inl GR_invalid, s1)))"

definition greetBody :: "crm_env \<Rightarrow> string \<Rightarrow> string \<Rightarrow> string \<Rightarrow> int \<Rightarrow> string option \<Rightarrow> GreetOutcome stx" where
  "greetBody e tenant user vid expected named s =
     bindR (sales_actor user s) (\<lambda>actor.
       case find (visitHere tenant vid) (showroom_visits s) of
         None \<Rightarrow> Inr (GR_not_found, s)
       | Some current \<Rightarrow>
           if vi_state current \<noteq> VS_arrived then Inr (GR_invalid, s)
           else if vi_version current \<noteq> expected then Inr (GR_version_conflict (vi_version current), s)
           else
             (case greeterFor e tenant (vi_rooftop current) named s of
                (Inl refusal, s1) \<Rightarrow> Inr (refusal, s1)
              | (Inr u, s1) \<Rightarrow>
                  (let greet = (\<lambda>v. v\<lparr>vi_state := VS_greeted, vi_greeted := Some (clock e), vi_greeted_by := Some (pgUuid u),
                                    vi_version := vi_version v + 1\<rparr>)
                   in bindR (updateVisit tenant vid expected current greet s1) (\<lambda>s2.
                        Inr (GR_greeted (greet current) u (named = None),
                          recorded tenant ''showroom_visit'' (vi_id current) ''sales.visit.greeted'' actor
                            (visitEvent tenant vid VE_greeted
                              (Some (if named = None then ''took the next turn on the floor'' else ''assigned by name'')) actor s2))))))"

definition greetVisit ::
  "crm_env \<Rightarrow> string \<Rightarrow> string \<Rightarrow> string \<Rightarrow> int \<Rightarrow> string option \<Rightarrow> sales_db \<Rightarrow> GreetOutcome result \<times> sales_db" where
  "greetVisit e tenant user vid expected named s = withTenantTransaction (greetBody e tenant user vid expected named) s"

datatype VisitAcceptOutcome =
    VA_accepted showroom_visit | VA_already_accepted showroom_visit | VA_version_conflict int | VA_not_found | VA_invalid

definition acceptVisitBody :: "crm_env \<Rightarrow> string \<Rightarrow> string \<Rightarrow> string \<Rightarrow> int \<Rightarrow> VisitAcceptOutcome stx" where
  "acceptVisitBody e tenant user vid expected s =
     bindR (sales_actor user s) (\<lambda>actor.
       case find (visitHere tenant vid) (showroom_visits s) of
         None \<Rightarrow> Inr (VA_not_found, s)
       | Some current \<Rightarrow>
           if vi_accepted_by current = Some actor then Inr (VA_already_accepted current, s)
           else if vi_state current = VS_departed then Inr (VA_invalid, s)
           else if vi_state current = VS_arrived then Inr (VA_invalid, s)
           else if vi_accepted_by current \<noteq> None then Inr (VA_invalid, s)
           else if vi_version current \<noteq> expected then Inr (VA_version_conflict (vi_version current), s)
           else if \<not> worksAt e tenant actor (vi_rooftop current) s then Inr (VA_not_found, s)
           else
             (let take = (\<lambda>v. v\<lparr>vi_state := VS_with_salesperson, vi_accepted := Some (clock e),
                                vi_accepted_by := Some (pgUuid actor), vi_version := vi_version v + 1\<rparr>)
              in bindR (updateVisit tenant vid expected current take s) (\<lambda>s1.
                   Inr (VA_accepted (take current),
                     recorded tenant ''showroom_visit'' (vi_id current) ''sales.visit.accepted'' actor
                       (visitEvent tenant vid VE_accepted (Some ''took the customer on'') actor s1)))))"

definition acceptVisit ::
  "crm_env \<Rightarrow> string \<Rightarrow> string \<Rightarrow> string \<Rightarrow> int \<Rightarrow> sales_db \<Rightarrow> VisitAcceptOutcome result \<times> sales_db" where
  "acceptVisit e tenant user vid expected s = withTenantTransaction (acceptVisitBody e tenant user vid expected) s"

datatype VisitCloseOutcome =
    VC_departed showroom_visit | VC_already_departed showroom_visit | VC_version_conflict int | VC_not_found | VC_invalid

definition keysOut :: "demonstration \<Rightarrow> bool" where
  "keysOut d = (dm_state d = DM_issued \<or> dm_state d = DM_in_progress)"

definition carOutOn :: "string \<Rightarrow> string \<Rightarrow> sales_db \<Rightarrow> bool" where
  "carOutOn tenant vid s =
     list_ex (\<lambda>d. dm_tenant d = tenant \<and> dm_visit d = Some (pgUuid vid) \<and> keysOut d) (demonstrations s)"

definition departBody :: "crm_env \<Rightarrow> string \<Rightarrow> string \<Rightarrow> string \<Rightarrow> int \<Rightarrow> string option \<Rightarrow> VisitCloseOutcome stx" where
  "departBody e tenant user vid expected note s =
     bindR (sales_actor user s) (\<lambda>actor.
       case find (visitHere tenant vid) (showroom_visits s) of
         None \<Rightarrow> Inr (VC_not_found, s)
       | Some current \<Rightarrow>
           if vi_state current = VS_departed then Inr (VC_already_departed current, s)
           else if vi_version current \<noteq> expected then Inr (VC_version_conflict (vi_version current), s)
           else if carOutOn tenant vid s then Inr (VC_invalid, s)
           else
             (let leave = (\<lambda>v. v\<lparr>vi_state := VS_departed, vi_departed := Some (clock e), vi_version := vi_version v + 1\<rparr>);
                  with1 = (case vi_accepted_by current of None \<Rightarrow> vi_greeted_by current | Some u \<Rightarrow> Some u)
              in bindR (updateVisit tenant vid expected current leave s) (\<lambda>s1.
                 bindR (ensure (lengthIn 0 500 note) check_violation) (\<lambda>_.
                   Inr (VC_departed (leave current),
                     recorded tenant ''showroom_visit'' (vi_id current) ''sales.visit.departed'' actor
                       (releaseWithin tenant (vi_rooftop current) with1 (visitEvent tenant vid VE_departed note actor s1)))))))"

definition departVisit ::
  "crm_env \<Rightarrow> string \<Rightarrow> string \<Rightarrow> string \<Rightarrow> int \<Rightarrow> string option \<Rightarrow> sales_db \<Rightarrow> VisitCloseOutcome result \<times> sales_db" where
  "departVisit e tenant user vid expected note s = withTenantTransaction (departBody e tenant user vid expected note) s"

end
