(* ===== verification/SalesSelling.thy ===== *)
theory SalesSelling
  imports SalesFloor
begin

text \<open>
  Choosing a car, driving it, and what is owed next (\<open>sales/src/selling.ts\<close>): the shortlist, the
  demonstrations, the sales-side activities, the negotiation rounds and the turnovers to a manager.
\<close>

section \<open>The shortlist\<close>

definition VEHICLE_INTEREST_STATUSES :: "(string \<times> VehicleInterestStatus) list" where
  "VEHICLE_INTEREST_STATUSES =
     [(''considering'', VI_considering), (''demonstrated'', VI_demonstrated), (''rejected'', VI_rejected), (''selected'', VI_selected)]"

definition recordVehicleEvent ::
  "string \<Rightarrow> string \<Rightarrow> string \<Rightarrow> string \<Rightarrow> VehicleEventType \<Rightarrow> VehicleInterestStatus option \<Rightarrow> VehicleInterestStatus option \<Rightarrow>
   string option \<Rightarrow> string \<Rightarrow> sales_db \<Rightarrow> sales_db" where
  "recordVehicleEvent tenant oid vid stock kind from to reason actor s =
     s\<lparr>vehicle_events := vehicle_events s @ [\<lparr>vx_tenant = tenant, vx_opportunity = pgUuid oid, vx_vehicle = vid, vx_stock = stock,
        vx_type = kind, vx_from = from, vx_to = to, vx_reason = reason, vx_by = pgUuid actor\<rparr>]\<rparr>"

definition onShortlist :: "string \<Rightarrow> string \<Rightarrow> opportunity_vehicle \<Rightarrow> bool" where
  "onShortlist tenant oid v = (vh_tenant v = tenant \<and> vh_opportunity v = pgUuid oid)"

datatype ShortlistOutcome =
    SH_added opportunity_vehicle | SH_already_shortlisted opportunity_vehicle | SH_not_found | SH_invalid

definition shortlistVehicleWithin ::
  "crm_env \<Rightarrow> string \<Rightarrow> string \<Rightarrow> string \<Rightarrow> string \<Rightarrow> int option \<Rightarrow> ShortlistOutcome stx" where
  "shortlistVehicleWithin e tenant user oid stock wanted s =
     bindR (sales_actor user s) (\<lambda>actor.
       case assertOpportunityOpen tenant oid s of
         OA_not_found \<Rightarrow> Inr (SH_not_found, s)
       | OA_finished \<Rightarrow> Inr (SH_invalid, s)
       | OA_open o1 \<Rightarrow>
           (case find (\<lambda>v. onShortlist tenant oid v \<and> vh_stock v = pgUuid stock) (opportunity_vehicles s) of
              Some v \<Rightarrow> Inr (SH_already_shortlisted v, s)
            | None \<Rightarrow>
                (case stockHere tenant stock s of
                   None \<Rightarrow> Inr (SH_not_found, s)
                 | Some k \<Rightarrow>
                     if sk_rooftop k \<noteq> op_rooftop o1 then Inr (SH_not_found, s)
                     else if sk_retired k then Inr (SH_invalid, s)
                     else
                       (let place = (case wanted of Some n \<Rightarrow> n
                                     | None \<Rightarrow> int (length (filter (onShortlist tenant oid) (opportunity_vehicles s))) + 1);
                            row = \<lparr>vh_id = drawn e 0, vh_tenant = tenant, vh_opportunity = pgUuid oid, vh_stock = pgUuid stock,
                                   vh_rank = place, vh_status = VI_considering, vh_reason = None, vh_version = 1\<rparr>
                        in bindR (ensure (place \<ge> 1) check_violation) (\<lambda>_.
                             Inr (SH_added row,
                               recorded tenant ''opportunity_vehicle'' (drawn e 0) ''sales.vehicle.shortlisted'' actor
                                 (recordVehicleEvent tenant oid (drawn e 0) (pgUuid stock) VT_shortlisted None (Some VI_considering)
                                   None actor (s\<lparr>opportunity_vehicles := opportunity_vehicles s @ [row]\<rparr>))))))))"

definition shortlistVehicle ::
  "crm_env \<Rightarrow> string \<Rightarrow> string \<Rightarrow> string \<Rightarrow> string \<Rightarrow> int option \<Rightarrow> sales_db \<Rightarrow> ShortlistOutcome result \<times> sales_db" where
  "shortlistVehicle e tenant user oid stock wanted s =
     withTenantTransaction (shortlistVehicleWithin e tenant user oid stock wanted) s"

datatype VehicleStatusOutcome =
    VU_updated opportunity_vehicle | VU_already_there opportunity_vehicle | VU_version_conflict int | VU_not_found | VU_invalid

text \<open>One car is bought: the other selected rows stand down, each with a line of history.\<close>

definition standsDown :: "string \<Rightarrow> string \<Rightarrow> string \<Rightarrow> opportunity_vehicle \<Rightarrow> bool" where
  "standsDown tenant oid vid v = (onShortlist tenant oid v \<and> vh_status v = VI_selected \<and> vh_id v \<noteq> pgUuid vid)"

definition standDown :: "string \<Rightarrow> string \<Rightarrow> string \<Rightarrow> string \<Rightarrow> sales_db \<Rightarrow> sales_db" where
  "standDown tenant oid vid actor s =
     fold (\<lambda>v. recordVehicleEvent tenant oid (vh_id v) (vh_stock v) VT_stood_down (Some VI_selected) (Some VI_considering)
               (Some ''the customer chose a different car'') actor)
       (filter (standsDown tenant oid vid) (opportunity_vehicles s))
       (s\<lparr>opportunity_vehicles := update_where (standsDown tenant oid vid)
           (\<lambda>v. v\<lparr>vh_status := VI_considering, vh_version := vh_version v + 1\<rparr>) (opportunity_vehicles s)\<rparr>)"

definition writeVehicleStatus ::
  "string \<Rightarrow> string \<Rightarrow> string \<Rightarrow> string \<Rightarrow> int \<Rightarrow> opportunity_vehicle \<Rightarrow> VehicleInterestStatus \<Rightarrow> string option \<Rightarrow>
   VehicleStatusOutcome stx" where
  "writeVehicleStatus tenant actor oid vid expected current st reason s =
     (let s1 = (if st = VI_selected then standDown tenant oid vid actor s else s);
          set1 = (\<lambda>v. v\<lparr>vh_status := st, vh_reason := (if st = VI_rejected then reason else None), vh_version := vh_version v + 1\<rparr>)
      in bindR (ensure (lengthIn 0 200 reason) check_violation) (\<lambda>_.
           Inr (VU_updated (set1 current),
             recorded tenant ''opportunity_vehicle'' (vh_id current) ''sales.vehicle.status_changed'' actor
               (recordVehicleEvent tenant oid (vh_id current) (vh_stock current) (VT_status st) (Some (vh_status current)) (Some st)
                 reason actor
                 (s1\<lparr>opportunity_vehicles := update_where
                       (\<lambda>v. vh_tenant v = tenant \<and> vh_id v = pgUuid vid \<and> vh_version v = expected) set1
                       (opportunity_vehicles s1)\<rparr>)))))"

definition vehicleStatusBody ::
  "string \<Rightarrow> string \<Rightarrow> string \<Rightarrow> string \<Rightarrow> int \<Rightarrow> string \<Rightarrow> string option \<Rightarrow> VehicleStatusOutcome stx" where
  "vehicleStatusBody tenant user oid vid expected status reason s =
     bindR (sales_actor user s) (\<lambda>actor.
       case assertOpportunityOpen tenant oid s of
         OA_not_found \<Rightarrow> Inr (VU_not_found, s)
       | OA_finished \<Rightarrow> Inr (VU_invalid, s)
       | OA_open o1 \<Rightarrow>
           (case find (\<lambda>v. vh_tenant v = tenant \<and> vh_id v = pgUuid vid) (opportunity_vehicles s) of
              None \<Rightarrow> Inr (VU_not_found, s)
            | Some current \<Rightarrow>
                if vh_opportunity current \<noteq> oid then Inr (VU_not_found, s)
                else if map_of VEHICLE_INTEREST_STATUSES status = Some (vh_status current) then Inr (VU_already_there current, s)
                else if vh_version current \<noteq> expected then Inr (VU_version_conflict (vh_version current), s)
                else
                  (case map_of VEHICLE_INTEREST_STATUSES status of
                     None \<Rightarrow> Inr (VU_invalid, s)
                   | Some st \<Rightarrow>
                       if st = VI_rejected \<and> trim (orEmpty reason) = [] then Inr (VU_invalid, s)
                       else writeVehicleStatus tenant actor oid vid expected current st reason s)))"

definition setVehicleStatus ::
  "string \<Rightarrow> string \<Rightarrow> string \<Rightarrow> string \<Rightarrow> int \<Rightarrow> string \<Rightarrow> string option \<Rightarrow> sales_db \<Rightarrow>
   VehicleStatusOutcome result \<times> sales_db" where
  "setVehicleStatus tenant user oid vid expected status reason s =
     withTenantTransaction (vehicleStatusBody tenant user oid vid expected status reason) s"

section \<open>Demonstrations\<close>

definition DEMONSTRATION_VERDICTS :: "(string \<times> DemonstrationVerdict) list" where
  "DEMONSTRATION_VERDICTS =
     [(''interested'', DV_interested), (''not_interested'', DV_not_interested), (''wants_alternative'', DV_wants_alternative)]"

definition DEMONSTRATION_EXCEPTION_KINDS :: "(string \<times> DemonstrationExceptionKind) list" where
  "DEMONSTRATION_EXCEPTION_KINDS =
     [(''damage'', DX_damage), (''accident'', DX_accident), (''not_returned'', DX_not_returned),
      (''breakdown'', DX_breakdown), (''other'', DX_other)]"

text \<open>The CHECKs of \<open>demonstrations\<close> that a move can meet.\<close>

definition demoRowOk :: "demonstration \<Rightarrow> bool" where
  "demoRowOk d =
     (lengthIn 0 2000 (dm_notes d)
      \<and> (case dm_started d of None \<Rightarrow> True | Some t \<Rightarrow> dm_issued d \<le> t)
      \<and> (case dm_ended d of None \<Rightarrow> True
         | Some t \<Rightarrow> dm_issued d \<le> t \<and> (case dm_started d of None \<Rightarrow> True | Some b \<Rightarrow> b \<le> t)))"

text \<open>\<open>recordDemoEvent\<close>, and the line of the visit's history beside it, where the drive has a visit.\<close>

definition recordDemoEvent ::
  "string \<Rightarrow> string \<Rightarrow> DemonstrationState \<Rightarrow> DemonstrationVerdict option \<Rightarrow> DemonstrationExceptionKind option \<Rightarrow>
   string option \<Rightarrow> string \<Rightarrow> sales_db \<Rightarrow> sales_db" where
  "recordDemoEvent tenant did kind verdict problem note actor s =
     s\<lparr>demonstration_events := demonstration_events s @ [\<lparr>de_tenant = tenant, de_demonstration = did, de_type = kind,
        de_outcome = verdict, de_exception = problem, de_note = note, de_by = pgUuid actor\<rparr>]\<rparr>"

definition onVisit ::
  "string \<Rightarrow> string option \<Rightarrow> DemonstrationState \<Rightarrow> string option \<Rightarrow> string \<Rightarrow> sales_db \<Rightarrow> sales_db" where
  "onVisit tenant vid kind note actor s =
     (case vid of None \<Rightarrow> s | Some v \<Rightarrow> visitEvent tenant v (VE_demonstration kind) note actor s)"

datatype Conflict = CF_vehicle | CF_driver | CF_escort

datatype DemonstrationIssueOutcome = DI_issued demonstration | DI_unavailable Conflict | DI_not_found | DI_invalid

text \<open>One physical thing, one place: the car, the driver, the salesperson riding along.\<close>

definition demoConflict :: "string \<Rightarrow> string \<Rightarrow> string \<Rightarrow> string \<Rightarrow> sales_db \<Rightarrow> Conflict option" where
  "demoConflict tenant stock driver escort s =
     (let out = (\<lambda>P. list_ex (\<lambda>d. dm_tenant d = tenant \<and> P d \<and> keysOut d) (demonstrations s)) in
      if out (\<lambda>d. dm_stock d = pgUuid stock) then Some CF_vehicle
      else if out (\<lambda>d. dm_driver d = pgUuid driver) then Some CF_driver
      else if out (\<lambda>d. dm_escort d = pgUuid escort) then Some CF_escort else None)"

definition hasVisit :: "string \<Rightarrow> string option \<Rightarrow> sales_db \<Rightarrow> bool" where
  "hasVisit tenant vid s = (case vid of None \<Rightarrow> True | Some v \<Rightarrow> list_ex (visitHere tenant v) (showroom_visits s))"

record issue_input =
  ii_stock :: string
  ii_driver :: string
  ii_licence :: bool
  ii_escort :: "string option"
  ii_visit :: "string option"

definition issueRow :: "string \<Rightarrow> int \<Rightarrow> string \<Rightarrow> string \<Rightarrow> string \<Rightarrow> string \<Rightarrow> issue_input \<Rightarrow> demonstration" where
  "issueRow did t tenant rooftop oid escort i =
     \<lparr>dm_id = did, dm_tenant = tenant, dm_rooftop = rooftop, dm_opportunity = pgUuid oid, dm_stock = pgUuid (ii_stock i),
      dm_visit = map_option pgUuid (ii_visit i), dm_driver = pgUuid (ii_driver i), dm_escort = pgUuid escort,
      dm_licence = True, dm_state = DM_issued, dm_outcome = None, dm_exception = None, dm_issued = t, dm_started = None,
      dm_ended = None, dm_notes = None, dm_version = 1\<rparr>"

definition issueDemonstrationWithin ::
  "crm_env \<Rightarrow> string \<Rightarrow> string \<Rightarrow> string \<Rightarrow> issue_input \<Rightarrow> DemonstrationIssueOutcome stx" where
  "issueDemonstrationWithin e tenant user oid i s =
     bindR (sales_actor user s) (\<lambda>actor.
       case assertOpportunityOpen tenant oid s of
         OA_not_found \<Rightarrow> Inr (DI_not_found, s)
       | OA_finished \<Rightarrow> Inr (DI_invalid, s)
       | OA_open o1 \<Rightarrow>
           if \<not> ii_licence i then Inr (DI_invalid, s)
           else
             (let escort = (case ii_escort i of Some u \<Rightarrow> u | None \<Rightarrow> actor) in
              if \<not> worksAt e tenant escort (op_rooftop o1) s then Inr (DI_invalid, s)
              else
                (case stockHere tenant (ii_stock i) s of
                   None \<Rightarrow> Inr (DI_not_found, s)
                 | Some k \<Rightarrow>
                     if sk_rooftop k \<noteq> op_rooftop o1 then Inr (DI_not_found, s)
                     else if sk_retired k then Inr (DI_invalid, s)
                     else
                       (case demoConflict tenant (ii_stock i) (ii_driver i) escort s of
                          Some c \<Rightarrow> Inr (DI_unavailable c, s)
                        | None \<Rightarrow>
                            (let row = issueRow (drawn e 0) (clock e) tenant (op_rooftop o1) oid escort i
                             in bindR (ensure (hasParty tenant (Some (ii_driver i)) (crm s) \<and> hasVisit tenant (ii_visit i) s
                                         \<and> hasUser (Some escort) (crm s)) foreign_key) (\<lambda>_.
                                  Inr (DI_issued row,
                                    recorded tenant ''demonstration'' (drawn e 0) ''sales.demonstration.issued'' actor
                                      (onVisit tenant (dm_visit row) DM_issued None actor
                                        (recordDemoEvent tenant (drawn e 0) DM_issued None None
                                          (Some ''keys issued, licence checked'') actor
                                          (s\<lparr>demonstrations := demonstrations s @ [row]\<rparr>))))))))))"

definition issueDemonstration ::
  "crm_env \<Rightarrow> string \<Rightarrow> string \<Rightarrow> string \<Rightarrow> issue_input \<Rightarrow> sales_db \<Rightarrow> DemonstrationIssueOutcome result \<times> sales_db" where
  "issueDemonstration e tenant user oid i s = withTenantTransaction (issueDemonstrationWithin e tenant user oid i) s"

datatype DemonstrationMoveOutcome =
    DR_moved demonstration | DR_already_there demonstration | DR_version_conflict int | DR_not_found | DR_invalid

definition demoHere :: "string \<Rightarrow> string \<Rightarrow> demonstration \<Rightarrow> bool" where
  "demoHere tenant did d = (dm_tenant d = tenant \<and> dm_id d = pgUuid did)"

definition demoThroughParent :: "string \<Rightarrow> string \<Rightarrow> string \<Rightarrow> sales_db \<Rightarrow> demonstration option" where
  "demoThroughParent tenant oid did s =
     (case find (demoHere tenant did) (demonstrations s) of
        None \<Rightarrow> None
      | Some d \<Rightarrow> if dm_opportunity d \<noteq> oid then None else Some d)"

text \<open>
  What the four moves share: the row is read through its opportunity, a repeat is answered, only
  drives in the given states may move, the version must be the one expected, and then the
  move's own questions are asked and its UPDATE is written.
\<close>

definition demoGate ::
  "string \<Rightarrow> string \<Rightarrow> string \<Rightarrow> string \<Rightarrow> int \<Rightarrow> DemonstrationState \<Rightarrow> DemonstrationState list \<Rightarrow>
   (string \<Rightarrow> demonstration \<Rightarrow> DemonstrationMoveOutcome stx) \<Rightarrow> DemonstrationMoveOutcome stx" where
  "demoGate tenant user oid did expected target from act s =
     bindR (sales_actor user s) (\<lambda>actor.
       case demoThroughParent tenant oid did s of
         None \<Rightarrow> Inr (DR_not_found, s)
       | Some current \<Rightarrow>
           if dm_state current = target then Inr (DR_already_there current, s)
           else if dm_state current \<notin> set from then Inr (DR_invalid, s)
           else if dm_version current \<noteq> expected then Inr (DR_version_conflict (dm_version current), s)
           else act actor current s)"

definition ACTIVE_DEMONSTRATION_STATES :: "DemonstrationState list" where
  "ACTIVE_DEMONSTRATION_STATES = [DM_issued, DM_in_progress]"

definition updateDemo ::
  "string \<Rightarrow> string \<Rightarrow> int \<Rightarrow> demonstration \<Rightarrow> (demonstration \<Rightarrow> demonstration) \<Rightarrow> sales_db \<Rightarrow> sales_db result" where
  "updateDemo tenant did expected current f s =
     bindR (ensure (demoRowOk (f current)) check_violation) (\<lambda>_.
       Inr (s\<lparr>demonstrations := update_where (\<lambda>d. demoHere tenant did d \<and> dm_version d = expected) f (demonstrations s)\<rparr>))"

definition startDemonstration ::
  "crm_env \<Rightarrow> string \<Rightarrow> string \<Rightarrow> string \<Rightarrow> string \<Rightarrow> int \<Rightarrow> sales_db \<Rightarrow> DemonstrationMoveOutcome result \<times> sales_db" where
  "startDemonstration e tenant user oid did expected s =
     withTenantTransaction (demoGate tenant user oid did expected DM_in_progress [DM_issued] (\<lambda>actor current s0.
       let start = (\<lambda>d. d\<lparr>dm_state := DM_in_progress, dm_started := Some (clock e), dm_version := dm_version d + 1\<rparr>) in
       bindR (updateDemo tenant did expected current start s0) (\<lambda>s1.
         Inr (DR_moved (start current),
           recorded tenant ''demonstration'' (dm_id current) ''sales.demonstration.started'' actor
             (onVisit tenant (dm_visit current) DM_in_progress None actor
               (recordDemoEvent tenant (dm_id current) DM_in_progress None None None actor s1)))))) s"

text \<open>The car was driven, so the shortlist says so.\<close>

definition droveIt :: "string \<Rightarrow> string \<Rightarrow> string \<Rightarrow> opportunity_vehicle \<Rightarrow> bool" where
  "droveIt tenant oid stock v = (onShortlist tenant oid v \<and> vh_stock v = stock \<and> vh_status v = VI_considering)"

definition markDriven :: "string \<Rightarrow> string \<Rightarrow> string \<Rightarrow> string \<Rightarrow> sales_db \<Rightarrow> sales_db" where
  "markDriven tenant oid stock actor s =
     fold (\<lambda>v. recordVehicleEvent tenant oid (vh_id v) stock (VT_status VI_demonstrated) (Some VI_considering) (Some VI_demonstrated)
               (Some ''the customer drove it'') actor)
       (filter (droveIt tenant oid stock) (opportunity_vehicles s))
       (s\<lparr>opportunity_vehicles := update_where (droveIt tenant oid stock)
           (\<lambda>v. v\<lparr>vh_status := VI_demonstrated, vh_version := vh_version v + 1\<rparr>) (opportunity_vehicles s)\<rparr>)"

definition returnDemonstration ::
  "crm_env \<Rightarrow> string \<Rightarrow> string \<Rightarrow> string \<Rightarrow> string \<Rightarrow> int \<Rightarrow> string \<Rightarrow> string option \<Rightarrow> sales_db \<Rightarrow>
   DemonstrationMoveOutcome result \<times> sales_db" where
  "returnDemonstration e tenant user oid did expected verdict notes s =
     withTenantTransaction (demoGate tenant user oid did expected DM_returned ACTIVE_DEMONSTRATION_STATES (\<lambda>actor current s0.
       case map_of DEMONSTRATION_VERDICTS verdict of
         None \<Rightarrow> Inr (DR_invalid, s0)
       | Some answer \<Rightarrow>
           (let back = (\<lambda>d. d\<lparr>dm_state := DM_returned, dm_outcome := Some answer, dm_ended := Some (clock e), dm_notes := notes,
                              dm_version := dm_version d + 1\<rparr>) in
            bindR (updateDemo tenant did expected current back s0) (\<lambda>s1.
            bindR (ensure (lengthIn 0 500 notes) check_violation) (\<lambda>_.
              Inr (DR_moved (back current),
                recorded tenant ''demonstration'' (dm_id current) ''sales.demonstration.returned'' actor
                  (markDriven tenant oid (dm_stock current) actor
                    (onVisit tenant (dm_visit current) DM_returned None actor
                      (recordDemoEvent tenant (dm_id current) DM_returned (Some answer) None notes actor s1))))))))) s"

definition cancelDemonstration ::
  "crm_env \<Rightarrow> string \<Rightarrow> string \<Rightarrow> string \<Rightarrow> string \<Rightarrow> int \<Rightarrow> string option \<Rightarrow> sales_db \<Rightarrow>
   DemonstrationMoveOutcome result \<times> sales_db" where
  "cancelDemonstration e tenant user oid did expected reason s =
     withTenantTransaction (demoGate tenant user oid did expected DM_cancelled ACTIVE_DEMONSTRATION_STATES (\<lambda>actor current s0.
       let why = trim (orEmpty reason);
           cancel = (\<lambda>d. d\<lparr>dm_state := DM_cancelled, dm_ended := Some (clock e), dm_notes := Some why,
                           dm_version := dm_version d + 1\<rparr>) in
       if why = [] then Inr (DR_invalid, s0)
       else bindR (updateDemo tenant did expected current cancel s0) (\<lambda>s1.
         bindR (ensure (lengthIn 0 500 (Some why)) check_violation) (\<lambda>_.
           Inr (DR_moved (cancel current),
             recorded tenant ''demonstration'' (dm_id current) ''sales.demonstration.cancelled'' actor
               (onVisit tenant (dm_visit current) DM_cancelled (Some why) actor
                 (recordDemoEvent tenant (dm_id current) DM_cancelled None None (Some why) actor s1))))))) s"

definition recordDemonstrationException ::
  "crm_env \<Rightarrow> string \<Rightarrow> string \<Rightarrow> string \<Rightarrow> string \<Rightarrow> int \<Rightarrow> string \<Rightarrow> string option \<Rightarrow> sales_db \<Rightarrow>
   DemonstrationMoveOutcome result \<times> sales_db" where
  "recordDemonstrationException e tenant user oid did expected kind notes s =
     withTenantTransaction (demoGate tenant user oid did expected DM_exception ACTIVE_DEMONSTRATION_STATES (\<lambda>actor current s0.
       case map_of DEMONSTRATION_EXCEPTION_KINDS kind of
         None \<Rightarrow> Inr (DR_invalid, s0)
       | Some problem \<Rightarrow>
           (let what = trim (orEmpty notes);
                fail = (\<lambda>d. d\<lparr>dm_state := DM_exception, dm_exception := Some problem, dm_ended := Some (clock e),
                              dm_notes := Some what, dm_version := dm_version d + 1\<rparr>) in
            if what = [] then Inr (DR_invalid, s0)
            else bindR (updateDemo tenant did expected current fail s0) (\<lambda>s1.
              bindR (ensure (lengthIn 0 500 (Some what)) check_violation) (\<lambda>_.
                Inr (DR_moved (fail current),
                  recorded tenant ''demonstration'' (dm_id current) ''sales.demonstration.exception'' actor
                    (onVisit tenant (dm_visit current) DM_exception (Some kind) actor
                      (recordDemoEvent tenant (dm_id current) DM_exception None (Some problem) (Some what) actor s1)))))))) s"

section \<open>The sales-side timeline\<close>

definition SALES_ACTIVITY_KINDS :: "(string \<times> SalesActivityKind) list" where
  "SALES_ACTIVITY_KINDS =
     [(''note'', SY_note), (''call'', SY_call), (''email'', SY_email), (''sms'', SY_sms), (''task'', SY_task),
      (''appointment_followup'', SY_appointment_followup)]"

definition directionNames :: "(string \<times> ActivityDirection) list" where
  "directionNames = [(''inbound'', AD_inbound), (''outbound'', AD_outbound)]"

datatype SalesActivityOutcome = SL_logged opportunity_activity | SL_not_found | SL_invalid

text \<open>Only a task is owed; everything else is a record of what happened.\<close>

definition isOwed :: "SalesActivityKind \<Rightarrow> bool" where
  "isOwed k = (k = SY_task \<or> k = SY_appointment_followup)"

record sales_activity_input =
  yi_kind :: string
  yi_direction :: "string option"
  yi_subject :: "string option"
  yi_body :: "string option"
  yi_due :: "string option"

definition writeSalesActivity ::
  "crm_env \<Rightarrow> string \<Rightarrow> string \<Rightarrow> string \<Rightarrow> SalesActivityKind \<Rightarrow> ActivityDirection option \<Rightarrow> string \<Rightarrow> string option \<Rightarrow>
   int option \<Rightarrow> SalesActivityOutcome stx" where
  "writeSalesActivity e tenant actor oid kind direction subject body due s =
     (let row = \<lparr>oy_id = drawn e 0, oy_tenant = tenant, oy_opportunity = pgUuid oid, oy_kind = kind, oy_direction = direction,
                 oy_subject = subject, oy_body = body, oy_state = (if isOwed kind then AS_open else AS_completed), oy_due = due,
                 oy_completed = (if isOwed kind then None else Some (clock e)), oy_cancelled = None, oy_reason = None,
                 oy_outcome = None, oy_version = 1\<rparr>
      in bindR (ensure (lengthIn 0 4000 body) check_violation) (\<lambda>_.
           Inr (SL_logged row, recorded tenant ''opportunity_activity'' (drawn e 0) ''sales.activity.logged'' actor
             (s\<lparr>opportunity_activities := opportunity_activities s @ [row]\<rparr>))))"

definition logSalesActivityWithin ::
  "crm_env \<Rightarrow> string \<Rightarrow> string \<Rightarrow> string \<Rightarrow> sales_activity_input \<Rightarrow> SalesActivityOutcome stx" where
  "logSalesActivityWithin e tenant user oid i s =
     bindR (sales_actor user s) (\<lambda>actor.
       case assertOpportunityOpen tenant oid s of
         OA_not_found \<Rightarrow> Inr (SL_not_found, s)
       | OA_finished \<Rightarrow> Inr (SL_invalid, s)
       | OA_open o1 \<Rightarrow>
           (let subject = trim (orEmpty (yi_subject i)) in
            if subject = [] \<or> length subject > 200 then Inr (SL_invalid, s)
            else
              (case map_of SALES_ACTIVITY_KINDS (yi_kind i) of
                 None \<Rightarrow> Inr (SL_invalid, s)
               | Some kind \<Rightarrow>
                   (let direction = (case yi_direction i of None \<Rightarrow> None | Some w \<Rightarrow> map_of directionNames w);
                        communication = (kind = SY_call \<or> kind = SY_email \<or> kind = SY_sms) in
                    if yi_direction i \<noteq> None \<and> direction = None then Inr (SL_invalid, s)
                    else if communication \<noteq> (direction \<noteq> None) then Inr (SL_invalid, s)
                    else
                      (case yi_due i of
                         None \<Rightarrow> writeSalesActivity e tenant actor oid kind direction subject (yi_body i) None s
                       | Some text \<Rightarrow>
                           if \<not> isOwed kind then Inr (SL_invalid, s)
                           else
                             (case instantOf (platform e) text of
                                None \<Rightarrow> Inl (DatabaseError ''invalid_datetime_format'')
                              | Some t \<Rightarrow> writeSalesActivity e tenant actor oid kind direction subject (yi_body i) (Some t) s))))))"

definition logSalesActivity ::
  "crm_env \<Rightarrow> string \<Rightarrow> string \<Rightarrow> string \<Rightarrow> sales_activity_input \<Rightarrow> sales_db \<Rightarrow> SalesActivityOutcome result \<times> sales_db" where
  "logSalesActivity e tenant user oid i s = withTenantTransaction (logSalesActivityWithin e tenant user oid i) s"

datatype SalesCloseOutcome =
    SC1_closed opportunity_activity | SC1_already_closed opportunity_activity | SC1_version_conflict int | SC1_not_found | SC1_invalid

definition closingStates :: "(string \<times> ActivityState) list" where
  "closingStates = [(''completed'', AS_completed), (''cancelled'', AS_cancelled)]"

definition closeSalesBody ::
  "crm_env \<Rightarrow> string \<Rightarrow> string \<Rightarrow> string \<Rightarrow> string \<Rightarrow> int \<Rightarrow> string \<Rightarrow> string option \<Rightarrow> string option \<Rightarrow> SalesCloseOutcome stx" where
  "closeSalesBody e tenant user oid aid expected state reason outcomeNote s =
     bindR (sales_actor user s) (\<lambda>actor.
       case map_of closingStates state of
         None \<Rightarrow> Inr (SC1_invalid, s)
       | Some st \<Rightarrow>
           (let here = (\<lambda>a. oy_tenant a = tenant \<and> oy_id a = pgUuid aid);
                why = trim (orEmpty reason);
                close = (\<lambda>a. a\<lparr>oy_state := st, oy_completed := (if st = AS_completed then Some (clock e) else None),
                               oy_cancelled := (if st = AS_cancelled then Some (clock e) else None),
                               oy_reason := (if st = AS_cancelled then Some why else None), oy_outcome := outcomeNote,
                               oy_version := oy_version a + 1\<rparr>) in
            case find here (opportunity_activities s) of
              None \<Rightarrow> Inr (SC1_not_found, s)
            | Some current \<Rightarrow>
                if oy_opportunity current \<noteq> oid then Inr (SC1_not_found, s)
                else if oy_state current = st then Inr (SC1_already_closed current, s)
                else if oy_state current \<noteq> AS_open then Inr (SC1_invalid, s)
                else if oy_version current \<noteq> expected then Inr (SC1_version_conflict (oy_version current), s)
                else if st = AS_cancelled \<and> why = [] then Inr (SC1_invalid, s)
                else bindR (ensure ((st = AS_cancelled \<longrightarrow> length why \<le> 200) \<and> lengthIn 0 500 outcomeNote) check_violation) (\<lambda>_.
                  Inr (SC1_closed (close current),
                    recorded tenant ''opportunity_activity'' (oy_id current)
                      (if st = AS_completed then ''sales.activity.completed'' else ''sales.activity.cancelled'') actor
                      (s\<lparr>opportunity_activities := update_where (\<lambda>a. here a \<and> oy_version a = expected) close
                           (opportunity_activities s)\<rparr>)))))"

definition closeSalesActivity ::
  "crm_env \<Rightarrow> string \<Rightarrow> string \<Rightarrow> string \<Rightarrow> string \<Rightarrow> int \<Rightarrow> string \<Rightarrow> string option \<Rightarrow> string option \<Rightarrow> sales_db \<Rightarrow>
   SalesCloseOutcome result \<times> sales_db" where
  "closeSalesActivity e tenant user oid aid expected state reason outcomeNote s =
     withTenantTransaction (closeSalesBody e tenant user oid aid expected state reason outcomeNote) s"

section \<open>Negotiation and oversight\<close>

definition NEGOTIATION_OUTCOMES :: "(string \<times> NegotiationEnd) list" where
  "NEGOTIATION_OUTCOMES =
     [(''countered'', NE_countered), (''accepted'', NE_accepted), (''declined'', NE_declined), (''adjourned'', NE_adjourned)]"

definition initiators :: "(string \<times> InitiatedBy) list" where
  "initiators = [(''customer'', IB_customer), (''dealership'', IB_dealership)]"

definition TURNOVER_REASONS :: "(string \<times> TurnoverReason) list" where
  "TURNOVER_REASONS =
     [(''price_authority'', TR_price_authority), (''customer_request'', TR_customer_request), (''second_voice'', TR_second_voice),
      (''escalation'', TR_escalation), (''closing'', TR_closing)]"

datatype NegotiationOutcome = NG_recorded negotiation_round | NG_not_found | NG_invalid

text \<open>\<open>COALESCE(MAX(round_number) + 1, 1)\<close>.\<close>

definition nextRound :: "string \<Rightarrow> string \<Rightarrow> sales_db \<Rightarrow> int" where
  "nextRound tenant oid s =
     (case map nr_number (filter (\<lambda>r. nr_tenant r = tenant \<and> nr_opportunity r = pgUuid oid) (negotiation_rounds s)) of
        [] \<Rightarrow> 1 | n # ns \<Rightarrow> fold max ns n + 1)"

definition roundBody ::
  "crm_env \<Rightarrow> string \<Rightarrow> string \<Rightarrow> string \<Rightarrow> InitiatedBy \<Rightarrow> string \<Rightarrow> bool \<Rightarrow> NegotiationEnd \<Rightarrow> NegotiationOutcome stx" where
  "roundBody e tenant user oid by1 summary manager ending s =
     bindR (sales_actor user s) (\<lambda>actor.
       case find (opportunityHere tenant oid) (opportunities s) of
         None \<Rightarrow> Inr (NG_not_found, s)
       | Some r \<Rightarrow>
           if concluded r then Inr (NG_invalid, s)
           else
             (let row = \<lparr>nr_id = drawn e 0, nr_tenant = tenant, nr_opportunity = pgUuid oid, nr_number = nextRound tenant oid s,
                         nr_initiated = by1, nr_summary = summary, nr_manager = manager, nr_outcome = ending,
                         nr_by = pgUuid actor, nr_at = clock e\<rparr>
              in Inr (NG_recorded row,
                   recorded tenant ''negotiation_round'' (drawn e 0) ''sales.negotiation.round_recorded'' actor
                     (s\<lparr>negotiation_rounds := negotiation_rounds s @ [row]\<rparr>))))"

definition recordNegotiationRound ::
  "crm_env \<Rightarrow> string \<Rightarrow> string \<Rightarrow> string \<Rightarrow> string \<Rightarrow> string option \<Rightarrow> bool option \<Rightarrow> string \<Rightarrow> sales_db \<Rightarrow>
   NegotiationOutcome result \<times> sales_db" where
  "recordNegotiationRound e tenant user oid initiatedBy summary managerInvolved ending s =
     (let text = trim (orEmpty summary) in
      if text = [] \<or> length text > 1000 then (Inr NG_invalid, s)
      else
        (case (map_of initiators initiatedBy, map_of NEGOTIATION_OUTCOMES ending) of
           (Some by1, Some out) \<Rightarrow>
             withTenantTransaction (roundBody e tenant user oid by1 text (managerInvolved = Some True) out) s
         | _ \<Rightarrow> (Inr NG_invalid, s)))"

datatype TurnoverOutcome = TU_recorded string | TU_not_found | TU_invalid

definition turnoverBody ::
  "crm_env \<Rightarrow> string \<Rightarrow> string \<Rightarrow> string \<Rightarrow> string \<Rightarrow> string \<Rightarrow> string option \<Rightarrow> string option \<Rightarrow> TurnoverOutcome stx" where
  "turnoverBody e tenant user oid manager reason visit note s =
     bindR (sales_actor user s) (\<lambda>actor.
       case assertOpportunityOpen tenant oid s of
         OA_not_found \<Rightarrow> Inr (TU_not_found, s)
       | OA_finished \<Rightarrow> Inr (TU_invalid, s)
       | OA_open o1 \<Rightarrow>
           (case map_of TURNOVER_REASONS reason of
              None \<Rightarrow> Inr (TU_invalid, s)
            | Some why \<Rightarrow>
                if manager = actor then Inr (TU_invalid, s)
                else if \<not> worksAt e tenant manager (op_rooftop o1) s then Inr (TU_invalid, s)
                else bindR (ensure (hasVisit tenant visit s \<and> hasUser (Some manager) (crm s)) foreign_key) (\<lambda>_.
                  bindR (ensure (pgUuid manager \<noteq> pgUuid actor \<and> lengthIn 0 500 note) check_violation) (\<lambda>_.
                    let row = \<lparr>mt_id = drawn e 0, mt_tenant = tenant, mt_opportunity = pgUuid oid,
                               mt_visit = map_option pgUuid visit, mt_by = pgUuid actor, mt_manager = pgUuid manager,
                               mt_reason = why, mt_note = note\<rparr>;
                        s1 = s\<lparr>manager_turnovers := manager_turnovers s @ [row]\<rparr>;
                        s2 = (case visit of None \<Rightarrow> s1 | Some v \<Rightarrow> visitEvent tenant v VE_turned_over (Some reason) actor s1)
                    in Inr (TU_recorded (drawn e 0),
                         recorded tenant ''manager_turnover'' (drawn e 0) ''sales.turnover.recorded'' actor s2)))))"

definition recordTurnover ::
  "crm_env \<Rightarrow> string \<Rightarrow> string \<Rightarrow> string \<Rightarrow> string \<Rightarrow> string \<Rightarrow> string option \<Rightarrow> string option \<Rightarrow> sales_db \<Rightarrow>
   TurnoverOutcome result \<times> sales_db" where
  "recordTurnover e tenant user oid manager reason visit note s =
     withTenantTransaction (turnoverBody e tenant user oid manager reason visit note) s"

end
