(* ===== verification/SalesService.thy ===== *)
theory SalesService
  imports SalesSelling CrmService DeskLife
begin

text \<open>
  The sales floor as a transition system, together with the packages it meets: every command of
  the sales package, and between them any command of the CRM and of the desk, each on its own
  part of the store, and whatever inventory and administration write.  The locale \<open>steady\<close> is the
  contract of a property all of them keep, \<open>traced\<close> that of a relation between a store and every
  later one.
\<close>

section \<open>Commands\<close>

datatype sales_request =
    ReceiveHandoff string
  | OpenWalkIn string string "string option"
  | AcceptOpportunity string int
  | AssignOpportunity string int string string "string option"
  | MoveOpportunityStage string string int "string option" "string option"
  | JoinFloor string string
  | ReleaseToFloor string string
  | CheckIn string string "string option" "string option"
  | GreetVisit string int "string option"
  | AcceptVisit string int
  | DepartVisit string int "string option"
  | ShortlistVehicle string string "int option"
  | SetVehicleStatus string string int string "string option"
  | IssueDemonstration string issue_input
  | StartDemonstration string string int
  | ReturnDemonstration string string int string "string option"
  | CancelDemonstration string string int "string option"
  | RecordDemonstrationException string string int string "string option"
  | LogSalesActivity string sales_activity_input
  | CloseSalesActivity string string int string "string option" "string option"
  | RecordNegotiationRound string string "string option" "bool option" string
  | RecordTurnover string string string "string option" "string option"

fun sales_exec :: "crm_env \<Rightarrow> string \<Rightarrow> string \<Rightarrow> sales_request \<Rightarrow> sales_db \<Rightarrow> sales_db" where
  "sales_exec e tenant user (ReceiveHandoff hid) s = snd (receiveHandoff e tenant user hid s)"
| "sales_exec e tenant user (OpenWalkIn r p k) s = snd (openWalkIn e tenant user r p k s)"
| "sales_exec e tenant user (AcceptOpportunity oid v) s = snd (acceptOpportunity e tenant user oid v s)"
| "sales_exec e tenant user (AssignOpportunity oid v to why note) s = snd (assignOpportunity e tenant user oid v to why note s)"
| "sales_exec e tenant user (MoveOpportunityStage oid st v d note) s = snd (moveOpportunityStage e tenant user oid st v d note s)"
| "sales_exec e tenant user (JoinFloor r p) s = snd (joinFloor e tenant user r p s)"
| "sales_exec e tenant user (ReleaseToFloor r p) s = snd (releaseToFloor e tenant user r p s)"
| "sales_exec e tenant user (CheckIn r p oid aid) s = snd (checkInVisit e tenant user r p oid aid s)"
| "sales_exec e tenant user (GreetVisit vid v named) s = snd (greetVisit e tenant user vid v named s)"
| "sales_exec e tenant user (AcceptVisit vid v) s = snd (acceptVisit e tenant user vid v s)"
| "sales_exec e tenant user (DepartVisit vid v note) s = snd (departVisit e tenant user vid v note s)"
| "sales_exec e tenant user (ShortlistVehicle oid k n) s = snd (shortlistVehicle e tenant user oid k n s)"
| "sales_exec e tenant user (SetVehicleStatus oid vid v st why) s = snd (setVehicleStatus tenant user oid vid v st why s)"
| "sales_exec e tenant user (IssueDemonstration oid i) s = snd (issueDemonstration e tenant user oid i s)"
| "sales_exec e tenant user (StartDemonstration oid did v) s = snd (startDemonstration e tenant user oid did v s)"
| "sales_exec e tenant user (ReturnDemonstration oid did v ans notes) s =
     snd (returnDemonstration e tenant user oid did v ans notes s)"
| "sales_exec e tenant user (CancelDemonstration oid did v why) s = snd (cancelDemonstration e tenant user oid did v why s)"
| "sales_exec e tenant user (RecordDemonstrationException oid did v kind notes) s =
     snd (recordDemonstrationException e tenant user oid did v kind notes s)"
| "sales_exec e tenant user (LogSalesActivity oid i) s = snd (logSalesActivity e tenant user oid i s)"
| "sales_exec e tenant user (CloseSalesActivity oid aid v st why note) s =
     snd (closeSalesActivity e tenant user oid aid v st why note s)"
| "sales_exec e tenant user (RecordNegotiationRound oid who text mgr out) s =
     snd (recordNegotiationRound e tenant user oid who text mgr out s)"
| "sales_exec e tenant user (RecordTurnover oid m why vid note) s = snd (recordTurnover e tenant user oid m why vid note s)"

section \<open>Runs\<close>

text \<open>The identifiers Postgres draws are new, differ from each other and are in canonical spelling.\<close>

definition salesIds :: "sales_db \<Rightarrow> string list" where
  "salesIds s = map op_id (opportunities s) @ map os_opportunity (stage_moves s) @ map oa_opportunity (opportunity_assignments s)
     @ map dh_opportunity (handoffs (desk (crm s))) @ map vh_opportunity (opportunity_vehicles s)
     @ map fr_id (floor_rotations s) @ map vi_id (showroom_visits s) @ map vh_id (opportunity_vehicles s) @ map dm_id (demonstrations s)"

definition sales_fresh :: "crm_env \<Rightarrow> sales_db \<Rightarrow> bool" where
  "sales_fresh e s =
     (crm_fresh e (crm s) \<and> (\<forall>n. pgUuid (drawn e n) = drawn e n \<and> drawn e n \<notin> set (salesIds s)))"

text \<open>What inventory and administration own: the stock, the people, the rooftops and their bindings.\<close>

definition administered ::
  "stock_item list \<Rightarrow> (string \<times> string) list \<Rightarrow> string list \<Rightarrow> rooftop list \<Rightarrow> role_binding list \<Rightarrow> sales_db \<Rightarrow> sales_db" where
  "administered ks vs us rs bs s =
     s\<lparr>crm := (crm s)\<lparr>stock_items := ks, vehicle_ids := vs,
        desk := (desk (crm s))\<lparr>user_links := us, rooftops := rs, role_bindings := bs\<rparr>\<rparr>\<rparr>"

definition onCrm :: "(crm_db \<Rightarrow> crm_db) \<Rightarrow> sales_db \<Rightarrow> sales_db" where
  "onCrm f s = s\<lparr>crm := f (crm s)\<rparr>"

definition onDesk :: "(desk_db \<Rightarrow> desk_db) \<Rightarrow> sales_db \<Rightarrow> sales_db" where
  "onDesk f s = s\<lparr>crm := (crm s)\<lparr>desk := f (desk (crm s))\<rparr>\<rparr>"

inductive sales_run :: "sales_db \<Rightarrow> sales_db \<Rightarrow> bool" where
  run_start: "sales_run s s"
| run_sales: "sales_run s s1 \<Longrightarrow> sales_fresh e s1 \<Longrightarrow> sales_run s (sales_exec e tenant user q s1)"
| run_crm: "sales_run s s1 \<Longrightarrow> crm_fresh e (crm s1) \<Longrightarrow> sales_run s (onCrm (\<lambda>c. snd (crm_exec e tenant user q c)) s1)"
| run_desk: "sales_run s s1 \<Longrightarrow> sales_run s (onDesk (desk_exec e tenant user q) s1)"
| run_admin: "sales_run s s1 \<Longrightarrow> sales_run s (administered ks vs us rs bs s1)"

definition sales_initial :: "sales_db \<Rightarrow> bool" where
  "sales_initial s =
     (opportunities s = [] \<and> stage_moves s = [] \<and> opportunity_assignments s = [] \<and> showroom_visits s = []
      \<and> floor_rotations s = [] \<and> opportunity_vehicles s = [] \<and> demonstrations s = [] \<and> handoffs (desk (crm s)) = [])"

lemma sales_run_trans: "sales_run s1 s2 \<Longrightarrow> sales_run s s1 \<Longrightarrow> sales_run s s2"
  by (induction rule: sales_run.induct) (auto intro: sales_run.intros)

section \<open>Contracts\<close>

text \<open>
  What the other packages leave alone: every table of sales, and the facts sales handed to the
  desk, of which the desk only moves the status.
\<close>

definition factKey :: "desking_handoff \<Rightarrow> desking_handoff" where
  "factKey h = h\<lparr>dh_status := DH_not_yet_available\<rparr>"

definition sameSales :: "sales_db \<Rightarrow> sales_db \<Rightarrow> bool" where
  "sameSales s s' =
     (opportunities s' = opportunities s \<and> stage_moves s' = stage_moves s \<and> opportunity_assignments s' = opportunity_assignments s
      \<and> floor_rotations s' = floor_rotations s \<and> showroom_visits s' = showroom_visits s
      \<and> opportunity_vehicles s' = opportunity_vehicles s \<and> demonstrations s' = demonstrations s
      \<and> opportunity_activities s' = opportunity_activities s \<and> negotiation_rounds s' = negotiation_rounds s
      \<and> manager_turnovers s' = manager_turnovers s
      \<and> map factKey (handoffs (desk (crm s'))) = map factKey (handoffs (desk (crm s))))"

locale steady =
  fixes I :: "sales_db \<Rightarrow> bool"
  assumes exec_keeps: "I s \<Longrightarrow> sales_fresh e s \<Longrightarrow> I (sales_exec e tenant user q s)"
    and others_keep: "I s \<Longrightarrow> sameSales s s' \<Longrightarrow> I s'"

locale traced = steady +
  fixes R :: "sales_db \<Rightarrow> sales_db \<Rightarrow> bool"
  assumes R_trans: "R s1 s2 \<Longrightarrow> R s2 s3 \<Longrightarrow> R s1 s3"
    and exec_traces: "I s \<Longrightarrow> sales_fresh e s \<Longrightarrow> R s (sales_exec e tenant user q s)"
    and others_trace: "sameSales s s' \<Longrightarrow> R s s'"

end
