(* ===== verification/SalesFrames.thy ===== *)
theory SalesFrames
  imports SalesService CrmFrames
begin

text \<open>
  Which tables a sales command writes, that the other packages write none of them, and with it
  the induction over runs that the contracts of \<open>SalesService\<close> promise.
\<close>

section \<open>The other packages\<close>

lemma sameSales_refl [simp]: "sameSales s s"
  by (simp add: sameSales_def)

lemma crm_leaves_sales: "sameSales s (onCrm (\<lambda>c. snd (crm_exec e tenant user q c)) s)"
  using exec_frame [of q "crm s" e tenant user] by (simp add: sameSales_def onCrm_def frame_def)

lemma admin_leaves_sales: "sameSales s (administered ks vs us rs bs s)"
  by (simp add: sameSales_def administered_def)

definition factsKept :: "desk_db \<Rightarrow> desk_db \<Rightarrow> bool" where
  "factsKept d d' = (map factKey (handoffs d') = map factKey (handoffs d))"

lemma factsKept_same: "handoffs d' = handoffs d \<Longrightarrow> factsKept d d'"
  by (simp add: factsKept_def)

lemma stateEvent_handoffs [simp]: "handoffs (stateEvent a b c d x s) = handoffs s"
  by (simp add: stateEvent_def)

lemma supersedeStanding_handoffs [simp]: "handoffs (supersedeStanding tenant actor cid s) = handoffs s"
proof -
  have "handoffs (fold (\<lambda>p s. stateEvent tenant (sc_id p) a b actor (s\<lparr>scenarios := f p s\<rparr>)) ps s) = handoffs s" for a b f ps
    by (induction ps arbitrary: s) simp_all
  then show ?thesis unfolding supersedeStanding_def Let_def .
qed

lemma openDeskingCaseWithin_facts: "yields (openDeskingCaseWithin e tenant user hid d) (factsKept d)"
proof -
  have mark: "map factKey (handoffs (markDeskingHandoffAvailableWithin tenant hid d1)) = map factKey (handoffs d1)" for d1
    unfolding markDeskingHandoffAvailableWithin_def by (simp add: map_update_where factKey_def)
  show ?thesis
    unfolding openDeskingCaseWithin_def Let_def by (intro yields_intros) (simp_all add: factsKept_def mark)
qed

lemma recordRuleWithin_facts: "yields (recordRuleWithin e tenant user i d) (factsKept d)"
  unfolding recordRuleWithin_def insertRule_def by (intro yields_intros) (simp_all add: factsKept_same)

lemma buildScenarioWithin_facts: "yields (buildScenarioWithin e tenant user i d) (factsKept d)"
  unfolding buildScenarioWithin_def writeScenario_def by (intro yields_intros) (simp_all add: factsKept_same)

lemma submitBody_facts: "yields (submitBody e tenant user sid n d) (factsKept d)"
  unfolding submitBody_def moveScenario_def by (intro yields_intros) (simp_all add: factsKept_same)

lemma expireBody_facts: "yields (expireBody e tenant user sid n why d) (factsKept d)"
  unfolding expireBody_def moveScenario_def by (intro yields_intros) (simp_all add: factsKept_same)

lemma decideBody_facts: "yields (decideBody e tenant user sid i d) (factsKept d)"
  unfolding decideBody_def writeDecision_def by (intro yields_intros) (simp_all add: factsKept_same)

lemma desk_transaction_facts: "yields (body d) (factsKept d) \<Longrightarrow> factsKept d (snd (withTenantTransaction body d))"
  by (rule yields_transaction) (simp_all add: factsKept_same)

lemma desk_keeps_facts: "factsKept d (desk_exec e tenant user q d)"
  by (cases q) (simp_all add: openDeskingCase_def recordRule_def buildScenario_def submitScenario_def expireScenario_def
      decideScenario_def desk_transaction_facts openDeskingCaseWithin_facts recordRuleWithin_facts buildScenarioWithin_facts
      submitBody_facts expireBody_facts decideBody_facts)

lemma desk_leaves_sales: "sameSales s (onDesk (desk_exec e tenant user q) s)"
  using desk_keeps_facts [of "desk (crm s)" e tenant user q] by (simp add: sameSales_def onDesk_def factsKept_def)

section \<open>Runs under a contract\<close>

context steady
begin

lemma run_keeps: "sales_run s s' \<Longrightarrow> I s \<Longrightarrow> I s'"
  by (induction rule: sales_run.induct)
    (auto intro: exec_keeps others_keep crm_leaves_sales desk_leaves_sales admin_leaves_sales)

end

context traced
begin

lemma run_traces: "sales_run s s' \<Longrightarrow> I s \<Longrightarrow> R s s'"
proof (induction rule: sales_run.induct)
  case (run_sales s s1 e tenant user q)
  then show ?case using run_keeps exec_traces R_trans by blast
qed (blast intro: R_trans others_trace sameSales_refl crm_leaves_sales desk_leaves_sales admin_leaves_sales)+

end

section \<open>Tables written\<close>

datatype sales_table = S_pipeline | S_floor | S_visits | S_vehicles | S_demos | S_rest

definition sframe :: "sales_table set \<Rightarrow> sales_db \<Rightarrow> sales_db \<Rightarrow> bool" where
  "sframe W s s' =
     ((S_pipeline \<notin> W \<longrightarrow> opportunities s' = opportunities s \<and> stage_moves s' = stage_moves s
         \<and> opportunity_assignments s' = opportunity_assignments s \<and> handoffs (desk (crm s')) = handoffs (desk (crm s)))
      \<and> (S_floor \<notin> W \<longrightarrow> floor_rotations s' = floor_rotations s)
      \<and> (S_visits \<notin> W \<longrightarrow> showroom_visits s' = showroom_visits s)
      \<and> (S_vehicles \<notin> W \<longrightarrow> opportunity_vehicles s' = opportunity_vehicles s)
      \<and> (S_demos \<notin> W \<longrightarrow> demonstrations s' = demonstrations s)
      \<and> (S_rest \<notin> W \<longrightarrow> opportunity_activities s' = opportunity_activities s \<and> negotiation_rounds s' = negotiation_rounds s
         \<and> manager_turnovers s' = manager_turnovers s))"

lemma sframe_refl [simp]: "sframe W s s"
  by (simp add: sframe_def)

lemma sframe_trans: "sframe W s s1 \<Longrightarrow> sframe W s1 s2 \<Longrightarrow> sframe W s s2"
  by (auto simp: sframe_def)

lemma sframe_mono: "sframe W s s' \<Longrightarrow> W \<subseteq> W' \<Longrightarrow> sframe W' s s'"
  by (auto simp: sframe_def)

text \<open>Lines of history are written to tables of their own.\<close>

lemma recordVehicleEvent_rows [simp]:
  "opportunities (recordVehicleEvent a b c d k from to y z s) = opportunities s"
  "stage_moves (recordVehicleEvent a b c d k from to y z s) = stage_moves s"
  "opportunity_assignments (recordVehicleEvent a b c d k from to y z s) = opportunity_assignments s"
  "floor_rotations (recordVehicleEvent a b c d k from to y z s) = floor_rotations s"
  "showroom_visits (recordVehicleEvent a b c d k from to y z s) = showroom_visits s"
  "opportunity_vehicles (recordVehicleEvent a b c d k from to y z s) = opportunity_vehicles s"
  "demonstrations (recordVehicleEvent a b c d k from to y z s) = demonstrations s"
  "opportunity_activities (recordVehicleEvent a b c d k from to y z s) = opportunity_activities s"
  "negotiation_rounds (recordVehicleEvent a b c d k from to y z s) = negotiation_rounds s"
  "manager_turnovers (recordVehicleEvent a b c d k from to y z s) = manager_turnovers s"
  "crm (recordVehicleEvent a b c d k from to y z s) = crm s"
  by (simp_all add: recordVehicleEvent_def)

lemma recordDemoEvent_rows [simp]:
  "opportunities (recordDemoEvent a b st v p n x s) = opportunities s"
  "stage_moves (recordDemoEvent a b st v p n x s) = stage_moves s"
  "opportunity_assignments (recordDemoEvent a b st v p n x s) = opportunity_assignments s"
  "floor_rotations (recordDemoEvent a b st v p n x s) = floor_rotations s"
  "showroom_visits (recordDemoEvent a b st v p n x s) = showroom_visits s"
  "opportunity_vehicles (recordDemoEvent a b st v p n x s) = opportunity_vehicles s"
  "demonstrations (recordDemoEvent a b st v p n x s) = demonstrations s"
  "opportunity_activities (recordDemoEvent a b st v p n x s) = opportunity_activities s"
  "negotiation_rounds (recordDemoEvent a b st v p n x s) = negotiation_rounds s"
  "manager_turnovers (recordDemoEvent a b st v p n x s) = manager_turnovers s"
  "crm (recordDemoEvent a b st v p n x s) = crm s"
  by (simp_all add: recordDemoEvent_def)

lemma onVisit_rows [simp]:
  "opportunities (onVisit a vid st n x s) = opportunities s" "stage_moves (onVisit a vid st n x s) = stage_moves s"
  "opportunity_assignments (onVisit a vid st n x s) = opportunity_assignments s"
  "floor_rotations (onVisit a vid st n x s) = floor_rotations s"
  "showroom_visits (onVisit a vid st n x s) = showroom_visits s"
  "opportunity_vehicles (onVisit a vid st n x s) = opportunity_vehicles s"
  "demonstrations (onVisit a vid st n x s) = demonstrations s"
  "opportunity_activities (onVisit a vid st n x s) = opportunity_activities s"
  "negotiation_rounds (onVisit a vid st n x s) = negotiation_rounds s"
  "manager_turnovers (onVisit a vid st n x s) = manager_turnovers s" "crm (onVisit a vid st n x s) = crm s"
  by (simp_all add: onVisit_def split: option.split)

lemma sframe_logged [simp]:
  "sframe W s (recorded a b c d x s') = sframe W s s'" "sframe W s (visitEvent a b k n x s') = sframe W s s'"
  "sframe W s (recordVehicleEvent a b c d kk from to y z s') = sframe W s s'"
  "sframe W s (recordDemoEvent a b st v p n x s') = sframe W s s'" "sframe W s (onVisit a vid st n x s') = sframe W s s'"
  by (simp_all add: sframe_def)

lemma sframe_fold: "(\<And>x s'. sframe W s (f x s') = sframe W s s') \<Longrightarrow> sframe W s (fold f xs s') = sframe W s s'"
  by (induction xs arbitrary: s') simp_all

lemma sframe_standDown: "sframe W s s' \<Longrightarrow> S_vehicles \<in> W \<Longrightarrow> sframe W s (standDown tenant oid vid actor s')"
  unfolding standDown_def by (subst sframe_fold) (simp_all add: sframe_def)

lemma sframe_markDriven: "sframe W s s' \<Longrightarrow> S_vehicles \<in> W \<Longrightarrow> sframe W s (markDriven tenant oid k actor s')"
  unfolding markDriven_def by (subst sframe_fold) (simp_all add: sframe_def)

lemma sframe_transaction: "yields (body s) (sframe W s) \<Longrightarrow> sframe W s (snd (withTenantTransaction body s))"
  by (rule yields_transaction) simp_all

lemma receiveHandoffWithin_sframe: "yields (receiveHandoffWithin e tenant user hid s) (sframe {S_pipeline} s)"
  unfolding receiveHandoffWithin_def Let_def
  by (intro yields_intros) (simp_all add: sframe_def assignmentRow_def split: option.split)

lemma openWalkInWithin_sframe: "yields (openWalkInWithin e tenant user r p k s) (sframe {S_pipeline} s)"
  unfolding openWalkInWithin_def Let_def by (intro yields_intros) (simp_all add: sframe_def assignmentRow_def)

lemma acceptBody_sframe: "yields (acceptBody e tenant user oid n s) (sframe {S_pipeline} s)"
  unfolding acceptBody_def by (intro yields_intros) (simp_all add: sframe_def assignmentRow_def updateOpportunity_def)

lemma assignOpportunityBody_sframe: "yields (assignOpportunityBody e tenant user oid n to why note s) (sframe {S_pipeline} s)"
  unfolding assignOpportunityBody_def
  by (intro yields_intros) (simp_all add: sframe_def assignmentRow_def updateOpportunity_def)

lemma handToDesk_sframe: "yields (handToDesk e tenant actor r s) (sframe {S_pipeline} s)"
  unfolding handToDesk_def Let_def by (intro yields_intros) (simp add: sframe_def enqueueAdminOutboxEvent_def)

lemma writeMove_sframe: "yields (writeMove e tenant actor oid n cur st d note s) (sframe {S_pipeline} s)"
proof -
  have "sframe {S_pipeline} s (stageEvent tenant oid a st d note actor (updateOpportunity tenant oid n f s))" for a f
    by (simp add: sframe_def stageEvent_def updateOpportunity_def)
  then show ?thesis
    unfolding writeMove_def Let_def
    by (intro yields_intros yields_step [OF handToDesk_sframe]) (auto intro: sframe_trans)
qed

lemma moveStageBody_sframe: "yields (moveStageBody e tenant user oid st n d note s) (sframe {S_pipeline} s)"
  unfolding moveStageBody_def Let_def by (intro yields_intros writeMove_sframe) simp_all

lemma joinFloorWithin_sframe: "yields (joinFloorWithin e tenant user r p s) (sframe {S_floor} s)"
  unfolding joinFloorWithin_def Let_def by (intro yields_intros) (simp_all add: sframe_def)

lemma releaseBody_sframe: "yields (releaseBody e tenant user r p s) (sframe {S_floor} s)"
  unfolding releaseBody_def by (intro yields_intros) (simp_all add: sframe_def)

lemma keepAppointment_sframe: "yields (keepAppointment e tenant actor r p aid s) (sframe {} s)"
  unfolding keepAppointment_def
  by (intro yields_intros) (auto simp: sframe_def frame_def dest: yieldsD [OF setAppointmentStateWithin_frame])

lemma writeArrival_sframe: "sframe {S_visits} s (snd (writeArrival e tenant actor r p oid aid s))"
  by (simp add: writeArrival_def Let_def sframe_def)

lemma checkInWithin_sframe: "yields (checkInWithin e tenant user r p oid aid s) (sframe {S_visits} s)"
proof -
  have w: "yields (Inr (writeArrival e tenant actor r p oid aid s1)) (sframe {S_visits} s)" if "sframe {} s s1" for actor aid s1
    using writeArrival_sframe [of s1 e tenant actor r p oid aid] sframe_mono [OF that, of "{S_visits}"] sframe_trans
    by (auto simp: yields_def)
  show ?thesis
    unfolding checkInWithin_def
    by (intro yields_intros yields_step [OF keepAppointment_sframe]) (auto simp: w intro: sframe_mono yields_Inr split: option.split)
qed

lemma takeTurnOf_sframe: "sframe {S_floor, S_visits} s (takeTurnOf e tenant r x s)"
  by (simp add: takeTurnOf_def sframe_def)

lemma greeterFor_sframe: "greeterFor e tenant r named s = (a, s1) \<Longrightarrow> sframe {S_floor, S_visits} s s1"
  by (auto simp: greeterFor_def takeNextTurnWithin_def claimNamedTurnWithin_def takeTurnOf_sframe
      split: option.splits if_splits prod.splits ClaimAnswer.splits)

lemma updateVisit_sframe: "updateVisit tenant vid n cur f s1 = Inr s2 \<Longrightarrow> sframe {S_floor, S_visits} s s1 \<Longrightarrow> sframe {S_floor, S_visits} s s2"
  by (auto simp: updateVisit_def sframe_def)

lemma greetBody_sframe: "yields (greetBody e tenant user vid n named s) (sframe {S_floor, S_visits} s)"
  unfolding greetBody_def Let_def
  by (intro yields_intros) (auto dest: greeterFor_sframe intro: updateVisit_sframe)

lemma acceptVisitBody_sframe: "yields (acceptVisitBody e tenant user vid n s) (sframe {S_visits} s)"
  unfolding acceptVisitBody_def Let_def by (intro yields_intros) (auto simp: updateVisit_def sframe_def)

lemma departBody_sframe: "yields (departBody e tenant user vid n note s) (sframe {S_floor, S_visits} s)"
  unfolding departBody_def Let_def
  by (intro yields_intros) (auto simp: releaseWithin_def sframe_def updateVisit_def split: option.split)

lemma sframe_OpenAnswer [yields_intros]:
  "(\<And>r. x = OA_open r \<Longrightarrow> yields (a r) Q) \<Longrightarrow> (x = OA_not_found \<Longrightarrow> yields b Q) \<Longrightarrow> (x = OA_finished \<Longrightarrow> yields c Q) \<Longrightarrow>
   yields (case x of OA_open r \<Rightarrow> a r | OA_not_found \<Rightarrow> b | OA_finished \<Rightarrow> c) Q"
  by (cases x) simp_all

lemma shortlistVehicleWithin_sframe: "yields (shortlistVehicleWithin e tenant user oid k m s) (sframe {S_vehicles} s)"
  unfolding shortlistVehicleWithin_def Let_def by (intro yields_intros) (simp_all add: sframe_def)

lemma writeVehicleStatus_sframe: "yields (writeVehicleStatus tenant actor oid vid n cur st why s) (sframe {S_vehicles} s)"
proof -
  have "sframe {S_vehicles} s (s1\<lparr>opportunity_vehicles := vs\<rparr>)" if "sframe {S_vehicles} s s1" for s1 vs
    using that by (simp add: sframe_def)
  then show ?thesis unfolding writeVehicleStatus_def Let_def by (intro yields_intros) (simp add: sframe_standDown)
qed

lemma vehicleStatusBody_sframe: "yields (vehicleStatusBody tenant user oid vid n st why s) (sframe {S_vehicles} s)"
  unfolding vehicleStatusBody_def by (intro yields_intros writeVehicleStatus_sframe) simp_all

lemma issueDemonstrationWithin_sframe: "yields (issueDemonstrationWithin e tenant user oid i s) (sframe {S_demos} s)"
  unfolding issueDemonstrationWithin_def Let_def by (intro yields_intros) (simp_all add: sframe_def)

text \<open>The four moves of a drive go through one gate.\<close>

lemma demoGate_yields:
  assumes "Q s" "\<And>actor cur. demoThroughParent tenant oid did s = Some cur \<Longrightarrow> dm_state cur \<in> set from \<Longrightarrow>
    dm_version cur = n \<Longrightarrow> yields (act actor cur s) Q"
  shows "yields (demoGate tenant user oid did n target from act s) Q"
  unfolding demoGate_def by (intro yields_intros) (use assms in auto)

lemma updateDemo_sframe: "updateDemo tenant did n cur f s = Inr s1 \<Longrightarrow> S_demos \<in> W \<Longrightarrow> sframe W s s1"
  by (auto simp: updateDemo_def sframe_def)

lemma startDemonstration_sframe: "sframe {S_demos} s (snd (startDemonstration e tenant user oid did n s))"
  unfolding startDemonstration_def
  by (intro sframe_transaction demoGate_yields yields_intros) (auto intro: updateDemo_sframe)

lemma returnDemonstration_sframe:
  "sframe {S_demos, S_vehicles} s (snd (returnDemonstration e tenant user oid did n verdict notes s))"
  unfolding returnDemonstration_def
  by (intro sframe_transaction demoGate_yields yields_intros) (auto intro!: sframe_markDriven intro: updateDemo_sframe)

lemma cancelDemonstration_sframe: "sframe {S_demos} s (snd (cancelDemonstration e tenant user oid did n why s))"
  unfolding cancelDemonstration_def
  by (intro sframe_transaction demoGate_yields yields_intros) (auto intro: updateDemo_sframe)

lemma recordDemonstrationException_sframe:
  "sframe {S_demos} s (snd (recordDemonstrationException e tenant user oid did n kind notes s))"
  unfolding recordDemonstrationException_def
  by (intro sframe_transaction demoGate_yields yields_intros) (auto intro: updateDemo_sframe)

lemma logSalesActivityWithin_sframe: "yields (logSalesActivityWithin e tenant user oid i s) (sframe {S_rest} s)"
  unfolding logSalesActivityWithin_def writeSalesActivity_def Let_def by (intro yields_intros) (simp_all add: sframe_def)

lemma closeSalesBody_sframe: "yields (closeSalesBody e tenant user oid aid n st why note s) (sframe {S_rest} s)"
  unfolding closeSalesBody_def Let_def by (intro yields_intros) (simp_all add: sframe_def)

lemma roundBody_sframe: "yields (roundBody e tenant user oid who text mgr out s) (sframe {S_rest} s)"
  unfolding roundBody_def Let_def by (intro yields_intros) (simp_all add: sframe_def)

lemma turnoverBody_sframe: "yields (turnoverBody e tenant user oid m why vid note s) (sframe {S_rest} s)"
  unfolding turnoverBody_def Let_def by (intro yields_intros) (simp_all add: sframe_def split: option.split)

fun sales_writes :: "sales_request \<Rightarrow> sales_table set" where
  "sales_writes (ReceiveHandoff _) = {S_pipeline}"
| "sales_writes (OpenWalkIn _ _ _) = {S_pipeline}"
| "sales_writes (AcceptOpportunity _ _) = {S_pipeline}"
| "sales_writes (AssignOpportunity _ _ _ _ _) = {S_pipeline}"
| "sales_writes (MoveOpportunityStage _ _ _ _ _) = {S_pipeline}"
| "sales_writes (JoinFloor _ _) = {S_floor}"
| "sales_writes (ReleaseToFloor _ _) = {S_floor}"
| "sales_writes (CheckIn _ _ _ _) = {S_visits}"
| "sales_writes (GreetVisit _ _ _) = {S_floor, S_visits}"
| "sales_writes (AcceptVisit _ _) = {S_visits}"
| "sales_writes (DepartVisit _ _ _) = {S_floor, S_visits}"
| "sales_writes (ShortlistVehicle _ _ _) = {S_vehicles}"
| "sales_writes (SetVehicleStatus _ _ _ _ _) = {S_vehicles}"
| "sales_writes (ReturnDemonstration _ _ _ _ _) = {S_demos, S_vehicles}"
| "sales_writes (LogSalesActivity _ _) = {S_rest}"
| "sales_writes (CloseSalesActivity _ _ _ _ _ _) = {S_rest}"
| "sales_writes (RecordNegotiationRound _ _ _ _ _) = {S_rest}"
| "sales_writes (RecordTurnover _ _ _ _ _) = {S_rest}"
| "sales_writes _ = {S_demos}"

lemma sales_exec_frame: "sframe (sales_writes q) s (sales_exec e tenant user q s)"
  by (cases q)
    (simp_all add: receiveHandoff_def openWalkIn_def acceptOpportunity_def assignOpportunity_def moveOpportunityStage_def
      joinFloor_def releaseToFloor_def checkInVisit_def greetVisit_def acceptVisit_def departVisit_def shortlistVehicle_def
      setVehicleStatus_def issueDemonstration_def logSalesActivity_def closeSalesActivity_def recordNegotiationRound_def
      recordTurnover_def sframe_transaction receiveHandoffWithin_sframe openWalkInWithin_sframe acceptBody_sframe
      assignOpportunityBody_sframe moveStageBody_sframe joinFloorWithin_sframe releaseBody_sframe checkInWithin_sframe
      greetBody_sframe acceptVisitBody_sframe departBody_sframe shortlistVehicleWithin_sframe vehicleStatusBody_sframe
      issueDemonstrationWithin_sframe startDemonstration_sframe returnDemonstration_sframe cancelDemonstration_sframe
      recordDemonstrationException_sframe logSalesActivityWithin_sframe closeSalesBody_sframe roundBody_sframe
      turnoverBody_sframe Let_def split: option.split)

end
