(* ===== verification/SalesLife.thy ===== *)
theory SalesLife
  imports SalesFrames
begin

text \<open>
  What holds of opportunities over any history: they are never lost or re-identified, a concluded
  one is never written again and takes no further work, the recorded moves and assignments explain
  where it stands and who owns it, a customer has one open opportunity at a rooftop, and the fact
  handed to the desk exists exactly for the ones that are ready, once, and names the car chosen.
\<close>

section \<open>Histories that explain\<close>

fun legalPath :: "OpportunityStage \<Rightarrow> (OpportunityStage \<times> OpportunityStage) list \<Rightarrow> OpportunityStage \<Rightarrow> bool" where
  "legalPath a [] b = (a = b)"
| "legalPath a ((x, y) # ms) b = (x = a \<and> y \<in> set (LEGAL_STAGES a) \<and> legalPath y ms b)"

fun ownedThrough :: "string option \<Rightarrow> (string option \<times> string) list \<Rightarrow> string option \<Rightarrow> bool" where
  "ownedThrough a [] b = (a = b)"
| "ownedThrough a ((x, y) # ms) b = (x = a \<and> ownedThrough (Some y) ms b)"

lemma legalPath_snoc:
  "legalPath a (ms @ [(x, y)]) b \<longleftrightarrow> legalPath a ms x \<and> y \<in> set (LEGAL_STAGES x) \<and> b = y"
  by (induction a ms b rule: legalPath.induct) auto

lemma ownedThrough_snoc: "ownedThrough a (ms @ [(x, y)]) b \<longleftrightarrow> ownedThrough a ms x \<and> b = Some y"
  by (induction a ms b rule: ownedThrough.induct) auto

definition keyOf :: "opportunity \<Rightarrow> string \<times> string" where
  "keyOf r = (op_tenant r, op_id r)"

definition movesOf :: "string \<times> string \<Rightarrow> sales_db \<Rightarrow> (OpportunityStage \<times> OpportunityStage) list" where
  "movesOf k s = map (\<lambda>v. (os_from v, os_to v)) (filter (\<lambda>v. (os_tenant v, os_opportunity v) = k) (stage_moves s))"

definition ownersOf :: "string \<times> string \<Rightarrow> sales_db \<Rightarrow> (string option \<times> string) list" where
  "ownersOf k s = map (\<lambda>v. (oa_from v, oa_to v)) (filter (\<lambda>v. (oa_tenant v, oa_opportunity v) = k) (opportunity_assignments s))"

definition factsOf :: "string \<times> string \<Rightarrow> sales_db \<Rightarrow> desking_handoff list" where
  "factsOf k s = filter (\<lambda>h. (dh_tenant h, dh_opportunity h) = k) (handoffs (desk (crm s)))"

definition carOf :: "string \<times> string \<Rightarrow> sales_db \<Rightarrow> string option" where
  "carOf k s = map_option vh_stock (find (\<lambda>v. (vh_tenant v, vh_opportunity v) = k \<and> vh_status v = VI_selected)
     (opportunity_vehicles s))"

text \<open>A fact names its opportunity's rooftop, customer and chosen car.\<close>

definition factFits :: "opportunity \<Rightarrow> string option \<Rightarrow> desking_handoff \<Rightarrow> bool" where
  "factFits r car h = (dh_rooftop h = op_rooftop r \<and> dh_party h = op_party r \<and> dh_stock h = car)"

definition explained :: "sales_db \<Rightarrow> opportunity \<Rightarrow> bool" where
  "explained s r =
     (pgUuid (op_id r) = op_id r \<and> dispositionFits (op_stage r) (op_disposition r)
      \<and> legalPath OS_received (movesOf (keyOf r) s) (op_stage r)
      \<and> ownedThrough None (ownersOf (keyOf r) s) (op_owner r)
      \<and> (if op_stage r = OS_ready_for_desking
         then \<exists>h. factsOf (keyOf r) s = [h] \<and> factFits r (carOf (keyOf r) s) h else factsOf (keyOf r) s = []))"

definition competing :: "opportunity \<Rightarrow> opportunity \<Rightarrow> bool" where
  "competing r q = (r \<noteq> q \<and> op_tenant r = op_tenant q \<and>
     (op_handoff r \<noteq> None \<and> op_handoff r = op_handoff q
      \<or> op_rooftop r = op_rooftop q \<and> op_party r = op_party q \<and> \<not> concluded r \<and> \<not> concluded q))"

definition pipeline_ok :: "sales_db \<Rightarrow> bool" where
  "pipeline_ok s =
     (distinct (map op_id (opportunities s)) \<and> (\<forall>r \<in> set (opportunities s). explained s r)
      \<and> (\<forall>r \<in> set (opportunities s). \<forall>q \<in> set (opportunities s). \<not> competing r q)
      \<and> (\<forall>h \<in> set (handoffs (desk (crm s))). (dh_tenant h, dh_opportunity h) \<in> keyOf ` set (opportunities s)))"

section \<open>Moves of an opportunity\<close>

definition opSame :: "opportunity \<Rightarrow> opportunity \<Rightarrow> bool" where
  "opSame r r' =
     (op_id r' = op_id r \<and> op_tenant r' = op_tenant r \<and> op_rooftop r' = op_rooftop r \<and> op_party r' = op_party r
      \<and> op_origin r' = op_origin r \<and> op_handoff r' = op_handoff r \<and> op_lead r' = op_lead r
      \<and> op_appointment r' = op_appointment r \<and> op_stock r' = op_stock r \<and> op_created r' = op_created r)"

definition opMove :: "opportunity \<Rightarrow> opportunity \<Rightarrow> bool" where
  "opMove r r' = (opSame r r' \<and> (concluded r \<longrightarrow> r' = r))"

definition pipeMove :: "sales_db \<Rightarrow> sales_db \<Rightarrow> bool" where
  "pipeMove s s' = (\<forall>r \<in> set (opportunities s). \<exists>r' \<in> set (opportunities s'). opMove r r')"

lemma opMove_refl [simp]: "opMove r r"
  by (simp add: opMove_def opSame_def)

lemma opMove_trans: "opMove a b \<Longrightarrow> opMove b c \<Longrightarrow> opMove a c"
  by (auto simp: opMove_def opSame_def)

lemma pipeMove_refl [simp]: "pipeMove s s"
  unfolding pipeMove_def using opMove_refl by blast

lemma pipeMove_trans: "pipeMove s1 s2 \<Longrightarrow> pipeMove s2 s3 \<Longrightarrow> pipeMove s1 s3"
  unfolding pipeMove_def by (meson opMove_trans)

lemma opSame_key: "opSame r r' \<Longrightarrow> keyOf r' = keyOf r"
  by (simp add: opSame_def keyOf_def)

lemma pipeline_row: "pipeline_ok s \<Longrightarrow> r \<in> set (opportunities s) \<Longrightarrow> explained s r"
  by (simp add: pipeline_ok_def)

lemma pipeline_id: "pipeline_ok s \<Longrightarrow> r \<in> set (opportunities s) \<Longrightarrow> q \<in> set (opportunities s) \<Longrightarrow> op_id r = op_id q \<Longrightarrow> r = q"
  unfolding pipeline_ok_def by (blast dest: distinct_map_eq)

lemma pipeline_found:
  assumes "pipeline_ok s" "find (opportunityHere tenant oid) (opportunities s) = Some cur"
  shows "cur \<in> set (opportunities s)" "op_tenant cur = tenant" "op_id cur = pgUuid oid" "keyOf cur = (tenant, pgUuid oid)"
  using find_SomeD [OF assms(2)] by (simp_all add: opportunityHere_def keyOf_def)

definition pipe_step :: "sales_db \<Rightarrow> sales_db \<Rightarrow> bool" where
  "pipe_step s s' = (pipeline_ok s' \<and> pipeMove s s')"

lemma pipe_step_refl: "pipeline_ok s \<Longrightarrow> pipe_step s s"
  by (simp add: pipe_step_def)

text \<open>A row whose histories, facts and chosen car are as they were stays explained.\<close>

lemma explained_same:
  assumes "movesOf (keyOf r) s' = movesOf (keyOf r) s" "ownersOf (keyOf r) s' = ownersOf (keyOf r) s"
    "factsOf (keyOf r) s' = factsOf (keyOf r) s" "carOf (keyOf r) s' = carOf (keyOf r) s"
  shows "explained s' r = explained s r"
  unfolding explained_def assms ..

lemma pipe_step_same:
  assumes "pipeline_ok s" "opportunities s' = opportunities s" "stage_moves s' = stage_moves s"
    "opportunity_assignments s' = opportunity_assignments s" "handoffs (desk (crm s')) = handoffs (desk (crm s))"
    and car: "\<And>r. r \<in> set (opportunities s) \<Longrightarrow> concluded r \<Longrightarrow> carOf (keyOf r) s' = carOf (keyOf r) s"
  shows "pipe_step s s'"
proof -
  have "explained s' r" if "r \<in> set (opportunities s)" for r
    using pipeline_row [OF assms(1) that] car [OF that] assms(3-5)
    by (auto simp: explained_def movesOf_def ownersOf_def factsOf_def TERMINAL_STAGES_def split: if_splits)
  then have "pipeline_ok s'" using assms(1-5) by (simp add: pipeline_ok_def)
  moreover have "pipeMove s s'" unfolding pipeMove_def assms(2) using opMove_refl by blast
  ultimately show ?thesis by (simp add: pipe_step_def)
qed

section \<open>A new opportunity\<close>

lemma salesIds_rows:
  "r \<in> set (opportunities s) \<Longrightarrow> op_id r \<in> set (salesIds s)" "v \<in> set (stage_moves s) \<Longrightarrow> os_opportunity v \<in> set (salesIds s)"
  "a \<in> set (opportunity_assignments s) \<Longrightarrow> oa_opportunity a \<in> set (salesIds s)"
  "h \<in> set (handoffs (desk (crm s))) \<Longrightarrow> dh_opportunity h \<in> set (salesIds s)"
  "w \<in> set (showroom_visits s) \<Longrightarrow> vi_id w \<in> set (salesIds s)" "d \<in> set (demonstrations s) \<Longrightarrow> dm_id d \<in> set (salesIds s)"
  "c \<in> set (opportunity_vehicles s) \<Longrightarrow> vh_id c \<in> set (salesIds s)" "f \<in> set (floor_rotations s) \<Longrightarrow> fr_id f \<in> set (salesIds s)"
  by (simp_all add: salesIds_def)

lemma fresh_rows:
  assumes "sales_fresh e s" and k: "snd k = drawn e n"
  shows "r \<in> set (opportunities s) \<Longrightarrow> op_id r \<noteq> drawn e n" "movesOf k s = []" "ownersOf k s = []" "factsOf k s = []"
proof -
  have new: "drawn e n \<notin> set (salesIds s)" using assms(1) by (simp add: sales_fresh_def)
  then show "r \<in> set (opportunities s) \<Longrightarrow> op_id r \<noteq> drawn e n" using salesIds_rows(1) by metis
  have "(os_tenant v, os_opportunity v) \<noteq> k" if "v \<in> set (stage_moves s)" for v using salesIds_rows(2) [OF that] new k by (metis snd_conv)
  then show "movesOf k s = []" by (simp add: movesOf_def filter_empty_conv)
  have "(oa_tenant v, oa_opportunity v) \<noteq> k" if "v \<in> set (opportunity_assignments s)" for v
    using salesIds_rows(3) [OF that] new k by (metis snd_conv)
  then show "ownersOf k s = []" by (simp add: ownersOf_def filter_empty_conv)
  have "(dh_tenant v, dh_opportunity v) \<noteq> k" if "v \<in> set (handoffs (desk (crm s)))" for v
    using salesIds_rows(4) [OF that] new k by (metis snd_conv)
  then show "factsOf k s = []" by (simp add: factsOf_def filter_empty_conv)
qed

lemma pipe_step_add:
  assumes ok: "pipeline_ok s" and fresh: "sales_fresh e s" and new: "op_id new = drawn e 0"
    and s': "opportunities s' = opportunities s @ [new]" "stage_moves s' = stage_moves s"
      "handoffs (desk (crm s')) = handoffs (desk (crm s))" "opportunity_vehicles s' = opportunity_vehicles s"
      "opportunity_assignments s' = opportunity_assignments s @ as"
    and as: "as = [] \<and> op_owner new = None \<or> (\<exists>a. as = [a] \<and> (oa_tenant a, oa_opportunity a) = keyOf new \<and> oa_from a = None \<and>
        op_owner new = Some (oa_to a))"
    and fits: "op_stage new = OS_received" "op_disposition new = None"
      "\<And>q. q \<in> set (opportunities s) \<Longrightarrow> \<not> competing new q"
  shows "pipe_step s s'"
proof -
  have canon: "pgUuid (op_id new) = op_id new" using fresh new by (simp add: sales_fresh_def)
  have key: "snd (keyOf new) = drawn e 0" by (simp add: keyOf_def new)
  note none = fresh_rows [OF fresh key]
  have old: "explained s' r" if "r \<in> set (opportunities s)" for r
  proof -
    have "keyOf r \<noteq> keyOf new" using none(1) [OF that] new by (simp add: keyOf_def)
    then have "ownersOf (keyOf r) s' = ownersOf (keyOf r) s" using as s'(5) by (auto simp: ownersOf_def)
    with s'(2-4) have "explained s' r = explained s r" by (intro explained_same) (simp_all add: movesOf_def factsOf_def carOf_def)
    with pipeline_row [OF ok that] show ?thesis by simp
  qed
  have rows: "movesOf (keyOf new) s' = []" "factsOf (keyOf new) s' = []" using none(2,4) s'(2,3) by (simp_all add: movesOf_def factsOf_def)
  have "ownersOf (keyOf new) s' = map (\<lambda>a. (oa_from a, oa_to a)) as"
    using none(3) as s'(5) by (auto simp: ownersOf_def)
  then have "ownedThrough None (ownersOf (keyOf new) s') (op_owner new)" using as by auto
  with rows canon fits(1,2) have ex: "explained s' new" by (simp add: explained_def dispositionFits_def TERMINAL_STAGES_def)
  have "\<not> competing q new" if "q \<in> set (opportunities s)" for q
    using fits(3) [OF that] by (auto simp: competing_def)
  moreover have "\<not> competing new new" by (simp add: competing_def)
  moreover have "op_id new \<notin> op_id ` set (opportunities s)" using none(1) new by force
  ultimately have "pipeline_ok s'"
    using ok old ex fits(3) unfolding pipeline_ok_def s'(1,3) by (simp add: ball_Un)
  moreover have "pipeMove s s'" unfolding pipeMove_def s'(1) using opMove_refl by fastforce
  ultimately show ?thesis by (simp add: pipe_step_def)
qed

section \<open>A write to one opportunity\<close>

lemma updateOpportunity_rows:
  assumes "pipeline_ok s" "find (opportunityHere tenant oid) (opportunities s) = Some cur" "op_version cur = n"
  shows "opportunities (updateOpportunity tenant oid n f s) = map (\<lambda>r. if r = cur then f cur else r) (opportunities s)"
  using pipeline_found [OF assms(1,2)] pipeline_id [OF assms(1)] assms(3)
  by (auto simp: updateOpportunity_def update_where_def opportunityHere_def)

lemma pipe_step_update:
  assumes ok: "pipeline_ok s" and cur: "cur \<in> set (opportunities s)" "\<not> concluded cur" "opSame cur new"
    and s': "opportunities s' = map (\<lambda>r. if r = cur then new else r) (opportunities s)" "opportunity_vehicles s' = opportunity_vehicles s"
      "stage_moves s' = stage_moves s @ ms" "opportunity_assignments s' = opportunity_assignments s @ as"
      "handoffs (desk (crm s')) = handoffs (desk (crm s)) @ hs"
    and keys: "\<forall>v \<in> set ms. (os_tenant v, os_opportunity v) = keyOf cur" "\<forall>v \<in> set as. (oa_tenant v, oa_opportunity v) = keyOf cur"
      "\<forall>h \<in> set hs. (dh_tenant h, dh_opportunity h) = keyOf cur"
    and new: "explained s' new"
  shows "pipe_step s s'"
proof -
  have other: "explained s' r" if "r \<in> set (opportunities s)" "r \<noteq> cur" for r
  proof -
    have "keyOf r \<noteq> keyOf cur" using that pipeline_id [OF ok that(1) cur(1)] by (auto simp: keyOf_def)
    with keys have "movesOf (keyOf r) s' = movesOf (keyOf r) s" "ownersOf (keyOf r) s' = ownersOf (keyOf r) s"
      "factsOf (keyOf r) s' = factsOf (keyOf r) s"
      using s'(3-5) by (auto simp: movesOf_def ownersOf_def factsOf_def filter_empty_conv)
    with s'(2) have "explained s' r = explained s r" by (intro explained_same) (simp_all add: carOf_def)
    with pipeline_row [OF ok that(1)] show ?thesis by simp
  qed
  let ?g = "\<lambda>r. if r = cur then new else r"
  have "map op_id (opportunities s') = map op_id (opportunities s)" "map keyOf (opportunities s') = map keyOf (opportunities s)"
    using cur(3) opSame_key [OF cur(3)] unfolding s' by (auto simp: opSame_def)
  then have ids: "map op_id (opportunities s') = map op_id (opportunities s)" "keyOf ` set (opportunities s') = keyOf ` set (opportunities s)"
    by (simp, metis set_map)
  have "\<not> competing (?g r) (?g q)" if "r \<in> set (opportunities s)" "q \<in> set (opportunities s)" for r q
  proof
    assume "competing (?g r) (?g q)"
    with cur(2,3) have "competing r q" by (auto simp: competing_def opSame_def split: if_splits)
    with ok that show False by (auto simp: pipeline_ok_def)
  qed
  then have "\<not> competing r q" if "r \<in> set (opportunities s')" "q \<in> set (opportunities s')" for r q
    using that unfolding s'(1) set_map by blast
  moreover have "explained s' r" if "r \<in> set (opportunities s')" for r
    using that other new unfolding s'(1) by (auto split: if_splits)
  moreover have "(dh_tenant h, dh_opportunity h) \<in> keyOf ` set (opportunities s')" if "h \<in> set (handoffs (desk (crm s')))" for h
  proof -
    have "keyOf cur \<in> keyOf ` set (opportunities s)" using cur(1) by simp
    with that ok keys(3) show ?thesis unfolding ids(2) s'(5) pipeline_ok_def by auto
  qed
  ultimately have "pipeline_ok s'" using ok ids(1) unfolding pipeline_ok_def by simp
  moreover have "opMove r (?g r)" for r using cur(2,3) by (simp add: opMove_def opSame_def)
  then have "pipeMove s s'" unfolding pipeMove_def s'(1) set_map by blast
  ultimately show ?thesis by (simp add: pipe_step_def)
qed

section \<open>The commands of the pipeline\<close>

lemma receiveHandoffWithin_step:
  assumes "pipeline_ok s" "sales_fresh e s"
  shows "yields (receiveHandoffWithin e tenant user hid s) (pipe_step s)"
proof -
  have canon: "pgUuid (drawn e 0) = drawn e 0" using assms(2) by (simp add: sales_fresh_def)
  have "pipe_step s (recorded a b c d x (case owner of None \<Rightarrow> s\<lparr>opportunities := opportunities s @ [row]\<rparr>
      | Some u \<Rightarrow> assignmentRow tenant (drawn e 0) None u why nt actor (s\<lparr>opportunities := opportunities s @ [row]\<rparr>)))"
    if row: "row = receivedRow (drawn e 0) t tenant hid snap appt owner"
      and free: "\<not> list_ex (openDealFor tenant (hs_rooftop snap) (hs_party snap)) (opportunities s)"
        "find (\<lambda>r. op_tenant r = tenant \<and> op_handoff r = Some (pgUuid hid)) (opportunities s) = None"
    for a b c d x owner row t snap appt why nt actor
  proof (rule pipe_step_add [OF assms, where new = row and as = "case owner of None \<Rightarrow> []
      | Some u \<Rightarrow> [\<lparr>oa_tenant = tenant, oa_opportunity = pgUuid (drawn e 0), oa_from = None, oa_to = pgUuid u, oa_reason = why,
          oa_note = nt, oa_by = pgUuid actor\<rparr>]"])
    show "\<not> competing row q" if "q \<in> set (opportunities s)" for q
      using that free by (auto simp: row receivedRow_def competing_def openDealFor_def list_ex_iff find_None_notin)
  qed (simp_all add: row receivedRow_def assignmentRow_def keyOf_def canon split: option.split)
  then show ?thesis
    unfolding receiveHandoffWithin_def Let_def by (intro yields_intros) (simp_all add: assms(1) pipe_step_refl)
qed

lemma openWalkInWithin_step:
  assumes "pipeline_ok s" "sales_fresh e s"
  shows "yields (openWalkInWithin e tenant user rt p k s) (pipe_step s)"
proof -
  have canon: "pgUuid (drawn e 0) = drawn e 0" using assms(2) by (simp add: sales_fresh_def)
  have "pipe_step s (recorded a b c d x (assignmentRow tenant (drawn e 0) None actor why nt actor
      (s\<lparr>opportunities := opportunities s @ [walkInRow (drawn e 0) t tenant rt p k actor]\<rparr>)))"
    if "find (openDealFor tenant (pgUuid rt) (pgUuid p)) (opportunities s) = None" for a b c d x t actor why nt
    using that
    by (intro pipe_step_add [OF assms, where new = "walkInRow (drawn e 0) t tenant rt p k actor"
          and as = "[\<lparr>oa_tenant = tenant, oa_opportunity = pgUuid (drawn e 0), oa_from = None, oa_to = pgUuid actor,
            oa_reason = why, oa_note = nt, oa_by = pgUuid actor\<rparr>]"])
      (auto simp: walkInRow_def assignmentRow_def keyOf_def canon competing_def openDealFor_def find_None_notin)
  then show ?thesis
    unfolding openWalkInWithin_def Let_def by (intro yields_intros) (simp_all add: assms(1) pipe_step_refl)
qed

text \<open>A change of owner, with its line of history.\<close>

lemma owner_step:
  assumes ok: "pipeline_ok s" and cur: "find (opportunityHere tenant oid) (opportunities s) = Some cur" "\<not> concluded cur" "op_version cur = n"
  shows "pipe_step s (recorded a b c d x (assignmentRow tenant oid (op_owner cur) u why nt actor
      (updateOpportunity tenant oid n (ownedBy u) s)))" (is "pipe_step s ?s'")
proof -
  note found = pipeline_found [OF ok cur(1)]
  let ?a = "\<lparr>oa_tenant = tenant, oa_opportunity = pgUuid oid, oa_from = op_owner cur, oa_to = pgUuid u, oa_reason = why,
     oa_note = nt, oa_by = pgUuid actor\<rparr>"
  have rows: "opportunities ?s' = map (\<lambda>r. if r = cur then ownedBy u cur else r) (opportunities s)"
    using updateOpportunity_rows [OF ok cur(1,3)] by (simp add: assignmentRow_def)
  have rest: "stage_moves ?s' = stage_moves s @ []" "opportunity_assignments ?s' = opportunity_assignments s @ [?a]"
    "handoffs (desk (crm ?s')) = handoffs (desk (crm s)) @ []" "opportunity_vehicles ?s' = opportunity_vehicles s"
    by (simp_all add: assignmentRow_def updateOpportunity_def)
  have key: "keyOf (ownedBy u cur) = keyOf cur" by (simp add: ownedBy_def keyOf_def)
  have owners: "ownersOf (keyOf cur) ?s' = ownersOf (keyOf cur) s @ [(op_owner cur, pgUuid u)]"
    unfolding ownersOf_def rest(2) by (simp add: found(4))
  have same: "movesOf k ?s' = movesOf k s" "factsOf k ?s' = factsOf k s" for k
    unfolding movesOf_def factsOf_def rest by simp_all
  have "op_stage cur \<noteq> OS_ready_for_desking" using cur(2) by (simp add: TERMINAL_STAGES_def)
  with pipeline_row [OF ok found(1)] have "explained ?s' (ownedBy u cur)"
    unfolding explained_def key owners same by (simp add: ownedThrough_snoc ownedBy_def)
  with found show ?thesis
    by (intro pipe_step_update [OF ok found(1) cur(2) _ rows rest(4) rest(1-3)]) (simp_all add: opSame_def ownedBy_def)
qed

lemma acceptBody_step: "pipeline_ok s \<Longrightarrow> yields (acceptBody e tenant user oid n s) (pipe_step s)"
  unfolding acceptBody_def
  by (intro yields_intros) (auto simp: pipe_step_refl dest: owner_step)

lemma assignOpportunityBody_step: "pipeline_ok s \<Longrightarrow> yields (assignOpportunityBody e tenant user oid n to why note s) (pipe_step s)"
  unfolding assignOpportunityBody_def by (intro yields_intros) (auto simp: pipe_step_refl intro: owner_step)

text \<open>A move, with its line of history and, where it is the last one, the fact for the desk.\<close>

lemma legal_not_concluded: "st \<in> set (LEGAL_STAGES a) \<Longrightarrow> a \<notin> set TERMINAL_STAGES"
  by (cases a) (auto simp: TERMINAL_STAGES_def)

lemma move_step:
  assumes ok: "pipeline_ok s" and cur: "find (opportunityHere tenant oid) (opportunities s) = Some cur" "op_version cur = n"
    and st: "st \<in> set (LEGAL_STAGES (op_stage cur))" "dispositionFits st d"
    and s': "opportunities s' = opportunities (updateOpportunity tenant oid n (movedTo t st d) s)"
      "opportunity_vehicles s' = opportunity_vehicles s" "opportunity_assignments s' = opportunity_assignments s"
      "stage_moves s' = stage_moves s @ [\<lparr>os_tenant = tenant, os_opportunity = pgUuid oid, os_from = op_stage cur, os_to = st,
         os_disposition = d, os_note = nt, os_by = who\<rparr>]"
      "handoffs (desk (crm s')) = handoffs (desk (crm s)) @ hs"
    and hs: "if st = OS_ready_for_desking then \<exists>h. hs = [h] \<and> (dh_tenant h, dh_opportunity h) = keyOf cur \<and> factFits cur (carOf (keyOf cur) s) h
        else hs = []"
  shows "pipe_step s s'"
proof -
  note found = pipeline_found [OF ok cur(1)]
  have open1: "\<not> concluded cur" using st(1) by (rule legal_not_concluded)
  have same: "opSame cur (movedTo t st d cur)" by (simp add: movedTo_def opSame_def)
  have key: "keyOf (movedTo t st d cur) = keyOf cur" by (rule opSame_key [OF same])
  have moves: "movesOf (keyOf cur) s' = movesOf (keyOf cur) s @ [(op_stage cur, st)]"
    unfolding movesOf_def s'(4) by (simp add: found(4))
  have rows: "ownersOf (keyOf cur) s' = ownersOf (keyOf cur) s" "carOf (keyOf cur) s' = carOf (keyOf cur) s"
    unfolding ownersOf_def carOf_def s' by simp_all
  have "op_stage cur \<noteq> OS_ready_for_desking" using open1 by (simp add: TERMINAL_STAGES_def)
  moreover have ex: "explained s cur" by (rule pipeline_row [OF ok found(1)])
  ultimately have "factsOf (keyOf cur) s = []" by (simp add: explained_def)
  then have facts: "factsOf (keyOf cur) s' = hs" using hs unfolding factsOf_def s'(5) by (auto split: if_splits)
  have "explained s' (movedTo t st d cur)"
    using ex st hs unfolding explained_def key moves rows facts by (auto simp: movedTo_def legalPath_snoc factFits_def)
  moreover have "opportunity_assignments s' = opportunity_assignments s @ []" using s'(3) by simp
  ultimately show ?thesis
    using hs found by (intro pipe_step_update [OF ok found(1) open1 same _ s'(2,4) _ s'(5)])
      (auto simp: s'(1) updateOpportunity_rows [OF ok cur] split: if_splits)
qed

lemma writeMove_step:
  assumes ok: "pipeline_ok s" and cur: "find (opportunityHere tenant oid) (opportunities s) = Some cur" "op_version cur = n"
    and st: "st \<in> set (LEGAL_STAGES (op_stage cur))" "dispositionFits st d"
  shows "yields (writeMove e tenant actor oid n cur st d nt s) (pipe_step s)"
proof -
  note found = pipeline_found [OF ok cur(1)]
  let ?s1 = "stageEvent tenant oid (op_stage cur) st d nt actor (updateOpportunity tenant oid n (movedTo (clock e) st d) s)"
  have rows: "opportunities ?s1 = opportunities (updateOpportunity tenant oid n (movedTo (clock e) st d) s)"
      "opportunity_vehicles ?s1 = opportunity_vehicles s" "opportunity_assignments ?s1 = opportunity_assignments s"
      "stage_moves ?s1 = stage_moves s @ [\<lparr>os_tenant = tenant, os_opportunity = pgUuid oid, os_from = op_stage cur, os_to = st,
         os_disposition = d, os_note = nt, os_by = pgUuid actor\<rparr>]" "crm ?s1 = crm s"
    by (simp_all add: stageEvent_def updateOpportunity_def)
  have plain: "pipe_step s (recorded a b c x y ?s1)" if "st \<noteq> OS_ready_for_desking" for a b c x y
    using that rows by (intro move_step [OF ok cur st, where hs = "[]" and nt = nt and who = "pgUuid actor"]) simp_all
  have desk1: "pipe_step s (recorded a b c x y s2)" if "st = OS_ready_for_desking" and fact: "handToDesk e tenant actor cur ?s1 = Inr (hid, s2)"
    for a b c x y hid s2
  proof (rule move_step [OF ok cur st, where hs = "[deskingFact e tenant actor cur ?s1]" and nt = nt and who = "pgUuid actor"])
    have "pgUuid (op_id cur) = op_id cur" using pipeline_row [OF ok found(1)] by (simp add: explained_def)
    then show "if st = OS_ready_for_desking
        then \<exists>h. [deskingFact e tenant actor cur ?s1] = [h] \<and> (dh_tenant h, dh_opportunity h) = keyOf cur \<and> factFits cur (carOf (keyOf cur) s) h
        else [deskingFact e tenant actor cur ?s1] = []"
      using found rows(2) that(1) by (simp add: deskingFact_def keyOf_def factFits_def carOf_def selectedStock_def)
  qed (use fact rows in \<open>auto simp: handToDesk_def enqueueAdminOutboxEvent_def Let_def\<close>)
  show ?thesis
    unfolding writeMove_def Let_def using plain desk1 by (intro yields_intros) auto
qed

lemma moveStageBody_step: "pipeline_ok s \<Longrightarrow> yields (moveStageBody e tenant user oid st n d nt s) (pipe_step s)"
  unfolding moveStageBody_def Let_def by (intro yields_intros writeMove_step) (auto simp: pipe_step_refl)

section \<open>The shortlist of a concluded opportunity\<close>

text \<open>A write to the shortlist leaves the selected car of every concluded opportunity.\<close>

lemma find_map_other: "(\<And>v. v \<in> set vs \<Longrightarrow> P (g v) \<longleftrightarrow> P v) \<Longrightarrow> (\<And>v. v \<in> set vs \<Longrightarrow> P v \<Longrightarrow> g v = v) \<Longrightarrow> find P (map g vs) = find P vs"
  by (induction vs) auto

lemma carOf_map:
  assumes "opportunity_vehicles s' = map g (opportunity_vehicles s)"
    and "\<And>v. v \<in> set (opportunity_vehicles s) \<Longrightarrow> (vh_tenant (g v), vh_opportunity (g v)) = (vh_tenant v, vh_opportunity v)"
    and "\<And>v. v \<in> set (opportunity_vehicles s) \<Longrightarrow> (vh_tenant v, vh_opportunity v) = k \<Longrightarrow>
       (vh_status (g v) = VI_selected \<longleftrightarrow> vh_status v = VI_selected) \<and> (vh_status v = VI_selected \<longrightarrow> g v = v)"
  shows "carOf k s' = carOf k s"
proof -
  have "find (\<lambda>v. (vh_tenant v, vh_opportunity v) = k \<and> vh_status v = VI_selected) (map g (opportunity_vehicles s)) =
      find (\<lambda>v. (vh_tenant v, vh_opportunity v) = k \<and> vh_status v = VI_selected) (opportunity_vehicles s)"
    by (rule find_map_other) (use assms(2,3) in metis)+
  then show ?thesis by (simp add: carOf_def assms(1))
qed

lemma open_answerE:
  assumes "assertOpportunityOpen tenant oid s = OA_open o1"
  obtains "find (opportunityHere tenant oid) (opportunities s) = Some o1" "\<not> concluded o1"
  using assms that by (auto simp: assertOpportunityOpen_def split: option.splits if_splits)

lemma concluded_elsewhere:
  assumes ok: "pipeline_ok s" and o1: "find (opportunityHere tenant oid) (opportunities s) = Some o1" "\<not> concluded o1"
    and r: "r \<in> set (opportunities s)" "concluded r"
  shows "keyOf r \<noteq> (tenant, pgUuid oid)"
  using pipeline_found [OF ok o1(1)] pipeline_id [OF ok r(1)] o1(2) r(2) by (auto simp: keyOf_def)

definition vehicleKey :: "opportunity_vehicle \<Rightarrow> string \<times> string" where
  "vehicleKey v = (vh_tenant v, vh_opportunity v)"

definition vehicles_ok :: "sales_db \<Rightarrow> bool" where
  "vehicles_ok s =
     (distinct (map vh_id (opportunity_vehicles s)) \<and> (\<forall>v \<in> set (opportunity_vehicles s). pgUuid (vh_opportunity v) = vh_opportunity v)
      \<and> (\<forall>v \<in> set (opportunity_vehicles s). \<forall>w \<in> set (opportunity_vehicles s).
           vehicleKey v = vehicleKey w \<longrightarrow> vh_status v = VI_selected \<longrightarrow> vh_status w = VI_selected \<longrightarrow> v = w))"

text \<open>A write to rows of the shortlist that keeps their keys and selects at most one of an opportunity's cars.\<close>

lemma vehicles_map:
  assumes ok: "vehicles_ok s" and s': "opportunity_vehicles s' = map g (opportunity_vehicles s)"
    and g: "\<And>v. v \<in> set (opportunity_vehicles s) \<Longrightarrow> vh_id (g v) = vh_id v \<and> vehicleKey (g v) = vehicleKey v"
    and one: "\<And>v w. v \<in> set (opportunity_vehicles s) \<Longrightarrow> w \<in> set (opportunity_vehicles s) \<Longrightarrow> vehicleKey v = vehicleKey w \<Longrightarrow>
       vh_status (g v) = VI_selected \<Longrightarrow> vh_status (g w) = VI_selected \<Longrightarrow> v = w"
  shows "vehicles_ok s'"
proof -
  have "map vh_id (opportunity_vehicles s') = map vh_id (opportunity_vehicles s)" unfolding s' using g by simp
  then have "distinct (map vh_id (opportunity_vehicles s'))" using ok by (simp only: vehicles_ok_def)
  moreover have "pgUuid (vh_opportunity (g v)) = vh_opportunity (g v)" if "v \<in> set (opportunity_vehicles s)" for v
    using g [OF that] ok that by (simp add: vehicles_ok_def vehicleKey_def)
  moreover have "g v = g w" if "v \<in> set (opportunity_vehicles s)" "w \<in> set (opportunity_vehicles s)" "vehicleKey (g v) = vehicleKey (g w)"
      "vh_status (g v) = VI_selected" "vh_status (g w) = VI_selected" for v w
    using one [of v w] g that by metis
  ultimately show ?thesis unfolding vehicles_ok_def s' set_map by auto
qed

lemma vehicle_lines [simp]:
  "opportunity_vehicles (fold (\<lambda>v. recordVehicleEvent tenant oid (f v) (g v) a b c d actor) vs s) = opportunity_vehicles s"
  by (induction vs arbitrary: s) simp_all

lemma markDriven_vehicles:
  "opportunity_vehicles (markDriven tenant oid k actor s) =
     map (\<lambda>v. if droveIt tenant oid k v then v\<lparr>vh_status := VI_demonstrated, vh_version := vh_version v + 1\<rparr> else v) (opportunity_vehicles s)"
  by (simp add: markDriven_def update_where_def vehicle_lines [where g = "\<lambda>_. k"])

lemma standDown_vehicles:
  "opportunity_vehicles (standDown tenant oid vid actor s) =
     map (\<lambda>v. if standsDown tenant oid vid v then v\<lparr>vh_status := VI_considering, vh_version := vh_version v + 1\<rparr> else v) (opportunity_vehicles s)"
  by (simp add: standDown_def update_where_def)

section \<open>What hangs off an opportunity\<close>

definition childrenOf :: "string \<times> string \<Rightarrow> sales_db \<Rightarrow> string list list" where
  "childrenOf k s =
     [map vh_id (filter (\<lambda>v. (vh_tenant v, vh_opportunity v) = k) (opportunity_vehicles s)),
      map dm_id (filter (\<lambda>d. (dm_tenant d, dm_opportunity d) = k) (demonstrations s)),
      map oy_id (filter (\<lambda>a. (oy_tenant a, oy_opportunity a) = k) (opportunity_activities s)),
      map nr_id (filter (\<lambda>r. (nr_tenant r, nr_opportunity r) = k) (negotiation_rounds s)),
      map mt_id (filter (\<lambda>m. (mt_tenant m, mt_opportunity m) = k) (manager_turnovers s))]"

definition noNewWork :: "sales_db \<Rightarrow> sales_db \<Rightarrow> bool" where
  "noNewWork s s' = (\<forall>r \<in> set (opportunities s). concluded r \<longrightarrow> childrenOf (keyOf r) s' = childrenOf (keyOf r) s)"

definition floor_step :: "sales_db \<Rightarrow> sales_db \<Rightarrow> bool" where
  "floor_step s s' = (pipe_step s s' \<and> vehicles_ok s' \<and> noNewWork s s')"

lemma map_filter_kept:
  "(\<And>x. x \<in> set xs \<Longrightarrow> P (g x) = P x \<and> f (g x) = f x) \<Longrightarrow> map f (filter P (map g xs)) = map f (filter P xs)"
  by (induction xs) auto

lemma noNewWork_refl [simp]: "noNewWork s s"
  by (simp add: noNewWork_def)

lemma noNewWork_same:
  assumes "opportunity_vehicles s' = opportunity_vehicles s" "demonstrations s' = demonstrations s"
    "opportunity_activities s' = opportunity_activities s" "negotiation_rounds s' = negotiation_rounds s"
    "manager_turnovers s' = manager_turnovers s"
  shows "noNewWork s s'"
  by (simp add: noNewWork_def childrenOf_def assms)

lemma floor_step_refl: "pipeline_ok s \<Longrightarrow> vehicles_ok s \<Longrightarrow> floor_step s s"
  by (simp add: floor_step_def pipe_step_refl)

text \<open>Commands of the pipeline, of the floor and of the visits leave all of it alone.\<close>

lemma floor_step_pipeline: "pipe_step s s' \<Longrightarrow> vehicles_ok s \<Longrightarrow> sframe {S_pipeline, S_floor, S_visits} s s' \<Longrightarrow> floor_step s s'"
  by (simp add: floor_step_def sframe_def vehicles_ok_def noNewWork_same)

lemma floor_step_outside:
  assumes "pipeline_ok s" "vehicles_ok s" "sframe {S_floor, S_visits} s s'"
  shows "floor_step s s'"
proof -
  have "pipe_step s s'" using assms(1,3) by (intro pipe_step_same) (simp_all add: sframe_def carOf_def)
  moreover have "sframe {S_pipeline, S_floor, S_visits} s s'" using assms(3) by (rule sframe_mono) simp
  ultimately show ?thesis using assms(2) by (intro floor_step_pipeline)
qed

text \<open>Work on a deal is added only while the opportunity is open, and work there is keeps its place.\<close>

lemma floor_step_work:
  assumes ok: "pipeline_ok s" "vehicles_ok s" and s': "sframe {S_demos, S_rest} s s'"
    and work: "\<And>k. k \<in> keyOf ` {r \<in> set (opportunities s). concluded r} \<Longrightarrow> childrenOf k s' = childrenOf k s"
  shows "floor_step s s'"
proof -
  have "pipe_step s s'" using ok(1) s' by (intro pipe_step_same) (simp_all add: sframe_def carOf_def)
  moreover have "vehicles_ok s'" using ok(2) s' by (simp add: vehicles_ok_def sframe_def)
  ultimately show ?thesis using work by (simp add: floor_step_def noNewWork_def)
qed

end
