(* ===== verification/SalesWork.thy ===== *)
theory SalesWork
  imports SalesLife
begin

text \<open>
  The work on a deal: the shortlist, the drives, the activities, the rounds and the turnovers keep
  what \<open>SalesLife\<close> states, so that it holds over every run (the interpretation \<open>pipeline\<close>); and one
  car, one driver and one salesperson are in one place at a time (\<open>drives\<close>), one customer in one
  visit (\<open>visits\<close>).
\<close>

section \<open>The shortlist\<close>

lemma work_elsewhere:
  assumes ok: "pipeline_ok s" and o1: "find (opportunityHere tenant oid) (opportunities s) = Some o1" "\<not> concluded o1"
    and k: "k \<in> keyOf ` {r \<in> set (opportunities s). concluded r}"
  shows "k \<noteq> (tenant, pgUuid oid)"
  using concluded_elsewhere [OF ok o1] k by auto

lemma shortlist_step:
  assumes ok: "pipeline_ok s" "vehicles_ok s" and fresh: "sales_fresh e s"
    and o1: "find (opportunityHere tenant oid) (opportunities s) = Some o1" "\<not> concluded o1"
    and row: "vh_id row = drawn e 0" "vehicleKey row = (tenant, pgUuid oid)" "vh_status row = VI_considering"
    and s': "opportunity_vehicles s' = opportunity_vehicles s @ [row]" "sframe {S_vehicles} s s'"
  shows "floor_step s s'"
proof -
  have canon: "pgUuid (vh_opportunity row) = vh_opportunity row"
    using row(2) pipeline_found(1,3) [OF ok(1) o1(1)] pipeline_row [OF ok(1)] by (simp add: explained_def vehicleKey_def) metis
  have new: "drawn e 0 \<notin> vh_id ` set (opportunity_vehicles s)"
    using fresh salesIds_rows(7) by (metis imageE sales_fresh_def)
  have "vehicles_ok s'" using ok(2) new row(1,3) canon unfolding vehicles_ok_def s'(1) by auto
  moreover have "carOf k s' = carOf k s" for k using row(3) by (simp add: carOf_def s'(1) find_append split: option.split)
  with ok(1) s'(2) have "pipe_step s s'" by (intro pipe_step_same) (simp_all add: sframe_def)
  moreover have "childrenOf (keyOf r) s' = childrenOf (keyOf r) s" if "r \<in> set (opportunities s)" "concluded r" for r
  proof -
    have "vehicleKey row \<noteq> keyOf r" using concluded_elsewhere [OF ok(1) o1 that] row(2) by simp
    then show ?thesis using s' by (simp add: childrenOf_def sframe_def vehicleKey_def)
  qed
  ultimately show ?thesis by (simp add: floor_step_def noNewWork_def)
qed

lemma shortlistVehicleWithin_step:
  assumes ok: "pipeline_ok s" "vehicles_ok s" "sales_fresh e s"
  shows "yields (shortlistVehicleWithin e tenant user oid k m s) (floor_step s)"
  unfolding shortlistVehicleWithin_def Let_def
  by (intro yields_intros)
    (auto simp: floor_step_refl ok vehicleKey_def sframe_def elim!: open_answerE intro!: shortlist_step [OF ok])

text \<open>A change of rows of open opportunities, keys kept.\<close>

lemma vehicles_write_step:
  assumes ok: "pipeline_ok s" "vehicles_ok s" and s': "opportunity_vehicles s' = map g (opportunity_vehicles s)" "sframe W s s'" "S_pipeline \<notin> W" "S_rest \<notin> W"
    and demos: "\<And>k. map dm_id (filter (\<lambda>d. (dm_tenant d, dm_opportunity d) = k) (demonstrations s')) =
       map dm_id (filter (\<lambda>d. (dm_tenant d, dm_opportunity d) = k) (demonstrations s))"
    and g: "\<And>v. v \<in> set (opportunity_vehicles s) \<Longrightarrow> vh_id (g v) = vh_id v \<and> vehicleKey (g v) = vehicleKey v"
    and one: "\<And>v w. v \<in> set (opportunity_vehicles s) \<Longrightarrow> w \<in> set (opportunity_vehicles s) \<Longrightarrow> vehicleKey v = vehicleKey w \<Longrightarrow>
       vh_status (g v) = VI_selected \<Longrightarrow> vh_status (g w) = VI_selected \<Longrightarrow> v = w"
    and kept: "\<And>v r. v \<in> set (opportunity_vehicles s) \<Longrightarrow> r \<in> set (opportunities s) \<Longrightarrow> concluded r \<Longrightarrow> vehicleKey v = keyOf r \<Longrightarrow>
       (vh_status (g v) = VI_selected \<longleftrightarrow> vh_status v = VI_selected) \<and> (vh_status v = VI_selected \<longrightarrow> g v = v)"
  shows "floor_step s s'"
proof -
  have "carOf (keyOf r) s' = carOf (keyOf r) s" if "r \<in> set (opportunities s)" "concluded r" for r
    using g kept [OF _ that] by (intro carOf_map [OF s'(1)]) (auto simp: vehicleKey_def)
  then have "pipe_step s s'" using ok(1) s'(2-4) by (intro pipe_step_same) (simp_all add: sframe_def)
  moreover have "vehicles_ok s'" by (rule vehicles_map [OF ok(2) s'(1) g one])
  moreover have "childrenOf k s' = childrenOf k s" for k
  proof -
    have "map vh_id (filter (\<lambda>v. (vh_tenant v, vh_opportunity v) = k) (opportunity_vehicles s')) =
        map vh_id (filter (\<lambda>v. (vh_tenant v, vh_opportunity v) = k) (opportunity_vehicles s))"
      unfolding s'(1) using g by (intro map_filter_kept) (auto simp: vehicleKey_def)
    then show ?thesis using s'(2,4) by (simp add: childrenOf_def demos sframe_def)
  qed
  ultimately show ?thesis by (simp add: floor_step_def noNewWork_def)
qed

text \<open>The row whose status is set, and the rows that stand down for it.\<close>

definition statusChange ::
  "string \<Rightarrow> string \<Rightarrow> string \<Rightarrow> opportunity_vehicle \<Rightarrow> VehicleInterestStatus \<Rightarrow> string option \<Rightarrow> opportunity_vehicle \<Rightarrow> opportunity_vehicle" where
  "statusChange tenant oid vid cur st why v =
     (if v = cur then v\<lparr>vh_status := st, vh_reason := (if st = VI_rejected then why else None), vh_version := vh_version v + 1\<rparr>
      else if st = VI_selected \<and> standsDown tenant oid vid v then v\<lparr>vh_status := VI_considering, vh_version := vh_version v + 1\<rparr>
      else v)"

lemma statusChange_rows:
  assumes ok: "vehicles_ok s" and cur: "find (\<lambda>v. vh_tenant v = tenant \<and> vh_id v = pgUuid vid) (opportunity_vehicles s) = Some cur"
    "vh_version cur = n"
  shows "update_where (\<lambda>v. vh_tenant v = tenant \<and> vh_id v = pgUuid vid \<and> vh_version v = n)
      (\<lambda>v. v\<lparr>vh_status := st, vh_reason := (if st = VI_rejected then why else None), vh_version := vh_version v + 1\<rparr>)
      (opportunity_vehicles (if st = VI_selected then standDown tenant oid vid actor s else s)) =
    map (statusChange tenant oid vid cur st why) (opportunity_vehicles s)"
proof -
  note found = find_SomeD [OF cur(1)]
  have same: "v = cur" if "v \<in> set (opportunity_vehicles s)" "vh_id v = pgUuid vid" for v
    using distinct_map_eq [of vh_id "opportunity_vehicles s" v cur] ok found that by (simp add: vehicles_ok_def)
  have stays: "\<not> standsDown tenant oid vid cur" using found by (simp add: standsDown_def)
  let ?down = "\<lambda>v. if st = VI_selected \<and> standsDown tenant oid vid v then v\<lparr>vh_status := VI_considering, vh_version := vh_version v + 1\<rparr> else v"
  let ?set = "\<lambda>v. if vh_tenant v = tenant \<and> vh_id v = pgUuid vid \<and> vh_version v = n
     then v\<lparr>vh_status := st, vh_reason := (if st = VI_rejected then why else None), vh_version := vh_version v + 1\<rparr> else v"
  have rows: "opportunity_vehicles (if st = VI_selected then standDown tenant oid vid actor s else s) = map ?down (opportunity_vehicles s)"
    by (simp add: standDown_vehicles)
  have "?set (?down v) = statusChange tenant oid vid cur st why v" if v: "v \<in> set (opportunity_vehicles s)" for v
  proof (cases "v = cur")
    case True
    then show ?thesis using found cur(2) stays by (simp add: statusChange_def)
  next
    case False
    then have "vh_id v \<noteq> pgUuid vid" using same [OF v] by blast
    with False show ?thesis by (simp add: statusChange_def)
  qed
  then show ?thesis unfolding rows update_where_def map_map by (intro map_cong) (simp_all only: o_def)
qed

lemma writeVehicleStatus_step:
  assumes ok: "pipeline_ok s" "vehicles_ok s"
    and o1: "find (opportunityHere tenant oid) (opportunities s) = Some o1" "\<not> concluded o1"
    and cur: "find (\<lambda>v. vh_tenant v = tenant \<and> vh_id v = pgUuid vid) (opportunity_vehicles s) = Some cur" "vh_version cur = n"
      "vh_opportunity cur = oid"
  shows "yields (writeVehicleStatus tenant actor oid vid n cur st why s) (floor_step s)"
proof (rule yieldsI)
  fix a s' assume w: "writeVehicleStatus tenant actor oid vid n cur st why s = Inr (a, s')"
  note found = find_SomeD [OF cur(1)]
  let ?g = "statusChange tenant oid vid cur st why"
  have s': "opportunity_vehicles s' = map ?g (opportunity_vehicles s)" "sframe {S_vehicles} s s'"
    using w yieldsD [OF writeVehicleStatus_sframe w]
    by (auto simp: writeVehicleStatus_def Let_def statusChange_rows [OF ok(2) cur(1,2)])
  have oid: "pgUuid oid = oid" using ok(2) found cur(3) by (auto simp: vehicles_ok_def)
  then have key: "vehicleKey cur = (tenant, pgUuid oid)" using found cur(3) by (simp add: vehicleKey_def)
  have down: "vehicleKey v = (tenant, pgUuid oid)" if "standsDown tenant oid vid v" for v
    using that by (simp add: standsDown_def onShortlist_def vehicleKey_def)
  show "floor_step s s'"
  proof (rule vehicles_write_step [OF ok s'])
    show "vh_id (?g v) = vh_id v \<and> vehicleKey (?g v) = vehicleKey v" for v by (simp add: statusChange_def vehicleKey_def)
    show "v = w" if vw: "v \<in> set (opportunity_vehicles s)" "w \<in> set (opportunity_vehicles s)" "vehicleKey v = vehicleKey w"
      "vh_status (?g v) = VI_selected" "vh_status (?g w) = VI_selected" for v w
    proof (rule ccontr)
      assume neq: "v \<noteq> w"
      have other: "vh_status x = VI_selected \<and> \<not> (st = VI_selected \<and> standsDown tenant oid vid x)"
        if "vh_status (?g x) = VI_selected" "x \<noteq> cur" for x
        using that by (auto simp: statusChange_def split: if_splits)
      have driveClash: False if "x \<noteq> cur" "x \<in> set (opportunity_vehicles s)" "vehicleKey x = vehicleKey cur" "vh_status (?g x) = VI_selected"
        "vh_status (?g cur) = VI_selected" for x
      proof -
        have "st = VI_selected" using that(5) by (simp add: statusChange_def)
        moreover have "vh_id x \<noteq> pgUuid vid"
          using distinct_map_eq [of vh_id "opportunity_vehicles s" x cur] ok(2) found that(1,2) by (auto simp: vehicles_ok_def)
        ultimately show False using other [OF that(4,1)] that(3) key by (simp add: standsDown_def onShortlist_def vehicleKey_def)
      qed
      show False
      proof (cases "v = cur \<or> w = cur")
        case True
        with driveClash [of w] driveClash [of v] vw neq show False by auto
      next
        case False
        with other [OF vw(4)] other [OF vw(5)] ok(2) vw(1-3) neq show False by (auto simp: vehicles_ok_def)
      qed
    qed
    show "(vh_status (?g v) = VI_selected \<longleftrightarrow> vh_status v = VI_selected) \<and> (vh_status v = VI_selected \<longrightarrow> ?g v = v)"
      if "v \<in> set (opportunity_vehicles s)" "r \<in> set (opportunities s)" "concluded r" "vehicleKey v = keyOf r" for v r
      using concluded_elsewhere [OF ok(1) o1 that(2,3)] key down [of v] that(4) by (auto simp: statusChange_def)
  qed (use s'(2) in \<open>simp_all add: sframe_def\<close>)
qed

lemma vehicleStatusBody_step:
  "pipeline_ok s \<Longrightarrow> vehicles_ok s \<Longrightarrow> yields (vehicleStatusBody tenant user oid vid n st why s) (floor_step s)"
  unfolding vehicleStatusBody_def
  by (intro yields_intros) (auto simp: floor_step_refl elim!: open_answerE intro: writeVehicleStatus_step yields_Inr)

section \<open>Drives, activities, rounds and turnovers\<close>

lemma work_step_add:
  assumes ok: "pipeline_ok s" "vehicles_ok s" and o1: "find (opportunityHere tenant oid) (opportunities s) = Some o1" "\<not> concluded o1"
    and s': "sframe {S_demos, S_rest} s s'" "demonstrations s' = demonstrations s @ ds"
      "opportunity_activities s' = opportunity_activities s @ as" "negotiation_rounds s' = negotiation_rounds s @ rs"
      "manager_turnovers s' = manager_turnovers s @ ms"
    and keys: "\<forall>d \<in> set ds. (dm_tenant d, dm_opportunity d) = (tenant, pgUuid oid)"
      "\<forall>a \<in> set as. (oy_tenant a, oy_opportunity a) = (tenant, pgUuid oid)"
      "\<forall>r \<in> set rs. (nr_tenant r, nr_opportunity r) = (tenant, pgUuid oid)"
      "\<forall>m \<in> set ms. (mt_tenant m, mt_opportunity m) = (tenant, pgUuid oid)"
  shows "floor_step s s'"
proof (rule floor_step_work [OF ok s'(1)])
  fix k assume "k \<in> keyOf ` {r \<in> set (opportunities s). concluded r}"
  then have k: "k \<noteq> (tenant, pgUuid oid)" by (rule work_elsewhere [OF ok(1) o1])
  have "opportunity_vehicles s' = opportunity_vehicles s" using s'(1) by (simp add: sframe_def)
  moreover have "filter (\<lambda>d. (dm_tenant d, dm_opportunity d) = k) ds = []" "filter (\<lambda>a. (oy_tenant a, oy_opportunity a) = k) as = []"
    "filter (\<lambda>r. (nr_tenant r, nr_opportunity r) = k) rs = []" "filter (\<lambda>m. (mt_tenant m, mt_opportunity m) = k) ms = []"
    using keys k by (auto simp: filter_empty_conv)
  ultimately show "childrenOf k s' = childrenOf k s" by (simp add: childrenOf_def s'(2-5))
qed

lemma issueDemonstrationWithin_step:
  assumes "pipeline_ok s" "vehicles_ok s"
  shows "yields (issueDemonstrationWithin e tenant user oid i s) (floor_step s)"
  unfolding issueDemonstrationWithin_def Let_def
  by (intro yields_intros)
    (auto simp: floor_step_refl assms issueRow_def sframe_def elim!: open_answerE intro!: work_step_add [OF assms, of tenant oid])

lemma logSalesActivityWithin_step:
  assumes "pipeline_ok s" "vehicles_ok s"
  shows "yields (logSalesActivityWithin e tenant user oid i s) (floor_step s)"
proof -
  have "yields (writeSalesActivity e tenant actor oid kind dir subject bodyText due s) (floor_step s)"
    if "find (opportunityHere tenant oid) (opportunities s) = Some o1" "\<not> concluded o1" for actor kind dir subject bodyText due o1
    unfolding writeSalesActivity_def Let_def
    by (intro yields_intros work_step_add [OF assms that]) (auto simp: sframe_def)
  then show ?thesis
    unfolding logSalesActivityWithin_def Let_def
    by (intro yields_intros) (auto simp: floor_step_refl assms elim!: open_answerE)
qed

lemma roundBody_step:
  assumes "pipeline_ok s" "vehicles_ok s"
  shows "yields (roundBody e tenant user oid who text mgr out s) (floor_step s)"
  unfolding roundBody_def Let_def
  by (intro yields_intros) (auto simp: floor_step_refl assms sframe_def intro!: work_step_add [OF assms, of tenant oid])

lemma turnoverBody_step:
  assumes "pipeline_ok s" "vehicles_ok s"
  shows "yields (turnoverBody e tenant user oid m why vid nt s) (floor_step s)"
  unfolding turnoverBody_def Let_def
  by (intro yields_intros)
    (auto simp: floor_step_refl assms sframe_def elim!: open_answerE intro!: work_step_add [OF assms, of tenant oid] split: option.split)

lemma closeSalesBody_step:
  assumes "pipeline_ok s" "vehicles_ok s"
  shows "yields (closeSalesBody e tenant user oid aid n st why nt s) (floor_step s)"
proof -
  have "floor_step s (recorded a b c d x (s\<lparr>opportunity_activities := update_where P f (opportunity_activities s)\<rparr>))"
    if "\<And>y. oy_id (f y) = oy_id y" "\<And>y. oy_tenant (f y) = oy_tenant y" "\<And>y. oy_opportunity (f y) = oy_opportunity y" for a b c d x P f
  proof (rule floor_step_work [OF assms])
    have "map oy_id (filter (\<lambda>y. (oy_tenant y, oy_opportunity y) = k) (update_where P f (opportunity_activities s))) =
        map oy_id (filter (\<lambda>y. (oy_tenant y, oy_opportunity y) = k) (opportunity_activities s))" for k
      unfolding update_where_def using that by (intro map_filter_kept) auto
    then show "childrenOf k (recorded a b c d x (s\<lparr>opportunity_activities := update_where P f (opportunity_activities s)\<rparr>)) = childrenOf k s" for k
      by (simp add: childrenOf_def)
  qed (simp add: sframe_def)
  then show ?thesis
    unfolding closeSalesBody_def Let_def by (intro yields_intros) (simp_all add: floor_step_refl assms)
qed

text \<open>The four moves of a drive.\<close>

definition driveSame :: "demonstration \<Rightarrow> demonstration \<Rightarrow> bool" where
  "driveSame d d' =
     (dm_id d' = dm_id d \<and> dm_tenant d' = dm_tenant d \<and> dm_rooftop d' = dm_rooftop d \<and> dm_opportunity d' = dm_opportunity d
      \<and> dm_stock d' = dm_stock d \<and> dm_visit d' = dm_visit d \<and> dm_driver d' = dm_driver d \<and> dm_escort d' = dm_escort d
      \<and> dm_licence d' = dm_licence d \<and> dm_issued d' = dm_issued d)"

lemma updateDemo_ids:
  assumes "updateDemo tenant did n cur f s = Inr s'" "\<And>d. driveSame d (f d)"
  shows "map dm_id (filter (\<lambda>d. (dm_tenant d, dm_opportunity d) = k) (demonstrations s')) =
     map dm_id (filter (\<lambda>d. (dm_tenant d, dm_opportunity d) = k) (demonstrations s))"
proof -
  have "demonstrations s' = map (\<lambda>d. if demoHere tenant did d \<and> dm_version d = n then f d else d) (demonstrations s)"
    using assms(1) by (auto simp: updateDemo_def update_where_def)
  then show ?thesis using assms(2) by (simp add: map_filter_kept driveSame_def)
qed

lemma demo_move_step:
  assumes ok: "pipeline_ok s" "vehicles_ok s" and up: "updateDemo tenant did n cur f s = Inr s1" "\<And>d. driveSame d (f d)"
    and s': "sframe {} s1 s'"
  shows "floor_step s s'"
proof (rule floor_step_work [OF ok])
  show "sframe {S_demos, S_rest} s s'"
    using sframe_trans [OF updateDemo_sframe [OF up(1), of "{S_demos, S_rest}"] sframe_mono [OF s']] by simp
  have "opportunity_vehicles s1 = opportunity_vehicles s" "opportunity_activities s1 = opportunity_activities s"
    "negotiation_rounds s1 = negotiation_rounds s" "manager_turnovers s1 = manager_turnovers s"
    using updateDemo_sframe [OF up(1), of "{S_demos}"] by (simp_all add: sframe_def)
  then show "childrenOf k s' = childrenOf k s" for k
    using s' updateDemo_ids [OF up, of k] by (simp add: childrenOf_def sframe_def)
qed

lemma markDriven_step:
  assumes ok: "pipeline_ok s" "vehicles_ok s" and up: "updateDemo tenant did n cur f s = Inr s1" "\<And>d. driveSame d (f d)"
    and s': "s' = recorded a b c x y (markDriven tenant oid k actor s2)" "sframe {} s1 s2"
  shows "floor_step s s'"
proof -
  have fr: "sframe {S_demos, S_vehicles} s s1" using up(1) by (rule updateDemo_sframe) simp
  then have vs: "opportunity_vehicles s2 = opportunity_vehicles s" using s'(2) up(1) by (auto simp: sframe_def updateDemo_def)
  have "sframe {S_demos, S_vehicles} s s2" using sframe_trans [OF fr sframe_mono [OF s'(2)]] by simp
  then have fr': "sframe {S_demos, S_vehicles} s s'" unfolding s'(1) by (simp add: sframe_markDriven)
  have rows: "opportunity_vehicles s' = map (\<lambda>v. if droveIt tenant oid k v
      then v\<lparr>vh_status := VI_demonstrated, vh_version := vh_version v + 1\<rparr> else v) (opportunity_vehicles s)"
    unfolding s'(1) by (simp add: markDriven_vehicles vs)
  have "demonstrations (markDriven tenant oid k actor s2) = demonstrations s2"
    using sframe_markDriven [of "{S_vehicles}" s2 s2 tenant oid k actor] by (simp add: sframe_def)
  then have "demonstrations s' = demonstrations s1" using s' by (simp add: sframe_def)
  then show ?thesis
    using updateDemo_ids [OF up] ok(2)
    by (intro vehicles_write_step [OF ok rows fr']) (auto simp: droveIt_def vehicleKey_def vehicles_ok_def split: if_splits)
qed

lemma floor_transaction:
  "pipeline_ok s \<Longrightarrow> vehicles_ok s \<Longrightarrow> yields (body s) (floor_step s) \<Longrightarrow> floor_step s (snd (withTenantTransaction body s))"
  by (rule yields_transaction) (simp_all add: floor_step_refl)

lemma startDemonstration_step:
  assumes "pipeline_ok s" "vehicles_ok s"
  shows "floor_step s (snd (startDemonstration e tenant user oid did n s))"
  unfolding startDemonstration_def
  by (intro floor_transaction assms demoGate_yields yields_intros)
    (auto simp: floor_step_refl assms driveSame_def intro: demo_move_step [OF assms])

lemma cancelDemonstration_step:
  assumes "pipeline_ok s" "vehicles_ok s"
  shows "floor_step s (snd (cancelDemonstration e tenant user oid did n why s))"
  unfolding cancelDemonstration_def
  by (intro floor_transaction assms demoGate_yields yields_intros)
    (auto simp: floor_step_refl assms driveSame_def intro: demo_move_step [OF assms])

lemma recordDemonstrationException_step:
  assumes "pipeline_ok s" "vehicles_ok s"
  shows "floor_step s (snd (recordDemonstrationException e tenant user oid did n kind notes s))"
  unfolding recordDemonstrationException_def
  by (intro floor_transaction assms demoGate_yields yields_intros)
    (auto simp: floor_step_refl assms driveSame_def intro: demo_move_step [OF assms])

lemma returnDemonstration_step:
  assumes "pipeline_ok s" "vehicles_ok s"
  shows "floor_step s (snd (returnDemonstration e tenant user oid did n ans notes s))"
  unfolding returnDemonstration_def
  by (intro floor_transaction assms demoGate_yields yields_intros)
    (auto simp: floor_step_refl assms driveSame_def intro: markDriven_step [OF assms _ _ refl])

section \<open>Every command\<close>

lemma pipe_transaction: "pipeline_ok s \<Longrightarrow> yields (body s) (pipe_step s) \<Longrightarrow> pipe_step s (snd (withTenantTransaction body s))"
  by (rule yields_transaction) (simp_all add: pipe_step_refl)

lemma sales_exec_step:
  assumes ok: "pipeline_ok s" "vehicles_ok s" and fresh: "sales_fresh e s"
  shows "floor_step s (sales_exec e tenant user q s)"
proof (cases "S_pipeline \<in> sales_writes q")
  case True
  have "pipe_step s (sales_exec e tenant user q s)"
    using True ok(1) fresh by (cases q)
      (auto simp: receiveHandoff_def openWalkIn_def acceptOpportunity_def assignOpportunity_def moveOpportunityStage_def pipe_step_refl
        split: option.split
        intro!: pipe_transaction receiveHandoffWithin_step openWalkInWithin_step acceptBody_step assignOpportunityBody_step moveStageBody_step)
  moreover have "sframe {S_pipeline, S_floor, S_visits} s (sales_exec e tenant user q s)"
    using sales_exec_frame [of q s e tenant user] by (rule sframe_mono) (use True in \<open>cases q; simp\<close>)
  ultimately show ?thesis using floor_step_pipeline ok(2) by blast
next
  case False
  show ?thesis
  proof (cases "sales_writes q \<subseteq> {S_floor, S_visits}")
    case True
    then show ?thesis using sframe_mono [OF sales_exec_frame] by (intro floor_step_outside [OF ok])
  next
    case other: False
    with False show ?thesis
      by (cases q)
        (auto simp: shortlistVehicle_def setVehicleStatus_def issueDemonstration_def logSalesActivity_def closeSalesActivity_def
          recordNegotiationRound_def recordTurnover_def floor_step_refl ok Let_def split: option.split
          intro!: floor_transaction [OF ok] shortlistVehicleWithin_step [OF ok fresh] vehicleStatusBody_step [OF ok]
          issueDemonstrationWithin_step [OF ok] startDemonstration_step [OF ok] returnDemonstration_step [OF ok]
          cancelDemonstration_step [OF ok] recordDemonstrationException_step [OF ok] logSalesActivityWithin_step [OF ok]
          closeSalesBody_step [OF ok] roundBody_step [OF ok] turnoverBody_step [OF ok])
  qed
qed

lemma factsOf_keys: "map factKey (factsOf k s) = filter (\<lambda>h. (dh_tenant h, dh_opportunity h) = k) (map factKey (handoffs (desk (crm s))))"
  by (simp add: factsOf_def filter_map o_def factKey_def)

lemma others_step:
  assumes ok: "pipeline_ok s" "vehicles_ok s" and same: "sameSales s s'"
  shows "floor_step s s'"
proof -
  have tables: "opportunities s' = opportunities s" "stage_moves s' = stage_moves s" "opportunity_assignments s' = opportunity_assignments s"
    "opportunity_vehicles s' = opportunity_vehicles s" and facts: "map factKey (handoffs (desk (crm s'))) = map factKey (handoffs (desk (crm s)))"
    using same by (simp_all add: sameSales_def)
  have keys: "map factKey (factsOf k s') = map factKey (factsOf k s)" for k unfolding factsOf_keys facts ..
  have fits: "factFits r c (factKey h) = factFits r c h" for r c h by (simp add: factFits_def factKey_def)
  have "explained s' r" if "r \<in> set (opportunities s)" for r
  proof -
    have "(\<exists>h. factsOf (keyOf r) s' = [h] \<and> factFits r c h) = (\<exists>h. factsOf (keyOf r) s = [h] \<and> factFits r c h)" for c
      using keys [of "keyOf r"] fits by (auto simp: Cons_eq_map_conv map_eq_Cons_conv) metis+
    moreover have "(factsOf (keyOf r) s' = []) = (factsOf (keyOf r) s = [])" using keys [of "keyOf r"] by (metis map_is_Nil_conv)
    moreover have "movesOf k s' = movesOf k s" "ownersOf k s' = ownersOf k s" "carOf k s' = carOf k s" for k
      by (simp_all add: movesOf_def ownersOf_def carOf_def tables)
    ultimately show ?thesis using pipeline_row [OF ok(1) that] by (simp add: explained_def)
  qed
  moreover have "(dh_tenant h, dh_opportunity h) \<in> keyOf ` set (opportunities s)" if "h \<in> set (handoffs (desk (crm s')))" for h
  proof -
    have "factKey h \<in> factKey ` set (handoffs (desk (crm s)))" using that facts by (metis image_eqI set_map)
    then obtain h0 where "h0 \<in> set (handoffs (desk (crm s)))" "factKey h = factKey h0" by auto
    moreover from this(2) have "(dh_tenant h, dh_opportunity h) = (dh_tenant h0, dh_opportunity h0)"
      by (auto simp: factKey_def dest: arg_cong [where f = dh_tenant] arg_cong [where f = dh_opportunity])
    ultimately show ?thesis using ok(1) by (auto simp: pipeline_ok_def)
  qed
  ultimately have "pipeline_ok s'" using ok(1) by (simp add: pipeline_ok_def tables)
  moreover have "pipeMove s s'" unfolding pipeMove_def tables using opMove_refl by blast
  moreover have "noNewWork s s'" using same by (intro noNewWork_same) (simp_all add: sameSales_def)
  ultimately show ?thesis using ok(2) by (simp add: floor_step_def pipe_step_def vehicles_ok_def tables)
qed

definition workMove :: "sales_db \<Rightarrow> sales_db \<Rightarrow> bool" where
  "workMove s s' = (pipeMove s s' \<and> noNewWork s s')"

lemma concluded_stays: "pipeMove s s' \<Longrightarrow> r \<in> set (opportunities s) \<Longrightarrow> concluded r \<Longrightarrow> r \<in> set (opportunities s')"
  unfolding pipeMove_def opMove_def by metis

lemma workMove_trans: "workMove s1 s2 \<Longrightarrow> workMove s2 s3 \<Longrightarrow> workMove s1 s3"
  unfolding workMove_def noNewWork_def using pipeMove_trans concluded_stays by metis

lemma floor_step_parts: "floor_step s s' \<longleftrightarrow> (pipeline_ok s' \<and> vehicles_ok s') \<and> workMove s s'"
  by (auto simp: floor_step_def pipe_step_def workMove_def)

interpretation pipeline: traced "\<lambda>s. pipeline_ok s \<and> vehicles_ok s" workMove
proof
  fix s s' s1 s2 s3 e tenant user q
  show "pipeline_ok (sales_exec e tenant user q s) \<and> vehicles_ok (sales_exec e tenant user q s)"
    "workMove s (sales_exec e tenant user q s)" if "pipeline_ok s \<and> vehicles_ok s" "sales_fresh e s"
    using sales_exec_step [of s e tenant user q] that unfolding floor_step_parts by blast+
  show "pipeline_ok s' \<and> vehicles_ok s'" if "pipeline_ok s \<and> vehicles_ok s" "sameSales s s'"
    using others_step [of s s'] that unfolding floor_step_parts by blast
  show "workMove s1 s3" if "workMove s1 s2" "workMove s2 s3" using that by (rule workMove_trans)
  show "workMove s s'" if "sameSales s s'"
  proof -
    have "pipeMove s s'" unfolding pipeMove_def using that opMove_refl by (metis sameSales_def)
    moreover have "noNewWork s s'" using that by (intro noNewWork_same) (simp_all add: sameSales_def)
    ultimately show ?thesis by (simp add: workMove_def)
  qed
qed

lemma sales_initial_ok: "sales_initial s \<Longrightarrow> pipeline_ok s \<and> vehicles_ok s"
  by (simp add: sales_initial_def pipeline_ok_def vehicles_ok_def)

end
