(* ===== verification/SalesPlaces.thy ===== *)
theory SalesPlaces
  imports SalesWork
begin

text \<open>
  Who and what is where: one car, one driver and one accompanying salesperson are on one drive at a
  time, one customer is in one visit at a time, and what is over is never written again.
\<close>

section \<open>Drives\<close>

definition driveClash :: "demonstration \<Rightarrow> demonstration \<Rightarrow> bool" where
  "driveClash d d' = (d \<noteq> d' \<and> dm_tenant d = dm_tenant d' \<and> keysOut d \<and> keysOut d'
     \<and> (dm_stock d = dm_stock d' \<or> dm_driver d = dm_driver d' \<or> dm_escort d = dm_escort d'))"

definition demos_ok :: "sales_db \<Rightarrow> bool" where
  "demos_ok s =
     (distinct (map dm_id (demonstrations s)) \<and> (\<forall>d \<in> set (demonstrations s). dm_licence d)
      \<and> (\<forall>d \<in> set (demonstrations s). \<forall>d' \<in> set (demonstrations s). \<not> driveClash d d'))"

definition driveMove :: "demonstration \<Rightarrow> demonstration \<Rightarrow> bool" where
  "driveMove d d' = (driveSame d d' \<and> (\<not> keysOut d \<longrightarrow> d' = d))"

definition demosMove :: "sales_db \<Rightarrow> sales_db \<Rightarrow> bool" where
  "demosMove s s' = (\<forall>d \<in> set (demonstrations s). \<exists>d' \<in> set (demonstrations s'). driveMove d d')"

definition drive_step :: "sales_db \<Rightarrow> sales_db \<Rightarrow> bool" where
  "drive_step s s' = (demos_ok s' \<and> demosMove s s')"

lemma driveMove_refl [simp]: "driveMove d d"
  by (simp add: driveMove_def driveSame_def)

lemma driveMove_trans: "driveMove a b \<Longrightarrow> driveMove b c \<Longrightarrow> driveMove a c"
  by (auto simp: driveMove_def driveSame_def)

lemma demosMove_trans: "demosMove s1 s2 \<Longrightarrow> demosMove s2 s3 \<Longrightarrow> demosMove s1 s3"
  unfolding demosMove_def by (meson driveMove_trans)

lemma drive_step_same: "demos_ok s \<Longrightarrow> demonstrations s' = demonstrations s \<Longrightarrow> drive_step s s'"
  unfolding drive_step_def demosMove_def using driveMove_refl by (metis demos_ok_def)

lemma drive_step_add:
  assumes ok: "demos_ok s" and s': "demonstrations s' = demonstrations s @ [row]"
    and row: "dm_id row \<notin> dm_id ` set (demonstrations s)" "dm_licence row" "\<And>d. d \<in> set (demonstrations s) \<Longrightarrow> \<not> driveClash d row"
  shows "drive_step s s'"
proof -
  have "\<not> driveClash row row" "driveClash row d \<Longrightarrow> driveClash d row" for d by (auto simp: driveClash_def)
  then have "\<not> driveClash d d'" if "d \<in> set (demonstrations s')" "d' \<in> set (demonstrations s')" for d d'
    using that ok row(3) unfolding demos_ok_def s' by (metis rotate1.simps(2) set_ConsD set_rotate1)
  then have "demos_ok s'" using ok row(1,2) unfolding demos_ok_def by (simp add: s')
  moreover have "demosMove s s'" unfolding demosMove_def s' using driveMove_refl by fastforce
  ultimately show ?thesis by (simp add: drive_step_def)
qed

lemma updateDemo_step:
  assumes ok: "demos_ok s" and cur: "demoThroughParent tenant oid did s = Some cur" "dm_version cur = n" "keysOut cur"
    and up: "updateDemo tenant did n cur f s = Inr s1" "\<And>d. driveSame d (f d)" and s': "demonstrations s' = demonstrations s1"
  shows "drive_step s s'"
proof -
  have found: "cur \<in> set (demonstrations s)" "demoHere tenant did cur"
    using cur(1) by (auto simp: demoThroughParent_def split: option.splits if_splits dest: find_SomeD)
  have same: "d = cur" if "d \<in> set (demonstrations s)" "demoHere tenant did d" for d
    using distinct_map_eq [of dm_id "demonstrations s" d cur] ok found that by (simp add: demos_ok_def demoHere_def)
  let ?g = "\<lambda>d. if d = cur then f cur else d"
  have rows: "demonstrations s' = map ?g (demonstrations s)"
  proof -
    have s1: "demonstrations s1 = update_where (\<lambda>d. demoHere tenant did d \<and> dm_version d = n) f (demonstrations s)"
      using up(1) by (auto simp: updateDemo_def)
    have "demoHere tenant did d \<and> dm_version d = n \<longleftrightarrow> d = cur" if "d \<in> set (demonstrations s)" for d
      using same [OF that] found(2) cur(2) by metis
    then show ?thesis unfolding s' s1 by (rule update_where_one)
  qed
  have g: "driveMove d (?g d)" for d using up(2) cur(3) by (simp add: driveMove_def driveSame_def)
  have "map dm_id (demonstrations s') = map dm_id (demonstrations s)" using up(2) [of cur] by (simp add: rows driveSame_def)
  then have "distinct (map dm_id (demonstrations s'))" using ok by (simp only: demos_ok_def)
  moreover have "dm_licence (?g d)" if "d \<in> set (demonstrations s)" for d
    using that ok up(2) [of cur] found(1) by (simp add: demos_ok_def driveSame_def)
  moreover have "\<not> driveClash (?g d) (?g d')" if "d \<in> set (demonstrations s)" "d' \<in> set (demonstrations s)" for d d'
  proof
    assume "driveClash (?g d) (?g d')"
    with up(2) [of cur] cur(3) have "driveClash d d'" by (auto simp: driveClash_def driveSame_def split: if_splits)
    with ok that show False by (simp add: demos_ok_def)
  qed
  ultimately have "demos_ok s'" unfolding demos_ok_def rows set_map by blast
  moreover have "demosMove s s'" unfolding demosMove_def rows set_map using g by blast
  ultimately show ?thesis by (simp add: drive_step_def)
qed

lemma markDriven_demos [simp]: "demonstrations (markDriven tenant oid k actor s) = demonstrations s"
  using sframe_markDriven [of "{S_vehicles}" s s tenant oid k actor] by (simp add: sframe_def)

lemma drive_transaction: "demos_ok s \<Longrightarrow> yields (body s) (drive_step s) \<Longrightarrow> drive_step s (snd (withTenantTransaction body s))"
  by (rule yields_transaction) (simp_all add: drive_step_same)

lemma keysOut_active: "dm_state d \<in> set ACTIVE_DEMONSTRATION_STATES \<longleftrightarrow> keysOut d"
  by (simp add: ACTIVE_DEMONSTRATION_STATES_def keysOut_def)

lemma issueDemonstrationWithin_drive:
  assumes ok: "demos_ok s" and fresh: "sales_fresh e s"
  shows "yields (issueDemonstrationWithin e tenant user oid i s) (drive_step s)"
proof -
  have new: "drawn e 0 \<notin> dm_id ` set (demonstrations s)" using fresh salesIds_rows(6) by (metis imageE sales_fresh_def)
  have "drive_step s s'" if "demoConflict tenant (ii_stock i) (ii_driver i) escort s = None"
    "demonstrations s' = demonstrations s @ [issueRow (drawn e 0) t tenant rt oid escort i]" for s' escort t rt
    using that(1) new
    by (intro drive_step_add [OF ok that(2)])
      (auto simp: issueRow_def driveClash_def demoConflict_def Let_def list_ex_iff split: if_splits)
  then show ?thesis
    unfolding issueDemonstrationWithin_def Let_def
    by (intro yields_intros) (simp_all add: ok drive_step_same)
qed

lemma drive_moves:
  assumes ok: "demos_ok s"
  shows "drive_step s (snd (startDemonstration e tenant user oid did n s))"
    "drive_step s (snd (returnDemonstration e tenant user oid did n ans notes s))"
    "drive_step s (snd (cancelDemonstration e tenant user oid did n why s))"
    "drive_step s (snd (recordDemonstrationException e tenant user oid did n kind notes s))"
  unfolding startDemonstration_def returnDemonstration_def cancelDemonstration_def recordDemonstrationException_def
  by ((intro drive_transaction demoGate_yields yields_intros ok,
      auto simp: ok drive_step_same keysOut_active driveSame_def intro!: updateDemo_step [OF ok] simp: keysOut_def) [1])+

lemma sales_exec_drives:
  assumes "demos_ok s" "sales_fresh e s"
  shows "drive_step s (sales_exec e tenant user q s)"
proof (cases "S_demos \<in> sales_writes q")
  case True
  then show ?thesis
    using assms by (cases q) (auto simp: issueDemonstration_def drive_moves intro!: drive_transaction issueDemonstrationWithin_drive)
next
  case False
  then show ?thesis using sales_exec_frame [of q s e tenant user] by (intro drive_step_same assms) (simp add: sframe_def)
qed

interpretation drives: traced demos_ok demosMove
proof
  fix s s' s1 s2 s3 e tenant user q
  show "demos_ok (sales_exec e tenant user q s)" "demosMove s (sales_exec e tenant user q s)" if "demos_ok s" "sales_fresh e s"
    using sales_exec_drives [OF that] unfolding drive_step_def by blast+
  show "demos_ok s'" if "demos_ok s" "sameSales s s'" using that by (simp add: demos_ok_def sameSales_def)
  show "demosMove s1 s3" if "demosMove s1 s2" "demosMove s2 s3" using that by (rule demosMove_trans)
  show "demosMove s s'" if "sameSales s s'" unfolding demosMove_def using that driveMove_refl by (metis sameSales_def)
qed

section \<open>Visits\<close>

definition twiceHere :: "showroom_visit \<Rightarrow> showroom_visit \<Rightarrow> bool" where
  "twiceHere v w = (v \<noteq> w \<and> vi_tenant v = vi_tenant w \<and> vi_party v = vi_party w \<and> vi_state v \<noteq> VS_departed \<and> vi_state w \<noteq> VS_departed)"

definition visits_ok :: "sales_db \<Rightarrow> bool" where
  "visits_ok s =
     (distinct (map vi_id (showroom_visits s))
      \<and> (\<forall>v \<in> set (showroom_visits s). visitRowOk v \<and> (vi_state v = VS_arrived \<longrightarrow> vi_greeted v = None))
      \<and> (\<forall>v \<in> set (showroom_visits s). \<forall>w \<in> set (showroom_visits s). \<not> twiceHere v w))"

definition visitMove :: "showroom_visit \<Rightarrow> showroom_visit \<Rightarrow> bool" where
  "visitMove v v' =
     (vi_id v' = vi_id v \<and> vi_tenant v' = vi_tenant v \<and> vi_rooftop v' = vi_rooftop v \<and> vi_party v' = vi_party v
      \<and> vi_opportunity v' = vi_opportunity v \<and> vi_appointment v' = vi_appointment v \<and> vi_arrived v' = vi_arrived v
      \<and> (vi_state v = VS_departed \<longrightarrow> v' = v))"

definition visitsMove :: "sales_db \<Rightarrow> sales_db \<Rightarrow> bool" where
  "visitsMove s s' = (\<forall>v \<in> set (showroom_visits s). \<exists>v' \<in> set (showroom_visits s'). visitMove v v')"

definition visit_step :: "sales_db \<Rightarrow> sales_db \<Rightarrow> bool" where
  "visit_step s s' = (visits_ok s' \<and> visitsMove s s')"

lemma visitMove_refl [simp]: "visitMove v v"
  by (simp add: visitMove_def)

lemma visitMove_trans: "visitMove a b \<Longrightarrow> visitMove b c \<Longrightarrow> visitMove a c"
  by (auto simp: visitMove_def)

lemma visitsMove_trans: "visitsMove s1 s2 \<Longrightarrow> visitsMove s2 s3 \<Longrightarrow> visitsMove s1 s3"
  unfolding visitsMove_def by (meson visitMove_trans)

lemma visit_step_same: "visits_ok s \<Longrightarrow> showroom_visits s' = showroom_visits s \<Longrightarrow> visit_step s s'"
  unfolding visit_step_def visitsMove_def using visitMove_refl by (metis visits_ok_def)

lemma visit_step_add:
  assumes ok: "visits_ok s" and s': "showroom_visits s' = showroom_visits s @ [row]"
    and row: "vi_id row \<notin> vi_id ` set (showroom_visits s)" "visitRowOk row" "vi_greeted row = None"
      "\<And>v. v \<in> set (showroom_visits s) \<Longrightarrow> \<not> twiceHere v row"
  shows "visit_step s s'"
proof -
  have "\<not> twiceHere row row" "twiceHere row v \<Longrightarrow> twiceHere v row" for v by (auto simp: twiceHere_def)
  then have "\<not> twiceHere v w" if "v \<in> set (showroom_visits s')" "w \<in> set (showroom_visits s')" for v w
    using that ok row(4) unfolding visits_ok_def s' by (metis rotate1.simps(2) set_ConsD set_rotate1)
  then have "visits_ok s'" using ok row(1-3) unfolding visits_ok_def by (auto simp: s')
  moreover have "visitsMove s s'" unfolding visitsMove_def s' using visitMove_refl by fastforce
  ultimately show ?thesis by (simp add: visit_step_def)
qed

lemma updateVisit_step:
  assumes ok: "visits_ok s" and cur: "find (visitHere tenant vid) (showroom_visits s) = Some cur" "vi_version cur = n" "vi_state cur \<noteq> VS_departed"
    and up: "updateVisit tenant vid n cur f s1 = Inr s2" "showroom_visits s1 = showroom_visits s" "showroom_visits s' = showroom_visits s2"
    and f: "visitMove cur (f cur)" "vi_state (f cur) \<noteq> VS_arrived"
  shows "visit_step s s'"
proof -
  have found: "cur \<in> set (showroom_visits s)" "visitHere tenant vid cur" using find_SomeD [OF cur(1)] by simp_all
  have same: "v = cur" if "v \<in> set (showroom_visits s)" "visitHere tenant vid v" for v
    using distinct_map_eq [of vi_id "showroom_visits s" v cur] ok found that by (simp add: visits_ok_def visitHere_def)
  let ?g = "\<lambda>v. if v = cur then f cur else v"
  have rows: "showroom_visits s' = map ?g (showroom_visits s)"
  proof -
    have s2: "showroom_visits s2 = update_where (\<lambda>v. visitHere tenant vid v \<and> vi_version v = n) f (showroom_visits s)"
      using up(1,2) by (auto simp: updateVisit_def)
    have "visitHere tenant vid v \<and> vi_version v = n \<longleftrightarrow> v = cur" if "v \<in> set (showroom_visits s)" for v
      using same [OF that] found(2) cur(2) by metis
    then show ?thesis unfolding up(3) s2 by (rule update_where_one)
  qed
  have row: "visitRowOk (f cur)" using up(1) by (auto simp: updateVisit_def)
  have "map vi_id (showroom_visits s') = map vi_id (showroom_visits s)" using f(1) by (simp add: rows visitMove_def)
  then have "distinct (map vi_id (showroom_visits s'))" using ok by (simp only: visits_ok_def)
  moreover have "visitRowOk (?g v) \<and> (vi_state (?g v) = VS_arrived \<longrightarrow> vi_greeted (?g v) = None)" if "v \<in> set (showroom_visits s)" for v
    using that ok row f(2) by (simp add: visits_ok_def)
  moreover have "\<not> twiceHere (?g v) (?g w)" if "v \<in> set (showroom_visits s)" "w \<in> set (showroom_visits s)" for v w
  proof
    assume "twiceHere (?g v) (?g w)"
    with f(1) cur(3) have "twiceHere v w" by (auto simp: twiceHere_def visitMove_def split: if_splits)
    with ok that show False by (simp add: visits_ok_def)
  qed
  ultimately have "visits_ok s'" unfolding visits_ok_def rows set_map ball_simps by blast
  moreover have "visitMove v (?g v)" for v using f(1) by simp
  then have "visitsMove s s'" unfolding visitsMove_def rows set_map by blast
  ultimately show ?thesis by (simp add: visit_step_def)
qed

lemma checkInWithin_visit:
  assumes ok: "visits_ok s" and fresh: "sales_fresh e s"
  shows "yields (checkInWithin e tenant user r p oid aid s) (visit_step s)"
proof -
  have new: "drawn e 0 \<notin> vi_id ` set (showroom_visits s)" using fresh salesIds_rows(5) by (metis imageE sales_fresh_def)
  have add: "visit_step s (snd (writeArrival e tenant actor r p oid aid s1))"
    if "find (inTheBuilding tenant (pgUuid p)) (showroom_visits s) = None" "showroom_visits s1 = showroom_visits s" for actor aid s1
    using that new
    by (intro visit_step_add [OF ok, where row = "arrivalRow (drawn e 0) (clock e) tenant r p oid aid"])
      (auto simp: writeArrival_def Let_def arrivalRow_def visitRowOk_def twiceHere_def inTheBuilding_def find_None_notin)
  have keep: "showroom_visits s1 = showroom_visits s" if "keepAppointment e tenant actor r p a s = Inr (x, s1)" for actor a x s1
    using yieldsD [OF keepAppointment_sframe that] by (simp add: sframe_def)
  have "yields (Inr (writeArrival e tenant actor r p oid aid s1)) (visit_step s)"
    if "find (inTheBuilding tenant (pgUuid p)) (showroom_visits s) = None" "showroom_visits s1 = showroom_visits s" for actor aid s1
    using add [OF that, of actor aid] by (auto simp: yields_def dest: arg_cong [where f = snd])
  then show ?thesis
    unfolding checkInWithin_def
    by (intro yields_intros) (simp_all add: ok visit_step_same keep)
qed

lemma greetBody_visit: "visits_ok s \<Longrightarrow> yields (greetBody e tenant user vid n named s) (visit_step s)"
proof -
  assume ok: "visits_ok s"
  have same: "showroom_visits s1 = showroom_visits s" if "greeterFor e tenant r named s = (a, s1)" for r a s1
    using that by (auto simp: greeterFor_def takeNextTurnWithin_def claimNamedTurnWithin_def takeTurnOf_def
        split: option.splits if_splits prod.splits ClaimAnswer.splits)
  show ?thesis
    unfolding greetBody_def Let_def
    by (intro yields_intros)
      (auto simp: ok visit_step_same same visitMove_def intro!: updateVisit_step [OF ok])
qed

lemma acceptVisitBody_visit: "visits_ok s \<Longrightarrow> yields (acceptVisitBody e tenant user vid n s) (visit_step s)"
  unfolding acceptVisitBody_def Let_def
  by (intro yields_intros) (auto simp: visit_step_same visitMove_def intro!: updateVisit_step)

lemma releaseWithin_visits [simp]: "showroom_visits (releaseWithin tenant r p s) = showroom_visits s"
  by (simp add: releaseWithin_def split: option.split)

lemma departBody_visit: "visits_ok s \<Longrightarrow> yields (departBody e tenant user vid n note s) (visit_step s)"
  unfolding departBody_def Let_def
  by (intro yields_intros) (auto simp: visit_step_same visitMove_def intro!: updateVisit_step)

lemma visit_transaction: "visits_ok s \<Longrightarrow> yields (body s) (visit_step s) \<Longrightarrow> visit_step s (snd (withTenantTransaction body s))"
  by (rule yields_transaction) (simp_all add: visit_step_same)

lemma sales_exec_visits:
  assumes "visits_ok s" "sales_fresh e s"
  shows "visit_step s (sales_exec e tenant user q s)"
proof (cases "S_visits \<in> sales_writes q")
  case True
  then show ?thesis
    using assms by (cases q)
      (auto simp: checkInVisit_def greetVisit_def acceptVisit_def departVisit_def
        intro!: visit_transaction checkInWithin_visit greetBody_visit acceptVisitBody_visit departBody_visit)
next
  case False
  then show ?thesis using sales_exec_frame [of q s e tenant user] by (intro visit_step_same assms) (simp add: sframe_def)
qed

interpretation visits: traced visits_ok visitsMove
proof
  fix s s' s1 s2 s3 e tenant user q
  show "visits_ok (sales_exec e tenant user q s)" "visitsMove s (sales_exec e tenant user q s)" if "visits_ok s" "sales_fresh e s"
    using sales_exec_visits [OF that] unfolding visit_step_def by blast+
  show "visits_ok s'" if "visits_ok s" "sameSales s s'" using that by (simp add: visits_ok_def sameSales_def)
  show "visitsMove s1 s3" if "visitsMove s1 s2" "visitsMove s2 s3" using that by (rule visitsMove_trans)
  show "visitsMove s s'" if "sameSales s s'" unfolding visitsMove_def using that visitMove_refl by (metis sameSales_def)
qed

lemma sales_initial_places: "sales_initial s \<Longrightarrow> demos_ok s \<and> visits_ok s"
  by (simp add: sales_initial_def demos_ok_def visits_ok_def)

end
