(* ===== verification/SalesCrm.thy ===== *)
theory SalesCrm
  imports SalesFrames
begin

text \<open>
  Sales and the CRM in one database: whatever the sales floor does, what happens to the CRM's own
  tables is a run of CRM commands, so that everything \<open>CrmPromises\<close> states of such runs holds of
  the two together.  Sales itself writes the audit trail, the outbox and the desk's facts, which
  the CRM's runs allow other packages, and marks appointments kept through the CRM's own service.
\<close>

section \<open>The tables that are only the CRM's\<close>

definition crmBody :: "crm_db \<Rightarrow> desk_db \<Rightarrow> crm_db" where
  "crmBody c = (\<lambda>d. c\<lparr>desk := d, outbox := []\<rparr>)"

definition aside :: "sales_db \<Rightarrow> sales_db \<Rightarrow> bool" where
  "aside s s' = (crmBody (crm s') = crmBody (crm s))"

lemma crmBody_writes [simp]: "crmBody (c\<lparr>desk := d\<rparr>) = crmBody c" "crmBody (c\<lparr>outbox := ob\<rparr>) = crmBody c"
  by (simp_all add: crmBody_def)

lemma aside_same [simp]: "crm s' = crm s \<Longrightarrow> aside s s'"
  by (simp add: aside_def)

lemma crm_recorded [simp]: "crmBody (crm (recorded a b c d x s)) = crmBody (crm s)"
  by (simp add: recorded_def audited_def)

lemma aside_recorded [simp]: "aside s (recorded a b c d x s') = aside s s'"
  by (simp add: aside_def)

lemma history_crm [simp]:
  "crm (assignmentRow a b from to why nt x s) = crm s" "crm (updateOpportunity a b n f s) = crm s"
  "crm (stageEvent a b from' to' d nt x s) = crm s" "crm (takeTurnOf e a b r s) = crm s" "crm (releaseWithin a b p s) = crm s"
  by (simp_all add: assignmentRow_def updateOpportunity_def stageEvent_def takeTurnOf_def releaseWithin_def split: option.split)

lemma vehicle_lines_crm: "crm (fold (\<lambda>v. recordVehicleEvent tenant oid (f v) (g v) a b c d actor) vs s) = crm s"
  by (induction vs arbitrary: s) simp_all

lemma vehicles_crm [simp]: "crm (standDown a b c d s) = crm s" "crm (markDriven a b k d s) = crm s"
  by (simp_all add: standDown_def markDriven_def vehicle_lines_crm vehicle_lines_crm [where g = "\<lambda>_. k"])

lemma aside_transaction: "yields (body s) (aside s) \<Longrightarrow> aside s (snd (withTenantTransaction body s))"
  by (rule yields_transaction) simp_all

section \<open>Commands that stay aside\<close>

lemma pipeline_aside:
  "yields (receiveHandoffWithin e tenant user hid s) (aside s)" "yields (openWalkInWithin e tenant user r p k s) (aside s)"
  "yields (acceptBody e tenant user oid n s) (aside s)" "yields (assignOpportunityBody e tenant user oid n to why nt s) (aside s)"
  unfolding receiveHandoffWithin_def openWalkInWithin_def acceptBody_def assignOpportunityBody_def Let_def
  by (intro yields_intros; simp split: option.split)+

lemma moveStageBody_aside: "yields (moveStageBody e tenant user oid st n d nt s) (aside s)"
proof -
  have "yields (handToDesk e tenant actor r s1) (aside s1)" for actor r s1
    unfolding handToDesk_def Let_def by (intro yields_intros) (simp add: aside_def enqueueAdminOutboxEvent_def)
  then have fact: "aside s s2" if "handToDesk e tenant actor r s1 = Inr (hid, s2)" "crm s1 = crm s" for actor r s1 hid s2
    using that by (metis aside_def yieldsD)
  have "yields (writeMove e tenant actor oid n cur st d' nt s) (aside s)" for actor cur d'
    unfolding writeMove_def Let_def by (intro yields_intros) (auto dest: fact)
  then show ?thesis unfolding moveStageBody_def Let_def by (intro yields_intros) simp_all
qed

lemma floor_aside:
  "yields (joinFloorWithin e tenant user r p s) (aside s)" "yields (releaseBody e tenant user r p s) (aside s)"
  "yields (acceptVisitBody e tenant user vid n s) (aside s)" "yields (departBody e tenant user vid n nt s) (aside s)"
  unfolding joinFloorWithin_def releaseBody_def acceptVisitBody_def departBody_def updateVisit_def Let_def
  by (intro yields_intros; auto)+

lemma greetBody_aside: "yields (greetBody e tenant user vid n named s) (aside s)"
proof -
  have "crm s1 = crm s" if "greeterFor e tenant r named s = (a, s1)" for r a s1
    using that by (auto simp: greeterFor_def takeNextTurnWithin_def claimNamedTurnWithin_def
        split: option.splits if_splits prod.splits ClaimAnswer.splits)
  then show ?thesis unfolding greetBody_def updateVisit_def Let_def by (intro yields_intros) auto
qed

lemma deal_aside:
  "yields (shortlistVehicleWithin e tenant user oid k m s) (aside s)" "yields (vehicleStatusBody tenant user oid vid n st why s) (aside s)"
  "yields (issueDemonstrationWithin e tenant user oid i s) (aside s)" "yields (logSalesActivityWithin e tenant user oid yi s) (aside s)"
  "yields (closeSalesBody e tenant user oid aid n st' why nt s) (aside s)" "yields (roundBody e tenant user oid who txt mgr out s) (aside s)"
  "yields (turnoverBody e tenant user oid mg why' vis nt s) (aside s)"
  unfolding shortlistVehicleWithin_def vehicleStatusBody_def writeVehicleStatus_def issueDemonstrationWithin_def
    logSalesActivityWithin_def writeSalesActivity_def closeSalesBody_def roundBody_def turnoverBody_def Let_def
  by (intro yields_intros; auto split: option.split)+

lemma drives_aside:
  "aside s (snd (startDemonstration e tenant user oid did n s))" "aside s (snd (returnDemonstration e tenant user oid did n ans notes s))"
  "aside s (snd (cancelDemonstration e tenant user oid did n why s))"
  "aside s (snd (recordDemonstrationException e tenant user oid did n kind notes s))"
  unfolding startDemonstration_def returnDemonstration_def cancelDemonstration_def recordDemonstrationException_def updateDemo_def
  by (intro aside_transaction demoGate_yields yields_intros; auto)+

lemma sales_exec_aside:
  assumes "\<And>r p oid aid. q \<noteq> CheckIn r p oid aid"
  shows "aside s (sales_exec e tenant user q s)"
  using assms
  by (cases q)
    (auto simp: receiveHandoff_def openWalkIn_def acceptOpportunity_def assignOpportunity_def moveOpportunityStage_def
      joinFloor_def releaseToFloor_def greetVisit_def acceptVisit_def departVisit_def shortlistVehicle_def
      setVehicleStatus_def issueDemonstration_def logSalesActivity_def closeSalesActivity_def recordNegotiationRound_def
      recordTurnover_def drives_aside Let_def split: option.split
      intro!: aside_transaction pipeline_aside moveStageBody_aside floor_aside greetBody_aside deal_aside)

section \<open>Runs of the CRM\<close>

definition crmGoes :: "crm_db \<Rightarrow> crm_db \<Rightarrow> bool" where
  "crmGoes c c' = (\<exists>msgs. crm_run c msgs c')"

lemma crmGoes_trans: "crmGoes c1 c2 \<Longrightarrow> crmGoes c2 c3 \<Longrightarrow> crmGoes c1 c3"
  unfolding crmGoes_def using crm_run_trans by blast

lemma crmGoes_outside: "crmGoes c (c\<lparr>desk := d, stock_items := ks, vehicle_ids := vs, outbox := ob\<rparr>)"
  unfolding crmGoes_def using run_outside [OF run_none] by blast

lemma aside_goes:
  assumes "aside s s'"
  shows "crmGoes (crm s) (crm s')"
proof -
  have "(crm s')\<lparr>desk := d, outbox := []\<rparr> = (crm s)\<lparr>desk := d, outbox := []\<rparr>" for d
    using assms by (simp add: aside_def crmBody_def fun_eq_iff)
  then have "crm s' = (crm s)\<lparr>desk := desk (crm s'), stock_items := stock_items (crm s), vehicle_ids := vehicle_ids (crm s), outbox := outbox (crm s')\<rparr>"
    by (cases "crm s", cases "crm s'") simp
  then show ?thesis using crmGoes_outside by metis
qed

lemma keepAppointment_goes:
  assumes "crm_fresh e (crm s)" "keepAppointment e tenant actor r p aid s = Inr (x, s1)"
  shows "crmGoes (crm s) (crm s1)"
proof -
  have step: "crmGoes (crm s) c" if "setAppointmentStateWithin e tenant actor aid n st why (crm s) = Inr (v, c)" for n st why v c
  proof -
    have "crm_exec e tenant actor (SetAppointmentState aid n st why) (crm s) = ([], c)"
      by (simp add: setAppointmentState_def withTenantTransaction_def that)
    then show ?thesis unfolding crmGoes_def using run_call [OF run_none assms(1)] by (metis snd_conv)
  qed
  have "crmGoes (crm s) (crm s)" unfolding crmGoes_def using run_none by blast
  then show ?thesis
    using assms(2) by (auto simp: keepAppointment_def split: option.splits if_splits dest: step)
qed

lemma checkInVisit_goes:
  assumes "crm_fresh e (crm s)"
  shows "crmGoes (crm s) (crm (snd (checkInVisit e tenant user r p oid aid s)))"
proof -
  have arrive: "aside s1 (snd (writeArrival e tenant actor r p oid aid s1))" for actor aid s1
    by (simp add: writeArrival_def Let_def)
  have w: "yields (Inr (writeArrival e tenant actor r p oid aid s1)) (\<lambda>s'. crmGoes (crm s) (crm s'))" if "crmGoes (crm s) (crm s1)"
    for actor aid s1
    using crmGoes_trans [OF that aside_goes [OF arrive [of s1 actor aid]]] by (auto simp: yields_def dest: arg_cong [where f = snd])
  have id: "crmGoes (crm s) (crm s)" unfolding crmGoes_def using run_none by blast
  have "yields (checkInWithin e tenant user r p oid aid s) (\<lambda>s'. crmGoes (crm s) (crm s'))"
    unfolding checkInWithin_def
    by (intro yields_intros) (auto simp: id w dest: keepAppointment_goes [OF assms])
  then show ?thesis unfolding checkInVisit_def by (rule yields_transaction [where Q = "\<lambda>s'. crmGoes (crm s) (crm s')", OF id])
qed

lemma sales_run_goes: "sales_run s s' \<Longrightarrow> crmGoes (crm s) (crm s')"
proof (induction rule: sales_run.induct)
  case (run_start s)
  show ?case unfolding crmGoes_def using run_none by blast
next
  case (run_sales s s1 e tenant user q)
  then have fresh: "crm_fresh e (crm s1)" by (simp add: sales_fresh_def)
  have "crmGoes (crm s1) (crm (sales_exec e tenant user q s1))"
  proof (cases "\<exists>r p oid aid. q = CheckIn r p oid aid")
    case True
    then show ?thesis using checkInVisit_goes [OF fresh] by auto
  next
    case False
    then show ?thesis by (intro aside_goes sales_exec_aside) auto
  qed
  then show ?case using run_sales.IH crmGoes_trans by blast
next
  case (run_crm s s1 e tenant user q)
  have "crmGoes (crm s1) (snd (crm_exec e tenant user q (crm s1)))"
    unfolding crmGoes_def using run_call [OF run_none run_crm.hyps(2)] by blast
  then show ?case using run_crm.IH crmGoes_trans by (auto simp: onCrm_def)
next
  case (run_desk s s1 e tenant user q)
  have "aside s1 (onDesk (desk_exec e tenant user q) s1)" by (simp add: onDesk_def aside_def)
  then show ?case using run_desk.IH aside_goes crmGoes_trans by blast
next
  case (run_admin s s1 ks vs us rs bs)
  have "crm (administered ks vs us rs bs s1) =
      (crm s1)\<lparr>desk := desk (crm (administered ks vs us rs bs s1)), stock_items := ks, vehicle_ids := vs, outbox := outbox (crm s1)\<rparr>"
    by (cases "crm s1") (simp add: administered_def)
  then have "crmGoes (crm s1) (crm (administered ks vs us rs bs s1))" using crmGoes_outside by metis
  then show ?case using run_admin.IH crmGoes_trans by blast
qed

end
