(* ===== verification/SalesSamples.thy ===== *)
theory SalesSamples
  imports SalesPlaces SalesCrm CrmSamples
begin

text \<open>
  A showroom the witnesses run on: the sample dealership with one car on the lot and a manager
  whose authority reaches the rooftop, and scripts of commands of the CRM and of sales.
\<close>

abbreviation "crmCar \<equiv> ''car''"

definition salesDesk :: desk_db where
  "salesDesk = crmDesk\<lparr>role_bindings := [\<lparr>rb_tenant = Some crmTenant, rb_user = crmUser, rb_role = ''sales_manager'',
     rb_level = SL_rooftop, rb_scope = Some crmRooftop, rb_active = True, rb_from = 0, rb_to = None\<rparr>]\<rparr>"

definition salesStart :: sales_db where
  "salesStart = \<lparr>crm = crmStart\<lparr>desk := salesDesk, stock_items := [\<lparr>sk_id = crmCar, sk_tenant = crmTenant, sk_rooftop = crmRooftop,
       sk_party = None, sk_retired = False\<rparr>]\<rparr>,
     opportunities = [], stage_moves = [], opportunity_assignments = [], floor_rotations = [], showroom_visits = [],
     visit_events = [], opportunity_vehicles = [], vehicle_events = [], demonstrations = [], demonstration_events = [],
     opportunity_activities = [], negotiation_rounds = [], manager_turnovers = []\<rparr>"

type_synonym sales_script = "(int \<times> (crm_request + sales_request)) list"

fun salesDoes :: "nat \<Rightarrow> int \<times> (crm_request + sales_request) \<Rightarrow> sales_db \<Rightarrow> sales_db" where
  "salesDoes n (t, Inl q) s = onCrm (\<lambda>c. snd (crm_exec (crmEnv n t) crmTenant crmUser q c)) s"
| "salesDoes n (t, Inr q) s = sales_exec (crmEnv n t) crmTenant crmUser q s"

fun runSales :: "sales_script \<Rightarrow> nat \<Rightarrow> sales_db \<Rightarrow> sales_db" where
  "runSales [] n s = s"
| "runSales (x # xs) n s = runSales xs (Suc n) (salesDoes n x s)"

definition freshHere :: "nat \<Rightarrow> sales_db \<Rightarrow> bool" where
  "freshHere n s =
     (freshFamily n (crm s) \<and> list_all (\<lambda>x. length (takeWhile (\<lambda>c. c = CHR ''a'') x) \<noteq> Suc n) (salesIds s))"

fun freshSales :: "sales_script \<Rightarrow> nat \<Rightarrow> sales_db \<Rightarrow> bool" where
  "freshSales [] n s = True"
| "freshSales (x # xs) n s = (freshHere n s \<and> freshSales xs (Suc n) (salesDoes n x s))"

lemma crmId_spelling: "pgUuid (crmId n k) = crmId n k"
proof -
  have "toLowerChar CHR ''a'' = CHR ''a''" "toLowerChar CHR ''b'' = CHR ''b''" by code_simp+
  then show ?thesis by (simp add: pgUuid_def crmId_def)
qed

lemma freshHere_fresh: "freshHere n s \<Longrightarrow> sales_fresh (crmEnv n t) s"
  using freshFamily_fresh crmId_family crmId_spelling
  by (auto simp: sales_fresh_def freshHere_def list_all_iff crmEnv_def)

lemma salesDoes_run:
  assumes "freshHere n s"
  shows "sales_run s (salesDoes n x s)"
proof -
  have "crm_fresh (crmEnv n t) (crm s)" for t using freshHere_fresh [OF assms] by (simp add: sales_fresh_def)
  then show ?thesis using freshHere_fresh [OF assms] by (cases "(n, x, s)" rule: salesDoes.cases) (auto intro: sales_run.intros)
qed

lemma runSales_run: "freshSales xs n s \<Longrightarrow> sales_run s (runSales xs n s)"
proof (induction xs arbitrary: n s)
  case (Cons x xs)
  then have "sales_run s (salesDoes n x s)" "sales_run (salesDoes n x s) (runSales xs (Suc n) (salesDoes n x s))"
    using salesDoes_run by simp_all
  then show ?case using sales_run_trans by simp
qed (simp add: run_start)

lemma runSales_append:
  "runSales (xs @ ys) n s = runSales ys (n + length xs) (runSales xs n s)"
  "freshSales (xs @ ys) n s = (freshSales xs n s \<and> freshSales ys (n + length xs) (runSales xs n s))"
  by (induction xs arbitrary: n s) simp_all

lemma script_step:
  assumes "k < length xs"
  shows "freshSales xs n s \<Longrightarrow> freshHere (n + k) (runSales (take k xs) n s)"
    "runSales (take (Suc k) xs) n s = salesDoes (n + k) (xs ! k) (runSales (take k xs) n s)"
proof -
  show "freshHere (n + k) (runSales (take k xs) n s)" if "freshSales xs n s"
    using that assms by (subst (asm) id_take_nth_drop [OF assms]) (simp add: runSales_append)
  show "runSales (take (Suc k) xs) n s = salesDoes (n + k) (xs ! k) (runSales (take k xs) n s)"
    using assms by (simp add: take_Suc_conv_app_nth runSales_append)
qed

lemma script_run: "freshSales xs n s \<Longrightarrow> sales_run s (runSales (take k xs) n s)"
  using runSales_append(2) [of "take k xs" "drop k xs" n s] by (intro runSales_run) simp

text \<open>One evaluation of a script settles that its identifiers are new and what holds before each command.\<close>

fun holdsAlong :: "(nat \<Rightarrow> sales_db \<Rightarrow> bool) \<Rightarrow> sales_script \<Rightarrow> nat \<Rightarrow> sales_db \<Rightarrow> bool" where
  "holdsAlong F [] n s = F n s"
| "holdsAlong F (x # xs) n s = (F n s \<and> freshHere n s \<and> holdsAlong F xs (Suc n) (salesDoes n x s))"

lemma holdsAlong_fresh: "holdsAlong F xs n s \<Longrightarrow> freshSales xs n s"
  by (induction xs arbitrary: n s) simp_all

lemma holdsAlong_at: "holdsAlong F xs n s \<Longrightarrow> k \<le> length xs \<Longrightarrow> F (n + k) (runSales (take k xs) n s)"
proof (induction xs arbitrary: n s k)
  case (Cons x xs)
  from Cons.prems Cons.IH [of "Suc n" "salesDoes n x s" "k - 1"] show ?case by (cases k) auto
qed simp

lemma salesStart_initial: "sales_initial salesStart"
  by (simp add: sales_initial_def salesStart_def salesDesk_def crmDesk_def)

section \<open>A walk-in buys a car\<close>

abbreviation "walkParty \<equiv> crmId 0 0"
abbreviation "walkDeal \<equiv> crmId 2 0"
abbreviation "walkVisit \<equiv> crmId 3 0"

definition keysFor :: issue_input where
  "keysFor = \<lparr>ii_stock = crmCar, ii_driver = walkParty, ii_licence = True, ii_escort = None, ii_visit = Some walkVisit\<rparr>"

definition walkScript :: sales_script where
  "walkScript = (morning, Inl (CreateParty ''person'' (customer ''A'' ''a@b'') False)) # map (\<lambda>q. (morning, Inr q))
     [JoinFloor crmRooftop crmUser, OpenWalkIn crmRooftop walkParty (Some crmCar),
      CheckIn crmRooftop walkParty (Some walkDeal) None, GreetVisit walkVisit 1 None, AcceptVisit walkVisit 2,
      ShortlistVehicle walkDeal crmCar None, IssueDemonstration walkDeal keysFor,
      StartDemonstration walkDeal (crmId 7 0) 1, ReturnDemonstration walkDeal (crmId 7 0) 2 ''interested'' None,
      SetVehicleStatus walkDeal (crmId 6 0) 2 ''selected'' None, MoveOpportunityStage walkDeal ''in_showroom'' 1 None None,
      MoveOpportunityStage walkDeal ''ready_for_desking'' 2 (Some ''committed_to_purchase'') None,
      DepartVisit walkVisit 3 None]"

definition walkAfter :: "nat \<Rightarrow> sales_db" where
  "walkAfter k = runSales (take k walkScript) 0 salesStart"

text \<open>What is so on the way: before the greeting, during the drive, when the deal is ready, and at the end.\<close>

definition waitsIn :: "sales_db \<Rightarrow> bool" where
  "waitsIn s =
     (actor_of crmUser (crm s) = Inr crmUser \<and> \<not> carOutOn crmTenant walkVisit s
      \<and> (case find (visitHere crmTenant walkVisit) (showroom_visits s) of
           Some v \<Rightarrow> vi_state v = VS_arrived \<and> vi_version v = 1 | None \<Rightarrow> False)
      \<and> (case greetVisit (crmEnv 4 morning) crmTenant crmUser walkVisit 1 None s of
           (Inr (GR_greeted _ u _), _) \<Rightarrow> u = crmUser | _ \<Rightarrow> False))"

definition drivesIn :: "sales_db \<Rightarrow> bool" where
  "drivesIn s = (case demonstrations s of [d] \<Rightarrow> dm_id d = crmId 7 0 \<and> keysOut d | _ \<Rightarrow> False)"

definition readyIn :: "sales_db \<Rightarrow> bool" where
  "readyIn s = (selectedStock crmTenant walkDeal s = Some crmCar
     \<and> (case opportunities s of
          [r] \<Rightarrow> op_id r = walkDeal \<and> op_tenant r = crmTenant \<and> op_stage r = OS_ready_for_desking | _ \<Rightarrow> False))"

definition goneIn :: "sales_db \<Rightarrow> bool" where
  "goneIn s = (case showroom_visits s of [v] \<Rightarrow> vi_id v = walkVisit \<and> vi_state v = VS_departed | _ \<Rightarrow> False)"

definition walkFacts :: "nat \<Rightarrow> sales_db \<Rightarrow> bool" where
  "walkFacts n s =
     (if n = 4 then waitsIn s else if n = 9 then drivesIn s else if n = 13 then readyIn s else if n = 14 then goneIn s else True)"

lemma walkScript_length: "length walkScript = 14"
  by (simp add: walkScript_def)

lemma walkScript_holds: "holdsAlong walkFacts walkScript 0 salesStart"
  by code_simp

lemmas walkScript_fresh = holdsAlong_fresh [OF walkScript_holds]

lemma walk_facts: "waitsIn (walkAfter 4)" "drivesIn (walkAfter 9)" "readyIn (walkAfter 13)" "goneIn (walkAfter 14)"
  using holdsAlong_at [OF walkScript_holds, of 4] holdsAlong_at [OF walkScript_holds, of 9]
    holdsAlong_at [OF walkScript_holds, of 13] holdsAlong_at [OF walkScript_holds, of 14]
  by (simp_all add: walkScript_length walkAfter_def walkFacts_def)

lemma walkAfter_run: "sales_run salesStart (walkAfter k)"
  unfolding walkAfter_def by (rule script_run [OF walkScript_fresh])

lemma walkAfter_later: "k \<le> 14 \<Longrightarrow> sales_run (walkAfter k) (walkAfter 14)"
proof -
  assume k: "k \<le> 14"
  with walkScript_length have "runSales (drop k walkScript) k (walkAfter k) = walkAfter 14" "freshSales (drop k walkScript) k (walkAfter k)"
    using walkScript_fresh runSales_append [of "take k walkScript" "drop k walkScript" 0 salesStart]
    by (simp_all add: walkAfter_def)
  with runSales_run show ?thesis by metis
qed

section \<open>A lead handed to sales\<close>

definition handScript :: sales_script where
  "handScript = map (\<lambda>q. (morning, Inl q)) [DefineLeadSource ''w'' ''W'' SC_web SM_organic, CaptureLead (interest ''k''),
       TransitionLead (crmId 1 1) ''working'' 1 None None, TransitionLead (crmId 1 1) ''qualified'' 2 None None,
       HandOffLead (crmId 1 1) 3 crmUser] @
     map (\<lambda>q. (morning, Inr q)) [ReceiveHandoff (crmId 4 0), MoveOpportunityStage (crmId 5 0) ''in_showroom'' 1 None None]"

definition handAfter :: "nat \<Rightarrow> sales_db" where
  "handAfter k = runSales (take k handScript) 0 salesStart"

definition receivesIn :: "sales_db \<Rightarrow> bool" where
  "receivesIn s =
     (case receiveHandoff (crmEnv 5 morning) crmTenant crmUser (crmId 4 0) s of
        (Inr (RV_received r), _) \<Rightarrow> op_id r = crmId 5 0 | _ \<Rightarrow> False)"

definition handFacts :: "nat \<Rightarrow> sales_db \<Rightarrow> bool" where
  "handFacts n s =
     (if n = 5 then receivesIn s else if n = 7 then actor_of crmUser (crm s) = Inr crmUser else True)"

lemma handScript_length: "length handScript = 7"
  by (simp add: handScript_def)

lemma handScript_holds: "holdsAlong handFacts handScript 0 salesStart"
  by code_simp

lemmas handScript_fresh = holdsAlong_fresh [OF handScript_holds]

lemma hand_facts: "receivesIn (handAfter 5)" "actor_of crmUser (crm (handAfter 7)) = Inr crmUser"
  using holdsAlong_at [OF handScript_holds, of 5] holdsAlong_at [OF handScript_holds, of 7]
  by (simp_all add: handScript_length handAfter_def handFacts_def)

lemma hand_runs:
  "sales_run salesStart (handAfter 5)" "freshHere 5 (handAfter 5)" "sales_run (handAfter 6) (handAfter 7)"
  "snd (receiveHandoff (crmEnv 5 morning) crmTenant crmUser (crmId 4 0) (handAfter 5)) = handAfter 6"
proof -
  show "sales_run salesStart (handAfter 5)" unfolding handAfter_def by (rule script_run [OF handScript_fresh])
  have fresh: "freshHere 5 (handAfter 5)" "freshHere 6 (handAfter 6)"
    using script_step(1) [OF _ handScript_fresh, of 5] script_step(1) [OF _ handScript_fresh, of 6]
    by (simp_all add: handScript_length handAfter_def)
  then show "freshHere 5 (handAfter 5)" by blast
  have next_ones: "handAfter 6 = salesDoes 5 (handScript ! 5) (handAfter 5)" "handAfter 7 = salesDoes 6 (handScript ! 6) (handAfter 6)"
    using script_step(2) [of 5 handScript 0 salesStart] script_step(2) [of 6 handScript 0 salesStart]
    by (simp_all add: handScript_length handAfter_def)
  then show "sales_run (handAfter 6) (handAfter 7)" using salesDoes_run [OF fresh(2)] by metis
  have "handScript ! 5 = (morning, Inr (ReceiveHandoff (crmId 4 0)))" by (simp add: handScript_def)
  with next_ones(1) show "snd (receiveHandoff (crmEnv 5 morning) crmTenant crmUser (crmId 4 0) (handAfter 5)) = handAfter 6" by simp
qed

end
