(* ===== verification/SalesPromises.thy ===== *)
theory SalesPromises
  imports SalesSamples
begin

text \<open>
  What the sales floor promises over any history of its own commands and of those of the CRM, the
  desk and administration beside it, each promise applied to the sample showroom.
\<close>

lemma floor_ok:
  assumes "sales_initial s0" "sales_run s0 s"
  shows "pipeline_ok s" "vehicles_ok s" "demos_ok s" "visits_ok s"
  using pipeline.run_keeps [OF assms(2)] drives.run_keeps [OF assms(2)] visits.run_keeps [OF assms(2)]
    sales_initial_ok [OF assms(1)] sales_initial_places [OF assms(1)] by blast+

lemma later_moves:
  assumes "sales_initial s0" "sales_run s0 s" "sales_run s s'"
  shows "pipeMove s s'" "noNewWork s s'" "demosMove s s'" "visitsMove s s'"
  using pipeline.run_traces [OF assms(3)] drives.run_traces [OF assms(3)] visits.run_traces [OF assms(3)]
    floor_ok [OF assms(1,2)] by (auto simp: workMove_def)

lemma find_of_member: "x \<in> set xs \<Longrightarrow> P x \<Longrightarrow> (\<And>y. y \<in> set xs \<Longrightarrow> P y \<Longrightarrow> y = x) \<Longrightarrow> find P xs = Some x"
  by (metis find_None_iff find_SomeD not_None_eq)

section \<open>The fact handed to the desk\<close>

text \<open>
  C7. Exactly once: over any history, an opportunity that is ready for desking has one fact on the
  desk, which names its rooftop, its customer and the car it has selected; one that is not ready
  has none; and there is no fact without its ready opportunity.
\<close>

theorem desked_exactly_once:
  assumes "sales_initial s0" "sales_run s0 s"
  shows "(\<forall>r \<in> set (opportunities s).
      if op_stage r = OS_ready_for_desking
      then \<exists>h. factsOf (op_tenant r, op_id r) s = [h] \<and> dh_rooftop h = op_rooftop r \<and> dh_party h = op_party r
             \<and> dh_stock h = selectedStock (op_tenant r) (op_id r) s
      else factsOf (op_tenant r, op_id r) s = [])
    \<and> (\<forall>h \<in> set (handoffs (desk (crm s))). \<exists>r \<in> set (opportunities s).
         op_tenant r = dh_tenant h \<and> op_id r = dh_opportunity h \<and> op_stage r = OS_ready_for_desking)"
proof (intro conjI ballI)
  note ok = floor_ok(1) [OF assms]
  have facts: "if op_stage r = OS_ready_for_desking
      then \<exists>h. factsOf (op_tenant r, op_id r) s = [h] \<and> dh_rooftop h = op_rooftop r \<and> dh_party h = op_party r
             \<and> dh_stock h = selectedStock (op_tenant r) (op_id r) s
      else factsOf (op_tenant r, op_id r) s = []" if "r \<in> set (opportunities s)" for r
    using pipeline_row [OF ok that] by (auto simp: explained_def factFits_def carOf_def selectedStock_def keyOf_def)
  then show "if op_stage r = OS_ready_for_desking
      then \<exists>h. factsOf (op_tenant r, op_id r) s = [h] \<and> dh_rooftop h = op_rooftop r \<and> dh_party h = op_party r
             \<and> dh_stock h = selectedStock (op_tenant r) (op_id r) s
      else factsOf (op_tenant r, op_id r) s = []" if "r \<in> set (opportunities s)" for r using that .
  fix h assume h: "h \<in> set (handoffs (desk (crm s)))"
  with ok obtain r where r: "r \<in> set (opportunities s)" "op_tenant r = dh_tenant h" "op_id r = dh_opportunity h"
    by (auto simp: pipeline_ok_def keyOf_def)
  with h have "factsOf (op_tenant r, op_id r) s \<noteq> []" by (auto simp: factsOf_def filter_empty_conv)
  with facts [OF r(1)] r show "\<exists>r \<in> set (opportunities s).
      op_tenant r = dh_tenant h \<and> op_id r = dh_opportunity h \<and> op_stage r = OS_ready_for_desking" by metis
qed

theorem desked_exactly_once_witness:
  "\<exists>h. factsOf (crmTenant, walkDeal) (walkAfter 13) = [h] \<and> dh_stock h = Some crmCar"
  using desked_exactly_once [OF salesStart_initial walkAfter_run [of 13]] walk_facts(3)
  by (auto simp: readyIn_def split: list.splits)

text \<open>
  C10. A concluded opportunity is final: once it is ready for desking or lost, every later store
  holds the very same row under its id, and no car, drive, activity, negotiation round or
  turnover is added to it.
\<close>

theorem concluded_frozen:
  assumes "sales_initial s0" "sales_run s0 s" "r \<in> set (opportunities s)" "op_stage r \<in> set TERMINAL_STAGES" "sales_run s s'"
  shows "r \<in> set (opportunities s') \<and> (\<forall>r' \<in> set (opportunities s'). op_id r' = op_id r \<longrightarrow> r' = r)
    \<and> childrenOf (keyOf r) s' = childrenOf (keyOf r) s"
proof -
  have "r \<in> set (opportunities s')" using later_moves(1) [OF assms(1,2,5)] assms(3,4) by (rule concluded_stays)
  moreover have "pipeline_ok s'" using floor_ok(1) [OF assms(1) sales_run_trans [OF assms(5,2)]] .
  moreover have "childrenOf (keyOf r) s' = childrenOf (keyOf r) s"
    using later_moves(2) [OF assms(1,2,5)] assms(3,4) by (simp add: noNewWork_def)
  ultimately show ?thesis using pipeline_id by blast
qed

theorem concluded_frozen_witness: "hd (opportunities (walkAfter 13)) \<in> set (opportunities (walkAfter 14))"
proof -
  have "hd (opportunities (walkAfter 13)) \<in> set (opportunities (walkAfter 13))"
    "op_stage (hd (opportunities (walkAfter 13))) \<in> set TERMINAL_STAGES"
    using walk_facts(3) by (auto simp: readyIn_def TERMINAL_STAGES_def split: list.splits)
  from concluded_frozen [OF salesStart_initial walkAfter_run this walkAfter_later] show ?thesis by simp
qed

section \<open>The pipeline\<close>

text \<open>
  C17. The history explains the row: over any history, the recorded moves of an opportunity lead
  from \<open>received\<close> to the stage it is in by legal transitions, the recorded assignments lead from
  nobody to the person who owns it, and it carries a disposition exactly when it is concluded,
  the one of a sale when it is ready for desking and one of a loss when it is lost.
\<close>

theorem history_explains_stage:
  assumes "sales_initial s0" "sales_run s0 s" "r \<in> set (opportunities s)"
  shows "legalPath OS_received (movesOf (keyOf r) s) (op_stage r) \<and> ownedThrough None (ownersOf (keyOf r) s) (op_owner r)
    \<and> dispositionFits (op_stage r) (op_disposition r)"
  using pipeline_row [OF floor_ok(1) [OF assms(1,2)] assms(3)] by (simp add: explained_def)

theorem history_explains_stage_witness:
  "legalPath OS_received (movesOf (crmTenant, walkDeal) (walkAfter 13)) OS_ready_for_desking"
proof -
  have r: "hd (opportunities (walkAfter 13)) \<in> set (opportunities (walkAfter 13))"
    "keyOf (hd (opportunities (walkAfter 13))) = (crmTenant, walkDeal)"
    "op_stage (hd (opportunities (walkAfter 13))) = OS_ready_for_desking"
    using walk_facts(3) by (auto simp: readyIn_def keyOf_def split: list.splits)
  from history_explains_stage [OF salesStart_initial walkAfter_run r(1)] show ?thesis by (simp add: r(2,3))
qed

lemma received_row:
  assumes "receiveHandoff e tenant user hid s = (Inr (RV_received r), s1)"
  shows "r \<in> set (opportunities s1)" "op_tenant r = tenant" "op_handoff r = Some (pgUuid hid)"
  using assms
  by (auto simp: receiveHandoff_def withTenantTransaction_ok receiveHandoffWithin_def receivedRow_def Let_def assignmentRow_def
      split: option.splits if_splits)

text \<open>
  C12. A handoff becomes one opportunity: after it was received, whatever happens, receiving it
  again, by whoever the database knows, answers with the same opportunity and changes nothing.
\<close>

theorem handoff_received_once:
  assumes "sales_initial s0" "sales_run s0 s" "sales_fresh e s"
    and "receiveHandoff e tenant user hid s = (Inr (RV_received r), s1)" "sales_run s1 s'" "sales_actor user' s' = Inr actor"
  shows "\<exists>r'. receiveHandoff e' tenant user' hid s' = (Inr (RV_already_received r'), s') \<and> op_id r' = op_id r"
proof -
  have s1: "sales_run s0 s1" using run_sales [OF assms(2,3), of tenant user "ReceiveHandoff hid"] assms(4) by simp
  have ok: "pipeline_ok s'" using floor_ok(1) [OF assms(1) sales_run_trans [OF assms(5) s1]] .
  obtain r' where r': "r' \<in> set (opportunities s')" "opMove r r'"
    using later_moves(1) [OF assms(1) s1 assms(5)] received_row(1) [OF assms(4)] by (auto simp: pipeMove_def)
  then have same: "op_id r' = op_id r" "op_tenant r' = tenant" "op_handoff r' = Some (pgUuid hid)"
    using received_row(2,3) [OF assms(4)] by (simp_all add: opMove_def opSame_def)
  have "find (\<lambda>q. op_tenant q = tenant \<and> op_handoff q = Some (pgUuid hid)) (opportunities s') = Some r'"
  proof (rule find_of_member)
    show "q = r'" if "q \<in> set (opportunities s')" "op_tenant q = tenant \<and> op_handoff q = Some (pgUuid hid)" for q
      using ok that r'(1) same unfolding pipeline_ok_def competing_def by (metis option.distinct(1))
  qed (use r' same in auto)
  with assms(6) same(1) show ?thesis
    by (auto simp: receiveHandoff_def withTenantTransaction_ok receiveHandoffWithin_def)
qed

theorem handoff_received_once_witness:
  "\<exists>r'. receiveHandoff (crmEnv 7 night) crmTenant crmUser (crmId 4 0) (handAfter 7) = (Inr (RV_already_received r'), handAfter 7)
     \<and> op_id r' = crmId 5 0"
proof -
  obtain r where r: "receiveHandoff (crmEnv 5 morning) crmTenant crmUser (crmId 4 0) (handAfter 5) = (Inr (RV_received r), handAfter 6)"
    "op_id r = crmId 5 0"
    using hand_facts(1) hand_runs(4) by (auto simp: receivesIn_def split: prod.splits sum.splits ReceiveOutcome.splits)
  show ?thesis
    using handoff_received_once [OF salesStart_initial hand_runs(1) freshHere_fresh [OF hand_runs(2)] r(1) hand_runs(3)]
      hand_facts(2) r(2) by (simp add: sales_actor_def)
qed

section \<open>Cars, people and visits\<close>

text \<open>
  C11. One thing, one place: over any history, no two drives with the keys out share a car, a
  driver or an accompanying salesperson, nobody ever drove without the licence checked, and a
  drive that is over is never written again.
\<close>

theorem one_car_one_place:
  assumes "sales_initial s0" "sales_run s0 s" "sales_run s s'" "d \<in> set (demonstrations s)"
  shows "dm_licence d \<and> (\<not> keysOut d \<longrightarrow> d \<in> set (demonstrations s'))
    \<and> (\<forall>d' \<in> set (demonstrations s). d' \<noteq> d \<and> dm_tenant d' = dm_tenant d \<and> keysOut d \<and> keysOut d' \<longrightarrow>
         dm_stock d' \<noteq> dm_stock d \<and> dm_driver d' \<noteq> dm_driver d \<and> dm_escort d' \<noteq> dm_escort d)"
  using floor_ok(3) [OF assms(1,2)] later_moves(3) [OF assms(1-3)] assms(4)
  unfolding demos_ok_def driveClash_def demosMove_def driveMove_def by metis

theorem one_car_one_place_witness: "dm_licence (hd (demonstrations (walkAfter 9)))"
proof -
  have "hd (demonstrations (walkAfter 9)) \<in> set (demonstrations (walkAfter 9))"
    using walk_facts(2) by (auto simp: drivesIn_def split: list.splits)
  from one_car_one_place [OF salesStart_initial walkAfter_run walkAfter_later this] show ?thesis by simp
qed

text \<open>
  C18. One customer is in the building once: over any history, no two visits of a customer are
  open at a tenant, every visit row meets its CHECKs, and a visit that ended is never written
  again.
\<close>

theorem one_active_visit:
  assumes "sales_initial s0" "sales_run s0 s" "sales_run s s'" "v \<in> set (showroom_visits s)"
  shows "visitRowOk v \<and> (vi_state v = VS_departed \<longrightarrow> v \<in> set (showroom_visits s'))
    \<and> (\<forall>w \<in> set (showroom_visits s). vi_tenant w = vi_tenant v \<and> vi_party w = vi_party v \<and> vi_state v \<noteq> VS_departed
         \<and> vi_state w \<noteq> VS_departed \<longrightarrow> w = v)"
  using floor_ok(4) [OF assms(1,2)] later_moves(4) [OF assms(1-3)] assms(4)
  unfolding visits_ok_def twiceHere_def visitsMove_def visitMove_def by metis

theorem one_active_visit_witness: "visitRowOk (hd (showroom_visits (walkAfter 14)))"
proof -
  have "hd (showroom_visits (walkAfter 14)) \<in> set (showroom_visits (walkAfter 14))"
    using walk_facts(4) by (auto simp: goneIn_def split: list.splits)
  from one_active_visit [OF salesStart_initial walkAfter_run walkAfter_later this] show ?thesis by simp
qed

lemma fold_max_upper: "(x::int) \<in> set (p # ps) \<Longrightarrow> x \<le> fold max ps p"
  by (metis List.finite_set Max.set_eq_fold Max_ge)

lemma backOfQueue_above: "x \<in> set (floor_rotations s) \<Longrightarrow> onFloor tenant r x \<Longrightarrow> fr_position x < backOfQueue tenant r s"
proof -
  assume x: "x \<in> set (floor_rotations s)" "onFloor tenant r x"
  let ?ps = "map fr_position (filter (onFloor tenant r) (floor_rotations s))"
  have mem: "fr_position x \<in> set ?ps" using x by simp
  then obtain p ps where ps: "?ps = p # ps" by (cases ?ps) (metis empty_iff list.set(1))
  then show ?thesis using fold_max_upper [OF mem [unfolded ps]] by (simp add: backOfQueue_def)
qed

lemma nextUp_least:
  assumes "nextUp tenant r s = Some x"
  shows "x \<in> set (floor_rotations s)" "onFloor tenant r x" "fr_status x = RT_available"
    "\<And>y. y \<in> set (floor_rotations s) \<Longrightarrow> onFloor tenant r y \<Longrightarrow> fr_status y = RT_available \<Longrightarrow> fr_position x \<le> fr_position y"
proof -
  let ?free = "filter (\<lambda>r'. onFloor tenant r r' \<and> fr_status r' = RT_available) (floor_rotations s)"
  obtain rest where sorted: "sort_key fr_position ?free = x # rest" using assms by (auto simp: nextUp_def split: list.splits)
  then have members: "set ?free = set (x # rest)" by (metis set_sort)
  then have "x \<in> set ?free" by simp
  then show "x \<in> set (floor_rotations s)" "onFloor tenant r x" "fr_status x = RT_available" by simp_all
  fix y assume "y \<in> set (floor_rotations s)" "onFloor tenant r y" "fr_status y = RT_available"
  then have "y \<in> set (x # rest)" using members by auto
  moreover have "sorted (map fr_position (x # rest))" using sorted by (metis sorted_sort_key)
  ultimately show "fr_position x \<le> fr_position y" by auto
qed

lemma greeted_by:
  assumes "greetVisit e tenant user vid n None s = (Inr (GR_greeted v u fromFloor), s')"
  shows "\<exists>s1. greeterFor e tenant (vi_rooftop v) None s = (Inr u, s1) \<and> vi_greeted_by v = Some (pgUuid u) \<and> fromFloor
    \<and> floor_rotations s' = floor_rotations s1"
proof -
  have body: "greetBody e tenant user vid n None s = Inr (GR_greeted v u fromFloor, s')"
    using assms by (simp add: greetVisit_def withTenantTransaction_ok)
  then obtain current where current: "find (visitHere tenant vid) (showroom_visits s) = Some current"
    by (auto simp: greetBody_def split: option.splits)
  obtain a s1 where greeter: "greeterFor e tenant (vi_rooftop current) None s = (a, s1)" by fastforce
  then have "a \<noteq> Inl (GR_greeted v u fromFloor)" by (auto simp: greeterFor_def split: option.splits prod.splits)
  with body show ?thesis
    by (cases a) (auto simp: greetBody_def current greeter updateVisit_def Let_def split: if_splits)
qed

text \<open>
  C19. Turns go round: when a visit is greeted off the floor, the greeter is an available person of
  the visit's rooftop whom no other available person precedes; they are then with the customer
  and behind everybody who was on that floor.
\<close>

theorem next_turn_goes_round:
  assumes "greetVisit e tenant user vid n None s = (Inr (GR_greeted v u fromFloor), s')"
  shows "fromFloor \<and> vi_greeted_by v = Some (pgUuid u)
    \<and> (\<exists>x \<in> set (floor_rotations s). onFloor tenant (vi_rooftop v) x \<and> fr_status x = RT_available \<and> fr_user x = u
        \<and> (\<forall>y \<in> set (floor_rotations s). onFloor tenant (vi_rooftop v) y \<and> fr_status y = RT_available \<longrightarrow>
              fr_position x \<le> fr_position y)
        \<and> (\<exists>x' \<in> set (floor_rotations s'). fr_id x' = fr_id x \<and> fr_user x' = u \<and> fr_status x' = RT_with_customer
              \<and> (\<forall>y \<in> set (floor_rotations s). onFloor tenant (vi_rooftop v) y \<longrightarrow> fr_position y < fr_position x')))"
proof -
  obtain s1 where greeter: "greeterFor e tenant (vi_rooftop v) None s = (Inr u, s1)"
    and v: "vi_greeted_by v = Some (pgUuid u)" "fromFloor"
    and s': "floor_rotations s' = floor_rotations s1"
    using greeted_by [OF assms] by metis
  obtain x where x: "nextUp tenant (vi_rooftop v) s = Some x" "fr_user x = u" "s1 = takeTurnOf e tenant (vi_rooftop v) x s"
    using greeter by (auto simp: greeterFor_def takeNextTurnWithin_def split: option.splits)
  note least = nextUp_least [OF x(1)]
  let ?turned = "tookTurn (clock e) (backOfQueue tenant (vi_rooftop v) s) x"
  have "?turned \<in> set (floor_rotations s')"
    using least(1,2) by (auto simp: s' x(3) takeTurnOf_def update_where_def onFloor_def)
  moreover have "fr_id ?turned = fr_id x" "fr_user ?turned = u" "fr_status ?turned = RT_with_customer"
    "fr_position ?turned = backOfQueue tenant (vi_rooftop v) s"
    using x(2) by (simp_all add: tookTurn_def)
  ultimately have "\<exists>x' \<in> set (floor_rotations s'). fr_id x' = fr_id x \<and> fr_user x' = u \<and> fr_status x' = RT_with_customer
      \<and> (\<forall>y \<in> set (floor_rotations s). onFloor tenant (vi_rooftop v) y \<longrightarrow> fr_position y < fr_position x')"
    using backOfQueue_above by metis
  with v least x(2) show ?thesis by blast
qed

theorem next_turn_goes_round_witness:
  "\<exists>v s'. greetVisit (crmEnv 4 morning) crmTenant crmUser walkVisit 1 None (walkAfter 4) = (Inr (GR_greeted v crmUser True), s')
     \<and> vi_greeted_by v = Some (pgUuid crmUser)"
proof -
  obtain v b s' where g: "greetVisit (crmEnv 4 morning) crmTenant crmUser walkVisit 1 None (walkAfter 4) =
      (Inr (GR_greeted v crmUser b), s')"
    using walk_facts(1) by (auto simp: waitsIn_def split: prod.splits sum.splits GreetOutcome.splits)
  from next_turn_goes_round [OF g] g show ?thesis by auto
qed

text \<open>
  C33. A customer nobody greeted cannot be signed out: whoever closes their visit, at the version
  it has and with no car out, meets the CHECK that a visit past \<open>arrived\<close> was greeted; the
  request fails as an error of the database and the visit stays open.
\<close>

theorem ungreeted_cannot_leave:
  assumes "sales_initial s0" "sales_run s0 s" "v \<in> set (showroom_visits s)" "vi_tenant v = tenant" "vi_id v = pgUuid vid"
    and "vi_state v = VS_arrived" "sales_actor user s = Inr actor" "\<not> carOutOn tenant vid s"
  shows "departVisit e tenant user vid (vi_version v) note s = (Inl check_violation, s)"
proof -
  note ok = floor_ok(4) [OF assms(1,2)]
  have "find (visitHere tenant vid) (showroom_visits s) = Some v"
  proof (rule find_of_member [OF assms(3)])
    show "w = v" if "w \<in> set (showroom_visits s)" "visitHere tenant vid w" for w
      using distinct_map_eq [of vi_id "showroom_visits s" w v] ok that assms(3,5) by (simp add: visits_ok_def visitHere_def)
  qed (use assms(4,5) in \<open>simp add: visitHere_def\<close>)
  moreover have "vi_greeted v = None" using ok assms(3,6) by (simp add: visits_ok_def)
  ultimately show ?thesis
    using assms(6-8) by (simp add: departVisit_def withTenantTransaction_def departBody_def updateVisit_def visitRowOk_def Let_def)
qed

theorem ungreeted_cannot_leave_witness:
  "departVisit (crmEnv 4 night) crmTenant crmUser walkVisit 1 None (walkAfter 4) = (Inl check_violation, walkAfter 4)"
proof -
  have out: "\<not> carOutOn crmTenant walkVisit (walkAfter 4)" "sales_actor crmUser (walkAfter 4) = Inr crmUser"
    using walk_facts(1) by (simp_all add: waitsIn_def sales_actor_def)
  obtain v where v: "v \<in> set (showroom_visits (walkAfter 4))" "vi_tenant v = crmTenant" "vi_id v = pgUuid walkVisit"
      "vi_state v = VS_arrived" "vi_version v = 1"
    using walk_facts(1) by (auto simp: waitsIn_def visitHere_def split: option.splits dest: find_SomeD)
  show ?thesis
    using ungreeted_cannot_leave [OF salesStart_initial walkAfter_run v(1-4) out(2,1)] v(5) by simp
qed

section \<open>Sales beside the CRM\<close>

text \<open>
  C20. Sales is a client of the CRM, never a second writer: whatever sales, the CRM, the desk and
  administration do on the one database, what becomes of the CRM's tables is a run of the CRM's
  own commands, so every promise over such runs stands.
\<close>

theorem sales_keeps_crm: "sales_run s s' \<Longrightarrow> \<exists>msgs. crm_run (crm s) msgs (crm s')"
  using sales_run_goes by (simp add: crmGoes_def)

theorem sales_keeps_crm_witness: "\<exists>msgs. crm_run (crm salesStart) msgs (crm (walkAfter 14))"
  by (rule sales_keeps_crm [OF walkAfter_run])

end
