(* ===== verification/Spec2Isabelle.thy ===== *)
theory Spec2Isabelle
  imports CockpitReach CockpitQueueInv CockpitLines CockpitPromises Vin DeskReference DeskPromises CrmPromises SalesPromises
begin

text \<open>
  A verification development for the dealership platform: the service cockpit of fixed
  operations, the CRM with the customer file, the sales floor, the desking package and the VIN
  rules of inventory.

  \<^bold>\<open>The program.\<close>  The platform is a set of TypeScript packages over one Postgres database,
  called by an HTTP API (\<open>src/apps/api\<close>) and a worker.  Four of them carry the logic modelled here.
  \<^item> Fixed operations (\<open>src/packages/fixed-ops\<close>): appointments and a waitlist, repair orders
    that move through a state machine, inspections, estimates, the customer's authorization,
    parts, sublets, dispatch of technicians and their time, comebacks, and a work queue that
    follows the order's status.  Sensitive transitions spend a step-up grant minted by
    \<open>src/packages/identity-access\<close>.
  \<^item> Desking (\<open>src/packages/desking\<close>): a sales handoff is opened as a desk file; tax, fee and
    incentive rules are recorded per jurisdiction and rooftop; versions of a deal are priced
    by an exact calculator on the rule book in force, submitted, and approved or rejected by
    a manager who names the version by the fingerprint of its figures.
  \<^item> CRM (\<open>src/packages/crm\<close>), with the customers of \<open>src/packages/inventory/src/parties.ts\<close>:
    leads are captured from sources, routed, worked, booked and handed to sales; campaigns are
    drafted, approved and launched to an audience; the worker delivers their messages through
    a provider, asking for permission again before each; credit for a lead is attributed to
    its touches.
  \<^item> Sales (\<open>src/packages/sales\<close>): a handed-off lead or a walk-in becomes an opportunity that moves
    through stages; customers arrive, are greeted in turn, taken on and leave; cars are
    shortlisted, driven and chosen; the opportunity ends lost, or ready for desking, which hands
    one fact to the desk.
  All are multi-tenant: every query carries a tenant.  The packages meet in the database: sales
  reads the CRM's handoffs and marks its appointments kept, and the desk opens its files on the
  facts sales wrote.

  \<^bold>\<open>Shared theories.\<close>
  \<^item> \<open>Prelude\<close>: results as sums, \<open>bindR\<close> and \<open>ensure\<close>, \<open>update_where\<close> for an UPDATE with its
    WHERE clause, the error classes of \<open>platform/src/errors.ts\<close> with their HTTP status.
  \<^item> \<open>JsValues\<close>: JSON request values (numbers are exact rationals with infinities and NaN,
    undefined and null apart), truthiness, UUID checks and the validators at the top of
    \<open>service-cockpit-service.ts\<close>; the environment record \<open>env\<close> with the clock, the drawn
    identifiers, the digest and the date parser as parameters.

  \<^bold>\<open>The service cockpit\<close>, in the order of \<open>service-cockpit-service.ts\<close>.
  \<^item> \<open>Lifecycle\<close>: \<open>domain/state-machine.ts\<close> and \<open>domain/authorization.ts\<close>.
  \<^item> \<open>CockpitDb\<close>: one record per table of migrations 049, 050, 054 and of the grants, the store
    \<open>db\<close>, \<open>withTransaction\<close>, audit and event rows, spending a grant, the \<open>assert\<close> helpers.
  \<^item> \<open>CockpitQueue\<close>, \<open>CockpitScheduling\<close>, \<open>CockpitOrders\<close>, \<open>CockpitEstimates\<close>,
    \<open>CockpitInspection\<close>, \<open>CockpitShop\<close>: one definition per command, with every guard and early
    return, and every row it writes.
  \<^item> \<open>CockpitService\<close>: the commands as one datatype \<open>svc_request\<close> with \<open>exec\<close>.
  \<^item> \<open>CockpitFrames\<close>, \<open>CockpitTenancy\<close>, \<open>CockpitIsolation\<close>: which tables a command leaves alone;
    that it reads and writes rows of its own tenant only (a locale of the transaction
    contract, interpreted on every command).
  \<^item> \<open>CockpitReach\<close>, \<open>CockpitQueueInv\<close>: the reachable stores; tenants cannot observe each
    other; an order is open in at most one queue item, that of its status after a transition.
  \<^item> \<open>CockpitLifecycle\<close>, \<open>CockpitLines\<close>: how any command moves the orders, the grants and the
    lines.
  \<^item> \<open>Samples\<close>, \<open>CockpitSamples\<close>: a shop driven from check-in to pickup, for the witnesses.
  \<^item> \<open>CockpitPromises\<close>: over every history no work is done on an order that was never
    authorized; it is authorized only on a recorded approval of the current estimate and by
    spending one grant; it is ready for pickup only when nothing is left to do, decide or
    charge unquoted; a grant is spent once.

  \<^bold>\<open>Inventory.\<close>  \<open>Vin\<close>: \<open>inventory/src/vin.ts\<close>; normalisation is canonical and idempotent, the check
  character catches every single misreading and every neighbouring swap that changes a value,
  the model year lies in its window.

  \<^bold>\<open>Desking.\<close>
  \<^item> \<open>DeskMoney\<close>, \<open>DeskCanon\<close>: \<open>money.ts\<close>.  Amounts are integers of cents, rates parts per million;
    rounding is to the nearest, ties away from zero; the payment covers the loan; text
    conversions round-trip; the canonical JSON text determines what was written and is
    determined by it, where an undefined entry of an object counts as absent.
  \<^item> \<open>DeskCalculator\<close>: \<open>calculator.ts\<close>; the figures are the sums of the lines, the fingerprint pins
    the figures, and exactly which inputs are refused.  \<open>DeskReference\<close>: for a book no two rules of
    which agree in kind, code and version the figures are sums over the rules whatever their
    order, and the lines come in the order of pass, kind, code and version.
  \<^item> \<open>DeskStore\<close>, \<open>DeskRules\<close>, \<open>DeskScenarios\<close>: the tables of migration 065 and of the actors and
    bindings they refer to, \<open>rules.ts\<close>, \<open>intake.ts\<close> and \<open>scenarios.ts\<close>, with the seam to sales.
  \<^item> \<open>Simulation\<close>, \<open>DeskLife\<close>: a locale for a step relation that implements an abstract one under
    an invariant, interpreted on the desk; the abstract desk has seven kinds of move.
  \<^item> \<open>DeskSamples\<close>, \<open>DeskPromises\<close>: the refinement, one standing approval per file, decisions that
    name their version, figures that never change, who may decide, what a refusal leaves, the
    rule book and what was priced with it.

  \<^bold>\<open>CRM and customers.\<close>
  \<^item> \<open>CrmStore\<close>: the tables of migrations 061 to 063 beside the desk's actors and audit trail; the
    environment \<open>crm_env\<close> adds the date parser, the wall clock of a zone and the provider.
  \<^item> \<open>Parties\<close>: \<open>parties.ts\<close>; \<open>CrmConsent\<close>: \<open>consent.ts\<close> and \<open>consent-records.ts\<close>; \<open>CrmLeads\<close>:
    \<open>sources.ts\<close>, \<open>leads.ts\<close> and the fingerprint of \<open>providers.ts\<close>; \<open>CrmRouting\<close>: \<open>routing.ts\<close> and
    \<open>activities.ts\<close>; \<open>CrmCampaigns\<close>: \<open>campaigns.ts\<close> and \<open>attribution.ts\<close>; \<open>CrmSends\<close>: \<open>sends.ts\<close>,
    the simulated provider and \<open>worker.ts\<close>.  What the provider was asked is returned beside the
    store: a transaction that rolls back does not take the message back.
  \<^item> \<open>CrmService\<close>: the commands as one datatype \<open>crm_request\<close> with \<open>crm_exec\<close>, the runs \<open>crm_run\<close> with
    the log of messages, and the locales \<open>kept\<close> (an invariant) and \<open>tracked\<close> (a relation to every
    later store); a run interleaves commands of any tenants with single dispatch transactions,
    with commands whose commit is lost (the store stays, the message is out), and with other
    packages changing their own tables.
  \<^item> \<open>CrmFrames\<close>: the judgement \<open>yields\<close> for a transaction body and which tables a command leaves
    alone.  \<open>CrmDelivery\<close>: sends, suppressions and the event of a delivery over any run.  \<open>CrmPass\<close>: a
    pass is a run; what one of less than a minute drains, by the database's clock or an instant
    handed in, since whatever it takes up is off the queue for at least a minute; when it returns;
    quiet hours, with clock changes; the failure after a deferral.  \<open>CrmPeople\<close>: customers.
    \<open>CrmLife\<close>: leads, intake keys, attribution.  Each interprets one of the two locales on the
    model's commands.
  \<^item> \<open>CrmSamples\<close>, \<open>CrmPromises\<close>: a dealership for the witnesses; nobody is contacted without
    permission or after an opt-out, a message is delivered at least once and counts once, a pass
    drains its queue, quiet hours end but for clock changes, a lead is open once, a finished lead is frozen, an intake key converges,
    contact values are not shared by accident, credits sum to the whole.

  \<^bold>\<open>Sales.\<close>
  \<^item> \<open>SalesStore\<close>: the tables of migration 064; the store \<open>sales_db\<close> holds the CRM's as its part \<open>crm\<close>,
    and through it the desk's.
  \<^item> \<open>SalesPipeline\<close>: \<open>opportunities.ts\<close> with the outbox event of \<open>admin-outbox.ts\<close>; \<open>SalesFloor\<close>:
    \<open>showroom.ts\<close>, whose check-in runs the CRM's \<open>setAppointmentStateWithin\<close>; \<open>SalesSelling\<close>:
    \<open>selling.ts\<close>.
  \<^item> \<open>SalesService\<close>: the twenty-two commands as one datatype with \<open>sales_exec\<close>, and the runs
    \<open>sales_run\<close>, in which they take turns with any command of the CRM and of the desk and with
    what administration and inventory write; the locales \<open>steady\<close> (an invariant) and \<open>traced\<close> (a
    relation to every later store).
  \<^item> \<open>SalesFrames\<close>: which tables a command leaves alone, and that the other packages leave those of
    sales alone.  \<open>SalesLife\<close>, \<open>SalesWork\<close>: opportunities, their histories, facts and children.
    \<open>SalesPlaces\<close>: drives and visits.  \<open>SalesCrm\<close>: what a run of all packages does to the CRM is a run
    of the CRM.
  \<^item> \<open>SalesSamples\<close>, \<open>SalesPromises\<close>: a showroom for the witnesses; a deal is desked exactly once and
    with the chosen car, a concluded one is frozen, the history explains the stage and the owner,
    a handoff is received once, a car, a driver and an escort are in one place, a customer is in
    the building once, turns go round, the CRM's promises stand beside sales, and a customer
    nobody greeted cannot be signed out.

  \<^bold>\<open>Conventions.\<close>  A command runs as one atomic transaction: the row and advisory locks of the
  code serialise commands that touch the same rows.  An error is a value, and an error inside a
  transaction leaves the store as it was.  A uniqueness or check violation of the database is
  the error \<open>DatabaseError\<close>; the triggers and unique indexes that only back up a check the code has
  already made are unreachable in the serial model and left out.  UUID columns hold the
  canonical spelling (\<open>pgUuid\<close>) and comparisons made in the database see it, comparisons made
  in JavaScript see the text.  Identifiers drawn by the code or generated by Postgres are
  parameters that theorems require to be fresh.  \<open>Date.parse\<close>, SHA-256, the clock, the printing of
  numbers and whether an audit insert succeeds are parameters too.  Strings are lists of 8-bit
  characters; bigints are \<open>int\<close>.  Row order is insertion order; \<open>created_at\<close> and \<open>updated_at\<close>
  are left out.  Line items and rule applications of a scenario are kept inside its row.
  Who created or last updated a row is left out, except in history rows.  No definition needs
  fuel: loops are over lists or count down (a dispatch pass by its limit, at most 200).
  In the CRM a value of a TypeScript union lies in that union, identifiers in requests are
  UUIDs, instants are milliseconds; texts of refusals are kept only where another command reads
  them, audit details not at all; rows that tie in an \<open>ORDER BY\<close> come in insertion order.  A
  dispatch transaction with its provider call is one atomic step, with two outcomes of its own:
  it commits, or its commit is lost after the provider answered (\<open>run_lost\<close>).
  The HTTP wrapper that replays idempotency keys is not modelled.
  In sales the columns \<open>deal_status\<close> and \<open>pricing_status\<close>, which a CHECK pins to one value, are left
  out; the branches behind an advisory lock that only a concurrent writer reaches have no case,
  nor has the refusal of a handoff snapshot that lacks fields the CRM always writes.

  \<^bold>\<open>Not modelled.\<close>  Reads, lists, reports and metrics; texts of messages and translations;
  appraisals, the jacket seam and the action registries; inventory (apart from VINs and
  customers), the deal jacket, the rest of identity and access (sessions, login, federation,
  policy administration, the minting of grants: a history starts with the grants it will
  have); transport, web client, the worker's process loop, repository scripts and tests.
\<close>

end
